(* ===== verification/Prelude.thy ===== *)
theory Prelude
  imports Main "HOL-Library.Word"
begin

text \<open>
  Shared vocabulary of the development: Rust's \<open>Result\<close> with panics, the early return
  of the question-mark operator, the order-preserving containers of the \<open>indexmap\<close>
  crate, bytes and instants of time, and the lemma collections the component theories
  use.
\<close>

named_theorems result_simps \<open>equations and inversions of the result combinators\<close>
named_theorems index_simps \<open>facts about index maps and index sets\<close>

section \<open>Results\<close>

text \<open>
  A call returns a value (\<open>Ok\<close>), returns an error (\<open>Err\<close>), or panics. A panic is
  a failed \<open>assert!\<close>, an \<open>unwrap()\<close> or \<open>expect()\<close> on the wrong variant, or a
  division by zero: it ends the request without a reply and without committing.
\<close>

datatype ('a, 'e) res = Ok 'a | Err 'e | Panic

text \<open>The question-mark operator, on pure results.\<close>

fun res_bind :: "('a, 'e) res \<Rightarrow> ('a \<Rightarrow> ('b, 'e) res) \<Rightarrow> ('b, 'e) res" where
  "res_bind (Ok a) f = f a"
| "res_bind (Err e) f = Err e"
| "res_bind Panic f = Panic"

fun map_err :: "('e \<Rightarrow> 'd) \<Rightarrow> ('a, 'e) res \<Rightarrow> ('a, 'd) res" where
  "map_err g (Ok a) = Ok a"
| "map_err g (Err e) = Err (g e)"
| "map_err g Panic = Panic"

definition ok_or :: "'a option \<Rightarrow> 'e \<Rightarrow> ('a, 'e) res" where
  "ok_or x e = (case x of None \<Rightarrow> Err e | Some a \<Rightarrow> Ok a)"

definition unwrap :: "'a option \<Rightarrow> ('a, 'e) res" where
  "unwrap x = (case x of None \<Rightarrow> Panic | Some a \<Rightarrow> Ok a)"

text \<open>Pure functions that return a value or panic: \<open>None\<close> is the panic.\<close>

definition rust_assert :: "bool \<Rightarrow> unit option" where
  "rust_assert b = (if b then Some () else None)"

text \<open>Collecting an iterator of results stops at the first failure.\<close>

fun res_map :: "('a \<Rightarrow> ('b, 'e) res) \<Rightarrow> 'a list \<Rightarrow> ('b list, 'e) res" where
  "res_map f [] = Ok []"
| "res_map f (x # xs) = res_bind (f x) (\<lambda>y. res_bind (res_map f xs) (\<lambda>ys. Ok (y # ys)))"

text \<open>
  The question-mark operator in a handler that owns a committed state: on an error or a
  panic the handler returns at once and the committed state stays as it is.
\<close>

fun attempt ::
  "('a, 'e) res \<Rightarrow> 's \<Rightarrow> ('a \<Rightarrow> ('b, 'e) res \<times> 's) \<Rightarrow> ('b, 'e) res \<times> 's" where
  "attempt (Ok a) s f = f a"
| "attempt (Err e) s f = (Err e, s)"
| "attempt Panic s f = (Panic, s)"

lemma ok_or_simps [simp, result_simps]:
  "ok_or None e = Err e" "ok_or (Some a) e = Ok a"
  by (simp_all add: ok_or_def)

lemma unwrap_simps [simp, result_simps]:
  "unwrap None = Panic" "unwrap (Some a) = Ok a"
  by (simp_all add: unwrap_def)

lemma ok_or_eq_Ok [result_simps]: "ok_or x e = Ok a \<longleftrightarrow> x = Some a"
  by (cases x) auto

lemma unwrap_eq_Ok [result_simps]: "unwrap x = Ok a \<longleftrightarrow> x = Some a"
  by (cases x) auto

lemma ok_or_not_Panic [simp]: "ok_or x e \<noteq> Panic"
  by (cases x) auto

lemma unwrap_not_Err [simp]: "unwrap x \<noteq> Err e"
  by (cases x) auto

lemma rust_assert_simps [simp, result_simps]:
  "rust_assert b = Some u \<longleftrightarrow> b"
  "rust_assert b = None \<longleftrightarrow> \<not> b"
  by (auto simp: rust_assert_def)

lemma res_bind_eq_Ok [result_simps]:
  "res_bind r f = Ok b \<longleftrightarrow> (\<exists>a. r = Ok a \<and> f a = Ok b)"
  by (cases r) auto

lemma res_bind_eq_Err [result_simps]:
  "res_bind r f = Err e \<longleftrightarrow> r = Err e \<or> (\<exists>a. r = Ok a \<and> f a = Err e)"
  by (cases r) auto

lemma res_bind_eq_Panic [result_simps]:
  "res_bind r f = Panic \<longleftrightarrow> r = Panic \<or> (\<exists>a. r = Ok a \<and> f a = Panic)"
  by (cases r) auto

lemma map_err_eq_Ok [simp, result_simps]: "map_err g r = Ok a \<longleftrightarrow> r = Ok a"
  by (cases r) auto

lemma map_err_eq_Err [simp, result_simps]:
  "map_err g r = Err d \<longleftrightarrow> (\<exists>e. r = Err e \<and> d = g e)"
  by (cases r) auto

lemma map_err_eq_Panic [simp, result_simps]: "map_err g r = Panic \<longleftrightarrow> r = Panic"
  by (cases r) auto

lemma attempt_cases:
  obtains (ok) a where "r = Ok a" "attempt r s f = f a"
  | (err) e where "r = Err e" "attempt r s f = (Err e, s)"
  | (panic) "r = Panic" "attempt r s f = (Panic, s)"
  by (cases r) auto

lemma attempt_Ok_iff [result_simps]:
  "attempt r s f = (Ok b, t) \<longleftrightarrow> (\<exists>a. r = Ok a \<and> f a = (Ok b, t))"
  by (cases r) auto

lemma case_attempt_Ok:
  "(case p of (r, w) \<Rightarrow> attempt r w (k w)) = (Ok x, w') \<longleftrightarrow> (\<exists>a w1. p = (Ok a, w1) \<and> k w1 a = (Ok x, w'))"
  by (cases p) (auto simp: attempt_Ok_iff)

lemma attempt_snd [result_simps]:
  "snd (attempt r s f) = (case r of Ok a \<Rightarrow> snd (f a) | _ \<Rightarrow> s)"
  by (cases r) auto

lemma attempt_fst [result_simps]:
  "fst (attempt r s f) = (case r of Ok a \<Rightarrow> fst (f a) | Err e \<Rightarrow> Err e | Panic \<Rightarrow> Panic)"
  by (cases r) auto

text \<open>
  The rule invariants of committed states are proved with: what holds of the state at
  every early return and of every continuation holds of the handler's final state.
\<close>

lemma attempt_state_inv:
  assumes "I s" and "\<And>a. r = Ok a \<Longrightarrow> I (snd (f a))"
  shows "I (snd (attempt r s f))"
  using assms by (cases r) auto

lemma res_map_eq_Ok:
  "res_map f xs = Ok ys \<longleftrightarrow> list_all2 (\<lambda>x y. f x = Ok y) xs ys"
  by (induction xs arbitrary: ys) (auto simp: result_simps list_all2_Cons1)

lemma res_map_length: "res_map f xs = Ok ys \<Longrightarrow> length ys = length xs"
  by (auto simp: res_map_eq_Ok dest: list_all2_lengthD)

lemma res_map_Ok_nth: "res_map f xs = Ok ys \<Longrightarrow> i < length xs \<Longrightarrow> f (xs ! i) = Ok (ys ! i)"
  by (auto simp: res_map_eq_Ok dest: list_all2_nthD)

lemma res_map_not_Panic: "(\<And>x. x \<in> set xs \<Longrightarrow> f x \<noteq> Panic) \<Longrightarrow> res_map f xs \<noteq> Panic"
  by (induction xs) (auto simp: result_simps)

lemma res_map_cong [fundef_cong]:
  "xs = ys \<Longrightarrow> (\<And>x. x \<in> set ys \<Longrightarrow> f x = g x) \<Longrightarrow> res_map f xs = res_map g ys"
  by (induction xs arbitrary: ys) (auto split: res.splits)

section \<open>Index sets and index maps\<close>

text \<open>
  \<open>IndexSet\<close> keeps the first occurrence of every element in insertion order, and
  \<open>IndexMap\<close> keeps every key at the place of its first insertion with the value of its
  last insertion.
\<close>

definition is_insert :: "'a \<Rightarrow> 'a list \<Rightarrow> 'a list" where
  "is_insert x s = (if x \<in> set s then s else s @ [x])"

definition is_collect :: "'a list \<Rightarrow> 'a list" where
  "is_collect xs = foldl (\<lambda>s x. is_insert x s) [] xs"

fun im_insert :: "'k \<Rightarrow> 'v \<Rightarrow> ('k \<times> 'v) list \<Rightarrow> ('k \<times> 'v) list" where
  "im_insert k v [] = [(k, v)]"
| "im_insert k v ((k', v') # m) = (if k = k' then (k, v) # m else (k', v') # im_insert k v m)"

definition im_collect :: "('k \<times> 'v) list \<Rightarrow> ('k \<times> 'v) list" where
  "im_collect kvs = foldl (\<lambda>m (k, v). im_insert k v m) [] kvs"

abbreviation im_keys :: "('k \<times> 'v) list \<Rightarrow> 'k list" where
  "im_keys m \<equiv> map fst m"

abbreviation im_values :: "('k \<times> 'v) list \<Rightarrow> 'v list" where
  "im_values m \<equiv> map snd m"

lemma set_is_insert [simp]: "set (is_insert x s) = insert x (set s)"
  by (auto simp: is_insert_def)

lemma distinct_is_insert [simp]: "distinct (is_insert x s) = distinct s"
  by (auto simp: is_insert_def)

lemma foldl_is_insert_set: "set (foldl (\<lambda>s x. is_insert x s) s xs) = set s \<union> set xs"
  by (induction xs arbitrary: s) auto

lemma foldl_is_insert_distinct: "distinct (foldl (\<lambda>s x. is_insert x s) s xs) = distinct s"
  by (induction xs arbitrary: s) auto

lemma set_is_collect [simp, index_simps]: "set (is_collect xs) = set xs"
  by (simp add: is_collect_def foldl_is_insert_set)

lemma distinct_is_collect [simp, index_simps]: "distinct (is_collect xs)"
  by (simp add: is_collect_def foldl_is_insert_distinct)

lemma foldl_is_insert_append:
  "distinct (s @ xs) \<Longrightarrow> foldl (\<lambda>s x. is_insert x s) s xs = s @ xs"
  by (induction xs arbitrary: s) (auto simp: is_insert_def)

lemma is_collect_distinct [index_simps]: "distinct xs \<Longrightarrow> is_collect xs = xs"
  by (simp add: is_collect_def foldl_is_insert_append)

lemma im_insert_keys: "set (im_keys (im_insert k v m)) = insert k (set (im_keys m))"
  by (induction k v m rule: im_insert.induct) (simp_all add: insert_commute)

lemma im_insert_distinct: "distinct (im_keys m) \<Longrightarrow> distinct (im_keys (im_insert k v m))"
proof (induction k v m rule: im_insert.induct)
  case (2 k v k' v' m)
  then show ?case using im_insert_keys [of k v m] by simp
qed simp

lemma map_of_im_insert [simp, index_simps]: "map_of (im_insert k v m) = (map_of m)(k \<mapsto> v)"
  by (induction m) (auto simp: fun_eq_iff)

lemma im_insert_new: "k \<notin> set (im_keys m) \<Longrightarrow> im_insert k v m = m @ [(k, v)]"
  by (induction m) auto

lemma foldl_im_insert_distinct:
  "distinct (im_keys m) \<Longrightarrow> distinct (im_keys (foldl (\<lambda>m (k, v). im_insert k v m) m kvs))"
  by (induction kvs arbitrary: m) (auto simp: im_insert_distinct split: prod.splits)

lemma distinct_im_collect [simp, index_simps]: "distinct (im_keys (im_collect kvs))"
  by (simp add: im_collect_def foldl_im_insert_distinct)

lemma foldl_im_insert_map_of:
  "map_of (foldl (\<lambda>m (k, v). im_insert k v m) m kvs) = map_of m ++ map_of (rev kvs)"
  by (induction kvs arbitrary: m) (auto simp: map_add_assoc split: prod.splits)

lemma map_of_im_collect [simp, index_simps]: "map_of (im_collect kvs) = map_of (rev kvs)"
  by (simp add: im_collect_def foldl_im_insert_map_of)

lemma foldl_im_insert_append:
  "distinct (im_keys (m @ kvs)) \<Longrightarrow> foldl (\<lambda>m (k, v). im_insert k v m) m kvs = m @ kvs"
proof (induction kvs arbitrary: m)
  case (Cons kv kvs)
  obtain k v where kv: "kv = (k, v)" by (cases kv)
  from Cons.prems kv have "im_insert k v m = m @ [(k, v)]"
    by (intro im_insert_new) auto
  with Cons kv show ?case by simp
qed simp

lemma im_collect_distinct [index_simps]: "distinct (im_keys kvs) \<Longrightarrow> im_collect kvs = kvs"
  by (simp add: im_collect_def foldl_im_insert_append)

lemma map_of_rev_distinct: "distinct (map fst xs) \<Longrightarrow> map_of (rev xs) = map_of xs"
  by (simp add: map_of_inject_set rev_map [symmetric])

lemma map_of_im_collect_distinct:
  "distinct (im_keys kvs) \<Longrightarrow> map_of (im_collect kvs) = map_of kvs"
  by (simp add: im_collect_distinct)

section \<open>Bytes, identifiers and time\<close>

type_synonym u8 = "8 word"
type_synonym u32 = "32 word"
type_synonym u64 = "64 word"
type_synonym bytes = "u8 list"
type_synonym uuid = nat

lemma unat_u8_less: "unat (a::u8) < 256"
  using unsigned_less [of a] by simp

lemma unat_less_uint: "unat n < k \<Longrightarrow> uint n < int k"
  by (simp only: uint_nat of_nat_less_iff)

text \<open>
  Instants (\<open>DateTime\<close>) are nanoseconds since the epoch and durations are
  nanoseconds, both as integers; a time generator is the sequence of the instants its
  successive calls return.
\<close>

type_synonym datetime = int
type_synonym duration = int
type_synonym clock = "nat \<Rightarrow> datetime"

text \<open>\<open>chrono::Duration::num_milliseconds\<close> truncates towards zero.\<close>

definition num_milliseconds :: "duration \<Rightarrow> int" where
  "num_milliseconds d = sgn d * (\<bar>d\<bar> div 1000000)"

definition seconds :: "int \<Rightarrow> duration" where
  "seconds n = n * 1000000000"

text \<open>\<open>u64::try_from\<close> on a signed number of milliseconds.\<close>

definition u64_try_from :: "int \<Rightarrow> u64 option" where
  "u64_try_from n = (if 0 \<le> n \<and> n < 2 ^ 64 then Some (word_of_int n) else None)"

lemma u64_try_from_Some:
  "u64_try_from n = Some w \<Longrightarrow> uint w = n"
  by (auto simp: u64_try_from_def uint_word_of_int take_bit_int_eq_self split: if_splits)

lemma num_milliseconds_nonneg: "0 \<le> d \<Longrightarrow> 0 \<le> num_milliseconds d"
  by (auto simp: num_milliseconds_def sgn_if)

end
