(* ===== verification/PinPolicy.thy ===== *)
theory PinPolicy
  imports Prelude "HOL-Library.Monad_Syntax"
begin

text \<open>
  The PIN retry policy of the wallet provider: \<open>wallet_provider/service/src/pin_policy.rs\<close>
  and the trait it implements, \<open>wallet_provider/domain/src/model/pin_policy.rs\<close>. Counters
  are \<open>u8\<close> and keep their width. None of these functions returns a \<open>Result\<close>; they
  return a value or panic (a failed \<open>assert!\<close>, a division by zero), and \<open>None\<close> is the
  panic. The second half states what the trait promises as a locale and shows that
  \<open>PinPolicy\<close> keeps it.
\<close>

datatype pin_policy_evaluation =
    Failed (attempts_left: u8) (is_final: bool)
  | Timeout (timeout_of: duration)
  | InTimeout (timeout_of: duration)
  | BlockedPermanently

record pin_policy =
  rounds :: u8
  attempts_per_round :: u8
  timeouts :: "duration list"

definition PinPolicy_new :: "u8 \<Rightarrow> u8 \<Rightarrow> duration list \<Rightarrow> pin_policy option" where
  "PinPolicy_new r a ts =
     (if r = 0 then None
      else if length ts = unat r - 1
      then Some \<lparr>rounds = r, attempts_per_round = a, timeouts = ts\<rparr>
      else None)"

definition current_round :: "pin_policy \<Rightarrow> u8 \<Rightarrow> u8 option" where
  "current_round p attempts = do {
     rust_assert (attempts > 0);
     if attempts_per_round p = 0 then None
     else (let d = attempts div attempts_per_round p; m = attempts mod attempts_per_round p in
       if d = 0 then Some 1
       else if m = 0 then Some d
       else Some (d + 1))
   }"

definition is_blocked :: "pin_policy \<Rightarrow> u8 \<Rightarrow> bool option" where
  "is_blocked p attempts = do {
     rust_assert (attempts > 0);
     let total_attempts = rounds p * attempts_per_round p;
     Some (attempts \<ge> total_attempts)
   }"

definition is_final_round :: "pin_policy \<Rightarrow> u8 \<Rightarrow> bool option" where
  "is_final_round p attempts = do {
     rust_assert (attempts > 0);
     blocked \<leftarrow> is_blocked p attempts;
     if blocked then Some True
     else do { r \<leftarrow> current_round p attempts; Some (r = rounds p) }
   }"

definition attempts_left_in_round :: "pin_policy \<Rightarrow> u8 \<Rightarrow> u8 option" where
  "attempts_left_in_round p attempts = do {
     rust_assert (attempts > 0);
     blocked \<leftarrow> is_blocked p attempts;
     if blocked then Some 0
     else if attempts_per_round p = 0 then None
     else Some (attempts_per_round p - attempts mod attempts_per_round p)
   }"

definition current_timeout :: "pin_policy \<Rightarrow> u8 \<Rightarrow> duration option option" where
  "current_timeout p attempts = do {
     rust_assert (attempts > 0);
     if attempts_per_round p = 0 then None
     else do {
       let i = unat (attempts div attempts_per_round p);
       blocked \<leftarrow> is_blocked p attempts;
       if \<not> blocked \<and> attempts > 1 \<and> i > 0
       then Some (if i - 1 < length (timeouts p) then Some (timeouts p ! (i - 1)) else None)
       else Some None
     }
   }"

definition evaluate_failed :: "pin_policy \<Rightarrow> u8 \<Rightarrow> pin_policy_evaluation option" where
  "evaluate_failed p attempts = do {
     left \<leftarrow> attempts_left_in_round p attempts;
     final \<leftarrow> is_final_round p attempts;
     Some (Failed left final)
   }"

definition evaluate_round ::
  "pin_policy \<Rightarrow> u8 \<Rightarrow> datetime option \<Rightarrow> datetime \<Rightarrow> pin_policy_evaluation option" where
  "evaluate_round p attempts last_failed_pin current_datetime = do {
     current \<leftarrow> current_timeout p attempts;
     case (last_failed_pin, current) of
       (Some last_failed, Some timeout) \<Rightarrow> do {
         let timed_out_until = last_failed + timeout;
         let is_already_in_timeout = timed_out_until > current_datetime;
         left \<leftarrow> attempts_left_in_round p attempts;
         let end_of_round = (attempts_per_round p = left);
         let start_of_next_round = (attempts_per_round p = left + 1);
         if end_of_round then Some (Timeout timeout)
         else if is_already_in_timeout \<and> start_of_next_round
         then Some (InTimeout (timed_out_until - current_datetime))
         else evaluate_failed p attempts
       }
     | _ \<Rightarrow> evaluate_failed p attempts
   }"

definition PinPolicy_evaluate ::
  "pin_policy \<Rightarrow> u8 \<Rightarrow> datetime option \<Rightarrow> datetime \<Rightarrow> pin_policy_evaluation option" where
  "PinPolicy_evaluate p attempts last_failed_pin current_datetime = do {
     let is_first_attempt = (last_failed_pin = None \<and> attempts = 1);
     let has_failed_earlier = (last_failed_pin \<noteq> None \<and> attempts > 1);
     rust_assert (is_first_attempt \<or> has_failed_earlier);
     blocked \<leftarrow> is_blocked p attempts;
     if blocked then Some BlockedPermanently
     else evaluate_round p attempts last_failed_pin current_datetime
   }"

text \<open>The policy of the default settings (\<open>wallet_provider/src/settings.rs\<close>).\<close>

definition default_pin_policy :: pin_policy where
  "default_pin_policy = \<lparr>rounds = 4, attempts_per_round = 4,
     timeouts = [seconds 60, seconds 300, seconds 3600]\<rparr>"

section \<open>The policy on natural numbers\<close>

text \<open>
  The abstract policy: with \<open>R\<close> rounds of \<open>A\<close> attempts, the \<open>n\<close>-th attempt is the
  blocking one when \<open>R * A \<le> n\<close>; the last attempt of a round starts the timeout of that
  round; the first attempt of the next round waits until it has passed; any other attempt
  only counts. The timeout of the round that \<open>n\<close> closes or follows is the entry
  \<open>n div A - 1\<close>.
\<close>

definition policy_spec ::
  "nat \<Rightarrow> nat \<Rightarrow> duration list \<Rightarrow> nat \<Rightarrow> datetime option \<Rightarrow> datetime \<Rightarrow> pin_policy_evaluation" where
  "policy_spec R A ts n last_failed now =
     (if R * A \<le> n then BlockedPermanently
      else if n mod A = 0 then Timeout (ts ! (n div A - 1))
      else if A < n \<and> n mod A = 1 \<and> the last_failed + ts ! (n div A - 1) > now
      then InTimeout (the last_failed + ts ! (n div A - 1) - now)
      else Failed (of_nat (A - n mod A)) (n div A + 1 = R))"

text \<open>
  A policy whose configuration can be used: no round is empty, one timeout after every
  round but the last, no negative timeout, and a number of attempts that fits the counter.
\<close>

definition pin_policy_ok :: "pin_policy \<Rightarrow> bool" where
  "pin_policy_ok p \<longleftrightarrow> 0 < rounds p \<and> 0 < attempts_per_round p \<and>
     length (timeouts p) = unat (rounds p) - 1 \<and>
     unat (rounds p) * unat (attempts_per_round p) < 256 \<and>
     (\<forall>t \<in> set (timeouts p). 0 \<le> t)"

definition consistent_start :: "u8 \<Rightarrow> datetime option \<Rightarrow> bool" where
  "consistent_start attempts last_failed \<longleftrightarrow>
     (last_failed = None \<and> attempts = 1) \<or> (last_failed \<noteq> None \<and> attempts > 1)"

abbreviation total_attempts :: "pin_policy \<Rightarrow> nat" where
  "total_attempts p \<equiv> unat (rounds p) * unat (attempts_per_round p)"

lemma unat_total:
  "pin_policy_ok p \<Longrightarrow> unat (rounds p * attempts_per_round p) = total_attempts p"
  by (simp add: pin_policy_ok_def unat_word_ariths)

lemma u8_less_iff: "(a::u8) < b \<longleftrightarrow> unat a < unat b"
  by (simp add: word_less_nat_alt)

lemma u8_eq_iff: "(a::u8) = b \<longleftrightarrow> unat a = unat b"
  by (simp add: word_unat_eq_iff)

lemma is_blocked_eval:
  "pin_policy_ok p \<Longrightarrow> 0 < a \<Longrightarrow> is_blocked p a = Some (total_attempts p \<le> unat a)"
  by (simp add: is_blocked_def rust_assert_def word_le_nat_alt unat_total)

lemma consistent_start_pos: "consistent_start a l \<Longrightarrow> 0 < a"
  by (auto simp: consistent_start_def u8_less_iff)

lemma evaluate_consistent:
  assumes "pin_policy_ok p" "consistent_start a l"
  shows "PinPolicy_evaluate p a l now
    = (if total_attempts p \<le> unat a then Some BlockedPermanently else evaluate_round p a l now)"
  using assms consistent_start_pos [OF assms(2)]
  by (simp add: PinPolicy_evaluate_def rust_assert_def is_blocked_eval consistent_start_def)

text \<open>The sub-expressions of \<open>evaluate\<close> below the blocking attempt, on naturals.\<close>

lemma attempts_per_round_pos: "pin_policy_ok p \<Longrightarrow> 0 < unat (attempts_per_round p)"
  by (simp add: pin_policy_ok_def u8_less_iff)

lemma unat_attempts_left:
  assumes "pin_policy_ok p"
  shows "unat (attempts_per_round p - a mod attempts_per_round p)
    = unat (attempts_per_round p) - unat a mod unat (attempts_per_round p)"
  using attempts_per_round_pos [OF assms]
  by (subst unat_sub) (auto simp: word_le_nat_alt unat_mod less_imp_le)

lemma attempts_left_eval:
  assumes ok: "pin_policy_ok p" and "0 < a" "unat a < total_attempts p"
  shows "attempts_left_in_round p a
     = Some (of_nat (unat (attempts_per_round p) - unat a mod unat (attempts_per_round p)))"
proof -
  have "of_nat (unat (attempts_per_round p) - unat a mod unat (attempts_per_round p))
      = (of_nat (unat (attempts_per_round p - a mod attempts_per_round p)) :: u8)"
    by (simp add: unat_attempts_left [OF ok])
  also have "\<dots> = attempts_per_round p - a mod attempts_per_round p" by simp
  finally show ?thesis
    using assms attempts_per_round_pos [OF ok]
    by (auto simp: attempts_left_in_round_def rust_assert_def is_blocked_eval)
qed

lemma unat_next_round:
  assumes ok: "pin_policy_ok p" and r: "unat a mod unat (attempts_per_round p) \<noteq> 0"
  shows "unat (a div attempts_per_round p + 1) = unat a div unat (attempts_per_round p) + 1"
proof -
  let ?A = "attempts_per_round p"
  have A: "2 \<le> unat ?A"
    using attempts_per_round_pos [OF ok] r by (cases "unat ?A = 1") auto
  then have "unat a div unat ?A \<le> unat a div 2" by (rule div_le_mono2 [rotated]) simp
  then show ?thesis using unat_u8_less [of a] by (simp add: unat_word_ariths unat_div)
qed

lemma current_round_eval:
  assumes ok: "pin_policy_ok p" and a: "0 < a"
    and r: "unat a mod unat (attempts_per_round p) \<noteq> 0"
  shows "current_round p a = Some (a div attempts_per_round p + 1)"
proof -
  have "a mod attempts_per_round p \<noteq> 0" using r by (simp add: u8_eq_iff unat_mod)
  then show ?thesis
    using a attempts_per_round_pos [OF ok] by (auto simp: current_round_def rust_assert_def Let_def)
qed

lemma is_final_round_eval:
  assumes ok: "pin_policy_ok p" and "0 < a" "unat a < total_attempts p"
    and "unat a mod unat (attempts_per_round p) \<noteq> 0"
  shows "is_final_round p a
    = Some (unat a div unat (attempts_per_round p) + 1 = unat (rounds p))"
  using assms unat_next_round [OF ok assms(4)]
  by (simp add: is_final_round_def rust_assert_def is_blocked_eval current_round_eval u8_eq_iff)

lemma current_timeout_eval:
  assumes ok: "pin_policy_ok p" and "0 < a" and lt: "unat a < total_attempts p"
  shows "current_timeout p a = Some
    (if 1 < unat a \<and> unat (attempts_per_round p) \<le> unat a
     then Some (timeouts p ! (unat a div unat (attempts_per_round p) - 1)) else None)"
proof -
  let ?d = "unat a div unat (attempts_per_round p)"
  have "?d < unat (rounds p)" using lt by (simp add: less_mult_imp_div_less)
  moreover have "0 < ?d \<longleftrightarrow> unat (attempts_per_round p) \<le> unat a"
    using attempts_per_round_pos [OF ok] by (simp add: div_greater_zero_iff)
  ultimately show ?thesis
    using assms attempts_per_round_pos [OF ok]
    by (auto simp: current_timeout_def rust_assert_def Let_def is_blocked_eval unat_div
        u8_less_iff pin_policy_ok_def)
qed

lemma unat_left_of_nat:
  "unat (of_nat (unat (attempts_per_round p) - k) :: u8) = unat (attempts_per_round p) - k"
  using unat_u8_less [of "attempts_per_round p"] by (simp add: unat_of_nat del: of_nat_diff)

lemma end_of_round_iff:
  assumes ok: "pin_policy_ok p"
  shows "attempts_per_round p = of_nat (unat (attempts_per_round p) - k mod unat (attempts_per_round p))
    \<longleftrightarrow> k mod unat (attempts_per_round p) = 0"
  using attempts_per_round_pos [OF ok]
  by (auto simp: u8_eq_iff unat_left_of_nat simp del: of_nat_diff)

lemma start_of_next_round_iff:
  assumes ok: "pin_policy_ok p" and k: "k mod unat (attempts_per_round p) \<noteq> 0"
  shows "attempts_per_round p
      = of_nat (unat (attempts_per_round p) - k mod unat (attempts_per_round p)) + 1
    \<longleftrightarrow> k mod unat (attempts_per_round p) = 1"
proof -
  let ?A = "unat (attempts_per_round p)"
  have m: "k mod ?A < ?A" "?A < 256"
    using attempts_per_round_pos [OF ok] unat_u8_less [of "attempts_per_round p"] by auto
  then have eq: "unat (of_nat (?A - k mod ?A) + 1 :: u8) = ?A - k mod ?A + 1"
    using k by (simp add: unat_word_ariths unat_left_of_nat del: of_nat_diff)
  have "?A = ?A - r + 1 \<longleftrightarrow> r = 1" if "r < ?A" "r \<noteq> 0" for r
    using that by arith
  from this [OF m(1) k] show ?thesis unfolding u8_eq_iff eq .
qed

lemma evaluate_failed_eval:
  assumes "pin_policy_ok p" "0 < a" "unat a < total_attempts p"
    and "unat a mod unat (attempts_per_round p) \<noteq> 0"
  shows "evaluate_failed p a
    = Some (Failed (of_nat (unat (attempts_per_round p) - unat a mod unat (attempts_per_round p)))
                 (unat a div unat (attempts_per_round p) + 1 = unat (rounds p)))"
  using assms by (simp add: evaluate_failed_def attempts_left_eval is_final_round_eval)

text \<open>
  C21: the policy evaluation with its \<open>u8\<close> arithmetic, assertions and index into the list of
  timeouts computes the abstract policy, for every usable configuration with at least two
  attempts per round and every consistent starting point; in particular it never panics.
\<close>

theorem PinPolicy_evaluate_refines_spec:
  assumes ok: "pin_policy_ok p" and two: "2 \<le> unat (attempts_per_round p)"
    and start: "consistent_start a l"
  shows "PinPolicy_evaluate p a l now
    = Some (policy_spec (unat (rounds p)) (unat (attempts_per_round p)) (timeouts p) (unat a) l now)"
proof (cases "total_attempts p \<le> unat a")
  case True
  with ok start show ?thesis by (simp add: evaluate_consistent policy_spec_def)
next
  case False
  let ?A = "unat (attempts_per_round p)" and ?n = "unat a"
  from False have lt: "?n < total_attempts p" by simp
  have a: "0 < a" using start by (rule consistent_start_pos)
  note eval = evaluate_consistent [OF ok start] evaluate_round_def policy_spec_def Let_def
    current_timeout_eval [OF ok a lt] attempts_left_eval [OF ok a lt] end_of_round_iff [OF ok]
  show ?thesis
  proof (cases "?n mod ?A = 0")
    case True
    then have "?A \<le> ?n" using a by (intro dvd_imp_le) (auto simp: u8_less_iff)
    moreover from this obtain lf where "l = Some lf"
      using start two by (cases l) (auto simp: consistent_start_def)
    ultimately show ?thesis
      unfolding eval(1) using True lt two by (simp add: eval(2-) del: of_nat_diff)
  next
    case False
    have "l \<noteq> None" if "?A \<le> ?n" using that start two by (auto simp: consistent_start_def)
    with False lt two start_of_next_round_iff [OF ok False] evaluate_failed_eval [OF ok a lt False]
    show ?thesis by (auto simp: eval le_less simp del: of_nat_diff split: option.splits)
  qed
qed

theorem PinPolicy_evaluate_refines_spec_witness:
  "PinPolicy_evaluate default_pin_policy 5 (Some 0) (seconds 30) = Some (InTimeout (seconds 30))"
  using PinPolicy_evaluate_refines_spec [of default_pin_policy 5 "Some 0" "seconds 30"]
  by (simp add: default_pin_policy_def pin_policy_ok_def consistent_start_def policy_spec_def
      seconds_def)

text \<open>
  C28: with a single attempt per round the timeouts between rounds are never enforced:
  whatever the clock says, the evaluation is never \<open>InTimeout\<close>, the only result on which
  the account server refuses to look at the PIN.
\<close>

theorem single_attempt_rounds_never_wait:
  assumes one: "attempts_per_round p = 1"
  shows "PinPolicy_evaluate p a l now \<noteq> Some (InTimeout t)"
proof
  assume "PinPolicy_evaluate p a l now = Some (InTimeout t)"
  then have nb: "is_blocked p a = Some False" and ev: "evaluate_round p a l now = Some (InTimeout t)"
    by (auto simp: PinPolicy_evaluate_def Let_def bind_eq_Some_conv split: if_splits)
  have "attempts_left_in_round p a = Some 1"
    using nb one by (auto simp: attempts_left_in_round_def is_blocked_def bind_eq_Some_conv)
  then show False
    using ev one
    by (auto simp: evaluate_round_def evaluate_failed_def Let_def bind_eq_Some_conv
        split: option.splits)
qed

theorem single_attempt_rounds_never_wait_witness:
  "PinPolicy_evaluate \<lparr>rounds = 3, attempts_per_round = 1, timeouts = [seconds 60, seconds 300]\<rparr>
     2 (Some 0) (seconds 1) \<noteq> Some (InTimeout (seconds 59))"
  by (rule single_attempt_rounds_never_wait) simp

section \<open>What the account server relies on\<close>

text \<open>
  The contract of the trait \<open>PinPolicyEvaluator\<close>, over any policy that can be used: from a
  consistent starting point it returns; it blocks from the attempt \<open>limit\<close> on and on no
  earlier attempt; the durations it reports are not negative; and a first attempt, which
  has no earlier failure to wait for, is never in a timeout.
\<close>

locale pin_policy_evaluator =
  fixes policy_ok :: "'p \<Rightarrow> bool"
    and evaluate :: "'p \<Rightarrow> u8 \<Rightarrow> datetime option \<Rightarrow> datetime \<Rightarrow> pin_policy_evaluation option"
    and limit :: "'p \<Rightarrow> nat"
  assumes evaluate_total:
      "policy_ok p \<Longrightarrow> consistent_start a l \<Longrightarrow> \<exists>ev. evaluate p a l now = Some ev"
    and evaluate_blocked:
      "policy_ok p \<Longrightarrow> consistent_start a l \<Longrightarrow>
         evaluate p a l now = Some BlockedPermanently \<longleftrightarrow> limit p \<le> unat a"
    and evaluate_duration:
      "policy_ok p \<Longrightarrow> evaluate p a l now = Some ev \<Longrightarrow> ev = Timeout t \<or> ev = InTimeout t \<Longrightarrow> 0 \<le> t"
    and evaluate_first: "evaluate p 1 None now \<noteq> Some (InTimeout t)"
    and limit_bounds: "policy_ok p \<Longrightarrow> 0 < limit p \<and> limit p < 256"
begin

lemma evaluate_not_Panic: "policy_ok p \<Longrightarrow> consistent_start a l \<Longrightarrow> evaluate p a l now \<noteq> None"
  by (metis evaluate_total option.distinct(1))

lemma below_limit:
  "policy_ok p \<Longrightarrow> consistent_start a l \<Longrightarrow> evaluate p a l now = Some ev \<Longrightarrow>
     ev \<noteq> BlockedPermanently \<Longrightarrow> unat a < limit p"
  using evaluate_blocked by (metis linorder_not_less option.inject)

end

lemma current_timeout_in_timeouts:
  "current_timeout p a = Some (Some t) \<Longrightarrow> t \<in> set (timeouts p)"
  by (auto simp: current_timeout_def Let_def bind_eq_Some_conv split: if_splits)

lemma evaluate_failed_is_Failed:
  "evaluate_failed p a = Some ev \<Longrightarrow> \<exists>left final. ev = Failed left final"
  by (auto simp: evaluate_failed_def bind_eq_Some_conv)

lemma timeout_branches:
  "(if A then Some x else if B \<and> C then Some y else z) = Some ev \<Longrightarrow>
     ev = x \<or> ev = y \<and> B \<or> z = Some ev"
  by (auto split: if_splits)

lemma evaluate_round_cases:
  assumes "evaluate_round p a l now = Some ev"
  obtains (failed) left final where "ev = Failed left final"
  | (timeout) t where "ev = Timeout t" "t \<in> set (timeouts p)"
  | (waiting) lf t where "l = Some lf" "ev = InTimeout (lf + t - now)" "lf + t > now"
proof -
  from assms obtain c where c: "current_timeout p a = Some c"
    by (auto simp: evaluate_round_def bind_eq_Some_conv)
  show ?thesis
  proof (cases "l = None \<or> c = None")
    case True
    then have "evaluate_failed p a = Some ev"
      using assms c by (auto simp: evaluate_round_def split: option.splits)
    then show ?thesis using failed evaluate_failed_is_Failed by blast
  next
    case False
    then obtain lf t where lt: "l = Some lf" "c = Some t" by auto
    with assms c obtain left where
      "(if attempts_per_round p = left then Some (Timeout t)
        else if lf + t > now \<and> attempts_per_round p = left + 1 then Some (InTimeout (lf + t - now))
        else evaluate_failed p a) = Some ev"
      by (auto simp: evaluate_round_def Let_def bind_eq_Some_conv)
    from timeout_branches [OF this]
    consider "ev = Timeout t" | "ev = InTimeout (lf + t - now)" "lf + t > now"
      | "evaluate_failed p a = Some ev"
      by blast
    then show ?thesis
    proof cases
      case 1
      with c lt show ?thesis by (intro timeout [of t] current_timeout_in_timeouts [of p a]) auto
    next
      case 2
      with lt show ?thesis by (intro waiting) auto
    next
      case 3
      then show ?thesis using failed evaluate_failed_is_Failed by blast
    qed
  qed
qed

lemma evaluate_inner:
  "PinPolicy_evaluate p a l now = Some ev \<Longrightarrow> ev = BlockedPermanently \<or> evaluate_round p a l now = Some ev"
  by (auto simp: PinPolicy_evaluate_def Let_def bind_eq_Some_conv split: if_splits)

lemma evaluate_Timeout:
  "PinPolicy_evaluate p a l now = Some (Timeout t) \<Longrightarrow> t \<in> set (timeouts p)"
  by (auto dest!: evaluate_inner elim: evaluate_round_cases)

lemma evaluate_InTimeout:
  "PinPolicy_evaluate p a l now = Some (InTimeout t) \<Longrightarrow> 0 < t \<and> l \<noteq> None"
  by (auto dest!: evaluate_inner elim: evaluate_round_cases)

lemma evaluate_failed_total:
  assumes ok: "pin_policy_ok p" and a: "0 < a" and lt: "unat a < total_attempts p"
  shows "\<exists>ev. evaluate_failed p a = Some ev"
  using assms attempts_per_round_pos [OF ok]
  by (auto simp: evaluate_failed_def attempts_left_eval is_final_round_def is_blocked_eval
      rust_assert_def current_round_def Let_def)

lemma PinPolicy_evaluate_total:
  assumes ok: "pin_policy_ok p" and start: "consistent_start a l"
  shows "\<exists>ev. PinPolicy_evaluate p a l now = Some ev"
proof (cases "unat a < total_attempts p")
  case True
  have a: "0 < a" using start by (rule consistent_start_pos)
  show ?thesis
    using True
    by (simp add: evaluate_consistent [OF ok start] evaluate_round_def Let_def
        current_timeout_eval [OF ok a True] attempts_left_eval [OF ok a True]
        evaluate_failed_total [OF ok a True] split: option.split)
qed (simp add: evaluate_consistent [OF ok start])

lemma PinPolicy_evaluate_blocked:
  assumes ok: "pin_policy_ok p" and start: "consistent_start a l"
  shows "PinPolicy_evaluate p a l now = Some BlockedPermanently \<longleftrightarrow> total_attempts p \<le> unat a"
  by (auto simp: evaluate_consistent [OF ok start] elim: evaluate_round_cases)

interpretation pp: pin_policy_evaluator pin_policy_ok PinPolicy_evaluate total_attempts
proof
  show "\<exists>ev. PinPolicy_evaluate p a l now = Some ev"
    if "pin_policy_ok p" "consistent_start a l" for p a l now
    using that by (rule PinPolicy_evaluate_total)
  show "PinPolicy_evaluate p a l now = Some BlockedPermanently \<longleftrightarrow> total_attempts p \<le> unat a"
    if "pin_policy_ok p" "consistent_start a l" for p a l now
    using that by (rule PinPolicy_evaluate_blocked)
  show "0 \<le> t" if "pin_policy_ok p" "PinPolicy_evaluate p a l now = Some ev"
    "ev = Timeout t \<or> ev = InTimeout t" for p a l now ev t
    using that by (auto simp: pin_policy_ok_def dest: evaluate_Timeout evaluate_InTimeout)
  show "PinPolicy_evaluate p 1 None now \<noteq> Some (InTimeout t)" for p now t
    using evaluate_InTimeout by blast
  show "0 < total_attempts p \<and> total_attempts p < 256" if "pin_policy_ok p" for p
    using that by (auto simp: pin_policy_ok_def u8_less_iff)
qed

end
