(* ===== verification/Messages.thy ===== *)
theory Messages
  imports Prelude
begin

text \<open>
  The messages between wallet and wallet provider: \<open>wallet_common/src/account/signed.rs\<close>
  (messages signed with the PIN key inside the hardware key),
  \<open>wallet_common/src/account/errors.rs\<close>, \<open>wallet_common/src/account/messages\<close> and the JWT
  wrapper \<open>wallet_common/src/jwt.rs\<close>. JSON text and keys are opaque strings and bytes; the
  serde, p256 and jsonwebtoken crates are the record \<open>codec\<close> and the functions handed to
  the definitions.
\<close>

type_synonym json = string
type_synonym verifying_key = bytes
type_synonym signature = bytes

text \<open>UTF-8 bytes of a string: its characters are already bytes.\<close>

definition as_bytes :: "string \<Rightarrow> bytes" where
  "as_bytes s = map (\<lambda>c. of_nat (of_char c)) s"

section \<open>Doubly signed messages\<close>

datatype signed_type = Pin | HW

datatype jwt_error = JwtJsonParsing | JwtValidation | JwtSigning

datatype account_error =
    KeyDeserialization
  | TypeMismatch (tm_expected: signed_type) (tm_received: signed_type)
  | ChallengeMismatch
  | SequenceNumberMismatch
  | JsonParsing
  | Ecdsa
  | VerifyingKeyError
  | Signing
  | AccountJwt jwt_error

record signed_message =
  sm_signed :: json
  sm_signature :: signature
  sm_typ :: signed_type

record 't challenge_response_payload =
  crp_payload :: 't
  crp_challenge :: bytes
  crp_sequence_number :: u64

datatype sequence_number_comparison = EqualTo u64 | LargerThan u64

fun SequenceNumberComparison_verify :: "sequence_number_comparison \<Rightarrow> u64 \<Rightarrow> bool" where
  "SequenceNumberComparison_verify (EqualTo n) expected = (expected = n)"
| "SequenceNumberComparison_verify (LargerThan n) expected = (expected > n)"

text \<open>
  What the code uses of serde_json and p256, at a payload type \<open>'t\<close>: parsing and printing of
  the three JSON shapes of \<open>signed.rs\<close> (a signed message over raw JSON, a challenge
  response over a raw payload, and the nesting of both at once), and signature
  verification.
\<close>

record 't codec =
  from_signed :: "json \<Rightarrow> signed_message option"
  from_raw_payload :: "json \<Rightarrow> json challenge_response_payload option"
  from_nested :: "json \<Rightarrow> 't challenge_response_payload option"
  to_payload :: "'t challenge_response_payload \<Rightarrow> json"
  to_signed :: "signed_message \<Rightarrow> json"
  ecdsa_verify :: "verifying_key \<Rightarrow> bytes \<Rightarrow> signature \<Rightarrow> bool"

definition parse_and_verify_message ::
  "'t codec \<Rightarrow> json \<Rightarrow> signed_type \<Rightarrow> verifying_key \<Rightarrow> (signed_message, account_error) res" where
  "parse_and_verify_message c text typ pubkey =
     res_bind (ok_or (from_signed c text) JsonParsing) (\<lambda>message.
     if \<not> ecdsa_verify c pubkey (as_bytes (sm_signed message)) (sm_signature message)
     then Err Ecdsa
     else if sm_typ message \<noteq> typ then Err (TypeMismatch typ (sm_typ message))
     else Ok message)"

text \<open>A private key is the result of its \<open>try_sign\<close>, which may fail.\<close>

type_synonym signing_key = "bytes \<Rightarrow> signature option"

definition sign_message ::
  "'t codec \<Rightarrow> json \<Rightarrow> signed_type \<Rightarrow> signing_key \<Rightarrow> (json, account_error) res" where
  "sign_message c message typ privkey =
     res_bind (ok_or (privkey (as_bytes message)) Signing) (\<lambda>signature.
     Ok (to_signed c \<lparr>sm_signed = message, sm_signature = signature, sm_typ = typ\<rparr>))"

definition SignedDouble_verify ::
  "'t codec \<Rightarrow> json \<Rightarrow> bytes \<Rightarrow> sequence_number_comparison \<Rightarrow> verifying_key \<Rightarrow> verifying_key
     \<Rightarrow> (unit, account_error) res" where
  "SignedDouble_verify c self challenge comparison hw_pubkey pin_pubkey =
     res_bind (parse_and_verify_message c self HW hw_pubkey) (\<lambda>outer.
     res_bind (parse_and_verify_message c (sm_signed outer) Pin pin_pubkey) (\<lambda>inner.
     res_bind (ok_or (from_raw_payload c (sm_signed inner)) JsonParsing) (\<lambda>response.
     if challenge \<noteq> crp_challenge response then Err ChallengeMismatch
     else if \<not> SequenceNumberComparison_verify comparison (crp_sequence_number response)
     then Err SequenceNumberMismatch
     else Ok ())))"

definition dangerous_parse_unverified ::
  "'t codec \<Rightarrow> json \<Rightarrow> ('t challenge_response_payload, account_error) res" where
  "dangerous_parse_unverified c self = ok_or (from_nested c self) JsonParsing"

definition parse_and_verify ::
  "'t codec \<Rightarrow> json \<Rightarrow> bytes \<Rightarrow> sequence_number_comparison \<Rightarrow> verifying_key \<Rightarrow> verifying_key
     \<Rightarrow> ('t challenge_response_payload, account_error) res" where
  "parse_and_verify c self challenge comparison hw_pubkey pin_pubkey =
     res_bind (SignedDouble_verify c self challenge comparison hw_pubkey pin_pubkey) (\<lambda>_.
     dangerous_parse_unverified c self)"

definition SignedDouble_sign ::
  "'t codec \<Rightarrow> 't \<Rightarrow> bytes \<Rightarrow> u64 \<Rightarrow> signing_key \<Rightarrow> signing_key \<Rightarrow> (json, account_error) res" where
  "SignedDouble_sign c payload challenge serial_number hw_privkey pin_privkey =
     (let message = to_payload c \<lparr>crp_payload = payload, crp_challenge = challenge,
                                  crp_sequence_number = serial_number\<rparr> in
      res_bind (sign_message c message Pin pin_privkey) (\<lambda>signed_inner.
      sign_message c signed_inner HW hw_privkey))"

section \<open>Registration and instruction messages\<close>

record registration =
  reg_pin_pubkey :: verifying_key
  reg_hw_pubkey :: verifying_key

text \<open>The keys a wallet holds: their public parts may fail to be read.\<close>

record ecdsa_key =
  key_verifying :: "verifying_key option"
  key_sign :: signing_key

definition Registration_new_signed ::
  "registration codec \<Rightarrow> ecdsa_key \<Rightarrow> ecdsa_key \<Rightarrow> bytes \<Rightarrow> (json, account_error) res" where
  "Registration_new_signed c hw_privkey pin_privkey challenge =
     res_bind (ok_or (key_verifying pin_privkey) VerifyingKeyError) (\<lambda>pin_pubkey.
     res_bind (ok_or (key_verifying hw_privkey) VerifyingKeyError) (\<lambda>hw_pubkey.
     SignedDouble_sign c \<lparr>reg_pin_pubkey = pin_pubkey, reg_hw_pubkey = hw_pubkey\<rparr>
       challenge 0 (key_sign hw_privkey) (key_sign pin_privkey)))"

record wallet_certificate_claims =
  wcc_wallet_id :: string
  wcc_hw_pubkey :: verifying_key
  wcc_pin_pubkey_hash :: bytes
  wcc_version :: u32
  wcc_iss :: string
  wcc_iat :: u64

type_synonym jwt = string

record signed_instruction =
  si_instruction :: json
  si_certificate :: jwt

datatype instruction_payload =
    CheckPin
  | GenerateKey (gk_identifiers: "string list")
  | Sign (sign_messages: "(bytes \<times> string list) list")

record instruction_challenge_request_claims =
  icr_sequence_number :: u64
  icr_iss :: string
  icr_iat :: u64

record instruction_challenge_request_message =
  icm_message :: jwt
  icm_certificate :: jwt

definition Instruction_new_signed ::
  "instruction_payload codec \<Rightarrow> instruction_payload \<Rightarrow> u64 \<Rightarrow> signing_key \<Rightarrow> signing_key \<Rightarrow> bytes
     \<Rightarrow> jwt \<Rightarrow> (signed_instruction, account_error) res" where
  "Instruction_new_signed c instruction sequence_number hw_privkey pin_privkey challenge certificate =
     res_bind (SignedDouble_sign c instruction challenge sequence_number hw_privkey pin_privkey)
       (\<lambda>text. Ok \<lparr>si_instruction = text, si_certificate = certificate\<rparr>)"

section \<open>JWTs\<close>

text \<open>
  The validation options \<open>jwt.rs\<close> sets; \<open>v_sub\<close> is the subject the jsonwebtoken crate
  compares with when it is set.
\<close>

record validation =
  v_required_spec_claims :: "string list"
  v_leeway :: u64
  v_sub :: "string option"

definition validations :: validation where
  "validations = \<lparr>v_required_spec_claims = [], v_leeway = 60, v_sub = None\<rparr>"

type_synonym 'c jwt_decode = "jwt \<Rightarrow> verifying_key \<Rightarrow> validation \<Rightarrow> 'c option"

definition Jwt_parse_and_verify ::
  "'c jwt_decode \<Rightarrow> jwt \<Rightarrow> verifying_key \<Rightarrow> validation \<Rightarrow> ('c, jwt_error) res" where
  "Jwt_parse_and_verify decode self pubkey options = ok_or (decode self pubkey options) JwtValidation"

definition parse_and_verify_with_sub ::
  "'c jwt_decode \<Rightarrow> jwt \<Rightarrow> verifying_key \<Rightarrow> ('c, jwt_error) res" where
  "parse_and_verify_with_sub decode self pubkey =
     (let options = validations\<lparr>v_required_spec_claims :=
            ''sub'' # v_required_spec_claims validations\<rparr>
      in Jwt_parse_and_verify decode self pubkey options)"

text \<open>
  Signing: the header and the claims with their subject are printed, encoded with base64url
  and joined with dots, and signed. \<open>jwt_codec\<close> is what serde, base64 and jsonwebtoken do at
  a claims type: decoding, printing a header with its key id, and printing the claims
  flattened next to their subject.
\<close>

record 'c jwt_codec =
  jwt_decode_with :: "'c jwt_decode"
  print_header :: "string \<Rightarrow> json option"
  print_claims :: "'c \<Rightarrow> string \<Rightarrow> json option"
  base64url :: "bytes \<Rightarrow> string"

definition Jwt_sign ::
  "(bytes \<Rightarrow> string) \<Rightarrow> json option \<Rightarrow> json option \<Rightarrow> signing_key \<Rightarrow> (jwt, jwt_error) res" where
  "Jwt_sign encode payload header privkey =
     res_bind (ok_or header JwtJsonParsing) (\<lambda>header_json.
     res_bind (ok_or payload JwtJsonParsing) (\<lambda>claims_json.
     let message = encode (as_bytes header_json) @ ''.'' @ encode (as_bytes claims_json) in
     res_bind (ok_or (privkey (as_bytes message)) JwtSigning) (\<lambda>signature.
     Ok (message @ ''.'' @ encode signature))))"

definition sign_with_sub ::
  "'c jwt_codec \<Rightarrow> string \<Rightarrow> 'c \<Rightarrow> signing_key \<Rightarrow> (jwt, jwt_error) res" where
  "sign_with_sub c sub payload privkey =
     Jwt_sign (base64url c) (print_claims c payload sub) (print_header c ''0'') privkey"

lemma sign_with_sub_no_panic [simp]: "sign_with_sub c sub p k \<noteq> Panic"
  by (auto simp: sign_with_sub_def Jwt_sign_def result_simps Let_def)

lemma parse_and_verify_with_sub_no_panic [simp]: "parse_and_verify_with_sub d j k \<noteq> Panic"
  by (simp add: parse_and_verify_with_sub_def Jwt_parse_and_verify_def)

section \<open>Properties\<close>

lemma parse_and_verify_message_Ok [result_simps]:
  "parse_and_verify_message c s typ k = Ok m \<longleftrightarrow>
     from_signed c s = Some m \<and> sm_typ m = typ \<and>
     ecdsa_verify c k (as_bytes (sm_signed m)) (sm_signature m)"
  by (auto simp: parse_and_verify_message_def result_simps)

lemma parse_and_verify_message_no_panic [simp]: "parse_and_verify_message c s typ k \<noteq> Panic"
  by (auto simp: parse_and_verify_message_def result_simps)

lemma SignedDouble_verify_no_panic [simp]: "SignedDouble_verify c s ch cmp hw pin \<noteq> Panic"
  by (auto simp: SignedDouble_verify_def result_simps)

lemma parse_and_verify_no_panic [simp]: "parse_and_verify c s ch cmp hw pin \<noteq> Panic"
  by (auto simp: parse_and_verify_def dangerous_parse_unverified_def result_simps)

lemma SignedDouble_verify_Ok [result_simps]:
  "SignedDouble_verify c s ch cmp hw pin = Ok u \<longleftrightarrow>
     (\<exists>outer inner response.
        from_signed c s = Some outer \<and> sm_typ outer = HW \<and>
        ecdsa_verify c hw (as_bytes (sm_signed outer)) (sm_signature outer) \<and>
        from_signed c (sm_signed outer) = Some inner \<and> sm_typ inner = Pin \<and>
        ecdsa_verify c pin (as_bytes (sm_signed inner)) (sm_signature inner) \<and>
        from_raw_payload c (sm_signed inner) = Some response \<and> crp_challenge response = ch \<and>
        SequenceNumberComparison_verify cmp (crp_sequence_number response))"
  by (auto simp: SignedDouble_verify_def result_simps)

text \<open>
  What serde_json promises: printing and parsing are inverse (at the payload in question), and parsing the nested shape
  reads the same fields as parsing it layer by layer. A key pair is one whose signatures
  verify.
\<close>

definition codec_roundtrips :: "'t codec \<Rightarrow> 't \<Rightarrow> bool" where
  "codec_roundtrips c payload \<longleftrightarrow>
     (\<forall>m. from_signed c (to_signed c m) = Some m) \<and>
     (\<forall>p. crp_payload p = payload \<longrightarrow> (\<exists>raw. from_raw_payload c (to_payload c p)
        = Some \<lparr>crp_payload = raw, crp_challenge = crp_challenge p,
                crp_sequence_number = crp_sequence_number p\<rparr>)) \<and>
     (\<forall>p sig sig' t t'. crp_payload p = payload \<longrightarrow> from_nested c (to_signed c \<lparr>sm_signed = to_signed c
        \<lparr>sm_signed = to_payload c p, sm_signature = sig, sm_typ = t\<rparr>,
        sm_signature = sig', sm_typ = t'\<rparr>) = Some p)"

definition codec_coherent :: "'t codec \<Rightarrow> bool" where
  "codec_coherent c \<longleftrightarrow>
     (\<forall>s p. from_nested c s = Some p \<longrightarrow>
        (\<exists>outer inner response. from_signed c s = Some outer \<and>
           from_signed c (sm_signed outer) = Some inner \<and>
           from_raw_payload c (sm_signed inner) = Some response \<and>
           crp_challenge response = crp_challenge p \<and>
           crp_sequence_number response = crp_sequence_number p))"

definition key_pair :: "'t codec \<Rightarrow> verifying_key \<Rightarrow> signing_key \<Rightarrow> bool" where
  "key_pair c pub priv \<longleftrightarrow> (\<forall>msg sig. priv msg = Some sig \<longrightarrow> ecdsa_verify c pub msg sig)"

text \<open>
  A concrete codec with these properties, used where a property is applied at an input: a
  length in unary, the bytes it announces, and the rest of the text.
\<close>

definition bytes_text :: "bytes \<Rightarrow> string" where
  "bytes_text bs = replicate (length bs) CHR ''1'' @ ''0'' @ map (\<lambda>b. char_of (unat b)) bs"

definition text_bytes :: "string \<Rightarrow> (bytes \<times> string) option" where
  "text_bytes s = (let n = length (takeWhile (\<lambda>x. x = CHR ''1'') s); r = drop (n + 1) s in
     if n < length s \<and> s ! n = CHR ''0'' \<and> n \<le> length r
     then Some (as_bytes (take n r), drop n r) else None)"

definition demo_codec :: "'t \<Rightarrow> 't codec" where
  "demo_codec x = (let
     of_signed = (\<lambda>s. case s of [] \<Rightarrow> None | x # s' \<Rightarrow>
       map_option (\<lambda>(sig, rest). \<lparr>sm_signed = rest, sm_signature = sig,
         sm_typ = (if x = CHR ''P'' then Pin else HW)\<rparr>) (text_bytes s'));
     of_payload = (\<lambda>s. map_option (\<lambda>(ch, rest). \<lparr>crp_payload = x, crp_challenge = ch,
         crp_sequence_number = of_nat (length rest)\<rparr>) (text_bytes s))
   in \<lparr>from_signed = of_signed,
       from_raw_payload = (\<lambda>s. map_option (\<lambda>p. \<lparr>crp_payload = [],
         crp_challenge = crp_challenge p, crp_sequence_number = crp_sequence_number p\<rparr>) (of_payload s)),
       from_nested = (\<lambda>s. Option.bind (of_signed s) (\<lambda>o1. Option.bind (of_signed (sm_signed o1))
         (\<lambda>o2. of_payload (sm_signed o2)))),
       to_payload = (\<lambda>p. bytes_text (crp_challenge p) @
         replicate (unat (crp_sequence_number p)) CHR ''x''),
       to_signed = (\<lambda>m. (if sm_typ m = Pin then CHR ''P'' else CHR ''H'') #
         bytes_text (sm_signature m) @ sm_signed m),
       ecdsa_verify = (\<lambda>k msg sig. sig = k @ msg)\<rparr>)"

lemma as_bytes_char_of: "as_bytes (map (\<lambda>b. char_of (unat b)) bs) = bs"
  by (simp add: as_bytes_def comp_def unat_u8_less)

lemma takeWhile_ones: "takeWhile (\<lambda>x. x = CHR ''1'') (replicate n CHR ''1'' @ ''0'' @ s)
    = replicate n CHR ''1''"
  by (induction n) auto

lemma text_bytes_bytes_text: "text_bytes (bytes_text bs @ s) = Some (bs, s)"
proof -
  let ?t = "bytes_text bs @ s"
  have n: "takeWhile (\<lambda>x. x = CHR ''1'') ?t = replicate (length bs) CHR ''1''"
    using takeWhile_ones [of "length bs" "map (\<lambda>b. char_of (unat b)) bs @ s"]
    by (simp add: bytes_text_def)
  have "?t ! length bs = CHR ''0''" by (simp add: bytes_text_def nth_append)
  moreover have "drop (length bs + 1) ?t = map (\<lambda>b. char_of (unat b)) bs @ s"
    by (simp add: bytes_text_def)
  moreover have "length bs < length ?t" by (simp add: bytes_text_def)
  ultimately show ?thesis
    unfolding text_bytes_def Let_def n length_replicate by (simp add: as_bytes_char_of)
qed

lemma demo_codec_roundtrips: "codec_roundtrips (demo_codec x) x"
proof -
  have "from_signed (demo_codec x) (to_signed (demo_codec x) m) = Some m" for m
    by (cases "sm_typ m") (simp_all add: demo_codec_def Let_def text_bytes_bytes_text)
  moreover have "from_raw_payload (demo_codec x) (to_payload (demo_codec x) p)
      = Some \<lparr>crp_payload = [], crp_challenge = crp_challenge p,
              crp_sequence_number = crp_sequence_number p\<rparr>"
    if "crp_payload p = x" for p
    using that by (simp add: demo_codec_def Let_def text_bytes_bytes_text)
  moreover have "from_nested (demo_codec x) (to_signed (demo_codec x) \<lparr>sm_signed = to_signed (demo_codec x)
        \<lparr>sm_signed = to_payload (demo_codec x) p, sm_signature = sig, sm_typ = t\<rparr>,
        sm_signature = sig', sm_typ = t'\<rparr>) = Some p"
    if "crp_payload p = x" for p sig sig' t t'
    using that by (simp add: demo_codec_def Let_def text_bytes_bytes_text)
  ultimately show ?thesis unfolding codec_roundtrips_def by blast
qed

lemma demo_codec_coherent: "codec_coherent (demo_codec x)"
  by (auto simp: codec_coherent_def demo_codec_def Let_def bind_eq_Some_conv)

lemma demo_codec_accepts:
  assumes "SequenceNumberComparison_verify cmp n"
  shows "\<exists>s. parse_and_verify (demo_codec x) s ch cmp hw pin
     = Ok \<lparr>crp_payload = x, crp_challenge = ch, crp_sequence_number = n\<rparr>"
proof -
  define inner where "inner = to_payload (demo_codec x)
    \<lparr>crp_payload = x, crp_challenge = ch, crp_sequence_number = n\<rparr>"
  define outer where "outer = to_signed (demo_codec x)
    \<lparr>sm_signed = inner, sm_signature = pin @ as_bytes inner, sm_typ = Pin\<rparr>"
  define s where "s = to_signed (demo_codec x)
    \<lparr>sm_signed = outer, sm_signature = hw @ as_bytes outer, sm_typ = HW\<rparr>"
  have "SignedDouble_verify (demo_codec x) s ch cmp hw pin = Ok ()"
    unfolding SignedDouble_verify_Ok using assms
    by (simp add: demo_codec_def Let_def text_bytes_bytes_text s_def outer_def inner_def)
  moreover have "from_nested (demo_codec x) s
      = Some \<lparr>crp_payload = x, crp_challenge = ch, crp_sequence_number = n\<rparr>"
    by (simp add: demo_codec_def Let_def text_bytes_bytes_text s_def outer_def inner_def)
  ultimately show ?thesis
    by (intro exI [of _ s]) (auto simp: parse_and_verify_def dangerous_parse_unverified_def)
qed

lemma SignedDouble_sign_accepted:
  assumes codec: "codec_roundtrips c payload" and hw: "key_pair c hw_pub hw_priv"
    and pin: "key_pair c pin_pub pin_priv"
    and sign: "SignedDouble_sign c payload challenge n hw_priv pin_priv = Ok s"
    and cmp: "SequenceNumberComparison_verify comparison n"
  shows "parse_and_verify c s challenge comparison hw_pub pin_pub
    = Ok \<lparr>crp_payload = payload, crp_challenge = challenge, crp_sequence_number = n\<rparr>"
proof -
  let ?p = "\<lparr>crp_payload = payload, crp_challenge = challenge, crp_sequence_number = n\<rparr>"
  from sign obtain sig sig' where
      sig: "pin_priv (as_bytes (to_payload c ?p)) = Some sig"
    and sig': "hw_priv (as_bytes (to_signed c \<lparr>sm_signed = to_payload c ?p, sm_signature = sig,
      sm_typ = Pin\<rparr>)) = Some sig'"
    and s: "s = to_signed c \<lparr>sm_signed = to_signed c \<lparr>sm_signed = to_payload c ?p,
      sm_signature = sig, sm_typ = Pin\<rparr>, sm_signature = sig', sm_typ = HW\<rparr>"
    by (auto simp: SignedDouble_sign_def sign_message_def result_simps Let_def)
  from codec have "\<exists>raw. from_raw_payload c (to_payload c ?p)
      = Some \<lparr>crp_payload = raw, crp_challenge = crp_challenge ?p,
              crp_sequence_number = crp_sequence_number ?p\<rparr>"
    unfolding codec_roundtrips_def by (metis challenge_response_payload.select_convs(1))
  then obtain raw where "from_raw_payload c (to_payload c ?p)
      = Some \<lparr>crp_payload = raw, crp_challenge = challenge, crp_sequence_number = n\<rparr>"
    by auto
  then have "SignedDouble_verify c s challenge comparison hw_pub pin_pub = Ok ()"
    using codec hw pin sig sig' cmp
    by (simp add: SignedDouble_verify_Ok s codec_roundtrips_def key_pair_def)
  then show ?thesis
    using codec by (simp add: parse_and_verify_def dangerous_parse_unverified_def s codec_roundtrips_def)
qed

text \<open>
  what the wallet signs for a challenge and a sequence number is accepted by the wallet
  provider with the same challenge, the matching public keys and a comparison the sequence
  number passes, and yields exactly the payload, challenge and sequence number signed.
\<close>

theorem SignedDouble_roundtrip:
  assumes "codec_roundtrips c payload" and "key_pair c hw_pub hw_priv"
    and "key_pair c pin_pub pin_priv"
    and "SignedDouble_sign c payload challenge n hw_priv pin_priv = Ok s"
    and "SequenceNumberComparison_verify comparison n"
  shows "parse_and_verify c s challenge comparison hw_pub pin_pub
    = Ok \<lparr>crp_payload = payload, crp_challenge = challenge, crp_sequence_number = n\<rparr>"
  using assms by (rule SignedDouble_sign_accepted)

theorem SignedDouble_roundtrip_witness:
  "\<exists>s. SignedDouble_sign (demo_codec ()) () [7] 3 (\<lambda>m. Some ([1] @ m)) (\<lambda>m. Some ([2] @ m)) = Ok s \<and>
     parse_and_verify (demo_codec ()) s [7] (LargerThan 2) [1] [2]
       = Ok \<lparr>crp_payload = (), crp_challenge = [7], crp_sequence_number = 3\<rparr>"
proof -
  obtain s where s: "SignedDouble_sign (demo_codec ()) () [7] 3 (\<lambda>m. Some ([1] @ m)) (\<lambda>m. Some ([2] @ m))
      = Ok s"
    by (simp add: SignedDouble_sign_def sign_message_def Let_def)
  have "key_pair (demo_codec ()) k (\<lambda>m. Some (k @ m))" for k
    by (simp add: key_pair_def demo_codec_def Let_def)
  from SignedDouble_roundtrip [OF demo_codec_roundtrips this this s, of "LargerThan 2"] s
  show ?thesis by simp
qed

text \<open>
  a message the wallet provider accepts carries a hardware-key signature over its inner
  message and a PIN-key signature over its payload, and the payload handed on has the
  expected challenge and a sequence number that passes the comparison.
\<close>

theorem parse_and_verify_authentic:
  assumes coherent: "codec_coherent c"
    and acc: "parse_and_verify c s challenge comparison hw_pub pin_pub = Ok p"
  shows "crp_challenge p = challenge \<and>
    SequenceNumberComparison_verify comparison (crp_sequence_number p) \<and>
    (\<exists>outer inner. from_signed c s = Some outer \<and> sm_typ outer = HW \<and>
      ecdsa_verify c hw_pub (as_bytes (sm_signed outer)) (sm_signature outer) \<and>
      from_signed c (sm_signed outer) = Some inner \<and> sm_typ inner = Pin \<and>
      ecdsa_verify c pin_pub (as_bytes (sm_signed inner)) (sm_signature inner))"
proof -
  from acc have nested: "from_nested c s = Some p"
    and "SignedDouble_verify c s challenge comparison hw_pub pin_pub = Ok ()"
    by (auto simp: parse_and_verify_def dangerous_parse_unverified_def result_simps)
  then show ?thesis
    using coherent unfolding codec_coherent_def SignedDouble_verify_Ok by fastforce
qed

theorem parse_and_verify_authentic_witness:
  "\<exists>s p. parse_and_verify (demo_codec ()) s [7] (LargerThan 2) [1] [2] = Ok p \<and> crp_challenge p = [7]"
proof -
  obtain s p where "parse_and_verify (demo_codec ()) s [7] (LargerThan 2) [1] [2] = Ok p"
    using demo_codec_accepts [of "LargerThan 2" 3 "()" "[7]" "[1]" "[2]"] by auto
  with parse_and_verify_authentic [OF demo_codec_coherent this] show ?thesis by blast
qed

end
