(* ===== verification/WalletUsers.thy ===== *)
theory WalletUsers
  imports Messages
begin

text \<open>
  The wallet provider's database: the domain model
  (\<open>wallet_provider/domain/src/model/wallet_user.rs\<close>, \<open>encrypted.rs\<close>), the tables
  (\<open>wallet_provider/persistence/src/entity\<close>, \<open>wallet_provider/migrations\<close>) and the
  statements on them (\<open>wallet_provider/persistence/src/wallet_user.rs\<close>,
  \<open>wallet_user_key.rs\<close>, \<open>transaction.rs\<close>). A transaction is the value of the tables it
  works on: statements take and return that value, a commit publishes it, and dropping it
  leaves the committed tables as they were. A statement fails when the record \<open>connection\<close>
  says the database refused it, or when it breaks a constraint of the tables.
\<close>

section \<open>Domain model\<close>

datatype persistence_error =
    Connection | Transaction | Execution | NotFound string
  | VerifyingKeyConversion | SigningKeyConversion

record encrypted =
  enc_data :: bytes
  enc_iv :: bytes

record instruction_challenge =
  ic_bytes :: bytes
  ic_expiration_date_time :: datetime

record wallet_user =
  wu_id :: uuid
  wu_wallet_id :: string
  wu_hw_pubkey :: verifying_key
  wu_encrypted_pin_pubkey :: encrypted
  wu_unsuccessful_pin_entries :: u8
  wu_last_unsuccessful_pin_entry :: "datetime option"
  wu_instruction_challenge :: "instruction_challenge option"
  wu_instruction_sequence_number :: u64

datatype wallet_user_query_result = Found wallet_user | UserNotFound | Blocked

record wallet_user_create =
  wc_id :: uuid
  wc_wallet_id :: string
  wc_hw_pubkey :: verifying_key
  wc_encrypted_pin_pubkey :: encrypted

type_synonym wrapped_key = bytes

record wallet_user_key =
  wuk_id :: uuid
  wuk_key_identifier :: string
  wuk_key :: wrapped_key

record wallet_user_keys =
  wuks_wallet_user_id :: uuid
  wuks_keys :: "wallet_user_key list"

section \<open>Tables\<close>

text \<open>
  \<open>instruction_sequence_number\<close> is an \<open>i32\<close> column and \<open>pin_entries\<close> an \<open>i16\<close> column;
  their values are integers here and the statements say what does not fit.
\<close>

record user_row =
  ur_id :: uuid
  ur_wallet_id :: string
  ur_hw_pubkey_der :: bytes
  ur_encrypted_pin_pubkey_sec1 :: bytes
  ur_pin_pubkey_iv :: bytes
  ur_instruction_sequence_number :: int
  ur_pin_entries :: int
  ur_last_unsuccessful_pin :: "datetime option"
  ur_is_blocked :: bool

record challenge_row =
  cr_id :: uuid
  cr_wallet_user_id :: uuid
  cr_instruction_challenge :: bytes
  cr_expiration_date_time :: datetime

record key_row =
  kr_id :: uuid
  kr_wallet_user_id :: uuid
  kr_identifier :: string
  kr_encrypted_private_key :: bytes

record tables =
  users :: "user_row list"
  challenges :: "challenge_row list"
  user_keys :: "key_row list"

text \<open>The transactions of one request: of the certificate check, of the handler itself and
  of the instruction.\<close>

datatype tx_of = CertificateTx | HandlerTx | InstructionTx

datatype statement =
    BeginTransaction tx_of | CommitTransaction tx_of | SelectUser | InsertUser | DeleteChallenge
  | UpsertChallenge | UpdateSequenceNumber | UpdatePinEntries | InsertKeys | SelectKeys

text \<open>
  The database and the p256 crate during one request: which statements the database
  refuses, the DER encoding of public keys, and the answer to an insert of no rows.
\<close>

record connection =
  refused :: "statement \<Rightarrow> bool"
  to_public_key_der :: "verifying_key \<Rightarrow> bytes option"
  from_public_key_der :: "bytes \<Rightarrow> verifying_key option"
  insert_nothing :: "(unit, persistence_error) res"

definition begin_transaction ::
  "connection \<Rightarrow> tx_of \<Rightarrow> tables \<Rightarrow> (tables, persistence_error) res" where
  "begin_transaction conn t db =
     (if refused conn (BeginTransaction t) then Err Transaction else Ok db)"

definition commit :: "connection \<Rightarrow> tx_of \<Rightarrow> tables \<Rightarrow> (tables, persistence_error) res" where
  "commit conn t tx = (if refused conn (CommitTransaction t) then Err Transaction else Ok tx)"

definition find_user :: "tables \<Rightarrow> string \<Rightarrow> user_row option" where
  "find_user tx wallet_id = List.find (\<lambda>r. ur_wallet_id r = wallet_id) (users tx)"

definition find_challenge :: "tables \<Rightarrow> uuid \<Rightarrow> challenge_row option" where
  "find_challenge tx user_id = List.find (\<lambda>c. cr_wallet_user_id c = user_id) (challenges tx)"

definition create_wallet_user ::
  "connection \<Rightarrow> tables \<Rightarrow> wallet_user_create \<Rightarrow> (tables, persistence_error) res" where
  "create_wallet_user conn tx user =
     res_bind (ok_or (to_public_key_der conn (wc_hw_pubkey user)) VerifyingKeyConversion)
       (\<lambda>hw_pubkey_der.
     if refused conn InsertUser then Err Execution
     else if \<exists>r \<in> set (users tx). ur_id r = wc_id user \<or> ur_wallet_id r = wc_wallet_id user
     then Err Execution
     else Ok (tx\<lparr>users := users tx @
       [\<lparr>ur_id = wc_id user, ur_wallet_id = wc_wallet_id user, ur_hw_pubkey_der = hw_pubkey_der,
         ur_encrypted_pin_pubkey_sec1 = enc_data (wc_encrypted_pin_pubkey user),
         ur_pin_pubkey_iv = enc_iv (wc_encrypted_pin_pubkey user),
         ur_instruction_sequence_number = 0, ur_pin_entries = 0,
         ur_last_unsuccessful_pin = None, ur_is_blocked = False\<rparr>]\<rparr>))"

text \<open>\<open>try_into().ok().unwrap_or(u8::MAX)\<close> on the \<open>i16\<close> column.\<close>

definition pin_entries_u8 :: "int \<Rightarrow> u8" where
  "pin_entries_u8 n = (if 0 \<le> n \<and> n < 256 then word_of_int n else 255)"

definition find_wallet_user_by_wallet_id ::
  "connection \<Rightarrow> tables \<Rightarrow> string \<Rightarrow> (wallet_user_query_result, persistence_error) res" where
  "find_wallet_user_by_wallet_id conn tx wallet_id =
     (if refused conn SelectUser then Err Execution
      else case find_user tx wallet_id of
        None \<Rightarrow> Ok UserNotFound
      | Some r \<Rightarrow>
          if ur_is_blocked r then Ok Blocked
          else res_bind (unwrap (from_public_key_der conn (ur_hw_pubkey_der r))) (\<lambda>hw_pubkey.
               res_bind (unwrap (u64_try_from (ur_instruction_sequence_number r))) (\<lambda>sequence_number.
               Ok (Found \<lparr>wu_id = ur_id r, wu_wallet_id = ur_wallet_id r,
                 wu_hw_pubkey = hw_pubkey,
                 wu_encrypted_pin_pubkey = \<lparr>enc_data = ur_encrypted_pin_pubkey_sec1 r,
                                            enc_iv = ur_pin_pubkey_iv r\<rparr>,
                 wu_unsuccessful_pin_entries = pin_entries_u8 (ur_pin_entries r),
                 wu_last_unsuccessful_pin_entry = ur_last_unsuccessful_pin r,
                 wu_instruction_challenge = map_option
                   (\<lambda>c. \<lparr>ic_bytes = cr_instruction_challenge c,
                         ic_expiration_date_time = cr_expiration_date_time c\<rparr>)
                   (find_challenge tx (ur_id r)),
                 wu_instruction_sequence_number = sequence_number\<rparr>))))"

definition user_ids :: "tables \<Rightarrow> string \<Rightarrow> uuid list" where
  "user_ids tx wallet_id = map ur_id (filter (\<lambda>r. ur_wallet_id r = wallet_id) (users tx))"

definition clear_instruction_challenge ::
  "connection \<Rightarrow> tables \<Rightarrow> string \<Rightarrow> (tables, persistence_error) res" where
  "clear_instruction_challenge conn tx wallet_id =
     (if refused conn DeleteChallenge then Err Execution
      else Ok (tx\<lparr>challenges :=
        filter (\<lambda>c. cr_wallet_user_id c \<notin> set (user_ids tx wallet_id)) (challenges tx)\<rparr>))"

definition update_users :: "string \<Rightarrow> (user_row \<Rightarrow> user_row) \<Rightarrow> tables \<Rightarrow> tables" where
  "update_users wallet_id f tx =
     tx\<lparr>users := map (\<lambda>r. if ur_wallet_id r = wallet_id then f r else r) (users tx)\<rparr>"

definition update_instruction_sequence_number ::
  "connection \<Rightarrow> tables \<Rightarrow> string \<Rightarrow> u64 \<Rightarrow> (tables, persistence_error) res" where
  "update_instruction_sequence_number conn tx wallet_id n =
     (if refused conn UpdateSequenceNumber \<or> 2 ^ 31 \<le> unat n then Err Execution
      else Ok (update_users wallet_id (\<lambda>r. r\<lparr>ur_instruction_sequence_number := uint n\<rparr>) tx))"

definition upsert_challenge :: "uuid \<Rightarrow> uuid \<Rightarrow> instruction_challenge \<Rightarrow> tables \<Rightarrow> tables option" where
  "upsert_challenge new_id user_id challenge tx =
     (if \<exists>c \<in> set (challenges tx). cr_wallet_user_id c = user_id
      then Some (tx\<lparr>challenges := map (\<lambda>c. if cr_wallet_user_id c = user_id
             then c\<lparr>cr_instruction_challenge := ic_bytes challenge,
                    cr_expiration_date_time := ic_expiration_date_time challenge\<rparr> else c)
             (challenges tx)\<rparr>)
      else if \<exists>c \<in> set (challenges tx). cr_id c = new_id then None
      else Some (tx\<lparr>challenges := challenges tx @
             [\<lparr>cr_id = new_id, cr_wallet_user_id = user_id,
               cr_instruction_challenge = ic_bytes challenge,
               cr_expiration_date_time = ic_expiration_date_time challenge\<rparr>]\<rparr>))"

definition update_instruction_challenge_and_sequence_number ::
  "connection \<Rightarrow> uuid \<Rightarrow> tables \<Rightarrow> string \<Rightarrow> instruction_challenge \<Rightarrow> u64
     \<Rightarrow> (tables, persistence_error) res" where
  "update_instruction_challenge_and_sequence_number conn new_id tx wallet_id challenge n =
     res_bind (update_instruction_sequence_number conn tx wallet_id n) (\<lambda>tx.
     if refused conn UpsertChallenge then Err Execution
     else case find_user tx wallet_id of
        None \<Rightarrow> Ok tx
      | Some r \<Rightarrow> ok_or (upsert_challenge new_id (ur_id r) challenge tx) Execution)"

definition update_pin_entries ::
  "connection \<Rightarrow> tables \<Rightarrow> string \<Rightarrow> (user_row \<Rightarrow> int) \<Rightarrow> datetime option \<Rightarrow> bool
     \<Rightarrow> (tables, persistence_error) res" where
  "update_pin_entries conn tx wallet_id pin_entries time is_blocked =
     (if refused conn UpdatePinEntries then Err Execution
      else Ok (update_users wallet_id (\<lambda>r. r\<lparr>ur_pin_entries := pin_entries r,
             ur_last_unsuccessful_pin := time, ur_is_blocked := is_blocked\<rparr>) tx))"

definition register_unsuccessful_pin_entry ::
  "connection \<Rightarrow> tables \<Rightarrow> string \<Rightarrow> bool \<Rightarrow> datetime \<Rightarrow> (tables, persistence_error) res" where
  "register_unsuccessful_pin_entry conn tx wallet_id is_blocked time =
     update_pin_entries conn tx wallet_id (\<lambda>r. min (ur_pin_entries r + 1) 255) (Some time) is_blocked"

definition reset_unsuccessful_pin_entries ::
  "connection \<Rightarrow> tables \<Rightarrow> string \<Rightarrow> (tables, persistence_error) res" where
  "reset_unsuccessful_pin_entries conn tx wallet_id =
     update_pin_entries conn tx wallet_id (\<lambda>_. 0) None False"

text \<open>
  Keys: the identifiers of a user are unique, and a key belongs to an existing user.
\<close>

definition key_rows :: "wallet_user_keys \<Rightarrow> key_row list" where
  "key_rows create = map (\<lambda>k. \<lparr>kr_id = wuk_id k, kr_wallet_user_id = wuks_wallet_user_id create,
     kr_identifier = wuk_key_identifier k, kr_encrypted_private_key = wuk_key k\<rparr>) (wuks_keys create)"

definition keys_constraints :: "tables \<Rightarrow> key_row list \<Rightarrow> bool" where
  "keys_constraints tx rows \<longleftrightarrow>
     distinct (map kr_id rows) \<and>
     distinct (map (\<lambda>k. (kr_identifier k, kr_wallet_user_id k)) rows) \<and>
     (\<forall>k \<in> set rows. kr_wallet_user_id k \<in> set (map ur_id (users tx)))"

definition create_keys ::
  "connection \<Rightarrow> tables \<Rightarrow> wallet_user_keys \<Rightarrow> (tables, persistence_error) res" where
  "create_keys conn tx create =
     (if wuks_keys create = [] then res_bind (insert_nothing conn) (\<lambda>_. Ok tx)
      else if refused conn InsertKeys \<or> \<not> keys_constraints tx (user_keys tx @ key_rows create)
      then Err Execution
      else Ok (tx\<lparr>user_keys := user_keys tx @ key_rows create\<rparr>))"

definition find_keys_by_identifiers ::
  "connection \<Rightarrow> tables \<Rightarrow> uuid \<Rightarrow> string list \<Rightarrow> (string \<rightharpoonup> wrapped_key, persistence_error) res" where
  "find_keys_by_identifiers conn tx user_id identifiers =
     (if refused conn SelectKeys then Err Execution
      else Ok (map_of (rev (map (\<lambda>k. (kr_identifier k, kr_encrypted_private_key k))
             (filter (\<lambda>k. kr_wallet_user_id k = user_id \<and> kr_identifier k \<in> set identifiers)
               (user_keys tx))))))"

section \<open>What the account server sees of the tables\<close>

text \<open>
  The abstract view: the tables give, for every wallet id, at most one account. Every
  statement is a function of that view, which is the contract \<open>WalletUserRepository\<close> has
  with the account server.
\<close>

record account =
  acc_id :: uuid
  acc_hw_pubkey :: verifying_key
  acc_pin_pubkey :: encrypted
  acc_entries :: nat
  acc_last_unsuccessful :: "datetime option"
  acc_blocked :: bool
  acc_challenge :: "instruction_challenge option"
  acc_sequence_number :: nat

definition account_of :: "connection \<Rightarrow> tables \<Rightarrow> string \<Rightarrow> account option" where
  "account_of conn tx wallet_id = map_option (\<lambda>r.
     \<lparr>acc_id = ur_id r, acc_hw_pubkey = the (from_public_key_der conn (ur_hw_pubkey_der r)),
      acc_pin_pubkey = \<lparr>enc_data = ur_encrypted_pin_pubkey_sec1 r, enc_iv = ur_pin_pubkey_iv r\<rparr>,
      acc_entries = nat (ur_pin_entries r), acc_last_unsuccessful = ur_last_unsuccessful_pin r,
      acc_blocked = ur_is_blocked r,
      acc_challenge = map_option (\<lambda>c. \<lparr>ic_bytes = cr_instruction_challenge c,
        ic_expiration_date_time = cr_expiration_date_time c\<rparr>) (find_challenge tx (ur_id r)),
      acc_sequence_number = nat (ur_instruction_sequence_number r)\<rparr>)
     (find_user tx wallet_id)"

text \<open>The constraints of the tables, and the ranges the account server keeps.\<close>

definition row_ok :: "connection \<Rightarrow> user_row \<Rightarrow> bool" where
  "row_ok conn r \<longleftrightarrow>
     from_public_key_der conn (ur_hw_pubkey_der r) \<noteq> None \<and>
     0 \<le> ur_pin_entries r \<and> ur_pin_entries r \<le> 255 \<and>
     0 \<le> ur_instruction_sequence_number r \<and> ur_instruction_sequence_number r < 2 ^ 31 \<and>
     (ur_pin_entries r = 0 \<longleftrightarrow> ur_last_unsuccessful_pin r = None)"

definition tables_ok :: "connection \<Rightarrow> tables \<Rightarrow> bool" where
  "tables_ok conn tx \<longleftrightarrow>
     distinct (map ur_id (users tx)) \<and> distinct (map ur_wallet_id (users tx)) \<and>
     distinct (map cr_wallet_user_id (challenges tx)) \<and>
     cr_wallet_user_id ` set (challenges tx) \<subseteq> ur_id ` set (users tx) \<and>
     keys_constraints tx (user_keys tx) \<and>
     (\<forall>r \<in> set (users tx). row_ok conn r)"

definition user_of_account :: "string \<Rightarrow> account \<Rightarrow> wallet_user" where
  "user_of_account wallet_id a =
     \<lparr>wu_id = acc_id a, wu_wallet_id = wallet_id, wu_hw_pubkey = acc_hw_pubkey a,
      wu_encrypted_pin_pubkey = acc_pin_pubkey a,
      wu_unsuccessful_pin_entries = of_nat (acc_entries a),
      wu_last_unsuccessful_pin_entry = acc_last_unsuccessful a,
      wu_instruction_challenge = acc_challenge a,
      wu_instruction_sequence_number = of_nat (acc_sequence_number a)\<rparr>"

definition query_of_account :: "string \<Rightarrow> account option \<Rightarrow> wallet_user_query_result" where
  "query_of_account wallet_id a = (case a of None \<Rightarrow> UserNotFound
     | Some a \<Rightarrow> if acc_blocked a then Blocked else Found (user_of_account wallet_id a))"

text \<open>Accounts as the account server leaves them.\<close>

definition account_ok :: "account \<Rightarrow> bool" where
  "account_ok a \<longleftrightarrow> acc_entries a \<le> 255 \<and> acc_sequence_number a < 2 ^ 31 \<and>
     (acc_entries a = 0 \<longleftrightarrow> acc_last_unsuccessful a = None)"

definition der_roundtrip :: "connection \<Rightarrow> bool" where
  "der_roundtrip conn \<longleftrightarrow>
     (\<forall>k der. to_public_key_der conn k = Some der \<longrightarrow> from_public_key_der conn der = Some k)"

text \<open>What the statements do to the account they name.\<close>

definition with_failure :: "bool \<Rightarrow> datetime \<Rightarrow> account \<Rightarrow> account" where
  "with_failure blocked time a = a\<lparr>acc_entries := min (acc_entries a + 1) 255,
     acc_last_unsuccessful := Some time, acc_blocked := blocked\<rparr>"

definition with_reset :: "account \<Rightarrow> account" where
  "with_reset a = a\<lparr>acc_entries := 0, acc_last_unsuccessful := None, acc_blocked := False\<rparr>"

definition on_account ::
  "string \<Rightarrow> (account \<Rightarrow> account) \<Rightarrow> (string \<Rightarrow> account option) \<Rightarrow> string \<Rightarrow> account option" where
  "on_account wallet_id f m = m(wallet_id := map_option f (m wallet_id))"

lemma on_account_simps [simp]:
  "on_account w f m w = map_option f (m w)"
  "v \<noteq> w \<Longrightarrow> on_account w f m v = m v"
  by (simp_all add: on_account_def)

section \<open>The statements refine the view\<close>

lemma find_map_update:
  assumes "\<And>r. ur_wallet_id (f r) = ur_wallet_id r"
  shows "List.find (\<lambda>r. ur_wallet_id r = v) (map (\<lambda>r. if ur_wallet_id r = w then f r else r) rs)
    = (if v = w then map_option f (List.find (\<lambda>r. ur_wallet_id r = v) rs)
       else List.find (\<lambda>r. ur_wallet_id r = v) rs)"
  using assms by (induction rs) auto

lemma find_user_update_users:
  assumes "\<And>r. ur_wallet_id (f r) = ur_wallet_id r"
  shows "find_user (update_users w f tx) v
    = (if v = w then map_option f (find_user tx v) else find_user tx v)"
  using find_map_update [OF assms, of v w "users tx"] by (simp add: find_user_def update_users_def)

lemma find_user_Some: "find_user tx w = Some r \<Longrightarrow> r \<in> set (users tx) \<and> ur_wallet_id r = w"
  by (auto simp: find_user_def find_Some_iff)

lemma find_user_None: "find_user tx w = None \<longleftrightarrow> (\<forall>r \<in> set (users tx). ur_wallet_id r \<noteq> w)"
  by (auto simp: find_user_def find_None_iff)

lemma find_challenge_Some:
  "find_challenge tx i = Some c \<Longrightarrow> c \<in> set (challenges tx) \<and> cr_wallet_user_id c = i"
  by (auto simp: find_challenge_def find_Some_iff)

lemma challenges_update_users [simp]:
  "challenges (update_users w f tx) = challenges tx"
  "user_keys (update_users w f tx) = user_keys tx"
  by (simp_all add: update_users_def)

lemma find_challenge_update_users [simp]:
  "find_challenge (update_users w f tx) i = find_challenge tx i"
  by (simp add: find_challenge_def)

lemma map_update_users:
  assumes "\<And>r. g (f r) = g r"
  shows "map g (users (update_users w f tx)) = map g (users tx)"
  using assms by (simp add: update_users_def)

lemma keys_constraints_ids:
  "map ur_id (users tx) = map ur_id (users tx') \<Longrightarrow> keys_constraints tx ks = keys_constraints tx' ks"
  by (simp add: keys_constraints_def)

lemma tables_ok_update_users:
  assumes ok: "tables_ok conn tx"
    and keep: "\<And>r. ur_wallet_id (f r) = ur_wallet_id r" "\<And>r. ur_id (f r) = ur_id r"
    and row: "\<And>r. row_ok conn r \<Longrightarrow> row_ok conn (f r)"
  shows "tables_ok conn (update_users w f tx)"
proof -
  have ids: "map ur_id (users (update_users w f tx)) = map ur_id (users tx)"
    using keep(2) by (rule map_update_users)
  have wids: "map ur_wallet_id (users (update_users w f tx)) = map ur_wallet_id (users tx)"
    using keep(1) by (rule map_update_users)
  from ids have img: "ur_id ` set (users (update_users w f tx)) = ur_id ` set (users tx)"
    by (metis image_set)
  from ok row have "\<forall>r \<in> set (users (update_users w f tx)). row_ok conn r"
    by (auto simp: tables_ok_def update_users_def)
  with ok ids wids img keys_constraints_ids [OF ids] show ?thesis
    by (simp add: tables_ok_def)
qed

text \<open>A wallet id names one row, so the rows of the subquery are that row's id.\<close>

lemma user_ids_find:
  assumes "distinct (map ur_wallet_id (users tx))"
  shows "user_ids tx w = (case find_user tx w of None \<Rightarrow> [] | Some r \<Rightarrow> [ur_id r])"
proof -
  have "map ur_id (filter (\<lambda>r. ur_wallet_id r = w) rs) =
      (case List.find (\<lambda>r. ur_wallet_id r = w) rs of None \<Rightarrow> [] | Some r \<Rightarrow> [ur_id r])"
    if "distinct (map ur_wallet_id rs)" for rs :: "user_row list"
    using that
    by (induction rs) (auto simp: find_None_iff find_Some_iff image_iff split: option.splits)
  with assms show ?thesis by (simp add: user_ids_def find_user_def)
qed

lemma distinct_map_eq: "distinct (map g xs) \<Longrightarrow> a \<in> set xs \<Longrightarrow> b \<in> set xs \<Longrightarrow> g a = g b \<Longrightarrow> a = b"
  by (auto simp: distinct_map dest: inj_onD)

lemma user_id_unique:
  assumes "tables_ok conn tx" "find_user tx v = Some r" "find_user tx w = Some r'" "ur_id r = ur_id r'"
  shows "v = w"
proof -
  from assms(2,3) have "r \<in> set (users tx)" "r' \<in> set (users tx)"
    "ur_wallet_id r = v" "ur_wallet_id r' = w"
    by (auto dest: find_user_Some)
  moreover from assms(1) have "distinct (map ur_id (users tx))" by (simp add: tables_ok_def)
  ultimately show ?thesis using assms(4) distinct_map_eq [of ur_id "users tx" r r'] by auto
qed

lemma find_filter_other:
  "(\<And>x. P x \<Longrightarrow> Q x) \<Longrightarrow> List.find P (filter Q xs) = List.find P xs"
  by (induction xs) auto

lemma find_filter_none:
  "(\<And>x. P x \<Longrightarrow> \<not> Q x) \<Longrightarrow> List.find P (filter Q xs) = None"
  by (induction xs) auto

lemma find_challenge_cleared:
  assumes ok: "tables_ok conn tx" and t: "clear_instruction_challenge conn tx w = Ok t"
    and v: "find_user tx v = Some r"
  shows "find_challenge t (ur_id r) = (if v = w then None else find_challenge tx (ur_id r))"
proof -
  let ?ids = "set (user_ids tx w)"
  have ids: "user_ids tx w = (case find_user tx w of None \<Rightarrow> [] | Some r \<Rightarrow> [ur_id r])"
    using ok by (intro user_ids_find) (simp add: tables_ok_def)
  from t have t: "challenges t = filter (\<lambda>c. cr_wallet_user_id c \<notin> ?ids) (challenges tx)"
    by (auto simp: clear_instruction_challenge_def split: if_splits)
  show ?thesis
  proof (cases "v = w")
    case True
    with ids v have "ur_id r \<in> ?ids" by simp
    then show ?thesis using True
      by (auto simp: find_challenge_def t intro!: find_filter_none)
  next
    case False
    with ids v ok have "ur_id r \<notin> ?ids"
      by (auto split: option.splits dest: user_id_unique)
    then show ?thesis using False
      by (auto simp: find_challenge_def t intro!: find_filter_other)
  qed
qed

lemma find_map_if:
  assumes "\<And>c. cr_wallet_user_id (g c) = cr_wallet_user_id c"
  shows "List.find (\<lambda>c. cr_wallet_user_id c = i) (map (\<lambda>c. if cr_wallet_user_id c = j then g c else c) cs)
    = (if i = j then map_option g (List.find (\<lambda>c. cr_wallet_user_id c = i) cs)
       else List.find (\<lambda>c. cr_wallet_user_id c = i) cs)"
  using assms by (induction cs) auto

lemma find_append_new:
  "\<not> (\<exists>c \<in> set cs. cr_wallet_user_id c = j) \<Longrightarrow> cr_wallet_user_id n = j \<Longrightarrow>
   List.find (\<lambda>c. cr_wallet_user_id c = i) (cs @ [n]) =
     (if i = j then Some n else List.find (\<lambda>c. cr_wallet_user_id c = i) cs)"
  by (induction cs) auto

lemma upsert_find:
  assumes "upsert_challenge new_id j ch tx = Some t"
  shows "map_option (\<lambda>c. \<lparr>ic_bytes = cr_instruction_challenge c,
      ic_expiration_date_time = cr_expiration_date_time c\<rparr>) (find_challenge t i)
    = (if i = j then Some ch else map_option (\<lambda>c. \<lparr>ic_bytes = cr_instruction_challenge c,
      ic_expiration_date_time = cr_expiration_date_time c\<rparr>) (find_challenge tx i))"
proof (cases "\<exists>c \<in> set (challenges tx). cr_wallet_user_id c = j")
  case True
  then obtain c where "find_challenge tx j = Some c"
    by (metis (mono_tags, lifting) find_None_iff find_challenge_def not_None_eq)
  then show ?thesis
    using assms True by (auto simp: upsert_challenge_def find_challenge_def find_map_if)
next
  case False
  then show ?thesis
    using assms by (auto simp: upsert_challenge_def find_challenge_def find_append_new split: if_splits)
qed

lemma upsert_users: "upsert_challenge new_id j ch tx = Some t \<Longrightarrow> users t = users tx \<and> user_keys t = user_keys tx"
  by (auto simp: upsert_challenge_def split: if_splits)

lemma upsert_owners:
  assumes "upsert_challenge new_id j ch tx = Some t"
  shows "map cr_wallet_user_id (challenges t) = map cr_wallet_user_id (challenges tx) \<or>
    j \<notin> set (map cr_wallet_user_id (challenges tx)) \<and>
    map cr_wallet_user_id (challenges t) = map cr_wallet_user_id (challenges tx) @ [j]"
  using assms by (auto simp: upsert_challenge_def split: if_splits)

text \<open>The laws of the contract, one statement at a time.\<close>

lemma account_of_ok: "tables_ok conn t \<Longrightarrow> account_of conn t w = Some a \<Longrightarrow> account_ok a"
  by (auto simp: account_of_def account_ok_def tables_ok_def row_ok_def nat_less_iff
      dest!: find_user_Some)

lemma pin_entries_u8_of_nat: "0 \<le> n \<Longrightarrow> n \<le> 255 \<Longrightarrow> pin_entries_u8 n = of_nat (nat n)"
  by (simp add: pin_entries_u8_def)

lemma find_law:
  assumes ok: "tables_ok conn t"
  shows "find_wallet_user_by_wallet_id conn t w =
    (if refused conn SelectUser then Err Execution else Ok (query_of_account w (account_of conn t w)))"
proof (cases "find_user t w")
  case None
  then show ?thesis by (simp add: find_wallet_user_by_wallet_id_def query_of_account_def account_of_def)
next
  case (Some r)
  with ok have "row_ok conn r" "ur_wallet_id r = w" by (auto simp: tables_ok_def dest: find_user_Some)
  then show ?thesis
    using Some by (auto simp: find_wallet_user_by_wallet_id_def query_of_account_def account_of_def
        user_of_account_def row_ok_def u64_try_from_def pin_entries_u8_of_nat)
qed

lemma clear_law:
  assumes ok: "tables_ok conn t" and c: "clear_instruction_challenge conn t w = Ok t'"
  shows "tables_ok conn t'"
    and "account_of conn t' = on_account w (acc_challenge_update (\<lambda>_. None)) (account_of conn t)"
proof -
  from c have u: "users t' = users t" "user_keys t' = user_keys t"
    and ch: "set (challenges t') \<subseteq> set (challenges t)"
      "distinct (map cr_wallet_user_id (challenges t)) \<Longrightarrow> distinct (map cr_wallet_user_id (challenges t'))"
    by (auto simp: clear_instruction_challenge_def distinct_map_filter split: if_splits)
  have k: "keys_constraints t' ks = keys_constraints t ks" for ks
    using u by (intro keys_constraints_ids) simp
  from ch(1) have "cr_wallet_user_id ` set (challenges t') \<subseteq> cr_wallet_user_id ` set (challenges t)"
    by (rule image_mono)
  with ok have "cr_wallet_user_id ` set (challenges t') \<subseteq> ur_id ` set (users t)"
    unfolding tables_ok_def by blast
  with ok u ch(2) k show "tables_ok conn t'" by (simp add: tables_ok_def)
  have f: "find_user t' v = find_user t v" for v using u by (simp add: find_user_def)
  show "account_of conn t' = on_account w (acc_challenge_update (\<lambda>_. None)) (account_of conn t)"
  proof
    fix v
    show "account_of conn t' v = on_account w (acc_challenge_update (\<lambda>_. None)) (account_of conn t) v"
      using find_challenge_cleared [OF ok c, of v]
      by (cases "find_user t v"; cases "v = w") (simp_all add: account_of_def f)
  qed
qed

lemma account_of_update_users:
  assumes "\<And>r. ur_wallet_id (f r) = ur_wallet_id r" "\<And>r. ur_id (f r) = ur_id r"
    and "\<And>r. find_user t w = Some r \<Longrightarrow>
      account_of conn (update_users w f t) w = map_option g (account_of conn t w)"
  shows "account_of conn (update_users w f t) = on_account w g (account_of conn t)"
proof
  fix v
  show "account_of conn (update_users w f t) v = on_account w g (account_of conn t) v"
    using assms by (cases "v = w"; cases "find_user t w")
      (auto simp: account_of_def find_user_update_users)
qed

lemma sequence_number_law:
  assumes ok: "tables_ok conn t" and c: "update_instruction_sequence_number conn t w n = Ok t'"
  shows "tables_ok conn t'"
    and "account_of conn t' = on_account w (acc_sequence_number_update (\<lambda>_. unat n)) (account_of conn t)"
    and "unat n < 2 ^ 31"
proof -
  let ?f = "ur_instruction_sequence_number_update (\<lambda>_. uint n)"
  from c have t': "t' = update_users w ?f t" and n: "unat n < 2 ^ 31"
    by (auto simp: update_instruction_sequence_number_def split: if_splits)
  from n have u: "uint n < 2 ^ 31" by (auto dest: unat_less_uint)
  show "tables_ok conn t'" unfolding t'
    by (rule tables_ok_update_users [OF ok]) (use u in \<open>simp_all add: row_ok_def\<close>)
  show "account_of conn t' = on_account w (acc_sequence_number_update (\<lambda>_. unat n)) (account_of conn t)"
    unfolding t' by (intro account_of_update_users)
      (auto simp: account_of_def find_user_update_users)
qed (use c in \<open>auto simp: update_instruction_sequence_number_def split: if_splits\<close>)

lemma failure_law:
  assumes ok: "tables_ok conn t" and c: "register_unsuccessful_pin_entry conn t w b time = Ok t'"
  shows "tables_ok conn t'" and "account_of conn t' = on_account w (with_failure b time) (account_of conn t)"
proof -
  let ?f = "\<lambda>r. r\<lparr>ur_pin_entries := min (ur_pin_entries r + 1) 255,
    ur_last_unsuccessful_pin := Some time, ur_is_blocked := b\<rparr>"
  from c have t': "t' = update_users w ?f t"
    by (auto simp: register_unsuccessful_pin_entry_def update_pin_entries_def split: if_splits)
  show "tables_ok conn t'" unfolding t' using ok
    by (intro tables_ok_update_users) (auto simp: row_ok_def)
  have "row_ok conn r" if "find_user t w = Some r" for r
    using ok that by (auto simp: tables_ok_def dest: find_user_Some)
  then show "account_of conn t' = on_account w (with_failure b time) (account_of conn t)"
    unfolding t' by (intro account_of_update_users)
      (auto simp: account_of_def find_user_update_users with_failure_def row_ok_def nat_add_distrib min_def)
qed

lemma reset_law:
  assumes ok: "tables_ok conn t" and c: "reset_unsuccessful_pin_entries conn t w = Ok t'"
  shows "tables_ok conn t'" and "account_of conn t' = on_account w with_reset (account_of conn t)"
proof -
  let ?f = "\<lambda>r. r\<lparr>ur_pin_entries := 0, ur_last_unsuccessful_pin := None, ur_is_blocked := False\<rparr>"
  from c have t': "t' = update_users w ?f t"
    by (auto simp: reset_unsuccessful_pin_entries_def update_pin_entries_def split: if_splits)
  show "tables_ok conn t'" unfolding t' using ok
    by (intro tables_ok_update_users) (auto simp: row_ok_def)
  show "account_of conn t' = on_account w with_reset (account_of conn t)"
    unfolding t' by (intro account_of_update_users)
      (auto simp: account_of_def find_user_update_users with_reset_def)
qed

definition with_challenge :: "instruction_challenge \<Rightarrow> nat \<Rightarrow> account \<Rightarrow> account" where
  "with_challenge ch n a = a\<lparr>acc_challenge := Some ch, acc_sequence_number := n\<rparr>"

lemma subset_via_insert: "a \<in> C \<Longrightarrow> X \<subseteq> insert a B \<Longrightarrow> B \<subseteq> C \<Longrightarrow> X \<subseteq> C"
  by blast

lemma upsert_law:
  assumes ok: "tables_ok conn t" and r: "find_user t w = Some r"
    and c: "upsert_challenge new_id (ur_id r) ch t = Some t'"
  shows "tables_ok conn t'"
    and "account_of conn t' = on_account w (acc_challenge_update (\<lambda>_. Some ch)) (account_of conn t)"
proof -
  from c have u: "users t' = users t" "user_keys t' = user_keys t" by (auto dest: upsert_users)
  have k: "keys_constraints t' ks = keys_constraints t ks" for ks
    using u by (intro keys_constraints_ids) simp
  have "ur_id r \<in> ur_id ` set (users t)" using r by (auto dest: find_user_Some)
  moreover have "set (map cr_wallet_user_id (challenges t'))
      \<subseteq> insert (ur_id r) (set (map cr_wallet_user_id (challenges t)))"
    using upsert_owners [OF c]
    by (metis Un_insert_right empty_set list.simps(15) order_refl set_append subset_insertI sup_bot_right)
  moreover have "cr_wallet_user_id ` set (challenges t) \<subseteq> ur_id ` set (users t)"
    using ok by (simp add: tables_ok_def)
  ultimately have "cr_wallet_user_id ` set (challenges t') \<subseteq> ur_id ` set (users t)"
    unfolding set_map by (rule subset_via_insert)
  moreover have "distinct (map cr_wallet_user_id (challenges t'))"
    using ok upsert_owners [OF c] by (auto simp: tables_ok_def)
  ultimately
  show "tables_ok conn t'" using ok u k by (simp add: tables_ok_def)
  have f: "find_user t' v = find_user t v" for v using u by (simp add: find_user_def)
  show "account_of conn t' = on_account w (acc_challenge_update (\<lambda>_. Some ch)) (account_of conn t)"
  proof
    fix v
    show "account_of conn t' v = on_account w (acc_challenge_update (\<lambda>_. Some ch)) (account_of conn t) v"
    proof (cases "find_user t v")
      case (Some r')
      then have "ur_id r' = ur_id r \<longleftrightarrow> v = w" using user_id_unique [OF ok Some r] r by auto
      with Some r show ?thesis
        by (cases "v = w") (simp_all add: account_of_def f upsert_find [OF c])
    qed (use r in \<open>auto simp: account_of_def f on_account_def\<close>)
  qed
qed

lemma challenge_law:
  assumes ok: "tables_ok conn t"
    and c: "update_instruction_challenge_and_sequence_number conn new_id t w ch n = Ok t'"
  shows "tables_ok conn t'"
    and "account_of conn t' = on_account w (with_challenge ch (unat n)) (account_of conn t)"
proof -
  from c obtain t1 where t1: "update_instruction_sequence_number conn t w n = Ok t1"
    and t2: "case find_user t1 w of None \<Rightarrow> t' = t1
      | Some r \<Rightarrow> upsert_challenge new_id (ur_id r) ch t1 = Some t'"
    by (auto simp: update_instruction_challenge_and_sequence_number_def result_simps
        split: if_splits option.splits)
  note s = sequence_number_law [OF ok t1]
  show "tables_ok conn t'" using s(1) t2 upsert_law(1) by (auto split: option.splits)
  show "account_of conn t' = on_account w (with_challenge ch (unat n)) (account_of conn t)"
  proof (cases "find_user t1 w")
    case None
    then have "account_of conn t1 w = None" by (simp add: account_of_def)
    then show ?thesis using None t2 s(2) by (auto simp: fun_eq_iff on_account_def)
  next
    case (Some r)
    with t2 upsert_law(2) [OF s(1) Some] s(2) show ?thesis
      by (cases "account_of conn t w") (auto simp: fun_eq_iff on_account_def with_challenge_def)
  qed
qed

definition new_account :: "wallet_user_create \<Rightarrow> account" where
  "new_account user = \<lparr>acc_id = wc_id user, acc_hw_pubkey = wc_hw_pubkey user,
     acc_pin_pubkey = wc_encrypted_pin_pubkey user, acc_entries = 0, acc_last_unsuccessful = None,
     acc_blocked = False, acc_challenge = None, acc_sequence_number = 0\<rparr>"

lemma create_law:
  assumes ok: "tables_ok conn t" and der: "der_roundtrip conn"
    and c: "create_wallet_user conn t user = Ok t'"
  shows "tables_ok conn t'" and "account_of conn t (wc_wallet_id user) = None"
    and "account_of conn t' = (account_of conn t)(wc_wallet_id user \<mapsto> new_account user)"
proof -
  from c obtain n where t': "t' = t\<lparr>users := users t @ [n]\<rparr>"
    and fresh: "\<forall>r \<in> set (users t). ur_id r \<noteq> wc_id user \<and> ur_wallet_id r \<noteq> wc_wallet_id user"
    and n: "ur_id n = wc_id user" "ur_wallet_id n = wc_wallet_id user" "ur_pin_entries n = 0"
      "ur_instruction_sequence_number n = 0" "ur_last_unsuccessful_pin n = None" "\<not> ur_is_blocked n"
      "from_public_key_der conn (ur_hw_pubkey_der n) = Some (wc_hw_pubkey user)"
      "ur_encrypted_pin_pubkey_sec1 n = enc_data (wc_encrypted_pin_pubkey user)"
      "ur_pin_pubkey_iv n = enc_iv (wc_encrypted_pin_pubkey user)"
    using der by (auto simp: create_wallet_user_def result_simps der_roundtrip_def split: if_splits)
  from ok n fresh show "tables_ok conn t'"
    by (auto simp: tables_ok_def t' row_ok_def keys_constraints_def)
  have none: "find_user t (wc_wallet_id user) = None" using fresh by (simp add: find_user_None)
  then show "account_of conn t (wc_wallet_id user) = None" by (simp add: account_of_def)
  have "List.find (\<lambda>r. ur_wallet_id r = v) (rs @ [n]) = (case List.find (\<lambda>r. ur_wallet_id r = v) rs of
      Some r \<Rightarrow> Some r | None \<Rightarrow> if v = wc_wallet_id user then Some n else None)" for v rs
    using n by (induction rs) auto
  then have find: "find_user t' v = (case find_user t v of Some r \<Rightarrow> Some r
      | None \<Rightarrow> if v = wc_wallet_id user then Some n else None)" for v
    by (simp add: find_user_def t')
  have "wc_id user \<notin> cr_wallet_user_id ` set (challenges t)"
  proof
    assume "wc_id user \<in> cr_wallet_user_id ` set (challenges t)"
    with ok have "wc_id user \<in> ur_id ` set (users t)" unfolding tables_ok_def by blast
    with fresh show False by auto
  qed
  then have "find_challenge t (wc_id user) = None" by (force simp: find_challenge_def find_None_iff)
  moreover have "find_challenge t' i = find_challenge t i" for i by (simp add: find_challenge_def t')
  ultimately show "account_of conn t' = (account_of conn t)(wc_wallet_id user \<mapsto> new_account user)"
    using none n by (auto simp: fun_eq_iff account_of_def find new_account_def split: option.splits)
qed

lemma create_keys_law:
  assumes ok: "tables_ok conn t" and c: "create_keys conn t ks = Ok t'"
  shows "tables_ok conn t'" and "account_of conn t' = account_of conn t"
proof -
  from c have u: "users t' = users t" "challenges t' = challenges t"
    and k: "keys_constraints t (user_keys t')"
    using ok by (auto simp: create_keys_def tables_ok_def result_simps split: if_splits)
  from u(1) have "keys_constraints t' ks = keys_constraints t ks" for ks
    by (intro keys_constraints_ids) simp
  with ok u k show "tables_ok conn t'" by (simp add: tables_ok_def)
  show "account_of conn t' = account_of conn t"
    using u by (simp add: fun_eq_iff account_of_def find_user_def find_challenge_def)
qed

section \<open>The repository contract\<close>

text \<open>
  What the account server relies on: statements never panic on consistent tables, keep them
  consistent, and change exactly the account they name.
\<close>

locale wallet_user_repository =
  fixes consistent :: "'c \<Rightarrow> 't \<Rightarrow> bool"
    and view :: "'c \<Rightarrow> 't \<Rightarrow> string \<Rightarrow> account option"
    and find_op :: "'c \<Rightarrow> 't \<Rightarrow> string \<Rightarrow> (wallet_user_query_result, persistence_error) res"
    and clear_op :: "'c \<Rightarrow> 't \<Rightarrow> string \<Rightarrow> ('t, persistence_error) res"
    and challenge_op ::
      "'c \<Rightarrow> uuid \<Rightarrow> 't \<Rightarrow> string \<Rightarrow> instruction_challenge \<Rightarrow> u64 \<Rightarrow> ('t, persistence_error) res"
    and sequence_op :: "'c \<Rightarrow> 't \<Rightarrow> string \<Rightarrow> u64 \<Rightarrow> ('t, persistence_error) res"
    and failure_op :: "'c \<Rightarrow> 't \<Rightarrow> string \<Rightarrow> bool \<Rightarrow> datetime \<Rightarrow> ('t, persistence_error) res"
    and reset_op :: "'c \<Rightarrow> 't \<Rightarrow> string \<Rightarrow> ('t, persistence_error) res"
  assumes view_ok: "consistent c t \<Longrightarrow> view c t w = Some a \<Longrightarrow> account_ok a"
    and find_total: "consistent c t \<Longrightarrow> find_op c t w \<noteq> Panic"
    and find_view: "consistent c t \<Longrightarrow> find_op c t w = Ok q \<Longrightarrow> q = query_of_account w (view c t w)"
    and clear_total: "clear_op c t w \<noteq> Panic"
    and clear_view: "consistent c t \<Longrightarrow> clear_op c t w = Ok t' \<Longrightarrow>
      consistent c t' \<and> view c t' = on_account w (acc_challenge_update (\<lambda>_. None)) (view c t)"
    and challenge_total: "challenge_op c i t w ch n \<noteq> Panic"
    and challenge_view: "consistent c t \<Longrightarrow> challenge_op c i t w ch n = Ok t' \<Longrightarrow>
      consistent c t' \<and> view c t' = on_account w (with_challenge ch (unat n)) (view c t)"
    and sequence_total: "sequence_op c t w n \<noteq> Panic"
    and sequence_view: "consistent c t \<Longrightarrow> sequence_op c t w n = Ok t' \<Longrightarrow>
      consistent c t' \<and> view c t' = on_account w (acc_sequence_number_update (\<lambda>_. unat n)) (view c t)"
    and failure_total: "failure_op c t w b d \<noteq> Panic"
    and failure_view: "consistent c t \<Longrightarrow> failure_op c t w b d = Ok t' \<Longrightarrow>
      consistent c t' \<and> view c t' = on_account w (with_failure b d) (view c t)"
    and reset_total: "reset_op c t w \<noteq> Panic"
    and reset_view: "consistent c t \<Longrightarrow> reset_op c t w = Ok t' \<Longrightarrow>
      consistent c t' \<and> view c t' = on_account w with_reset (view c t)"
begin

text \<open>The user the certificate check hands on is the unblocked account of that wallet id.\<close>

lemma found_user:
  assumes "consistent c t" "find_op c t w = Ok (Found u)"
  obtains a where "view c t w = Some a" "\<not> acc_blocked a" "account_ok a" "u = user_of_account w a"
proof -
  from find_view [OF assms] have "query_of_account w (view c t w) = Found u" by simp
  then obtain a where "view c t w = Some a" "\<not> acc_blocked a" "u = user_of_account w a"
    by (auto simp: query_of_account_def split: option.splits if_splits)
  with view_ok [OF assms(1)] that show thesis by blast
qed

lemma found_iff:
  assumes "consistent c t" "find_op c t w = Ok q"
  shows "q = Blocked \<longleftrightarrow> (\<exists>a. view c t w = Some a \<and> acc_blocked a)"
    and "q = UserNotFound \<longleftrightarrow> view c t w = None"
  using find_view [OF assms] by (auto simp: query_of_account_def split: option.splits)

text \<open>The two ways a handled instruction changes its account.\<close>

lemma clear_then_failure:
  assumes "consistent c t" "clear_op c t w = Ok t1" "failure_op c t1 w b d = Ok t2"
  shows "consistent c t2 \<and> view c t2
    = on_account w (with_failure b d \<circ> acc_challenge_update (\<lambda>_. None)) (view c t)"
  using clear_view [OF assms(1,2)] failure_view [of c t1 w b d t2] assms(3)
  by (auto simp: on_account_def fun_eq_iff option.map_comp)

lemma clear_reset_sequence:
  assumes "consistent c t" "clear_op c t w = Ok t1" "reset_op c t1 w = Ok t2"
    "sequence_op c t2 w n = Ok t3"
  shows "consistent c t3 \<and> view c t3 = on_account w (acc_sequence_number_update (\<lambda>_. unat n)
    \<circ> with_reset \<circ> acc_challenge_update (\<lambda>_. None)) (view c t)"
  using clear_view [OF assms(1,2)] reset_view [of c t1 w t2] sequence_view [of c t2 w n t3] assms(3,4)
  by (auto simp: on_account_def fun_eq_iff option.map_comp comp_def)

end

lemma statements_no_panic [simp]:
  "clear_instruction_challenge conn t w \<noteq> Panic"
  "update_instruction_sequence_number conn t w n \<noteq> Panic"
  "update_instruction_challenge_and_sequence_number conn i t w ch n \<noteq> Panic"
  "register_unsuccessful_pin_entry conn t w b d \<noteq> Panic"
  "reset_unsuccessful_pin_entries conn t w \<noteq> Panic"
  "create_wallet_user conn t user \<noteq> Panic"
  by (auto simp: clear_instruction_challenge_def update_instruction_sequence_number_def
      update_instruction_challenge_and_sequence_number_def register_unsuccessful_pin_entry_def
      reset_unsuccessful_pin_entries_def update_pin_entries_def create_wallet_user_def result_simps
      split: option.splits if_splits)

interpretation wr: wallet_user_repository tables_ok account_of find_wallet_user_by_wallet_id
  clear_instruction_challenge update_instruction_challenge_and_sequence_number
  update_instruction_sequence_number register_unsuccessful_pin_entry reset_unsuccessful_pin_entries
proof (unfold_locales, goal_cases)
  case (1 c t w a) then show ?case by (rule account_of_ok)
next
  case (2 c t w) then show ?case by (simp add: find_law)
next
  case (3 c t w q) then show ?case by (auto simp: find_law split: if_splits)
next
  case (5 c t w t') then show ?case using clear_law by blast
next
  case (7 c t i w ch n t') then show ?case using challenge_law by blast
next
  case (9 c t w n t') then show ?case using sequence_number_law(1,2) by blast
next
  case (11 c t w b d t') then show ?case using failure_law by blast
next
  case (13 c t w t') then show ?case using reset_law by blast
qed simp_all

text \<open>The rows a query for the keys of a user reads, as an association list.\<close>

definition selected_keys :: "uuid \<Rightarrow> string list \<Rightarrow> key_row list \<Rightarrow> (string \<times> wrapped_key) list" where
  "selected_keys u ids rows = map (\<lambda>k. (kr_identifier k, kr_encrypted_private_key k))
     (filter (\<lambda>k. kr_wallet_user_id k = u \<and> kr_identifier k \<in> set ids) rows)"

lemma selected_keys_distinct:
  assumes "distinct (map (\<lambda>k. (kr_identifier k, kr_wallet_user_id k)) rows)"
  shows "distinct (map fst (selected_keys u ids rows))"
  using assms by (induction rows) (auto simp: selected_keys_def)

lemma selected_new_keys:
  "map_of (selected_keys u ids (key_rows ks)) i =
     (if u = wuks_wallet_user_id ks \<and> i \<in> set ids
      then map_of (map (\<lambda>k. (wuk_key_identifier k, wuk_key k)) (wuks_keys ks)) i else None)"
proof -
  have "map_of (map (\<lambda>k. (kr_identifier k, kr_encrypted_private_key k))
      (filter (\<lambda>k. kr_wallet_user_id k = u \<and> kr_identifier k \<in> set ids)
        (map (\<lambda>k. \<lparr>kr_id = wuk_id k, kr_wallet_user_id = v, kr_identifier = wuk_key_identifier k,
          kr_encrypted_private_key = wuk_key k\<rparr>) l))) i =
     (if u = v \<and> i \<in> set ids then map_of (map (\<lambda>k. (wuk_key_identifier k, wuk_key k)) l) i else None)"
    for v and l :: "wallet_user_key list"
    by (induction l) auto
  then show ?thesis by (simp add: selected_keys_def key_rows_def)
qed

text \<open>
  keys saved for a user are found again under their identifiers, and only by that user's
  queries: after a successful insert, a query answers for an identifier the new key if it is
  among the inserted ones, and what it answered before otherwise.
\<close>

theorem create_keys_find_keys:
  assumes c: "create_keys conn t ks = Ok t'"
    and f: "find_keys_by_identifiers conn t u ids = Ok before"
    and f': "find_keys_by_identifiers conn t' u ids = Ok now"
  shows "now i = (if u = wuks_wallet_user_id ks \<and> i \<in> set ids
       \<and> i \<in> wuk_key_identifier ` set (wuks_keys ks)
     then map_of (map (\<lambda>k. (wuk_key_identifier k, wuk_key k)) (wuks_keys ks)) i else before i)"
proof (cases "wuks_keys ks = []")
  case True
  with c have "t' = t" by (auto simp: create_keys_def result_simps)
  with True f f' show ?thesis by simp
next
  case False
  with c have t': "user_keys t' = user_keys t @ key_rows ks"
    and "keys_constraints t (user_keys t @ key_rows ks)"
    by (auto simp: create_keys_def split: if_splits)
  then have d: "distinct (map (\<lambda>k. (kr_identifier k, kr_wallet_user_id k)) (key_rows ks))"
    by (simp add: keys_constraints_def)
  from f f' t' have n: "now i = (map_of (rev (selected_keys u ids (user_keys t)))
      ++ map_of (rev (selected_keys u ids (key_rows ks)))) i"
    and b: "before = map_of (rev (selected_keys u ids (user_keys t)))"
    by (auto simp: find_keys_by_identifiers_def selected_keys_def split: if_splits)
  have "now i = (case map_of (selected_keys u ids (key_rows ks)) i of
      Some k \<Rightarrow> Some k | None \<Rightarrow> before i)"
    unfolding n b by (simp add: map_add_def map_of_rev_distinct [OF selected_keys_distinct [OF d]])
  moreover have "map_of (map (\<lambda>k. (wuk_key_identifier k, wuk_key k)) (wuks_keys ks)) i = None \<longleftrightarrow>
      i \<notin> wuk_key_identifier ` set (wuks_keys ks)"
    by (force simp: map_of_eq_None_iff)
  ultimately show ?thesis
    by (cases "map_of (map (\<lambda>k. (wuk_key_identifier k, wuk_key k)) (wuks_keys ks)) i")
      (simp_all add: selected_new_keys)
qed

definition demo_connection :: connection where
  "demo_connection = \<lparr>refused = (\<lambda>_. False), to_public_key_der = Some, from_public_key_der = Some,
     insert_nothing = Err Execution\<rparr>"

definition demo_tables :: tables where
  "demo_tables = \<lparr>users = [\<lparr>ur_id = 1, ur_wallet_id = ''w'', ur_hw_pubkey_der = [1],
       ur_encrypted_pin_pubkey_sec1 = [2], ur_pin_pubkey_iv = [], ur_instruction_sequence_number = 2,
       ur_pin_entries = 0, ur_last_unsuccessful_pin = None, ur_is_blocked = False\<rparr>],
     challenges = [\<lparr>cr_id = 5, cr_wallet_user_id = 1, cr_instruction_challenge = [7],
       cr_expiration_date_time = 100\<rparr>],
     user_keys = [\<lparr>kr_id = 9, kr_wallet_user_id = 1, kr_identifier = ''old'',
       kr_encrypted_private_key = [9]\<rparr>]\<rparr>"

lemma demo_tables_ok: "tables_ok demo_connection demo_tables"
  by (simp add: tables_ok_def demo_tables_def demo_connection_def row_ok_def keys_constraints_def)

theorem create_keys_find_keys_witness:
  "\<exists>t' before now. create_keys demo_connection demo_tables
       \<lparr>wuks_wallet_user_id = 1, wuks_keys = [\<lparr>wuk_id = 3, wuk_key_identifier = ''k'', wuk_key = [4]\<rparr>]\<rparr> = Ok t' \<and>
     find_keys_by_identifiers demo_connection demo_tables 1 [''k'', ''old''] = Ok before \<and>
     find_keys_by_identifiers demo_connection t' 1 [''k'', ''old''] = Ok now \<and>
     now ''k'' = Some [4]"
proof -
  let ?ks = "\<lparr>wuks_wallet_user_id = 1, wuks_keys = [\<lparr>wuk_id = 3, wuk_key_identifier = ''k'', wuk_key = [4]\<rparr>]\<rparr>"
  obtain t' where t': "create_keys demo_connection demo_tables ?ks = Ok t'"
    by (simp add: create_keys_def keys_constraints_def key_rows_def demo_tables_def demo_connection_def)
  obtain b where b: "find_keys_by_identifiers demo_connection demo_tables 1 [''k'', ''old''] = Ok b"
    by (simp add: find_keys_by_identifiers_def demo_connection_def)
  obtain n where n: "find_keys_by_identifiers demo_connection t' 1 [''k'', ''old''] = Ok n"
    by (simp add: find_keys_by_identifiers_def demo_connection_def)
  from create_keys_find_keys [OF t' b n, of "''k''"] t' b n show ?thesis by auto
qed

end
