(* ===== verification/HsmClient.thy ===== *)
theory HsmClient
  imports WalletUsers
begin

text \<open>
  The hardware security module as the wallet provider uses it:
  \<open>wallet_provider/service/src/hsm.rs\<close> on top of a PKCS#11 token and the default methods of
  \<open>wallet_provider/domain/src/model/hsm.rs\<close>. The token and the encodings of the p256, der
  and sha2 crates are the record \<open>pkcs11\<close>; calls that draw randomness take the number of
  the draw. Every operation first takes a session from the pool.
\<close>

type_synonym handle = nat

datatype hsm_error =
    Pkcs11 | R2d2 | Sec1 | NoInitializedSlotAvailable | P256
  | AttributeNotFound string | KeyNotFound string

datatype handle_type = Public | Private

datatype signing_mechanism = Ecdsa256 | Sha256Hmac

datatype token_attribute = EcPoint bytes | OtherAttribute

record pkcs11 =
  pool_get :: bool
  find_objects :: "bool \<Rightarrow> string \<Rightarrow> handle list option"
  token_sign :: "signing_mechanism \<Rightarrow> handle \<Rightarrow> bytes \<Rightarrow> bytes option"
  token_verify :: "signing_mechanism \<Rightarrow> handle \<Rightarrow> bytes \<Rightarrow> bytes \<Rightarrow> bool"
  generate_random_vec :: "nat \<Rightarrow> nat \<Rightarrow> bytes option"
  token_encrypt :: "handle \<Rightarrow> bytes \<Rightarrow> bytes \<Rightarrow> bytes option"
  token_decrypt :: "handle \<Rightarrow> bytes \<Rightarrow> bytes \<Rightarrow> bytes option"
  generate_key_pair :: "nat \<Rightarrow> (handle \<times> handle) option"
  token_wrap_key :: "handle \<Rightarrow> handle \<Rightarrow> bytes option"
  token_unwrap_key :: "handle \<Rightarrow> bytes \<Rightarrow> handle option"
  get_attributes :: "handle \<Rightarrow> token_attribute list option"
  octet_string_from_der :: "bytes \<Rightarrow> bytes option"
  from_sec1_bytes :: "bytes \<Rightarrow> verifying_key option"
  to_sec1_bytes :: "verifying_key \<Rightarrow> bytes"
  signature_from_slice :: "bytes \<Rightarrow> signature option"
  ec_point_name :: string
  sha256 :: "bytes \<Rightarrow> bytes"

record pkcs11_hsm =
  token :: pkcs11
  wrapping_key_identifier :: string

section \<open>The PKCS#11 client\<close>

definition with_session :: "pkcs11_hsm \<Rightarrow> 'a option \<Rightarrow> ('a, hsm_error) res" where
  "with_session h call = (if pool_get (token h) then ok_or call Pkcs11 else Err R2d2)"

definition get_key_handle :: "pkcs11_hsm \<Rightarrow> string \<Rightarrow> handle_type \<Rightarrow> (handle, hsm_error) res" where
  "get_key_handle h identifier handle_type =
     res_bind (with_session h (find_objects (token h) (handle_type = Private) identifier))
       (\<lambda>handles. case handles of [] \<Rightarrow> Err (KeyNotFound identifier) | x # _ \<Rightarrow> Ok x)"

definition get_private_key_handle :: "pkcs11_hsm \<Rightarrow> string \<Rightarrow> (handle, hsm_error) res" where
  "get_private_key_handle h identifier = get_key_handle h identifier Private"

definition get_public_key_handle :: "pkcs11_hsm \<Rightarrow> string \<Rightarrow> (handle, hsm_error) res" where
  "get_public_key_handle h identifier = get_key_handle h identifier Public"

definition client_get_verifying_key :: "pkcs11_hsm \<Rightarrow> handle \<Rightarrow> (verifying_key, hsm_error) res" where
  "client_get_verifying_key h public_handle =
     res_bind (with_session h (get_attributes (token h) public_handle)) (\<lambda>attrs.
     case attrs of
       [] \<Rightarrow> Err (AttributeNotFound (ec_point_name (token h)))
     | EcPoint ec_point # _ \<Rightarrow>
         res_bind (ok_or (octet_string_from_der (token h) ec_point) Sec1) (\<lambda>octets.
         ok_or (from_sec1_bytes (token h) octets) P256)
     | OtherAttribute # _ \<Rightarrow> Err (AttributeNotFound (ec_point_name (token h))))"

definition generate_session_signing_key_pair ::
  "pkcs11_hsm \<Rightarrow> nat \<Rightarrow> (handle \<times> handle, hsm_error) res" where
  "generate_session_signing_key_pair h n = with_session h (generate_key_pair (token h) n)"

definition client_wrap_key :: "pkcs11_hsm \<Rightarrow> handle \<Rightarrow> handle \<Rightarrow> (wrapped_key, hsm_error) res" where
  "client_wrap_key h wrapping_key key = with_session h (token_wrap_key (token h) wrapping_key key)"

definition unwrap_signing_key :: "pkcs11_hsm \<Rightarrow> handle \<Rightarrow> wrapped_key \<Rightarrow> (handle, hsm_error) res" where
  "unwrap_signing_key h unwrapping_key wrapped =
     with_session h (token_unwrap_key (token h) unwrapping_key wrapped)"

definition client_sign ::
  "pkcs11_hsm \<Rightarrow> handle \<Rightarrow> signing_mechanism \<Rightarrow> bytes \<Rightarrow> (bytes, hsm_error) res" where
  "client_sign h private_handle mechanism data =
     with_session h (token_sign (token h) mechanism private_handle (sha256 (token h) data))"

definition client_verify ::
  "pkcs11_hsm \<Rightarrow> handle \<Rightarrow> signing_mechanism \<Rightarrow> bytes \<Rightarrow> bytes \<Rightarrow> (unit, hsm_error) res" where
  "client_verify h private_handle mechanism data signature =
     with_session h (if token_verify (token h) mechanism private_handle (sha256 (token h) data) signature
       then Some () else None)"

definition client_random_bytes :: "pkcs11_hsm \<Rightarrow> nat \<Rightarrow> nat \<Rightarrow> (bytes, hsm_error) res" where
  "client_random_bytes h draw len = with_session h (generate_random_vec (token h) draw len)"

definition client_encrypt ::
  "pkcs11_hsm \<Rightarrow> handle \<Rightarrow> bytes \<Rightarrow> bytes \<Rightarrow> (bytes \<times> bytes, hsm_error) res" where
  "client_encrypt h key iv data =
     res_bind (with_session h (token_encrypt (token h) key iv data)) (\<lambda>encrypted_data.
     Ok (encrypted_data, iv))"

definition client_decrypt ::
  "pkcs11_hsm \<Rightarrow> handle \<Rightarrow> bytes \<Rightarrow> bytes \<Rightarrow> (bytes, hsm_error) res" where
  "client_decrypt h key iv encrypted_data = with_session h (token_decrypt (token h) key iv encrypted_data)"

section \<open>The HSM\<close>

definition Hsm_get_verifying_key :: "pkcs11_hsm \<Rightarrow> string \<Rightarrow> (verifying_key, hsm_error) res" where
  "Hsm_get_verifying_key h identifier =
     res_bind (get_public_key_handle h identifier) (client_get_verifying_key h)"

definition sign_ecdsa :: "pkcs11_hsm \<Rightarrow> string \<Rightarrow> bytes \<Rightarrow> (signature, hsm_error) res" where
  "sign_ecdsa h identifier data =
     res_bind (get_private_key_handle h identifier) (\<lambda>key.
     res_bind (client_sign h key Ecdsa256 data) (\<lambda>signature.
     ok_or (signature_from_slice (token h) signature) P256))"

definition sign_hmac :: "pkcs11_hsm \<Rightarrow> string \<Rightarrow> bytes \<Rightarrow> (bytes, hsm_error) res" where
  "sign_hmac h identifier data =
     res_bind (get_private_key_handle h identifier) (\<lambda>key. client_sign h key Sha256Hmac data)"

definition verify_hmac :: "pkcs11_hsm \<Rightarrow> string \<Rightarrow> bytes \<Rightarrow> bytes \<Rightarrow> (unit, hsm_error) res" where
  "verify_hmac h identifier data signature =
     res_bind (get_private_key_handle h identifier) (\<lambda>key. client_verify h key Sha256Hmac data signature)"

definition Hsm_encrypt :: "pkcs11_hsm \<Rightarrow> nat \<Rightarrow> string \<Rightarrow> bytes \<Rightarrow> (encrypted, hsm_error) res" where
  "Hsm_encrypt h draw identifier data =
     res_bind (client_random_bytes h draw 32) (\<lambda>iv.
     res_bind (get_private_key_handle h identifier) (\<lambda>key.
     res_bind (client_encrypt h key iv data) (\<lambda>(encrypted_data, iv').
     Ok \<lparr>enc_data = encrypted_data, enc_iv = iv'\<rparr>)))"

definition Hsm_decrypt :: "pkcs11_hsm \<Rightarrow> string \<Rightarrow> encrypted \<Rightarrow> (bytes, hsm_error) res" where
  "Hsm_decrypt h identifier encrypted =
     res_bind (get_private_key_handle h identifier) (\<lambda>key.
     client_decrypt h key (enc_iv encrypted) (enc_data encrypted))"

definition Encrypter_encrypt ::
  "pkcs11_hsm \<Rightarrow> nat \<Rightarrow> string \<Rightarrow> verifying_key \<Rightarrow> (encrypted, hsm_error) res" where
  "Encrypter_encrypt h draw key_identifier data =
     Hsm_encrypt h draw key_identifier (to_sec1_bytes (token h) data)"

definition Decrypter_decrypt ::
  "pkcs11_hsm \<Rightarrow> string \<Rightarrow> encrypted \<Rightarrow> (verifying_key, hsm_error) res" where
  "Decrypter_decrypt h key_identifier encrypted =
     res_bind (Hsm_decrypt h key_identifier encrypted) (\<lambda>decrypted.
     ok_or (from_sec1_bytes (token h) decrypted) P256)"

definition generate_wrapped_key ::
  "pkcs11_hsm \<Rightarrow> nat \<Rightarrow> (verifying_key \<times> wrapped_key, hsm_error) res" where
  "generate_wrapped_key h n =
     res_bind (get_private_key_handle h (wrapping_key_identifier h)) (\<lambda>private_wrapping_handle.
     res_bind (generate_session_signing_key_pair h n) (\<lambda>(public_handle, private_handle).
     res_bind (client_wrap_key h private_wrapping_handle private_handle) (\<lambda>wrapped.
     res_bind (client_get_verifying_key h public_handle) (\<lambda>key.
     Ok (key, wrapped)))))"

definition generate_wrapped_keys ::
  "pkcs11_hsm \<Rightarrow> string list \<Rightarrow> ((string \<times> verifying_key \<times> wrapped_key) list, hsm_error) res" where
  "generate_wrapped_keys h identifiers =
     res_map (\<lambda>(n, identifier). res_bind (generate_wrapped_key h n) (\<lambda>(pub_key, wrapped).
       Ok (identifier, pub_key, wrapped))) (List.enumerate 0 identifiers)"

definition sign_wrapped :: "pkcs11_hsm \<Rightarrow> wrapped_key \<Rightarrow> bytes \<Rightarrow> (signature, hsm_error) res" where
  "sign_wrapped h wrapped data =
     res_bind (get_private_key_handle h (wrapping_key_identifier h)) (\<lambda>private_wrapping_handle.
     res_bind (unwrap_signing_key h private_wrapping_handle wrapped) (\<lambda>private_handle.
     res_bind (client_sign h private_handle Ecdsa256 data) (\<lambda>signature.
     ok_or (signature_from_slice (token h) signature) P256)))"

section \<open>What the account server relies on\<close>

text \<open>
  What the token and the encodings promise: AES-GCM decrypts what it encrypted with the same
  key and initialization vector, an HMAC verifies with the key that made it, and SEC1
  points decode to the key they encode.
\<close>

definition token_ok :: "pkcs11_hsm \<Rightarrow> bool" where
  "token_ok h \<longleftrightarrow>
     (\<forall>key iv data enc. token_encrypt (token h) key iv data = Some enc \<longrightarrow>
        token_decrypt (token h) key iv enc = Some data) \<and>
     (\<forall>key data sig. token_sign (token h) Sha256Hmac key data = Some sig \<longrightarrow>
        token_verify (token h) Sha256Hmac key data sig) \<and>
     (\<forall>k. from_sec1_bytes (token h) (to_sec1_bytes (token h) k) = Some k)"

lemma with_session_Ok [result_simps]: "with_session h x = Ok a \<longleftrightarrow> pool_get (token h) \<and> x = Some a"
  by (auto simp: with_session_def result_simps)

lemma with_session_no_panic [simp]: "with_session h x \<noteq> Panic"
  by (simp add: with_session_def)

lemma get_key_handle_no_panic [simp]: "get_key_handle h i t \<noteq> Panic"
  by (auto simp: get_key_handle_def result_simps split: list.splits)

lemma hsm_no_panic [simp]:
  "get_private_key_handle h i \<noteq> Panic" "sign_hmac h i d \<noteq> Panic" "verify_hmac h i d s \<noteq> Panic"
  "Encrypter_encrypt h n i k \<noteq> Panic" "Decrypter_decrypt h i e \<noteq> Panic"
  "sign_wrapped h w d \<noteq> Panic" "client_get_verifying_key h pk \<noteq> Panic"
  by (auto simp: get_private_key_handle_def sign_hmac_def verify_hmac_def client_sign_def
      client_verify_def Encrypter_encrypt_def Hsm_encrypt_def client_random_bytes_def client_encrypt_def
      Decrypter_decrypt_def Hsm_decrypt_def client_decrypt_def sign_wrapped_def unwrap_signing_key_def
      client_get_verifying_key_def result_simps
      split: list.splits token_attribute.splits)

lemma generate_wrapped_keys_no_panic [simp]: "generate_wrapped_keys h ids \<noteq> Panic"
  unfolding generate_wrapped_keys_def
  by (rule res_map_not_Panic)
    (auto simp: generate_wrapped_key_def generate_session_signing_key_pair_def client_wrap_key_def
      result_simps)

lemma generate_wrapped_keys_identifiers:
  "generate_wrapped_keys h ids = Ok ks \<Longrightarrow> map fst ks = ids"
proof -
  have "map fst ks = ids" if "res_map (\<lambda>(n, identifier). res_bind (generate_wrapped_key h n)
      (\<lambda>(pub_key, wrapped). Ok (identifier, pub_key, wrapped))) (List.enumerate m ids) = Ok ks" for m
    using that by (induction ids arbitrary: m ks) (auto simp: result_simps)
  then show "generate_wrapped_keys h ids = Ok ks \<Longrightarrow> map fst ks = ids"
    by (simp add: generate_wrapped_keys_def)
qed

locale pin_key_protection =
  fixes usable :: "'h \<Rightarrow> bool"
    and encrypt :: "'h \<Rightarrow> nat \<Rightarrow> string \<Rightarrow> verifying_key \<Rightarrow> (encrypted, hsm_error) res"
    and decrypt :: "'h \<Rightarrow> string \<Rightarrow> encrypted \<Rightarrow> (verifying_key, hsm_error) res"
    and mac :: "'h \<Rightarrow> string \<Rightarrow> bytes \<Rightarrow> (bytes, hsm_error) res"
    and check_mac :: "'h \<Rightarrow> string \<Rightarrow> bytes \<Rightarrow> bytes \<Rightarrow> (unit, hsm_error) res"
  assumes decrypt_encrypt: "usable h \<Longrightarrow> encrypt h n i k = Ok e \<Longrightarrow> decrypt h i e = Ok k"
    and check_mac_mac: "usable h \<Longrightarrow> mac h i d = Ok s \<Longrightarrow> check_mac h i d s = Ok ()"
begin

text \<open>Keys with equal ciphertexts are equal, and a tag of the PIN key checks after decryption.\<close>

lemma encrypt_inj:
  "usable h \<Longrightarrow> encrypt h n i k = Ok e \<Longrightarrow> encrypt h n' i k' = Ok e \<Longrightarrow> k = k'"
  using decrypt_encrypt by (metis res.inject(1))

lemma mac_after_decrypt:
  assumes "usable h" "encrypt h n i k = Ok e" "mac h j (der k) = Ok s" "decrypt h i e = Ok k'"
  shows "check_mac h j (der k') s = Ok ()"
  using assms decrypt_encrypt check_mac_mac by (metis res.inject(1))

end

interpretation ph: pin_key_protection token_ok Encrypter_encrypt Decrypter_decrypt sign_hmac verify_hmac
proof
  show "Decrypter_decrypt h i e = Ok k" if "token_ok h" "Encrypter_encrypt h n i k = Ok e" for h n i k e
    using that by (auto simp: token_ok_def Encrypter_encrypt_def Hsm_encrypt_def client_encrypt_def
        Decrypter_decrypt_def Hsm_decrypt_def client_decrypt_def result_simps)
  show "verify_hmac h i d s = Ok ()" if "token_ok h" "sign_hmac h i d = Ok s" for h i d s
    using that by (auto simp: token_ok_def sign_hmac_def verify_hmac_def client_sign_def client_verify_def
        result_simps)
qed

end
