(* ===== verification/AccountServer.thy ===== *)
theory AccountServer
  imports PinPolicy HsmClient
begin

text \<open>
  The account server of the wallet provider:
  \<open>wallet_provider/service/src/account_server.rs\<close>, the instructions it runs
  (\<open>wallet_provider/service/src/instructions.rs\<close>) and the replies
  (\<open>wallet_provider/src/errors.rs\<close>, \<open>router_state.rs\<close>). A handler takes the committed
  tables and returns its result and the tables then committed. Handlers that use the
  database twice are built from their atomic parts, so that the parts of two requests can
  be interleaved.
\<close>

section \<open>Errors\<close>

datatype wallet_certificate_error =
    PinPubKeyEncoding | PinPubKeyDecoding | HwPubKeyMismatch | PinPubKeyMismatch
  | CertificateValidation jwt_error | UserNotRegistered | UserBlocked
  | CertificatePersistence persistence_error | CertificateHsm hsm_error

datatype challenge_error =
    ChallengeSigning jwt_error | ChallengeStorage persistence_error
  | ChallengeValidation account_error | ChallengeWalletCertificate wallet_certificate_error
  | SequenceNumberValidation

datatype registration_error =
    RegChallengeDecoding | RegChallengeValidation jwt_error
  | RegMessageParsing account_error | RegMessageValidation account_error
  | RegSerialNumberMismatch u64 u64 | RegJwtSigning jwt_error
  | RegCertificateStorage persistence_error | RegPinPubKeyEncoding
  | RegWalletCertificate wallet_certificate_error | RegHsm hsm_error

datatype instruction_validation_error =
    InstrSequenceNumberMismatch | InstrChallengeMismatch | InstrChallengeTimeout
  | VerificationFailed account_error | InstrValidationHsm hsm_error

record incorrect_pin_data =
  ipd_attempts_left_in_round :: u8
  ipd_is_final_round :: bool

datatype instruction_error =
    InstrWalletCertificate wallet_certificate_error
  | InstrValidation instruction_validation_error
  | IncorrectPin incorrect_pin_data
  | PinTimeout u64
  | AccountBlocked
  | InstrSigning jwt_error
  | InstrStorage persistence_error
  | InstrHsm hsm_error

definition instruction_error_from :: "pin_policy_evaluation \<Rightarrow> instruction_error option" where
  "instruction_error_from evaluation = (case evaluation of
     Failed left final \<Rightarrow>
       Some (IncorrectPin \<lparr>ipd_attempts_left_in_round = left, ipd_is_final_round = final\<rparr>)
   | Timeout timeout \<Rightarrow> map_option PinTimeout (u64_try_from (num_milliseconds timeout))
   | InTimeout timeout \<Rightarrow> map_option PinTimeout (u64_try_from (num_milliseconds timeout))
   | BlockedPermanently \<Rightarrow> Some AccountBlocked)"

section \<open>State and environment\<close>

record registration_challenge_claims =
  rcc_wallet_id :: string
  rcc_exp :: u64
  rcc_random :: bytes

datatype instruction_result =
    CheckPinResult
  | GenerateKeyResult "(string \<times> verifying_key) list"
  | SignResult "signature list list"

record instruction_result_claims =
  irc_result :: instruction_result
  irc_iss :: string
  irc_iat :: u64

record account_server =
  instruction_challenge_timeout :: duration
  as_name :: string
  certificate_signing_pubkey :: verifying_key
  encryption_key_identifier :: string
  pin_public_disclosure_protection_key_identifier :: string

text \<open>
  What one request gets from outside: the database, the HSM, the JWT and JSON codecs at the
  claims and payload types, the generators of instants and identifiers, the random bytes
  and strings it draws, the system timestamp, and UTF-8 decoding.
\<close>

record request_env =
  conn :: connection
  hsm :: pkcs11_hsm
  certificate_jwt :: "wallet_certificate_claims jwt_codec"
  challenge_jwt :: "registration_challenge_claims jwt_codec"
  request_jwt :: "instruction_challenge_request_claims jwt_codec"
  result_jwt :: "instruction_result_claims jwt_codec"
  instruction_codec :: "instruction_payload codec"
  registration_codec :: "registration codec"
  time_generator :: clock
  uuid_generator :: "nat \<Rightarrow> uuid"
  random_bytes32 :: bytes
  random_string32 :: string
  current_timestamp :: u64
  from_utf8 :: "bytes \<Rightarrow> string option"

section \<open>Certificates\<close>

definition sign_pin_pubkey ::
  "request_env \<Rightarrow> verifying_key \<Rightarrow> string \<Rightarrow> (bytes, wallet_certificate_error) res" where
  "sign_pin_pubkey env pubkey key_identifier =
     res_bind (ok_or (to_public_key_der (conn env) pubkey) PinPubKeyDecoding) (\<lambda>pin_pubkey_bts.
     map_err CertificateHsm (sign_hmac (hsm env) key_identifier pin_pubkey_bts))"

definition verify_pin_pubkey ::
  "request_env \<Rightarrow> verifying_key \<Rightarrow> bytes \<Rightarrow> string \<Rightarrow> (unit, wallet_certificate_error) res" where
  "verify_pin_pubkey env pubkey pin_pubkey_hash key_identifier =
     res_bind (ok_or (to_public_key_der (conn env) pubkey) PinPubKeyDecoding) (\<lambda>pin_pubkey_bts.
     map_err CertificateHsm (verify_hmac (hsm env) key_identifier pin_pubkey_bts pin_pubkey_hash))"

definition WALLET_CERTIFICATE_VERSION :: u32 where
  "WALLET_CERTIFICATE_VERSION = 0"

definition new_wallet_certificate ::
  "account_server \<Rightarrow> request_env \<Rightarrow> signing_key \<Rightarrow> string \<Rightarrow> verifying_key \<Rightarrow> verifying_key
     \<Rightarrow> (jwt, registration_error) res" where
  "new_wallet_certificate srv env certificate_signing_key wallet_id wallet_hw_pubkey wallet_pin_pubkey =
     res_bind (map_err RegWalletCertificate (sign_pin_pubkey env wallet_pin_pubkey
       (pin_public_disclosure_protection_key_identifier srv))) (\<lambda>pin_pubkey_hash.
     let cert = \<lparr>wcc_wallet_id = wallet_id, wcc_hw_pubkey = wallet_hw_pubkey,
                 wcc_pin_pubkey_hash = pin_pubkey_hash, wcc_version = WALLET_CERTIFICATE_VERSION,
                 wcc_iss = as_name srv, wcc_iat = current_timestamp env\<rparr>
     in map_err RegJwtSigning
          (sign_with_sub (certificate_jwt env) ''wallet_certificate'' cert certificate_signing_key))"

definition verify_registration_challenge ::
  "account_server \<Rightarrow> request_env \<Rightarrow> bytes \<Rightarrow> (registration_challenge_claims, registration_error) res" where
  "verify_registration_challenge srv env challenge =
     res_bind (ok_or (from_utf8 env challenge) RegChallengeDecoding) (\<lambda>text.
     map_err RegChallengeValidation (parse_and_verify_with_sub (jwt_decode_with (challenge_jwt env))
       text (certificate_signing_pubkey srv)))"

text \<open>
  The certificate check reads the user in a transaction of its own. It only reads, so it
  takes the committed tables and returns no new ones.
\<close>

definition verify_wallet_certificate ::
  "account_server \<Rightarrow> request_env \<Rightarrow> jwt \<Rightarrow> tables \<Rightarrow> (wallet_user, wallet_certificate_error) res" where
  "verify_wallet_certificate srv env certificate db =
     res_bind (map_err CertificateValidation (parse_and_verify_with_sub
       (jwt_decode_with (certificate_jwt env)) certificate (certificate_signing_pubkey srv)))
       (\<lambda>cert_data.
     res_bind (map_err CertificatePersistence (begin_transaction (conn env) CertificateTx db)) (\<lambda>tx.
     res_bind (map_err CertificatePersistence
       (find_wallet_user_by_wallet_id (conn env) tx (wcc_wallet_id cert_data))) (\<lambda>user_result.
     res_bind (map_err CertificatePersistence (commit (conn env) CertificateTx tx)) (\<lambda>_.
     case user_result of
       UserNotFound \<Rightarrow> Err UserNotRegistered
     | Blocked \<Rightarrow> Err UserBlocked
     | Found user \<Rightarrow>
         res_bind (map_err CertificateHsm (Decrypter_decrypt (hsm env)
           (encryption_key_identifier srv) (wu_encrypted_pin_pubkey user))) (\<lambda>pin_pubkey.
         case verify_pin_pubkey env pin_pubkey (wcc_pin_pubkey_hash cert_data)
             (pin_public_disclosure_protection_key_identifier srv) of
           Err _ \<Rightarrow> Err PinPubKeyMismatch
         | Panic \<Rightarrow> Panic
         | Ok _ \<Rightarrow>
             if wu_hw_pubkey user \<noteq> wcc_hw_pubkey cert_data then Err HwPubKeyMismatch
             else Ok user)))))"

section \<open>Registration\<close>

definition registration_challenge ::
  "request_env \<Rightarrow> signing_key \<Rightarrow> (bytes, challenge_error) res" where
  "registration_challenge env certificate_signing_key =
     res_bind (map_err ChallengeSigning (sign_with_sub (challenge_jwt env) ''registration_challenge''
       \<lparr>rcc_wallet_id = random_string32 env, rcc_exp = current_timestamp env + 60,
        rcc_random = random_bytes32 env\<rparr> certificate_signing_key)) (\<lambda>challenge.
     Ok (as_bytes challenge))"

definition register ::
  "account_server \<Rightarrow> request_env \<Rightarrow> signing_key \<Rightarrow> json \<Rightarrow> tables
     \<Rightarrow> (jwt, registration_error) res \<times> tables" where
  "register srv env certificate_signing_key registration_message db =
     attempt (map_err RegMessageParsing
       (dangerous_parse_unverified (registration_codec env) registration_message)) db (\<lambda>unverified.
     let challenge = crp_challenge unverified in
     attempt (verify_registration_challenge srv env challenge) db (\<lambda>claims.
     let wallet_id = rcc_wallet_id claims;
         hw_pubkey = reg_hw_pubkey (crp_payload unverified);
         pin_pubkey = reg_pin_pubkey (crp_payload unverified) in
     attempt (map_err RegMessageValidation (parse_and_verify (registration_codec env)
       registration_message challenge (EqualTo 0) hw_pubkey pin_pubkey)) db (\<lambda>_.
     attempt (map_err RegHsm (Encrypter_encrypt (hsm env) 0 (encryption_key_identifier srv)
       pin_pubkey)) db (\<lambda>encrypted_pin_pubkey.
     attempt (map_err RegCertificateStorage (begin_transaction (conn env) HandlerTx db)) db (\<lambda>tx.
     attempt (map_err RegCertificateStorage (create_wallet_user (conn env) tx
       \<lparr>wc_id = uuid_generator env 0, wc_wallet_id = wallet_id, wc_hw_pubkey = hw_pubkey,
        wc_encrypted_pin_pubkey = encrypted_pin_pubkey\<rparr>)) db (\<lambda>tx.
     attempt (new_wallet_certificate srv env certificate_signing_key wallet_id hw_pubkey pin_pubkey)
       db (\<lambda>cert_result.
     attempt (map_err RegCertificateStorage (commit (conn env) HandlerTx tx)) db (\<lambda>db.
     (Ok cert_result, db)))))))))"

section \<open>Instructions\<close>

definition instruction_challenge ::
  "account_server \<Rightarrow> request_env \<Rightarrow> instruction_challenge_request_message \<Rightarrow> tables
     \<Rightarrow> (bytes, challenge_error) res \<times> tables" where
  "instruction_challenge srv env challenge_request db =
     attempt (map_err ChallengeStorage (begin_transaction (conn env) HandlerTx db)) db (\<lambda>tx.
     attempt (map_err ChallengeWalletCertificate
       (verify_wallet_certificate srv env (icm_certificate challenge_request) db)) db (\<lambda>user.
     attempt (map_err (ChallengeValidation \<circ> AccountJwt) (parse_and_verify_with_sub
       (jwt_decode_with (request_jwt env)) (icm_message challenge_request) (wu_hw_pubkey user))) db
       (\<lambda>parsed.
     if icr_sequence_number parsed \<le> wu_instruction_sequence_number user
     then attempt (map_err ChallengeStorage (commit (conn env) HandlerTx tx)) db
            (\<lambda>db. (Err SequenceNumberValidation, db))
     else
       let challenge = \<lparr>ic_bytes = random_bytes32 env,
             ic_expiration_date_time = time_generator env 0 + instruction_challenge_timeout srv\<rparr> in
       attempt (map_err ChallengeStorage (update_instruction_challenge_and_sequence_number (conn env)
         (uuid_generator env 0) tx (wu_wallet_id user) challenge (icr_sequence_number parsed))) db
         (\<lambda>tx.
       attempt (map_err ChallengeStorage (commit (conn env) HandlerTx tx)) db (\<lambda>db.
       (Ok (ic_bytes challenge), db))))))"

definition verify_instruction ::
  "account_server \<Rightarrow> request_env \<Rightarrow> signed_instruction \<Rightarrow> wallet_user
     \<Rightarrow> (instruction_payload challenge_response_payload, instruction_validation_error) res" where
  "verify_instruction srv env instruction user =
     res_bind (ok_or (wu_instruction_challenge user) InstrChallengeMismatch) (\<lambda>challenge.
     if ic_expiration_date_time challenge < time_generator env 1 then Err InstrChallengeTimeout
     else
       res_bind (map_err InstrValidationHsm (Decrypter_decrypt (hsm env)
         (encryption_key_identifier srv) (wu_encrypted_pin_pubkey user))) (\<lambda>pin_pubkey.
       map_err VerificationFailed (parse_and_verify (instruction_codec env)
         (si_instruction instruction) (ic_bytes challenge)
         (LargerThan (wu_instruction_sequence_number user)) (wu_hw_pubkey user) pin_pubkey)))"

definition sign_instruction_result ::
  "account_server \<Rightarrow> request_env \<Rightarrow> signing_key \<Rightarrow> instruction_result \<Rightarrow> (jwt, instruction_error) res" where
  "sign_instruction_result srv env instruction_result_signing_key result =
     map_err InstrSigning (sign_with_sub (result_jwt env) ''instruction_result''
       \<lparr>irc_result = result, irc_iss = as_name srv, irc_iat = current_timestamp env\<rparr>
       instruction_result_signing_key)"

definition handle_GenerateKey ::
  "request_env \<Rightarrow> wallet_user \<Rightarrow> string list \<Rightarrow> tables
     \<Rightarrow> (instruction_result, instruction_error) res \<times> tables" where
  "handle_GenerateKey env user identifiers db =
     attempt (map_err InstrHsm (generate_wrapped_keys (hsm env) identifiers)) db (\<lambda>keys.
     let public_keys = map (\<lambda>(identifier, public_key, wrapped_key). (identifier, public_key)) keys;
         wrapped_keys = map (\<lambda>(n, identifier, public_key, wrapped_key).
           \<lparr>wuk_id = uuid_generator env n, wuk_key_identifier = identifier, wuk_key = wrapped_key\<rparr>)
           (List.enumerate 0 keys) in
     attempt (map_err InstrStorage (begin_transaction (conn env) InstructionTx db)) db (\<lambda>tx.
     attempt (map_err InstrStorage (create_keys (conn env) tx
       \<lparr>wuks_wallet_user_id = wu_id user, wuks_keys = wrapped_keys\<rparr>)) db (\<lambda>tx.
     attempt (map_err InstrStorage (commit (conn env) InstructionTx tx)) db (\<lambda>db.
     (Ok (GenerateKeyResult public_keys), db)))))"

definition handle_Sign ::
  "request_env \<Rightarrow> wallet_user \<Rightarrow> (bytes \<times> string list) list \<Rightarrow> tables
     \<Rightarrow> (instruction_result, instruction_error) res" where
  "handle_Sign env user messages_with_identifiers db =
     res_bind (map_err InstrStorage (begin_transaction (conn env) InstructionTx db)) (\<lambda>tx.
     res_bind (map_err InstrStorage (find_keys_by_identifiers (conn env) tx (wu_id user)
       (concat (map snd messages_with_identifiers)))) (\<lambda>found_keys.
     res_bind (map_err InstrStorage (commit (conn env) InstructionTx tx)) (\<lambda>_.
     res_bind (res_map (\<lambda>(data, identifiers). res_map (\<lambda>identifier.
         res_bind (unwrap (found_keys identifier)) (\<lambda>wrapped_key.
         map_err InstrHsm (sign_wrapped (hsm env) wrapped_key data))) identifiers)
       messages_with_identifiers) (\<lambda>signatures.
     Ok (SignResult signatures)))))"

fun handle ::
  "request_env \<Rightarrow> wallet_user \<Rightarrow> instruction_payload \<Rightarrow> tables
     \<Rightarrow> (instruction_result, instruction_error) res \<times> tables" where
  "handle env user CheckPin db = (Ok CheckPinResult, db)"
| "handle env user (GenerateKey identifiers) db = handle_GenerateKey env user identifiers db"
| "handle env user (Sign messages) db = (handle_Sign env user messages db, db)"

text \<open>
  The transaction of an instruction, on the user the certificate check returned: it clears
  the challenge, evaluates the PIN policy, verifies the instruction and records the outcome.
\<close>

definition is_VerificationFailed :: "instruction_validation_error \<Rightarrow> bool" where
  "is_VerificationFailed e = (case e of VerificationFailed _ \<Rightarrow> True | _ \<Rightarrow> False)"

definition verify_and_record ::
  "account_server \<Rightarrow> request_env \<Rightarrow> signed_instruction \<Rightarrow> wallet_user \<Rightarrow> pin_policy_evaluation
     \<Rightarrow> tables \<Rightarrow> tables
     \<Rightarrow> (instruction_payload challenge_response_payload, instruction_error) res \<times> tables" where
  "verify_and_record srv env instruction user pin_eval tx db =
     (case verify_instruction srv env instruction user of
       Ok payload \<Rightarrow>
         attempt (map_err InstrStorage
           (reset_unsuccessful_pin_entries (conn env) tx (wu_wallet_id user))) db (\<lambda>tx.
         attempt (map_err InstrStorage (update_instruction_sequence_number (conn env) tx
           (wu_wallet_id user) (crp_sequence_number payload))) db (\<lambda>tx.
         attempt (map_err InstrStorage (commit (conn env) HandlerTx tx)) db (\<lambda>db.
         (Ok payload, db))))
     | Err validation_error \<Rightarrow>
         if is_VerificationFailed validation_error
         then
           attempt (map_err InstrStorage (register_unsuccessful_pin_entry (conn env) tx
             (wu_wallet_id user) (pin_eval = BlockedPermanently) (time_generator env 2))) db (\<lambda>tx.
           attempt (unwrap (instruction_error_from pin_eval)) db (\<lambda>e.
           attempt (map_err InstrStorage (commit (conn env) HandlerTx tx)) db (\<lambda>db.
           (Err e, db))))
         else (Err (InstrValidation validation_error), db)
     | Panic \<Rightarrow> (Panic, db))"

definition instruction_transaction ::
  "account_server \<Rightarrow> request_env \<Rightarrow> pin_policy \<Rightarrow> signed_instruction \<Rightarrow> wallet_user \<Rightarrow> tables
     \<Rightarrow> (instruction_payload challenge_response_payload, instruction_error) res \<times> tables" where
  "instruction_transaction srv env policy instruction user db =
     attempt (map_err InstrStorage (begin_transaction (conn env) HandlerTx db)) db (\<lambda>tx.
     attempt (map_err InstrStorage
       (clear_instruction_challenge (conn env) tx (wu_wallet_id user))) db (\<lambda>tx.
     attempt (unwrap (PinPolicy_evaluate policy (wu_unsuccessful_pin_entries user + 1)
       (wu_last_unsuccessful_pin_entry user) (time_generator env 0))) db (\<lambda>pin_eval.
     if is_InTimeout pin_eval
     then attempt (map_err InstrStorage (commit (conn env) HandlerTx tx)) db (\<lambda>db.
          attempt (unwrap (instruction_error_from pin_eval)) db (\<lambda>e. (Err e, db)))
     else verify_and_record srv env instruction user pin_eval tx db)))"

definition handle_verified ::
  "account_server \<Rightarrow> request_env \<Rightarrow> signing_key \<Rightarrow> pin_policy \<Rightarrow> signed_instruction \<Rightarrow> wallet_user
     \<Rightarrow> tables \<Rightarrow> (jwt, instruction_error) res \<times> tables" where
  "handle_verified srv env instruction_result_signing_key policy instruction user db =
     (let (r, db) = instruction_transaction srv env policy instruction user db in
      attempt r db (\<lambda>payload.
      let (r, db) = handle env user (crp_payload payload) db in
      attempt r db (\<lambda>instruction_result.
      (sign_instruction_result srv env instruction_result_signing_key instruction_result, db))))"

definition handle_instruction ::
  "account_server \<Rightarrow> request_env \<Rightarrow> signing_key \<Rightarrow> pin_policy \<Rightarrow> signed_instruction \<Rightarrow> tables
     \<Rightarrow> (jwt, instruction_error) res \<times> tables" where
  "handle_instruction srv env instruction_result_signing_key policy instruction db =
     attempt (map_err InstrWalletCertificate
       (verify_wallet_certificate srv env (si_certificate instruction) db)) db (\<lambda>user.
     handle_verified srv env instruction_result_signing_key policy instruction user db)"

section \<open>Replies\<close>

datatype wallet_provider_error =
    WPChallenge challenge_error | WPRegistration registration_error
  | WPInstruction instruction_error | WPHsm hsm_error

datatype account_error_reply =
    ReplyUnexpected | ReplyChallengeValidation | ReplyRegistrationParsing
  | ReplyIncorrectPin incorrect_pin_data | ReplyPinTimeout u64 | ReplyAccountBlocked
  | ReplyInstructionValidation

definition account_error_from :: "wallet_provider_error \<Rightarrow> account_error_reply" where
  "account_error_from e = (case e of
     WPChallenge (ChallengeWalletCertificate UserBlocked) \<Rightarrow> ReplyAccountBlocked
   | WPChallenge _ \<Rightarrow> ReplyChallengeValidation
   | WPRegistration error \<Rightarrow> (case error of
       RegChallengeDecoding \<Rightarrow> ReplyChallengeValidation
     | RegChallengeValidation _ \<Rightarrow> ReplyChallengeValidation
     | RegMessageParsing _ \<Rightarrow> ReplyRegistrationParsing
     | RegMessageValidation _ \<Rightarrow> ReplyRegistrationParsing
     | RegSerialNumberMismatch _ _ \<Rightarrow> ReplyRegistrationParsing
     | RegPinPubKeyEncoding \<Rightarrow> ReplyUnexpected
     | RegJwtSigning _ \<Rightarrow> ReplyUnexpected
     | RegCertificateStorage _ \<Rightarrow> ReplyUnexpected
     | RegWalletCertificate _ \<Rightarrow> ReplyUnexpected
     | RegHsm _ \<Rightarrow> ReplyUnexpected)
   | WPInstruction error \<Rightarrow> (case error of
       IncorrectPin d \<Rightarrow> ReplyIncorrectPin d
     | PinTimeout ms \<Rightarrow> ReplyPinTimeout ms
     | AccountBlocked \<Rightarrow> ReplyAccountBlocked
     | InstrValidation _ \<Rightarrow> ReplyInstructionValidation
     | InstrSigning _ \<Rightarrow> ReplyUnexpected
     | InstrStorage _ \<Rightarrow> ReplyUnexpected
     | InstrWalletCertificate _ \<Rightarrow> ReplyUnexpected
     | InstrHsm _ \<Rightarrow> ReplyUnexpected)
   | WPHsm _ \<Rightarrow> ReplyUnexpected)"

definition status_code :: "account_error_reply \<Rightarrow> nat" where
  "status_code r = (case r of
     ReplyUnexpected \<Rightarrow> 500
   | ReplyChallengeValidation \<Rightarrow> 401
   | ReplyRegistrationParsing \<Rightarrow> 400
   | ReplyIncorrectPin _ \<Rightarrow> 403
   | ReplyPinTimeout _ \<Rightarrow> 403
   | ReplyAccountBlocked \<Rightarrow> 401
   | ReplyInstructionValidation \<Rightarrow> 403)"

end
