(* ===== verification/AccountProtocol.thy ===== *)
theory AccountProtocol
  imports AccountServer
begin

text \<open>
  Properties of the account server, over the view of the tables that the repository contract
  gives: what a request can do to an account, what holds along every sequence of requests,
  and what two requests that overlap can do.
\<close>

section \<open>What one request does\<close>

lemma attempt_elim:
  assumes "attempt r s f = (x, t)"
  obtains a where "r = Ok a" "f a = (x, t)" | e where "x = Err e" "t = s" "r = Err e"
  | "x = Panic" "t = s" "r = Panic"
  using assms by (cases r) auto

lemma begin_commit_simps [result_simps]:
  "begin_transaction c x db = Ok tx \<longleftrightarrow> \<not> refused c (BeginTransaction x) \<and> tx = db"
  "commit c x tx = Ok db' \<longleftrightarrow> \<not> refused c (CommitTransaction x) \<and> db' = tx"
  by (auto simp: begin_transaction_def commit_def)

lemma begin_commit_no_panic [simp]:
  "begin_transaction c x db \<noteq> Panic" "commit c x tx \<noteq> Panic"
  by (simp_all add: begin_transaction_def commit_def)

lemma verify_pin_pubkey_no_panic: "verify_pin_pubkey env k h i \<noteq> Panic"
  by (auto simp: verify_pin_pubkey_def result_simps)

lemma verify_instruction_no_panic: "verify_instruction srv env instr user \<noteq> Panic"
  by (auto simp: verify_instruction_def result_simps)

text \<open>
  A user the certificate check accepts: the certificate is a valid JWT of the server for
  that user's hardware key, and the account exists and is not blocked.
\<close>

lemma verify_wallet_certificate_Ok:
  assumes ok: "tables_ok (conn env) db" and v: "verify_wallet_certificate srv env cert db = Ok user"
  obtains claims a where
    "parse_and_verify_with_sub (jwt_decode_with (certificate_jwt env)) cert
       (certificate_signing_pubkey srv) = Ok claims"
    "account_of (conn env) db (wcc_wallet_id claims) = Some a" "\<not> acc_blocked a" "account_ok a"
    "user = user_of_account (wcc_wallet_id claims) a" "acc_hw_pubkey a = wcc_hw_pubkey claims"
proof -
  from v obtain claims q where
      c: "parse_and_verify_with_sub (jwt_decode_with (certificate_jwt env)) cert
       (certificate_signing_pubkey srv) = Ok claims"
    and f: "find_wallet_user_by_wallet_id (conn env) db (wcc_wallet_id claims) = Ok q"
    and q: "(case q of UserNotFound \<Rightarrow> Err UserNotRegistered | Blocked \<Rightarrow> Err UserBlocked
     | Found user \<Rightarrow> res_bind (map_err CertificateHsm (Decrypter_decrypt (hsm env)
           (encryption_key_identifier srv) (wu_encrypted_pin_pubkey user))) (\<lambda>pin_pubkey.
         case verify_pin_pubkey env pin_pubkey (wcc_pin_pubkey_hash claims)
             (pin_public_disclosure_protection_key_identifier srv) of
           Err _ \<Rightarrow> Err PinPubKeyMismatch | Panic \<Rightarrow> Panic
         | Ok _ \<Rightarrow> if wu_hw_pubkey user \<noteq> wcc_hw_pubkey claims then Err HwPubKeyMismatch
                   else Ok user)) = Ok user"
    by (auto simp: verify_wallet_certificate_def result_simps)
  from q obtain u k where u: "q = Found u" "(case verify_pin_pubkey env k (wcc_pin_pubkey_hash claims)
             (pin_public_disclosure_protection_key_identifier srv) of
           Err _ \<Rightarrow> Err PinPubKeyMismatch | Panic \<Rightarrow> Panic
         | Ok _ \<Rightarrow> if wu_hw_pubkey u \<noteq> wcc_hw_pubkey claims then Err HwPubKeyMismatch
                   else Ok u) = Ok user"
    by (cases q) (auto simp: result_simps)
  from u(2) have "u = user \<and> wu_hw_pubkey user = wcc_hw_pubkey claims"
    by (cases "verify_pin_pubkey env k (wcc_pin_pubkey_hash claims)
      (pin_public_disclosure_protection_key_identifier srv)") (auto split: if_splits)
  with f u(1) have f: "find_wallet_user_by_wallet_id (conn env) db (wcc_wallet_id claims) = Ok (Found user)"
    and k: "wu_hw_pubkey user = wcc_hw_pubkey claims" by auto
  from wr.found_user [OF ok f] obtain a where "account_of (conn env) db (wcc_wallet_id claims) = Some a"
    "\<not> acc_blocked a" "account_ok a" "user = user_of_account (wcc_wallet_id claims) a" by blast
  with c k that show thesis by (simp add: user_of_account_def)
qed

lemma verify_wallet_certificate_blocked:
  assumes ok: "tables_ok (conn env) db"
    and c: "parse_and_verify_with_sub (jwt_decode_with (certificate_jwt env)) cert
      (certificate_signing_pubkey srv) = Ok claims"
    and a: "account_of (conn env) db (wcc_wallet_id claims) = Some a" "acc_blocked a"
  shows "verify_wallet_certificate srv env cert db \<in> {Err UserBlocked} \<union> range (Err \<circ> CertificatePersistence)"
  using find_law [OF ok, of "wcc_wallet_id claims"] c a
  by (auto simp: verify_wallet_certificate_def query_of_account_def begin_transaction_def commit_def)

text \<open>What the transaction of an instruction leaves in the account it names.\<close>

definition cleared :: "account \<Rightarrow> account" where
  "cleared a = a\<lparr>acc_challenge := None\<rparr>"

definition failed_once :: "bool \<Rightarrow> datetime \<Rightarrow> account \<Rightarrow> account" where
  "failed_once b d = with_failure b d \<circ> cleared"

definition succeeded :: "u64 \<Rightarrow> account \<Rightarrow> account" where
  "succeeded n = acc_sequence_number_update (\<lambda>_. unat n) \<circ> with_reset \<circ> cleared"

lemmas account_updates = cleared_def failed_once_def succeeded_def with_failure_def with_reset_def
  with_challenge_def

lemma cleared_eq: "cleared = acc_challenge_update (\<lambda>_. None)"
  by (simp add: fun_eq_iff cleared_def)

definition untouched :: "(instruction_payload challenge_response_payload, instruction_error) res \<Rightarrow> bool" where
  "untouched r \<longleftrightarrow> r = Panic \<or> (\<exists>e. r = Err (InstrStorage e)) \<or>
     (\<exists>v. r = Err (InstrValidation v) \<and> \<not> is_VerificationFailed v)"

lemma untouched_simps [simp]:
  "untouched Panic" "untouched (Err (InstrStorage e))" "\<not> untouched (Ok p)"
  "untouched (Err (InstrValidation v)) \<longleftrightarrow> \<not> is_VerificationFailed v"
  by (auto simp: untouched_def)

lemma verify_and_record_cases:
  assumes t: "verify_and_record srv env instr user ev tx db = (r, db')"
  obtains (early) "untouched r" "db' = db"
  | (failed) v e where "verify_instruction srv env instr user = Err (VerificationFailed v)"
      "instruction_error_from ev = Some e" "r = Err e"
      "register_unsuccessful_pin_entry (conn env) tx (wu_wallet_id user)
         (ev = BlockedPermanently) (time_generator env 2) = Ok db'"
  | (verified) payload tx1 where "verify_instruction srv env instr user = Ok payload" "r = Ok payload"
      "reset_unsuccessful_pin_entries (conn env) tx (wu_wallet_id user) = Ok tx1"
      "update_instruction_sequence_number (conn env) tx1 (wu_wallet_id user)
         (crp_sequence_number payload) = Ok db'"
proof (cases "verify_instruction srv env instr user")
  case (Ok payload)
  show thesis
  proof (cases "reset_unsuccessful_pin_entries (conn env) tx (wu_wallet_id user)")
    case reset: (Ok tx1)
    show thesis
    proof (cases "update_instruction_sequence_number (conn env) tx1 (wu_wallet_id user)
        (crp_sequence_number payload)")
      case (Ok tx2)
      with t \<open>verify_instruction srv env instr user = Ok payload\<close> reset early verified show thesis
        by (cases "commit (conn env) HandlerTx tx2")
          (auto simp: verify_and_record_def result_simps)
    qed (use t Ok reset early in \<open>auto simp: verify_and_record_def\<close>)
  qed (use t Ok early in \<open>auto simp: verify_and_record_def\<close>)
next
  case (Err v)
  show thesis
  proof (cases "is_VerificationFailed v")
    case True
    then obtain v' where v: "v = VerificationFailed v'"
      by (auto simp: is_VerificationFailed_def split: instruction_validation_error.splits)
    show thesis
    proof (cases "register_unsuccessful_pin_entry (conn env) tx (wu_wallet_id user)
         (ev = BlockedPermanently) (time_generator env 2)")
      case (Ok tx1)
      with t Err True v early failed show thesis
        by (cases "instruction_error_from ev"; cases "commit (conn env) HandlerTx tx1")
          (auto simp: verify_and_record_def result_simps)
    qed (use t Err True early in \<open>auto simp: verify_and_record_def\<close>)
  qed (use t Err early in \<open>auto simp: verify_and_record_def\<close>)
qed (use t early in \<open>auto simp: verify_and_record_def\<close>)

lemma instruction_transaction_cases:
  assumes ok: "tables_ok (conn env) db"
    and t: "instruction_transaction srv env policy instr user db = (r, db')"
  obtains
    (early) "untouched r" "db' = db"
  | (in_timeout) d where
      "PinPolicy_evaluate policy (wu_unsuccessful_pin_entries user + 1)
         (wu_last_unsuccessful_pin_entry user) (time_generator env 0) = Some (InTimeout d)"
      "r = Panic \<or> (\<exists>ms. r = Err (PinTimeout ms) \<and> u64_try_from (num_milliseconds d) = Some ms)"
      "tables_ok (conn env) db'"
      "account_of (conn env) db' = on_account (wu_wallet_id user) cleared (account_of (conn env) db)"
  | (failed) ev e v where
      "PinPolicy_evaluate policy (wu_unsuccessful_pin_entries user + 1)
         (wu_last_unsuccessful_pin_entry user) (time_generator env 0) = Some ev" "\<not> is_InTimeout ev"
      "instruction_error_from ev = Some e" "r = Err e"
      "verify_instruction srv env instr user = Err (VerificationFailed v)"
      "tables_ok (conn env) db'"
      "account_of (conn env) db' = on_account (wu_wallet_id user)
         (failed_once (ev = BlockedPermanently) (time_generator env 2)) (account_of (conn env) db)"
  | (verified) ev payload where
      "PinPolicy_evaluate policy (wu_unsuccessful_pin_entries user + 1)
         (wu_last_unsuccessful_pin_entry user) (time_generator env 0) = Some ev" "\<not> is_InTimeout ev"
      "verify_instruction srv env instr user = Ok payload" "r = Ok payload"
      "tables_ok (conn env) db'"
      "account_of (conn env) db' = on_account (wu_wallet_id user)
         (succeeded (crp_sequence_number payload)) (account_of (conn env) db)"
proof -
  let ?ev = "PinPolicy_evaluate policy (wu_unsuccessful_pin_entries user + 1)
    (wu_last_unsuccessful_pin_entry user) (time_generator env 0)"
  let ?w = "wu_wallet_id user"
  consider "untouched r" "db' = db"
    | tx ev where "clear_instruction_challenge (conn env) db ?w = Ok tx" "?ev = Some ev"
      "(if is_InTimeout ev
       then attempt (map_err InstrStorage (commit (conn env) HandlerTx tx)) db (\<lambda>db.
          attempt (unwrap (instruction_error_from ev)) db (\<lambda>e. (Err e, db)))
       else verify_and_record srv env instr user ev tx db) = (r, db')"
    using t by (cases "begin_transaction (conn env) HandlerTx db";
        cases "clear_instruction_challenge (conn env) db ?w"; cases ?ev)
      (auto simp: instruction_transaction_def result_simps)
  then show thesis
  proof cases
    case 1 then show thesis by (rule early)
  next
    case (2 tx ev)
    note clr = wr.clear_view [OF ok 2(1), folded cleared_eq]
    show thesis
    proof (cases "is_InTimeout ev")
      case True
      then obtain d where d: "ev = InTimeout d"
        by (cases ev) auto
      show thesis
      proof (cases "commit (conn env) HandlerTx tx")
        case (Ok tx')
        then have "tx' = tx" by (simp add: result_simps)
        with Ok True 2 d clr show thesis
          by (intro in_timeout [of d]; cases "u64_try_from (num_milliseconds d)")
            (auto simp: instruction_error_from_def)
      qed (use 2 True early in auto)
    next
      case False
      with 2 have "verify_and_record srv env instr user ev tx db = (r, db')" by simp
      then show thesis
      proof (cases rule: verify_and_record_cases)
        case early then show thesis by (rule that(1))
      next
        case (failed v e)
        with wr.clear_then_failure [OF ok 2(1), folded cleared_eq] False 2(2) show thesis
          by (intro that(3) [of ev e v]) (auto simp: failed_once_def)
      next
        case (verified payload tx1)
        with wr.clear_reset_sequence [OF ok 2(1), folded cleared_eq] False 2(2) show thesis
          by (intro that(4) [of ev payload]) (auto simp: succeeded_def)
      qed
    qed
  qed
qed

text \<open>Registration adds one account or changes nothing.\<close>

lemma register_cases:
  assumes ok: "tables_ok (conn env) db" and der: "der_roundtrip (conn env)"
    and t: "register srv env key msg db = (r, db')"
  obtains (unchanged) "db' = db" "\<And>c. r \<noteq> Ok c"
  | (registered) unverified claims enc cert where
      "dangerous_parse_unverified (registration_codec env) msg = Ok unverified"
      "verify_registration_challenge srv env (crp_challenge unverified) = Ok claims"
      "parse_and_verify (registration_codec env) msg (crp_challenge unverified) (EqualTo 0)
         (reg_hw_pubkey (crp_payload unverified)) (reg_pin_pubkey (crp_payload unverified)) = Ok unverified"
      "Encrypter_encrypt (hsm env) 0 (encryption_key_identifier srv)
         (reg_pin_pubkey (crp_payload unverified)) = Ok enc"
      "new_wallet_certificate srv env key (rcc_wallet_id claims) (reg_hw_pubkey (crp_payload unverified))
         (reg_pin_pubkey (crp_payload unverified)) = Ok cert"
      "r = Ok cert" "tables_ok (conn env) db'"
      "account_of (conn env) db (rcc_wallet_id claims) = None"
      "account_of (conn env) db' = (account_of (conn env) db)(rcc_wallet_id claims \<mapsto>
         new_account \<lparr>wc_id = uuid_generator env 0, wc_wallet_id = rcc_wallet_id claims,
           wc_hw_pubkey = reg_hw_pubkey (crp_payload unverified), wc_encrypted_pin_pubkey = enc\<rparr>)"
proof (cases "\<exists>c. r = Ok c")
  case False
  have "db' = db" using t False
    by (auto simp: register_def Let_def result_simps elim!: attempt_elim)
  with False unchanged show thesis by blast
next
  case True
  with t obtain unverified claims p enc tx cert where
      1: "dangerous_parse_unverified (registration_codec env) msg = Ok unverified"
      "verify_registration_challenge srv env (crp_challenge unverified) = Ok claims"
      "parse_and_verify (registration_codec env) msg (crp_challenge unverified) (EqualTo 0)
         (reg_hw_pubkey (crp_payload unverified)) (reg_pin_pubkey (crp_payload unverified)) = Ok p"
      "Encrypter_encrypt (hsm env) 0 (encryption_key_identifier srv)
         (reg_pin_pubkey (crp_payload unverified)) = Ok enc"
      "new_wallet_certificate srv env key (rcc_wallet_id claims) (reg_hw_pubkey (crp_payload unverified))
         (reg_pin_pubkey (crp_payload unverified)) = Ok cert" "r = Ok cert"
    and 2: "create_wallet_user (conn env) db \<lparr>wc_id = uuid_generator env 0,
      wc_wallet_id = rcc_wallet_id claims, wc_hw_pubkey = reg_hw_pubkey (crp_payload unverified),
      wc_encrypted_pin_pubkey = enc\<rparr> = Ok db'"
    by (auto simp: register_def Let_def result_simps)
  from 1(1,3) have "p = unverified" by (auto simp: parse_and_verify_def result_simps)
  with 1 create_law [OF ok der 2] registered show thesis by simp
qed

lemma unat_sequence_number:
  "account_ok a \<Longrightarrow> unat (of_nat (acc_sequence_number a) :: u64) = acc_sequence_number a"
  by (simp add: account_ok_def unsigned_of_nat take_bit_nat_eq_self)

text \<open>A challenge request stores a challenge with a larger sequence number or changes nothing.\<close>

lemma instruction_challenge_cases:
  assumes ok: "tables_ok (conn env) db"
    and t: "instruction_challenge srv env req db = (r, db')"
  obtains (unchanged) "db' = db" "\<And>c. r \<noteq> Ok c"
  | (challenged) claims a parsed where
      "parse_and_verify_with_sub (jwt_decode_with (certificate_jwt env)) (icm_certificate req)
         (certificate_signing_pubkey srv) = Ok claims"
      "account_of (conn env) db (wcc_wallet_id claims) = Some a" "\<not> acc_blocked a" "account_ok a"
      "parse_and_verify_with_sub (jwt_decode_with (request_jwt env)) (icm_message req)
         (acc_hw_pubkey a) = Ok parsed"
      "acc_sequence_number a < unat (icr_sequence_number parsed)"
      "r = Ok (random_bytes32 env)" "tables_ok (conn env) db'"
      "account_of (conn env) db' = on_account (wcc_wallet_id claims)
         (with_challenge \<lparr>ic_bytes = random_bytes32 env,
           ic_expiration_date_time = time_generator env 0 + instruction_challenge_timeout srv\<rparr>
           (unat (icr_sequence_number parsed))) (account_of (conn env) db)"
proof (cases "\<exists>c. r = Ok c")
  case False
  have "db' = db" using t False
    by (auto simp: instruction_challenge_def Let_def result_simps split: if_splits elim!: attempt_elim)
  with False unchanged show thesis by blast
next
  case True
  with t obtain user parsed where
      v: "verify_wallet_certificate srv env (icm_certificate req) db = Ok user"
    and p: "parse_and_verify_with_sub (jwt_decode_with (request_jwt env)) (icm_message req)
      (wu_hw_pubkey user) = Ok parsed"
    and n: "wu_instruction_sequence_number user < icr_sequence_number parsed"
    and u: "update_instruction_challenge_and_sequence_number (conn env) (uuid_generator env 0) db
      (wu_wallet_id user) \<lparr>ic_bytes = random_bytes32 env, ic_expiration_date_time =
        time_generator env 0 + instruction_challenge_timeout srv\<rparr> (icr_sequence_number parsed) = Ok db'"
    and r: "r = Ok (random_bytes32 env)"
    by (auto simp: instruction_challenge_def Let_def result_simps not_le split: if_splits)
  from verify_wallet_certificate_Ok [OF ok v] obtain claims a where
      c: "parse_and_verify_with_sub (jwt_decode_with (certificate_jwt env)) (icm_certificate req)
         (certificate_signing_pubkey srv) = Ok claims"
    and a: "account_of (conn env) db (wcc_wallet_id claims) = Some a" "\<not> acc_blocked a" "account_ok a"
    and user: "user = user_of_account (wcc_wallet_id claims) a"
    by blast
  have "acc_sequence_number a < unat (icr_sequence_number parsed)"
    using n a(3) by (simp add: user user_of_account_def word_less_nat_alt unat_sequence_number)
  with c a p r wr.challenge_view [OF ok u] challenged show thesis
    by (simp add: user user_of_account_def)
qed

text \<open>Running an instruction leaves every account as it is.\<close>

lemma handle_view:
  assumes "tables_ok (conn env) db" "handle env user p db = (r, db')"
  shows "tables_ok (conn env) db' \<and> account_of (conn env) db' = account_of (conn env) db"
proof (cases p)
  case (GenerateKey ids)
  with assms show ?thesis
    by (auto simp: handle_GenerateKey_def Let_def result_simps create_keys_law elim!: attempt_elim)
qed (use assms in auto)

lemma handle_verified_view:
  assumes ok: "tables_ok (conn env) db"
    and t: "handle_verified srv env key policy instr user db = (r, db')"
    and "instruction_transaction srv env policy instr user db = (r1, db1)" "tables_ok (conn env) db1"
  shows "tables_ok (conn env) db' \<and> account_of (conn env) db' = account_of (conn env) db1"
  using assms handle_view [of env db1]
  by (auto simp: handle_verified_def split: prod.splits elim!: attempt_elim)

lemma instruction_transaction_ok:
  assumes "tables_ok (conn env) db" "instruction_transaction srv env policy instr user db = (r, db')"
  shows "tables_ok (conn env) db'"
  using assms(2) by (cases rule: instruction_transaction_cases [OF assms(1)]) (use assms(1) in auto)

lemma verify_instruction_Ok:
  assumes "verify_instruction srv env instr user = Ok p"
  obtains challenge pin_pubkey where
    "wu_instruction_challenge user = Some challenge"
    "time_generator env 1 \<le> ic_expiration_date_time challenge"
    "Decrypter_decrypt (hsm env) (encryption_key_identifier srv) (wu_encrypted_pin_pubkey user)
       = Ok pin_pubkey"
    "parse_and_verify (instruction_codec env) (si_instruction instr) (ic_bytes challenge)
       (LargerThan (wu_instruction_sequence_number user)) (wu_hw_pubkey user) pin_pubkey = Ok p"
  using assms by (auto simp: verify_instruction_def result_simps split: if_splits)

lemma parse_and_verify_sequence_number:
  assumes "codec_coherent c" "parse_and_verify c s ch cmp hw pin = Ok p"
  shows "crp_challenge p = ch" "SequenceNumberComparison_verify cmp (crp_sequence_number p)"
  using assms unfolding parse_and_verify_def dangerous_parse_unverified_def codec_coherent_def
  by (fastforce simp: result_simps)+

lemma verified_sequence_number:
  assumes "codec_coherent (instruction_codec env)"
    "verify_instruction srv env instr (user_of_account w a) = Ok p" "account_ok a"
  shows "acc_sequence_number a < unat (crp_sequence_number p)"
proof -
  from verify_instruction_Ok [OF assms(2)] obtain ch k where
    "parse_and_verify (instruction_codec env) (si_instruction instr) ch
       (LargerThan (of_nat (acc_sequence_number a))) (acc_hw_pubkey a) k = Ok p"
    by (metis (no_types, lifting) user_of_account_def wallet_user.select_convs(3,8))
  from parse_and_verify_sequence_number(2) [OF assms(1) this] assms(3) show ?thesis
    by (simp add: word_less_nat_alt unat_sequence_number)
qed

text \<open>
  What an instruction request can do: nothing, or one of three changes to the unblocked
  account its certificate names.
\<close>

lemma verify_wallet_certificate_no_panic:
  assumes "tables_ok (conn env) db"
  shows "verify_wallet_certificate srv env cert db \<noteq> Panic"
  using assms find_law [OF assms] verify_pin_pubkey_no_panic
  by (auto simp: verify_wallet_certificate_def result_simps
      split: wallet_user_query_result.splits res.splits if_splits)

lemma handle_instruction_cases:
  assumes ok: "tables_ok (conn env) db"
    and t: "handle_instruction srv env key policy instr db = (r, db')"
  obtains (rejected) e where "r = Err (InstrWalletCertificate e)" "db' = db"
  | (handled) claims a r1 db1 where
      "parse_and_verify_with_sub (jwt_decode_with (certificate_jwt env)) (si_certificate instr)
         (certificate_signing_pubkey srv) = Ok claims"
      "account_of (conn env) db (wcc_wallet_id claims) = Some a" "\<not> acc_blocked a" "account_ok a"
      "acc_hw_pubkey a = wcc_hw_pubkey claims"
      "instruction_transaction srv env policy instr (user_of_account (wcc_wallet_id claims) a) db = (r1, db1)"
      "tables_ok (conn env) db1" "tables_ok (conn env) db'"
      "account_of (conn env) db' = account_of (conn env) db1"
      "handle_verified srv env key policy instr (user_of_account (wcc_wallet_id claims) a) db = (r, db')"
proof (cases "verify_wallet_certificate srv env (si_certificate instr) db")
  case (Ok user)
  from verify_wallet_certificate_Ok [OF ok Ok] obtain claims a where
    1: "parse_and_verify_with_sub (jwt_decode_with (certificate_jwt env)) (si_certificate instr)
         (certificate_signing_pubkey srv) = Ok claims"
      "account_of (conn env) db (wcc_wallet_id claims) = Some a" "\<not> acc_blocked a" "account_ok a"
      "acc_hw_pubkey a = wcc_hw_pubkey claims"
    and user: "user = user_of_account (wcc_wallet_id claims) a"
    by blast
  obtain r1 db1 where tr: "instruction_transaction srv env policy instr user db = (r1, db1)"
    by fastforce
  from t Ok have hv: "handle_verified srv env key policy instr user db = (r, db')"
    by (simp add: handle_instruction_def)
  have "tables_ok (conn env) db1" using instruction_transaction_ok [OF ok tr] .
  with handle_verified_view [OF ok hv tr] 1 tr hv handled show thesis by (simp add: user)
qed (use t rejected verify_wallet_certificate_no_panic [OF ok] in \<open>auto simp: handle_instruction_def\<close>)

section \<open>Sequences of requests\<close>

text \<open>
  Requests one after the other, each with its own environment: any messages, any clock, any
  refused statements. The encoding of public keys is the same in all of them.
\<close>

definition env_ok :: "connection \<Rightarrow> request_env \<Rightarrow> bool" where
  "env_ok c env \<longleftrightarrow> from_public_key_der (conn env) = from_public_key_der c \<and>
     der_roundtrip (conn env) \<and> codec_coherent (instruction_codec env)"

inductive step :: "connection \<Rightarrow> account_server \<Rightarrow> pin_policy \<Rightarrow> tables \<Rightarrow> tables \<Rightarrow> bool"
  for c :: connection and srv :: account_server and policy :: pin_policy where
  register_step:
    "env_ok c env \<Longrightarrow> register srv env key msg db = (r, db') \<Longrightarrow> step c srv policy db db'"
| challenge_step:
    "env_ok c env \<Longrightarrow> instruction_challenge srv env req db = (r', db') \<Longrightarrow> step c srv policy db db'"
| instruction_step:
    "env_ok c env \<Longrightarrow> handle_instruction srv env key policy instr db = (r'', db')
       \<Longrightarrow> step c srv policy db db'"

inductive_cases stepE: "step c srv policy db db'"

lemma tables_ok_cong:
  assumes "env_ok c env"
  shows "tables_ok (conn env) = tables_ok c" "account_of (conn env) = account_of c"
  using assms by (auto simp: env_ok_def fun_eq_iff tables_ok_def row_ok_def account_of_def)

text \<open>
  The changes one request can make to the accounts, for a policy: this is the specification
  of the account server that the handlers refine.
\<close>

definition account_change :: "pin_policy \<Rightarrow> account \<Rightarrow> account \<Rightarrow> bool" where
  "account_change policy a a' \<longleftrightarrow> a' = cleared a \<or>
     (\<exists>ch n. a' = with_challenge ch n a \<and> acc_sequence_number a < n) \<or>
     (\<exists>ev now d. PinPolicy_evaluate policy (of_nat (acc_entries a) + 1) (acc_last_unsuccessful a) now
        = Some ev \<and> a' = failed_once (ev = BlockedPermanently) d a) \<or>
     (\<exists>n. a' = succeeded n a \<and> acc_sequence_number a < unat n)"

definition step_effect ::
  "pin_policy \<Rightarrow> (string \<Rightarrow> account option) \<Rightarrow> (string \<Rightarrow> account option) \<Rightarrow> bool" where
  "step_effect policy m m' \<longleftrightarrow> m' = m \<or>
     (\<exists>w new. m w = None \<and> m' = m(w \<mapsto> new) \<and> acc_entries new = 0 \<and> \<not> acc_blocked new) \<or>
     (\<exists>w a a'. m w = Some a \<and> \<not> acc_blocked a \<and> m' = m(w \<mapsto> a') \<and> account_change policy a a')"

lemma step_effect_same [simp]: "step_effect policy m m"
  by (simp add: step_effect_def)

lemma step_effect_change:
  assumes "m w = Some a" "\<not> acc_blocked a" "m' = on_account w g m" "account_change policy a (g a)"
  shows "step_effect policy m m'"
  unfolding step_effect_def using assms
  by (intro disjI2 exI [of _ w] exI [of _ a] exI [of _ "g a"]) (simp add: on_account_def)

lemma step_effect_new:
  assumes "m w = None" "m' = m(w \<mapsto> new)" "acc_entries new = 0" "\<not> acc_blocked new"
  shows "step_effect policy m m'"
  using assms unfolding step_effect_def by blast

lemma instruction_effect:
  assumes ok: "tables_ok (conn env) db" and co: "codec_coherent (instruction_codec env)"
    and t: "handle_instruction srv env key policy instr db = (r, db')"
  shows "tables_ok (conn env) db' \<and>
    step_effect policy (account_of (conn env) db) (account_of (conn env) db')"
  using ok t
proof (cases rule: handle_instruction_cases)
  case (handled claims a r1 db1)
  let ?u = "user_of_account (wcc_wallet_id claims) a"
  note u = handled(2,3) user_of_account_def [of "wcc_wallet_id claims" a]
  from ok handled(6) have "step_effect policy (account_of (conn env) db) (account_of (conn env) db1)"
  proof (cases rule: instruction_transaction_cases)
    case (in_timeout d)
    with u show ?thesis
      by (intro step_effect_change [of _ "wcc_wallet_id claims" a _ cleared]) (simp_all add: account_change_def)
  next
    case (failed ev e v)
    with u show ?thesis
      by (intro step_effect_change [of _ "wcc_wallet_id claims" a]) (auto simp: account_change_def)
  next
    case (verified ev payload)
    have "acc_sequence_number a < unat (crp_sequence_number payload)"
      using verified_sequence_number [OF co verified(3) handled(4)] .
    with verified u show ?thesis
      by (intro step_effect_change [of _ "wcc_wallet_id claims" a]) (auto simp: account_change_def)
  qed simp
  with handled show ?thesis by simp
qed (use ok in simp)

lemma challenge_effect:
  assumes ok: "tables_ok (conn env) db" and t: "instruction_challenge srv env req db = (r, db')"
  shows "tables_ok (conn env) db' \<and>
    step_effect policy (account_of (conn env) db) (account_of (conn env) db')"
  using ok t
proof (cases rule: instruction_challenge_cases)
  case (challenged claims a parsed)
  then show ?thesis
    by (intro conjI step_effect_change [of _ "wcc_wallet_id claims" a]) (auto simp: account_change_def)
qed (use ok in simp)

lemma register_effect:
  assumes ok: "tables_ok (conn env) db" and der: "der_roundtrip (conn env)"
    and t: "register srv env key msg db = (r, db')"
  shows "tables_ok (conn env) db' \<and>
    step_effect policy (account_of (conn env) db) (account_of (conn env) db')"
  using ok der t
proof (cases rule: register_cases)
  case (registered unverified claims enc cert)
  then show ?thesis
    by (intro conjI step_effect_new [of _ "rcc_wallet_id claims"]) (auto simp: new_account_def)
qed (use ok in simp)

lemma step_sound:
  assumes ok: "tables_ok c db" and st: "step c srv policy db db'"
  shows "tables_ok c db' \<and> step_effect policy (account_of c db) (account_of c db')"
  using st
proof cases
  case (register_step env key msg r)
  with register_effect [of env db] ok tables_ok_cong [of c env] show ?thesis by (simp add: env_ok_def)
next
  case (challenge_step env req r')
  with challenge_effect [of env db] ok tables_ok_cong [of c env] show ?thesis by simp
next
  case (instruction_step env key instr r'')
  with instruction_effect [of env db] ok tables_ok_cong [of c env] show ?thesis by (simp add: env_ok_def)
qed

section \<open>A concrete server\<close>

text \<open>
  A server, an HSM and an environment at which the properties are applied: one registered
  wallet with a pending challenge (the tables \<open>demo_tables\<close>), a policy with the default
  settings, and an environment in which nothing fails.
\<close>

definition demo_token :: pkcs11 where
  "demo_token = \<lparr>pool_get = True, find_objects = (\<lambda>_ _. Some [1]), token_sign = (\<lambda>_ _ d. Some d),
     token_verify = (\<lambda>_ _ d s. s = d), generate_random_vec = (\<lambda>_ _. Some []),
     token_encrypt = (\<lambda>_ _ d. Some d), token_decrypt = (\<lambda>_ _ d. Some d),
     generate_key_pair = (\<lambda>_. Some (1, 2)), token_wrap_key = (\<lambda>_ _. Some [5]),
     token_unwrap_key = (\<lambda>_ _. Some 2), get_attributes = (\<lambda>_. Some [EcPoint [6]]),
     octet_string_from_der = Some, from_sec1_bytes = Some, to_sec1_bytes = (\<lambda>k. k),
     signature_from_slice = Some, ec_point_name = ''EcPoint'', sha256 = (\<lambda>d. d)\<rparr>"

definition accepting_jwt :: "'c \<Rightarrow> 'c jwt_codec" where
  "accepting_jwt claims = \<lparr>jwt_decode_with = (\<lambda>_ _ _. Some claims), print_header = Some,
     print_claims = (\<lambda>_ sub. Some sub), base64url = map (\<lambda>b. char_of (unat b))\<rparr>"

definition demo_server :: account_server where
  "demo_server = \<lparr>instruction_challenge_timeout = seconds 15, as_name = ''account_server'',
     certificate_signing_pubkey = [9], encryption_key_identifier = ''enc'',
     pin_public_disclosure_protection_key_identifier = ''pin''\<rparr>"

definition demo_env :: "datetime \<Rightarrow> request_env" where
  "demo_env now = \<lparr>conn = demo_connection,
     hsm = \<lparr>token = demo_token, wrapping_key_identifier = ''wrap''\<rparr>,
     certificate_jwt = accepting_jwt \<lparr>wcc_wallet_id = ''w'', wcc_hw_pubkey = [1],
       wcc_pin_pubkey_hash = [2], wcc_version = 0, wcc_iss = ''account_server'', wcc_iat = 0\<rparr>,
     challenge_jwt = accepting_jwt \<lparr>rcc_wallet_id = ''v'', rcc_exp = 60, rcc_random = []\<rparr>,
     request_jwt = accepting_jwt \<lparr>icr_sequence_number = 3, icr_iss = ''wallet'', icr_iat = 0\<rparr>,
     result_jwt = accepting_jwt \<lparr>irc_result = CheckPinResult, irc_iss = ''account_server'', irc_iat = 0\<rparr>,
     instruction_codec = demo_codec CheckPin,
     registration_codec = demo_codec \<lparr>reg_pin_pubkey = [2], reg_hw_pubkey = [1]\<rparr>,
     time_generator = (\<lambda>_. now), uuid_generator = (\<lambda>n. n + 10), random_bytes32 = [8],
     random_string32 = ''v'', current_timestamp = 0, from_utf8 = (\<lambda>b. Some [])\<rparr>"

definition wrong_pin :: signed_instruction where
  "wrong_pin = \<lparr>si_instruction = [], si_certificate = ''certificate''\<rparr>"

lemma demo_env_time: "time_generator (demo_env now) n = now"
  by (simp add: demo_env_def)

lemma demo_env_ok: "env_ok demo_connection (demo_env now)"
  by (simp add: env_ok_def demo_env_def der_roundtrip_def demo_connection_def demo_codec_coherent)

definition demo_account :: account where
  "demo_account = \<lparr>acc_id = 1, acc_hw_pubkey = [1],
     acc_pin_pubkey = \<lparr>enc_data = [2], enc_iv = []\<rparr>, acc_entries = 0, acc_last_unsuccessful = None,
     acc_blocked = False, acc_challenge = Some \<lparr>ic_bytes = [7], ic_expiration_date_time = 100\<rparr>,
     acc_sequence_number = 2\<rparr>"

lemma demo_account_of: "account_of demo_connection demo_tables ''w'' = Some demo_account"
  by (simp add: demo_connection_def demo_tables_def account_of_def find_user_def find_challenge_def
      demo_account_def)

lemma demo_decrypt:
  "Decrypter_decrypt (hsm (demo_env now)) i (acc_pin_pubkey demo_account) = Ok [2]"
  by (simp add: demo_env_def demo_account_def Decrypter_decrypt_def Hsm_decrypt_def client_decrypt_def
      get_private_key_handle_def get_key_handle_def with_session_def demo_token_def)

lemma demo_certificate:
  assumes ok: "tables_ok demo_connection db" and a: "account_of demo_connection db ''w'' = Some a"
    "acc_pin_pubkey a = acc_pin_pubkey demo_account" "acc_hw_pubkey a = [1]" "\<not> acc_blocked a"
  shows "verify_wallet_certificate demo_server (demo_env now) cert db = Ok (user_of_account ''w'' a)"
proof -
  have conn: "conn (demo_env now) = demo_connection" by (simp add: demo_env_def)
  have "verify_pin_pubkey (demo_env now) [2] [2] i = Ok ()" for i
    by (simp add: verify_pin_pubkey_def verify_hmac_def client_verify_def demo_env_def
        demo_connection_def get_private_key_handle_def get_key_handle_def with_session_def demo_token_def)
  moreover have "jwt_decode_with (certificate_jwt (demo_env now)) cert k v = Some
      \<lparr>wcc_wallet_id = ''w'', wcc_hw_pubkey = [1], wcc_pin_pubkey_hash = [2], wcc_version = 0,
       wcc_iss = ''account_server'', wcc_iat = 0\<rparr>" for k v
    by (simp add: demo_env_def accepting_jwt_def)
  moreover have "\<not> refused demo_connection s" for s by (simp add: demo_connection_def)
  ultimately show ?thesis
    using find_law [OF ok, of "''w''"] a demo_decrypt [of now]
    by (simp add: verify_wallet_certificate_def conn parse_and_verify_with_sub_def
        Jwt_parse_and_verify_def begin_transaction_def commit_def query_of_account_def user_of_account_def)
qed

text \<open>
  C16: every request to the account server, whatever its messages, clock and database
  failures, refines the specification of one step: it keeps the tables consistent and
  either changes nothing, adds a fresh unblocked account, or changes the one unblocked
  account its certificate names by clearing the challenge, storing a challenge with a larger
  sequence number, recording one failed PIN entry as the policy says, or recording a success
  with a larger sequence number.
\<close>

theorem step_refines_effect:
  assumes "tables_ok c db" and "step c srv policy db db'"
  shows "tables_ok c db' \<and> step_effect policy (account_of c db) (account_of c db')"
  using assms by (rule step_sound)

lemma demo_step:
  "step demo_connection demo_server default_pin_policy demo_tables
     (snd (handle_instruction demo_server (demo_env 0) (\<lambda>_. None) default_pin_policy wrong_pin demo_tables))"
  by (rule step.instruction_step [OF demo_env_ok]) (rule prod.collapse [symmetric])

theorem step_refines_effect_witness:
  "tables_ok demo_connection (snd (handle_instruction demo_server (demo_env 0) (\<lambda>_. None)
     default_pin_policy wrong_pin demo_tables))"
  using step_refines_effect [OF demo_tables_ok demo_step] by simp

section \<open>Wrong PINs\<close>

text \<open>
  The invariant of the PIN policy: an account never counts more failures than the policy
  allows, and it is blocked exactly when it has used them all up.
\<close>

definition policy_inv :: "pin_policy \<Rightarrow> (string \<Rightarrow> account option) \<Rightarrow> bool" where
  "policy_inv policy m \<longleftrightarrow> (\<forall>w a. m w = Some a \<longrightarrow>
     account_ok a \<and> acc_entries a \<le> total_attempts policy \<and>
     (acc_blocked a \<longleftrightarrow> acc_entries a = total_attempts policy))"

lemma next_attempt:
  assumes "account_ok a" "acc_entries a < total_attempts policy" "pin_policy_ok policy"
  shows "unat (of_nat (acc_entries a) + 1 :: u8) = acc_entries a + 1"
    and "consistent_start (of_nat (acc_entries a) + 1) (acc_last_unsuccessful a)"
proof -
  from assms pp.limit_bounds [OF assms(3)] have lt: "acc_entries a + 1 < 256" by simp
  have "unat (of_nat (acc_entries a + 1) :: u8) = acc_entries a + 1"
    using lt by (simp only: unsigned_of_nat take_bit_nat_eq_self len_num0 len_bit0) (simp add: take_bit_nat_eq_self)
  then show u: "unat (of_nat (acc_entries a) + 1 :: u8) = acc_entries a + 1"
    by (simp add: add.commute)
  show "consistent_start (of_nat (acc_entries a) + 1) (acc_last_unsuccessful a)"
    using u assms(1) by (auto simp: consistent_start_def account_ok_def u8_less_iff u8_eq_iff)
qed

lemma failure_blocks_at_limit:
  assumes "account_ok a" "acc_entries a < total_attempts policy" "pin_policy_ok policy"
    "PinPolicy_evaluate policy (of_nat (acc_entries a) + 1) (acc_last_unsuccessful a) now = Some ev"
  shows "ev = BlockedPermanently \<longleftrightarrow> acc_entries a + 1 = total_attempts policy"
  using pp.evaluate_blocked [OF assms(3) next_attempt(2) [OF assms(1-3)], of now] assms(2,4)
    next_attempt(1) [OF assms(1-3)] by auto

lemma change_keeps_policy:
  assumes "account_ok a" "acc_entries a < total_attempts policy" "pin_policy_ok policy"
    "\<not> acc_blocked a" "account_change policy a a'"
  shows "acc_entries a' \<le> total_attempts policy \<and>
    (acc_blocked a' \<longleftrightarrow> acc_entries a' = total_attempts policy)"
  using assms pp.limit_bounds [OF assms(3)] failure_blocks_at_limit [OF assms(1-3)]
  by (auto simp: account_change_def account_updates)

lemma step_keeps_policy:
  assumes pol: "pin_policy_ok policy" and ok: "tables_ok c db" and inv: "policy_inv policy (account_of c db)"
    and st: "step c srv policy db db'"
  shows "policy_inv policy (account_of c db')"
proof -
  from step_sound [OF ok st] have ok': "tables_ok c db'"
    and eff: "step_effect policy (account_of c db) (account_of c db')" by auto
  have aok: "account_ok a" if "account_of c db' w = Some a" for w a
    using account_of_ok [OF ok' that] .
  from eff consider "account_of c db' = account_of c db"
    | w new where "account_of c db' = (account_of c db)(w \<mapsto> new)" "acc_entries new = 0" "\<not> acc_blocked new"
    | w a a' where "account_of c db w = Some a" "\<not> acc_blocked a"
      "account_of c db' = (account_of c db)(w \<mapsto> a')" "account_change policy a a'"
    unfolding step_effect_def by blast
  then show ?thesis
  proof cases
    case 1 then show ?thesis using inv by simp
  next
    case 2 then show ?thesis using inv pp.limit_bounds [OF pol] aok
      by (auto simp: policy_inv_def)
  next
    case (3 w a a')
    with inv have "account_ok a" "acc_entries a < total_attempts policy"
      by (auto simp: policy_inv_def order_less_le)
    from change_keeps_policy [OF this pol 3(2,4)] 3(3) inv aok show ?thesis
      by (auto simp: policy_inv_def)
  qed
qed

definition empty_tables :: tables where
  "empty_tables = \<lparr>users = [], challenges = [], user_keys = []\<rparr>"

lemma empty_tables_ok: "tables_ok c empty_tables" "account_of c empty_tables = Map.empty"
  by (auto simp: empty_tables_def tables_ok_def keys_constraints_def account_of_def find_user_def)

lemma steps_keep_policy:
  assumes pol: "pin_policy_ok policy" and r: "(step c srv policy)\<^sup>*\<^sup>* db db'"
    and "tables_ok c db" "policy_inv policy (account_of c db)"
  shows "tables_ok c db' \<and> policy_inv policy (account_of c db')"
  using r assms(3,4)
  by (induction rule: rtranclp_induct) (use pol step_sound step_keeps_policy in blast)+

text \<open>
  C12: a wrong PIN can be tried at most as often as the policy allows. In every state
  reachable from an empty database by any sequence of requests, no account counts more
  failures than rounds times attempts per round, and an account is blocked exactly when it
  has reached that number.
\<close>

theorem reachable_policy_invariant:
  assumes pol: "pin_policy_ok policy" and r: "(step c srv policy)\<^sup>*\<^sup>* empty_tables db"
    and a: "account_of c db w = Some a"
  shows "acc_entries a \<le> total_attempts policy \<and>
    (acc_blocked a \<longleftrightarrow> acc_entries a = total_attempts policy)"
  using steps_keep_policy [OF pol r] empty_tables_ok [of c] a by (auto simp: policy_inv_def)

text \<open>The same server with a registration in an empty database.\<close>

lemma demo_register:
  obtains msg cert where
    "fst (register demo_server (demo_env 0) Some msg empty_tables) = Ok cert"
proof -
  let ?env = "demo_env 0"
  let ?p = "\<lparr>crp_payload = \<lparr>reg_pin_pubkey = [2], reg_hw_pubkey = [1]\<rparr>, crp_challenge = [],
    crp_sequence_number = 0\<rparr>"
  obtain msg where msg: "parse_and_verify (registration_codec ?env) msg [] (EqualTo 0) [1] [2] = Ok ?p"
    using demo_codec_accepts [of "EqualTo 0" 0 "\<lparr>reg_pin_pubkey = [2], reg_hw_pubkey = [1]\<rparr>" "[]" "[1]" "[2]"]
    by (auto simp: demo_env_def)
  then have "dangerous_parse_unverified (registration_codec ?env) msg = Ok ?p"
    by (auto simp: parse_and_verify_def result_simps)
  with msg have "\<exists>cert. fst (register demo_server ?env Some msg empty_tables) = Ok cert"
    by (simp add: register_def verify_registration_challenge_def parse_and_verify_with_sub_def
        Jwt_parse_and_verify_def demo_env_def accepting_jwt_def Encrypter_encrypt_def Hsm_encrypt_def
        client_random_bytes_def client_encrypt_def get_private_key_handle_def get_key_handle_def
        with_session_def demo_token_def begin_transaction_def demo_connection_def create_wallet_user_def
        new_wallet_certificate_def sign_pin_pubkey_def sign_hmac_def client_sign_def sign_with_sub_def
        Jwt_sign_def Let_def commit_def empty_tables_def)
  then show thesis using that by blast
qed

lemma demo_registered:
  obtains db where "step demo_connection demo_server policy empty_tables db"
    "tables_ok demo_connection db" "account_of demo_connection db ''v'' \<noteq> None"
proof -
  obtain msg cert where "fst (register demo_server (demo_env 0) Some msg empty_tables) = Ok cert"
    by (rule demo_register)
  then obtain db where r: "register demo_server (demo_env 0) Some msg empty_tables = (Ok cert, db)"
    by (metis prod.collapse)
  have c: "conn (demo_env 0) = demo_connection" by (simp add: demo_env_def)
  have "tables_ok (conn (demo_env 0)) empty_tables" "der_roundtrip (conn (demo_env 0))"
    using empty_tables_ok demo_env_ok [of 0] by (auto simp: env_ok_def)
  from this r have "tables_ok demo_connection db \<and> account_of demo_connection db ''v'' \<noteq> None"
  proof (cases rule: register_cases)
    case (registered unverified claims enc cert)
    moreover have "rcc_wallet_id claims = ''v''"
      using registered(2) by (auto simp: verify_registration_challenge_def demo_env_def accepting_jwt_def
          parse_and_verify_with_sub_def Jwt_parse_and_verify_def)
    ultimately show ?thesis by (simp add: c)
  qed blast
  with step.register_step [OF demo_env_ok r] that show thesis by blast
qed

theorem reachable_policy_invariant_witness:
  "\<exists>db a. (step demo_connection demo_server default_pin_policy)\<^sup>*\<^sup>* empty_tables db \<and>
     account_of demo_connection db ''v'' = Some a \<and> acc_entries a \<le> 16"
proof -
  obtain db where db: "step demo_connection demo_server default_pin_policy empty_tables db"
    "account_of demo_connection db ''v'' \<noteq> None" by (rule demo_registered)
  then obtain a where a: "account_of demo_connection db ''v'' = Some a" by blast
  have "pin_policy_ok default_pin_policy"
    by (simp add: pin_policy_ok_def default_pin_policy_def seconds_def)
  from reachable_policy_invariant [OF this r_into_rtranclp, OF db(1) a] db a show ?thesis
    by (auto simp: default_pin_policy_def)
qed

lemma step_frozen:
  assumes "tables_ok c db" "step c srv policy db db'" "account_of c db w = Some a" "acc_blocked a"
  shows "account_of c db' w = Some a"
  using step_sound [OF assms(1,2)] assms(3,4) unfolding step_effect_def by auto

text \<open>
  C20: blocking is permanent. Once an account is blocked, no sequence of requests one after
  the other changes anything of it: it stays blocked with the same keys, counter, challenge
  and sequence number.
\<close>

theorem blocked_account_is_frozen:
  assumes "tables_ok c db" and "(step c srv policy)\<^sup>*\<^sup>* db db'"
    and "account_of c db w = Some a" and "acc_blocked a"
  shows "account_of c db' w = Some a"
proof -
  from assms(2) have "tables_ok c db' \<and> account_of c db' w = Some a"
    by (induction rule: rtranclp_induct) (use assms step_sound step_frozen in blast)+
  then show ?thesis by simp
qed

definition blocked_tables :: tables where
  "blocked_tables = update_users ''w'' (\<lambda>r. r\<lparr>ur_pin_entries := 16,
     ur_last_unsuccessful_pin := Some 0, ur_is_blocked := True\<rparr>) demo_tables"

lemma blocked_tables_ok: "tables_ok demo_connection blocked_tables"
  "account_of demo_connection blocked_tables ''w'' = Some (demo_account\<lparr>acc_entries := 16,
     acc_last_unsuccessful := Some 0, acc_blocked := True\<rparr>)"
  by (simp_all add: blocked_tables_def demo_tables_def update_users_def tables_ok_def row_ok_def
      demo_connection_def keys_constraints_def account_of_def find_user_def find_challenge_def
      demo_account_def)

theorem blocked_account_is_frozen_witness:
  "account_of demo_connection (snd (handle_instruction demo_server (demo_env 0) (\<lambda>_. None)
     default_pin_policy wrong_pin blocked_tables)) ''w'' = Some (demo_account\<lparr>acc_entries := 16,
     acc_last_unsuccessful := Some 0, acc_blocked := True\<rparr>)"
proof -
  have "step demo_connection demo_server default_pin_policy blocked_tables
     (snd (handle_instruction demo_server (demo_env 0) (\<lambda>_. None) default_pin_policy wrong_pin blocked_tables))"
    by (rule step.instruction_step [OF demo_env_ok]) (rule prod.collapse [symmetric])
  from blocked_account_is_frozen [OF blocked_tables_ok(1) r_into_rtranclp, OF this blocked_tables_ok(2)]
  show ?thesis by simp
qed

section \<open>Accepted instructions\<close>

lemma handle_verified_Ok:
  assumes "handle_verified srv env key policy instr user db = (Ok res, db')"
  obtains payload db1 result where
    "instruction_transaction srv env policy instr user db = (Ok payload, db1)"
    "handle env user (crp_payload payload) db1 = (Ok result, db')"
    "sign_instruction_result srv env key result = Ok res"
proof -
  obtain r1 db1 where tr: "instruction_transaction srv env policy instr user db = (r1, db1)"
    by fastforce
  with assms obtain payload where p: "r1 = Ok payload"
    by (auto simp: handle_verified_def result_simps)
  obtain r2 db2 where h: "handle env user (crp_payload payload) db1 = (r2, db2)" by fastforce
  from assms tr p h show thesis
    by (auto simp: handle_verified_def result_simps intro: that)
qed

lemma handle_instruction_Ok:
  assumes ok: "tables_ok (conn env) db"
    and t: "handle_instruction srv env key policy instr db = (Ok res, db')"
  obtains claims a payload where
      "parse_and_verify_with_sub (jwt_decode_with (certificate_jwt env)) (si_certificate instr)
         (certificate_signing_pubkey srv) = Ok claims"
      "account_of (conn env) db (wcc_wallet_id claims) = Some a" "\<not> acc_blocked a" "account_ok a"
      "acc_hw_pubkey a = wcc_hw_pubkey claims"
      "verify_instruction srv env instr (user_of_account (wcc_wallet_id claims) a) = Ok payload"
      "account_of (conn env) db' = on_account (wcc_wallet_id claims)
         (succeeded (crp_sequence_number payload)) (account_of (conn env) db)"
  using ok t
proof (cases rule: handle_instruction_cases)
  case (handled claims a r1 db1)
  from handle_verified_Ok [OF handled(10)] handled(6) obtain p where "r1 = Ok p"
    by (metis prod.inject)
  from ok handled(6) this show thesis
  proof (cases rule: instruction_transaction_cases)
    case (verified ev payload)
    with handled that [of claims a payload] show thesis by (simp add: user_of_account_def)
  qed auto
qed simp


lemma demo_statements:
  assumes "tables_ok demo_connection db"
  shows "\<exists>t. clear_instruction_challenge demo_connection db w = Ok t"
    "\<exists>t. reset_unsuccessful_pin_entries demo_connection db w = Ok t"
    "unat n < 2 ^ 31 \<Longrightarrow> \<exists>t. update_instruction_sequence_number demo_connection db w n = Ok t"
    "\<exists>t. register_unsuccessful_pin_entry demo_connection db w b d = Ok t"
    "begin_transaction demo_connection x db = Ok db" "commit demo_connection x db = Ok db"
  by (simp_all add: clear_instruction_challenge_def reset_unsuccessful_pin_entries_def
      register_unsuccessful_pin_entry_def update_instruction_sequence_number_def update_pin_entries_def
      begin_transaction_def commit_def demo_connection_def)

lemma demo_evaluate:
  "PinPolicy_evaluate default_pin_policy 1 None now = Some (Failed 3 False)"
  by (simp add: PinPolicy_evaluate_def evaluate_round_def evaluate_failed_def is_blocked_def
      attempts_left_in_round_def current_round_def is_final_round_def default_pin_policy_def
      rust_assert_def current_timeout_def word_le_nat_alt word_less_nat_alt)

lemma demo_accepts:
  obtains instr res db where
    "handle_instruction demo_server (demo_env 0) Some default_pin_policy instr demo_tables = (Ok res, db)"
proof -
  let ?env = "demo_env 0"
  let ?u = "user_of_account ''w'' demo_account"
  let ?p = "\<lparr>crp_payload = CheckPin, crp_challenge = [7], crp_sequence_number = 3\<rparr>"
  have conn: "conn ?env = demo_connection" by (simp add: demo_env_def)
  obtain s where s: "parse_and_verify (instruction_codec ?env) s [7] (LargerThan 2) [1] [2] = Ok ?p"
    using demo_codec_accepts [of "LargerThan 2" 3 CheckPin "[7]" "[1]" "[2]"] by (auto simp: demo_env_def)
  define instr where "instr = \<lparr>si_instruction = s, si_certificate = ''certificate''\<rparr>"
  have "wu_encrypted_pin_pubkey ?u = acc_pin_pubkey demo_account" by (simp add: user_of_account_def)
  then have v: "verify_instruction demo_server ?env instr ?u = Ok ?p"
    using s demo_decrypt [of 0] by (simp add: verify_instruction_def user_of_account_def
        demo_account_def instr_def demo_env_def)
  obtain t1 where t1: "clear_instruction_challenge demo_connection demo_tables ''w'' = Ok t1"
    "tables_ok demo_connection t1"
    using demo_statements(1) [OF demo_tables_ok] wr.clear_view [OF demo_tables_ok] by blast
  obtain t2 where t2: "reset_unsuccessful_pin_entries demo_connection t1 ''w'' = Ok t2"
    "tables_ok demo_connection t2"
    using demo_statements(2) [OF t1(2)] wr.reset_view [OF t1(2)] by blast
  obtain t3 where t3: "update_instruction_sequence_number demo_connection t2 ''w'' 3 = Ok t3"
    using demo_statements(3) [OF t2(2), of 3] by auto
  have "instruction_transaction demo_server ?env default_pin_policy instr ?u demo_tables = (Ok ?p, t3)"
    using demo_statements(5,6) [OF demo_tables_ok] t1(1) t2(1) t3 v demo_evaluate [of 0]
    by (simp add: instruction_transaction_def verify_and_record_def conn user_of_account_def
        demo_account_def demo_env_def begin_transaction_def commit_def demo_connection_def)
  moreover have "\<exists>res. sign_instruction_result demo_server ?env Some CheckPinResult = Ok res"
    by (simp add: sign_instruction_result_def sign_with_sub_def Jwt_sign_def demo_env_def
        accepting_jwt_def Let_def)
  ultimately obtain res where "handle_verified demo_server ?env Some default_pin_policy instr ?u demo_tables
      = (Ok res, t3)"
    by (auto simp: handle_verified_def)
  then have "handle_instruction demo_server ?env Some default_pin_policy instr demo_tables = (Ok res, t3)"
    using demo_certificate [OF demo_tables_ok demo_account_of]
    by (simp add: handle_instruction_def demo_account_def)
  then show thesis by (rule that)
qed


text \<open>Sequence numbers never go down.\<close>

lemma step_sequence_number:
  assumes "tables_ok c db" "step c srv policy db db'" "account_of c db w = Some a"
  shows "\<exists>a'. account_of c db' w = Some a' \<and> acc_sequence_number a \<le> acc_sequence_number a'"
  using step_sound [OF assms(1,2)] assms(3) unfolding step_effect_def account_change_def
  by (fastforce simp: account_updates)

lemma steps_sequence_number:
  assumes "(step c srv policy)\<^sup>*\<^sup>* db db'" "tables_ok c db" "account_of c db w = Some a"
  shows "tables_ok c db' \<and>
    (\<exists>a'. account_of c db' w = Some a' \<and> acc_sequence_number a \<le> acc_sequence_number a')"
  using assms
proof (induction rule: rtranclp_induct)
  case (step y z)
  then show ?case using step_sound step_sequence_number by (meson order_trans)
qed blast

text \<open>
  C7: no replay. An instruction that was answered once is never answered again by a later
  request, whatever requests come in between: its sequence number is then no longer larger
  than the stored one.
\<close>

theorem accepted_instruction_is_not_replayed:
  assumes ok: "tables_ok c db" and e1: "env_ok c env" and e2: "env_ok c env'"
    and formats: "certificate_jwt env' = certificate_jwt env" "instruction_codec env' = instruction_codec env"
    and first: "handle_instruction srv env key policy instr db = (Ok res, db1)"
    and between: "(step c srv policy)\<^sup>*\<^sup>* db1 db2"
  shows "handle_instruction srv env' key' policy instr db2 \<noteq> (Ok res', db3)"
proof
  assume second: "handle_instruction srv env' key' policy instr db2 = (Ok res', db3)"
  note cong = tables_ok_cong [OF e1] tables_ok_cong [OF e2]
  have co: "codec_coherent (instruction_codec env)" using e1 by (simp add: env_ok_def)
  have ok1: "tables_ok c db1" using step_sound [OF ok step.instruction_step [OF e1 first]] by simp
  from handle_instruction_Ok [OF _ first, unfolded cong, OF ok] obtain claims a p where
      1: "parse_and_verify_with_sub (jwt_decode_with (certificate_jwt env)) (si_certificate instr)
         (certificate_signing_pubkey srv) = Ok claims"
      "account_of c db (wcc_wallet_id claims) = Some a"
      "verify_instruction srv env instr (user_of_account (wcc_wallet_id claims) a) = Ok p"
      "account_of c db1 = on_account (wcc_wallet_id claims) (succeeded (crp_sequence_number p)) (account_of c db)"
    by blast
  then have "account_of c db1 (wcc_wallet_id claims) = Some (succeeded (crp_sequence_number p) a)" by simp
  from steps_sequence_number [OF between ok1 this] obtain a2 where
      ok2: "tables_ok c db2" and a2: "account_of c db2 (wcc_wallet_id claims) = Some a2"
      "unat (crp_sequence_number p) \<le> acc_sequence_number a2"
    by (auto simp: account_updates)
  from handle_instruction_Ok [OF _ second, unfolded cong, OF ok2] 1(1) a2(1) formats obtain p' where
      2: "account_ok a2" "verify_instruction srv env' instr (user_of_account (wcc_wallet_id claims) a2) = Ok p'"
    by (metis option.inject res.inject(1))
  have "from_nested (instruction_codec env) (si_instruction instr) = Some p"
    using verify_instruction_Ok [OF 1(3)]
    by (auto simp: parse_and_verify_def dangerous_parse_unverified_def result_simps)
  moreover have "from_nested (instruction_codec env) (si_instruction instr) = Some p'"
    using verify_instruction_Ok [OF 2(2)] formats
    by (auto simp: parse_and_verify_def dangerous_parse_unverified_def result_simps)
  ultimately have "p' = p" by simp
  with verified_sequence_number [OF _ 2(2,1)] co formats a2(2) show False by simp
qed

theorem accepted_instruction_is_not_replayed_witness:
  "\<exists>instr res db1. handle_instruction demo_server (demo_env 0) Some default_pin_policy instr demo_tables
      = (Ok res, db1) \<and>
     (\<forall>res' db3. handle_instruction demo_server (demo_env 5) Some default_pin_policy instr db1 \<noteq> (Ok res', db3))"
proof -
  obtain instr res db where
    h: "handle_instruction demo_server (demo_env 0) Some default_pin_policy instr demo_tables = (Ok res, db)"
    by (rule demo_accepts)
  have "certificate_jwt (demo_env 5) = certificate_jwt (demo_env 0)"
    "instruction_codec (demo_env 5) = instruction_codec (demo_env 0)"
    by (simp_all add: demo_env_def)
  from accepted_instruction_is_not_replayed
    [OF demo_tables_ok demo_env_ok demo_env_ok this h rtranclp.rtrancl_refl] h
  show ?thesis by blast
qed

section \<open>Rejected instructions\<close>

lemma instruction_error_from_kinds:
  "instruction_error_from ev = Some e \<Longrightarrow> (\<exists>d. e = IncorrectPin d) \<or> (\<exists>ms. e = PinTimeout ms) \<or> e = AccountBlocked"
  by (auto simp: instruction_error_from_def split: pin_policy_evaluation.splits)

lemma handle_errors:
  "handle env user p db = (Err e, db') \<Longrightarrow> (\<exists>h. e = InstrHsm h) \<or> (\<exists>s. e = InstrStorage s)"
proof (cases p)
  case (Sign messages)
  have inner: "(\<exists>h. e = InstrHsm h)" if "res_map f xs = Err e" "\<And>x e. f x = Err e \<Longrightarrow> \<exists>h. e = InstrHsm h"
    for f :: "'x \<Rightarrow> ('y, instruction_error) res" and xs e
    using that by (induction xs) (auto simp: result_simps)
  assume "handle env user p db = (Err e, db')"
  with Sign have "handle_Sign env user messages db = Err e" by auto
  then show ?thesis
    by (auto simp: handle_Sign_def result_simps dest!: inner split: prod.splits)
qed (auto simp: handle_GenerateKey_def Let_def elim!: attempt_elim)

text \<open>
  C26: a request that is refused because of its certificate, or because the account has no
  challenge or an expired one, changes nothing. In particular the transaction's first
  statement, which clears the challenge, is rolled back with it.
\<close>

theorem refused_instruction_changes_nothing:
  assumes ok: "tables_ok (conn env) db"
    and t: "handle_instruction srv env key policy instr db = (Err e, db')"
    and e: "e = InstrWalletCertificate c \<or> e = InstrValidation v"
  shows "db' = db"
  using ok t
proof (cases rule: handle_instruction_cases)
  case (handled claims a r1 db1)
  have r1: "r1 = Err e \<and> db1 = db'"
  proof (cases r1)
    case (Ok payload)
    with handled(6,10) e show ?thesis
      by (auto simp: handle_verified_def sign_instruction_result_def split: prod.splits
          elim!: attempt_elim dest!: handle_errors)
  qed (use handled(6,10) in \<open>auto simp: handle_verified_def\<close>)
  from ok handled(6) show ?thesis
    by (cases rule: instruction_transaction_cases)
      (use r1 e in \<open>auto dest!: instruction_error_from_kinds\<close>)
qed

theorem refused_instruction_changes_nothing_witness:
  "snd (handle_instruction demo_server (demo_env 101) Some default_pin_policy wrong_pin demo_tables) = demo_tables"
proof -
  let ?u = "user_of_account ''w'' demo_account"
  have conn: "conn (demo_env 101) = demo_connection" by (simp add: demo_env_def)
  obtain t1 where t1: "clear_instruction_challenge demo_connection demo_tables ''w'' = Ok t1"
    using demo_statements(1) [OF demo_tables_ok] by blast
  have "verify_instruction demo_server (demo_env 101) wrong_pin ?u = Err InstrChallengeTimeout"
    by (simp add: verify_instruction_def user_of_account_def demo_account_def demo_env_def)
  then have "instruction_transaction demo_server (demo_env 101) default_pin_policy wrong_pin ?u demo_tables
      = (Err (InstrValidation InstrChallengeTimeout), demo_tables)"
    using t1 demo_evaluate [of 101]
    by (simp add: instruction_transaction_def verify_and_record_def user_of_account_def
        demo_account_def demo_env_def begin_transaction_def demo_connection_def is_VerificationFailed_def)
  then have "handle_instruction demo_server (demo_env 101) Some default_pin_policy wrong_pin demo_tables
      = (Err (InstrValidation InstrChallengeTimeout), demo_tables)"
    using demo_certificate [OF demo_tables_ok demo_account_of]
    by (simp add: handle_instruction_def handle_verified_def demo_account_def)
  with refused_instruction_changes_nothing [OF _ this] demo_tables_ok conn show ?thesis by simp
qed

text \<open>
  C24: a wrong PIN is counted. When the certificate is accepted, the policy is not in a
  timeout, the instruction fails verification and the database accepts the statements, the
  reply is the policy's verdict on one more failure, the failure is counted with the time of
  the request, the challenge is used up, and the account is blocked if and only if that was
  the last attempt the policy allows.
\<close>

theorem wrong_pin_is_counted:
  assumes ok: "tables_ok (conn env) db" and pol: "pin_policy_ok policy"
    and cert: "verify_wallet_certificate srv env (si_certificate instr) db = Ok (user_of_account w a)"
    and a: "account_of (conn env) db w = Some a" "acc_entries a < total_attempts policy"
    and db: "\<forall>s. \<not> refused (conn env) s"
    and ev: "PinPolicy_evaluate policy (of_nat (acc_entries a) + 1) (acc_last_unsuccessful a)
      (time_generator env 0) = Some ev" "\<not> is_InTimeout ev" "instruction_error_from ev = Some e"
    and wrong: "verify_instruction srv env instr (user_of_account w a) = Err (VerificationFailed v)"
  shows "\<exists>db'. handle_instruction srv env key policy instr db = (Err e, db') \<and>
    account_of (conn env) db' = (account_of (conn env) db)(w \<mapsto>
      a\<lparr>acc_challenge := None, acc_entries := acc_entries a + 1,
        acc_last_unsuccessful := Some (time_generator env 2),
        acc_blocked := (acc_entries a + 1 = total_attempts policy)\<rparr>)"
proof -
  let ?u = "user_of_account w a"
  have u: "wu_wallet_id ?u = w" "wu_unsuccessful_pin_entries ?u = of_nat (acc_entries a)"
    "wu_last_unsuccessful_pin_entry ?u = acc_last_unsuccessful a" by (simp_all add: user_of_account_def)
  have aok: "account_ok a" using account_of_ok [OF ok a(1)] .
  obtain t1 where t1: "clear_instruction_challenge (conn env) db w = Ok t1"
    using db by (auto simp: clear_instruction_challenge_def)
  obtain t2 where t2: "register_unsuccessful_pin_entry (conn env) t1 w (ev = BlockedPermanently)
      (time_generator env 2) = Ok t2"
    using db by (auto simp: register_unsuccessful_pin_entry_def update_pin_entries_def)
  have tr: "instruction_transaction srv env policy instr ?u db = (Err e, t2)"
    using db t1 t2 ev wrong u
    by (simp add: instruction_transaction_def verify_and_record_def begin_transaction_def commit_def
        is_VerificationFailed_def)
  from wr.clear_then_failure [OF ok t1 t2, folded cleared_eq] a(1)
  have "account_of (conn env) t2 = (account_of (conn env) db)(w \<mapsto>
      with_failure (ev = BlockedPermanently) (time_generator env 2) (cleared a))"
    by (simp add: on_account_def)
  also have "with_failure (ev = BlockedPermanently) (time_generator env 2) (cleared a) =
      a\<lparr>acc_challenge := None, acc_entries := acc_entries a + 1,
        acc_last_unsuccessful := Some (time_generator env 2),
        acc_blocked := (acc_entries a + 1 = total_attempts policy)\<rparr>"
    using failure_blocks_at_limit [OF aok a(2) pol ev(1)] a(2) pp.limit_bounds [OF pol]
    by (simp add: account_updates)
  finally show ?thesis
    using cert tr by (intro exI [of _ t2]) (simp add: handle_instruction_def handle_verified_def fun_upd_def)
qed

theorem wrong_pin_is_counted_witness:
  "\<exists>db'. handle_instruction demo_server (demo_env 0) Some default_pin_policy wrong_pin demo_tables
      = (Err (IncorrectPin \<lparr>ipd_attempts_left_in_round = 3, ipd_is_final_round = False\<rparr>), db') \<and>
     account_of demo_connection db' ''w'' = Some (demo_account\<lparr>acc_challenge := None, acc_entries := 1,
       acc_last_unsuccessful := Some 0, acc_blocked := False\<rparr>)"
proof -
  let ?u = "user_of_account ''w'' demo_account"
  have conn: "conn (demo_env 0) = demo_connection" by (simp add: demo_env_def)
  have cert: "verify_wallet_certificate demo_server (demo_env 0) (si_certificate wrong_pin) demo_tables = Ok ?u"
    using demo_certificate [OF demo_tables_ok demo_account_of] by (simp add: demo_account_def)
  have v: "verify_instruction demo_server (demo_env 0) wrong_pin ?u = Err (VerificationFailed JsonParsing)"
  proof -
    have "wu_encrypted_pin_pubkey ?u = acc_pin_pubkey demo_account" by (simp add: user_of_account_def)
    then show ?thesis
      using demo_decrypt [of 0] by (simp add: verify_instruction_def user_of_account_def
          demo_account_def wrong_pin_def demo_env_def parse_and_verify_def SignedDouble_verify_def
          parse_and_verify_message_def demo_codec_def Let_def)
  qed
  have pol: "pin_policy_ok default_pin_policy" and tot: "total_attempts default_pin_policy = 16"
    by (simp_all add: pin_policy_ok_def default_pin_policy_def seconds_def)
  have "\<forall>s. \<not> refused (conn (demo_env 0)) s" by (simp add: demo_env_def demo_connection_def)
  from wrong_pin_is_counted [OF _ pol cert _ _ this _ _ _ v, unfolded conn tot, OF demo_tables_ok
      demo_account_of, of "Failed 3 False"
      "IncorrectPin \<lparr>ipd_attempts_left_in_round = 3, ipd_is_final_round = False\<rparr>" Some]
  show ?thesis
    using demo_evaluate [of 0] by (auto simp: demo_account_def demo_env_def instruction_error_from_def)
qed

section \<open>Requests that overlap\<close>

text \<open>
  The user is read in the transaction of the certificate check, and the policy, the challenge
  and the sequence number are then judged on that copy. When two requests of one wallet both
  read the user before either of them has written, the second one to write judges a state
  that is gone.
\<close>

text \<open>
  C25: overlapping requests can undo a permanent block. If two requests read the same user, the
  first one uses up the last attempt and blocks the account, and the second one, which was
  verified against the copy read before, is accepted, then the account is blocked in between
  and afterwards it is unblocked with a counter of zero.
\<close>

theorem overlapping_requests_unblock:
  assumes ok: "tables_ok c db" and e1: "env_ok c env1" and e2: "env_ok c env2"
    and read: "verify_wallet_certificate srv env1 (si_certificate wrong) db = Ok user"
    and first: "instruction_transaction srv env1 policy wrong user db = (Err AccountBlocked, db1)"
    and second: "instruction_transaction srv env2 policy right user db1 = (Ok payload, db2)"
  shows "(\<exists>a. account_of c db1 (wu_wallet_id user) = Some a \<and> acc_blocked a) \<and>
    (\<exists>a. account_of c db2 (wu_wallet_id user) = Some a \<and> \<not> acc_blocked a \<and> acc_entries a = 0)"
proof -
  note cong1 = tables_ok_cong [OF e1] and cong2 = tables_ok_cong [OF e2]
  from verify_wallet_certificate_Ok [OF _ read, unfolded cong1, OF ok] obtain a where
    a: "account_of c db (wu_wallet_id user) = Some a"
    by (metis user_of_account_def wallet_user.select_convs(2))
  have ok': "tables_ok (conn env1) db" using ok cong1 by simp
  from ok' first have b: "tables_ok c db1 \<and> account_of c db1 =
      on_account (wu_wallet_id user) (failed_once True (time_generator env1 2)) (account_of c db)"
  proof (cases rule: instruction_transaction_cases)
    case (failed ev e v)
    then have "ev = BlockedPermanently"
      by (cases ev) (auto simp: instruction_error_from_def)
    with failed show ?thesis using cong1 by simp
  qed (auto simp: untouched_def)
  then have "tables_ok (conn env2) db1" using cong2 by simp
  from this second have "account_of c db2 =
      on_account (wu_wallet_id user) (succeeded (crp_sequence_number payload)) (account_of c db1)"
    by (cases rule: instruction_transaction_cases) (use cong2 in auto)
  with a b show ?thesis by (simp add: account_updates)
qed

definition last_attempt_tables :: tables where
  "last_attempt_tables = update_users ''w'' (\<lambda>r. r\<lparr>ur_pin_entries := 15,
     ur_last_unsuccessful_pin := Some 0\<rparr>) demo_tables"

definition last_attempt_account :: account where
  "last_attempt_account = demo_account\<lparr>acc_entries := 15, acc_last_unsuccessful := Some 0\<rparr>"

lemma last_attempt_tables_ok: "tables_ok demo_connection last_attempt_tables"
  "account_of demo_connection last_attempt_tables ''w'' = Some last_attempt_account"
  by (simp_all add: last_attempt_tables_def demo_tables_def update_users_def tables_ok_def row_ok_def
      demo_connection_def keys_constraints_def account_of_def find_user_def find_challenge_def
      last_attempt_account_def demo_account_def)

lemma last_attempt_evaluate:
  "PinPolicy_evaluate default_pin_policy 16 (Some 0) now = Some BlockedPermanently"
  by (simp add: PinPolicy_evaluate_def is_blocked_def default_pin_policy_def rust_assert_def
      word_le_nat_alt word_less_nat_alt)

theorem overlapping_requests_unblock_witness:
  "\<exists>user right payload db1 db2.
     verify_wallet_certificate demo_server (demo_env 0) (si_certificate wrong_pin) last_attempt_tables = Ok user \<and>
     instruction_transaction demo_server (demo_env 0) default_pin_policy wrong_pin user last_attempt_tables
       = (Err AccountBlocked, db1) \<and>
     instruction_transaction demo_server (demo_env 0) default_pin_policy right user db1 = (Ok payload, db2) \<and>
     (\<exists>a. account_of demo_connection db2 ''w'' = Some a \<and> \<not> acc_blocked a)"
proof -
  let ?env = "demo_env 0"
  let ?u = "user_of_account ''w'' last_attempt_account"
  let ?p = "\<lparr>crp_payload = CheckPin, crp_challenge = [7], crp_sequence_number = 3\<rparr>"
  have conn: "conn ?env = demo_connection" by (simp add: demo_env_def)
  have u: "wu_wallet_id ?u = ''w''" "wu_encrypted_pin_pubkey ?u = acc_pin_pubkey demo_account"
    "wu_unsuccessful_pin_entries ?u + 1 = 16" "wu_last_unsuccessful_pin_entry ?u = Some 0"
    "wu_hw_pubkey ?u = [1]" "wu_instruction_sequence_number ?u = 2"
    "wu_instruction_challenge ?u = Some \<lparr>ic_bytes = [7], ic_expiration_date_time = 100\<rparr>"
    by (simp_all add: user_of_account_def last_attempt_account_def demo_account_def)
  have read: "verify_wallet_certificate demo_server ?env (si_certificate wrong_pin) last_attempt_tables = Ok ?u"
    using demo_certificate [OF last_attempt_tables_ok] by (simp add: last_attempt_account_def demo_account_def)
  have ok: "\<not> refused demo_connection s" for s by (simp add: demo_connection_def)
  obtain t1 where t1: "clear_instruction_challenge demo_connection last_attempt_tables ''w'' = Ok t1"
    "tables_ok demo_connection t1"
    using demo_statements(1) [OF last_attempt_tables_ok(1)] wr.clear_view [OF last_attempt_tables_ok(1)] by blast
  obtain t2 where t2: "register_unsuccessful_pin_entry demo_connection t1 ''w'' True 0 = Ok t2"
    "tables_ok demo_connection t2"
    using demo_statements(4) [OF t1(2)] wr.failure_view [OF t1(2)] by blast
  have "verify_instruction demo_server ?env wrong_pin ?u = Err (VerificationFailed JsonParsing)"
    using demo_decrypt [of 0] by (simp add: verify_instruction_def u wrong_pin_def parse_and_verify_def
        SignedDouble_verify_def parse_and_verify_message_def)
      (simp add: demo_env_def demo_codec_def Let_def)
  then have first: "instruction_transaction demo_server ?env default_pin_policy wrong_pin ?u last_attempt_tables
      = (Err AccountBlocked, t2)"
    using t1(1) t2(1) last_attempt_evaluate [of 0]
    by (simp add: instruction_transaction_def verify_and_record_def conn u begin_transaction_def commit_def
        ok is_VerificationFailed_def instruction_error_from_def demo_env_time)
  obtain s where s: "parse_and_verify (instruction_codec ?env) s [7] (LargerThan 2) [1] [2] = Ok ?p"
    using demo_codec_accepts [of "LargerThan 2" 3 CheckPin "[7]" "[1]" "[2]"] by (auto simp: demo_env_def)
  define right where "right = \<lparr>si_instruction = s, si_certificate = ''certificate''\<rparr>"
  have v: "verify_instruction demo_server ?env right ?u = Ok ?p"
    using s demo_decrypt [of 0] by (simp add: verify_instruction_def u right_def) (simp add: demo_env_def)
  obtain t3 where t3: "clear_instruction_challenge demo_connection t2 ''w'' = Ok t3" "tables_ok demo_connection t3"
    using demo_statements(1) [OF t2(2)] wr.clear_view [OF t2(2)] by blast
  obtain t4 where t4: "reset_unsuccessful_pin_entries demo_connection t3 ''w'' = Ok t4" "tables_ok demo_connection t4"
    using demo_statements(2) [OF t3(2)] wr.reset_view [OF t3(2)] by blast
  obtain t5 where t5: "update_instruction_sequence_number demo_connection t4 ''w'' 3 = Ok t5"
    using demo_statements(3) [OF t4(2), of 3] by auto
  have second: "instruction_transaction demo_server ?env default_pin_policy right ?u t2 = (Ok ?p, t5)"
    using t3(1) t4(1) t5 v last_attempt_evaluate [of "time_generator ?env 0"]
    by (simp add: instruction_transaction_def verify_and_record_def conn u begin_transaction_def commit_def ok)
  from overlapping_requests_unblock [OF last_attempt_tables_ok(1) demo_env_ok demo_env_ok read first second] u(1)
  show ?thesis using read first second by auto
qed

end
