(* ===== verification/SessionStore.thy ===== *)
theory SessionStore
  imports Prelude
begin

text \<open>
  Sessions of the issuer and the verifier: \<open>mdoc/src/server_state.rs\<close> (the trait
  \<open>SessionStore\<close> and the store in memory), \<open>wallet_server/src/store/postgres.rs\<close> (the store in a
  PostgreSQL table) and \<open>wallet_server/src/store/mod.rs\<close> (the choice between them). The traits
  \<open>HasProgress\<close> and \<open>Expirable\<close> of the session data are a record of functions.
\<close>

section \<open>Session data and states\<close>

datatype progress = Active | Finished (has_succeeded: bool)

type_synonym session_token = string

record 't session_state =
  ss_data :: 't
  ss_token :: session_token
  ss_last_active :: datetime

datatype session_store_error =
    DuplicateToken session_token | SerializeError | DeserializeError | OtherStoreError

record 't session_data =
  sd_progress :: "'t \<Rightarrow> progress"
  sd_is_expired :: "'t \<Rightarrow> bool"
  sd_expire :: "'t \<Rightarrow> 't"

record session_store_timeouts =
  expiration :: duration
  successful_deletion :: duration
  failed_deletion :: duration

definition default_session_store_timeouts :: session_store_timeouts where
  "default_session_store_timeouts = \<lparr>expiration = seconds (30 * 60),
     successful_deletion = seconds (5 * 60), failed_deletion = seconds (4 * 60 * 60)\<rparr>"

definition SessionState_new :: "datetime \<Rightarrow> session_token \<Rightarrow> 't \<Rightarrow> 't session_state" where
  "SessionState_new now token data = \<lparr>ss_data = data, ss_token = token, ss_last_active = now\<rparr>"

section \<open>The store in memory\<close>

type_synonym 't memory_store = "session_token \<Rightarrow> 't session_state option"

definition memory_get ::
  "'t memory_store \<Rightarrow> session_token \<Rightarrow> ('t session_state option, session_store_error) res" where
  "memory_get sessions token = Ok (sessions token)"

definition memory_write ::
  "'t memory_store \<Rightarrow> 't session_state \<Rightarrow> bool \<Rightarrow> ('t memory_store, session_store_error) res" where
  "memory_write sessions session is_new =
     (if sessions (ss_token session) \<noteq> None \<and> is_new then Err (DuplicateToken (ss_token session))
      else Ok (sessions(ss_token session \<mapsto> session)))"

definition memory_retain ::
  "'t session_data \<Rightarrow> datetime \<Rightarrow> datetime \<Rightarrow> 't session_state \<Rightarrow> bool" where
  "memory_retain sd succeeded_cutoff failed_cutoff session =
     (case (sd_progress sd (ss_data session), sd_is_expired sd (ss_data session)) of
       (Finished True, False) \<Rightarrow> succeeded_cutoff \<le> ss_last_active session
     | (Finished False, False) \<Rightarrow> failed_cutoff \<le> ss_last_active session
     | (_, True) \<Rightarrow> failed_cutoff \<le> ss_last_active session
     | _ \<Rightarrow> True)"

definition memory_expire ::
  "'t session_data \<Rightarrow> datetime \<Rightarrow> datetime \<Rightarrow> 't session_state \<Rightarrow> 't session_state" where
  "memory_expire sd now expiry_cutoff session =
     (if \<not> sd_is_expired sd (ss_data session) \<and> sd_progress sd (ss_data session) = Active
         \<and> ss_last_active session < expiry_cutoff
      then session\<lparr>ss_last_active := now, ss_data := sd_expire sd (ss_data session)\<rparr>
      else session)"

definition memory_cleanup ::
  "'t session_data \<Rightarrow> session_store_timeouts \<Rightarrow> datetime \<Rightarrow> 't memory_store \<Rightarrow> 't memory_store" where
  "memory_cleanup sd timeouts now sessions =
     (let succeeded_cutoff = now - successful_deletion timeouts;
          failed_cutoff = now - failed_deletion timeouts;
          expiry_cutoff = now - expiration timeouts;
          retained = (\<lambda>token. case sessions token of
            Some s \<Rightarrow> if memory_retain sd succeeded_cutoff failed_cutoff s then Some s else None
          | None \<Rightarrow> None)
      in map_option (memory_expire sd now expiry_cutoff) \<circ> retained)"

section \<open>The store in PostgreSQL\<close>

datatype session_status = StActive | StSucceeded | StFailed | StExpired

fun session_status_from :: "progress \<Rightarrow> session_status" where
  "session_status_from Active = StActive"
| "session_status_from (Finished True) = StSucceeded"
| "session_status_from (Finished False) = StFailed"

fun status_to_string :: "session_status \<Rightarrow> string" where
  "status_to_string StActive = ''active''"
| "status_to_string StSucceeded = ''succeeded''"
| "status_to_string StFailed = ''failed''"
| "status_to_string StExpired = ''expired''"

definition status_parse :: "string \<Rightarrow> session_status option" where
  "status_parse s =
     (if s = ''active'' then Some StActive else if s = ''succeeded'' then Some StSucceeded
      else if s = ''failed'' then Some StFailed else if s = ''expired'' then Some StExpired else None)"

record session_row =
  row_type :: string
  row_token :: string
  row_data :: string
  row_status :: string
  row_last_active :: datetime

text \<open>
  The database and serde_json at a session type: whether a query is refused, printing and
  parsing of the data column, and the precision of the times it is sent. \<open>pg_type\<close> is the constant
  \<open>SessionDataType::TYPE\<close> of the session type.
\<close>

record 't postgres =
  pg_refused :: bool
  pg_to_value :: "'t \<Rightarrow> string option"
  pg_from_value :: "string \<Rightarrow> 't option"
  pg_time :: "datetime \<Rightarrow> datetime"
  pg_type :: string

definition pg_find :: "'t postgres \<Rightarrow> session_row list \<Rightarrow> session_token \<Rightarrow> session_row option" where
  "pg_find pg rows token = List.find (\<lambda>r. row_type r = pg_type pg \<and> row_token r = token) rows"

definition pg_get ::
  "'t session_data \<Rightarrow> 't postgres \<Rightarrow> session_row list \<Rightarrow> session_token
     \<Rightarrow> ('t session_state option, session_store_error) res" where
  "pg_get sd pg rows token =
     (if pg_refused pg then Err OtherStoreError
      else case pg_find pg rows token of
        None \<Rightarrow> Ok None
      | Some state \<Rightarrow>
          res_bind (ok_or (status_parse (row_status state)) DeserializeError) (\<lambda>status.
          res_bind (ok_or (pg_from_value pg (row_data state)) DeserializeError) (\<lambda>data.
          let data = (if status = StExpired then sd_expire sd data else data) in
          Ok (Some \<lparr>ss_data = data, ss_token = row_token state,
                    ss_last_active = row_last_active state\<rparr>))))"

definition pg_write ::
  "'t session_data \<Rightarrow> 't postgres \<Rightarrow> session_row list \<Rightarrow> 't session_state \<Rightarrow> bool
     \<Rightarrow> (session_row list, session_store_error) res" where
  "pg_write sd pg rows session is_new =
     (let status = session_status_from (sd_progress sd (ss_data session)) in
      res_bind (ok_or (pg_to_value pg (ss_data session)) SerializeError) (\<lambda>data.
      if pg_refused pg then Err OtherStoreError
      else case pg_find pg rows (ss_token session) of
        None \<Rightarrow> Ok (rows @ [\<lparr>row_type = pg_type pg, row_token = ss_token session, row_data = data,
          row_status = status_to_string status, row_last_active = pg_time pg (ss_last_active session)\<rparr>])
      | Some _ \<Rightarrow>
          if is_new then Err (DuplicateToken (ss_token session))
          else Ok (map (\<lambda>r. if row_type r = pg_type pg \<and> row_token r = ss_token session
                 then r\<lparr>row_data := data, row_last_active := pg_time pg (ss_last_active session)\<rparr>
                 else r) rows)))"

definition pg_delete ::
  "'t postgres \<Rightarrow> session_status list \<Rightarrow> datetime \<Rightarrow> session_row list \<Rightarrow> session_row list" where
  "pg_delete pg statuses cutoff rows =
     filter (\<lambda>r. \<not> (row_type r = pg_type pg \<and> row_status r \<in> set (map status_to_string statuses) \<and>
       row_last_active r < pg_time pg cutoff)) rows"

definition pg_expire ::
  "'t postgres \<Rightarrow> datetime \<Rightarrow> datetime \<Rightarrow> session_row list \<Rightarrow> session_row list" where
  "pg_expire pg now cutoff rows =
     map (\<lambda>r. if row_type r = pg_type pg \<and> row_status r = status_to_string StActive \<and>
         row_last_active r < pg_time pg cutoff
       then r\<lparr>row_status := status_to_string StExpired, row_last_active := pg_time pg now\<rparr> else r) rows"

definition pg_cleanup ::
  "'t postgres \<Rightarrow> session_store_timeouts \<Rightarrow> datetime \<Rightarrow> session_row list
     \<Rightarrow> (session_row list, session_store_error) res" where
  "pg_cleanup pg timeouts now rows =
     (let succeeded_cutoff = now - successful_deletion timeouts;
          failed_cutoff = now - failed_deletion timeouts;
          expiry_cutoff = now - expiration timeouts
      in if pg_refused pg then Err OtherStoreError
         else Ok (pg_expire pg now expiry_cutoff
                (pg_delete pg [StFailed, StExpired] failed_cutoff
                (pg_delete pg [StSucceeded] succeeded_cutoff rows))))"

section \<open>The store a server is configured with\<close>

datatype 't session_store_variant = Postgres "session_row list" | Memory "'t memory_store"

fun store_get ::
  "'t session_data \<Rightarrow> 't postgres \<Rightarrow> 't session_store_variant \<Rightarrow> session_token
     \<Rightarrow> ('t session_state option, session_store_error) res" where
  "store_get sd pg (Postgres rows) token = pg_get sd pg rows token"
| "store_get sd pg (Memory sessions) token = memory_get sessions token"

fun store_write ::
  "'t session_data \<Rightarrow> 't postgres \<Rightarrow> 't session_store_variant \<Rightarrow> 't session_state \<Rightarrow> bool
     \<Rightarrow> ('t session_store_variant, session_store_error) res" where
  "store_write sd pg (Postgres rows) session is_new =
     res_bind (pg_write sd pg rows session is_new) (\<lambda>rows. Ok (Postgres rows))"
| "store_write sd pg (Memory sessions) session is_new =
     res_bind (memory_write sessions session is_new) (\<lambda>sessions. Ok (Memory sessions))"

fun store_cleanup ::
  "'t session_data \<Rightarrow> 't postgres \<Rightarrow> session_store_timeouts \<Rightarrow> datetime \<Rightarrow> 't session_store_variant
     \<Rightarrow> ('t session_store_variant, session_store_error) res" where
  "store_cleanup sd pg timeouts now (Postgres rows) =
     res_bind (pg_cleanup pg timeouts now rows) (\<lambda>rows. Ok (Postgres rows))"
| "store_cleanup sd pg timeouts now (Memory sessions) =
     Ok (Memory (memory_cleanup sd timeouts now sessions))"

section \<open>The contract of a session store\<close>

text \<open>
  A store is seen through the sessions it would return. \<open>frozen\<close> marks the tokens whose sessions
  the store reports as expired whatever is written to them later.
\<close>

locale session_store =
  fixes valid :: "'s \<Rightarrow> bool"
    and view :: "'s \<Rightarrow> session_token \<Rightarrow> 't session_state option"
    and frozen :: "'s \<Rightarrow> session_token \<Rightarrow> bool"
    and storable :: "'t session_state \<Rightarrow> bool"
    and get :: "'s \<Rightarrow> session_token \<Rightarrow> ('t session_state option, session_store_error) res"
    and put :: "'s \<Rightarrow> 't session_state \<Rightarrow> bool \<Rightarrow> ('s, session_store_error) res"
  assumes get_view: "valid s \<Longrightarrow> get s token = Ok (view s token)"
    and view_token: "view s token = Some x \<Longrightarrow> ss_token x = token"
    and write_duplicate:
      "\<lbrakk>valid s; storable x; view s (ss_token x) \<noteq> None\<rbrakk>
        \<Longrightarrow> put s x True = Err (DuplicateToken (ss_token x))"
    and write_absent:
      "\<lbrakk>valid s; storable x; view s (ss_token x) = None\<rbrakk>
        \<Longrightarrow> \<exists>s'. put s x is_new = Ok s' \<and> valid s' \<and> view s' = (view s)(ss_token x \<mapsto> x) \<and>
              (\<forall>t. frozen s' t \<longrightarrow> t \<noteq> ss_token x \<and> frozen s t)"
    and write_present:
      "\<lbrakk>valid s; storable x; view s (ss_token x) \<noteq> None; \<not> frozen s (ss_token x)\<rbrakk>
        \<Longrightarrow> \<exists>s'. put s x False = Ok s' \<and> valid s' \<and> view s' = (view s)(ss_token x \<mapsto> x) \<and>
              (\<forall>t. frozen s' t \<longrightarrow> t \<noteq> ss_token x \<and> frozen s t)"
begin

lemma update_total:
  assumes "valid s" "storable x" "\<not> frozen s (ss_token x)"
  obtains s' where "put s x False = Ok s'" "valid s'" "view s' = (view s)(ss_token x \<mapsto> x)"
    "\<not> frozen s' (ss_token x)"
  using write_absent [OF assms(1,2), of False] write_present [OF assms(1,2) _ assms(3)]
  by (cases "view s (ss_token x)") auto

lemma update_get:
  assumes "valid s" "storable x" "\<not> frozen s (ss_token x)" "put s x False = Ok s'"
  shows "get s' token = (if token = ss_token x then Ok (Some x) else get s token)"
proof -
  from update_total [OF assms(1-3)] assms(4)
  have "valid s'" "view s' = (view s)(ss_token x \<mapsto> x)" by (metis res.inject(1))+
  then show ?thesis using assms(1) by (simp add: get_view)
qed

lemma create_get:
  assumes "valid s" "storable x" "get s (ss_token x) = Ok None" "put s x True = Ok s'"
  shows "get s' token = (if token = ss_token x then Ok (Some x) else get s token)"
proof -
  have "view s (ss_token x) = None" using assms(1,3) by (simp add: get_view)
  from write_absent [OF assms(1,2) this, of True] assms(4)
  have "valid s'" "view s' = (view s)(ss_token x \<mapsto> x)" by auto
  then show ?thesis using assms(1) by (simp add: get_view)
qed

lemma create_once:
  assumes "valid s" "storable x" "put s x True = Ok s'" "storable y" "ss_token y = ss_token x"
  shows "put s' y True = Err (DuplicateToken (ss_token x))"
proof -
  have "view s (ss_token x) = None"
    using write_duplicate [OF assms(1,2)] assms(3) by fastforce
  from write_absent [OF assms(1,2) this, of True] assms(3)
  have "valid s'" "view s' (ss_token y) \<noteq> None" using assms(5) by auto
  then show ?thesis using write_duplicate [OF _ assms(4)] assms(5) by simp
qed

end

subsection \<open>The store in memory\<close>

definition memory_valid :: "'t memory_store \<Rightarrow> bool" where
  "memory_valid sessions = (\<forall>t x. sessions t = Some x \<longrightarrow> ss_token x = t)"

definition memory_view :: "'t memory_store \<Rightarrow> 't memory_store" where
  "memory_view sessions = (\<lambda>t. case sessions t of
     Some x \<Rightarrow> if ss_token x = t then Some x else None | None \<Rightarrow> None)"

lemma memory_view_valid [simp]: "memory_valid sessions \<Longrightarrow> memory_view sessions = sessions"
  by (rule ext) (auto simp: memory_view_def memory_valid_def split: option.splits)

lemma memory_valid_upd [simp]: "memory_valid sessions \<Longrightarrow> memory_valid (sessions(ss_token x \<mapsto> x))"
  by (simp add: memory_valid_def)

interpretation ms: session_store memory_valid memory_view "\<lambda>_ _. False" "\<lambda>_. True"
  memory_get memory_write
proof (unfold_locales, goal_cases)
  case (2 s token x)
  then show ?case by (auto simp: memory_view_def split: option.splits if_splits)
qed (auto simp: memory_get_def memory_write_def)

lemma memory_cleanup_apply:
  "memory_cleanup sd timeouts now sessions token =
     (case sessions token of
        Some s \<Rightarrow> if memory_retain sd (now - successful_deletion timeouts) (now - failed_deletion timeouts) s
          then Some (memory_expire sd now (now - expiration timeouts) s) else None
      | None \<Rightarrow> None)"
  by (simp add: memory_cleanup_def Let_def split: option.splits)

lemma memory_cleanup_valid: "memory_valid m \<Longrightarrow> memory_valid (memory_cleanup sd timeouts now m)"
  by (auto simp: memory_valid_def memory_cleanup_apply memory_expire_def
      split: option.splits if_splits)

subsection \<open>The store in PostgreSQL\<close>

lemma find_append: "List.find P (xs @ ys) = (case List.find P xs of None \<Rightarrow> List.find P ys | Some x \<Rightarrow> Some x)"
  by (induction xs) auto

lemma find_map_same: "(\<And>x. P (f x) = P x) \<Longrightarrow> List.find P (map f xs) = map_option f (List.find P xs)"
  by (induction xs) auto

lemma find_filter_unique:
  assumes "distinct (map k xs)" "\<And>x. P x = (k x = key)"
  shows "List.find P (filter Q xs) =
    (case List.find P xs of Some x \<Rightarrow> if Q x then Some x else None | None \<Rightarrow> None)"
  using assms
proof (induction xs)
  case (Cons x xs)
  have "List.find P xs = None" if "P x"
    using Cons.prems that by (force simp: find_None_iff image_iff)
  moreover have "List.find P (filter Q xs) =
    (case List.find P xs of Some x \<Rightarrow> if Q x then Some x else None | None \<Rightarrow> None)"
    by (rule Cons.IH) (use Cons.prems in auto)
  ultimately show ?case by simp
qed simp

definition row_key :: "session_row \<Rightarrow> string \<times> string" where
  "row_key r = (row_type r, row_token r)"

definition row_session :: "'t session_data \<Rightarrow> 't postgres \<Rightarrow> session_row \<Rightarrow> 't session_state option" where
  "row_session sd pg r = (case (status_parse (row_status r), pg_from_value pg (row_data r)) of
     (Some status, Some data) \<Rightarrow> Some \<lparr>ss_data = (if status = StExpired then sd_expire sd data else data),
        ss_token = row_token r, ss_last_active = row_last_active r\<rparr>
   | _ \<Rightarrow> None)"

definition pg_view :: "'t session_data \<Rightarrow> 't postgres \<Rightarrow> session_row list \<Rightarrow> 't memory_store" where
  "pg_view sd pg rows token = Option.bind (pg_find pg rows token) (row_session sd pg)"

definition pg_valid :: "'t session_data \<Rightarrow> 't postgres \<Rightarrow> session_row list \<Rightarrow> bool" where
  "pg_valid sd pg rows \<longleftrightarrow> \<not> pg_refused pg \<and> distinct (map row_key rows) \<and>
     (\<forall>r\<in>set rows. row_type r = pg_type pg \<longrightarrow> row_session sd pg r \<noteq> None)"

definition pg_frozen :: "'t postgres \<Rightarrow> session_row list \<Rightarrow> session_token \<Rightarrow> bool" where
  "pg_frozen pg rows token =
     (case pg_find pg rows token of Some r \<Rightarrow> row_status r = ''expired'' | None \<Rightarrow> False)"

definition pg_storable :: "'t postgres \<Rightarrow> 't session_state \<Rightarrow> bool" where
  "pg_storable pg x = (pg_time pg (ss_last_active x) = ss_last_active x \<and>
     (case pg_to_value pg (ss_data x) of Some j \<Rightarrow> pg_from_value pg j = Some (ss_data x) | None \<Rightarrow> False))"

lemma status_roundtrip [simp]: "status_parse (status_to_string st) = Some st"
  by (cases st) (simp_all add: status_parse_def)

lemma status_from_not_expired [simp]: "session_status_from p \<noteq> StExpired"
  by (cases p rule: session_status_from.cases) simp_all

lemma status_parse_SomeD: "status_parse s = Some st \<Longrightarrow> s = status_to_string st"
  by (auto simp: status_parse_def split: if_splits)

lemma status_to_string_inj [simp]: "status_to_string a = status_to_string b \<longleftrightarrow> a = b"
  by (metis option.inject status_roundtrip)

lemma pg_find_SomeD:
  "pg_find pg rows token = Some r \<Longrightarrow> r \<in> set rows \<and> row_type r = pg_type pg \<and> row_token r = token"
  by (auto simp: pg_find_def find_Some_iff)

lemma pg_find_None: "pg_find pg rows token = None \<Longrightarrow> (pg_type pg, token) \<notin> row_key ` set rows"
  by (force simp: pg_find_def find_None_iff row_key_def)

lemma pg_view_None: "pg_valid sd pg rows \<Longrightarrow> pg_view sd pg rows token = None \<longleftrightarrow> pg_find pg rows token = None"
  by (cases "pg_find pg rows token") (auto simp: pg_view_def pg_valid_def dest: pg_find_SomeD)

lemma pg_find_append:
  "pg_find pg (rows @ rs) token =
     (case pg_find pg rows token of None \<Rightarrow> pg_find pg rs token | Some r \<Rightarrow> Some r)"
  unfolding pg_find_def by (rule find_append)

lemma pg_find_map:
  "(\<And>r. row_key (f r) = row_key r) \<Longrightarrow> pg_find pg (map f rows) token = map_option f (pg_find pg rows token)"
  unfolding pg_find_def row_key_def prod.inject by (rule find_map_same) simp

lemma pg_find_filter:
  "distinct (map row_key rows) \<Longrightarrow> pg_find pg (filter Q rows) token =
     (case pg_find pg rows token of Some r \<Rightarrow> if Q r then Some r else None | None \<Rightarrow> None)"
  unfolding pg_find_def
  by (rule find_filter_unique [where key = "(pg_type pg, token)"]) (auto simp: row_key_def)

lemma pg_valid_map:
  assumes "pg_valid sd pg rows" "\<And>r. row_key (f r) = row_key r"
    "\<And>r. \<lbrakk>r \<in> set rows; row_type r = pg_type pg; row_session sd pg r \<noteq> None\<rbrakk> \<Longrightarrow> row_session sd pg (f r) \<noteq> None"
  shows "pg_valid sd pg (map f rows)"
proof -
  have "row_key \<circ> f = row_key" using assms(2) by auto
  moreover have "row_type (f r) = row_type r" for r using assms(2) [of r] by (simp add: row_key_def)
  ultimately show ?thesis using assms(1,3) unfolding pg_valid_def by simp
qed

lemma pg_valid_filter: "pg_valid sd pg rows \<Longrightarrow> pg_valid sd pg (filter Q rows)"
  by (auto simp: pg_valid_def distinct_map_filter)

lemma row_session_SomeD:
  "row_session sd pg r = Some x \<Longrightarrow> ss_token x = row_token r \<and> ss_last_active x = row_last_active r"
  unfolding row_session_def
  by (cases "status_parse (row_status r)"; cases "pg_from_value pg (row_data r)") auto

lemma pg_view_token: "pg_view sd pg rows token = Some x \<Longrightarrow> ss_token x = token"
  unfolding pg_view_def bind_eq_Some_conv by (metis pg_find_SomeD row_session_SomeD)

lemma pg_get_view:
  assumes "pg_valid sd pg rows"
  shows "pg_get sd pg rows token = Ok (pg_view sd pg rows token)"
proof (cases "pg_find pg rows token")
  case (Some r)
  with assms have "row_session sd pg r \<noteq> None" by (auto simp: pg_valid_def dest: pg_find_SomeD)
  with Some assms show ?thesis
    by (auto simp: pg_get_def pg_view_def pg_valid_def row_session_def Let_def result_simps
        split: option.splits)
qed (use assms in \<open>simp add: pg_get_def pg_view_def pg_valid_def\<close>)

lemma pg_write_absent:
  assumes valid: "pg_valid sd pg rows" and x: "pg_storable pg x"
    and absent: "pg_find pg rows (ss_token x) = None"
  obtains r where "pg_write sd pg rows x is_new = Ok (rows @ [r])"
    "row_key r = (pg_type pg, ss_token x)" "row_session sd pg r = Some x"
    "row_status r = status_to_string (session_status_from (sd_progress sd (ss_data x)))"
    "pg_from_value pg (row_data r) = Some (ss_data x)"
    "pg_valid sd pg (rows @ [r])"
proof -
  from x obtain j where j: "pg_to_value pg (ss_data x) = Some j" "pg_from_value pg j = Some (ss_data x)"
    by (auto simp: pg_storable_def split: option.splits)
  define r where "r = \<lparr>row_type = pg_type pg, row_token = ss_token x, row_data = j,
    row_status = status_to_string (session_status_from (sd_progress sd (ss_data x))),
    row_last_active = pg_time pg (ss_last_active x)\<rparr>"
  have w: "pg_write sd pg rows x is_new = Ok (rows @ [r])"
    using valid absent j by (simp add: pg_write_def pg_valid_def r_def)
  have k: "row_key r = (pg_type pg, ss_token x)" by (simp add: r_def row_key_def)
  have s: "row_session sd pg r = Some x"
    using x j by (simp add: r_def row_session_def pg_storable_def)
  have v: "pg_valid sd pg (rows @ [r])"
    using valid s k pg_find_None [OF absent] by (auto simp: pg_valid_def)
  show thesis by (rule that [OF w k s _ _ v]) (simp_all add: r_def j)
qed

lemma pg_write_present:
  assumes valid: "pg_valid sd pg rows" and x: "pg_storable pg x"
    and present: "pg_find pg rows (ss_token x) = Some r"
  obtains rows' j where "pg_write sd pg rows x False = Ok rows'"
    "rows' = map (\<lambda>r. if row_key r = (pg_type pg, ss_token x)
      then r\<lparr>row_data := j, row_last_active := ss_last_active x\<rparr> else r) rows"
    "pg_from_value pg j = Some (ss_data x)" "pg_valid sd pg rows'"
    "pg_find pg rows' (ss_token x) = Some (r\<lparr>row_data := j, row_last_active := ss_last_active x\<rparr>)"
    "\<And>t. t \<noteq> ss_token x \<Longrightarrow> pg_find pg rows' t = pg_find pg rows t"
proof -
  from x obtain j where j: "pg_to_value pg (ss_data x) = Some j" "pg_from_value pg j = Some (ss_data x)"
    by (auto simp: pg_storable_def split: option.splits)
  define f where "f r = (if row_key r = (pg_type pg, ss_token x)
      then r\<lparr>row_data := j, row_last_active := ss_last_active x\<rparr> else r)" for r :: session_row
  have f: "row_key (f r) = row_key r" for r by (simp add: f_def row_key_def)
  have w: "pg_write sd pg rows x False = Ok (map f rows)"
    using valid present j x
    by (simp add: pg_write_def pg_valid_def pg_storable_def f_def [abs_def] row_key_def cong: if_cong)
  have v: "pg_valid sd pg (map f rows)"
    by (rule pg_valid_map [OF valid f]) (auto simp: f_def row_session_def j split: option.splits)
  have k: "row_key r = (pg_type pg, ss_token x)"
    using pg_find_SomeD [OF present] by (simp add: row_key_def)
  have o: "pg_find pg (map f rows) t = pg_find pg rows t" if "t \<noteq> ss_token x" for t
    using that pg_find_SomeD [of pg rows t]
    by (cases "pg_find pg rows t") (auto simp: pg_find_map [OF f], simp add: f_def row_key_def)
  show thesis
    by (rule that [of "map f rows" j])
      (use w v j present k o in \<open>auto simp: pg_find_map [OF f] f_def\<close>)
qed

lemma pg_write_duplicate:
  assumes "pg_valid sd pg rows" "pg_storable pg x" "pg_find pg rows (ss_token x) \<noteq> None"
  shows "pg_write sd pg rows x True = Err (DuplicateToken (ss_token x))"
  using assms by (auto simp: pg_write_def pg_valid_def pg_storable_def split: option.splits)

lemma pg_view_append:
  assumes "pg_find pg rows (ss_token x) = None" "row_key r = (pg_type pg, ss_token x)"
    "row_session sd pg r = Some x"
  shows "pg_view sd pg (rows @ [r]) = (pg_view sd pg rows)(ss_token x \<mapsto> x)"
proof
  fix t
  show "pg_view sd pg (rows @ [r]) t = ((pg_view sd pg rows)(ss_token x \<mapsto> x)) t"
  proof (cases "t = ss_token x")
    case True
    with assms show ?thesis by (simp add: pg_view_def pg_find_append) (simp add: pg_find_def row_key_def)
  next
    case False
    with assms have "pg_find pg [r] t = None" by (auto simp: pg_find_def row_key_def)
    with False show ?thesis by (simp add: pg_view_def pg_find_append split: option.splits)
  qed
qed

lemma pg_frozen_append:
  assumes "pg_find pg rows (ss_token x) = None" "row_key r = (pg_type pg, ss_token x)"
    "row_status r = status_to_string (session_status_from p)" "pg_frozen pg (rows @ [r]) t"
  shows "t \<noteq> ss_token x \<and> pg_frozen pg rows t"
proof -
  have n: "row_status r \<noteq> ''expired''"
    using assms(3) by (metis status_from_not_expired status_to_string.simps(4) status_to_string_inj)
  have "pg_find pg [r] t = (if t = ss_token x then Some r else None)"
    using assms(2) by (auto simp: pg_find_def row_key_def)
  with n assms(1,4) show ?thesis
    by (auto simp: pg_frozen_def pg_find_append split: option.splits if_splits)
qed

interpretation ps: session_store "pg_valid sd pg" "pg_view sd pg" "pg_frozen pg" "pg_storable pg"
  "pg_get sd pg" "pg_write sd pg" for sd :: "'t session_data" and pg
proof (unfold_locales, goal_cases)
  case (1 s token)
  then show ?case by (rule pg_get_view)
next
  case (2 s token x)
  then show ?case by (rule pg_view_token)
next
  case (3 s x)
  then show ?case by (simp add: pg_write_duplicate pg_view_None)
next
  case (4 s x is_new)
  then have n: "pg_find pg s (ss_token x) = None" by (simp add: pg_view_None)
  from pg_write_absent [OF 4(1,2) n, of is_new] obtain r where
    "pg_write sd pg s x is_new = Ok (s @ [r])" "pg_valid sd pg (s @ [r])" and
    r: "row_key r = (pg_type pg, ss_token x)" "row_session sd pg r = Some x"
      "row_status r = status_to_string (session_status_from (sd_progress sd (ss_data x)))" by metis
  then show ?case using pg_view_append [OF n r(1,2)] pg_frozen_append [OF n r(1,3)] by blast
next
  case (5 s x)
  then obtain r where r: "pg_find pg s (ss_token x) = Some r"
    by (auto simp: pg_view_None)
  have st: "row_status r \<noteq> ''expired''" using 5(4) r by (simp add: pg_frozen_def)
  have "row_session sd pg r \<noteq> None" using 5(1) pg_find_SomeD [OF r] by (simp add: pg_valid_def)
  then obtain status where s: "status_parse (row_status r) = Some status"
    by (auto simp: row_session_def split: option.splits)
  have ne: "status \<noteq> StExpired" using st status_parse_SomeD [OF s] by auto
  obtain s' j where w: "pg_write sd pg s x False = Ok s'" and
    m: "s' = map (\<lambda>r. if row_key r = (pg_type pg, ss_token x)
      then r\<lparr>row_data := j, row_last_active := ss_last_active x\<rparr> else r) s" and
    j: "pg_from_value pg j = Some (ss_data x)" and v: "pg_valid sd pg s'" and
    f: "pg_find pg s' (ss_token x) = Some (r\<lparr>row_data := j, row_last_active := ss_last_active x\<rparr>)" and
    o: "\<And>t. t \<noteq> ss_token x \<Longrightarrow> pg_find pg s' t = pg_find pg s t"
    using pg_write_present [OF 5(1,2) r] by blast
  have "pg_view sd pg s' t = ((pg_view sd pg s)(ss_token x \<mapsto> x)) t" for t
    using f o pg_find_SomeD [OF r] by (simp add: pg_view_def row_session_def s j ne)
  moreover have "pg_frozen pg s' t \<longrightarrow> t \<noteq> ss_token x \<and> pg_frozen pg s t" for t
    using f o st by (cases "t = ss_token x") (auto simp: pg_frozen_def)
  ultimately show ?case using w v by blast
qed

subsection \<open>The configured store\<close>

fun variant_valid :: "'t session_data \<Rightarrow> 't postgres \<Rightarrow> 't session_store_variant \<Rightarrow> bool" where
  "variant_valid sd pg (Postgres rows) = pg_valid sd pg rows"
| "variant_valid sd pg (Memory sessions) = memory_valid sessions"

fun variant_view :: "'t session_data \<Rightarrow> 't postgres \<Rightarrow> 't session_store_variant \<Rightarrow> 't memory_store" where
  "variant_view sd pg (Postgres rows) = pg_view sd pg rows"
| "variant_view sd pg (Memory sessions) = memory_view sessions"

fun variant_frozen :: "'t postgres \<Rightarrow> 't session_store_variant \<Rightarrow> session_token \<Rightarrow> bool" where
  "variant_frozen pg (Postgres rows) t = pg_frozen pg rows t"
| "variant_frozen pg (Memory sessions) t = False"

interpretation vs: session_store "variant_valid sd pg" "variant_view sd pg" "variant_frozen pg"
  "pg_storable pg" "store_get sd pg" "store_write sd pg" for sd :: "'t session_data" and pg
proof (unfold_locales, goal_cases)
  case (1 s token)
  then show ?case by (cases s) (simp_all add: ps.get_view memory_get_def)
next
  case (2 s token x)
  then show ?case using ps.view_token ms.view_token by (cases s) auto
next
  case (3 s x)
  then show ?case using ps.write_duplicate ms.write_duplicate by (cases s) fastforce+
next
  case (4 s x is_new)
  then show ?case using ps.write_absent [of sd pg _ x is_new] ms.write_absent [of _ x is_new]
    by (cases s) fastforce+
next
  case (5 s x)
  then show ?case using ps.write_present [of sd pg _ x] ms.write_present [of _ x]
    by (cases s) fastforce+
qed

section \<open>Cleaning up expired sessions\<close>

text \<open>
  What the store in PostgreSQL assumes when it cleans up by the status column: that the status of
  a row is the one of its data. \<open>session_data_laws\<close> are the laws of \<open>HasProgress\<close> and
  \<open>Expirable\<close>: expired data is a failed session.
\<close>

definition session_data_laws :: "'t session_data \<Rightarrow> bool" where
  "session_data_laws sd \<longleftrightarrow> (\<forall>d. sd_is_expired sd (sd_expire sd d)) \<and>
     (\<forall>d. sd_is_expired sd d \<longrightarrow> sd_progress sd d = Finished False)"

definition row_in_sync :: "'t session_data \<Rightarrow> 't postgres \<Rightarrow> session_row \<Rightarrow> bool" where
  "row_in_sync sd pg r = (case (status_parse (row_status r), pg_from_value pg (row_data r)) of
     (Some status, Some data) \<Rightarrow> status = StExpired \<or> status = session_status_from (sd_progress sd data)
   | _ \<Rightarrow> False)"

definition pg_in_sync :: "'t session_data \<Rightarrow> 't postgres \<Rightarrow> session_row list \<Rightarrow> bool" where
  "pg_in_sync sd pg rows = (\<forall>r\<in>set rows. row_type r = pg_type pg \<longrightarrow> row_in_sync sd pg r)"

definition row_deleted :: "session_store_timeouts \<Rightarrow> datetime \<Rightarrow> session_row \<Rightarrow> bool" where
  "row_deleted timeouts now r \<longleftrightarrow>
     row_status r = ''succeeded'' \<and> row_last_active r < now - successful_deletion timeouts \<or>
     row_status r \<in> {''failed'', ''expired''} \<and> row_last_active r < now - failed_deletion timeouts"

definition row_expired_at :: "session_store_timeouts \<Rightarrow> datetime \<Rightarrow> session_row \<Rightarrow> session_row" where
  "row_expired_at timeouts now r =
     (if row_status r = ''active'' \<and> row_last_active r < now - expiration timeouts
      then r\<lparr>row_status := ''expired'', row_last_active := now\<rparr> else r)"

definition exact_cutoffs :: "'t postgres \<Rightarrow> session_store_timeouts \<Rightarrow> datetime \<Rightarrow> bool" where
  "exact_cutoffs pg timeouts now \<longleftrightarrow>
     (\<forall>t \<in> {now, now - successful_deletion timeouts, now - failed_deletion timeouts,
            now - expiration timeouts}. pg_time pg t = t)"

lemma pg_cleanup_eq:
  assumes "\<not> pg_refused pg" "exact_cutoffs pg timeouts now"
  shows "pg_cleanup pg timeouts now rows = Ok
    (map (\<lambda>r. if row_type r = pg_type pg then row_expired_at timeouts now r else r)
      (filter (\<lambda>r. \<not> (row_type r = pg_type pg \<and> row_deleted timeouts now r)) rows))"
proof -
  have "pg_delete pg [StFailed, StExpired] (now - failed_deletion timeouts)
      (pg_delete pg [StSucceeded] (now - successful_deletion timeouts) rows) =
    filter (\<lambda>r. \<not> (row_type r = pg_type pg \<and> row_deleted timeouts now r)) rows"
    using assms(2) unfolding pg_delete_def filter_filter exact_cutoffs_def
    by (intro filter_cong) (auto simp: row_deleted_def)
  then show ?thesis using assms
    by (auto simp: pg_cleanup_def pg_expire_def row_expired_at_def exact_cutoffs_def)
qed

lemma row_in_syncE:
  assumes "row_in_sync sd pg r"
  obtains st d where "row_status r = status_to_string st" "pg_from_value pg (row_data r) = Some d"
    "st = StExpired \<or> st = session_status_from (sd_progress sd d)"
    "row_session sd pg r = Some \<lparr>ss_data = (if st = StExpired then sd_expire sd d else d),
        ss_token = row_token r, ss_last_active = row_last_active r\<rparr>"
  using assms unfolding row_in_sync_def row_session_def
  by (auto split: option.splits dest!: status_parse_SomeD)

lemma row_cleanup:
  assumes sync: "row_in_sync sd pg r" and sd: "session_data_laws sd"
    and x: "row_session sd pg r = Some x"
  shows "row_deleted timeouts now r \<longleftrightarrow>
      \<not> memory_retain sd (now - successful_deletion timeouts) (now - failed_deletion timeouts) x"
    and "\<not> row_deleted timeouts now r \<Longrightarrow> row_session sd pg (row_expired_at timeouts now r) =
      Some (memory_expire sd now (now - expiration timeouts) x)"
    and "row_in_sync sd pg (row_expired_at timeouts now r)"
proof -
  from sync obtain st d where st: "row_status r = status_to_string st"
    and d: "pg_from_value pg (row_data r) = Some d"
    and sync': "st = StExpired \<or> st = session_status_from (sd_progress sd d)"
    and "row_session sd pg r = Some \<lparr>ss_data = (if st = StExpired then sd_expire sd d else d),
        ss_token = row_token r, ss_last_active = row_last_active r\<rparr>" by (rule row_in_syncE)
  with x have xd: "x = \<lparr>ss_data = (if st = StExpired then sd_expire sd d else d),
        ss_token = row_token r, ss_last_active = row_last_active r\<rparr>" by simp
  have e: "sd_is_expired sd (sd_expire sd d)" "sd_progress sd (sd_expire sd d) = Finished False"
    "sd_is_expired sd d \<Longrightarrow> sd_progress sd d = Finished False"
    using sd by (simp_all add: session_data_laws_def)
  note defs = row_deleted_def memory_retain_def row_expired_at_def memory_expire_def row_session_def
    row_in_sync_def
  have ex: "status_parse ''expired'' = Some StExpired" by (simp add: status_parse_def)
  consider (expired) "st = StExpired" | (active) "st = StActive" "sd_progress sd d = Active"
    | (succeeded) "st = StSucceeded" "sd_progress sd d = Finished True"
    | (failed) "st = StFailed" "sd_progress sd d = Finished False"
    using sync' by (cases "sd_progress sd d" rule: session_status_from.cases) auto
  note cases = this
  show "row_deleted timeouts now r \<longleftrightarrow>
      \<not> memory_retain sd (now - successful_deletion timeouts) (now - failed_deletion timeouts) x"
    by (cases rule: cases) (use e in \<open>auto simp: defs xd st d split: bool.splits\<close>)
  show "row_session sd pg (row_expired_at timeouts now r) =
      Some (memory_expire sd now (now - expiration timeouts) x)"
    if "\<not> row_deleted timeouts now r"
  proof (cases "st = StActive \<and> row_last_active r < now - expiration timeouts")
    case True
    then have "sd_progress sd d = Active" using cases by auto
    then show ?thesis using True e by (auto simp: row_expired_at_def memory_expire_def row_session_def xd st d ex)
  next
    case False
    then have "row_expired_at timeouts now r = r" by (cases st) (simp_all add: row_expired_at_def st)
    moreover have "memory_expire sd now (now - expiration timeouts) x = x"
      by (cases rule: cases) (use False e in \<open>simp_all add: memory_expire_def xd\<close>)
    ultimately show ?thesis using x by simp
  qed
  show "row_in_sync sd pg (row_expired_at timeouts now r)"
    using sync ex by (auto simp: defs d split: option.splits)
qed

lemma pg_cleanup_view:
  assumes v: "pg_valid sd pg rows" and sync: "pg_in_sync sd pg rows" and sd: "session_data_laws sd"
    and t: "exact_cutoffs pg timeouts now"
  obtains rows' where "pg_cleanup pg timeouts now rows = Ok rows'" "pg_valid sd pg rows'"
    "pg_in_sync sd pg rows'"
    "pg_view sd pg rows' = memory_cleanup sd timeouts now (pg_view sd pg rows)"
proof -
  define f where "f r = (if row_type r = pg_type pg then row_expired_at timeouts now r else r)" for r
  define Q where "Q r = (\<not> (row_type r = pg_type pg \<and> row_deleted timeouts now r))" for r
  have f: "row_key (f r) = row_key r" for r by (simp add: f_def row_key_def row_expired_at_def)
  have c: "pg_cleanup pg timeouts now rows = Ok (map f (filter Q rows))"
    using pg_cleanup_eq [OF _ t] v by (simp add: pg_valid_def f_def [abs_def] Q_def [abs_def])
  have in_sync: "row_in_sync sd pg (f r)" if "r \<in> set rows" "row_type r = pg_type pg" for r
  proof -
    have r: "row_in_sync sd pg r" using sync that by (simp add: pg_in_sync_def)
    then obtain x where "row_session sd pg r = Some x" by (rule row_in_syncE)
    from row_cleanup(3) [OF r sd this] show ?thesis using that(2) by (simp add: f_def)
  qed
  have valid': "pg_valid sd pg (map f (filter Q rows))"
  proof (rule pg_valid_map [OF pg_valid_filter [OF v] f])
    fix r assume "r \<in> set (filter Q rows)" "row_type r = pg_type pg"
    with in_sync show "row_session sd pg (f r) \<noteq> None" by (auto elim: row_in_syncE)
  qed
  have "row_type (f r) = row_type r" for r using f [of r] by (simp add: row_key_def)
  then have sync': "pg_in_sync sd pg (map f (filter Q rows))"
    using in_sync by (simp add: pg_in_sync_def)
  have "pg_view sd pg (map f (filter Q rows)) token = memory_cleanup sd timeouts now (pg_view sd pg rows) token"
    for token
  proof (cases "pg_find pg rows token")
    case None
    then show ?thesis using v
      by (simp add: pg_view_def pg_find_map [OF f] pg_find_filter pg_valid_def memory_cleanup_apply)
  next
    case (Some r)
    then have r: "r \<in> set rows" "row_type r = pg_type pg" by (auto dest: pg_find_SomeD)
    then have rs: "row_in_sync sd pg r" using sync by (simp add: pg_in_sync_def)
    then obtain x where x: "row_session sd pg r = Some x" by (rule row_in_syncE)
    note rc = row_cleanup [OF rs sd x, of timeouts now]
    have "pg_find pg (map f (filter Q rows)) token =
      (if row_deleted timeouts now r then None else Some (row_expired_at timeouts now r))"
      using v Some r by (simp add: pg_find_map [OF f] pg_find_filter pg_valid_def Q_def f_def)
    then show ?thesis using rc(1,2) Some x by (simp add: pg_view_def memory_cleanup_apply)
  qed
  then have "pg_view sd pg (map f (filter Q rows)) = memory_cleanup sd timeouts now (pg_view sd pg rows)" by auto
  with c valid' sync' show thesis by (rule that)
qed

lemma memory_cleanup_bounds:
  assumes "memory_cleanup sd timeouts now m token = Some x" "0 \<le> failed_deletion timeouts"
    "session_data_laws sd"
  shows "case sd_progress sd (ss_data x) of
      Active \<Rightarrow> now - expiration timeouts \<le> ss_last_active x \<and> m token = Some x
    | Finished True \<Rightarrow> now - successful_deletion timeouts \<le> ss_last_active x \<and> m token = Some x
    | Finished False \<Rightarrow> now - failed_deletion timeouts \<le> ss_last_active x"
proof -
  from assms(1) obtain y where y: "m token = Some y"
    "memory_retain sd (now - successful_deletion timeouts) (now - failed_deletion timeouts) y"
    "x = memory_expire sd now (now - expiration timeouts) y"
    by (auto simp: memory_cleanup_apply split: option.splits if_splits)
  have e: "\<And>d. sd_is_expired sd (sd_expire sd d)" "\<And>d. sd_is_expired sd d \<Longrightarrow> sd_progress sd d = Finished False"
    using assms(3) by (simp_all add: session_data_laws_def)
  show ?thesis
  proof (cases "x = y")
    case False
    then have "sd_progress sd (ss_data x) = Finished False" "ss_last_active x = now"
      using y(3) e by (auto simp: memory_expire_def split: if_splits)
    then show ?thesis using assms(2) by simp
  next
    case True
    have "now - expiration timeouts \<le> ss_last_active y" if "sd_progress sd (ss_data y) = Active"
    proof (rule ccontr)
      assume "\<not> ?thesis"
      then have "ss_data (memory_expire sd now (now - expiration timeouts) y) = sd_expire sd (ss_data y)"
        using that e(2) [of "ss_data y"] by (auto simp: memory_expire_def)
      then show False using True y(3) that e by (metis progress.distinct(1))
    qed
    then show ?thesis using y(1,2) e(2) [of "ss_data y"] True
      by (cases "sd_progress sd (ss_data y)"; cases "sd_is_expired sd (ss_data y)")
        (auto simp: memory_retain_def split: bool.splits)
  qed
qed

section \<open>Properties\<close>

text \<open>
  C29: On a table whose status column agrees with its session data, the clean-up of the PostgreSQL
  store succeeds, keeps that agreement, and has on the sessions that are read back exactly the
  effect of the clean-up of the store in memory: the same sessions are deleted, the same ones
  expire and the others are untouched.
\<close>

theorem pg_cleanup_refines_memory:
  assumes "pg_valid sd pg rows" "pg_in_sync sd pg rows" "session_data_laws sd"
    "exact_cutoffs pg timeouts now"
  shows "\<exists>rows'. pg_cleanup pg timeouts now rows = Ok rows' \<and> pg_valid sd pg rows' \<and>
    pg_in_sync sd pg rows' \<and>
    (\<forall>token. pg_get sd pg rows' token =
       memory_get (memory_cleanup sd timeouts now (pg_view sd pg rows)) token)"
proof -
  obtain rows' where r: "pg_cleanup pg timeouts now rows = Ok rows'" "pg_valid sd pg rows'"
    "pg_in_sync sd pg rows'"
    "pg_view sd pg rows' = memory_cleanup sd timeouts now (pg_view sd pg rows)"
    using pg_cleanup_view [OF assms] by blast
  then show ?thesis by (auto simp: ps.get_view memory_get_def)
qed

text \<open>
  Session data for examples: the progress of a session, whether it is expired, and a database that
  stores it under a one-letter code.
\<close>

definition demo_sd :: "(progress \<times> bool) session_data" where
  "demo_sd = \<lparr>sd_progress = (\<lambda>(p, e). if e then Finished False else p), sd_is_expired = snd,
     sd_expire = (\<lambda>(p, e). (p, True))\<rparr>"

definition demo_pg :: "(progress \<times> bool) postgres" where
  "demo_pg = \<lparr>pg_refused = False,
     pg_to_value = (\<lambda>(p, e). Some ((case p of Active \<Rightarrow> ''A'' | Finished True \<Rightarrow> ''S'' | Finished False \<Rightarrow> ''F'') @
       (if e then ''x'' else ''''))),
     pg_from_value = (\<lambda>s. case s of
       c # r \<Rightarrow> Some (if c = CHR ''A'' then Active else Finished (c = CHR ''S''), r = ''x'') | [] \<Rightarrow> None),
     pg_time = id, pg_type = ''demo''\<rparr>"

definition demo_row :: "string \<Rightarrow> string \<Rightarrow> string \<Rightarrow> datetime \<Rightarrow> session_row" where
  "demo_row token data status t = \<lparr>row_type = ''demo'', row_token = token, row_data = data,
     row_status = status, row_last_active = t\<rparr>"

lemma demo_sd_laws: "session_data_laws demo_sd"
  by (auto simp: session_data_laws_def demo_sd_def)

lemma demo_exact: "exact_cutoffs demo_pg timeouts now"
  by (simp add: exact_cutoffs_def demo_pg_def)

lemma demo_storable: "pg_storable demo_pg x"
  by (cases "ss_data x"; cases "fst (ss_data x)")
    (auto simp: pg_storable_def demo_pg_def split: bool.splits)

lemmas demo_store_simps = demo_row_def pg_valid_def pg_in_sync_def row_in_sync_def row_session_def
  row_key_def status_parse_def pg_find_def pg_view_def pg_frozen_def

theorem pg_cleanup_refines_memory_witness:
  "let rows = [demo_row ''a'' ''A'' ''active'' 0, demo_row ''b'' ''S'' ''succeeded'' 0,
      demo_row ''c'' ''A'' ''expired'' (seconds 1)] in
    \<exists>rows'. pg_cleanup demo_pg default_session_store_timeouts (seconds 1801) rows = Ok rows' \<and>
      pg_get demo_sd demo_pg rows' ''a'' = Ok (Some \<lparr>ss_data = (Active, True), ss_token = ''a'',
        ss_last_active = seconds 1801\<rparr>) \<and>
      pg_get demo_sd demo_pg rows' ''b'' = Ok None"
proof -
  define rows where "rows = [demo_row ''a'' ''A'' ''active'' 0, demo_row ''b'' ''S'' ''succeeded'' 0,
      demo_row ''c'' ''A'' ''expired'' (seconds 1)]"
  have v: "pg_valid demo_sd demo_pg rows" "pg_in_sync demo_sd demo_pg rows"
    by (simp_all add: rows_def demo_store_simps demo_pg_def demo_sd_def)
  have c: "memory_cleanup demo_sd default_session_store_timeouts (seconds 1801) (pg_view demo_sd demo_pg rows) ''a''
      = Some \<lparr>ss_data = (Active, True), ss_token = ''a'', ss_last_active = seconds 1801\<rparr>"
    "memory_cleanup demo_sd default_session_store_timeouts (seconds 1801) (pg_view demo_sd demo_pg rows) ''b'' = None"
    by (simp_all add: memory_cleanup_apply memory_retain_def memory_expire_def rows_def demo_store_simps
        demo_pg_def demo_sd_def default_session_store_timeouts_def seconds_def)
  from pg_cleanup_refines_memory [OF v demo_sd_laws demo_exact, of default_session_store_timeouts "seconds 1801"]
  show ?thesis unfolding Let_def rows_def [symmetric] by (auto simp: c memory_get_def)
qed

text \<open>
  C30: An update of a session in PostgreSQL leaves its status column as it was. So a session that was
  active and is updated to be finished is still cleaned up as an active one: past the expiration
  timeout it is not deleted but marked expired, and from then on its data reads as expired, whatever
  its outcome was. The store in memory deletes a successful session then, as the successful deletion
  timeout is the shorter one.
\<close>

theorem pg_finished_session_is_expired:
  assumes v: "pg_valid sd pg rows" and t: "exact_cutoffs pg timeouts now"
    and r: "pg_find pg rows (ss_token x) = Some r" "row_status r = ''active''"
    and x: "pg_storable pg x" "sd_progress sd (ss_data x) = Finished True" "\<not> sd_is_expired sd (ss_data x)"
    and late: "ss_last_active x < now - expiration timeouts"
      "successful_deletion timeouts \<le> expiration timeouts"
  shows "\<exists>rows1 rows2. pg_write sd pg rows x False = Ok rows1 \<and> pg_cleanup pg timeouts now rows1 = Ok rows2 \<and>
      pg_get sd pg rows2 (ss_token x) =
        Ok (Some (x\<lparr>ss_data := sd_expire sd (ss_data x), ss_last_active := now\<rparr>)) \<and>
      (\<exists>m1. memory_write m x False = Ok m1 \<and> memory_cleanup sd timeouts now m1 (ss_token x) = None)"
proof -
  obtain rows1 j where w: "pg_write sd pg rows x False = Ok rows1" and
    m: "rows1 = map (\<lambda>r. if row_key r = (pg_type pg, ss_token x)
      then r\<lparr>row_data := j, row_last_active := ss_last_active x\<rparr> else r) rows" and
    j: "pg_from_value pg j = Some (ss_data x)" and v1: "pg_valid sd pg rows1" and
    f: "pg_find pg rows1 (ss_token x) = Some (r\<lparr>row_data := j, row_last_active := ss_last_active x\<rparr>)" and
    o: "\<And>t. t \<noteq> ss_token x \<Longrightarrow> pg_find pg rows1 t = pg_find pg rows t"
    using pg_write_present [OF v x(1) r(1)] by blast
  define g where "g r = (if row_type r = pg_type pg then row_expired_at timeouts now r else r)" for r
  have g: "row_key (g r) = row_key r" for r by (simp add: g_def row_key_def row_expired_at_def)
  define Q where "Q r = (\<not> (row_type r = pg_type pg \<and> row_deleted timeouts now r))" for r
  have c: "pg_cleanup pg timeouts now rows1 = Ok (map g (filter Q rows1))"
    using pg_cleanup_eq [OF _ t] v by (simp add: pg_valid_def g_def [abs_def] Q_def [abs_def])
  have k: "row_type r = pg_type pg" "row_token r = ss_token x" using pg_find_SomeD [OF r(1)] by auto
  have "pg_find pg (map g (filter Q rows1)) (ss_token x) =
      Some (r\<lparr>row_data := j, row_last_active := now, row_status := ''expired''\<rparr>)"
    using v1 f late(1) r(2) k
    by (simp add: pg_find_map [OF g] pg_find_filter pg_valid_def Q_def g_def row_deleted_def row_expired_at_def)
  then have "pg_get sd pg (map g (filter Q rows1)) (ss_token x) =
      Ok (Some (x\<lparr>ss_data := sd_expire sd (ss_data x), ss_last_active := now\<rparr>))"
    using v k by (simp add: pg_get_def pg_valid_def status_parse_def j)
  moreover have "\<exists>m1. memory_write m x False = Ok m1 \<and> memory_cleanup sd timeouts now m1 (ss_token x) = None"
    using x(2,3) late by (simp add: memory_write_def memory_cleanup_apply memory_retain_def)
  ultimately show ?thesis using w c by blast
qed

theorem pg_finished_session_is_expired_witness:
  "\<exists>rows1 rows2. pg_write demo_sd demo_pg [demo_row ''a'' ''A'' ''active'' 0]
        \<lparr>ss_data = (Finished True, False), ss_token = ''a'', ss_last_active = 0\<rparr> False = Ok rows1 \<and>
      pg_cleanup demo_pg default_session_store_timeouts (seconds 1801) rows1 = Ok rows2 \<and>
      pg_get demo_sd demo_pg rows2 ''a'' = Ok (Some \<lparr>ss_data = (Finished True, True), ss_token = ''a'',
        ss_last_active = seconds 1801\<rparr>)"
proof -
  let ?row = "demo_row ''a'' ''A'' ''active'' 0"
  let ?x = "\<lparr>ss_data = (Finished True, False), ss_token = ''a'', ss_last_active = 0\<rparr>"
  have v: "pg_valid demo_sd demo_pg [?row]"
    by (simp add: demo_store_simps demo_sd_def demo_pg_def)
  have r: "pg_find demo_pg [?row] (ss_token ?x) = Some ?row" "row_status ?row = ''active''"
    by (simp_all add: pg_find_def demo_pg_def demo_row_def)
  have x: "sd_progress demo_sd (ss_data ?x) = Finished True" "\<not> sd_is_expired demo_sd (ss_data ?x)"
    by (simp_all add: demo_sd_def)
  have late: "ss_last_active ?x < seconds 1801 - expiration default_session_store_timeouts"
    "successful_deletion default_session_store_timeouts \<le> expiration default_session_store_timeouts"
    by (simp_all add: default_session_store_timeouts_def seconds_def)
  have e: "sd_expire demo_sd (Finished True, False) = (Finished True, True)" by (simp add: demo_sd_def)
  from pg_finished_session_is_expired [OF v demo_exact r demo_storable x late, of "\<lambda>_. None"]
  show ?thesis by (auto simp: e)
qed

text \<open>
  After a clean-up of either store, every remaining active session was used within the expiration
  timeout, every remaining successful one within the successful deletion timeout, both are as they
  were before, and every remaining failed or expired one is no older than the failed deletion timeout.
\<close>

theorem store_cleanup_bounds:
  assumes "variant_valid sd pg s" "\<And>rows. s = Postgres rows \<Longrightarrow> pg_in_sync sd pg rows"
    "session_data_laws sd" "exact_cutoffs pg timeouts now" "0 \<le> failed_deletion timeouts"
  shows "\<exists>s'. store_cleanup sd pg timeouts now s = Ok s' \<and> variant_valid sd pg s' \<and>
    (\<forall>token x. store_get sd pg s' token = Ok (Some x) \<longrightarrow>
      (case sd_progress sd (ss_data x) of
         Active \<Rightarrow> now - expiration timeouts \<le> ss_last_active x \<and> store_get sd pg s token = Ok (Some x)
       | Finished True \<Rightarrow> now - successful_deletion timeouts \<le> ss_last_active x \<and>
           store_get sd pg s token = Ok (Some x)
       | Finished False \<Rightarrow> now - failed_deletion timeouts \<le> ss_last_active x))"
proof -
  obtain s' where s': "store_cleanup sd pg timeouts now s = Ok s'" "variant_valid sd pg s'"
    "variant_view sd pg s' = memory_cleanup sd timeouts now (variant_view sd pg s)"
  proof (cases s)
    case (Postgres rows)
    then have "pg_valid sd pg rows" "pg_in_sync sd pg rows" using assms(1,2) by simp_all
    from pg_cleanup_view [OF this assms(3,4)] obtain rows' where
      "pg_cleanup pg timeouts now rows = Ok rows'" "pg_valid sd pg rows'"
      "pg_view sd pg rows' = memory_cleanup sd timeouts now (pg_view sd pg rows)" by blast
    then show ?thesis using that [of "Postgres rows'"] Postgres by simp
  next
    case (Memory m)
    then show ?thesis
      using assms(1) that [of "Memory (memory_cleanup sd timeouts now m)"]
      by (simp add: memory_cleanup_valid)
  qed
  have g: "store_get sd pg s' t = Ok (memory_cleanup sd timeouts now (variant_view sd pg s) t)"
    "store_get sd pg s t = Ok (variant_view sd pg s t)" for t
    using vs.get_view [OF s'(2)] vs.get_view [OF assms(1)] s'(3) by simp_all
  show ?thesis
  proof (intro exI conjI allI impI, rule s'(1), rule s'(2))
    fix token x
    assume "store_get sd pg s' token = Ok (Some x)"
    then have "memory_cleanup sd timeouts now (variant_view sd pg s) token = Some x" by (simp add: g)
    from memory_cleanup_bounds [OF this assms(5,3)]
    show "case sd_progress sd (ss_data x) of
         Active \<Rightarrow> now - expiration timeouts \<le> ss_last_active x \<and> store_get sd pg s token = Ok (Some x)
       | Finished True \<Rightarrow> now - successful_deletion timeouts \<le> ss_last_active x \<and>
           store_get sd pg s token = Ok (Some x)
       | Finished False \<Rightarrow> now - failed_deletion timeouts \<le> ss_last_active x"
      by (auto simp: g split: progress.splits bool.splits)
  qed
qed

theorem store_cleanup_bounds_witness:
  "\<exists>s'. store_cleanup demo_sd demo_pg default_session_store_timeouts (seconds 301)
      (Postgres [demo_row ''a'' ''A'' ''active'' 0, demo_row ''b'' ''S'' ''succeeded'' 0]) = Ok s' \<and>
    store_get demo_sd demo_pg s' ''b'' \<noteq> Ok (Some \<lparr>ss_data = (Finished True, False), ss_token = ''b'',
      ss_last_active = 0\<rparr>)"
proof -
  define rows where "rows = [demo_row ''a'' ''A'' ''active'' 0, demo_row ''b'' ''S'' ''succeeded'' 0]"
  have v: "pg_valid demo_sd demo_pg rows" "pg_in_sync demo_sd demo_pg rows"
    by (simp_all add: rows_def demo_store_simps demo_pg_def demo_sd_def)
  let ?x = "\<lparr>ss_data = (Finished True, False), ss_token = ''b'', ss_last_active = 0\<rparr>"
  have v': "variant_valid demo_sd demo_pg (Postgres rows)" using v by simp
  have f: "0 \<le> failed_deletion default_session_store_timeouts"
    by (simp add: default_session_store_timeouts_def seconds_def)
  have p: "sd_progress demo_sd (ss_data ?x) = Finished True" by (simp add: demo_sd_def)
  from store_cleanup_bounds [OF v' _ demo_sd_laws demo_exact f, of "seconds 301"] v(2)
  obtain s' where s': "store_cleanup demo_sd demo_pg default_session_store_timeouts (seconds 301) (Postgres rows) = Ok s'"
    and b: "\<And>token x. store_get demo_sd demo_pg s' token = Ok (Some x) \<Longrightarrow>
      (case sd_progress demo_sd (ss_data x) of Finished True \<Rightarrow>
        seconds 301 - successful_deletion default_session_store_timeouts \<le> ss_last_active x | _ \<Rightarrow> True)"
    by (fastforce split: progress.splits bool.splits)
  then have "store_get demo_sd demo_pg s' ''b'' = Ok (Some ?x) \<Longrightarrow>
       seconds 301 - successful_deletion default_session_store_timeouts \<le> 0"
    using b [of "''b''" ?x] p by simp
  with s' show ?thesis
    unfolding rows_def [symmetric] by (auto simp: default_session_store_timeouts_def seconds_def)
qed

text \<open>
  Either store returns what was written: a new session is stored once and only once, an update
  replaces it unless the store had marked it expired, and both are read back without changing any
  other session.
\<close>

theorem store_write_read_back:
  assumes "variant_valid sd pg s" "pg_storable pg x"
  shows "(store_get sd pg s (ss_token x) = Ok None \<longrightarrow>
      (\<exists>s'. store_write sd pg s x True = Ok s' \<and>
        (\<forall>t. store_get sd pg s' t = (if t = ss_token x then Ok (Some x) else store_get sd pg s t)) \<and>
        store_write sd pg s' x True = Err (DuplicateToken (ss_token x)))) \<and>
    (\<not> variant_frozen pg s (ss_token x) \<longrightarrow>
      (\<exists>s'. store_write sd pg s x False = Ok s' \<and>
        (\<forall>t. store_get sd pg s' t = (if t = ss_token x then Ok (Some x) else store_get sd pg s t))))"
proof (intro conjI impI)
  assume a: "store_get sd pg s (ss_token x) = Ok None"
  with assms vs.write_absent [OF assms, of True] obtain s' where s': "store_write sd pg s x True = Ok s'"
    by (auto simp: vs.get_view)
  then show "\<exists>s'. store_write sd pg s x True = Ok s' \<and>
      (\<forall>t. store_get sd pg s' t = (if t = ss_token x then Ok (Some x) else store_get sd pg s t)) \<and>
      store_write sd pg s' x True = Err (DuplicateToken (ss_token x))"
    using vs.create_get [OF assms a s'] vs.create_once [OF assms s' assms(2) refl] by blast
next
  assume a: "\<not> variant_frozen pg s (ss_token x)"
  obtain s' where s': "store_write sd pg s x False = Ok s'" by (rule vs.update_total [OF assms a])
  then show "\<exists>s'. store_write sd pg s x False = Ok s' \<and>
      (\<forall>t. store_get sd pg s' t = (if t = ss_token x then Ok (Some x) else store_get sd pg s t))"
    using vs.update_get [OF assms a s'] by blast
qed

theorem store_write_read_back_witness:
  "\<exists>s'. store_write demo_sd demo_pg (Postgres []) \<lparr>ss_data = (Active, False), ss_token = ''a'', ss_last_active = 7\<rparr> True = Ok s' \<and>
    store_get demo_sd demo_pg s' ''a'' = Ok (Some \<lparr>ss_data = (Active, False), ss_token = ''a'', ss_last_active = 7\<rparr>)"
proof -
  have "variant_valid demo_sd demo_pg (Postgres [])" by (simp add: pg_valid_def demo_pg_def)
  from store_write_read_back [OF this demo_storable,
      of "\<lparr>ss_data = (Active, False), ss_token = ''a'', ss_last_active = 7\<rparr>"]
  show ?thesis by (auto simp: pg_get_def demo_pg_def pg_find_def)
qed

section \<open>Stores that expire sessions\<close>

text \<open>
  What the servers rely on beyond the contract above: a clean-up deletes sessions or marks them as
  expired and does nothing else, and a frozen session is one that is read as expired. A session that is
  not read as expired can be updated.
\<close>

locale expiring_session_store =
  session_store valid view frozen storable get put
  for valid :: "'s \<Rightarrow> bool" and view :: "'s \<Rightarrow> session_token \<Rightarrow> 't session_state option"
    and frozen :: "'s \<Rightarrow> session_token \<Rightarrow> bool" and storable :: "'t session_state \<Rightarrow> bool"
    and get :: "'s \<Rightarrow> session_token \<Rightarrow> ('t session_state option, session_store_error) res"
    and put :: "'s \<Rightarrow> 't session_state \<Rightarrow> bool \<Rightarrow> ('s, session_store_error) res" +
  fixes sd :: "'t session_data"
    and clean :: "session_store_timeouts \<Rightarrow> datetime \<Rightarrow> 's \<Rightarrow> ('s, session_store_error) res"
  assumes frozen_expired: "valid s \<Longrightarrow> frozen s t \<Longrightarrow> \<exists>x. view s t = Some x \<and> sd_is_expired sd (ss_data x)"
    and clean_valid: "valid s \<Longrightarrow> clean timeouts now s = Ok s' \<Longrightarrow> valid s'"
    and clean_view: "valid s \<Longrightarrow> clean timeouts now s = Ok s' \<Longrightarrow> view s' t = Some y \<Longrightarrow>
      \<exists>x. view s t = Some x \<and> (y = x \<or> ss_data y = sd_expire sd (ss_data x))"
begin

lemma create_view:
  assumes "valid s" "storable x" "put s x True = Ok s'"
  shows "view s (ss_token x) = None" "valid s'" "view s' = (view s)(ss_token x \<mapsto> x)"
proof -
  show n: "view s (ss_token x) = None" using write_duplicate [OF assms(1,2)] assms(3) by fastforce
  from write_absent [OF assms(1,2) n, of True] assms(3)
  show "valid s'" "view s' = (view s)(ss_token x \<mapsto> x)" by auto
qed

lemma update_unexpired:
  assumes v: "valid s" and g: "get s (ss_token x) = Ok (Some y)" "\<not> sd_is_expired sd (ss_data y)" and x: "storable x"
  obtains s' where "put s x False = Ok s'" "valid s'" "view s' = (view s)(ss_token x \<mapsto> x)"
proof -
  have "view s (ss_token x) = Some y" using g(1) v by (simp add: get_view)
  then have "\<not> frozen s (ss_token x)" using frozen_expired [OF v] g(2) by force
  from update_total [OF v x this] show thesis using that by blast
qed

text \<open>A property of the sessions that the end by expiry has is kept by a clean-up.\<close>

lemma clean_keeps:
  assumes "valid s" "clean timeouts now s = Ok s'" "\<And>t x. view s t = Some x \<Longrightarrow> P t (ss_data x)"
    and "\<And>t d. P t d \<Longrightarrow> P t (sd_expire sd d)" "view s' t = Some y"
  shows "P t (ss_data y)"
  using clean_view [OF assms(1,2,5)] assms(3,4) by metis

end

lemma status_parse_text: "status_parse ''active'' = Some StActive" "status_parse ''expired'' = Some StExpired"
  using status_roundtrip [of StActive] status_roundtrip [of StExpired] by simp_all

lemma pg_cleanup_rows:
  assumes v: "pg_valid sd pg rows" and c: "pg_cleanup pg timeouts now rows = Ok rows'"
  shows "pg_valid sd pg rows'"
    "pg_find pg rows' t = Some r' \<Longrightarrow> \<exists>r. pg_find pg rows t = Some r \<and> (r' = r \<or>
       row_status r' = status_to_string StExpired \<and> row_status r = status_to_string StActive \<and>
       row_token r' = row_token r \<and> row_data r' = row_data r)"
proof -
  define f where "f r = (if row_type r = pg_type pg \<and> row_status r = status_to_string StActive \<and>
      row_last_active r < pg_time pg (now - expiration timeouts)
    then r\<lparr>row_status := status_to_string StExpired, row_last_active := pg_time pg now\<rparr> else r)" for r :: session_row
  obtain Q where rows': "rows' = map f (filter Q rows)"
    using c by (auto simp: pg_cleanup_def pg_expire_def pg_delete_def Let_def f_def [abs_def] split: if_splits)
  have f: "row_key (f r) = row_key r" for r by (simp add: f_def row_key_def)
  show "pg_valid sd pg rows'" unfolding rows'
  proof (rule pg_valid_map [OF pg_valid_filter [OF v] f])
    fix r assume r: "r \<in> set (filter Q rows)" "row_type r = pg_type pg"
    then have "row_session sd pg r \<noteq> None" using v by (auto simp: pg_valid_def)
    then show "row_session sd pg (f r) \<noteq> None" by (auto simp: f_def row_session_def status_parse_text split: option.splits)
  qed
  have d: "distinct (map row_key rows)" using v by (simp add: pg_valid_def)
  assume "pg_find pg rows' t = Some r'"
  then obtain r where r: "pg_find pg (filter Q rows) t = Some r" "r' = f r"
    unfolding rows' by (auto simp: pg_find_map [OF f])
  then have "pg_find pg rows t = Some r" using pg_find_filter [OF d, of pg Q t] by (auto split: option.splits if_splits)
  then show "\<exists>r. pg_find pg rows t = Some r \<and> (r' = r \<or>
       row_status r' = status_to_string StExpired \<and> row_status r = status_to_string StActive \<and>
       row_token r' = row_token r \<and> row_data r' = row_data r)"
    using r(2) by (auto simp: f_def)
qed

lemma pg_cleanup_sessions:
  assumes v: "pg_valid sd pg rows" and c: "pg_cleanup pg timeouts now rows = Ok rows'" and y: "pg_view sd pg rows' t = Some y"
  shows "\<exists>x. pg_view sd pg rows t = Some x \<and> (y = x \<or> ss_data y = sd_expire sd (ss_data x))"
proof -
  from y obtain r' where r': "pg_find pg rows' t = Some r'" "row_session sd pg r' = Some y"
    by (auto simp: pg_view_def Option.bind_eq_Some_conv)
  from pg_cleanup_rows(2) [OF v c r'(1)] obtain r where r: "pg_find pg rows t = Some r" and
    e: "r' = r \<or> row_status r' = status_to_string StExpired \<and> row_status r = status_to_string StActive \<and>
       row_token r' = row_token r \<and> row_data r' = row_data r" by blast
  show ?thesis using e
  proof
    assume "r' = r"
    then show ?thesis using r r'(2) by (simp add: pg_view_def)
  next
    assume "row_status r' = status_to_string StExpired \<and> row_status r = status_to_string StActive \<and>
       row_token r' = row_token r \<and> row_data r' = row_data r"
    then show ?thesis using r r'(2) by (auto simp: pg_view_def row_session_def status_parse_text split: option.splits)
  qed
qed

lemma pg_frozen_expired:
  assumes "session_data_laws sd" "pg_valid sd pg rows" "pg_frozen pg rows t"
  shows "\<exists>x. pg_view sd pg rows t = Some x \<and> sd_is_expired sd (ss_data x)"
proof -
  obtain r where r: "pg_find pg rows t = Some r" "row_status r = ''expired''"
    using assms(3) by (auto simp: pg_frozen_def split: option.splits)
  have "row_session sd pg r \<noteq> None" using assms(2) pg_find_SomeD [OF r(1)] by (simp add: pg_valid_def)
  moreover have "status_parse (row_status r) = Some StExpired"
    using r(2) by (simp add: status_parse_text)
  ultimately show ?thesis using r(1) assms(1)
    by (auto simp: pg_view_def row_session_def session_data_laws_def split: option.splits)
qed

text \<open>Either store fulfils this for session data that keeps the laws of expiry.\<close>

lemma expiring_store_variant:
  assumes sd: "session_data_laws sd"
  shows "expiring_session_store (variant_valid sd pg) (variant_view sd pg) (variant_frozen pg) (pg_storable pg)
    (store_get sd pg) (store_write sd pg) sd (store_cleanup sd pg)"
proof (unfold_locales, goal_cases)
  case (1 s t)
  then show ?case using pg_frozen_expired [OF sd] by (cases s) auto
next
  case (2 s timeouts now s')
  then show ?case using pg_cleanup_rows(1) memory_cleanup_valid by (cases s) (auto simp: result_simps)
next
  case (3 s timeouts now s' t y)
  show ?case
  proof (cases s)
    case (Postgres rows)
    then show ?thesis using 3 pg_cleanup_sessions by (auto simp: result_simps)
  next
    case (Memory m)
    then have m: "memory_valid m" "s' = Memory (memory_cleanup sd timeouts now m)" using 3 by auto
    then have "memory_cleanup sd timeouts now m t = Some y" using 3(3) memory_cleanup_valid [OF m(1)] by simp
    then show ?thesis using Memory m(1)
      by (auto simp: memory_cleanup_def Let_def memory_expire_def split: option.splits if_splits)
  qed
qed

end
