(* ===== verification/Cose.thy ===== *)
theory Cose
  imports Messages SessionStore
begin

text \<open>
  COSE objects, COSE keys and certificates: \<open>mdoc/src/utils/cose.rs\<close>,
  \<open>mdoc/src/utils/crypto.rs\<close> and \<open>mdoc/src/utils/x509.rs\<close>. The crates that sign, hash,
  encode and check certificate chains (coset, p256, ring, webpki, x509_parser) are the record
  \<open>crypto\<close>.
\<close>

section \<open>CBOR values and COSE objects\<close>

text \<open>A value of the ciborium crate; a float is its bit pattern.\<close>

datatype cbor_value =
    CInteger int
  | CBytes bytes
  | CFloat u64
  | CText string
  | CBool bool
  | CNull
  | CTag u64 cbor_value
  | CArray "cbor_value list"
  | CMap "(cbor_value \<times> cbor_value) list"

fun value_as_bytes :: "cbor_value \<Rightarrow> bytes option" where
  "value_as_bytes (CBytes bs) = Some bs"
| "value_as_bytes _ = None"

datatype label = LInt int | LText string

record header =
  hdr_alg :: "int option"
  hdr_rest :: "(label \<times> cbor_value) list"

definition header_default :: header where
  "header_default = \<lparr>hdr_alg = None, hdr_rest = []\<rparr>"

record cose_sign1 =
  cs_signature :: bytes
  cs_payload :: "bytes option"
  cs_protected :: header
  cs_unprotected :: header

record cose_mac0 =
  cm_tag :: bytes
  cm_payload :: "bytes option"
  cm_protected :: header
  cm_unprotected :: header

section \<open>Errors\<close>

datatype certificate_error =
    CertVerification
  | ValidationParsing
  | ContentParsing
  | KeyParsingFailed
  | IncorrectEkuCount nat
  | IncorrectEku bytes
  | DerEncodingError
  | JsonEncodingError
  | X509Error

datatype cose_error =
    MissingPayload
  | MissingLabel label
  | EcdsaSignatureParsingFailed
  | EcdsaSignatureVerificationFailed
  | MacVerificationFailed
  | CoseCbor
  | CertificateUnexpectedHeaderType
  | CoseCertificate certificate_error
  | CoseSigning
  | SignatureMissing

datatype crypto_error =
    Hkdf
  | KeyMissingCoordinate
  | KeyWrongType
  | KeyMissingKeyID
  | KeyUnepectedCoseLabel
  | KeyCoordinateParseFailed
  | KeyParseFailed
  | Aes
  | MissingCiphertext

section \<open>Primitives\<close>

text \<open>
  \<open>sig_structure_data\<close> and \<open>mac_structure_data\<close> are the bytes coset signs or authenticates for a
  protected header and a payload; \<open>x509_\<close> functions read a certificate that \<open>x509_parses\<close>, and
  fail where x509_parser does; \<open>webpki_verify\<close> checks a chain for trust anchors, a time in seconds and
  an extended key usage.
\<close>

type_synonym certificate = bytes
type_synonym trust_anchor = bytes
type_synonym secret_key = bytes

record crypto =
  sig_structure_data :: "header \<Rightarrow> bytes \<Rightarrow> bytes"
  mac_structure_data :: "header \<Rightarrow> bytes \<Rightarrow> bytes"
  signature_try_from :: "bytes \<Rightarrow> signature option"
  p256_verify :: "verifying_key \<Rightarrow> bytes \<Rightarrow> signature \<Rightarrow> bool"
  to_encoded_point :: "verifying_key \<Rightarrow> bytes option \<times> bytes option"
  from_encoded_point :: "bytes \<Rightarrow> bytes \<Rightarrow> verifying_key option"
  sha256 :: "bytes \<Rightarrow> bytes"
  hkdf :: "bytes \<Rightarrow> bytes \<Rightarrow> string \<Rightarrow> nat \<Rightarrow> bytes option"
  diffie_hellman :: "secret_key \<Rightarrow> verifying_key \<Rightarrow> bytes"
  hmac_sign :: "bytes \<Rightarrow> bytes \<Rightarrow> bytes"
  webpki_parses :: "certificate \<Rightarrow> bool"
  webpki_verify :: "certificate \<Rightarrow> certificate list \<Rightarrow> trust_anchor list \<Rightarrow> u64 \<Rightarrow> bytes \<Rightarrow> bool"
  x509_parses :: "certificate \<Rightarrow> bool"
  x509_public_key_raw :: "certificate \<Rightarrow> bytes"
  public_key_from_der :: "bytes \<Rightarrow> verifying_key option"
  x509_common_names :: "certificate \<Rightarrow> string option list"
  x509_other_ekus :: "certificate \<Rightarrow> bytes list option option"
  x509_extension :: "certificate \<Rightarrow> nat list \<Rightarrow> bytes option"
  x509_dns_names :: "certificate \<Rightarrow> string list option option"

section \<open>COSE signatures\<close>

definition COSE_X5CHAIN_HEADER_LABEL :: int where
  "COSE_X5CHAIN_HEADER_LABEL = 33"

definition CoseSign1_verify :: "crypto \<Rightarrow> cose_sign1 \<Rightarrow> verifying_key \<Rightarrow> (unit, cose_error) res" where
  "CoseSign1_verify c self key =
     (let data = sig_structure_data c (cs_protected self)
            (case cs_payload self of Some p \<Rightarrow> p | None \<Rightarrow> [])
      in if cs_payload self = None then Err MissingPayload
         else res_bind (ok_or (signature_try_from c (cs_signature self)) EcdsaSignatureParsingFailed) (\<lambda>sig.
              if p256_verify c key data sig then Ok () else Err EcdsaSignatureVerificationFailed))"

definition CoseMac0_verify :: "crypto \<Rightarrow> cose_mac0 \<Rightarrow> bytes \<Rightarrow> (unit, cose_error) res" where
  "CoseMac0_verify c self key =
     (case cm_payload self of
       None \<Rightarrow> Err MissingPayload
     | Some payload \<Rightarrow>
         if hmac_sign c key (mac_structure_data c (cm_protected self) payload) = cm_tag self then Ok ()
         else Err MacVerificationFailed)"

definition cose_parse_unverified :: "(bytes \<Rightarrow> 't option) \<Rightarrow> cose_sign1 \<Rightarrow> ('t, cose_error) res" where
  "cose_parse_unverified deserialize self =
     res_bind (ok_or (cs_payload self) MissingPayload) (\<lambda>payload. ok_or (deserialize payload) CoseCbor)"

definition verify_and_parse ::
  "crypto \<Rightarrow> (bytes \<Rightarrow> 't option) \<Rightarrow> cose_sign1 \<Rightarrow> verifying_key \<Rightarrow> ('t, cose_error) res" where
  "verify_and_parse c deserialize self key =
     res_bind (CoseSign1_verify c self key) (\<lambda>_. cose_parse_unverified deserialize self)"

definition unprotected_header_item :: "cose_sign1 \<Rightarrow> label \<Rightarrow> (cbor_value, cose_error) res" where
  "unprotected_header_item self lbl =
     res_bind (ok_or (List.find (\<lambda>(l, _). l = lbl) (hdr_rest (cs_unprotected self))) (MissingLabel lbl))
       (\<lambda>item. Ok (snd item))"

definition new_certificate_header :: "certificate \<Rightarrow> header" where
  "new_certificate_header cert =
     header_default\<lparr>hdr_rest := [(LInt COSE_X5CHAIN_HEADER_LABEL, CBytes cert)]\<rparr>"

text \<open>The protected header every signature is made with: the algorithm ES256, number -7.\<close>

definition protected_header :: header where
  "protected_header = header_default\<lparr>hdr_alg := Some (- 7)\<rparr>"

definition signature_data_and_header :: "crypto \<Rightarrow> bytes \<Rightarrow> bytes \<times> header" where
  "signature_data_and_header c payload =
     (sig_structure_data c protected_header payload, protected_header)"

definition sign_cose ::
  "crypto \<Rightarrow> bytes \<Rightarrow> header \<Rightarrow> signing_key \<Rightarrow> bool \<Rightarrow> (cose_sign1, cose_error) res" where
  "sign_cose c payload unprotected_header private_key include_payload =
     (let (sig_data, protected) = signature_data_and_header c payload in
      res_bind (ok_or (private_key sig_data) CoseSigning) (\<lambda>signature.
      Ok \<lparr>cs_signature = signature, cs_payload = (if include_payload then Some payload else None),
          cs_protected = protected, cs_unprotected = unprotected_header\<rparr>))"

definition MdocCose_sign ::
  "crypto \<Rightarrow> ('t \<Rightarrow> bytes option) \<Rightarrow> 't \<Rightarrow> header \<Rightarrow> signing_key \<Rightarrow> bool
     \<Rightarrow> (cose_sign1, cose_error) res" where
  "MdocCose_sign c serialize obj unprotected_header private_key include_payload =
     res_bind (ok_or (serialize obj) CoseCbor) (\<lambda>payload.
     sign_cose c payload unprotected_header private_key include_payload)"

text \<open>
  Signing many payloads, each with a key of its own: \<open>sign_multiple\<close> is the key factory, which
  answers with a list of signatures per message and may fail or answer with too few.
\<close>

definition signatures_data_and_header :: "crypto \<Rightarrow> bytes list \<Rightarrow> bytes list \<times> header" where
  "signatures_data_and_header c payloads =
     (map (sig_structure_data c protected_header) payloads, protected_header)"

definition sign_coses ::
  "crypto \<Rightarrow> ('k \<times> bytes) list \<Rightarrow> ((bytes \<times> 'k list) list \<Rightarrow> signature list list option) \<Rightarrow> header \<Rightarrow> bool
     \<Rightarrow> (cose_sign1 list, cose_error) res" where
  "sign_coses c keys_and_challenges sign_multiple unprotected_header include_payload =
     (let keys = map fst keys_and_challenges; challenges = map snd keys_and_challenges;
          (sigs_data, protected) = signatures_data_and_header c challenges;
          keys_and_signature_data = map (\<lambda>(key, sig_data). (sig_data, [key])) (zip keys sigs_data)
      in res_bind (ok_or (sign_multiple keys_and_signature_data) CoseSigning) (\<lambda>signatures.
         res_map (\<lambda>(signature, payload).
           res_bind (ok_or (case signature of [] \<Rightarrow> None | s # _ \<Rightarrow> Some s) SignatureMissing) (\<lambda>s.
           Ok \<lparr>cs_signature = s, cs_payload = (if include_payload then Some payload else None),
               cs_protected = protected, cs_unprotected = unprotected_header\<rparr>))
           (zip signatures challenges)))"

definition sign1_with_payload :: "cose_sign1 \<Rightarrow> bytes \<Rightarrow> cose_sign1" where
  "sign1_with_payload self bts = self\<lparr>cs_payload := Some bts\<rparr>"

definition mac0_with_payload :: "cose_mac0 \<Rightarrow> bytes \<Rightarrow> cose_mac0" where
  "mac0_with_payload self bts = self\<lparr>cm_payload := Some bts\<rparr>"

definition mac0_without_payload :: "cose_mac0 \<Rightarrow> cose_mac0" where
  "mac0_without_payload self = self\<lparr>cm_payload := None\<rparr>"

definition signing_cert :: "cose_sign1 \<Rightarrow> (certificate, cose_error) res" where
  "signing_cert self =
     res_bind (unprotected_header_item self (LInt COSE_X5CHAIN_HEADER_LABEL)) (\<lambda>value.
     ok_or (value_as_bytes value) CertificateUnexpectedHeaderType)"

section \<open>Certificates\<close>

datatype certificate_usage = Mdl | ReaderAuth

definition EXTENDED_KEY_USAGE_MDL :: bytes where
  "EXTENDED_KEY_USAGE_MDL = [40, 129, 140, 93, 5, 1, 2]"

definition EXTENDED_KEY_USAGE_READER_AUTH :: bytes where
  "EXTENDED_KEY_USAGE_READER_AUTH = [40, 129, 140, 93, 5, 1, 6]"

fun to_eku :: "certificate_usage \<Rightarrow> bytes" where
  "to_eku Mdl = EXTENDED_KEY_USAGE_MDL"
| "to_eku ReaderAuth = EXTENDED_KEY_USAGE_READER_AUTH"

definition from_key_usage :: "bytes list \<Rightarrow> (certificate_usage, certificate_error) res" where
  "from_key_usage other =
     (if length other \<noteq> 1 then Err (IncorrectEkuCount (length other))
      else let key_usage_oid = hd other in
        if key_usage_oid = EXTENDED_KEY_USAGE_MDL then Ok Mdl
        else if key_usage_oid = EXTENDED_KEY_USAGE_READER_AUTH then Ok ReaderAuth
        else Err (IncorrectEku key_usage_oid))"

definition usage_from_certificate :: "crypto \<Rightarrow> certificate \<Rightarrow> (certificate_usage, certificate_error) res" where
  "usage_from_certificate c cert =
     (if \<not> x509_parses c cert then Err ContentParsing
      else res_bind (ok_or (x509_other_ekus c cert) X509Error) (\<lambda>eku.
      case eku of
        None \<Rightarrow> Err (IncorrectEkuCount 0)
      | Some other \<Rightarrow> from_key_usage other))"

text \<open>A time in whole seconds, converted to an unsigned number as it is.\<close>

definition timestamp_u64 :: "datetime \<Rightarrow> u64" where
  "timestamp_u64 t = of_int (t div 10 ^ 9)"

definition Certificate_verify ::
  "crypto \<Rightarrow> certificate \<Rightarrow> certificate_usage \<Rightarrow> certificate list \<Rightarrow> datetime \<Rightarrow> trust_anchor list
     \<Rightarrow> (unit, certificate_error) res" where
  "Certificate_verify c self usage intermediate_certs now trust_anchors =
     (if \<not> webpki_parses c self then Err ValidationParsing
      else if webpki_verify c self intermediate_certs trust_anchors (timestamp_u64 now) (to_eku usage) then Ok ()
      else Err CertVerification)"

definition Certificate_public_key :: "crypto \<Rightarrow> certificate \<Rightarrow> (verifying_key, certificate_error) res" where
  "Certificate_public_key c self =
     (if \<not> x509_parses c self then Err ContentParsing
      else ok_or (public_key_from_der c (x509_public_key_raw c self)) KeyParsingFailed)"

definition iter_common_name :: "crypto \<Rightarrow> certificate \<Rightarrow> (string list, certificate_error) res" where
  "iter_common_name c self =
     (if \<not> x509_parses c self then Err ContentParsing
      else res_map (\<lambda>cn. ok_or cn X509Error) (x509_common_names c self))"

definition san_dns_name :: "crypto \<Rightarrow> certificate \<Rightarrow> (string option, certificate_error) res" where
  "san_dns_name c self =
     (if \<not> x509_parses c self then Err ContentParsing
      else res_bind (ok_or (x509_dns_names c self) X509Error) (\<lambda>san.
      Ok (case san of Some (name # _) \<Rightarrow> Some name | _ \<Rightarrow> None)))"

definition verify_against_trust_anchors ::
  "crypto \<Rightarrow> (bytes \<Rightarrow> 't option) \<Rightarrow> cose_sign1 \<Rightarrow> certificate_usage \<Rightarrow> datetime \<Rightarrow> trust_anchor list
     \<Rightarrow> ('t, cose_error) res" where
  "verify_against_trust_anchors c deserialize self usage now trust_anchors =
     res_bind (signing_cert self) (\<lambda>cert.
     res_bind (map_err CoseCertificate (Certificate_verify c cert usage [] now trust_anchors)) (\<lambda>_.
     res_bind (map_err CoseCertificate (Certificate_public_key c cert)) (\<lambda>issuer_pk.
     verify_and_parse c deserialize self issuer_pk)))"

section \<open>Keys\<close>

text \<open>
  A COSE key is its type and its parameters in order. Slices of coordinates are converted
  to arrays of 32 bytes, which panics at any other length.
\<close>

datatype key_type = EC2 | OtherKty int

record cose_key =
  ck_kty :: key_type
  ck_params :: "(label \<times> cbor_value) list"

definition field_bytes :: "bytes \<Rightarrow> (bytes, 'e) res" where
  "field_bytes bs = (if length bs = 32 then Ok bs else Panic)"

definition CoseKey_try_from :: "crypto \<Rightarrow> verifying_key \<Rightarrow> (cose_key, crypto_error) res" where
  "CoseKey_try_from c key =
     res_bind (ok_or (fst (to_encoded_point c key)) KeyMissingCoordinate) (\<lambda>x.
     res_bind (ok_or (snd (to_encoded_point c key)) KeyMissingCoordinate) (\<lambda>y.
     Ok \<lparr>ck_kty = EC2, ck_params = [(LInt (- 1), CInteger 1), (LInt (- 2), CBytes x), (LInt (- 3), CBytes y)]\<rparr>))"

definition VerifyingKey_try_from :: "crypto \<Rightarrow> cose_key \<Rightarrow> (verifying_key, crypto_error) res" where
  "VerifyingKey_try_from c key =
     (let param = (\<lambda>i. if i < length (ck_params key) then Some (ck_params key ! i) else None) in
      if ck_kty key \<noteq> EC2 then Err KeyWrongType
      else res_bind (ok_or (param 0) KeyMissingKeyID) (\<lambda>keyid.
      if keyid \<noteq> (LInt (- 1), CInteger 1) then Err KeyWrongType
      else res_bind (ok_or (param 1) KeyMissingCoordinate) (\<lambda>x.
      if fst x \<noteq> LInt (- 2) then Err KeyUnepectedCoseLabel
      else res_bind (ok_or (param 2) KeyMissingCoordinate) (\<lambda>y.
      if fst y \<noteq> LInt (- 3) then Err KeyUnepectedCoseLabel
      else res_bind (ok_or (value_as_bytes (snd x)) KeyCoordinateParseFailed) (\<lambda>xb.
      res_bind (field_bytes xb) (\<lambda>xa.
      res_bind (ok_or (value_as_bytes (snd y)) KeyCoordinateParseFailed) (\<lambda>yb.
      res_bind (field_bytes yb) (\<lambda>ya.
      ok_or (from_encoded_point c xa ya) KeyParseFailed))))))))"

definition dh_hmac_key ::
  "crypto \<Rightarrow> secret_key \<Rightarrow> verifying_key \<Rightarrow> bytes \<Rightarrow> string \<Rightarrow> nat \<Rightarrow> (bytes, crypto_error) res" where
  "dh_hmac_key c privkey pubkey salt info len =
     ok_or (hkdf c (diffie_hellman c privkey pubkey) (sha256 c salt) info len) Hkdf"

section \<open>Facts about signing and verifying\<close>

text \<open>
  What the crates promise of a key pair: a signature parses and verifies. A point of the curve
  has two coordinates of 32 bytes, from which the key is recovered.
\<close>

definition p256_key_pair :: "crypto \<Rightarrow> verifying_key \<Rightarrow> signing_key \<Rightarrow> bool" where
  "p256_key_pair c pub priv \<longleftrightarrow> (\<forall>msg sig. priv msg = Some sig \<longrightarrow>
     (\<exists>s. signature_try_from c sig = Some s \<and> p256_verify c pub msg s))"

definition curve_point :: "crypto \<Rightarrow> verifying_key \<Rightarrow> bool" where
  "curve_point c key \<longleftrightarrow> (\<exists>x y. to_encoded_point c key = (Some x, Some y) \<and> length x = 32 \<and> length y = 32 \<and>
     from_encoded_point c x y = Some key)"

lemma CoseSign1_verify_Ok [result_simps]:
  "CoseSign1_verify c s k = Ok u \<longleftrightarrow> (\<exists>payload sig. cs_payload s = Some payload \<and>
     signature_try_from c (cs_signature s) = Some sig \<and>
     p256_verify c k (sig_structure_data c (cs_protected s) payload) sig)"
  by (cases "cs_payload s") (auto simp: CoseSign1_verify_def result_simps)

lemma CoseSign1_verify_no_panic [simp]: "CoseSign1_verify c s k \<noteq> Panic"
  by (auto simp: CoseSign1_verify_def result_simps Let_def)

lemma CoseMac0_verify_no_panic [simp]: "CoseMac0_verify c s k \<noteq> Panic"
  by (auto simp: CoseMac0_verify_def split: option.splits)

lemma signing_cert_no_panic [simp]: "signing_cert s \<noteq> Panic"
  by (auto simp: signing_cert_def unprotected_header_item_def result_simps)

lemma MdocCose_sign_Ok:
  "MdocCose_sign c ser obj h k inc = Ok s \<longleftrightarrow> (\<exists>payload sig. ser obj = Some payload \<and>
     k (sig_structure_data c protected_header payload) = Some sig \<and>
     s = \<lparr>cs_signature = sig, cs_payload = (if inc then Some payload else None),
          cs_protected = protected_header, cs_unprotected = h\<rparr>)"
  by (auto simp: MdocCose_sign_def sign_cose_def signature_data_and_header_def result_simps)

lemma MdocCose_sign_no_panic [simp]: "MdocCose_sign c ser obj h k inc \<noteq> Panic"
  by (auto simp: MdocCose_sign_def sign_cose_def signature_data_and_header_def result_simps)

lemma verify_and_parse_Ok:
  "verify_and_parse c des s k = Ok x \<longleftrightarrow>
     CoseSign1_verify c s k = Ok () \<and> Option.bind (cs_payload s) des = Some x"
  by (cases "cs_payload s") (auto simp: verify_and_parse_def cose_parse_unverified_def result_simps)

lemma signing_cert_header [simp]:
  "cs_unprotected s = new_certificate_header cert \<Longrightarrow> signing_cert s = Ok cert"
  by (simp add: signing_cert_def unprotected_header_item_def new_certificate_header_def)

lemma Certificate_verify_Ok [result_simps]:
  "Certificate_verify c cert usage chain now anchors = Ok u \<longleftrightarrow>
     webpki_parses c cert \<and> webpki_verify c cert chain anchors (timestamp_u64 now) (to_eku usage)"
  by (simp add: Certificate_verify_def)

lemma Certificate_public_key_no_panic [simp]: "Certificate_public_key c cert \<noteq> Panic"
  by (auto simp: Certificate_public_key_def result_simps)

lemma Certificate_verify_no_panic [simp]: "Certificate_verify c cert usage chain now anchors \<noteq> Panic"
  by (simp add: Certificate_verify_def)

lemma iter_common_name_no_panic [simp]: "iter_common_name c cert \<noteq> Panic"
  by (auto simp: iter_common_name_def result_simps intro!: res_map_not_Panic)

lemma verify_against_trust_anchors_Ok:
  "verify_against_trust_anchors c des s usage now anchors = Ok x \<longleftrightarrow>
     (\<exists>cert key. signing_cert s = Ok cert \<and> Certificate_verify c cert usage [] now anchors = Ok () \<and>
        Certificate_public_key c cert = Ok key \<and> CoseSign1_verify c s key = Ok () \<and>
        Option.bind (cs_payload s) des = Some x)"
  by (auto simp: verify_against_trust_anchors_def verify_and_parse_Ok result_simps)

lemma verify_against_trust_anchors_no_panic [simp]:
  "verify_against_trust_anchors c des s usage now anchors \<noteq> Panic"
  by (auto simp: verify_against_trust_anchors_def verify_and_parse_def cose_parse_unverified_def result_simps)

text \<open>What is signed with a certificate header verifies with the key of that certificate.\<close>

lemma signed_cose_verifies:
  assumes "MdocCose_sign c ser obj (new_certificate_header cert) priv True = Ok s"
    "Certificate_verify c cert usage [] now anchors = Ok ()" "Certificate_public_key c cert = Ok key"
    "p256_key_pair c key priv" "\<And>bs. ser obj = Some bs \<Longrightarrow> des bs = Some obj"
  shows "verify_against_trust_anchors c des s usage now anchors = Ok obj"
  using assms unfolding verify_against_trust_anchors_Ok
  by (auto simp: MdocCose_sign_Ok p256_key_pair_def CoseSign1_verify_Ok)

lemma cose_key_roundtrip:
  assumes "curve_point c key" "CoseKey_try_from c key = Ok k"
  shows "VerifyingKey_try_from c k = Ok key"
  using assms
  by (auto simp: curve_point_def CoseKey_try_from_def VerifyingKey_try_from_def field_bytes_def)

lemma curve_point_cose_key: "curve_point c key \<Longrightarrow> \<exists>k. CoseKey_try_from c key = Ok k"
  by (auto simp: curve_point_def CoseKey_try_from_def)

lemma VerifyingKey_try_from_Panic:
  "VerifyingKey_try_from c k = Panic \<longleftrightarrow>
     ck_kty k = EC2 \<and> length (ck_params k) \<ge> 3 \<and> ck_params k ! 0 = (LInt (- 1), CInteger 1) \<and>
     fst (ck_params k ! 1) = LInt (- 2) \<and> fst (ck_params k ! 2) = LInt (- 3) \<and>
     (\<exists>xb. value_as_bytes (snd (ck_params k ! 1)) = Some xb \<and>
       (length xb \<noteq> 32 \<or> (\<exists>yb. value_as_bytes (snd (ck_params k ! 2)) = Some yb \<and> length yb \<noteq> 32)))"
  by (auto simp: VerifyingKey_try_from_def Let_def field_bytes_def result_simps split: if_splits)

end
