(* ===== verification/Mdoc.thy ===== *)
theory Mdoc
  imports Cose
begin

text \<open>
  Mdocs: the issuer-signed data of \<open>mdoc/src/iso/mdocs.rs\<close> and
  \<open>mdoc/src/iso/unsigned.rs\<close>, signing by the issuer (\<open>mdoc/src/issuer.rs\<close>), verification
  (\<open>mdoc/src/verifier.rs\<close>) and the holder's copy (\<open>mdoc/src/holder/mdocs.rs\<close>,
  \<open>mdoc/src/identifiers.rs\<close>).
\<close>

section \<open>Data\<close>

type_synonym name_space = string
type_synonym doc_type = string
type_synonym digest = bytes
type_synonym digest_id = u64
type_synonym tdate = string

record entry =
  entry_name :: string
  entry_value :: cbor_value

record issuer_signed_item =
  isi_digest_id :: u64
  isi_random :: bytes
  isi_element_identifier :: string
  isi_element_value :: cbor_value

type_synonym attributes = "issuer_signed_item list"
type_synonym issuer_name_spaces = "(name_space \<times> attributes) list"
type_synonym value_digests = "(name_space \<times> (digest_id \<times> digest) list) list"

record unsigned_mdoc =
  um_doc_type :: doc_type
  um_valid_from :: tdate
  um_valid_until :: tdate
  um_attributes :: "(name_space \<times> entry list) list"
  um_copy_count :: u8

record validity_info =
  vi_signed :: tdate
  vi_valid_from :: tdate
  vi_valid_until :: tdate
  vi_expected_update :: "tdate option"

record device_key_info =
  dki_device_key :: cose_key
  dki_key_authorizations :: "(name_space list option \<times> (name_space \<times> string list) list option) option"
  dki_key_info :: "(int \<times> cbor_value) list option"

datatype mso_version = V1_0
datatype digest_algorithm = SHA256

record mobile_security_object =
  mso_version :: mso_version
  mso_digest_algorithm :: digest_algorithm
  mso_value_digests :: value_digests
  mso_device_key_info :: device_key_info
  mso_doc_type :: doc_type
  mso_validity_info :: validity_info

record issuer_signed =
  is_name_spaces :: "issuer_name_spaces option"
  is_issuer_auth :: cose_sign1

record attribute_identifier =
  ai_doc_type :: doc_type
  ai_namespace :: name_space
  ai_attribute :: string

record document_disclosed_attributes =
  dda_attributes :: "(name_space \<times> entry list) list"
  dda_issuer :: "string list"
  dda_validity_info :: validity_info

datatype mdoc_key_type = Software | Remote

record mdoc =
  mdoc_doc_type :: doc_type
  mdoc_private_key_id :: string
  mdoc_issuer_signed :: issuer_signed
  mdoc_key_type :: mdoc_key_type

record server_key_pair =
  kp_private_key :: signing_key
  kp_certificate :: certificate

section \<open>Errors\<close>

datatype validity_error = ParsingFailed | NotYetValid tdate | Expired tdate

datatype session_result_state = RsDone | RsFailed | RsCancelled | RsExpired

datatype verification_error =
    DeviceResponseErrors "(doc_type \<times> int) list list"
  | UnexpectedStatus u64
  | NoDocuments
  | WrongDocType (wdt_document: doc_type) (wdt_mso: doc_type)
  | MissingNamespace name_space
  | MissingDigestID digest_id
  | AttributeVerificationFailed
  | EphemeralKeyMissing
  | Validity validity_error
  | MissingOriginInfo nat
  | IncorrectOriginInfo
  | MissingVerifierUrlParameters
  | SessionIsDone session_result_state
  | UnknownUseCase string
  | ReturnUrlConfigurationMismatch
  | UnknownSessionId session_token
  | NoItemsRequests
  | MissingAttributes "attribute_identifier list"
  | SessionStoreFailed session_store_error
  | SessionNotDone
  | ReturnUrlNonceMissing
  | ReturnUrlNonceMismatch string
  | InvalidEphemeralId bytes
  | ExpiredEphemeralId bytes
  | UrlEncoding

datatype reader_validation_error = UnregisteredAttributes "attribute_identifier list"

datatype session_type = SameDevice | CrossDevice

datatype disclosure_uri_source = Link | QrCode

datatype mdoc_session_status = EncryptionError | DecodingError | Termination

datatype cbor_error = Serialization | Deserialization

text \<open>A failed request is one that could not connect, or one that failed after that.\<close>

datatype http_client_error = HttpCbor cbor_error | Request (is_connect: bool)

datatype holder_error =
    MissingSessionType
  | MalformedSessionType
  | DisclosureUriSourceMismatch session_type disclosure_uri_source
  | ReaderAuthMissing
  | ReaderAuthsInconsistent
  | HolderCertificate certificate_error
  | RequestError http_client_error
  | VerifierUrlMissing
  | VerifierEphemeralKeyMissing
  | NoAttributesRequested
  | NoReaderRegistration certificate
  | ReaderRegistrationValidation reader_validation_error
  | MdocDataSource
  | MultipleCandidates "doc_type list"
  | DisclosureResponse mdoc_session_status

datatype mdoc_error =
    Crypto crypto_error
  | Cose cose_error
  | Cbor cbor_error
  | Holder holder_error
  | Verification verification_error
  | CertificateError certificate_error

record issued_attributes_mismatch =
  iam_missing :: "attribute_identifier list"
  iam_unexpected :: "attribute_identifier list"

section \<open>Encoding\<close>

text \<open>
  What ciborium, serde and chrono do at the types of this theory: the CBOR of an item tagged as
  bytes, of a mobile security object tagged as bytes, and dates as RFC 3339 text.
\<close>

record mdoc_env =
  me_crypto :: crypto
  item_to_cbor :: "issuer_signed_item \<Rightarrow> bytes option"
  mso_to_cbor :: "mobile_security_object \<Rightarrow> bytes option"
  mso_from_cbor :: "bytes \<Rightarrow> mobile_security_object option"
  to_rfc3339 :: "datetime \<Rightarrow> tdate"
  parse_from_rfc3339 :: "tdate \<Rightarrow> datetime option"

definition cbor_digest :: "mdoc_env \<Rightarrow> issuer_signed_item \<Rightarrow> (digest, mdoc_error) res" where
  "cbor_digest env val = res_bind (ok_or (item_to_cbor env val) (Cbor Serialization)) (\<lambda>bs. Ok (sha256 (me_crypto env) bs))"

definition DigestIDs_try_from ::
  "mdoc_env \<Rightarrow> attributes \<Rightarrow> ((digest_id \<times> digest) list, mdoc_error) res" where
  "DigestIDs_try_from env val =
     res_bind (res_map (\<lambda>(i, attr). res_bind (cbor_digest env attr) (\<lambda>d. Ok (of_nat i, d)))
       (List.enumerate 0 val)) (\<lambda>kvs. Ok (im_collect kvs))"

definition ValueDigests_try_from ::
  "mdoc_env \<Rightarrow> issuer_name_spaces \<Rightarrow> (value_digests, mdoc_error) res" where
  "ValueDigests_try_from env val =
     res_bind (res_map (\<lambda>(namespace, attrs). res_bind (DigestIDs_try_from env attrs) (\<lambda>ids.
       Ok (namespace, ids))) val) (\<lambda>kvs. Ok (im_collect kvs))"

section \<open>Issuing\<close>

definition IssuerSignedItem_new ::
  "(nat \<Rightarrow> bytes) \<Rightarrow> nat \<Rightarrow> string \<Rightarrow> cbor_value \<Rightarrow> issuer_signed_item" where
  "IssuerSignedItem_new random i element_identifier element_value =
     \<lparr>isi_digest_id = of_nat i, isi_random = random i, isi_element_identifier = element_identifier,
      isi_element_value = element_value\<rparr>"

text \<open>
  The random bytes of the items are a function of their place. Attributes and name spaces
  are never empty: converting an empty list fails.
\<close>

definition nonempty :: "'a list \<Rightarrow> 'a list option" where
  "nonempty xs = (if xs = [] then None else Some xs)"

definition Attributes_try_from_map ::
  "(nat \<Rightarrow> bytes) \<Rightarrow> (string \<times> cbor_value) list \<Rightarrow> attributes option" where
  "Attributes_try_from_map random value =
     nonempty (map (\<lambda>(i, (key, val)). IssuerSignedItem_new random i key val) (List.enumerate 0 value))"

definition Attributes_try_from :: "(nat \<Rightarrow> bytes) \<Rightarrow> entry list \<Rightarrow> attributes option" where
  "Attributes_try_from random value =
     Attributes_try_from_map random (im_collect (map (\<lambda>e. (entry_name e, entry_value e)) value))"

definition IssuerNameSpaces_from ::
  "(name_space \<Rightarrow> nat \<Rightarrow> bytes) \<Rightarrow> (name_space \<times> entry list) list
     \<Rightarrow> (issuer_name_spaces, mdoc_error) res" where
  "IssuerNameSpaces_from random value =
     res_bind (res_map (\<lambda>(namespace, attrs).
       res_bind (unwrap (Attributes_try_from (random namespace) attrs)) (\<lambda>a. Ok (namespace, a))) value)
     (\<lambda>kvs. unwrap (nonempty (im_collect kvs)))"

definition DeviceKeyInfo_from :: "cose_key \<Rightarrow> device_key_info" where
  "DeviceKeyInfo_from value =
     \<lparr>dki_device_key = value, dki_key_authorizations = None, dki_key_info = None\<rparr>"

definition IssuerSigned_sign ::
  "mdoc_env \<Rightarrow> (name_space \<Rightarrow> nat \<Rightarrow> bytes) \<Rightarrow> datetime \<Rightarrow> unsigned_mdoc \<Rightarrow> cose_key \<Rightarrow> server_key_pair
     \<Rightarrow> (issuer_signed, mdoc_error) res" where
  "IssuerSigned_sign env random now unsigned_doc device_public_key key =
     (let validity = \<lparr>vi_signed = to_rfc3339 env now, vi_valid_from = um_valid_from unsigned_doc,
            vi_valid_until = um_valid_until unsigned_doc, vi_expected_update = None\<rparr> in
      res_bind (IssuerNameSpaces_from random (um_attributes unsigned_doc)) (\<lambda>attrs.
      res_bind (ValueDigests_try_from env attrs) (\<lambda>value_digests.
      let mso = \<lparr>mso_version = V1_0, mso_digest_algorithm = SHA256, mso_value_digests = value_digests,
            mso_device_key_info = DeviceKeyInfo_from device_public_key,
            mso_doc_type = um_doc_type unsigned_doc, mso_validity_info = validity\<rparr>;
          headers = new_certificate_header (kp_certificate key)
      in res_bind (map_err Cose (MdocCose_sign (me_crypto env) (mso_to_cbor env) mso headers
           (kp_private_key key) True)) (\<lambda>issuer_auth.
         Ok \<lparr>is_name_spaces = Some attrs, is_issuer_auth = issuer_auth\<rparr>))))"

section \<open>Verifying\<close>

datatype validity_requirement = AllowNotYetValid | Valid

definition verify_is_valid_at ::
  "mdoc_env \<Rightarrow> validity_info \<Rightarrow> datetime \<Rightarrow> validity_requirement \<Rightarrow> (unit, validity_error) res" where
  "verify_is_valid_at env self time validity =
     res_bind (if validity = Valid
       then res_bind (ok_or (parse_from_rfc3339 env (vi_valid_from self)) ParsingFailed)
              (\<lambda>valid_from. Ok (time < valid_from))
       else Ok False) (\<lambda>not_yet_valid.
     if not_yet_valid then Err (NotYetValid (vi_valid_from self))
     else res_bind (ok_or (parse_from_rfc3339 env (vi_valid_until self)) ParsingFailed) (\<lambda>valid_until.
       if time > valid_until then Err (Expired (vi_valid_from self)) else Ok ()))"

definition verify_attr_digest ::
  "mdoc_env \<Rightarrow> mobile_security_object \<Rightarrow> name_space \<Rightarrow> issuer_signed_item \<Rightarrow> (unit, mdoc_error) res" where
  "verify_attr_digest env self namespace item =
     res_bind (ok_or (map_of (mso_value_digests self) namespace) (Verification (MissingNamespace namespace)))
       (\<lambda>digests.
     res_bind (ok_or (map_of digests (isi_digest_id item)) (Verification (MissingDigestID (isi_digest_id item))))
       (\<lambda>digest.
     res_bind (cbor_digest env item) (\<lambda>d.
     if digest \<noteq> d then Err (Verification AttributeVerificationFailed) else Ok ())))"

definition item_entry :: "issuer_signed_item \<Rightarrow> entry" where
  "item_entry item = \<lparr>entry_name = isi_element_identifier item, entry_value = isi_element_value item\<rparr>"

definition verify_attrs_in_namespace ::
  "mdoc_env \<Rightarrow> mobile_security_object \<Rightarrow> attributes \<Rightarrow> name_space \<Rightarrow> (entry list, mdoc_error) res" where
  "verify_attrs_in_namespace env self attrs namespace =
     res_map (\<lambda>item. res_bind (verify_attr_digest env self namespace item) (\<lambda>_. Ok (item_entry item))) attrs"

text \<open>The clock is read twice: for the certificate and for the validity of the mdoc.\<close>

definition IssuerSigned_verify ::
  "mdoc_env \<Rightarrow> issuer_signed \<Rightarrow> validity_requirement \<Rightarrow> clock \<Rightarrow> trust_anchor list
     \<Rightarrow> (document_disclosed_attributes \<times> mobile_security_object, mdoc_error) res" where
  "IssuerSigned_verify env self validity time trust_anchors =
     res_bind (map_err Cose (verify_against_trust_anchors (me_crypto env) (mso_from_cbor env)
       (is_issuer_auth self) Mdl (time 0) trust_anchors)) (\<lambda>mso.
     res_bind (map_err (\<lambda>e. Verification (Validity e))
       (verify_is_valid_at env (mso_validity_info mso) (time 1) validity)) (\<lambda>_.
     res_bind (case is_name_spaces self of
         None \<Rightarrow> Ok []
       | Some name_spaces \<Rightarrow> res_bind (res_map (\<lambda>(namespace, items).
           res_bind (verify_attrs_in_namespace env mso items namespace) (\<lambda>es. Ok (namespace, es)))
           name_spaces) (\<lambda>kvs. Ok (im_collect kvs))) (\<lambda>attrs.
     res_bind (map_err Cose (signing_cert (is_issuer_auth self))) (\<lambda>cert.
     res_bind (map_err CertificateError (iter_common_name (me_crypto env) cert)) (\<lambda>issuer.
     Ok (\<lparr>dda_attributes = attrs, dda_issuer = issuer, dda_validity_info = mso_validity_info mso\<rparr>, mso))))))"

section \<open>The holder's mdocs\<close>

definition Mdoc_new ::
  "mdoc_env \<Rightarrow> mdoc_key_type \<Rightarrow> string \<Rightarrow> issuer_signed \<Rightarrow> clock \<Rightarrow> trust_anchor list \<Rightarrow> (mdoc, mdoc_error) res" where
  "Mdoc_new env key_type private_key_id issuer_signed time trust_anchors =
     res_bind (IssuerSigned_verify env issuer_signed AllowNotYetValid time trust_anchors) (\<lambda>(_, mso).
     Ok \<lparr>mdoc_doc_type = mso_doc_type mso, mdoc_private_key_id = private_key_id,
         mdoc_issuer_signed = issuer_signed, mdoc_key_type = key_type\<rparr>)"

definition attributes_entries :: "attributes \<Rightarrow> entry list" where
  "attributes_entries attrs = map item_entry attrs"

definition name_spaces_entries :: "issuer_name_spaces option \<Rightarrow> (name_space \<times> entry list) list" where
  "name_spaces_entries ns = (case ns of
     Some name_spaces \<Rightarrow> im_collect (map (\<lambda>(name_space, attrs). (name_space, attributes_entries attrs)) name_spaces)
   | None \<Rightarrow> [])"

definition mdoc_attributes :: "mdoc \<Rightarrow> (name_space \<times> entry list) list" where
  "mdoc_attributes self = name_spaces_entries (is_name_spaces (mdoc_issuer_signed self))"

definition flatten_map ::
  "doc_type \<Rightarrow> (name_space \<times> entry list) list \<Rightarrow> (attribute_identifier \<times> cbor_value) list" where
  "flatten_map doctype attrs = im_collect (concat (map (\<lambda>(namespace, entries).
     map (\<lambda>entry. (\<lparr>ai_doc_type = doctype, ai_namespace = namespace, ai_attribute = entry_name entry\<rparr>,
                   entry_value entry)) entries) attrs))"

definition compare_unsigned :: "mdoc \<Rightarrow> unsigned_mdoc \<Rightarrow> (unit, issued_attributes_mismatch) res" where
  "compare_unsigned self unsigned_doc =
     (let our_attrs = flatten_map (mdoc_doc_type self) (mdoc_attributes self);
          expected_attrs = flatten_map (um_doc_type unsigned_doc) (um_attributes unsigned_doc);
          missing = map fst (filter (\<lambda>(id, expected). map_of our_attrs id \<noteq> Some expected) expected_attrs);
          unexpected = map fst (filter (\<lambda>(id, received). map_of expected_attrs id \<noteq> Some received) our_attrs)
      in if missing \<noteq> [] \<or> unexpected \<noteq> []
         then Err \<lparr>iam_missing = missing, iam_unexpected = unexpected\<rparr> else Ok ())"

definition issuer_certificate :: "mdoc \<Rightarrow> (certificate, cose_error) res" where
  "issuer_certificate self = signing_cert (is_issuer_auth (mdoc_issuer_signed self))"

definition IssuerSigned_public_key :: "mdoc_env \<Rightarrow> issuer_signed \<Rightarrow> (verifying_key, mdoc_error) res" where
  "IssuerSigned_public_key env self =
     res_bind (map_err Cose (cose_parse_unverified (mso_from_cbor env) (is_issuer_auth self))) (\<lambda>mso.
     map_err Crypto (VerifyingKey_try_from (me_crypto env) (dki_device_key (mso_device_key_info mso))))"

definition IssuerSigned_attribute_identifiers :: "issuer_signed \<Rightarrow> doc_type \<Rightarrow> attribute_identifier list" where
  "IssuerSigned_attribute_identifiers self doctype = (case is_name_spaces self of
     Some name_spaces \<Rightarrow> is_collect (concat (map (\<lambda>(namespace, attributes).
       map (\<lambda>attribute. \<lparr>ai_doc_type = doctype, ai_namespace = namespace,
              ai_attribute = isi_element_identifier attribute\<rparr>) attributes) name_spaces))
   | None \<Rightarrow> [])"

section \<open>Facts about digests and attributes\<close>

lemma cbor_digest_Ok [result_simps]:
  "cbor_digest env item = Ok d \<longleftrightarrow> (\<exists>bs. item_to_cbor env item = Some bs \<and> d = sha256 (me_crypto env) bs)"
  by (auto simp: cbor_digest_def result_simps)

lemma cbor_digest_no_panic [simp]: "cbor_digest env item \<noteq> Panic"
  by (simp add: cbor_digest_def result_simps)

lemma verify_attr_digest_Ok:
  "verify_attr_digest env mso ns item = Ok u \<longleftrightarrow>
     (\<exists>ids d. map_of (mso_value_digests mso) ns = Some ids \<and> map_of ids (isi_digest_id item) = Some d \<and>
        cbor_digest env item = Ok d)"
  by (auto simp: verify_attr_digest_def result_simps)

lemma verify_attrs_in_namespace_Ok:
  "verify_attrs_in_namespace env mso items ns = Ok es \<longleftrightarrow>
     es = map item_entry items \<and> (\<forall>item\<in>set items. verify_attr_digest env mso ns item = Ok ())"
  unfolding verify_attrs_in_namespace_def res_map_eq_Ok
  by (induction items arbitrary: es) (auto simp: result_simps list_all2_Cons1)

lemma verify_attr_digest_no_panic [simp]: "verify_attr_digest env mso ns item \<noteq> Panic"
  by (auto simp: verify_attr_digest_def result_simps)

lemma verify_attrs_in_namespace_no_panic [simp]: "verify_attrs_in_namespace env mso items ns \<noteq> Panic"
  by (auto simp: verify_attrs_in_namespace_def result_simps intro!: res_map_not_Panic)

lemma verify_is_valid_at_Ok:
  "verify_is_valid_at env vi t req = Ok u \<longleftrightarrow>
     (req = Valid \<longrightarrow> (\<exists>from. parse_from_rfc3339 env (vi_valid_from vi) = Some from \<and> from \<le> t)) \<and>
     (\<exists>until. parse_from_rfc3339 env (vi_valid_until vi) = Some until \<and> t \<le> until)"
  by (cases req; cases "parse_from_rfc3339 env (vi_valid_from vi)";
      cases "parse_from_rfc3339 env (vi_valid_until vi)") (auto simp: verify_is_valid_at_def)

lemma verify_is_valid_at_no_panic [simp]: "verify_is_valid_at env vi t req \<noteq> Panic"
  by (auto simp: verify_is_valid_at_def result_simps split: if_splits)

lemma res_map_pairs_Ok:
  "res_map (\<lambda>(k, v). res_bind (f k v) (\<lambda>x. Ok (k, x))) kvs = Ok ys \<longleftrightarrow>
     map fst ys = map fst kvs \<and> list_all2 (\<lambda>(k, v) (_, x). f k v = Ok x) kvs ys"
  unfolding res_map_eq_Ok
  by (induction kvs arbitrary: ys) (auto simp: result_simps list_all2_Cons1)

definition name_spaces_verified ::
  "mdoc_env \<Rightarrow> mobile_security_object \<Rightarrow> issuer_name_spaces \<Rightarrow> bool" where
  "name_spaces_verified env mso ns =
     (\<forall>(n, items) \<in> set ns. \<forall>item\<in>set items. verify_attr_digest env mso n item = Ok ())"

lemma verify_name_spaces_Ok:
  "res_map (\<lambda>(namespace, items). res_bind (verify_attrs_in_namespace env mso items namespace)
       (\<lambda>es. Ok (namespace, es))) ns = Ok ys \<longleftrightarrow>
     name_spaces_verified env mso ns \<and> ys = map (\<lambda>(n, items). (n, map item_entry items)) ns"
  unfolding res_map_eq_Ok name_spaces_verified_def
  by (induction ns arbitrary: ys)
    (auto simp: result_simps list_all2_Cons1 verify_attrs_in_namespace_Ok)

lemma IssuerSigned_verify_Ok:
  "IssuerSigned_verify env s req time anchors = Ok (dda, mso) \<longleftrightarrow>
     verify_against_trust_anchors (me_crypto env) (mso_from_cbor env) (is_issuer_auth s) Mdl (time 0) anchors = Ok mso \<and>
     verify_is_valid_at env (mso_validity_info mso) (time 1) req = Ok () \<and>
     name_spaces_verified env mso (case is_name_spaces s of Some ns \<Rightarrow> ns | None \<Rightarrow> []) \<and>
     (\<exists>cert issuer. signing_cert (is_issuer_auth s) = Ok cert \<and>
        iter_common_name (me_crypto env) cert = Ok issuer \<and>
        dda = \<lparr>dda_attributes = name_spaces_entries (is_name_spaces s), dda_issuer = issuer,
               dda_validity_info = mso_validity_info mso\<rparr>)"
  by (cases "is_name_spaces s")
    (auto simp: IssuerSigned_verify_def verify_name_spaces_Ok name_spaces_entries_def
      attributes_entries_def result_simps name_spaces_verified_def)

lemma IssuerSigned_verify_no_panic [simp]: "IssuerSigned_verify env s req time anchors \<noteq> Panic"
proof -
  have "res_map (\<lambda>(namespace, items). res_bind (verify_attrs_in_namespace env mso items namespace)
       (\<lambda>es. Ok (namespace, es))) ns \<noteq> Panic" for mso ns
    by (intro res_map_not_Panic) (auto simp: result_simps)
  then show ?thesis
    by (auto simp: IssuerSigned_verify_def result_simps split: option.splits)
qed

subsection \<open>Digests of issued attributes\<close>

lemma of_nat_u64_inj: "i < 2 ^ 64 \<Longrightarrow> j < 2 ^ 64 \<Longrightarrow> (of_nat i :: u64) = of_nat j \<longleftrightarrow> i = j"
proof -
  assume "i < 2 ^ 64" "j < 2 ^ 64"
  then have "unat (of_nat i :: u64) = i" "unat (of_nat j :: u64) = j"
    by (simp_all add: unsigned_of_nat take_bit_nat_eq_self)
  then show ?thesis by metis
qed

lemma DigestIDs_lookup:
  assumes ids: "DigestIDs_try_from env items = Ok ids" and i: "i < length items" and n: "length items < 2 ^ 64"
  shows "\<exists>d. cbor_digest env (items ! i) = Ok d \<and> map_of ids (of_nat i) = Some d"
proof -
  let ?f = "\<lambda>(i, attr). res_bind (cbor_digest env attr) (\<lambda>d. Ok (of_nat i :: u64, d))"
  from ids obtain kvs where kvs: "res_map ?f (List.enumerate 0 items) = Ok kvs" and idk: "ids = im_collect kvs"
    by (auto simp: DigestIDs_try_from_def result_simps)
  have len: "length kvs = length items" using res_map_length [OF kvs] by simp
  have nth: "\<exists>d. cbor_digest env (items ! j) = Ok d \<and> kvs ! j = (of_nat j, d)" if "j < length items" for j
    using res_map_Ok_nth [OF kvs, of j] that by (auto simp: nth_enumerate_eq result_simps)
  have "distinct (im_keys kvs)"
    unfolding distinct_conv_nth
  proof (intro allI impI)
    fix j k assume jk: "j < length (im_keys kvs)" "k < length (im_keys kvs)" "j \<noteq> k"
    then have "fst (kvs ! j) = of_nat j" "fst (kvs ! k) = of_nat k" using nth len by (metis fst_conv length_map)+
    then show "im_keys kvs ! j \<noteq> im_keys kvs ! k"
      using jk len n of_nat_u64_inj [of j k] by simp
  qed
  moreover from nth [OF i] obtain d where d: "cbor_digest env (items ! i) = Ok d" "kvs ! i = (of_nat i, d)" by blast
  ultimately have "map_of kvs (of_nat i) = Some d"
    using i len by (metis map_of_is_SomeI nth_mem)
  then show ?thesis using d(1) \<open>distinct (im_keys kvs)\<close> by (auto simp: idk im_collect_distinct)
qed

lemma ValueDigests_lookup:
  assumes vd: "ValueDigests_try_from env ns = Ok vd" and d: "distinct (map fst ns)" and m: "(n, items) \<in> set ns"
  shows "\<exists>ids. map_of vd n = Some ids \<and> DigestIDs_try_from env items = Ok ids"
proof -
  from vd obtain ys where ys: "map fst ys = map fst ns"
    "list_all2 (\<lambda>(k, v) (_, x). DigestIDs_try_from env v = Ok x) ns ys" "vd = im_collect ys"
    by (auto simp: ValueDigests_try_from_def result_simps res_map_pairs_Ok)
  from m obtain i where i: "i < length ns" "ns ! i = (n, items)" by (auto simp: in_set_conv_nth)
  then have "i < length ys" using ys(2) by (simp add: list_all2_lengthD)
  moreover have "fst (ys ! i) = n" using ys(1) i calculation by (metis fst_conv nth_map)
  moreover have "DigestIDs_try_from env items = Ok (snd (ys ! i))"
    using list_all2_nthD [OF ys(2) i(1)] i(2) by (auto split: prod.splits)
  moreover have "distinct (map fst ys)" using ys(1) d by simp
  ultimately show ?thesis unfolding ys(3)
    by (metis im_collect_distinct map_of_is_SomeI nth_mem prod.collapse)
qed

lemma length_im_insert: "length (im_insert k v m) \<le> Suc (length m)"
  by (induction m) auto

lemma length_im_collect: "length (im_collect kvs) \<le> length kvs"
proof -
  have "length (foldl (\<lambda>m (k, v). im_insert k v m) m kvs) \<le> length m + length kvs" for m
  proof (induction kvs arbitrary: m)
    case (Cons kv kvs)
    obtain k v where kv: "kv = (k, v)" by (cases kv)
    from Cons [of "im_insert k v m"] length_im_insert [of k v m] kv show ?case by simp
  qed simp
  from this [of "[]"] show ?thesis by (simp add: im_collect_def)
qed

definition entry_pairs :: "entry list \<Rightarrow> (string \<times> cbor_value) list" where
  "entry_pairs es = map (\<lambda>e. (entry_name e, entry_value e)) es"

lemma Attributes_try_from_Some:
  assumes "Attributes_try_from random es = Some items"
  shows "items \<noteq> []" "entry_pairs (map item_entry items) = im_collect (entry_pairs es)"
    "length items \<le> length es" "\<And>i. i < length items \<Longrightarrow> isi_digest_id (items ! i) = of_nat i"
proof -
  let ?m = "im_collect (entry_pairs es)"
  from assms have items: "items = map (\<lambda>(i, (key, val)). IssuerSignedItem_new random i key val) (List.enumerate 0 ?m)"
    and ne: "items \<noteq> []"
    by (auto simp: Attributes_try_from_def Attributes_try_from_map_def nonempty_def entry_pairs_def split: if_splits)
  show "items \<noteq> []" by (rule ne)
  show "entry_pairs (map item_entry items) = ?m"
    unfolding items entry_pairs_def
    by (rule nth_equalityI)
      (auto simp: nth_enumerate_eq item_entry_def IssuerSignedItem_new_def split: prod.splits)
  show "length items \<le> length es"
    unfolding items using length_im_collect [of "entry_pairs es"] by (simp add: entry_pairs_def)
  show "\<And>i. i < length items \<Longrightarrow> isi_digest_id (items ! i) = of_nat i"
    unfolding items by (auto simp: nth_enumerate_eq IssuerSignedItem_new_def split: prod.splits)
qed

lemma IssuerNameSpaces_from_Ok:
  assumes "IssuerNameSpaces_from random value = Ok ns" "distinct (map fst value)"
  shows "map fst ns = map fst value"
    "list_all2 (\<lambda>(n, es) (_, items). Attributes_try_from (random n) es = Some items) value ns"
proof -
  from assms(1) obtain ys where ys: "map fst ys = map fst value"
    "list_all2 (\<lambda>(k, v) (_, x). Attributes_try_from (random k) v = Some x) value ys"
    "nonempty (im_collect ys) = Some ns"
    by (auto simp: IssuerNameSpaces_from_def result_simps res_map_pairs_Ok)
  moreover have "im_collect ys = ys" using ys(1) assms(2) by (metis im_collect_distinct)
  ultimately have "ns = ys" by (simp add: nonempty_def split: if_splits)
  with ys show "map fst ns = map fst value"
    "list_all2 (\<lambda>(n, es) (_, items). Attributes_try_from (random n) es = Some items) value ns" by auto
qed

lemma issued_name_spaces_verified:
  assumes ns: "IssuerNameSpaces_from random value = Ok ns" and d: "distinct (map fst value)"
    and small: "\<And>n es. (n, es) \<in> set value \<Longrightarrow> length es < 2 ^ 64"
    and vd: "ValueDigests_try_from env ns = Ok vd" and mso: "mso_value_digests mso = vd"
  shows "name_spaces_verified env mso ns"
  unfolding name_spaces_verified_def
proof (clarify)
  fix n items item assume m: "(n, items) \<in> set ns" and item: "item \<in> set items"
  note nso = IssuerNameSpaces_from_Ok [OF ns d]
  from m obtain i where i: "i < length ns" "ns ! i = (n, items)" by (auto simp: in_set_conv_nth)
  then have iv: "i < length value" using nso(2) by (simp add: list_all2_lengthD)
  obtain es where es: "value ! i = (n, es)" using nso(1) i iv by (metis fst_conv nth_map prod.collapse)
  have "Attributes_try_from (random n) es = Some items"
    using list_all2_nthD [OF nso(2) iv] i es by simp
  note ats = Attributes_try_from_Some [OF this]
  have len: "length items < 2 ^ 64" using small [of n es] ats(3) es iv by (metis nth_mem order_le_less_trans)
  from item obtain j where j: "j < length items" "items ! j = item" by (auto simp: in_set_conv_nth)
  obtain ids where "map_of vd n = Some ids" "DigestIDs_try_from env items = Ok ids"
    using ValueDigests_lookup [OF vd _ m] nso(1) d by auto
  then show "verify_attr_digest env mso n item = Ok ()"
    using DigestIDs_lookup [OF _ j(1) len] ats(4) [OF j(1)] j(2) by (auto simp: verify_attr_digest_Ok mso)
qed

subsection \<open>Comparing attributes\<close>

lemma map_of_flatten:
  assumes "distinct (map fst attrs)"
  shows "map_of (flatten_map dt attrs) \<lparr>ai_doc_type = dt', ai_namespace = n, ai_attribute = a\<rparr> =
    (if dt' = dt then Option.bind (map_of attrs n) (\<lambda>es. map_of (rev (entry_pairs es)) a) else None)"
proof -
  let ?id = "\<lambda>n e. \<lparr>ai_doc_type = dt, ai_namespace = n, ai_attribute = entry_name e\<rparr>"
  let ?p = "\<lambda>(n, es). map (\<lambda>e. (?id n e, entry_value e)) es"
  have one: "map_of (rev (?p (m, es))) \<lparr>ai_doc_type = dt', ai_namespace = n, ai_attribute = a\<rparr> =
      (if dt' = dt \<and> m = n then map_of (rev (entry_pairs es)) a else None)" for m es
    by (induction es rule: rev_induct) (auto simp: entry_pairs_def)
  have "map_of (rev (concat (map ?p attrs))) \<lparr>ai_doc_type = dt', ai_namespace = n, ai_attribute = a\<rparr> =
      (if dt' = dt then Option.bind (map_of attrs n) (\<lambda>es. map_of (rev (entry_pairs es)) a) else None)"
    using assms
  proof (induction attrs)
    case (Cons x attrs)
    obtain m es where x: "x = (m, es)" by (cases x)
    have "map_of attrs m = None" using Cons.prems x by (simp add: map_of_eq_None_iff)
    then show ?case using Cons one [of m es] by (auto simp: x map_add_def split: option.splits)
  qed simp
  then show ?thesis by (simp add: flatten_map_def)
qed

lemma filter_lookup_empty:
  assumes "distinct (im_keys xs)"
  shows "map fst (filter (\<lambda>(k, v). map_of ys k \<noteq> Some v) xs) = [] \<longleftrightarrow>
    (\<forall>k v. map_of xs k = Some v \<longrightarrow> map_of ys k = Some v)"
  using assms by (auto simp: filter_empty_conv map_of_eq_Some_iff)

lemma flatten_map_distinct [simp]: "distinct (im_keys (flatten_map dt attrs))"
  by (simp add: flatten_map_def)

lemma compare_unsigned_Ok:
  "compare_unsigned mdoc u = Ok () \<longleftrightarrow>
     map_of (flatten_map (mdoc_doc_type mdoc) (mdoc_attributes mdoc)) =
     map_of (flatten_map (um_doc_type u) (um_attributes u))"
proof -
  have eq: "(\<forall>k v. g k = Some v \<longrightarrow> f k = Some v) \<and> (\<forall>k v. f k = Some v \<longrightarrow> g k = Some v) \<longleftrightarrow> f = g"
    for f g :: "attribute_identifier \<Rightarrow> cbor_value option"
  proof (intro iffI ext)
    fix k assume "(\<forall>k v. g k = Some v \<longrightarrow> f k = Some v) \<and> (\<forall>k v. f k = Some v \<longrightarrow> g k = Some v)"
    then show "f k = g k" by (metis not_None_eq)
  qed simp
  show ?thesis
    unfolding compare_unsigned_def Let_def if_split_eq1 de_Morgan_disj not_not
      filter_lookup_empty [OF flatten_map_distinct]
    unfolding eq [symmetric] by blast
qed

lemma map_of_all2:
  assumes "map fst xs = map fst ys" "list_all2 (\<lambda>(k, v) (_, w). R k v w) xs ys"
  shows "(map_of xs k = None \<longleftrightarrow> map_of ys k = None) \<and>
    (\<forall>v w. map_of xs k = Some v \<longrightarrow> map_of ys k = Some w \<longrightarrow> R k v w)"
  using assms
proof (induction xs arbitrary: ys)
  case (Cons x xs)
  then obtain y ys' where "ys = y # ys'" by (cases ys) auto
  with Cons show ?case by (cases x; cases y) auto
qed simp

lemma name_spaces_entries_distinct:
  "distinct (map fst ns) \<Longrightarrow> name_spaces_entries (Some ns) = map (\<lambda>(n, items). (n, map item_entry items)) ns"
  by (simp add: name_spaces_entries_def attributes_entries_def im_collect_distinct comp_def case_prod_unfold)

lemma issued_attributes_equal:
  assumes ns: "IssuerNameSpaces_from random value = Ok ns" and d: "distinct (map fst value)"
  shows "map_of (flatten_map dt (name_spaces_entries (Some ns))) = map_of (flatten_map dt value)"
proof
  fix id :: attribute_identifier
  obtain dt' n a where id: "id = \<lparr>ai_doc_type = dt', ai_namespace = n, ai_attribute = a\<rparr>" by (cases id)
  note nso = IssuerNameSpaces_from_Ok [OF ns d]
  have dn: "distinct (map fst ns)" using nso(1) d by simp
  have lookup: "map_of (map (\<lambda>(n, items). (n, map item_entry items)) ns) n = map_option (map item_entry) (map_of ns n)"
    by (simp add: map_of_map)
  have r: "map_of (rev (entry_pairs (map item_entry items))) a = map_of (rev (entry_pairs es)) a"
    if "Attributes_try_from (random n) es = Some items" for es items
    using Attributes_try_from_Some(2) [OF that] by (simp add: map_of_rev_distinct)
  have "Option.bind (map_of ns n) (\<lambda>items. map_of (rev (entry_pairs (map item_entry items))) a) =
      Option.bind (map_of value n) (\<lambda>es. map_of (rev (entry_pairs es)) a)"
    using map_of_all2 [OF nso(1) [symmetric] nso(2), of n] r
    by (cases "map_of value n"; cases "map_of ns n") auto
  then show "map_of (flatten_map dt (name_spaces_entries (Some ns))) id = map_of (flatten_map dt value) id"
    using d dn by (simp add: id map_of_flatten name_spaces_entries_distinct comp_def
        case_prod_unfold lookup [unfolded case_prod_unfold] bind_map_option)
qed

section \<open>Properties\<close>

text \<open>
  A key pair of an issuer that the holder trusts: its certificate verifies against the
  anchors at the time, holds the public key that belongs to the private key, and has readable names.
\<close>

definition trusted_issuer :: "mdoc_env \<Rightarrow> server_key_pair \<Rightarrow> clock \<Rightarrow> trust_anchor list \<Rightarrow> bool" where
  "trusted_issuer env key time anchors \<longleftrightarrow>
     Certificate_verify (me_crypto env) (kp_certificate key) Mdl [] (time 0) anchors = Ok () \<and>
     (\<exists>names. iter_common_name (me_crypto env) (kp_certificate key) = Ok names) \<and>
     (\<exists>pk. Certificate_public_key (me_crypto env) (kp_certificate key) = Ok pk \<and>
        p256_key_pair (me_crypto env) pk (kp_private_key key))"

text \<open>
  A well-formed unsigned mdoc: its attributes are a map of name spaces, none of them empty, as
  \<open>UnsignedAttributes\<close> demands, with fewer than \<open>2 ^ 64\<close> entries each.
\<close>

definition unsigned_wf :: "unsigned_mdoc \<Rightarrow> bool" where
  "unsigned_wf u \<longleftrightarrow> um_attributes u \<noteq> [] \<and> distinct (map fst (um_attributes u)) \<and>
     (\<forall>(n, es) \<in> set (um_attributes u). es \<noteq> [] \<and> length es < 2 ^ 64)"

definition mso_roundtrips :: "mdoc_env \<Rightarrow> bool" where
  "mso_roundtrips env \<longleftrightarrow> (\<forall>mso bs. mso_to_cbor env mso = Some bs \<longrightarrow> mso_from_cbor env bs = Some mso)"

lemma IssuerSigned_sign_Ok:
  "IssuerSigned_sign env random now u k key = Ok s \<longleftrightarrow>
     (\<exists>attrs vd auth. IssuerNameSpaces_from random (um_attributes u) = Ok attrs \<and>
        ValueDigests_try_from env attrs = Ok vd \<and>
        MdocCose_sign (me_crypto env) (mso_to_cbor env)
          \<lparr>mso_version = V1_0, mso_digest_algorithm = SHA256, mso_value_digests = vd,
           mso_device_key_info = DeviceKeyInfo_from k, mso_doc_type = um_doc_type u,
           mso_validity_info = \<lparr>vi_signed = to_rfc3339 env now, vi_valid_from = um_valid_from u,
             vi_valid_until = um_valid_until u, vi_expected_update = None\<rparr>\<rparr>
          (new_certificate_header (kp_certificate key)) (kp_private_key key) True = Ok auth \<and>
        s = \<lparr>is_name_spaces = Some attrs, is_issuer_auth = auth\<rparr>)"
  by (auto simp: IssuerSigned_sign_def Let_def result_simps)

lemma Attributes_try_from_total: "es \<noteq> [] \<Longrightarrow> \<exists>items. Attributes_try_from random es = Some items"
proof -
  assume "es \<noteq> []"
  then obtain e es' where "es = es' @ [e]" by (metis rev_exhaust)
  then have "map_of (im_collect (entry_pairs es)) (entry_name e) \<noteq> None" by (simp add: entry_pairs_def)
  then have "im_collect (entry_pairs es) \<noteq> []" by (auto simp del: map_of_im_collect)
  then show ?thesis
    by (auto simp: Attributes_try_from_def Attributes_try_from_map_def nonempty_def entry_pairs_def
        enumerate_eq_zip)
qed

lemma res_map_total: "(\<And>x. x \<in> set xs \<Longrightarrow> \<exists>y. f x = Ok y) \<Longrightarrow> \<exists>ys. res_map f xs = Ok ys"
  by (induction xs) (auto, metis list.set_intros res_bind.simps(1))

lemma IssuerNameSpaces_from_total:
  assumes "unsigned_wf u"
  shows "\<exists>ns. IssuerNameSpaces_from random (um_attributes u) = Ok ns"
proof -
  let ?f = "\<lambda>(namespace, attrs). res_bind (unwrap (Attributes_try_from (random namespace) attrs))
    (\<lambda>a. Ok (namespace, a)) :: (_, mdoc_error) res"
  have "\<exists>ys. res_map ?f (um_attributes u) = Ok ys"
  proof (rule res_map_total)
    fix x assume x: "x \<in> set (um_attributes u)"
    then have "snd x \<noteq> []" using assms by (auto simp: unsigned_wf_def)
    from Attributes_try_from_total [OF this, of "random (fst x)"] show "\<exists>y. ?f x = Ok y"
      by (auto split: prod.splits)
  qed
  then obtain ys where ys: "res_map ?f (um_attributes u) = Ok ys" by blast
  have "im_collect ys \<noteq> []"
  proof -
    have "map fst ys = map fst (um_attributes u)" using ys by (simp add: res_map_pairs_Ok)
    then have "im_collect ys = ys" using assms by (metis im_collect_distinct unsigned_wf_def)
    moreover have "length ys = length (um_attributes u)" using res_map_length [OF ys] .
    ultimately show ?thesis using assms by (auto simp: unsigned_wf_def)
  qed
  with ys show ?thesis by (simp add: IssuerNameSpaces_from_def nonempty_def)
qed

lemma cbor_digest_total: "item_to_cbor env item \<noteq> None \<Longrightarrow> \<exists>d. cbor_digest env item = Ok d"
  by (auto simp: cbor_digest_def)

lemma DigestIDs_total: "(\<And>item. item_to_cbor env item \<noteq> None) \<Longrightarrow> \<exists>ids. DigestIDs_try_from env items = Ok ids"
proof -
  assume t: "\<And>item. item_to_cbor env item \<noteq> None"
  have "\<exists>ys. res_map (\<lambda>(i, attr). res_bind (cbor_digest env attr) (\<lambda>d. Ok (of_nat i :: u64, d)))
      (List.enumerate 0 items) = Ok ys"
  proof (rule res_map_total)
    fix x :: "nat \<times> issuer_signed_item"
    show "\<exists>y. (case x of (i, attr) \<Rightarrow> res_bind (cbor_digest env attr) (\<lambda>d. Ok (of_nat i :: u64, d))) = Ok y"
      using cbor_digest_total [OF t, of "snd x"] by (cases x) auto
  qed
  then show ?thesis by (auto simp: DigestIDs_try_from_def)
qed

lemma ValueDigests_total: "(\<And>item. item_to_cbor env item \<noteq> None) \<Longrightarrow> \<exists>vd. ValueDigests_try_from env ns = Ok vd"
proof -
  assume t: "\<And>item. item_to_cbor env item \<noteq> None"
  have "\<exists>ys. res_map (\<lambda>(n, attrs). res_bind (DigestIDs_try_from env attrs) (\<lambda>ids. Ok (n, ids))) ns = Ok ys"
  proof (rule res_map_total)
    fix x :: "name_space \<times> attributes"
    show "\<exists>y. (case x of (n, attrs) \<Rightarrow> res_bind (DigestIDs_try_from env attrs) (\<lambda>ids. Ok (n, ids))) = Ok y"
      using DigestIDs_total [OF t, of "snd x"] by (cases x) auto
  qed
  then show ?thesis by (auto simp: ValueDigests_try_from_def)
qed

text \<open>
  Functions for examples: a certificate is the key it certifies, a signature is the key
  followed by the message, a hash is the message, and one mobile security object is known.
\<close>

definition demo_crypto :: crypto where
  "demo_crypto = \<lparr>sig_structure_data = (\<lambda>h p. p), mac_structure_data = (\<lambda>h p. p), signature_try_from = Some,
     p256_verify = (\<lambda>k msg sig. sig = k @ msg), to_encoded_point = (\<lambda>k. (Some (take 32 k), Some (drop 32 k))),
     from_encoded_point = (\<lambda>x y. Some (x @ y)), sha256 = (\<lambda>b. b), hkdf = (\<lambda>k s i n. Some (replicate n 0)),
     diffie_hellman = (\<lambda>a b. []), hmac_sign = (\<lambda>k d. k @ d), webpki_parses = (\<lambda>_. True),
     webpki_verify = (\<lambda>cert chain anchors t eku. cert \<in> set anchors), x509_parses = (\<lambda>_. True), x509_public_key_raw = (\<lambda>c. c),
     public_key_from_der = Some, x509_common_names = (\<lambda>_. [Some ''issuer'']),
     x509_other_ekus = (\<lambda>c. Some (Some [if c = [8] then EXTENDED_KEY_USAGE_READER_AUTH else EXTENDED_KEY_USAGE_MDL])),
     x509_extension = (\<lambda>c _. if c = [8] then Some [] else None),
     x509_dns_names = (\<lambda>c. Some (if c = [8] then Some [''rp''] else None))\<rparr>"

definition demo_unsigned :: unsigned_mdoc where
  "demo_unsigned = \<lparr>um_doc_type = ''pid'', um_valid_from = '''', um_valid_until = ''until'',
     um_attributes = [(''ns'', [\<lparr>entry_name = ''a'', entry_value = CBool True\<rparr>,
       \<lparr>entry_name = ''b'', entry_value = CInteger 7\<rparr>])], um_copy_count = 2\<rparr>"

definition demo_device_key :: verifying_key where
  "demo_device_key = replicate 64 1"

definition demo_cose_key :: cose_key where
  "demo_cose_key = \<lparr>ck_kty = EC2, ck_params = [(LInt (- 1), CInteger 1),
     (LInt (- 2), CBytes (replicate 32 1)), (LInt (- 3), CBytes (replicate 32 1))]\<rparr>"

definition demo_mso :: mobile_security_object where
  "demo_mso = \<lparr>mso_version = V1_0, mso_digest_algorithm = SHA256,
     mso_value_digests = [(''ns'', [(0, as_bytes ''a''), (1, as_bytes ''b'')])],
     mso_device_key_info = DeviceKeyInfo_from demo_cose_key, mso_doc_type = ''pid'',
     mso_validity_info = \<lparr>vi_signed = ''s'', vi_valid_from = '''', vi_valid_until = ''until'',
       vi_expected_update = None\<rparr>\<rparr>"

definition demo_mdoc_env :: mdoc_env where
  "demo_mdoc_env = \<lparr>me_crypto = demo_crypto,
     item_to_cbor = (\<lambda>item. Some (as_bytes (isi_element_identifier item))),
     mso_to_cbor = (\<lambda>mso. if mso = demo_mso then Some [1] else None),
     mso_from_cbor = (\<lambda>bs. if bs = [1] then Some demo_mso else None),
     to_rfc3339 = (\<lambda>_. ''s''), parse_from_rfc3339 = (\<lambda>s. Some (int (length s)))\<rparr>"

definition demo_issuer :: server_key_pair where
  "demo_issuer = \<lparr>kp_private_key = (\<lambda>msg. Some ([9] @ msg)), kp_certificate = [9]\<rparr>"

lemma demo_trusted_issuer: "trusted_issuer demo_mdoc_env demo_issuer time [[9]]"
  by (simp add: trusted_issuer_def demo_mdoc_env_def demo_crypto_def demo_issuer_def Certificate_verify_def
      iter_common_name_def Certificate_public_key_def p256_key_pair_def)

lemma demo_mso_roundtrips: "mso_roundtrips demo_mdoc_env"
  by (simp add: mso_roundtrips_def demo_mdoc_env_def)

lemma demo_unsigned_wf: "unsigned_wf demo_unsigned"
  by (simp add: unsigned_wf_def demo_unsigned_def)

lemma signed_mdoc_accepted:
  assumes sign: "IssuerSigned_sign env random now u k key = Ok s"
    and u: "unsigned_wf u" and issuer: "trusted_issuer env key time anchors" and codec: "mso_roundtrips env"
    and until: "parse_from_rfc3339 env (um_valid_until u) = Some t" "time 1 \<le> t"
  shows "\<exists>mdoc. Mdoc_new env kt key_id s time anchors = Ok mdoc \<and> mdoc_doc_type mdoc = um_doc_type u \<and>
    compare_unsigned mdoc u = Ok () \<and>
    IssuerSigned_public_key env s = map_err Crypto (VerifyingKey_try_from (me_crypto env) k) \<and>
    signing_cert (is_issuer_auth s) = Ok (kp_certificate key)"
proof -
  from sign obtain attrs vd auth mso where attrs: "IssuerNameSpaces_from random (um_attributes u) = Ok attrs"
    and vd: "ValueDigests_try_from env attrs = Ok vd"
    and auth: "MdocCose_sign (me_crypto env) (mso_to_cbor env) mso
          (new_certificate_header (kp_certificate key)) (kp_private_key key) True = Ok auth"
    and mso: "mso_value_digests mso = vd" "mso_doc_type mso = um_doc_type u"
      "mso_device_key_info mso = DeviceKeyInfo_from k" "vi_valid_until (mso_validity_info mso) = um_valid_until u"
    and s: "s = \<lparr>is_name_spaces = Some attrs, is_issuer_auth = auth\<rparr>"
    unfolding IssuerSigned_sign_Ok by force
  have d: "distinct (map fst (um_attributes u))" "\<And>n es. (n, es) \<in> set (um_attributes u) \<Longrightarrow> length es < 2 ^ 64"
    using u by (auto simp: unsigned_wf_def)
  from issuer obtain pk names where i: "Certificate_verify (me_crypto env) (kp_certificate key) Mdl [] (time 0) anchors = Ok ()"
    "iter_common_name (me_crypto env) (kp_certificate key) = Ok names"
    "Certificate_public_key (me_crypto env) (kp_certificate key) = Ok pk"
    "p256_key_pair (me_crypto env) pk (kp_private_key key)" by (auto simp: trusted_issuer_def)
  have v: "verify_against_trust_anchors (me_crypto env) (mso_from_cbor env) auth Mdl (time 0) anchors = Ok mso"
    by (rule signed_cose_verifies [OF auth i(1,3,4)]) (use codec in \<open>simp add: mso_roundtrips_def\<close>)
  have cert: "signing_cert auth = Ok (kp_certificate key)" using auth by (auto simp: MdocCose_sign_Ok)
  have n: "name_spaces_verified env mso attrs"
    by (rule issued_name_spaces_verified [OF attrs d vd mso(1)])
  have "Option.bind (cs_payload auth) (mso_from_cbor env) = Some mso"
    using v by (auto simp: verify_against_trust_anchors_Ok)
  then have pk: "IssuerSigned_public_key env s = map_err Crypto (VerifyingKey_try_from (me_crypto env) k)"
    by (cases "cs_payload auth")
      (auto simp: IssuerSigned_public_key_def s cose_parse_unverified_def mso DeviceKeyInfo_from_def)
  have "\<exists>dda. IssuerSigned_verify env s AllowNotYetValid time anchors = Ok (dda, mso)"
    using v cert n i(2) until by (auto simp: IssuerSigned_verify_Ok s verify_is_valid_at_Ok mso)
  then obtain dda where "IssuerSigned_verify env s AllowNotYetValid time anchors = Ok (dda, mso)" by blast
  moreover have "map_of (flatten_map (um_doc_type u) (name_spaces_entries (Some attrs))) =
      map_of (flatten_map (um_doc_type u) (um_attributes u))"
    by (rule issued_attributes_equal [OF attrs d(1)])
  ultimately show ?thesis using pk cert
    by (auto simp: Mdoc_new_def compare_unsigned_Ok mdoc_attributes_def s mso)
qed

lemma issued_randoms:
  assumes "IssuerSigned_sign env random now u k key = Ok s" "distinct (map fst (um_attributes u))"
    and "is_name_spaces s = Some ns" "(n, items) \<in> set ns" "item \<in> set items"
  shows "\<exists>i. isi_random item = random n i"
proof -
  from assms(1,3) have ns: "IssuerNameSpaces_from random (um_attributes u) = Ok ns" by (auto simp: IssuerSigned_sign_Ok)
  note nso = IssuerNameSpaces_from_Ok [OF ns assms(2)]
  from assms(4) obtain i where i: "i < length ns" "ns ! i = (n, items)" by (auto simp: in_set_conv_nth)
  then have iv: "i < length (um_attributes u)" using nso(2) by (simp add: list_all2_lengthD)
  obtain es where es: "um_attributes u ! i = (n, es)" using nso(1) i iv by (metis fst_conv nth_map prod.collapse)
  have "Attributes_try_from (random n) es = Some items" using list_all2_nthD [OF nso(2) iv] i es by simp
  then have "items = map (\<lambda>(i, (key, val)). IssuerSignedItem_new (random n) i key val)
      (List.enumerate 0 (im_collect (entry_pairs es)))"
    by (auto simp: Attributes_try_from_def Attributes_try_from_map_def nonempty_def entry_pairs_def split: if_splits)
  with assms(5) show ?thesis by (auto simp: IssuerSignedItem_new_def)
qed

text \<open>
  C19: An mdoc signed by a trusted issuer over well-formed attributes is accepted by the holder while
  it has not expired: it has the offered document type, its attributes compare equal to
  the offered ones, also where names are repeated, and the key it is bound to is the one the holder asked for.
\<close>

theorem issued_mdoc_is_accepted:
  assumes sign: "IssuerSigned_sign env random now u k key = Ok s"
    and u: "unsigned_wf u" and issuer: "trusted_issuer env key time anchors" and codec: "mso_roundtrips env"
    and until: "parse_from_rfc3339 env (um_valid_until u) = Some t" "time 1 \<le> t"
  shows "\<exists>mdoc. Mdoc_new env kt key_id s time anchors = Ok mdoc \<and> mdoc_doc_type mdoc = um_doc_type u \<and>
    compare_unsigned mdoc u = Ok () \<and>
    IssuerSigned_public_key env s = map_err Crypto (VerifyingKey_try_from (me_crypto env) k)"
  using signed_mdoc_accepted [OF assms] by blast

lemma demo_signed:
  "IssuerSigned_sign demo_mdoc_env (\<lambda>_ _. []) 0 demo_unsigned demo_cose_key demo_issuer = Ok
    \<lparr>is_name_spaces = Some [(''ns'', [
        \<lparr>isi_digest_id = 0, isi_random = [], isi_element_identifier = ''a'', isi_element_value = CBool True\<rparr>,
        \<lparr>isi_digest_id = 1, isi_random = [], isi_element_identifier = ''b'', isi_element_value = CInteger 7\<rparr>])],
     is_issuer_auth = \<lparr>cs_signature = [9, 1], cs_payload = Some [1], cs_protected = protected_header,
       cs_unprotected = new_certificate_header [9]\<rparr>\<rparr>"
  by (simp add: IssuerSigned_sign_def IssuerNameSpaces_from_def demo_unsigned_def Attributes_try_from_def
      Attributes_try_from_map_def im_collect_def nonempty_def IssuerSignedItem_new_def ValueDigests_try_from_def
      DigestIDs_try_from_def cbor_digest_def demo_mdoc_env_def demo_crypto_def demo_mso_def MdocCose_sign_def
      sign_cose_def signature_data_and_header_def demo_issuer_def)

theorem issued_mdoc_is_accepted_witness:
  "\<exists>s mdoc. IssuerSigned_sign demo_mdoc_env (\<lambda>_ _. []) 0 demo_unsigned demo_cose_key demo_issuer = Ok s \<and>
    Mdoc_new demo_mdoc_env Remote ''id'' s (\<lambda>_. 5) [[9]] = Ok mdoc \<and> mdoc_doc_type mdoc = ''pid''"
proof -
  have t: "parse_from_rfc3339 demo_mdoc_env (um_valid_until demo_unsigned) = Some 5" "(\<lambda>_. 5 :: datetime) 1 \<le> 5"
    by (simp_all add: demo_mdoc_env_def demo_unsigned_def)
  from issued_mdoc_is_accepted [OF demo_signed demo_unsigned_wf demo_trusted_issuer demo_mso_roundtrips t,
      of Remote "''id''"] demo_signed
  show ?thesis by (auto simp: demo_unsigned_def)
qed

text \<open>A selection of name spaces: each is one of the others with some of its items left out.\<close>

definition name_spaces_within :: "issuer_name_spaces \<Rightarrow> issuer_name_spaces \<Rightarrow> bool" where
  "name_spaces_within sub ns =
     (\<forall>(n, items) \<in> set sub. \<exists>(n', items') \<in> set ns. n' = n \<and> set items \<subseteq> set items')"

lemma name_spaces_verified_within:
  "name_spaces_verified env mso ns \<Longrightarrow> name_spaces_within sub ns \<Longrightarrow> name_spaces_verified env mso sub"
  unfolding name_spaces_verified_def name_spaces_within_def by fastforce

lemma DigestIDs_only:
  assumes "DigestIDs_try_from env items = Ok ids" "map_of ids i = Some d"
  shows "\<exists>item\<in>set items. cbor_digest env item = Ok d"
proof -
  let ?f = "\<lambda>(i, attr). res_bind (cbor_digest env attr) (\<lambda>d. Ok (of_nat i :: u64, d))"
  from assms(1) obtain kvs where kvs: "res_map ?f (List.enumerate 0 items) = Ok kvs" and ids: "ids = im_collect kvs"
    by (auto simp: DigestIDs_try_from_def result_simps)
  from assms(2) have "map_of (rev kvs) i = Some d" by (simp add: ids)
  then have "(i, d) \<in> set kvs" using map_of_SomeD by fastforce
  then obtain j where j: "j < length kvs" "kvs ! j = (i, d)" by (auto simp: in_set_conv_nth)
  have "length kvs = length items" using res_map_length [OF kvs] by simp
  with res_map_Ok_nth [OF kvs, of j] j show ?thesis
    by (auto simp: nth_enumerate_eq result_simps intro!: bexI [of _ "items ! j"])
qed

text \<open>
  C4: Every attribute a verification returns was put there by the issuer. The mobile security object
  is signed with the key of a certificate that verifies for issuing mdocs, is in its
  validity period, and every returned entry is the entry of an item the issuer hashed under that
  name space, as long as no disclosed item has the hash of a different issued item.
\<close>

theorem verified_attributes_are_issued:
  assumes v: "IssuerSigned_verify env s Valid time anchors = Ok (dda, mso)"
    and issued: "ValueDigests_try_from env issued = Ok (mso_value_digests mso)" "distinct (map fst issued)"
    and no_collision: "\<And>n items item n' items' item' d. \<lbrakk>is_name_spaces s = Some ns; (n, items) \<in> set ns;
        item \<in> set items; (n', items') \<in> set issued; item' \<in> set items'; cbor_digest env item = Ok d;
        cbor_digest env item' = Ok d\<rbrakk> \<Longrightarrow> item = item'"
    and ns: "is_name_spaces s = Some ns" "distinct (map fst ns)"
  shows "(\<exists>cert pk. signing_cert (is_issuer_auth s) = Ok cert \<and>
        Certificate_verify (me_crypto env) cert Mdl [] (time 0) anchors = Ok () \<and>
        Certificate_public_key (me_crypto env) cert = Ok pk \<and>
        CoseSign1_verify (me_crypto env) (is_issuer_auth s) pk = Ok ()) \<and>
     (\<exists>from until. parse_from_rfc3339 env (vi_valid_from (mso_validity_info mso)) = Some from \<and>
        parse_from_rfc3339 env (vi_valid_until (mso_validity_info mso)) = Some until \<and>
        from \<le> time 1 \<and> time 1 \<le> until) \<and>
     (\<forall>(n, es) \<in> set (dda_attributes dda). \<forall>e \<in> set es.
        \<exists>items item. (n, items) \<in> set issued \<and> item \<in> set items \<and> e = item_entry item)"
proof (intro conjI)
  note vo = v [unfolded IssuerSigned_verify_Ok]
  show "\<exists>cert pk. signing_cert (is_issuer_auth s) = Ok cert \<and>
        Certificate_verify (me_crypto env) cert Mdl [] (time 0) anchors = Ok () \<and>
        Certificate_public_key (me_crypto env) cert = Ok pk \<and>
        CoseSign1_verify (me_crypto env) (is_issuer_auth s) pk = Ok ()"
    using vo unfolding verify_against_trust_anchors_Ok by blast
  show "\<exists>from until. parse_from_rfc3339 env (vi_valid_from (mso_validity_info mso)) = Some from \<and>
        parse_from_rfc3339 env (vi_valid_until (mso_validity_info mso)) = Some until \<and>
        from \<le> time 1 \<and> time 1 \<le> until"
    using vo unfolding verify_is_valid_at_Ok by blast
  have verified: "name_spaces_verified env mso ns" using vo ns(1) by simp
  have "\<exists>items item. (n, items) \<in> set issued \<and> item \<in> set items \<and> e = item_entry item"
    if ne: "(n, es) \<in> set (dda_attributes dda)" "e \<in> set es" for n es e
  proof -
    have "dda_attributes dda = map (\<lambda>(n, items). (n, map item_entry items)) ns"
      using vo ns by (auto simp: name_spaces_entries_distinct)
    with ne obtain items item where it: "(n, items) \<in> set ns" "item \<in> set items" "e = item_entry item" by auto
    with verified have "verify_attr_digest env mso n item = Ok ()" by (auto simp: name_spaces_verified_def)
    then obtain ids d where d: "map_of (mso_value_digests mso) n = Some ids" "map_of ids (isi_digest_id item) = Some d"
      "cbor_digest env item = Ok d" by (auto simp: verify_attr_digest_Ok)
    have "n \<in> set (map fst issued)"
    proof -
      from issued(1) obtain ys where ys: "map fst ys = map fst issued" "mso_value_digests mso = im_collect ys"
        by (auto simp: ValueDigests_try_from_def result_simps res_map_pairs_Ok)
      have "map_of (rev ys) n = Some ids" using d(1) by (simp add: ys(2))
      then have "n \<in> fst ` set ys" by (metis image_eqI map_of_SomeD fst_conv set_rev)
      then show ?thesis using ys(1) by (metis list.set_map)
    qed
    then obtain items' where i': "(n, items') \<in> set issued" by auto
    from ValueDigests_lookup [OF issued(1,2) i'] d(1) have "DigestIDs_try_from env items' = Ok ids" by auto
    from DigestIDs_only [OF this d(2)] obtain item' where "item' \<in> set items'" "cbor_digest env item' = Ok d" by blast
    with no_collision [OF ns(1) it(1,2) i'] d(3) i' it show ?thesis by blast
  qed
  then show "\<forall>(n, es) \<in> set (dda_attributes dda). \<forall>e \<in> set es.
        \<exists>items item. (n, items) \<in> set issued \<and> item \<in> set items \<and> e = item_entry item" by blast
qed

lemma selection_verifies:
  assumes v: "IssuerSigned_verify env s req time anchors = Ok (dda, mso)" and ns: "is_name_spaces s = Some ns"
    and sub: "name_spaces_within sub ns"
  shows "IssuerSigned_verify env (s\<lparr>is_name_spaces := Some sub\<rparr>) req time anchors =
    Ok (dda\<lparr>dda_attributes := name_spaces_entries (Some sub)\<rparr>, mso)"
  using v name_spaces_verified_within [OF _ sub, of env mso] ns
  unfolding IssuerSigned_verify_Ok by auto

theorem verified_attributes_are_issued_witness:
  "\<exists>s dda. IssuerSigned_sign demo_mdoc_env (\<lambda>_ _. []) 0 demo_unsigned demo_cose_key demo_issuer = Ok s \<and>
    IssuerSigned_verify demo_mdoc_env s Valid (\<lambda>_. 5) [[9]] = Ok (dda, demo_mso) \<and>
    (\<forall>(n, es) \<in> set (dda_attributes dda). \<forall>e \<in> set es. n = ''ns'' \<and>
       (e = \<lparr>entry_name = ''a'', entry_value = CBool True\<rparr> \<or> e = \<lparr>entry_name = ''b'', entry_value = CInteger 7\<rparr>))"
proof -
  let ?a = "\<lparr>isi_digest_id = 0, isi_random = [], isi_element_identifier = ''a'', isi_element_value = CBool True\<rparr>"
  let ?b = "\<lparr>isi_digest_id = 1, isi_random = [], isi_element_identifier = ''b'', isi_element_value = CInteger 7\<rparr>"
  let ?ns = "[(''ns'', [?a, ?b])]"
  let ?s = "\<lparr>is_name_spaces = Some ?ns,
     is_issuer_auth = \<lparr>cs_signature = [9, 1], cs_payload = Some [1], cs_protected = protected_header,
       cs_unprotected = new_certificate_header [9]\<rparr>\<rparr>"
  have vd: "ValueDigests_try_from demo_mdoc_env ?ns = Ok (mso_value_digests demo_mso)"
    by (simp add: ValueDigests_try_from_def DigestIDs_try_from_def cbor_digest_def demo_mdoc_env_def demo_crypto_def
        demo_mso_def im_collect_def)
  have "\<exists>dda. IssuerSigned_verify demo_mdoc_env ?s Valid (\<lambda>_. 5) [[9]] = Ok (dda, demo_mso)"
    by (simp add: IssuerSigned_verify_def verify_against_trust_anchors_def Certificate_verify_def demo_mdoc_env_def
        demo_crypto_def Certificate_public_key_def verify_and_parse_def cose_parse_unverified_def CoseSign1_verify_def
        demo_mso_def verify_is_valid_at_def verify_attrs_in_namespace_def verify_attr_digest_def cbor_digest_def
        iter_common_name_def im_collect_def)
  then obtain dda where dda: "IssuerSigned_verify demo_mdoc_env ?s Valid (\<lambda>_. 5) [[9]] = Ok (dda, demo_mso)" by blast
  have nc: "item = item'" if "(n, items) \<in> set ?ns" "item \<in> set items" "(n', items') \<in> set ?ns" "item' \<in> set items'"
    "cbor_digest demo_mdoc_env item = Ok d" "cbor_digest demo_mdoc_env item' = Ok d" for n items item n' items' item' d
    using that by (auto simp: cbor_digest_def demo_mdoc_env_def demo_crypto_def as_bytes_def)
  have "\<forall>(n, es) \<in> set (dda_attributes dda). \<forall>e \<in> set es.
        \<exists>items item. (n, items) \<in> set ?ns \<and> item \<in> set items \<and> e = item_entry item"
    using verified_attributes_are_issued [OF dda vd _ nc, of ?ns] by simp
  then have "\<forall>(n, es) \<in> set (dda_attributes dda). \<forall>e \<in> set es. n = ''ns'' \<and>
       (e = \<lparr>entry_name = ''a'', entry_value = CBool True\<rparr> \<or> e = \<lparr>entry_name = ''b'', entry_value = CInteger 7\<rparr>)"
    by (fastforce simp: item_entry_def)
  then show ?thesis using dda demo_signed by blast
qed

end
