(* ===== verification/Urls.thy ===== *)
theory Urls
  imports Prelude
begin

text \<open>
  URLs and the base URLs of \<open>wallet_common/src/config/wallet_config.rs\<close>. A URL is opaque text; what
  the url crate does with it is a record of functions.
\<close>

type_synonym url = string

record url_ops =
  url_path_ends_with_slash :: "url \<Rightarrow> bool"
  url_push_slash :: "url \<Rightarrow> url"
  url_join :: "url \<Rightarrow> string \<Rightarrow> url option"
  cannot_be_a_base :: "url \<Rightarrow> bool"

definition BaseUrl_join :: "url_ops \<Rightarrow> url \<Rightarrow> string \<Rightarrow> (url, 'e) res" where
  "BaseUrl_join urls self input =
     (let ret = (if \<not> url_path_ends_with_slash urls self then url_push_slash urls self else self)
      in unwrap (url_join urls ret (dropWhile (\<lambda>c. c = CHR ''/'') input)))"

definition join_base_url :: "url_ops \<Rightarrow> url \<Rightarrow> string \<Rightarrow> (url, 'e) res" where
  "join_base_url urls self input =
     res_bind (BaseUrl_join urls self input) (\<lambda>url.
     unwrap (if cannot_be_a_base urls url then None else Some url))"

text \<open>The URL that joining yields, where it does not panic.\<close>

definition joined_url :: "url_ops \<Rightarrow> url \<Rightarrow> string \<Rightarrow> url option" where
  "joined_url urls self input =
     url_join urls (if url_path_ends_with_slash urls self then self else url_push_slash urls self)
       (dropWhile (\<lambda>c. c = CHR ''/'') input)"

lemma BaseUrl_join_joined: "BaseUrl_join urls self input = unwrap (joined_url urls self input)"
  by (simp add: BaseUrl_join_def joined_url_def)

lemma join_base_url_Ok:
  "join_base_url urls self input = Ok u \<longleftrightarrow> joined_url urls self input = Some u \<and> \<not> cannot_be_a_base urls u"
  by (auto simp: join_base_url_def BaseUrl_join_joined result_simps)

text \<open>URLs for examples: joining appends, and everything is a base URL.\<close>

definition demo_urls :: url_ops where
  "demo_urls = \<lparr>url_path_ends_with_slash = (\<lambda>_. True), url_push_slash = (\<lambda>u. u),
     url_join = (\<lambda>u s. Some (u @ s)), cannot_be_a_base = (\<lambda>_. False)\<rparr>"

end
