(* ===== verification/Disclosure.thy ===== *)
theory Disclosure
  imports Mdoc Urls
begin

text \<open>
  Disclosure of mdocs: requests and responses (\<open>mdoc/src/iso/device_retrieval.rs\<close>,
  \<open>mdoc/src/iso/disclosure.rs\<close>, \<open>mdoc/src/iso/engagement.rs\<close>), their verification
  (\<open>mdoc/src/verifier.rs\<close>, \<open>mdoc/src/holder/disclosure/request.rs\<close>,
  \<open>mdoc/src/utils/auth/reader_auth.rs\<close>) and what the holder answers
  (\<open>disclosure_request_match.rs\<close>, \<open>proposed_document.rs\<close>, \<open>device_signed.rs\<close> and
  \<open>response.rs\<close> of \<open>mdoc/src/holder/disclosure\<close>).
\<close>

section \<open>Engagement and session transcripts\<close>

datatype origin_info_direction = Delivered | Received
datatype origin_info_type = Website url | OnDeviceQRCode | MessageData

record origin_info =
  oi_cat :: origin_info_direction
  oi_typ :: origin_info_type

datatype cipher_suite_identifier = P256
datatype connection_method = RestApi (rest_api_uri: url)
datatype engagement_version = EngagementV1_0

record security =
  sec_cipher_suite_identifier :: cipher_suite_identifier
  sec_e_sender_key_bytes :: cose_key

record engagement =
  en_version :: engagement_version
  en_security :: "security option"
  en_connection_methods :: "connection_method list option"
  en_origin_infos :: "origin_info list"

datatype handover =
    QrHandover
  | NfcHandover bytes "bytes option"
  | SchemeHandoverBytes engagement
  | Oid4vpHandover (client_id_hash: bytes) (response_uri_hash: bytes) (handover_nonce: string)

record session_transcript =
  st_device_engagement_bytes :: "engagement option"
  st_ereader_key_bytes :: "cose_key option"
  st_handover :: handover

definition new_iso :: "session_type \<Rightarrow> engagement \<Rightarrow> engagement \<Rightarrow> session_transcript option" where
  "new_iso session_type reader_engagement device_engagement =
     Option.bind (en_security reader_engagement) (\<lambda>reader_security.
     Some \<lparr>st_device_engagement_bytes = Some device_engagement,
       st_ereader_key_bytes = Some (sec_e_sender_key_bytes reader_security),
       st_handover = (case session_type of
           SameDevice \<Rightarrow> SchemeHandoverBytes reader_engagement
         | CrossDevice \<Rightarrow> QrHandover)\<rparr>)"

section \<open>Requests and responses\<close>

record items_request =
  ir_doc_type :: doc_type
  ir_name_spaces :: "(name_space \<times> (string \<times> bool) list) list"
  ir_request_info :: "(string \<times> cbor_value) list option"

record doc_request =
  dq_items_request :: items_request
  dq_reader_auth :: "cose_sign1 option"

record device_request =
  drq_doc_requests :: "doc_request list"
  drq_return_url :: "url option"

datatype device_auth = DeviceSignature cose_sign1 | DeviceMac cose_mac0

record device_signed =
  ds_name_spaces :: "(name_space \<times> (string \<times> cbor_value) list) list"
  ds_device_auth :: device_auth

record document =
  doc_doc_type :: doc_type
  doc_issuer_signed :: issuer_signed
  doc_device_signed :: device_signed
  doc_errors :: "(name_space \<times> (string \<times> int) list) list option"

record device_response =
  dr_documents :: "document list option"
  dr_document_errors :: "(doc_type \<times> int) list list option"
  dr_status :: u64

text \<open>What is signed by the holder and by the reader.\<close>

record device_authentication =
  da_session_transcript :: session_transcript
  da_doc_type :: doc_type
  da_device_name_spaces_bytes :: "(name_space \<times> (string \<times> cbor_value) list) list"

record reader_authentication =
  ra_session_transcript :: session_transcript
  ra_items_request_bytes :: items_request

definition DeviceAuthenticationKeyed_new :: "doc_type \<Rightarrow> session_transcript \<Rightarrow> device_authentication" where
  "DeviceAuthenticationKeyed_new dt st =
     \<lparr>da_session_transcript = st, da_doc_type = dt, da_device_name_spaces_bytes = []\<rparr>"

definition ReaderAuthenticationKeyed_new :: "session_transcript \<Rightarrow> items_request \<Rightarrow> reader_authentication" where
  "ReaderAuthenticationKeyed_new st items = \<lparr>ra_session_transcript = st, ra_items_request_bytes = items\<rparr>"

text \<open>The CBOR of these types, tagged as bytes, and the JSON of a registration in a certificate.\<close>

record reader_registration =
  rr_attributes :: "(doc_type \<times> (name_space \<times> string list) list) list"
  rr_request_origin_base_url :: url
  rr_organization :: string

record disclosure_env =
  de_mdoc :: mdoc_env
  device_authentication_to_cbor :: "device_authentication \<Rightarrow> bytes option"
  reader_authentication_to_cbor :: "reader_authentication \<Rightarrow> bytes option"
  transcript_to_cbor :: "session_transcript \<Rightarrow> bytes option"
  value_from_cbor :: "bytes \<Rightarrow> cbor_value option"
  utf8_string_from_der :: "bytes \<Rightarrow> string option"
  registration_from_json :: "string \<Rightarrow> reader_registration option"
  issuer_registration_from_json :: "string \<Rightarrow> string option"

abbreviation de_crypto :: "disclosure_env \<Rightarrow> crypto" where
  "de_crypto env \<equiv> me_crypto (de_mdoc env)"

definition ItemsRequest_attribute_identifiers :: "items_request \<Rightarrow> attribute_identifier list" where
  "ItemsRequest_attribute_identifiers self = is_collect (concat (map (\<lambda>(namespace, attributes).
     map (\<lambda>(attribute, _). \<lparr>ai_doc_type = ir_doc_type self, ai_namespace = namespace,
            ai_attribute = attribute\<rparr>) attributes) (ir_name_spaces self)))"

definition requests_attribute_identifiers :: "items_request list \<Rightarrow> attribute_identifier list" where
  "requests_attribute_identifiers self = is_collect (concat (map ItemsRequest_attribute_identifiers self))"

definition document_identifiers :: "document \<Rightarrow> attribute_identifier list" where
  "document_identifiers self = IssuerSigned_attribute_identifiers (doc_issuer_signed self) (doc_doc_type self)"

definition mdoc_identifiers :: "mdoc \<Rightarrow> attribute_identifier list" where
  "mdoc_identifiers self = IssuerSigned_attribute_identifiers (mdoc_issuer_signed self) (mdoc_doc_type self)"

section \<open>Verifying a response\<close>

definition match_against_issuer_signed :: "items_request \<Rightarrow> document \<Rightarrow> attribute_identifier list" where
  "match_against_issuer_signed self document =
     filter (\<lambda>attribute. attribute \<notin> set (document_identifiers document)) (ItemsRequest_attribute_identifiers self)"

definition match_against_response :: "items_request list \<Rightarrow> device_response \<Rightarrow> (unit, mdoc_error) res" where
  "match_against_response self device_response =
     (let not_found = concat (map (\<lambda>items_request.
        case Option.bind (dr_documents device_response)
               (List.find (\<lambda>doc. doc_doc_type doc = ir_doc_type items_request)) of
          None \<Rightarrow> ItemsRequest_attribute_identifiers items_request
        | Some doc \<Rightarrow> match_against_issuer_signed items_request doc) self)
      in if not_found = [] then Ok () else Err (Verification (MissingAttributes not_found)))"

definition verify_device_auth ::
  "disclosure_env \<Rightarrow> device_auth \<Rightarrow> verifying_key \<Rightarrow> secret_key option \<Rightarrow> bytes \<Rightarrow> bytes \<Rightarrow> (unit, mdoc_error) res" where
  "verify_device_auth env auth device_key eph_reader_key session_transcript_bts device_authentication_bts =
     (case auth of
       DeviceSignature sig \<Rightarrow> map_err Cose
         (CoseSign1_verify (de_crypto env) (sign1_with_payload sig device_authentication_bts) device_key)
     | DeviceMac mac \<Rightarrow>
         res_bind (ok_or eph_reader_key (Verification EphemeralKeyMissing)) (\<lambda>eph.
         res_bind (map_err Crypto (dh_hmac_key (de_crypto env) eph device_key session_transcript_bts ''EMacKey'' 32))
           (\<lambda>mac_key.
         map_err Cose (CoseMac0_verify (de_crypto env) (mac0_with_payload mac device_authentication_bts) mac_key))))"

definition Document_verify ::
  "disclosure_env \<Rightarrow> document \<Rightarrow> secret_key option \<Rightarrow> session_transcript \<Rightarrow> clock \<Rightarrow> trust_anchor list
     \<Rightarrow> (doc_type \<times> document_disclosed_attributes, mdoc_error) res" where
  "Document_verify env self eph_reader_key session_transcript time trust_anchors =
     res_bind (IssuerSigned_verify (de_mdoc env) (doc_issuer_signed self) Valid time trust_anchors) (\<lambda>(attrs, mso).
     if doc_doc_type self \<noteq> mso_doc_type mso
     then Err (Verification (WrongDocType (doc_doc_type self) (mso_doc_type mso)))
     else
     res_bind (ok_or (transcript_to_cbor env session_transcript) (Cbor Serialization)) (\<lambda>session_transcript_bts.
     res_bind (ok_or (device_authentication_to_cbor env
       (DeviceAuthenticationKeyed_new (doc_doc_type self) session_transcript)) (Cbor Serialization)) (\<lambda>device_authentication_bts.
     res_bind (map_err Crypto (VerifyingKey_try_from (de_crypto env) (dki_device_key (mso_device_key_info mso))))
       (\<lambda>device_key.
     res_bind (verify_device_auth env (ds_device_auth (doc_device_signed self)) device_key eph_reader_key
       session_transcript_bts device_authentication_bts) (\<lambda>_.
     Ok (mso_doc_type mso, attrs))))))"

type_synonym disclosed_attributes = "(doc_type \<times> document_disclosed_attributes) list"

fun verify_documents ::
  "disclosure_env \<Rightarrow> document list \<Rightarrow> secret_key option \<Rightarrow> session_transcript \<Rightarrow> clock \<Rightarrow> trust_anchor list
     \<Rightarrow> disclosed_attributes \<Rightarrow> (disclosed_attributes, mdoc_error) res" where
  "verify_documents env [] eph st time anchors attrs = Ok attrs"
| "verify_documents env (doc # docs) eph st time anchors attrs =
     res_bind (Document_verify env doc eph st time anchors) (\<lambda>(dt, doc_attrs).
     verify_documents env docs eph st (\<lambda>k. time (k + 2)) anchors (im_insert dt doc_attrs attrs))"

definition DeviceResponse_verify ::
  "disclosure_env \<Rightarrow> device_response \<Rightarrow> secret_key option \<Rightarrow> session_transcript \<Rightarrow> clock \<Rightarrow> trust_anchor list
     \<Rightarrow> (disclosed_attributes, mdoc_error) res" where
  "DeviceResponse_verify env self eph_reader_key session_transcript time trust_anchors =
     (case dr_document_errors self of
       Some errors \<Rightarrow> Err (Verification (DeviceResponseErrors errors))
     | None \<Rightarrow>
         if dr_status self \<noteq> 0 then Err (Verification (UnexpectedStatus (dr_status self)))
         else case dr_documents self of
           None \<Rightarrow> Err (Verification NoDocuments)
         | Some docs \<Rightarrow> verify_documents env docs eph_reader_key session_transcript time trust_anchors [])"

section \<open>Verifying a request\<close>

definition extract_custom_ext ::
  "disclosure_env \<Rightarrow> certificate \<Rightarrow> nat list \<Rightarrow> (string \<Rightarrow> 't option) \<Rightarrow> ('t option, certificate_error) res" where
  "extract_custom_ext env cert oid from_json =
     (if \<not> x509_parses (de_crypto env) cert then Err ContentParsing
      else case x509_extension (de_crypto env) cert oid of
        None \<Rightarrow> Ok None
      | Some ext \<Rightarrow>
          res_bind (ok_or (utf8_string_from_der env ext) DerEncodingError) (\<lambda>json.
          res_bind (ok_or (from_json json) JsonEncodingError) (\<lambda>registration. Ok (Some registration))))"

definition OID_EXT_READER_AUTH :: "nat list" where
  "OID_EXT_READER_AUTH = [2, 1, 123, 1]"

definition OID_EXT_ISSUER_AUTH :: "nat list" where
  "OID_EXT_ISSUER_AUTH = [2, 1, 123, 2]"

datatype certificate_type =
    MdlType (mdl_registration: "string option")
  | ReaderAuthType (reader_auth_registration: "reader_registration option")

definition CertificateType_from_certificate ::
  "disclosure_env \<Rightarrow> certificate \<Rightarrow> (certificate_type, certificate_error) res" where
  "CertificateType_from_certificate env cert =
     res_bind (usage_from_certificate (de_crypto env) cert) (\<lambda>usage.
     case usage of
       Mdl \<Rightarrow> res_bind (extract_custom_ext env cert OID_EXT_ISSUER_AUTH (issuer_registration_from_json env))
         (\<lambda>r. Ok (MdlType r))
     | ReaderAuth \<Rightarrow> res_bind (extract_custom_ext env cert OID_EXT_READER_AUTH (registration_from_json env))
         (\<lambda>r. Ok (ReaderAuthType r)))"

definition registration_attribute_identifiers :: "reader_registration \<Rightarrow> attribute_identifier list" where
  "registration_attribute_identifiers self = is_collect (concat (map (\<lambda>(dt, namespaces).
     concat (map (\<lambda>(namespace, attributes). map (\<lambda>attribute.
       \<lparr>ai_doc_type = dt, ai_namespace = namespace, ai_attribute = attribute\<rparr>) attributes) namespaces))
     (rr_attributes self)))"

definition verify_requested_attributes ::
  "reader_registration \<Rightarrow> items_request list \<Rightarrow> (unit, reader_validation_error) res" where
  "verify_requested_attributes self requested_attributes =
     (let difference = is_collect (filter (\<lambda>a. a \<notin> set (registration_attribute_identifiers self))
            (requests_attribute_identifiers requested_attributes))
      in if difference \<noteq> [] then Err (UnregisteredAttributes difference) else Ok ())"

definition DocRequest_verify ::
  "disclosure_env \<Rightarrow> doc_request \<Rightarrow> session_transcript \<Rightarrow> datetime \<Rightarrow> trust_anchor list
     \<Rightarrow> (certificate option, mdoc_error) res" where
  "DocRequest_verify env self session_transcript now trust_anchors =
     (case dq_reader_auth self of
       None \<Rightarrow> Ok None
     | Some reader_auth \<Rightarrow>
         res_bind (ok_or (reader_authentication_to_cbor env
           (ReaderAuthenticationKeyed_new session_transcript (dq_items_request self))) (Cbor Serialization)) (\<lambda>payload.
         let cose = sign1_with_payload reader_auth payload in
         res_bind (map_err Cose (verify_against_trust_anchors (de_crypto env) (value_from_cbor env) cose ReaderAuth
           now trust_anchors)) (\<lambda>_.
         res_bind (map_err Cose (signing_cert cose)) (\<lambda>cert. Ok (Some cert)))))"

definition has_attributes :: "device_request \<Rightarrow> bool" where
  "has_attributes self = list_ex (\<lambda>doc_request.
     list_ex (\<lambda>name_space. name_space \<noteq> []) (im_values (ir_name_spaces (dq_items_request doc_request))))
     (drq_doc_requests self)"

definition items_requests :: "device_request \<Rightarrow> items_request list" where
  "items_requests self = map dq_items_request (drq_doc_requests self)"

fun fold_certificates ::
  "disclosure_env \<Rightarrow> session_transcript \<Rightarrow> clock \<Rightarrow> trust_anchor list \<Rightarrow> certificate option \<Rightarrow> doc_request list
     \<Rightarrow> (certificate option, mdoc_error) res" where
  "fold_certificates env st time anchors result_cert [] = Ok result_cert"
| "fold_certificates env st time anchors result_cert (dq # dqs) =
     res_bind (DocRequest_verify env dq st (time 0) anchors) (\<lambda>cert_opt.
     res_bind (unwrap cert_opt) (\<lambda>doc_request_cert.
     if result_cert \<noteq> None \<and> result_cert \<noteq> Some doc_request_cert then Err (Holder ReaderAuthsInconsistent)
     else fold_certificates env st (\<lambda>k. time (Suc k)) anchors (Some doc_request_cert) dqs))"

definition DeviceRequest_verify ::
  "disclosure_env \<Rightarrow> device_request \<Rightarrow> session_transcript \<Rightarrow> clock \<Rightarrow> trust_anchor list
     \<Rightarrow> ((certificate \<times> reader_registration) option, mdoc_error) res" where
  "DeviceRequest_verify env self session_transcript time trust_anchors =
     (if list_all (\<lambda>d. dq_reader_auth d = None) (drq_doc_requests self) then Ok None
      else if list_ex (\<lambda>d. dq_reader_auth d = None) (drq_doc_requests self) then Err (Holder ReaderAuthMissing)
      else
      res_bind (fold_certificates env session_transcript time trust_anchors None (drq_doc_requests self)) (\<lambda>cert_opt.
      res_bind (unwrap cert_opt) (\<lambda>cert.
      res_bind (map_err (\<lambda>e. Holder (HolderCertificate e)) (CertificateType_from_certificate env cert)) (\<lambda>ctype.
      case ctype of
        ReaderAuthType (Some registration) \<Rightarrow>
          res_bind (map_err (\<lambda>e. Holder (ReaderRegistrationValidation e))
            (verify_requested_attributes registration (items_requests self))) (\<lambda>_.
          Ok (Some (cert, registration)))
      | _ \<Rightarrow> Err (Holder (NoReaderRegistration cert))))))"

section \<open>Answering a request\<close>

record 'i stored_mdoc =
  stm_id :: 'i
  stm_mdoc :: mdoc

record 'i proposed_document =
  pd_source_identifier :: 'i
  pd_private_key_id :: string
  pd_doc_type :: doc_type
  pd_issuer_signed :: issuer_signed
  pd_device_signed_challenge :: bytes
  pd_issuer_certificate :: certificate

definition select_name_spaces ::
  "doc_type \<Rightarrow> attribute_identifier list \<Rightarrow> issuer_name_spaces \<Rightarrow> issuer_name_spaces" where
  "select_name_spaces dt requested_attributes name_spaces =
     im_collect (List.map_filter (\<lambda>(name_space, attributes).
       let selected = filter (\<lambda>attribute. \<lparr>ai_doc_type = dt, ai_namespace = name_space,
             ai_attribute = isi_element_identifier attribute\<rparr> \<in> set requested_attributes) attributes
       in map_option (\<lambda>attributes. (name_space, attributes)) (nonempty selected)) name_spaces)"

definition try_from_stored_mdoc ::
  "'i stored_mdoc \<Rightarrow> attribute_identifier list \<Rightarrow> bytes \<Rightarrow> ('i proposed_document, mdoc_error) res" where
  "try_from_stored_mdoc stored_mdoc requested_attributes device_signed_challenge =
     (let mdoc = stm_mdoc stored_mdoc; signed = mdoc_issuer_signed mdoc in
      res_bind (case is_name_spaces signed of
          None \<Rightarrow> Ok None
        | Some name_spaces \<Rightarrow> res_bind (unwrap (nonempty
            (select_name_spaces (mdoc_doc_type mdoc) requested_attributes name_spaces))) (\<lambda>ns. Ok (Some ns)))
        (\<lambda>name_spaces.
      let issuer_signed = \<lparr>is_name_spaces = name_spaces, is_issuer_auth = is_issuer_auth signed\<rparr> in
      res_bind (map_err Cose (signing_cert (is_issuer_auth issuer_signed))) (\<lambda>issuer_certificate.
      Ok \<lparr>pd_source_identifier = stm_id stored_mdoc, pd_private_key_id = mdoc_private_key_id mdoc,
          pd_doc_type = mdoc_doc_type mdoc, pd_issuer_signed = issuer_signed,
          pd_device_signed_challenge = device_signed_challenge, pd_issuer_certificate = issuer_certificate\<rparr>)))"

definition missing_attributes_of :: "attribute_identifier list \<Rightarrow> 'i stored_mdoc \<Rightarrow> attribute_identifier list" where
  "missing_attributes_of requested_attributes stored_mdoc =
     filter (\<lambda>a. a \<notin> set (mdoc_identifiers (stm_mdoc stored_mdoc))) requested_attributes"

definition candidates_and_missing_attributes ::
  "'i stored_mdoc list \<Rightarrow> attribute_identifier list \<Rightarrow> bytes
     \<Rightarrow> ('i proposed_document list \<times> attribute_identifier list list, mdoc_error) res" where
  "candidates_and_missing_attributes stored_mdocs requested_attributes device_signed_challenge =
     (let missing = missing_attributes_of requested_attributes;
          all_missing_attributes = filter (\<lambda>m. m \<noteq> []) (map missing stored_mdocs);
          satisfying_documents = filter (\<lambda>s. missing s = []) stored_mdocs
      in res_bind (res_map (\<lambda>s. try_from_stored_mdoc s requested_attributes device_signed_challenge)
           satisfying_documents) (\<lambda>proposed_documents. Ok (proposed_documents, all_missing_attributes)))"

text \<open>The requested attributes by document type, and the loop over the stored mdocs that uses them up.\<close>

fun attributes_by_doc_type ::
  "doc_type list \<Rightarrow> (doc_type \<times> attribute_identifier list) list \<Rightarrow> attribute_identifier list
     \<Rightarrow> ((doc_type \<times> attribute_identifier list) list, mdoc_error) res" where
  "attributes_by_doc_type doc_types requested [] = Ok requested"
| "attributes_by_doc_type doc_types requested (a # as) =
     res_bind (unwrap (List.find (\<lambda>dt. dt = ai_doc_type a) doc_types)) (\<lambda>dt.
     attributes_by_doc_type doc_types
       (im_insert dt (is_insert a (case map_of requested dt of Some s \<Rightarrow> s | None \<Rightarrow> [])) requested) as)"

fun match_stored_mdocs ::
  "disclosure_env \<Rightarrow> session_transcript \<Rightarrow> (doc_type \<times> attribute_identifier list) list
     \<Rightarrow> attribute_identifier list list \<Rightarrow> (doc_type \<times> 'i proposed_document list) list \<Rightarrow> 'i stored_mdoc list list
     \<Rightarrow> ((doc_type \<times> attribute_identifier list) list \<times> attribute_identifier list list \<times>
          (doc_type \<times> 'i proposed_document list) list, mdoc_error) res" where
  "match_stored_mdocs env st requested missing candidates [] = Ok (requested, missing, candidates)"
| "match_stored_mdocs env st requested missing candidates (stored # rest) =
     res_bind (unwrap (case stored of [] \<Rightarrow> None | s # _ \<Rightarrow> Some (mdoc_doc_type (stm_mdoc s)))) (\<lambda>first_doc_type.
     res_bind (unwrap (map_of requested first_doc_type)) (\<lambda>requested_attributes.
     if \<not> list_all (\<lambda>s. mdoc_doc_type (stm_mdoc s) = first_doc_type) stored then Panic
     else
     res_bind (ok_or (device_authentication_to_cbor env (DeviceAuthenticationKeyed_new first_doc_type st)) (Cbor Serialization))
       (\<lambda>challenge.
     res_bind (candidates_and_missing_attributes stored requested_attributes challenge) (\<lambda>(found, absent).
     match_stored_mdocs env st (filter (\<lambda>(dt, _). dt \<noteq> first_doc_type) requested)
       (missing @ take 1 absent) (im_insert first_doc_type found candidates) rest))))"

datatype 'i disclosure_request_match =
    Candidates "(doc_type \<times> 'i proposed_document list) list"
  | MatchMissingAttributes "attribute_identifier list"

text \<open>The store of mdocs of the wallet answers with lists of mdocs, one per document type it has, or fails.\<close>

type_synonym 'i mdoc_data_source = "doc_type list \<Rightarrow> 'i stored_mdoc list list option"

definition DisclosureRequestMatch_new ::
  "disclosure_env \<Rightarrow> items_request list \<Rightarrow> 'i mdoc_data_source \<Rightarrow> session_transcript
     \<Rightarrow> ('i disclosure_request_match, mdoc_error) res" where
  "DisclosureRequestMatch_new env requests mdoc_by_doc_types st =
     (let doc_types = is_collect (map ir_doc_type requests) in
      res_bind (ok_or (mdoc_by_doc_types doc_types) (Holder MdocDataSource)) (\<lambda>stored_mdocs.
      res_bind (attributes_by_doc_type doc_types [] (requests_attribute_identifiers requests)) (\<lambda>requested.
      res_bind (match_stored_mdocs env st requested [] [] (filter (\<lambda>s. s \<noteq> []) stored_mdocs))
        (\<lambda>(requested, missing, candidates).
      if list_ex (\<lambda>c. c = []) (im_values candidates) \<or> requested \<noteq> []
      then Ok (MatchMissingAttributes (concat missing @
        concat (map (\<lambda>dt. case map_of requested dt of Some as \<Rightarrow> as | None \<Rightarrow> []) doc_types)))
      else Ok (Candidates candidates)))))"

text \<open>Signing: a key of the key factory is its identifier and public key.\<close>

type_synonym key_factory = "(bytes \<times> (string \<times> verifying_key) list) list \<Rightarrow> signature list list option"

definition new_signatures ::
  "crypto \<Rightarrow> ((string \<times> verifying_key) \<times> bytes) list \<Rightarrow> key_factory \<Rightarrow> (device_signed list, mdoc_error) res" where
  "new_signatures c keys_and_challenges sign_multiple =
     res_bind (map_err Cose (sign_coses c keys_and_challenges sign_multiple header_default False)) (\<lambda>coses.
     Ok (map (\<lambda>cose. \<lparr>ds_name_spaces = [], ds_device_auth = DeviceSignature cose\<rparr>) coses))"

definition new_mac ::
  "disclosure_env \<Rightarrow> secret_key \<Rightarrow> verifying_key \<Rightarrow> session_transcript \<Rightarrow> device_authentication
     \<Rightarrow> (device_signed, mdoc_error) res" where
  "new_mac env private_key reader_pub_key st device_auth =
     res_bind (ok_or (transcript_to_cbor env st) (Cbor Serialization)) (\<lambda>salt.
     res_bind (map_err Crypto (dh_hmac_key (de_crypto env) private_key reader_pub_key salt ''EMacKey'' 32)) (\<lambda>key.
     res_bind (ok_or (device_authentication_to_cbor env device_auth) (Cbor Serialization)) (\<lambda>payload.
     let cose = mac0_without_payload \<lparr>cm_tag = hmac_sign (de_crypto env) key
             (mac_structure_data (de_crypto env) protected_header payload),
           cm_payload = Some payload, cm_protected = protected_header, cm_unprotected = header_default\<rparr>
     in Ok \<lparr>ds_name_spaces = [], ds_device_auth = DeviceMac cose\<rparr>)))"

definition sign_multiple_documents ::
  "disclosure_env \<Rightarrow> key_factory \<Rightarrow> 'i proposed_document list \<Rightarrow> (document list, mdoc_error) res" where
  "sign_multiple_documents env key_factory proposed_documents =
     res_bind (res_map (\<lambda>doc. res_bind (IssuerSigned_public_key (de_mdoc env) (pd_issuer_signed doc)) (\<lambda>public_key.
       Ok ((pd_private_key_id doc, public_key), pd_device_signed_challenge doc))) proposed_documents)
       (\<lambda>keys_and_challenges.
     res_bind (new_signatures (de_crypto env) keys_and_challenges key_factory) (\<lambda>device_signed.
     Ok (map (\<lambda>(doc, signed). \<lparr>doc_doc_type = pd_doc_type doc, doc_issuer_signed = pd_issuer_signed doc,
       doc_device_signed = signed, doc_errors = None\<rparr>) (zip proposed_documents device_signed))))"

definition from_proposed_documents ::
  "disclosure_env \<Rightarrow> 'i proposed_document list \<Rightarrow> key_factory \<Rightarrow> (device_response, mdoc_error) res" where
  "from_proposed_documents env proposed_documents key_factory =
     res_bind (sign_multiple_documents env key_factory proposed_documents) (\<lambda>documents.
     Ok \<lparr>dr_documents = Some documents, dr_document_errors = None, dr_status = 0\<rparr>)"

definition proposed_attributes :: "'i proposed_document \<Rightarrow> certificate \<times> (name_space \<times> entry list) list" where
  "proposed_attributes self = (pd_issuer_certificate self, name_spaces_entries (is_name_spaces (pd_issuer_signed self)))"

section \<open>Facts about answering\<close>

abbreviation item_identifier :: "doc_type \<Rightarrow> name_space \<Rightarrow> issuer_signed_item \<Rightarrow> attribute_identifier" where
  "item_identifier dt n item \<equiv> \<lparr>ai_doc_type = dt, ai_namespace = n, ai_attribute = isi_element_identifier item\<rparr>"

lemma set_IssuerSigned_identifiers:
  "set (IssuerSigned_attribute_identifiers s dt) =
     (case is_name_spaces s of None \<Rightarrow> {}
      | Some ns \<Rightarrow> {item_identifier dt n item | n items item. (n, items) \<in> set ns \<and> item \<in> set items})"
  by (auto simp: IssuerSigned_attribute_identifiers_def split: option.splits)

lemma select_name_spaces_eq:
  assumes "distinct (map fst ns)"
  shows "select_name_spaces dt req ns = List.map_filter (\<lambda>(n, items).
       let selected = filter (\<lambda>item. item_identifier dt n item \<in> set req) items
       in map_option (\<lambda>attributes. (n, attributes)) (nonempty selected)) ns"
    and "distinct (map fst (select_name_spaces dt req ns))"
proof -
  let ?f = "\<lambda>(n, items). let selected = filter (\<lambda>item. item_identifier dt n item \<in> set req) items
       in map_option (\<lambda>attributes. (n, attributes)) (nonempty selected)"
  have k: "fst (the (?f x)) = fst x" if "?f x \<noteq> None" for x
    using that by (auto simp: Let_def split: prod.splits)
  have "map fst (List.map_filter ?f ns) = map fst (filter (\<lambda>x. ?f x \<noteq> None) ns)"
    unfolding List.map_filter_def map_map by (rule map_cong) (auto simp: k)
  then have d: "distinct (map fst (List.map_filter ?f ns))" using assms by (simp add: distinct_map_filter)
  then show "select_name_spaces dt req ns = List.map_filter ?f ns"
    by (simp add: select_name_spaces_def im_collect_distinct)
  with d show "distinct (map fst (select_name_spaces dt req ns))" by simp
qed

lemma set_select_name_spaces:
  assumes "distinct (map fst ns)"
  shows "(n, items) \<in> set (select_name_spaces dt req ns) \<longleftrightarrow>
    (\<exists>items'. (n, items') \<in> set ns \<and> items = filter (\<lambda>item. item_identifier dt n item \<in> set req) items' \<and> items \<noteq> [])"
  unfolding select_name_spaces_eq(1) [OF assms] List.map_filter_def
  by (auto simp: Let_def nonempty_def image_iff split: prod.splits if_splits)

lemma select_identifiers:
  assumes "distinct (map fst ns)"
  shows "(\<exists>n items item. (n, items) \<in> set (select_name_spaces dt req ns) \<and> item \<in> set items \<and> a = item_identifier dt n item) \<longleftrightarrow>
    (\<exists>n items item. (n, items) \<in> set ns \<and> item \<in> set items \<and> a = item_identifier dt n item) \<and> a \<in> set req"
proof (intro iffI; elim exE conjE)
  fix n items item
  assume "(n, items) \<in> set (select_name_spaces dt req ns)" "item \<in> set items" "a = item_identifier dt n item"
  moreover from this(1) obtain items' where "(n, items') \<in> set ns"
    "items = filter (\<lambda>item. item_identifier dt n item \<in> set req) items'"
    unfolding set_select_name_spaces [OF assms] by blast
  ultimately have "(n, items') \<in> set ns \<and> item \<in> set items' \<and> a = item_identifier dt n item \<and> a \<in> set req" by simp
  then show "(\<exists>n items item. (n, items) \<in> set ns \<and> item \<in> set items \<and> a = item_identifier dt n item) \<and> a \<in> set req"
    by blast
next
  fix n items item
  assume i: "a \<in> set req" "(n, items) \<in> set ns" "item \<in> set items" "a = item_identifier dt n item"
  let ?sel = "filter (\<lambda>item. item_identifier dt n item \<in> set req) items"
  have "item \<in> set ?sel" using i by simp
  moreover from this have "?sel \<noteq> []" by (metis empty_iff empty_set)
  ultimately show "\<exists>n items item. (n, items) \<in> set (select_name_spaces dt req ns) \<and> item \<in> set items \<and>
      a = item_identifier dt n item"
    unfolding set_select_name_spaces [OF assms] using i(2,4) by blast
qed

lemma select_within: "distinct (map fst ns) \<Longrightarrow> name_spaces_within (select_name_spaces dt req ns) ns"
  by (fastforce simp: name_spaces_within_def set_select_name_spaces)

text \<open>A stored mdoc as it comes out of the store: its name spaces are a map.\<close>

definition mdoc_wf :: "mdoc \<Rightarrow> bool" where
  "mdoc_wf m = (case is_name_spaces (mdoc_issuer_signed m) of Some ns \<Rightarrow> distinct (map fst ns) | None \<Rightarrow> True)"

lemma missing_empty: "missing_attributes_of req s = [] \<longleftrightarrow> set req \<subseteq> set (mdoc_identifiers (stm_mdoc s))"
  by (auto simp: missing_attributes_of_def filter_empty_conv)

lemma try_from_stored_mdoc_exact:
  assumes pd: "try_from_stored_mdoc s req challenge = Ok pd" and wf: "mdoc_wf (stm_mdoc s)"
    and sat: "set req \<subseteq> set (mdoc_identifiers (stm_mdoc s))"
  shows "set (IssuerSigned_attribute_identifiers (pd_issuer_signed pd) (pd_doc_type pd)) = set req"
    "pd_doc_type pd = mdoc_doc_type (stm_mdoc s)" "pd_device_signed_challenge pd = challenge"
    "pd_private_key_id pd = mdoc_private_key_id (stm_mdoc s)"
    "is_issuer_auth (pd_issuer_signed pd) = is_issuer_auth (mdoc_issuer_signed (stm_mdoc s))"
    "is_name_spaces (pd_issuer_signed pd) = map_option (select_name_spaces (mdoc_doc_type (stm_mdoc s)) req)
       (is_name_spaces (mdoc_issuer_signed (stm_mdoc s)))"
proof -
  let ?m = "stm_mdoc s"
  from pd show eqs: "pd_doc_type pd = mdoc_doc_type ?m" "pd_device_signed_challenge pd = challenge"
    "pd_private_key_id pd = mdoc_private_key_id ?m"
    "is_issuer_auth (pd_issuer_signed pd) = is_issuer_auth (mdoc_issuer_signed ?m)"
    "is_name_spaces (pd_issuer_signed pd) = map_option (select_name_spaces (mdoc_doc_type ?m) req)
       (is_name_spaces (mdoc_issuer_signed ?m))"
    by (auto simp: try_from_stored_mdoc_def Let_def result_simps nonempty_def split: option.splits if_splits)
  show "set (IssuerSigned_attribute_identifiers (pd_issuer_signed pd) (pd_doc_type pd)) = set req"
  proof (cases "is_name_spaces (mdoc_issuer_signed ?m)")
    case None
    then show ?thesis using sat
      by (simp add: set_IssuerSigned_identifiers eqs mdoc_identifiers_def)
  next
    case (Some ns)
    then have d: "distinct (map fst ns)" using wf by (simp add: mdoc_wf_def)
    show ?thesis (is "?L = set req")
    proof (rule set_eqI)
      fix a
      have "a \<in> ?L \<longleftrightarrow> (\<exists>n items item. (n, items) \<in> set (select_name_spaces (mdoc_doc_type ?m) req ns) \<and>
          item \<in> set items \<and> a = item_identifier (mdoc_doc_type ?m) n item)"
        by (auto simp: set_IssuerSigned_identifiers eqs Some)
      also have "\<dots> \<longleftrightarrow> a \<in> set (mdoc_identifiers ?m) \<and> a \<in> set req"
        unfolding select_identifiers [OF d] by (auto simp: mdoc_identifiers_def set_IssuerSigned_identifiers Some)
      also have "\<dots> \<longleftrightarrow> a \<in> set req" using sat by auto
      finally show "a \<in> ?L \<longleftrightarrow> a \<in> set req" .
    qed
  qed
qed

lemma res_map_in_set: "res_map f xs = Ok ys \<Longrightarrow> y \<in> set ys \<Longrightarrow> \<exists>x\<in>set xs. f x = Ok y"
  unfolding res_map_eq_Ok by (induction rule: list_all2_induct) auto

lemma candidates_exact:
  assumes "candidates_and_missing_attributes stored req challenge = Ok (found, absent)" "pd \<in> set found"
  obtains s where "s \<in> set stored" "try_from_stored_mdoc s req challenge = Ok pd"
    "set req \<subseteq> set (mdoc_identifiers (stm_mdoc s))"
proof -
  from assms(1) have "res_map (\<lambda>s. try_from_stored_mdoc s req challenge)
      (filter (\<lambda>s. missing_attributes_of req s = []) stored) = Ok found"
    by (auto simp: candidates_and_missing_attributes_def Let_def result_simps)
  from res_map_in_set [OF this assms(2)] obtain s where
    "s \<in> set (filter (\<lambda>s. missing_attributes_of req s = []) stored)"
    "try_from_stored_mdoc s req challenge = Ok pd" by blast
  then show thesis using that by (auto simp: missing_empty)
qed

lemma map_of_filter_key: "map_of (filter (\<lambda>(k, _). k \<noteq> x) m) k = (if k = x then None else map_of m k)"
  by (induction m) auto

lemma im_insert_set: "set (im_insert k v m) \<subseteq> insert (k, v) (set m)"
  by (induction m) (auto split: if_splits)

lemma match_stored_mdocs_ConsE:
  assumes "match_stored_mdocs env st req missing cands (stored # rest) = Ok r"
  obtains dt as challenge found absent where "stored \<noteq> []" "map_of req dt = Some as"
    "\<forall>s\<in>set stored. mdoc_doc_type (stm_mdoc s) = dt"
    "device_authentication_to_cbor env (DeviceAuthenticationKeyed_new dt st) = Some challenge"
    "candidates_and_missing_attributes stored as challenge = Ok (found, absent)"
    "match_stored_mdocs env st (filter (\<lambda>(k, _). k \<noteq> dt) req) (missing @ take 1 absent)
      (im_insert dt found cands) rest = Ok r"
proof (cases stored)
  case Nil
  with assms show ?thesis by simp
next
  case (Cons s ss)
  let ?dt = "mdoc_doc_type (stm_mdoc s)"
  from assms Cons obtain as where as: "map_of req ?dt = Some as" by (cases "map_of req ?dt") auto
  from assms Cons as have all: "list_all (\<lambda>s. mdoc_doc_type (stm_mdoc s) = ?dt) stored" by (auto split: if_splits)
  from assms Cons as all obtain ch where
    ch: "device_authentication_to_cbor env (DeviceAuthenticationKeyed_new ?dt st) = Some ch"
    by (cases "device_authentication_to_cbor env (DeviceAuthenticationKeyed_new ?dt st)") auto
  from assms Cons as all ch obtain fa where f: "candidates_and_missing_attributes stored as ch = Ok fa"
    by (cases "candidates_and_missing_attributes stored as ch") auto
  obtain found absent where fa: "fa = (found, absent)" by (cases fa)
  have all': "\<forall>x\<in>set stored. mdoc_doc_type (stm_mdoc x) = ?dt" using all by (simp only: list_all_iff)
  from assms Cons as all ch f fa have rec: "match_stored_mdocs env st (filter (\<lambda>(k, _). k \<noteq> ?dt) req)
      (missing @ take 1 absent) (im_insert ?dt found cands) rest = Ok r" by auto
  have "stored \<noteq> []" using Cons by simp
  from that [OF this as all' ch f [unfolded fa] rec] show ?thesis .
qed

text \<open>What holds of every candidate list holds of the result of the loop.\<close>

lemma match_stored_mdocs_inv:
  assumes "match_stored_mdocs env st req missing cands mss = Ok (req', missing', cands')"
    and "\<And>dt c. (dt, c) \<in> set cands \<Longrightarrow> Q dt c"
    and "\<And>dt as. map_of req dt = Some as \<Longrightarrow> R dt as"
    and "\<And>stored dt as challenge found absent. \<lbrakk>stored \<in> set mss; R dt as; stored \<noteq> [];
        \<forall>s\<in>set stored. mdoc_doc_type (stm_mdoc s) = dt;
        device_authentication_to_cbor env (DeviceAuthenticationKeyed_new dt st) = Some challenge;
        candidates_and_missing_attributes stored as challenge = Ok (found, absent)\<rbrakk> \<Longrightarrow> Q dt found"
    and "(dt, c) \<in> set cands'"
  shows "Q dt c"
  using assms
proof (induction mss arbitrary: req missing cands)
  case Nil
  then show ?case by simp
next
  case (Cons stored rest)
  from Cons.prems(1) obtain dt0 as challenge found absent where
    s: "stored \<noteq> []" "map_of req dt0 = Some as"
    "\<forall>s\<in>set stored. mdoc_doc_type (stm_mdoc s) = dt0"
    "device_authentication_to_cbor env (DeviceAuthenticationKeyed_new dt0 st) = Some challenge"
    "candidates_and_missing_attributes stored as challenge = Ok (found, absent)"
    and rec: "match_stored_mdocs env st (filter (\<lambda>(k, _). k \<noteq> dt0) req) (missing @ take 1 absent)
      (im_insert dt0 found cands) rest = Ok (req', missing', cands')" by (rule match_stored_mdocs_ConsE)
  have q: "Q dt0 found"
    by (rule Cons.prems(4) [OF _ _ s(1,3,4,5)]) (use Cons.prems(3) s(2) in auto)
  show ?case
  proof (rule Cons.IH [OF rec _ _ _ Cons.prems(5)])
    fix dt c assume "(dt, c) \<in> set (im_insert dt0 found cands)"
    then show "Q dt c" using im_insert_set [of dt0 found cands] q Cons.prems(2) by auto
  next
    fix dt as assume "map_of (filter (\<lambda>(k, _). k \<noteq> dt0) req) dt = Some as"
    then show "R dt as" using Cons.prems(3) by (simp add: map_of_filter_key split: if_splits)
  next
    fix stored' dt as challenge found absent
    assume "stored' \<in> set rest" "R dt as" "stored' \<noteq> []" "\<forall>s\<in>set stored'. mdoc_doc_type (stm_mdoc s) = dt"
      "device_authentication_to_cbor env (DeviceAuthenticationKeyed_new dt st) = Some challenge"
      "candidates_and_missing_attributes stored' as challenge = Ok (found, absent)"
    then show "Q dt found" by (intro Cons.prems(4)) auto
  qed
qed

lemma find_eq_self: "x \<in> set xs \<Longrightarrow> List.find (\<lambda>y. y = x) xs = Some x"
  by (induction xs) auto

lemma attributes_by_doc_type_lookup:
  assumes "\<forall>a\<in>set as. ai_doc_type a \<in> set doc_types"
  shows "\<exists>r. attributes_by_doc_type doc_types req as = Ok r \<and>
    (\<forall>dt. map_of r dt = (let l = filter (\<lambda>a. ai_doc_type a = dt) as in if l = [] then map_of req dt
       else Some (foldl (\<lambda>s x. is_insert x s) (case map_of req dt of Some s \<Rightarrow> s | None \<Rightarrow> []) l)))"
  using assms
proof (induction as arbitrary: req)
  case (Cons a as)
  have "List.find (\<lambda>dt. dt = ai_doc_type a) doc_types = Some (ai_doc_type a)"
    using Cons.prems by (simp add: find_eq_self)
  moreover note Cons.IH [of "im_insert (ai_doc_type a)
    (is_insert a (case map_of req (ai_doc_type a) of Some s \<Rightarrow> s | None \<Rightarrow> [])) req"]
  ultimately show ?case using Cons.prems by (fastforce simp: Let_def)
qed simp

lemma requests_doc_types:
  "a \<in> set (requests_attribute_identifiers requests) \<Longrightarrow> ai_doc_type a \<in> set (is_collect (map ir_doc_type requests))"
  by (auto simp: requests_attribute_identifiers_def ItemsRequest_attribute_identifiers_def)

lemma requested_by_doc_type:
  obtains r where "attributes_by_doc_type (is_collect (map ir_doc_type requests)) []
      (requests_attribute_identifiers requests) = Ok r"
    "\<And>dt as. map_of r dt = Some as \<Longrightarrow> as \<noteq> [] \<and>
       set as = {a \<in> set (requests_attribute_identifiers requests). ai_doc_type a = dt}"
    "\<And>dt. map_of r dt = None \<longleftrightarrow> (\<forall>a \<in> set (requests_attribute_identifiers requests). ai_doc_type a \<noteq> dt)"
proof -
  let ?ids = "requests_attribute_identifiers requests"
  obtain r where r: "attributes_by_doc_type (is_collect (map ir_doc_type requests)) [] ?ids = Ok r"
    "\<And>dt. map_of r dt = (let l = filter (\<lambda>a. ai_doc_type a = dt) ?ids in if l = [] then None
       else Some (foldl (\<lambda>s x. is_insert x s) [] l))"
    using attributes_by_doc_type_lookup [of ?ids "is_collect (map ir_doc_type requests)" "[]"] requests_doc_types
    unfolding map_of.simps option.case by blast
  show thesis
  proof (rule that [OF r(1)])
    fix dt as assume a: "map_of r dt = Some as"
    then have "as = is_collect (filter (\<lambda>a. ai_doc_type a = dt) ?ids)" "filter (\<lambda>a. ai_doc_type a = dt) ?ids \<noteq> []"
      unfolding r(2) Let_def is_collect_def by (auto split: if_splits)
    then show "as \<noteq> [] \<and> set as = {a \<in> set ?ids. ai_doc_type a = dt}"
      by (metis set_empty set_filter set_is_collect)
  next
    fix dt show "map_of r dt = None \<longleftrightarrow> (\<forall>a \<in> set ?ids. ai_doc_type a \<noteq> dt)"
      unfolding r(2) Let_def by (auto simp: filter_empty_conv)
  qed
qed

lemma match_stored_mdocs_keys:
  "match_stored_mdocs env st req missing cands mss = Ok (req', missing', cands') \<Longrightarrow>
     fst ` set req \<union> fst ` set cands \<subseteq> fst ` set req' \<union> fst ` set cands'"
proof (induction mss arbitrary: req missing cands)
  case (Cons stored rest)
  from Cons.prems obtain dt as challenge found absent where
    rec: "match_stored_mdocs env st (filter (\<lambda>(k, _). k \<noteq> dt) req) (missing @ take 1 absent)
      (im_insert dt found cands) rest = Ok (req', missing', cands')"
    by (rule match_stored_mdocs_ConsE)
  have "fst ` set req \<union> fst ` set cands \<subseteq>
      fst ` set (filter (\<lambda>(k, _). k \<noteq> dt) req) \<union> fst ` set (im_insert dt found cands)"
    using im_insert_keys [of dt found cands] by force
  also have "\<dots> \<subseteq> fst ` set req' \<union> fst ` set cands'" by (rule Cons.IH [OF rec])
  finally show ?case .
qed simp

lemma DisclosureRequestMatch_CandidatesE:
  assumes "DisclosureRequestMatch_new env requests source st = Ok (Candidates c)"
  obtains stored requested missing where "source (is_collect (map ir_doc_type requests)) = Some stored"
    "attributes_by_doc_type (is_collect (map ir_doc_type requests)) []
      (requests_attribute_identifiers requests) = Ok requested"
    "match_stored_mdocs env st requested [] [] (filter (\<lambda>s. s \<noteq> []) stored) = Ok ([], missing, c)"
    "[] \<notin> set (im_values c)"
proof -
  let ?dts = "is_collect (map ir_doc_type requests)"
  from assms obtain stored where s: "source ?dts = Some stored"
    by (cases "source ?dts") (auto simp: DisclosureRequestMatch_new_def Let_def)
  obtain requested where r: "attributes_by_doc_type ?dts [] (requests_attribute_identifiers requests) = Ok requested"
    by (rule requested_by_doc_type)
  let ?match = "match_stored_mdocs env st requested [] [] (filter (\<lambda>s. s \<noteq> []) stored)"
  from assms s r obtain x where x: "?match = Ok x"
    by (cases ?match) (auto simp: DisclosureRequestMatch_new_def Let_def)
  obtain req' missing c' where x': "x = (req', missing, c')" by (cases x)
  from assms s r x x' have "c' = c" "req' = []" "[] \<notin> set (im_values c)"
    by (auto simp: DisclosureRequestMatch_new_def Let_def list_ex_iff split: if_splits)
  then show thesis using that [OF s r, of missing] x x' by simp
qed

definition source_wf :: "'i mdoc_data_source \<Rightarrow> bool" where
  "source_wf source \<longleftrightarrow> (\<forall>dts mss. source dts = Some mss \<longrightarrow> distinct (map (\<lambda>ms. mdoc_doc_type (stm_mdoc (hd ms))) (filter (\<lambda>s. s \<noteq> []) mss)) \<and>
     (\<forall>ms\<in>set mss. \<forall>s\<in>set ms. mdoc_wf (stm_mdoc s) \<and> mdoc_doc_type (stm_mdoc s) \<in> set dts \<and>
        mdoc_doc_type (stm_mdoc s) = mdoc_doc_type (stm_mdoc (hd ms))))"

text \<open>What a candidate for an answer is, given the attributes requested of its document type.\<close>

definition exact_candidate ::
  "disclosure_env \<Rightarrow> session_transcript \<Rightarrow> attribute_identifier set \<Rightarrow> doc_type \<Rightarrow> 'i proposed_document \<Rightarrow> bool" where
  "exact_candidate env st requested dt pd \<longleftrightarrow> pd_doc_type pd = dt \<and>
     set (IssuerSigned_attribute_identifiers (pd_issuer_signed pd) dt) = {a \<in> requested. ai_doc_type a = dt} \<and>
     device_authentication_to_cbor env (DeviceAuthenticationKeyed_new dt st) = Some (pd_device_signed_challenge pd)"

lemma candidates_exact_all:
  assumes m: "match_stored_mdocs env st requested [] [] (filter (\<lambda>s. s \<noteq> []) stored) = Ok (req', missing, c)"
    and wf: "\<forall>ms\<in>set stored. \<forall>s\<in>set ms. mdoc_wf (stm_mdoc s)"
    and r: "\<And>dt as. map_of requested dt = Some as \<Longrightarrow> set as = {a \<in> ids. ai_doc_type a = dt}"
    and mem: "(dt, cands) \<in> set c" "pd \<in> set cands"
  shows "exact_candidate env st ids dt pd"
proof -
  have "\<forall>pd\<in>set cands. exact_candidate env st ids dt pd"
  proof (rule match_stored_mdocs_inv [OF m, where R = "\<lambda>dt as. set as = {a \<in> ids. ai_doc_type a = dt}" and
      Q = "\<lambda>dt cands. \<forall>pd\<in>set cands. exact_candidate env st ids dt pd"])
    fix ms dt as challenge found absent
    assume a: "ms \<in> set (filter (\<lambda>s. s \<noteq> []) stored)" "set as = {a \<in> ids. ai_doc_type a = dt}" "ms \<noteq> []"
      "\<forall>s\<in>set ms. mdoc_doc_type (stm_mdoc s) = dt"
      "device_authentication_to_cbor env (DeviceAuthenticationKeyed_new dt st) = Some challenge"
      "candidates_and_missing_attributes ms as challenge = Ok (found, absent)"
    show "\<forall>pd\<in>set found. exact_candidate env st ids dt pd"
    proof
      fix pd assume "pd \<in> set found"
      from candidates_exact [OF a(6) this] obtain s where
        s: "s \<in> set ms" "try_from_stored_mdoc s as challenge = Ok pd" "set as \<subseteq> set (mdoc_identifiers (stm_mdoc s))" .
      have "mdoc_wf (stm_mdoc s)" using wf a(1) s(1) by auto
      note e = try_from_stored_mdoc_exact [OF s(2) this s(3)]
      have "pd_doc_type pd = dt" using e(2) a(4) s(1) by simp
      then show "exact_candidate env st ids dt pd" using e(1,3) a(2,5) by (simp add: exact_candidate_def)
    qed
  qed (use r mem in auto)
  then show ?thesis using mem(2) by blast
qed

subsection \<open>No panics\<close>

lemma try_from_stored_no_panic:
  assumes "mdoc_wf (stm_mdoc s)" "set req \<subseteq> set (mdoc_identifiers (stm_mdoc s))" "req \<noteq> []"
  shows "try_from_stored_mdoc s req challenge \<noteq> Panic"
proof (cases "is_name_spaces (mdoc_issuer_signed (stm_mdoc s))")
  case None
  then show ?thesis by (auto simp: try_from_stored_mdoc_def Let_def result_simps)
next
  case (Some ns)
  let ?dt = "mdoc_doc_type (stm_mdoc s)"
  have d: "distinct (map fst ns)" using assms(1) Some by (simp add: mdoc_wf_def)
  obtain a where a: "a \<in> set req" using assms(3) by (cases req) auto
  with assms(2) have "a \<in> set (mdoc_identifiers (stm_mdoc s))" by blast
  then have "\<exists>n items item. (n, items) \<in> set ns \<and> item \<in> set items \<and> a = item_identifier ?dt n item"
    by (auto simp: mdoc_identifiers_def set_IssuerSigned_identifiers Some)
  with a have "\<exists>n items item. (n, items) \<in> set (select_name_spaces ?dt req ns) \<and> item \<in> set items \<and>
      a = item_identifier ?dt n item"
    unfolding select_identifiers [OF d] by blast
  then have "select_name_spaces ?dt req ns \<noteq> []" by auto
  then show ?thesis using Some
    by (auto simp: try_from_stored_mdoc_def Let_def result_simps nonempty_def)
qed

lemma candidates_no_panic:
  assumes "\<forall>s\<in>set stored. mdoc_wf (stm_mdoc s)" "req \<noteq> []"
  shows "candidates_and_missing_attributes stored req challenge \<noteq> Panic"
proof -
  have "res_map (\<lambda>s. try_from_stored_mdoc s req challenge)
      (filter (\<lambda>s. missing_attributes_of req s = []) stored) \<noteq> Panic"
    by (rule res_map_not_Panic) (use assms try_from_stored_no_panic in \<open>auto simp: missing_empty\<close>)
  then show ?thesis by (simp add: candidates_and_missing_attributes_def Let_def result_simps)
qed

lemma match_stored_mdocs_no_panic:
  assumes "\<forall>ms\<in>set mss. ms \<noteq> [] \<and> (\<forall>s\<in>set ms. mdoc_wf (stm_mdoc s) \<and>
      mdoc_doc_type (stm_mdoc s) = mdoc_doc_type (stm_mdoc (hd ms)))"
    and "distinct (map (\<lambda>ms. mdoc_doc_type (stm_mdoc (hd ms))) mss)"
    and "\<forall>ms\<in>set mss. map_of req (mdoc_doc_type (stm_mdoc (hd ms))) \<noteq> None"
    and "\<And>dt as. map_of req dt = Some as \<Longrightarrow> as \<noteq> []"
  shows "match_stored_mdocs env st req missing cands mss \<noteq> Panic"
  using assms
proof (induction mss arbitrary: req missing cands)
  case (Cons stored rest)
  from Cons.prems(1) obtain s ss where stored: "stored = s # ss" by (cases stored) auto
  let ?dt = "mdoc_doc_type (stm_mdoc s)"
  from Cons.prems(3) stored obtain as where as: "map_of req ?dt = Some as" by auto
  have all: "list_all (\<lambda>x. mdoc_doc_type (stm_mdoc x) = ?dt) stored"
    using Cons.prems(1) stored by (simp add: list_all_iff)
  have c: "candidates_and_missing_attributes stored as ch \<noteq> Panic" for ch
    by (rule candidates_no_panic) (use Cons.prems(1,4) as in auto)
  have rec: "match_stored_mdocs env st (filter (\<lambda>(dt, _). dt \<noteq> ?dt) req) m cs rest \<noteq> Panic" for m cs
  proof (rule Cons.IH)
    show "\<forall>ms\<in>set rest. map_of (filter (\<lambda>(dt, _). dt \<noteq> ?dt) req) (mdoc_doc_type (stm_mdoc (hd ms))) \<noteq> None"
    proof
      fix ms assume ms: "ms \<in> set rest"
      then have "mdoc_doc_type (stm_mdoc (hd ms)) \<noteq> ?dt" using Cons.prems(2) stored by (force simp: image_iff)
      then show "map_of (filter (\<lambda>(dt, _). dt \<noteq> ?dt) req) (mdoc_doc_type (stm_mdoc (hd ms))) \<noteq> None"
        using Cons.prems(3) ms by (simp add: map_of_filter_key)
    qed
    fix dt as assume "map_of (filter (\<lambda>(dt, _). dt \<noteq> ?dt) req) dt = Some as"
    then show "as \<noteq> []" using Cons.prems(4) by (simp add: map_of_filter_key split: if_splits)
  next
    show "\<forall>ms\<in>set rest. ms \<noteq> [] \<and> (\<forall>s\<in>set ms. mdoc_wf (stm_mdoc s) \<and>
        mdoc_doc_type (stm_mdoc s) = mdoc_doc_type (stm_mdoc (hd ms)))"
      using Cons.prems(1) by (meson list.set_intros(2))
    show "distinct (map (\<lambda>ms. mdoc_doc_type (stm_mdoc (hd ms))) rest)" using Cons.prems(2) by simp
  qed
  show ?case
  proof (cases "device_authentication_to_cbor env (DeviceAuthenticationKeyed_new ?dt st)")
    case None
    then show ?thesis using stored as all by simp
  next
    case (Some ch)
    then show ?thesis using stored as all c [of ch] rec
      by (cases "candidates_and_missing_attributes stored as ch") auto
  qed
qed simp

section \<open>Properties\<close>

lemma candidates_exact_and_complete:
  assumes m: "DisclosureRequestMatch_new env requests source st = Ok (Candidates c)" and wf: "source_wf source"
  shows "(\<forall>(dt, cands)\<in>set c. cands \<noteq> [] \<and> (\<forall>pd\<in>set cands.
      exact_candidate env st (set (requests_attribute_identifiers requests)) dt pd)) \<and>
    (\<forall>a\<in>set (requests_attribute_identifiers requests). \<exists>cands. (ai_doc_type a, cands) \<in> set c)"
proof -
  obtain stored requested missing where s: "source (is_collect (map ir_doc_type requests)) = Some stored"
    and r: "attributes_by_doc_type (is_collect (map ir_doc_type requests)) []
      (requests_attribute_identifiers requests) = Ok requested"
    and ms: "match_stored_mdocs env st requested [] [] (filter (\<lambda>s. s \<noteq> []) stored) = Ok ([], missing, c)"
    and ne: "[] \<notin> set (im_values c)"
    by (rule DisclosureRequestMatch_CandidatesE [OF m])
  obtain r' where r': "attributes_by_doc_type (is_collect (map ir_doc_type requests)) []
      (requests_attribute_identifiers requests) = Ok r'"
    "\<And>dt as. map_of r' dt = Some as \<Longrightarrow> as \<noteq> [] \<and>
       set as = {a \<in> set (requests_attribute_identifiers requests). ai_doc_type a = dt}"
    "\<And>dt. map_of r' dt = None \<longleftrightarrow> (\<forall>a \<in> set (requests_attribute_identifiers requests). ai_doc_type a \<noteq> dt)"
    by (rule requested_by_doc_type [of requests]) blast
  with r have req: "requested = r'" by simp
  have w: "\<forall>ms\<in>set stored. \<forall>s\<in>set ms. mdoc_wf (stm_mdoc s)" using wf s by (auto simp: source_wf_def)
  have "exact_candidate env st (set (requests_attribute_identifiers requests)) dt pd"
    if "(dt, cands) \<in> set c" "pd \<in> set cands" for dt cands pd
    by (rule candidates_exact_all [OF ms w _ that]) (use r'(2) req in auto)
  moreover have "\<exists>cands. (ai_doc_type a, cands) \<in> set c" if a: "a \<in> set (requests_attribute_identifiers requests)" for a
  proof -
    have "map_of requested (ai_doc_type a) \<noteq> None" using r'(3) a req by blast
    then have "ai_doc_type a \<in> fst ` set requested" by (simp add: map_of_eq_None_iff)
    then have "ai_doc_type a \<in> fst ` set c" using match_stored_mdocs_keys [OF ms] by auto
    then show ?thesis by auto
  qed
  moreover have "cands \<noteq> []" if "(dt, cands) \<in> set c" for dt cands using ne that by force
  ultimately show ?thesis by blast
qed

text \<open>
  C17: Where a request can be answered, every proposed document discloses exactly the attributes that
  are requested of its document type, no more and no fewer, is bound to the session by its challenge, and
  every requested attribute has a candidate.
\<close>

theorem candidates_disclose_exactly_the_request:
  assumes m: "DisclosureRequestMatch_new env requests source st = Ok (Candidates c)" and wf: "source_wf source"
  shows "(\<forall>(dt, cands)\<in>set c. cands \<noteq> [] \<and> (\<forall>pd\<in>set cands.
      pd_doc_type pd = dt \<and>
      set (IssuerSigned_attribute_identifiers (pd_issuer_signed pd) dt) =
        {a \<in> set (requests_attribute_identifiers requests). ai_doc_type a = dt} \<and>
      device_authentication_to_cbor env (DeviceAuthenticationKeyed_new dt st) = Some (pd_device_signed_challenge pd))) \<and>
    (\<forall>a\<in>set (requests_attribute_identifiers requests). \<exists>cands. (ai_doc_type a, cands) \<in> set c)"
  using candidates_exact_and_complete [OF assms] unfolding exact_candidate_def .

text \<open>A wallet with the mdoc of the earlier example, for examples.\<close>

definition demo_registration :: reader_registration where
  "demo_registration = \<lparr>rr_attributes = [(''pid'', [(''ns'', [''a'', ''b''])])], rr_request_origin_base_url = ''https'',
     rr_organization = ''org''\<rparr>"

definition demo_disclosure_env :: disclosure_env where
  "demo_disclosure_env = \<lparr>de_mdoc = demo_mdoc_env,
     device_authentication_to_cbor = (\<lambda>da. Some (as_bytes (da_doc_type da))),
     reader_authentication_to_cbor = (\<lambda>ra. Some (as_bytes (ir_doc_type (ra_items_request_bytes ra)))),
     transcript_to_cbor = (\<lambda>_. Some []), value_from_cbor = (\<lambda>_. Some CNull), utf8_string_from_der = (\<lambda>_. Some []),
     registration_from_json = (\<lambda>_. Some demo_registration), issuer_registration_from_json = (\<lambda>_. None)\<rparr>"

definition demo_item_a :: issuer_signed_item where
  "demo_item_a = \<lparr>isi_digest_id = 0, isi_random = [], isi_element_identifier = ''a'', isi_element_value = CBool True\<rparr>"

definition demo_item_b :: issuer_signed_item where
  "demo_item_b = \<lparr>isi_digest_id = 1, isi_random = [], isi_element_identifier = ''b'', isi_element_value = CInteger 7\<rparr>"

definition demo_issuer_auth :: cose_sign1 where
  "demo_issuer_auth = \<lparr>cs_signature = [9, 1], cs_payload = Some [1], cs_protected = protected_header,
     cs_unprotected = new_certificate_header [9]\<rparr>"

definition demo_mdoc :: mdoc where
  "demo_mdoc = \<lparr>mdoc_doc_type = ''pid'', mdoc_private_key_id = ''key'',
     mdoc_issuer_signed = \<lparr>is_name_spaces = Some [(''ns'', [demo_item_a, demo_item_b])],
       is_issuer_auth = demo_issuer_auth\<rparr>, mdoc_key_type = Remote\<rparr>"

definition demo_source :: "nat mdoc_data_source" where
  "demo_source = (\<lambda>dts. Some (if ''pid'' \<in> set dts then [[\<lparr>stm_id = 0, stm_mdoc = demo_mdoc\<rparr>]] else []))"

definition demo_request :: "(string \<times> bool) list \<Rightarrow> items_request" where
  "demo_request names = \<lparr>ir_doc_type = ''pid'', ir_name_spaces = [(''ns'', names)], ir_request_info = None\<rparr>"

definition demo_transcript :: session_transcript where
  "demo_transcript = \<lparr>st_device_engagement_bytes = None, st_ereader_key_bytes = None, st_handover = QrHandover\<rparr>"

lemma demo_source_wf: "source_wf demo_source"
  by (simp add: source_wf_def demo_source_def mdoc_wf_def demo_mdoc_def)

lemma demo_signing_cert: "signing_cert demo_issuer_auth = Ok [9]"
  by (simp add: demo_issuer_auth_def)

definition demo_proposed :: "nat proposed_document" where
  "demo_proposed = \<lparr>pd_source_identifier = 0, pd_private_key_id = ''key'', pd_doc_type = ''pid'',
     pd_issuer_signed = \<lparr>is_name_spaces = Some [(''ns'', [demo_item_b])], is_issuer_auth = demo_issuer_auth\<rparr>,
     pd_device_signed_challenge = as_bytes ''pid'', pd_issuer_certificate = [9]\<rparr>"

lemma demo_match:
  "DisclosureRequestMatch_new demo_disclosure_env [demo_request [(''b'', False)]] demo_source st =
     Ok (Candidates [(''pid'', [demo_proposed])])"
  by (simp add: DisclosureRequestMatch_new_def demo_request_def demo_source_def is_collect_def is_insert_def
      requests_attribute_identifiers_def ItemsRequest_attribute_identifiers_def demo_mdoc_def demo_item_a_def
      demo_item_b_def demo_disclosure_env_def DeviceAuthenticationKeyed_new_def demo_proposed_def
      candidates_and_missing_attributes_def missing_attributes_of_def mdoc_identifiers_def
      IssuerSigned_attribute_identifiers_def try_from_stored_mdoc_def select_name_spaces_def nonempty_def
      im_collect_def demo_signing_cert List.map_filter_def)

theorem candidates_disclose_exactly_the_request_witness:
  "\<exists>c. DisclosureRequestMatch_new demo_disclosure_env [demo_request [(''b'', False)]] demo_source demo_transcript =
      Ok (Candidates c) \<and> c = [(''pid'', [demo_proposed])] \<and>
      set (IssuerSigned_attribute_identifiers (pd_issuer_signed demo_proposed) ''pid'') =
        {\<lparr>ai_doc_type = ''pid'', ai_namespace = ''ns'', ai_attribute = ''b''\<rparr>}"
proof -
  have "set (IssuerSigned_attribute_identifiers (pd_issuer_signed demo_proposed) ''pid'') =
      {a \<in> set (requests_attribute_identifiers [demo_request [(''b'', False)]]). ai_doc_type a = ''pid''}"
    using candidates_disclose_exactly_the_request [OF demo_match demo_source_wf] by simp
  also have "\<dots> = {\<lparr>ai_doc_type = ''pid'', ai_namespace = ''ns'', ai_attribute = ''b''\<rparr>}"
    by (auto simp: requests_attribute_identifiers_def ItemsRequest_attribute_identifiers_def demo_request_def)
  finally show ?thesis using demo_match by blast
qed

text \<open>
  Matching never panics on a request in which every document type is asked at least one attribute,
  as long as the store keeps its contract: mdocs grouped by distinct requested document types.
\<close>

theorem matching_does_not_panic:
  assumes wf: "source_wf source" and attrs: "\<forall>r\<in>set requests. ItemsRequest_attribute_identifiers r \<noteq> []"
  shows "DisclosureRequestMatch_new env requests source st \<noteq> Panic"
proof (cases "source (is_collect (map ir_doc_type requests))")
  case None
  then show ?thesis by (simp add: DisclosureRequestMatch_new_def)
next
  case (Some stored)
  let ?ids = "requests_attribute_identifiers requests"
  obtain r where r: "attributes_by_doc_type (is_collect (map ir_doc_type requests)) [] ?ids = Ok r"
    "\<And>dt as. map_of r dt = Some as \<Longrightarrow> as \<noteq> [] \<and> set as = {a \<in> set ?ids. ai_doc_type a = dt}"
    "\<And>dt. map_of r dt = None \<longleftrightarrow> (\<forall>a \<in> set ?ids. ai_doc_type a \<noteq> dt)"
    by (rule requested_by_doc_type [of requests]) blast
  let ?mss = "filter (\<lambda>s. s \<noteq> []) stored"
  have w1: "distinct (map (\<lambda>ms. mdoc_doc_type (stm_mdoc (hd ms))) ?mss)"
    using wf Some unfolding source_wf_def by blast
  have w2: "mdoc_wf (stm_mdoc s) \<and> mdoc_doc_type (stm_mdoc s) = mdoc_doc_type (stm_mdoc (hd ms)) \<and>
      mdoc_doc_type (stm_mdoc s) \<in> set (is_collect (map ir_doc_type requests))" if "ms \<in> set ?mss" "s \<in> set ms" for ms s
    using wf Some that unfolding source_wf_def set_filter by blast
  have "match_stored_mdocs env st r [] [] ?mss \<noteq> Panic"
  proof (rule match_stored_mdocs_no_panic)
    show "\<forall>ms\<in>set ?mss. ms \<noteq> [] \<and> (\<forall>s\<in>set ms. mdoc_wf (stm_mdoc s) \<and>
        mdoc_doc_type (stm_mdoc s) = mdoc_doc_type (stm_mdoc (hd ms)))"
      using w2 unfolding set_filter by blast
    show "distinct (map (\<lambda>ms. mdoc_doc_type (stm_mdoc (hd ms))) ?mss)" by (rule w1)
    show "\<forall>ms\<in>set ?mss. map_of r (mdoc_doc_type (stm_mdoc (hd ms))) \<noteq> None"
    proof
      fix ms assume ms: "ms \<in> set ?mss"
      then have "hd ms \<in> set ms" by simp
      from w2 [OF ms this] have "mdoc_doc_type (stm_mdoc (hd ms)) \<in> set (is_collect (map ir_doc_type requests))"
        by blast
      then obtain q where q: "q \<in> set requests" "ir_doc_type q = mdoc_doc_type (stm_mdoc (hd ms))" by auto
      with attrs obtain a where "a \<in> set (ItemsRequest_attribute_identifiers q)"
        by (cases "ItemsRequest_attribute_identifiers q") auto
      moreover from this have "ai_doc_type a = ir_doc_type q" by (auto simp: ItemsRequest_attribute_identifiers_def)
      ultimately have "a \<in> set ?ids" "ai_doc_type a = mdoc_doc_type (stm_mdoc (hd ms))"
        using q by (auto simp: requests_attribute_identifiers_def)
      then show "map_of r (mdoc_doc_type (stm_mdoc (hd ms))) \<noteq> None" using r(3) by blast
    qed
  qed (use r(2) in blast)
  then show ?thesis using Some r(1)
    by (cases "match_stored_mdocs env st r [] [] ?mss")
      (auto simp: DisclosureRequestMatch_new_def Let_def split: if_splits)
qed

theorem matching_does_not_panic_witness:
  "DisclosureRequestMatch_new demo_disclosure_env [demo_request [(''b'', False)]] demo_source demo_transcript \<noteq> Panic"
  by (rule matching_does_not_panic [OF demo_source_wf])
    (simp add: demo_request_def ItemsRequest_attribute_identifiers_def is_collect_def is_insert_def)



end
