(* ===== verification/Presentation.thy ===== *)
theory Presentation
  imports Disclosure
begin

text \<open>
  Holder and verifier together: what a verified response shows, and that the responses the
  wallet builds for a request (\<open>mdoc/src/holder/disclosure\<close>) are accepted by the checks of
  \<open>mdoc/src/verifier.rs\<close>.
\<close>

section \<open>Verified responses\<close>

lemma Document_verify_Ok:
  "Document_verify env doc eph st time anchors = Ok (dt, dda) \<longleftrightarrow>
     dt = doc_doc_type doc \<and> (\<exists>mso stb dab key.
       IssuerSigned_verify (de_mdoc env) (doc_issuer_signed doc) Valid time anchors = Ok (dda, mso) \<and>
       mso_doc_type mso = dt \<and> transcript_to_cbor env st = Some stb \<and>
       device_authentication_to_cbor env (DeviceAuthenticationKeyed_new dt st) = Some dab \<and>
       VerifyingKey_try_from (de_crypto env) (dki_device_key (mso_device_key_info mso)) = Ok key \<and>
       verify_device_auth env (ds_device_auth (doc_device_signed doc)) key eph stb dab = Ok ())"
    (is "?L = ?R")
proof
  show "?L \<Longrightarrow> ?R" by (auto simp: Document_verify_def result_simps split: if_splits)
  show "?R \<Longrightarrow> ?L" by (elim exE conjE) (simp add: Document_verify_def)
qed

lemma verify_documents_Cons:
  "verify_documents env (doc # docs) eph st time anchors attrs = Ok r \<longleftrightarrow>
     (\<exists>dda. Document_verify env doc eph st time anchors = Ok (doc_doc_type doc, dda) \<and>
        verify_documents env docs eph st (\<lambda>k. time (k + 2)) anchors (im_insert (doc_doc_type doc) dda attrs) = Ok r)"
proof (cases "Document_verify env doc eph st time anchors")
  case (Ok x)
  obtain dt dda where x: "x = (dt, dda)" by (cases x)
  have "dt = doc_doc_type doc" using Ok x by (simp add: Document_verify_Ok)
  then show ?thesis using Ok x by simp
qed auto

text \<open>Every disclosed document stems from a document of the response that was verified.\<close>

definition document_backs ::
  "disclosure_env \<Rightarrow> secret_key option \<Rightarrow> session_transcript \<Rightarrow> trust_anchor list \<Rightarrow> document
     \<Rightarrow> document_disclosed_attributes \<Rightarrow> bool" where
  "document_backs env eph st anchors doc dda \<longleftrightarrow>
     (\<exists>time. Document_verify env doc eph st time anchors = Ok (doc_doc_type doc, dda))"

lemma verify_documents_backed:
  assumes "verify_documents env docs eph st time anchors attrs = Ok r"
    and "\<And>dt dda. (dt, dda) \<in> set attrs \<Longrightarrow> P dt dda"
    and "\<And>doc dda. doc \<in> set docs \<Longrightarrow> document_backs env eph st anchors doc dda \<Longrightarrow> P (doc_doc_type doc) dda"
  shows "(dt, dda) \<in> set r \<Longrightarrow> P dt dda"
  using assms
proof (induction docs arbitrary: time attrs)
  case Nil
  then show ?case by simp
next
  case (Cons doc docs)
  from Cons.prems(2) obtain dda0 where d: "Document_verify env doc eph st time anchors = Ok (doc_doc_type doc, dda0)"
    and rec: "verify_documents env docs eph st (\<lambda>k. time (k + 2)) anchors (im_insert (doc_doc_type doc) dda0 attrs) = Ok r"
    unfolding verify_documents_Cons by blast
  have "P (doc_doc_type doc) dda0" by (rule Cons.prems(4)) (use d in \<open>auto simp: document_backs_def\<close>)
  then show ?case
    by (intro Cons.IH [OF Cons.prems(1) rec]) (use Cons.prems(3,4) im_insert_set [of "doc_doc_type doc" dda0 attrs] in auto)
qed

lemma verify_documents_last:
  assumes "verify_documents env docs eph st time anchors attrs = Ok r" "distinct (map doc_doc_type docs)"
    "doc \<in> set docs"
  shows "\<exists>dda. map_of r (doc_doc_type doc) = Some dda \<and> document_backs env eph st anchors doc dda"
proof -
  have other: "verify_documents env docs eph st time anchors attrs = Ok r \<Longrightarrow> dt \<notin> doc_doc_type ` set docs \<Longrightarrow>
      map_of r dt = map_of attrs dt" for docs time attrs dt
    by (induction docs arbitrary: time attrs) (auto simp: verify_documents_Cons simp del: verify_documents.simps(2))
  from assms show ?thesis
  proof (induction docs arbitrary: time attrs)
    case (Cons d docs)
    from Cons.prems(1) obtain dda0 where d: "Document_verify env d eph st time anchors = Ok (doc_doc_type d, dda0)"
      and rec: "verify_documents env docs eph st (\<lambda>k. time (k + 2)) anchors (im_insert (doc_doc_type d) dda0 attrs) = Ok r"
      unfolding verify_documents_Cons by blast
    show ?case
    proof (cases "doc = d")
      case True
      have "map_of r (doc_doc_type d) = Some dda0"
        using other [OF rec, of "doc_doc_type d"] Cons.prems(2) by simp
      then show ?thesis using True d by (auto simp: document_backs_def)
    next
      case False
      then show ?thesis using Cons.IH [OF rec] Cons.prems(2,3) by simp
    qed
  qed simp
qed

lemma DeviceResponse_verify_Ok:
  "DeviceResponse_verify env resp eph st time anchors = Ok r \<longleftrightarrow>
     dr_document_errors resp = None \<and> dr_status resp = 0 \<and>
     (\<exists>docs. dr_documents resp = Some docs \<and> verify_documents env docs eph st time anchors [] = Ok r)"
  by (auto simp: DeviceResponse_verify_def split: option.splits)

lemma match_against_response_Ok:
  "match_against_response requests resp = Ok () \<longleftrightarrow> (\<forall>q\<in>set requests.
     case Option.bind (dr_documents resp) (List.find (\<lambda>doc. doc_doc_type doc = ir_doc_type q)) of
       None \<Rightarrow> ItemsRequest_attribute_identifiers q = []
     | Some doc \<Rightarrow> set (ItemsRequest_attribute_identifiers q) \<subseteq> set (document_identifiers doc))"
proof -
  have e: "(match_against_issuer_signed q doc = []) = (set (ItemsRequest_attribute_identifiers q) \<subseteq> set (document_identifiers doc))"
    for q doc by (auto simp: match_against_issuer_signed_def filter_empty_conv)
  show ?thesis
    unfolding match_against_response_def Let_def if_split_eq1
    by (auto simp: e split: option.splits)
qed

text \<open>
  C6: Every document a verified response discloses has its attributes from an issuer-signed part that
  verifies now against the trust anchors, and proves possession of the key in it: the device signature,
  or the MAC under the shared key, covers this session transcript and the document type.
\<close>

theorem disclosed_documents_are_bound:
  assumes v: "DeviceResponse_verify env resp eph st time anchors = Ok attrs" and m: "(dt, dda) \<in> set attrs"
  shows "\<exists>docs doc mso key clock dab. dr_documents resp = Some docs \<and> doc \<in> set docs \<and> doc_doc_type doc = dt \<and>
    IssuerSigned_verify (de_mdoc env) (doc_issuer_signed doc) Valid clock anchors = Ok (dda, mso) \<and>
    mso_doc_type mso = dt \<and>
    VerifyingKey_try_from (de_crypto env) (dki_device_key (mso_device_key_info mso)) = Ok key \<and>
    device_authentication_to_cbor env (DeviceAuthenticationKeyed_new dt st) = Some dab \<and>
    (case ds_device_auth (doc_device_signed doc) of
       DeviceSignature sig \<Rightarrow> CoseSign1_verify (de_crypto env) (sign1_with_payload sig dab) key = Ok ()
     | DeviceMac mac \<Rightarrow> \<exists>secret salt mac_key. eph = Some secret \<and> transcript_to_cbor env st = Some salt \<and>
         dh_hmac_key (de_crypto env) secret key salt ''EMacKey'' 32 = Ok mac_key \<and>
         CoseMac0_verify (de_crypto env) (mac0_with_payload mac dab) mac_key = Ok ())"
proof -
  from v obtain docs where docs: "dr_documents resp = Some docs"
    "verify_documents env docs eph st time anchors [] = Ok attrs" by (auto simp: DeviceResponse_verify_Ok)
  have "\<exists>doc\<in>set docs. doc_doc_type doc = dt \<and> document_backs env eph st anchors doc dda"
    by (rule verify_documents_backed [OF docs(2) _ _ m]) auto
  then obtain doc clock where d: "doc \<in> set docs" "doc_doc_type doc = dt"
    "Document_verify env doc eph st clock anchors = Ok (dt, dda)" by (auto simp: document_backs_def)
  from d(3) obtain mso stb dab key where x:
    "IssuerSigned_verify (de_mdoc env) (doc_issuer_signed doc) Valid clock anchors = Ok (dda, mso)"
    "mso_doc_type mso = dt" "transcript_to_cbor env st = Some stb"
    "device_authentication_to_cbor env (DeviceAuthenticationKeyed_new dt st) = Some dab"
    "VerifyingKey_try_from (de_crypto env) (dki_device_key (mso_device_key_info mso)) = Ok key"
    "verify_device_auth env (ds_device_auth (doc_device_signed doc)) key eph stb dab = Ok ()"
    by (auto simp: Document_verify_Ok)
  have "case ds_device_auth (doc_device_signed doc) of
       DeviceSignature sig \<Rightarrow> CoseSign1_verify (de_crypto env) (sign1_with_payload sig dab) key = Ok ()
     | DeviceMac mac \<Rightarrow> \<exists>secret salt mac_key. eph = Some secret \<and> transcript_to_cbor env st = Some salt \<and>
         dh_hmac_key (de_crypto env) secret key salt ''EMacKey'' 32 = Ok mac_key \<and>
         CoseMac0_verify (de_crypto env) (mac0_with_payload mac dab) mac_key = Ok ()"
    using x(3,6) by (auto simp: verify_device_auth_def result_simps split: device_auth.splits)
  with docs(1) d(1,2) x show ?thesis by blast
qed

text \<open>Documents of the example mdoc, signed with its key, for examples.\<close>

definition demo_document :: "issuer_signed_item list \<Rightarrow> document" where
  "demo_document items = \<lparr>doc_doc_type = ''pid'',
     doc_issuer_signed = \<lparr>is_name_spaces = Some [(''ns'', items)], is_issuer_auth = demo_issuer_auth\<rparr>,
     doc_device_signed = \<lparr>ds_name_spaces = [], ds_device_auth = DeviceSignature
       \<lparr>cs_signature = demo_device_key @ as_bytes ''pid'', cs_payload = None, cs_protected = protected_header,
        cs_unprotected = header_default\<rparr>\<rparr>, doc_errors = None\<rparr>"

definition demo_dda :: "issuer_signed_item list \<Rightarrow> document_disclosed_attributes" where
  "demo_dda items = \<lparr>dda_attributes = [(''ns'', map item_entry items)], dda_issuer = [''issuer''],
     dda_validity_info = mso_validity_info demo_mso\<rparr>"

lemma demo_issuer_signed_verify:
  assumes "set items \<subseteq> {demo_item_a, demo_item_b}" "0 \<le> time 1" "time 1 \<le> 5"
  shows "IssuerSigned_verify demo_mdoc_env \<lparr>is_name_spaces = Some [(''ns'', items)], is_issuer_auth = demo_issuer_auth\<rparr>
    Valid time [[9]] = Ok (demo_dda items, demo_mso)"
proof -
  have a: "verify_against_trust_anchors demo_crypto (mso_from_cbor demo_mdoc_env) demo_issuer_auth Mdl (time 0) [[9]] = Ok demo_mso"
    by (simp add: verify_against_trust_anchors_def demo_signing_cert Certificate_verify_def demo_crypto_def
        Certificate_public_key_def verify_and_parse_def cose_parse_unverified_def CoseSign1_verify_def
        demo_issuer_auth_def demo_mdoc_env_def)
  have "verify_is_valid_at demo_mdoc_env (mso_validity_info demo_mso) (time 1) Valid = Ok ()"
    using assms(2,3) by (simp add: verify_is_valid_at_def demo_mdoc_env_def demo_mso_def)
  moreover have "name_spaces_verified demo_mdoc_env demo_mso [(''ns'', items)]"
  proof -
    have "verify_attr_digest demo_mdoc_env demo_mso ''ns'' demo_item_a = Ok ()"
      "verify_attr_digest demo_mdoc_env demo_mso ''ns'' demo_item_b = Ok ()"
      by (simp_all add: verify_attr_digest_def demo_mso_def demo_item_a_def demo_item_b_def cbor_digest_def
          demo_mdoc_env_def demo_crypto_def)
    then have "\<forall>item\<in>set items. verify_attr_digest demo_mdoc_env demo_mso ''ns'' item = Ok ()"
      using assms(1) by blast
    then show ?thesis by (simp add: name_spaces_verified_def)
  qed
  moreover have "iter_common_name demo_crypto [9] = Ok [''issuer'']"
    by (simp add: iter_common_name_def demo_crypto_def)
  moreover have "me_crypto demo_mdoc_env = demo_crypto" by (simp add: demo_mdoc_env_def)
  ultimately show ?thesis unfolding IssuerSigned_verify_Ok using a
    by (simp add: demo_signing_cert demo_dda_def name_spaces_entries_def attributes_entries_def im_collect_def)
qed

lemma demo_crypto_of [simp]: "me_crypto demo_mdoc_env = demo_crypto" "de_mdoc demo_disclosure_env = demo_mdoc_env"
  by (simp_all add: demo_disclosure_env_def demo_mdoc_env_def)

lemma demo_device_key: "VerifyingKey_try_from demo_crypto (dki_device_key (mso_device_key_info demo_mso)) = Ok demo_device_key"
  by (simp add: VerifyingKey_try_from_def demo_mso_def DeviceKeyInfo_from_def demo_cose_key_def field_bytes_def
      demo_crypto_def demo_device_key_def flip: replicate_add)

lemma demo_document_verify:
  assumes "set items \<subseteq> {demo_item_a, demo_item_b}" "0 \<le> time 1" "time 1 \<le> 5"
  shows "Document_verify demo_disclosure_env (demo_document items) eph st time [[9]] = Ok (''pid'', demo_dda items)"
proof -
  have "mso_doc_type demo_mso = ''pid''" by (simp add: demo_mso_def)
  moreover have "CoseSign1_verify demo_crypto (sign1_with_payload
      \<lparr>cs_signature = demo_device_key @ as_bytes ''pid'', cs_payload = None, cs_protected = protected_header,
        cs_unprotected = header_default\<rparr> (as_bytes ''pid'')) demo_device_key = Ok ()"
    by (simp add: CoseSign1_verify_def sign1_with_payload_def demo_crypto_def)
  moreover have "transcript_to_cbor demo_disclosure_env st = Some []"
    "device_authentication_to_cbor demo_disclosure_env (DeviceAuthenticationKeyed_new ''pid'' st) = Some (as_bytes ''pid'')"
    by (simp_all add: demo_disclosure_env_def DeviceAuthenticationKeyed_new_def)
  ultimately show ?thesis
    using demo_issuer_signed_verify [of items time, OF assms] demo_device_key
    by (simp add: Document_verify_def demo_document_def verify_device_auth_def)
qed

definition demo_response :: "document list \<Rightarrow> device_response" where
  "demo_response docs = \<lparr>dr_documents = Some docs, dr_document_errors = None, dr_status = 0\<rparr>"

lemma demo_response_one:
  "DeviceResponse_verify demo_disclosure_env (demo_response [demo_document [demo_item_b]]) None st (\<lambda>_. 5) [[9]] =
     Ok [(''pid'', demo_dda [demo_item_b])]"
  by (simp add: DeviceResponse_verify_def demo_response_def demo_document_verify)

theorem disclosed_documents_are_bound_witness:
  "\<exists>clock mso. IssuerSigned_verify demo_mdoc_env (doc_issuer_signed (demo_document [demo_item_b])) Valid clock [[9]] =
     Ok (demo_dda [demo_item_b], mso)"
  using disclosed_documents_are_bound [OF demo_response_one [of demo_transcript], of "''pid''" "demo_dda [demo_item_b]"]
  by (auto simp: demo_response_def)

text \<open>
  C22: When the documents of a response have distinct document types, a response that is verified and
  matches the request discloses every requested attribute.
\<close>

theorem matched_response_is_complete:
  assumes v: "DeviceResponse_verify env resp eph st time anchors = Ok attrs"
    and m: "match_against_response requests resp = Ok ()"
    and d: "dr_documents resp = Some docs" "distinct (map doc_doc_type docs)"
    and ns: "\<And>doc ns. doc \<in> set docs \<Longrightarrow> is_name_spaces (doc_issuer_signed doc) = Some ns \<Longrightarrow> distinct (map fst ns)"
    and a: "q \<in> set requests" "a \<in> set (ItemsRequest_attribute_identifiers q)"
  shows "\<exists>dda es e. map_of attrs (ai_doc_type a) = Some dda \<and> (ai_namespace a, es) \<in> set (dda_attributes dda) \<and>
    e \<in> set es \<and> entry_name e = ai_attribute a"
proof -
  have dt: "ai_doc_type a = ir_doc_type q" using a(2) by (auto simp: ItemsRequest_attribute_identifiers_def)
  have "case List.find (\<lambda>doc. doc_doc_type doc = ir_doc_type q) docs of
       None \<Rightarrow> ItemsRequest_attribute_identifiers q = []
     | Some doc \<Rightarrow> set (ItemsRequest_attribute_identifiers q) \<subseteq> set (document_identifiers doc)"
    using m a(1) d(1) unfolding match_against_response_Ok by fastforce
  then obtain doc where doc: "List.find (\<lambda>doc. doc_doc_type doc = ir_doc_type q) docs = Some doc"
    "a \<in> set (document_identifiers doc)" using a(2) by (auto split: option.splits)
  have dd: "doc \<in> set docs" "doc_doc_type doc = ai_doc_type a" using doc(1) dt by (auto simp: find_Some_iff)
  have "verify_documents env docs eph st time anchors [] = Ok attrs" using v d(1) by (simp add: DeviceResponse_verify_Ok)
  from verify_documents_last [OF this d(2) dd(1)] obtain dda clock where dda: "map_of attrs (doc_doc_type doc) = Some dda"
    "Document_verify env doc eph st clock anchors = Ok (doc_doc_type doc, dda)" by (auto simp: document_backs_def)
  from dda(2) have "dda_attributes dda = name_spaces_entries (is_name_spaces (doc_issuer_signed doc))"
    by (auto simp: Document_verify_Ok IssuerSigned_verify_Ok)
  moreover from doc(2) obtain ns items item where n: "is_name_spaces (doc_issuer_signed doc) = Some ns"
    "(ai_namespace a, items) \<in> set ns" "item \<in> set items" "ai_attribute a = isi_element_identifier item"
    by (auto simp: document_identifiers_def set_IssuerSigned_identifiers split: option.splits)
  moreover have "name_spaces_entries (Some ns) = map (\<lambda>(n, items). (n, map item_entry items)) ns"
    by (rule name_spaces_entries_distinct [OF ns [OF dd(1) n(1)]])
  ultimately have "(ai_namespace a, map item_entry items) \<in> set (dda_attributes dda)" by force
  then show ?thesis using dda(1) dd(2) n(3,4) by (fastforce simp: item_entry_def)
qed

lemma demo_match_response:
  "match_against_response [demo_request [(''b'', False)]] (demo_response (demo_document [demo_item_a, demo_item_b] # docs)) = Ok ()"
  by (simp add: match_against_response_def demo_response_def demo_request_def demo_document_def
      match_against_issuer_signed_def ItemsRequest_attribute_identifiers_def document_identifiers_def
      IssuerSigned_attribute_identifiers_def demo_item_b_def is_collect_def is_insert_def)

theorem matched_response_is_complete_witness:
  "\<exists>attrs dda es e. DeviceResponse_verify demo_disclosure_env (demo_response [demo_document [demo_item_a, demo_item_b]])
      None demo_transcript (\<lambda>_. 5) [[9]] = Ok attrs \<and> map_of attrs ''pid'' = Some dda \<and>
    (''ns'', es) \<in> set (dda_attributes dda) \<and> e \<in> set es \<and> entry_name e = ''b''"
proof -
  have v: "DeviceResponse_verify demo_disclosure_env (demo_response [demo_document [demo_item_a, demo_item_b]])
      None demo_transcript (\<lambda>_. 5) [[9]] = Ok [(''pid'', demo_dda [demo_item_a, demo_item_b])]"
    by (simp add: DeviceResponse_verify_def demo_response_def demo_document_verify)
  have a: "\<lparr>ai_doc_type = ''pid'', ai_namespace = ''ns'', ai_attribute = ''b''\<rparr> \<in>
      set (ItemsRequest_attribute_identifiers (demo_request [(''b'', False)]))"
    by (simp add: ItemsRequest_attribute_identifiers_def demo_request_def)
  have d: "dr_documents (demo_response [demo_document [demo_item_a, demo_item_b]]) = Some [demo_document [demo_item_a, demo_item_b]]"
    by (simp add: demo_response_def)
  have ns: "distinct (map fst ns)"
    if "doc \<in> set [demo_document [demo_item_a, demo_item_b]]" "is_name_spaces (doc_issuer_signed doc) = Some ns" for doc ns
    using that by (auto simp: demo_document_def)
  have "\<exists>dda es e. map_of [(''pid'', demo_dda [demo_item_a, demo_item_b])] ''pid'' = Some dda \<and>
      (''ns'', es) \<in> set (dda_attributes dda) \<and> e \<in> set es \<and> entry_name e = ''b''"
    using matched_response_is_complete [OF v demo_match_response d _ ns _ a] by simp
  then show ?thesis using v by blast
qed



section \<open>The wallet's answer is accepted\<close>

text \<open>
  What a key factory promises for its keys: it answers every message with a signature of each
  key it is asked for, and the signatures verify.
\<close>

definition factory_signs :: "crypto \<Rightarrow> key_factory \<Rightarrow> (string \<times> verifying_key) set \<Rightarrow> bool" where
  "factory_signs c factory keys \<longleftrightarrow> (\<forall>msgs. (\<forall>(m, ks)\<in>set msgs. set ks \<subseteq> keys) \<longrightarrow>
     (\<exists>sigs. factory msgs = Some sigs \<and> list_all2 (\<lambda>(m, ks) ss. list_all2 (\<lambda>k s.
        \<exists>s'. signature_try_from c s = Some s' \<and> p256_verify c (snd k) m s') ks ss) msgs sigs))"

lemma sign_coses_verify:
  assumes f: "factory_signs c factory keys" and k: "fst ` set kcs \<subseteq> keys"
  shows "\<exists>coses. sign_coses c kcs factory h False = Ok coses \<and>
    list_all2 (\<lambda>(k, ch) cose. CoseSign1_verify c (sign1_with_payload cose ch) (snd k) = Ok ()) kcs coses"
proof -
  let ?msgs = "map (\<lambda>(k, ch). (sig_structure_data c protected_header ch, [k])) kcs"
  have zip: "map (\<lambda>(key, sig_data). (sig_data, [key])) (zip (map fst kcs)
      (map (sig_structure_data c protected_header) (map snd kcs))) = ?msgs"
    by (induction kcs) auto
  have "\<forall>(m, ks)\<in>set ?msgs. set ks \<subseteq> keys" using k by auto
  with f obtain sigs where sigs: "factory ?msgs = Some sigs"
    "list_all2 (\<lambda>(m, ks) ss. list_all2 (\<lambda>k s. \<exists>s'. signature_try_from c s = Some s' \<and> p256_verify c (snd k) m s') ks ss) ?msgs sigs"
    unfolding factory_signs_def by blast
  let ?cose = "\<lambda>(signature, payload).
     res_bind (ok_or (case signature of [] \<Rightarrow> None | s # _ \<Rightarrow> Some s) SignatureMissing) (\<lambda>s.
       Ok \<lparr>cs_signature = s, cs_payload = (if False then Some payload else None),
           cs_protected = protected_header, cs_unprotected = h\<rparr>)"
  have "list_all2 (\<lambda>(k, ch) ss. \<exists>s s'. ss = [s] \<and> signature_try_from c s = Some s' \<and>
      p256_verify c (snd k) (sig_structure_data c protected_header ch) s') kcs sigs"
    using sigs(2) unfolding list_all2_map1
    by (rule list_all2_mono) (auto simp: list_all2_Cons1)
  then have "\<exists>coses. res_map ?cose (zip sigs (map snd kcs)) = Ok coses \<and>
      list_all2 (\<lambda>(k, ch) cose. CoseSign1_verify c (sign1_with_payload cose ch) (snd k) = Ok ()) kcs coses"
  proof (induction rule: list_all2_induct)
    case (Cons kc kcs ss sigs)
    obtain k ch where kc: "kc = (k, ch)" by (cases kc)
    with Cons(1) obtain s s' where s: "ss = [s]" "signature_try_from c s = Some s'"
      "p256_verify c (snd k) (sig_structure_data c protected_header ch) s'" by auto
    from Cons.IH obtain coses where "res_map ?cose (zip sigs (map snd kcs)) = Ok coses"
      "list_all2 (\<lambda>(k, ch) cose. CoseSign1_verify c (sign1_with_payload cose ch) (snd k) = Ok ()) kcs coses" by blast
    then show ?case using kc s by (auto simp: CoseSign1_verify_def sign1_with_payload_def)
  qed simp
  then show ?thesis using sigs(1) zip
    by (simp add: sign_coses_def signatures_data_and_header_def Let_def)
qed

text \<open>
  A stored mdoc that can be presented: it verifies whenever the verifier looks at it, its
  document type is that of the signed object, and the key factory has its key.
\<close>

definition presentable ::
  "disclosure_env \<Rightarrow> (string \<times> verifying_key) set \<Rightarrow> clock \<Rightarrow> trust_anchor list \<Rightarrow> mdoc \<Rightarrow> bool" where
  "presentable env keys time anchors m \<longleftrightarrow> (\<exists>mso key.
     (\<forall>i. \<exists>dda. IssuerSigned_verify (de_mdoc env) (mdoc_issuer_signed m) Valid (\<lambda>k. time (k + i)) anchors = Ok (dda, mso)) \<and>
     mso_doc_type mso = mdoc_doc_type m \<and>
     VerifyingKey_try_from (de_crypto env) (dki_device_key (mso_device_key_info mso)) = Ok key \<and>
     (mdoc_private_key_id m, key) \<in> keys)"

text \<open>A proposed document that can be signed and verified.\<close>

definition acceptable ::
  "disclosure_env \<Rightarrow> (string \<times> verifying_key) set \<Rightarrow> session_transcript \<Rightarrow> clock \<Rightarrow> trust_anchor list
     \<Rightarrow> 'i proposed_document \<Rightarrow> bool" where
  "acceptable env keys st time anchors pd \<longleftrightarrow> (\<exists>mso key.
     (\<forall>i. \<exists>dda. IssuerSigned_verify (de_mdoc env) (pd_issuer_signed pd) Valid (\<lambda>k. time (k + i)) anchors = Ok (dda, mso)) \<and>
     mso_doc_type mso = pd_doc_type pd \<and>
     VerifyingKey_try_from (de_crypto env) (dki_device_key (mso_device_key_info mso)) = Ok key \<and>
     IssuerSigned_public_key (de_mdoc env) (pd_issuer_signed pd) = Ok key \<and>
     (pd_private_key_id pd, key) \<in> keys \<and>
     device_authentication_to_cbor env (DeviceAuthenticationKeyed_new (pd_doc_type pd) st) =
       Some (pd_device_signed_challenge pd))"

lemma presentable_acceptable:
  assumes pd: "try_from_stored_mdoc s req challenge = Ok pd" and wf: "mdoc_wf (stm_mdoc s)"
    and sat: "set req \<subseteq> set (mdoc_identifiers (stm_mdoc s))"
    and p: "presentable env keys time anchors (stm_mdoc s)"
    and ch: "device_authentication_to_cbor env (DeviceAuthenticationKeyed_new (mdoc_doc_type (stm_mdoc s)) st) = Some challenge"
  shows "acceptable env keys st time anchors pd"
proof -
  note e = try_from_stored_mdoc_exact [OF pd wf sat]
  let ?m = "stm_mdoc s" and ?s = "mdoc_issuer_signed (stm_mdoc s)"
  from p obtain mso key where v: "\<And>i. \<exists>dda. IssuerSigned_verify (de_mdoc env) ?s Valid (\<lambda>k. time (k + i)) anchors = Ok (dda, mso)"
    and m: "mso_doc_type mso = mdoc_doc_type ?m"
    and key: "VerifyingKey_try_from (de_crypto env) (dki_device_key (mso_device_key_info mso)) = Ok key"
      "(mdoc_private_key_id ?m, key) \<in> keys" by (auto simp: presentable_def)
  have "\<exists>dda. IssuerSigned_verify (de_mdoc env) (pd_issuer_signed pd) Valid (\<lambda>k. time (k + i)) anchors = Ok (dda, mso)" for i
  proof -
    from v obtain dda where d: "IssuerSigned_verify (de_mdoc env) ?s Valid (\<lambda>k. time (k + i)) anchors = Ok (dda, mso)" by blast
    show ?thesis
    proof (cases "is_name_spaces ?s")
      case None
      then have "pd_issuer_signed pd = ?s" using e(5,6) by simp
      then show ?thesis using d by auto
    next
      case (Some ns)
      then have "pd_issuer_signed pd = ?s\<lparr>is_name_spaces := Some (select_name_spaces (mdoc_doc_type ?m) req ns)\<rparr>"
        using e(5,6) by simp
      moreover have "distinct (map fst ns)" using wf Some by (simp add: mdoc_wf_def)
      ultimately show ?thesis using selection_verifies [OF d Some select_within] by auto
    qed
  qed
  moreover have "IssuerSigned_public_key (de_mdoc env) (pd_issuer_signed pd) = Ok key"
  proof -
    from v obtain dda where "IssuerSigned_verify (de_mdoc env) ?s Valid (\<lambda>k. time (k + 0)) anchors = Ok (dda, mso)" by blast
    then have "Option.bind (cs_payload (is_issuer_auth ?s)) (mso_from_cbor (de_mdoc env)) = Some mso"
      by (auto simp: IssuerSigned_verify_Ok verify_against_trust_anchors_Ok)
    then show ?thesis using key(1) e(5)
      by (cases "cs_payload (is_issuer_auth ?s)") (auto simp: IssuerSigned_public_key_def cose_parse_unverified_def)
  qed
  ultimately show ?thesis using m key e(2,3,4) ch unfolding acceptable_def by metis
qed

definition document_of :: "'i proposed_document \<Rightarrow> device_signed \<Rightarrow> document" where
  "document_of pd ds = \<lparr>doc_doc_type = pd_doc_type pd, doc_issuer_signed = pd_issuer_signed pd,
     doc_device_signed = ds, doc_errors = None\<rparr>"

lemma acceptable_documents:
  assumes f: "factory_signs (de_crypto env) factory keys" and st: "transcript_to_cbor env st = Some stb"
    and a: "\<forall>pd\<in>set pds. acceptable env keys st time anchors pd"
  shows "\<exists>docs. sign_multiple_documents env factory pds = Ok docs \<and>
    list_all2 (\<lambda>pd doc. doc_doc_type doc = pd_doc_type pd \<and> doc_issuer_signed doc = pd_issuer_signed pd \<and>
      (\<forall>i. \<exists>dda. Document_verify env doc eph st (\<lambda>k. time (k + i)) anchors = Ok (doc_doc_type doc, dda))) pds docs"
proof -
  let ?key = "\<lambda>doc. res_bind (IssuerSigned_public_key (de_mdoc env) (pd_issuer_signed doc)) (\<lambda>public_key.
       Ok ((pd_private_key_id doc, public_key), pd_device_signed_challenge doc))"
  have "\<exists>ys. res_map ?key pds = Ok ys"
    by (rule res_map_total) (use a in \<open>auto simp: acceptable_def\<close>)
  then obtain kcs where kcs: "res_map ?key pds = Ok kcs" by blast
  have "fst ` set kcs \<subseteq> keys"
  proof
    fix x assume "x \<in> fst ` set kcs"
    then obtain y where y: "y \<in> set kcs" "x = fst y" by auto
    from res_map_in_set [OF kcs y(1)] obtain pd where pd: "pd \<in> set pds" "?key pd = Ok y" by blast
    with a have "acceptable env keys st time anchors pd" by blast
    then obtain key where "IssuerSigned_public_key (de_mdoc env) (pd_issuer_signed pd) = Ok key"
      "(pd_private_key_id pd, key) \<in> keys" by (auto simp: acceptable_def)
    with pd(2) y(2) show "x \<in> keys" by auto
  qed
  from sign_coses_verify [OF f this, of header_default] obtain coses where
    coses: "sign_coses (de_crypto env) kcs factory header_default False = Ok coses"
    "list_all2 (\<lambda>(k, ch) cose. CoseSign1_verify (de_crypto env) (sign1_with_payload cose ch) (snd k) = Ok ()) kcs coses"
    by blast
  let ?signed = "\<lambda>cose. \<lparr>ds_name_spaces = [], ds_device_auth = DeviceSignature cose\<rparr>"
  let ?docs = "map (\<lambda>(doc, ds). document_of doc ds) (zip pds (map ?signed coses))"
  have s: "sign_multiple_documents env factory pds = Ok ?docs"
    using kcs coses(1) by (simp add: sign_multiple_documents_def new_signatures_def document_of_def [abs_def])
  have len: "length pds = length kcs" "length kcs = length coses"
    using res_map_length [OF kcs] coses(2) by (auto simp: list_all2_lengthD)
  have "list_all2 (\<lambda>pd doc. doc_doc_type doc = pd_doc_type pd \<and> doc_issuer_signed doc = pd_issuer_signed pd \<and>
      (\<forall>i. \<exists>dda. Document_verify env doc eph st (\<lambda>k. time (k + i)) anchors = Ok (doc_doc_type doc, dda))) pds ?docs"
    unfolding list_all2_conv_all_nth
  proof (intro conjI allI impI)
    fix j assume j: "j < length pds"
    let ?pd = "pds ! j"
    have doc: "?docs ! j = document_of ?pd (?signed (coses ! j))" using j len by simp
    show "doc_doc_type (?docs ! j) = pd_doc_type ?pd" "doc_issuer_signed (?docs ! j) = pd_issuer_signed ?pd"
      unfolding doc by (simp_all add: document_of_def)
    have acc: "acceptable env keys st time anchors ?pd" using a j by simp
    then obtain mso key where m: "\<And>i. \<exists>dda. IssuerSigned_verify (de_mdoc env) (pd_issuer_signed ?pd) Valid (\<lambda>k. time (k + i)) anchors = Ok (dda, mso)"
      "mso_doc_type mso = pd_doc_type ?pd"
      "VerifyingKey_try_from (de_crypto env) (dki_device_key (mso_device_key_info mso)) = Ok key"
      "IssuerSigned_public_key (de_mdoc env) (pd_issuer_signed ?pd) = Ok key"
      "device_authentication_to_cbor env (DeviceAuthenticationKeyed_new (pd_doc_type ?pd) st) = Some (pd_device_signed_challenge ?pd)"
      unfolding acceptable_def by blast
    have "kcs ! j = ((pd_private_key_id ?pd, key), pd_device_signed_challenge ?pd)"
      using res_map_Ok_nth [OF kcs j] m(4) by simp
    then have c: "CoseSign1_verify (de_crypto env) (sign1_with_payload (coses ! j) (pd_device_signed_challenge ?pd)) key = Ok ()"
      using list_all2_nthD [OF coses(2), of j] j len by simp
    fix i
    from m(1) [of i] obtain dda where "IssuerSigned_verify (de_mdoc env) (pd_issuer_signed ?pd) Valid (\<lambda>k. time (k + i)) anchors = Ok (dda, mso)"
      by blast
    with m(2,3,5) c st have "Document_verify env (document_of ?pd (?signed (coses ! j))) eph st (\<lambda>k. time (k + i)) anchors =
        Ok (pd_doc_type ?pd, dda)"
      by (simp add: Document_verify_def document_of_def verify_device_auth_def)
    then show "\<exists>dda. Document_verify env (?docs ! j) eph st (\<lambda>k. time (k + i)) anchors = Ok (doc_doc_type (?docs ! j), dda)"
      unfolding doc by (simp add: document_of_def)
  qed (use len in simp)
  with s show ?thesis by blast
qed

lemma verify_documents_total:
  assumes "\<forall>doc\<in>set docs. \<forall>i. \<exists>dda. Document_verify env doc eph st (\<lambda>k. time (k + i)) anchors = Ok (doc_doc_type doc, dda)"
  shows "\<exists>r. verify_documents env docs eph st (\<lambda>k. time (k + j)) anchors attrs = Ok r"
  using assms
proof (induction docs arbitrary: j attrs)
  case (Cons doc docs)
  then obtain dda where "Document_verify env doc eph st (\<lambda>k. time (k + j)) anchors = Ok (doc_doc_type doc, dda)"
    by (metis list.set_intros(1))
  moreover have "\<exists>r. verify_documents env docs eph st (\<lambda>k. time (k + (j + 2))) anchors (im_insert (doc_doc_type doc) dda attrs) = Ok r"
    by (rule Cons.IH) (use Cons.prems in simp)
  moreover have "(\<lambda>k. time (k + (j + 2))) = (\<lambda>k. time (k + 2 + j))" by (simp add: add.commute add.left_commute)
  ultimately show ?case by (simp only: verify_documents.simps res_bind.simps prod.case)
qed simp

lemma candidates_acceptable:
  assumes m: "DisclosureRequestMatch_new env requests source st = Ok (Candidates c)" and wf: "source_wf source"
    and p: "\<And>dts mss ms s. source dts = Some mss \<Longrightarrow> ms \<in> set mss \<Longrightarrow> s \<in> set ms \<Longrightarrow>
      presentable env keys time anchors (stm_mdoc s)"
    and mem: "(dt, cands) \<in> set c" "pd \<in> set cands"
  shows "acceptable env keys st time anchors pd"
proof -
  obtain stored requested missing where s: "source (is_collect (map ir_doc_type requests)) = Some stored"
    and r: "attributes_by_doc_type (is_collect (map ir_doc_type requests)) []
      (requests_attribute_identifiers requests) = Ok requested"
    and ms: "match_stored_mdocs env st requested [] [] (filter (\<lambda>s. s \<noteq> []) stored) = Ok ([], missing, c)"
    by (rule DisclosureRequestMatch_CandidatesE [OF m])
  have "\<forall>pd\<in>set cands. acceptable env keys st time anchors pd"
  proof (rule match_stored_mdocs_inv [OF ms, where R = "\<lambda>dt as. True" and
      Q = "\<lambda>dt cands. \<forall>pd\<in>set cands. acceptable env keys st time anchors pd"])
    fix mds dt as challenge found absent
    assume a: "mds \<in> set (filter (\<lambda>s. s \<noteq> []) stored)" "\<forall>s\<in>set mds. mdoc_doc_type (stm_mdoc s) = dt"
      "device_authentication_to_cbor env (DeviceAuthenticationKeyed_new dt st) = Some challenge"
      "candidates_and_missing_attributes mds as challenge = Ok (found, absent)"
    show "\<forall>pd\<in>set found. acceptable env keys st time anchors pd"
    proof
      fix pd assume "pd \<in> set found"
      from candidates_exact [OF a(4) this] obtain x where
        x: "x \<in> set mds" "try_from_stored_mdoc x as challenge = Ok pd" "set as \<subseteq> set (mdoc_identifiers (stm_mdoc x))" .
      have mds: "mds \<in> set stored" using a(1) by simp
      show "acceptable env keys st time anchors pd"
      proof (rule presentable_acceptable [OF x(2) _ x(3) p [OF s mds x(1)]])
        show "mdoc_wf (stm_mdoc x)" using wf s mds x(1) unfolding source_wf_def by blast
        show "device_authentication_to_cbor env (DeviceAuthenticationKeyed_new (mdoc_doc_type (stm_mdoc x)) st) = Some challenge"
          using a(2,3) x(1) by simp
      qed
    qed
  qed (use mem in auto)
  then show ?thesis using mem(2) by blast
qed

lemma list_all2_in_set:
  "list_all2 P xs ys \<Longrightarrow> y \<in> set ys \<Longrightarrow> \<exists>x\<in>set xs. P x y"
  "list_all2 P xs ys \<Longrightarrow> x \<in> set xs \<Longrightarrow> \<exists>y\<in>set ys. P x y"
  by (induction rule: list_all2_induct) auto

lemma answer_matches:
  assumes ex: "\<And>dt cands pd. (dt, cands) \<in> set c \<Longrightarrow> pd \<in> set cands \<Longrightarrow>
      exact_candidate env st (set (requests_attribute_identifiers requests)) dt pd"
    and ne: "\<And>dt cands. (dt, cands) \<in> set c \<Longrightarrow> hd cands \<in> set cands"
    and all: "\<And>a. a \<in> set (requests_attribute_identifiers requests) \<Longrightarrow> \<exists>cands. (ai_doc_type a, cands) \<in> set c"
    and docs: "list_all2 (\<lambda>pd doc. doc_doc_type doc = pd_doc_type pd \<and> doc_issuer_signed doc = pd_issuer_signed pd)
      (map (\<lambda>(dt, cands). hd cands) c) docs"
  shows "match_against_response requests \<lparr>dr_documents = Some docs, dr_document_errors = None, dr_status = 0\<rparr> = Ok ()"
  unfolding match_against_response_Ok
proof
  fix q assume q: "q \<in> set requests"
  have ids: "set (ItemsRequest_attribute_identifiers q) \<subseteq> {a \<in> set (requests_attribute_identifiers requests). ai_doc_type a = ir_doc_type q}"
  proof -
    have "ai_doc_type a = ir_doc_type q" if "a \<in> set (ItemsRequest_attribute_identifiers q)" for a
      using that by (auto simp: ItemsRequest_attribute_identifiers_def)
    then show ?thesis using q by (auto simp: requests_attribute_identifiers_def)
  qed
  have doc: "set (document_identifiers doc) = {a \<in> set (requests_attribute_identifiers requests). ai_doc_type a = doc_doc_type doc}" if d: "doc \<in> set docs" for doc
  proof -
    obtain dt cands where "(dt, cands) \<in> set c" "doc_doc_type doc = pd_doc_type (hd cands)"
      "doc_issuer_signed doc = pd_issuer_signed (hd cands)"
      using list_all2_in_set(1) [OF docs d] by auto
    then show ?thesis using ex [OF _ ne] by (auto simp: exact_candidate_def document_identifiers_def)
  qed
  have some: "ir_doc_type q \<in> doc_doc_type ` set docs" if a: "a \<in> set (ItemsRequest_attribute_identifiers q)" for a
  proof -
    have ai: "a \<in> set (requests_attribute_identifiers requests)" "ai_doc_type a = ir_doc_type q" using ids a by auto
    with all obtain cands where c: "(ir_doc_type q, cands) \<in> set c" by metis
    then have "pd_doc_type (hd cands) = ir_doc_type q" using ex [OF c ne [OF c]] by (simp add: exact_candidate_def)
    moreover have "hd cands \<in> set (map (\<lambda>(dt, cands). hd cands) c)" using c by force
    ultimately show ?thesis using list_all2_in_set(2) [OF docs, of "hd cands"] by force
  qed
  show "case Option.bind (dr_documents \<lparr>dr_documents = Some docs, dr_document_errors = None, dr_status = 0\<rparr>) (List.find (\<lambda>doc. doc_doc_type doc = ir_doc_type q)) of
      None \<Rightarrow> ItemsRequest_attribute_identifiers q = []
    | Some doc \<Rightarrow> set (ItemsRequest_attribute_identifiers q) \<subseteq> set (document_identifiers doc)"
  proof (cases "List.find (\<lambda>doc. doc_doc_type doc = ir_doc_type q) docs")
    case None
    then have "ir_doc_type q \<notin> doc_doc_type ` set docs" by (auto simp: find_None_iff)
    then have "ItemsRequest_attribute_identifiers q = []" using some by (metis list.set_sel(1))
    then show ?thesis using None by simp
  next
    case (Some d)
    then have "d \<in> set docs" "doc_doc_type d = ir_doc_type q" by (auto simp: find_Some_iff)
    then show ?thesis using Some doc ids by simp
  qed
qed

lemma candidates_answer_accepted:
  assumes m: "DisclosureRequestMatch_new env requests source st = Ok (Candidates c)" and wf: "source_wf source"
    and p: "\<And>dts mss ms s. source dts = Some mss \<Longrightarrow> ms \<in> set mss \<Longrightarrow> s \<in> set ms \<Longrightarrow>
      presentable env keys time anchors (stm_mdoc s)"
    and f: "factory_signs (de_crypto env) factory keys" and st: "transcript_to_cbor env st = Some stb"
  shows "\<exists>resp attrs. from_proposed_documents env (map (\<lambda>(dt, cands). hd cands) c) factory = Ok resp \<and>
    DeviceResponse_verify env resp eph st time anchors = Ok attrs \<and> match_against_response requests resp = Ok ()"
proof -
  let ?pds = "map (\<lambda>(dt, cands). hd cands) c" and ?ids = "set (requests_attribute_identifiers requests)"
  have ex: "exact_candidate env st ?ids dt pd" if "(dt, cands) \<in> set c" "pd \<in> set cands" for dt cands pd
    using candidates_exact_and_complete [OF m wf] that by blast
  have ne: "hd cands \<in> set cands" if "(dt, cands) \<in> set c" for dt cands
    using candidates_exact_and_complete [OF m wf] that by auto
  have "\<forall>pd\<in>set ?pds. acceptable env keys st time anchors pd"
    using candidates_acceptable [OF m wf p] ne by fastforce
  from acceptable_documents [OF f st this, of eph] obtain docs where
    docs: "sign_multiple_documents env factory ?pds = Ok docs"
    "list_all2 (\<lambda>pd doc. doc_doc_type doc = pd_doc_type pd \<and> doc_issuer_signed doc = pd_issuer_signed pd \<and>
      (\<forall>i. \<exists>dda. Document_verify env doc eph st (\<lambda>k. time (k + i)) anchors = Ok (doc_doc_type doc, dda))) ?pds docs"
    by blast
  let ?resp = "\<lparr>dr_documents = Some docs, dr_document_errors = None, dr_status = 0\<rparr>"
  from docs(2) have docs': "list_all2 (\<lambda>pd doc. doc_doc_type doc = pd_doc_type pd \<and> doc_issuer_signed doc = pd_issuer_signed pd) ?pds docs"
    by (rule list_all2_mono) blast
  have "\<forall>doc\<in>set docs. \<forall>i. \<exists>dda. Document_verify env doc eph st (\<lambda>k. time (k + i)) anchors = Ok (doc_doc_type doc, dda)"
    using list_all2_in_set(1) [OF docs(2)] by blast
  from verify_documents_total [OF this, of 0 "[]"] obtain attrs where
    "DeviceResponse_verify env ?resp eph st time anchors = Ok attrs" by (auto simp: DeviceResponse_verify_Ok)
  moreover have "match_against_response requests ?resp = Ok ()"
  proof (rule answer_matches [OF _ _ _ docs'])
    show "\<exists>cands. (ai_doc_type a, cands) \<in> set c" if "a \<in> ?ids" for a
      using candidates_exact_and_complete [OF m wf] that by blast
  qed (fact ex, fact ne)
  ultimately show ?thesis using docs(1) by (simp add: from_proposed_documents_def)
qed

text \<open>
  When a request can be answered from the mdocs of a wallet, and these verify and are bound to keys the
  wallet signs with, then the wallet's answer with the first candidate of each document type is
  signed, accepted by the verifier and found complete.
\<close>

theorem wallet_answer_is_accepted:
  assumes m: "DisclosureRequestMatch_new env requests source st = Ok (Candidates c)" and wf: "source_wf source"
    and p: "\<And>dts mss ms s. source dts = Some mss \<Longrightarrow> ms \<in> set mss \<Longrightarrow> s \<in> set ms \<Longrightarrow>
      presentable env keys time anchors (stm_mdoc s)"
    and f: "factory_signs (de_crypto env) factory keys" and st: "transcript_to_cbor env st = Some stb"
  shows "\<exists>resp attrs. from_proposed_documents env (map (\<lambda>(dt, cands). hd cands) c) factory = Ok resp \<and>
    DeviceResponse_verify env resp eph st time anchors = Ok attrs \<and> match_against_response requests resp = Ok ()"
  by (rule candidates_answer_accepted [OF assms])

definition demo_factory :: key_factory where
  "demo_factory msgs = Some (map (\<lambda>(m, ks). map (\<lambda>k. snd k @ m) ks) msgs)"

lemma demo_factory_signs: "factory_signs demo_crypto demo_factory keys"
proof -
  have "list_all2 (\<lambda>k s. s = snd k @ m) ks (map (\<lambda>k. snd k @ m) ks)" for m and ks :: "(string \<times> verifying_key) list"
    by (simp add: list.rel_map list.rel_refl)
  then show ?thesis by (auto simp: factory_signs_def demo_factory_def demo_crypto_def list.rel_map intro!: list.rel_refl)
qed

theorem wallet_answer_is_accepted_witness:
  "\<exists>resp attrs. from_proposed_documents demo_disclosure_env [demo_proposed] demo_factory = Ok resp \<and>
    DeviceResponse_verify demo_disclosure_env resp None demo_transcript (\<lambda>_. 5) [[9]] = Ok attrs \<and>
    match_against_response [demo_request [(''b'', False)]] resp = Ok ()"
proof -
  have "presentable demo_disclosure_env {(''key'', demo_device_key)} (\<lambda>_. 5) [[9]] demo_mdoc"
    using demo_issuer_signed_verify [of "[demo_item_a, demo_item_b]" "\<lambda>_. 5"] demo_device_key
    by (auto simp: presentable_def demo_mdoc_def demo_mso_def)
  then have "presentable demo_disclosure_env {(''key'', demo_device_key)} (\<lambda>_. 5) [[9]] (stm_mdoc s)"
    if "demo_source dts = Some mss" "ms \<in> set mss" "s \<in> set ms" for dts mss ms s
    using that by (auto simp: demo_source_def split: if_splits)
  moreover have "factory_signs (de_crypto demo_disclosure_env) demo_factory {(''key'', demo_device_key)}"
    using demo_factory_signs by simp
  moreover have "transcript_to_cbor demo_disclosure_env demo_transcript = Some []" by (simp add: demo_disclosure_env_def)
  ultimately show ?thesis
    using wallet_answer_is_accepted [OF demo_match [of demo_transcript] demo_source_wf, of "{(''key'', demo_device_key)}" "\<lambda>_. 5" "[[9]]"
        demo_factory "[]" None] by simp
qed

end
