(* ===== verification/Encodings.thy ===== *)
theory Encodings
  imports Presentation "HOL-Library.Countable"
begin

text \<open>
  An encoding of the messages of a disclosure session as bytes that decodes to what was encoded. It shows
  that the assumptions about the CBOR codec can hold, and is used for the examples only.
\<close>

lemma countable_by:
  fixes f :: "'a \<Rightarrow> 'b::countable"
  assumes "\<And>x y. f x = f y \<Longrightarrow> x = y"
  shows "OFCLASS('a, countable_class)"
proof (rule countable_classI [of "to_nat \<circ> f"])
  fix x y assume "(to_nat \<circ> f) x = (to_nat \<circ> f) y"
  then have "f x = f y" by simp
  then show "x = y" by (rule assms)
qed

instance word :: (len) countable
  by (rule countable_by [of uint]) (simp add: word_uint_eq_iff)

instance cbor_value :: countable
  by countable_datatype

instance label :: countable
  by countable_datatype

instance header_ext :: (countable) countable
  by (rule countable_by [of "\<lambda>r. (hdr_alg r, hdr_rest r, header.more r)"]) simp

instance cose_sign1_ext :: (countable) countable
  by (rule countable_by [of "\<lambda>r. (cs_signature r, cs_payload r, cs_protected r, cs_unprotected r, cose_sign1.more r)"]) simp

instance cose_mac0_ext :: (countable) countable
  by (rule countable_by [of "\<lambda>r. (cm_tag r, cm_payload r, cm_protected r, cm_unprotected r, cose_mac0.more r)"]) simp

instance key_type :: countable
  by countable_datatype

instance cose_key_ext :: (countable) countable
  by (rule countable_by [of "\<lambda>r. (ck_kty r, ck_params r, cose_key.more r)"]) simp

instance origin_info_direction :: countable
  by countable_datatype

instance origin_info_type :: countable
  by countable_datatype

instance origin_info_ext :: (countable) countable
  by (rule countable_by [of "\<lambda>r. (oi_cat r, oi_typ r, origin_info.more r)"]) simp

instance cipher_suite_identifier :: countable
  by countable_datatype

instance connection_method :: countable
  by countable_datatype

instance engagement_version :: countable
  by countable_datatype

instance security_ext :: (countable) countable
  by (rule countable_by [of "\<lambda>r. (sec_cipher_suite_identifier r, sec_e_sender_key_bytes r, security.more r)"]) simp

instance engagement_ext :: (countable) countable
  by (rule countable_by [of "\<lambda>r. (en_version r, en_security r, en_connection_methods r, en_origin_infos r, engagement.more r)"]) simp

instance items_request_ext :: (countable) countable
  by (rule countable_by [of "\<lambda>r. (ir_doc_type r, ir_name_spaces r, ir_request_info r, items_request.more r)"]) simp

instance doc_request_ext :: (countable) countable
  by (rule countable_by [of "\<lambda>r. (dq_items_request r, dq_reader_auth r, doc_request.more r)"]) simp

instance device_request_ext :: (countable) countable
  by (rule countable_by [of "\<lambda>r. (drq_doc_requests r, drq_return_url r, device_request.more r)"]) simp

instance issuer_signed_item_ext :: (countable) countable
  by (rule countable_by [of "\<lambda>r. (isi_digest_id r, isi_random r, isi_element_identifier r, isi_element_value r,
    issuer_signed_item.more r)"]) simp

instance issuer_signed_ext :: (countable) countable
  by (rule countable_by [of "\<lambda>r. (is_name_spaces r, is_issuer_auth r, issuer_signed.more r)"]) simp

instance device_auth :: countable
  by countable_datatype

instance device_signed_ext :: (countable) countable
  by (rule countable_by [of "\<lambda>r. (ds_name_spaces r, ds_device_auth r, device_signed.more r)"]) simp

instance document_ext :: (countable) countable
  by (rule countable_by [of "\<lambda>r. (doc_doc_type r, doc_issuer_signed r, doc_device_signed r, doc_errors r, document.more r)"]) simp

instance device_response_ext :: (countable) countable
  by (rule countable_by [of "\<lambda>r. (dr_documents r, dr_document_errors r, dr_status r, device_response.more r)"]) simp

instance mdoc_session_status :: countable
  by countable_datatype

instance session_type :: countable
  by countable_datatype

instance entry_ext :: (countable) countable
  by (rule countable_by [of "\<lambda>r. (entry_name r, entry_value r, entry.more r)"]) simp

instance validity_info_ext :: (countable) countable
  by (rule countable_by [of "\<lambda>r. (vi_signed r, vi_valid_from r, vi_valid_until r, vi_expected_update r, validity_info.more r)"]) simp

instance document_disclosed_attributes_ext :: (countable) countable
  by (rule countable_by [of "\<lambda>r. (dda_attributes r, dda_issuer r, dda_validity_info r, document_disclosed_attributes.more r)"]) simp

definition encode :: "'a::countable \<Rightarrow> bytes" where
  "encode x = replicate (to_nat x) 0"

definition decode :: "bytes \<Rightarrow> 'a::countable" where
  "decode bs = from_nat (length bs)"

lemma decode_encode [simp]: "decode (encode x) = x"
  by (simp add: encode_def decode_def)

definition text_encode :: "'a::countable \<Rightarrow> string" where
  "text_encode x = replicate (to_nat x) CHR ''a''"

definition text_decode :: "string \<Rightarrow> 'a::countable" where
  "text_decode s = from_nat (length s)"

lemma text_decode_encode [simp]: "text_decode (text_encode x) = x"
  by (simp add: text_encode_def text_decode_def)

end
