(* ===== verification/IssuanceMessages.thy ===== *)
theory IssuanceMessages
  imports Encodings
begin

text \<open>
  Messages of the issuance protocol OpenID4VCI: access tokens and token requests
  (\<open>openid4vc/src/token.rs\<close>), keys in JSON web tokens (\<open>openid4vc/src/jwt.rs\<close>), proofs that a request
  comes from the holder of a key (\<open>openid4vc/src/dpop.rs\<close>) and credential requests
  (\<open>openid4vc/src/credential.rs\<close>).
\<close>

section \<open>Access tokens and token requests\<close>

type_synonym authorization_code = string
type_synonym access_token = string

text \<open>A string is sliced at a byte that does not continue a character of UTF-8.\<close>

definition is_char_boundary :: "string \<Rightarrow> nat \<Rightarrow> bool" where
  "is_char_boundary s n \<longleftrightarrow> n = length s \<or>
     n < length s \<and> \<not> (128 \<le> (of_char (s ! n) :: nat) \<and> (of_char (s ! n) :: nat) < 192)"

definition str_get_from :: "string \<Rightarrow> nat \<Rightarrow> string option" where
  "str_get_from s n = (if is_char_boundary s n then Some (drop n s) else None)"

definition AccessToken_new :: "string \<Rightarrow> authorization_code \<Rightarrow> access_token" where
  "AccessToken_new random code = random @ code"

definition AccessToken_code :: "access_token \<Rightarrow> authorization_code option" where
  "AccessToken_code self = str_get_from self 32"

definition AccessToken_sha256 :: "crypto \<Rightarrow> access_token \<Rightarrow> bytes" where
  "AccessToken_sha256 c self = sha256 c (as_bytes self)"

datatype token_request_grant_type =
    AuthorizationCode authorization_code
  | PreAuthorizedCode authorization_code

record token_request =
  tr_grant_type :: token_request_grant_type
  tr_code_verifier :: "string option"
  tr_client_id :: "string option"
  tr_redirect_uri :: "url option"

fun grant_type_code :: "token_request_grant_type \<Rightarrow> authorization_code" where
  "grant_type_code (AuthorizationCode code) = code"
| "grant_type_code (PreAuthorizedCode pre_authorized_code) = pre_authorized_code"

definition TokenRequest_code :: "token_request \<Rightarrow> authorization_code" where
  "TokenRequest_code self = grant_type_code (tr_grant_type self)"

datatype token_type = Bearer | DPoP

datatype authorization_details_type = OpenidCredential

datatype authorization_details_format_data = DetailsMsoMdoc doc_type

record authorization_details =
  ad_typ :: authorization_details_type
  ad_credential_identifiers :: "string list option"
  ad_format_data :: authorization_details_format_data

record token_response =
  tk_access_token :: access_token
  tk_token_type :: token_type
  tk_refresh_token :: "string option"
  tk_c_nonce :: "string option"
  tk_scope :: "string list option"
  tk_c_nonce_expires_in :: "duration option"
  tk_expires_in :: "duration option"
  tk_authorization_details :: "authorization_details option"

definition TokenResponse_new :: "access_token \<Rightarrow> string \<Rightarrow> token_response" where
  "TokenResponse_new access_token c_nonce =
     \<lparr>tk_access_token = access_token, tk_token_type = DPoP, tk_refresh_token = None, tk_c_nonce = Some c_nonce,
      tk_scope = None, tk_c_nonce_expires_in = None, tk_expires_in = None, tk_authorization_details = None\<rparr>"

datatype attestation_preview = PreviewMsoMdoc (preview_unsigned: unsigned_mdoc) (preview_issuer: certificate)

definition copy_count :: "attestation_preview \<Rightarrow> nat" where
  "copy_count self = unat (um_copy_count (preview_unsigned self))"

record token_response_with_previews =
  tp_token_response :: token_response
  tp_attestation_previews :: "attestation_preview list"

datatype attestation_preview_error = PreviewCertificate certificate_error | NoIssuerRegistration

definition preview_try_into_registration ::
  "disclosure_env \<Rightarrow> attestation_preview \<Rightarrow> (unsigned_mdoc \<times> string, attestation_preview_error) res" where
  "preview_try_into_registration env value =
     res_bind (map_err PreviewCertificate (CertificateType_from_certificate env (preview_issuer value))) (\<lambda>typ.
     case typ of
       MdlType (Some issuer) \<Rightarrow> Ok (preview_unsigned value, issuer)
     | _ \<Rightarrow> Err NoIssuerRegistration)"

section \<open>Keys in JSON web tokens\<close>

datatype elliptic_curve = P256 | P384 | P521 | Ed25519

datatype jwk = EllipticCurveKey (jwk_curve: elliptic_curve) (jwk_x: string) (jwk_y: string) | OtherKey

datatype jwk_conversion_error =
    UnsupportedJwkEcCurve elliptic_curve
  | UnsupportedJwkAlgorithm
  | JwkBase64Error
  | VerifyingKeyConstruction
  | MissingCoordinate
  | JwkVerifyingKeyFromPrivateKey

datatype jwt_algorithm = ES256 | OtherAlgorithm string

record jwt_header =
  hd_typ :: "string option"
  hd_alg :: jwt_algorithm
  hd_jwk :: "jwk option"

record dpop_payload =
  dp_http_url :: url
  dp_http_method :: string
  dp_access_token_hash :: "bytes option"
  dp_nonce :: "string option"
  dp_jti :: string
  dp_iat :: datetime

record credential_request_proof_jwt_payload =
  pj_iss :: string
  pj_aud :: string
  pj_nonce :: "string option"
  pj_iat :: datetime

text \<open>
  The crates jsonwebtoken, base64 and serde_json at the types above. \<open>decode\<close> functions verify a token for a
  key and the validation options, and return its header and claims.
\<close>

record jwt_validation =
  jv_required_spec_claims :: "string list"
  jv_iss :: "string list option"
  jv_aud :: "string list option"

record jose =
  jo_base64url :: "bytes \<Rightarrow> string"
  jo_base64url_decode :: "string \<Rightarrow> bytes option"
  jo_header_to_json :: "jwt_header \<Rightarrow> json option"
  jo_decode_header :: "jwt \<Rightarrow> jwt_header option"
  jo_dpop_to_json :: "dpop_payload \<Rightarrow> json option"
  jo_decode_dpop :: "jwt \<Rightarrow> verifying_key \<Rightarrow> jwt_validation \<Rightarrow> (jwt_header \<times> dpop_payload) option"
  jo_pop_to_json :: "credential_request_proof_jwt_payload \<Rightarrow> json option"
  jo_decode_pop :: "jwt \<Rightarrow> verifying_key \<Rightarrow> jwt_validation
    \<Rightarrow> (jwt_header \<times> credential_request_proof_jwt_payload) option"

definition jwk_from_p256 :: "crypto \<Rightarrow> jose \<Rightarrow> verifying_key \<Rightarrow> (jwk, jwk_conversion_error) res" where
  "jwk_from_p256 c jo value =
     (let point = to_encoded_point c value in
      res_bind (ok_or (fst point) MissingCoordinate) (\<lambda>x.
      res_bind (ok_or (snd point) MissingCoordinate) (\<lambda>y.
      Ok (EllipticCurveKey P256 (jo_base64url jo x) (jo_base64url jo y)))))"

definition jwk_to_p256 :: "crypto \<Rightarrow> jose \<Rightarrow> jwk \<Rightarrow> (verifying_key, jwk_conversion_error) res" where
  "jwk_to_p256 c jo value =
     (case value of
       OtherKey \<Rightarrow> Err UnsupportedJwkAlgorithm
     | EllipticCurveKey curve x y \<Rightarrow>
         if curve \<noteq> P256 then Err (UnsupportedJwkEcCurve curve)
         else
           res_bind (ok_or (jo_base64url_decode jo x) JwkBase64Error) (\<lambda>x.
           res_bind (field_bytes x) (\<lambda>x.
           res_bind (ok_or (jo_base64url_decode jo y) JwkBase64Error) (\<lambda>y.
           res_bind (field_bytes y) (\<lambda>y.
           ok_or (from_encoded_point c x y) VerifyingKeyConstruction)))))"

definition jwk_jwt_header ::
  "crypto \<Rightarrow> jose \<Rightarrow> string \<Rightarrow> verifying_key option \<Rightarrow> (jwt_header, jwk_conversion_error) res" where
  "jwk_jwt_header c jo typ key =
     res_bind (ok_or key JwkVerifyingKeyFromPrivateKey) (\<lambda>verifying_key.
     res_bind (jwk_from_p256 c jo verifying_key) (\<lambda>jwk.
     Ok \<lparr>hd_typ = Some typ, hd_alg = ES256, hd_jwk = Some jwk\<rparr>))"

text \<open>Signing many tokens, each with a key of its own; a key is its identifier and public key.\<close>

definition sign_jwts ::
  "jose \<Rightarrow> ('t \<Rightarrow> json option) \<Rightarrow> ((string \<times> verifying_key) \<times> ('t \<times> jwt_header)) list \<Rightarrow> key_factory
     \<Rightarrow> (((string \<times> verifying_key) \<times> jwt) list, jwt_error) res" where
  "sign_jwts jo to_json keys_and_messages sign_multiple =
     (let keys = map fst keys_and_messages; to_sign = map snd keys_and_messages in
      res_bind (res_map (\<lambda>(message, header).
        res_bind (ok_or (jo_header_to_json jo header) JwtJsonParsing) (\<lambda>header_json.
        res_bind (ok_or (to_json message) JwtJsonParsing) (\<lambda>message_json.
        Ok (jo_base64url jo (as_bytes header_json) @ ''.'' @ jo_base64url jo (as_bytes message_json))))) to_sign)
      (\<lambda>messages.
      res_bind (ok_or (sign_multiple (zip (map as_bytes messages) (map (\<lambda>key. [key]) keys))) JwtSigning)
      (\<lambda>signatures.
      res_map (\<lambda>((sigs, key), msg).
        res_bind (unwrap (case sigs of [] \<Rightarrow> None | sig # _ \<Rightarrow> Some sig)) (\<lambda>sig.
        Ok (key, msg @ ''.'' @ jo_base64url jo sig)))
        (zip (zip signatures keys) messages))))"

section \<open>Proofs of possession of a key by the sender of a request\<close>

datatype dpop_error =
    DpopUnsupportedJwtAlgorithm string "string option"
  | IncorrectMethod
  | IncorrectUrl
  | DpopIncorrectNonce
  | IncorrectAccessTokenHash
  | DpopMissingJwk
  | IncorrectJwkPublicKey
  | DpopJwkConversion jwk_conversion_error
  | DpopJwtDecodingFailed
  | DpopJwt jwt_error

type_synonym dpop = jwt

definition OPENID4VCI_DPOP_JWT_TYPE :: string where
  "OPENID4VCI_DPOP_JWT_TYPE = ''dpop+jwt''"

definition Dpop_new ::
  "crypto \<Rightarrow> jose \<Rightarrow> string \<Rightarrow> datetime \<Rightarrow> ecdsa_key \<Rightarrow> url \<Rightarrow> string \<Rightarrow> access_token option \<Rightarrow> string option
     \<Rightarrow> (dpop, dpop_error) res" where
  "Dpop_new c jo jti now private_key url method access_token nonce =
     res_bind (map_err DpopJwkConversion (jwk_jwt_header c jo OPENID4VCI_DPOP_JWT_TYPE (key_verifying private_key))) (\<lambda>header.
     let payload = \<lparr>dp_http_url = url, dp_http_method = method,
           dp_access_token_hash = map_option (AccessToken_sha256 c) access_token, dp_nonce = nonce,
           dp_jti = jti, dp_iat = now\<rparr> in
     map_err DpopJwt (Jwt_sign (jo_base64url jo) (jo_dpop_to_json jo payload) (jo_header_to_json jo header)
       (key_sign private_key)))"

definition Dpop_verify_signature ::
  "jose \<Rightarrow> dpop \<Rightarrow> verifying_key \<Rightarrow> (jwt_header \<times> dpop_payload, dpop_error) res" where
  "Dpop_verify_signature jo self verifying_key =
     ok_or (jo_decode_dpop jo self verifying_key \<lparr>jv_required_spec_claims = [], jv_iss = None, jv_aud = None\<rparr>)
       DpopJwtDecodingFailed"

definition Dpop_verify_data ::
  "crypto \<Rightarrow> jwt_header \<times> dpop_payload \<Rightarrow> url \<Rightarrow> string \<Rightarrow> access_token option \<Rightarrow> string option
     \<Rightarrow> (unit, dpop_error) res" where
  "Dpop_verify_data c token_data url method access_token nonce =
     (if hd_typ (fst token_data) \<noteq> Some OPENID4VCI_DPOP_JWT_TYPE
      then Err (DpopUnsupportedJwtAlgorithm OPENID4VCI_DPOP_JWT_TYPE (hd_typ (fst token_data)))
      else if dp_http_method (snd token_data) \<noteq> method then Err IncorrectMethod
      else if dp_http_url (snd token_data) \<noteq> url then Err IncorrectUrl
      else if dp_access_token_hash (snd token_data) \<noteq> map_option (AccessToken_sha256 c) access_token
      then Err IncorrectAccessTokenHash
      else if dp_nonce (snd token_data) \<noteq> nonce then Err DpopIncorrectNonce
      else Ok ())"

definition Dpop_verify ::
  "crypto \<Rightarrow> jose \<Rightarrow> dpop \<Rightarrow> url \<Rightarrow> string \<Rightarrow> access_token option \<Rightarrow> (verifying_key, dpop_error) res" where
  "Dpop_verify c jo self url method access_token =
     res_bind (ok_or (jo_decode_header jo self) DpopJwtDecodingFailed) (\<lambda>header.
     res_bind (ok_or (hd_jwk header) DpopMissingJwk) (\<lambda>jwk.
     res_bind (map_err DpopJwkConversion (jwk_to_p256 c jo jwk)) (\<lambda>verifying_key.
     res_bind (Dpop_verify_signature jo self verifying_key) (\<lambda>token_data.
     res_bind (Dpop_verify_data c token_data url method access_token None) (\<lambda>_.
     Ok verifying_key)))))"

definition Dpop_verify_expecting_key ::
  "crypto \<Rightarrow> jose \<Rightarrow> dpop \<Rightarrow> verifying_key \<Rightarrow> url \<Rightarrow> string \<Rightarrow> access_token option \<Rightarrow> string option
     \<Rightarrow> (unit, dpop_error) res" where
  "Dpop_verify_expecting_key c jo self expected_verifying_key url method access_token nonce =
     res_bind (Dpop_verify_signature jo self expected_verifying_key) (\<lambda>token_data.
     res_bind (Dpop_verify_data c token_data url method access_token nonce) (\<lambda>_.
     res_bind (ok_or (hd_jwk (fst token_data)) DpopMissingJwk) (\<lambda>jwk.
     res_bind (map_err DpopJwkConversion (jwk_to_p256 c jo jwk)) (\<lambda>contained_key.
     if contained_key \<noteq> expected_verifying_key then Err IncorrectJwkPublicKey else Ok ()))))"

section \<open>Credential requests\<close>

datatype format = MsoMdoc | LdpVc | JwtVc | JwtVcJson | AcVc

datatype credential_request_proof = ProofJwt jwt

record credential_request =
  crq_format :: format
  crq_doctype :: "doc_type option"
  crq_proof :: "credential_request_proof option"

datatype credential_response = RespMsoMdoc (response_credential: issuer_signed)

definition OPENID4VCI_VC_POP_JWT_TYPE :: string where
  "OPENID4VCI_VC_POP_JWT_TYPE = ''openid4vci-proof+jwt''"

definition NL_WALLET_CLIENT_ID :: string where
  "NL_WALLET_CLIENT_ID = ''https://example.com''"


section \<open>Facts\<close>

definition utf8_start :: "string \<Rightarrow> bool" where
  "utf8_start s \<longleftrightarrow> s = [] \<or> \<not> (128 \<le> (of_char (hd s) :: nat) \<and> (of_char (hd s) :: nat) < 192)"

lemma access_token_code:
  assumes "length random = 32" "utf8_start code"
  shows "AccessToken_code (AccessToken_new random code) = Some code"
  using assms by (cases code) (auto simp: AccessToken_code_def AccessToken_new_def str_get_from_def
      is_char_boundary_def utf8_start_def nth_append)

text \<open>
  What the crates promise: base64 and JSON are inverted by their decoders, times of a token are sent
  in whole seconds, and a token is accepted for a key that verifies its signature, provided that issuer and
  audience are among the demanded ones where these are demanded.
\<close>

definition whole_seconds :: "datetime \<Rightarrow> datetime" where
  "whole_seconds t = t div seconds 1 * seconds 1"

definition jws :: "jose \<Rightarrow> json \<Rightarrow> json \<Rightarrow> bytes \<Rightarrow> jwt" where
  "jws jo header claims sig =
     (jo_base64url jo (as_bytes header) @ ''.'' @ jo_base64url jo (as_bytes claims)) @ ''.'' @ jo_base64url jo sig"

definition jws_verifies :: "crypto \<Rightarrow> jose \<Rightarrow> verifying_key \<Rightarrow> json \<Rightarrow> json \<Rightarrow> bytes \<Rightarrow> bool" where
  "jws_verifies c jo key header claims sig \<longleftrightarrow> (\<exists>s. signature_try_from c sig = Some s \<and>
     p256_verify c key (as_bytes (jo_base64url jo (as_bytes header) @ ''.'' @ jo_base64url jo (as_bytes claims))) s)"

definition jose_ok :: "crypto \<Rightarrow> jose \<Rightarrow> bool" where
  "jose_ok c jo \<longleftrightarrow>
     (\<forall>bs. jo_base64url_decode jo (jo_base64url jo bs) = Some bs) \<and>
     (\<forall>h. \<exists>j. jo_header_to_json jo h = Some j) \<and> (\<forall>p. \<exists>j. jo_dpop_to_json jo p = Some j) \<and>
     (\<forall>p. \<exists>j. jo_pop_to_json jo p = Some j) \<and>
     (\<forall>h hj cj sig. jo_header_to_json jo h = Some hj \<longrightarrow> jo_decode_header jo (jws jo hj cj sig) = Some h) \<and>
     (\<forall>h p hj pj sig key. jo_header_to_json jo h = Some hj \<longrightarrow> hd_alg h = ES256 \<longrightarrow> jo_dpop_to_json jo p = Some pj \<longrightarrow>
        jws_verifies c jo key hj pj sig \<longrightarrow>
        jo_decode_dpop jo (jws jo hj pj sig) key \<lparr>jv_required_spec_claims = [], jv_iss = None, jv_aud = None\<rparr> =
          Some (h, p\<lparr>dp_iat := whole_seconds (dp_iat p)\<rparr>)) \<and>
     (\<forall>h p hj pj sig key isss auds. jo_header_to_json jo h = Some hj \<longrightarrow> hd_alg h = ES256 \<longrightarrow> jo_pop_to_json jo p = Some pj \<longrightarrow>
        jws_verifies c jo key hj pj sig \<longrightarrow> pj_iss p \<in> set isss \<longrightarrow> pj_aud p \<in> set auds \<longrightarrow>
        jo_decode_pop jo (jws jo hj pj sig) key \<lparr>jv_required_spec_claims = [], jv_iss = Some isss, jv_aud = Some auds\<rparr> =
          Some (h, p\<lparr>pj_iat := whole_seconds (pj_iat p)\<rparr>))"

lemma jose_okD:
  assumes "jose_ok c jo"
  shows "jo_base64url_decode jo (jo_base64url jo bs) = Some bs"
    "\<exists>j. jo_header_to_json jo h = Some j" "\<exists>j. jo_dpop_to_json jo p = Some j" "\<exists>j. jo_pop_to_json jo q = Some j"
    "jo_header_to_json jo h = Some hj \<Longrightarrow> jo_decode_header jo (jws jo hj cj sig) = Some h"
    "\<lbrakk>jo_header_to_json jo h = Some hj; hd_alg h = ES256; jo_dpop_to_json jo p = Some pj; jws_verifies c jo key hj pj sig\<rbrakk> \<Longrightarrow>
       jo_decode_dpop jo (jws jo hj pj sig) key \<lparr>jv_required_spec_claims = [], jv_iss = None, jv_aud = None\<rparr> =
         Some (h, p\<lparr>dp_iat := whole_seconds (dp_iat p)\<rparr>)"
    "\<lbrakk>jo_header_to_json jo h = Some hj; hd_alg h = ES256; jo_pop_to_json jo q = Some pj; jws_verifies c jo key hj pj sig;
       pj_iss q \<in> set isss; pj_aud q \<in> set auds\<rbrakk> \<Longrightarrow>
       jo_decode_pop jo (jws jo hj pj sig) key \<lparr>jv_required_spec_claims = [], jv_iss = Some isss, jv_aud = Some auds\<rparr> =
         Some (h, q\<lparr>pj_iat := whole_seconds (pj_iat q)\<rparr>)"
  using assms unfolding jose_ok_def by metis+

text \<open>A key whose public part is a point of the curve, and that signs every message.\<close>

definition working_key :: "crypto \<Rightarrow> ecdsa_key \<Rightarrow> verifying_key \<Rightarrow> bool" where
  "working_key c key pub \<longleftrightarrow> key_verifying key = Some pub \<and> curve_point c pub \<and>
     p256_key_pair c pub (key_sign key) \<and> (\<forall>msg. \<exists>sig. key_sign key msg = Some sig)"

lemma jwk_roundtrip:
  assumes "jose_ok c jo" "curve_point c key"
  obtains jwk where "jwk_from_p256 c jo key = Ok jwk" "jwk_to_p256 c jo jwk = Ok key"
  using assms(2) jose_okD(1) [OF assms(1)] that unfolding curve_point_def
  by (auto simp: jwk_from_p256_def jwk_to_p256_def field_bytes_def)

lemma jwk_jwt_header_Ok:
  assumes "jose_ok c jo" "curve_point c key"
  obtains jwk where "jwk_jwt_header c jo typ (Some key) = Ok \<lparr>hd_typ = Some typ, hd_alg = ES256, hd_jwk = Some jwk\<rparr>"
    "jwk_to_p256 c jo jwk = Ok key"
proof (rule jwk_roundtrip [OF assms])
  fix jwk assume "jwk_from_p256 c jo key = Ok jwk" "jwk_to_p256 c jo jwk = Ok key"
  then show thesis by (intro that [of jwk]) (simp_all add: jwk_jwt_header_def)
qed

lemma Jwt_sign_Ok:
  "Jwt_sign (jo_base64url jo) payload header priv = Ok j \<longleftrightarrow>
     (\<exists>hj pj sig. header = Some hj \<and> payload = Some pj \<and> j = jws jo hj pj sig \<and>
        priv (as_bytes (jo_base64url jo (as_bytes hj) @ ''.'' @ jo_base64url jo (as_bytes pj))) = Some sig)"
  by (auto simp: Jwt_sign_def Let_def result_simps jws_def)

text \<open>A proof made with a working key is accepted, for that key, at the URL and method it was made for.\<close>

lemma Dpop_new_verifies:
  assumes jo: "jose_ok c jo" and key: "working_key c key pub"
  obtains d where "Dpop_new c jo jti now key url method token nonce = Ok d"
    "nonce = None \<Longrightarrow> Dpop_verify c jo d url method token = Ok pub"
    "Dpop_verify_expecting_key c jo d pub url method token nonce = Ok ()"
proof -
  from key have k: "key_verifying key = Some pub" "curve_point c pub" "p256_key_pair c pub (key_sign key)"
    "\<And>msg. \<exists>sig. key_sign key msg = Some sig" by (auto simp: working_key_def)
  from jwk_jwt_header_Ok [OF jo k(2), of OPENID4VCI_DPOP_JWT_TYPE] obtain jwk where
    h: "jwk_jwt_header c jo OPENID4VCI_DPOP_JWT_TYPE (Some pub) =
        Ok \<lparr>hd_typ = Some OPENID4VCI_DPOP_JWT_TYPE, hd_alg = ES256, hd_jwk = Some jwk\<rparr>"
    and jwk: "jwk_to_p256 c jo jwk = Ok pub" .
  let ?h = "\<lparr>hd_typ = Some OPENID4VCI_DPOP_JWT_TYPE, hd_alg = ES256, hd_jwk = Some jwk\<rparr>"
  let ?p = "\<lparr>dp_http_url = url, dp_http_method = method, dp_access_token_hash = map_option (AccessToken_sha256 c) token,
    dp_nonce = nonce, dp_jti = jti, dp_iat = now\<rparr>"
  obtain hj pj where j: "jo_header_to_json jo ?h = Some hj" "jo_dpop_to_json jo ?p = Some pj"
    using jose_okD(2,3) [OF jo] by meson
  obtain sig where sig: "key_sign key (as_bytes (jo_base64url jo (as_bytes hj) @ ''.'' @ jo_base64url jo (as_bytes pj))) = Some sig"
    using k(4) by blast
  let ?d = "jws jo hj pj sig"
  have "Jwt_sign (jo_base64url jo) (jo_dpop_to_json jo ?p) (jo_header_to_json jo ?h) (key_sign key) = Ok ?d"
    unfolding Jwt_sign_Ok using j sig by blast
  then have d: "Dpop_new c jo jti now key url method token nonce = Ok ?d"
    by (simp add: Dpop_new_def k(1) h Let_def)
  have v: "jws_verifies c jo pub hj pj sig" using k(3) sig unfolding p256_key_pair_def jws_verifies_def by blast
  have dec: "jo_decode_header jo ?d = Some ?h"
    "Dpop_verify_signature jo ?d pub = Ok (?h, ?p\<lparr>dp_iat := whole_seconds (dp_iat ?p)\<rparr>)"
    using jose_okD(5) [OF jo j(1)] jose_okD(6) [OF jo j(1) _ j(2) v] by (simp_all add: Dpop_verify_signature_def)
  have data: "Dpop_verify_data c (?h, ?p\<lparr>dp_iat := whole_seconds (dp_iat ?p)\<rparr>) url method token nonce = Ok ()"
    by (simp add: Dpop_verify_data_def)
  have "Dpop_verify c jo ?d url method token = Ok pub" if "nonce = None"
    using that dec data jwk by (simp add: Dpop_verify_def)
  moreover have "Dpop_verify_expecting_key c jo ?d pub url method token nonce = Ok ()"
    using dec(2) data jwk by (simp add: Dpop_verify_expecting_key_def)
  ultimately show thesis using that [OF d] by blast
qed


text \<open>Tokens signed by a key factory, one for each key.\<close>

lemma factory_signs_each:
  assumes f: "factory_signs c factory keys" and k: "snd ` set mks \<subseteq> keys"
  obtains sigs where "factory (map (\<lambda>(m, k). (m, [k])) mks) = Some sigs"
    "list_all2 (\<lambda>(m, k) ss. \<exists>s s'. ss = [s] \<and> signature_try_from c s = Some s' \<and> p256_verify c (snd k) m s') mks sigs"
proof -
  let ?msgs = "map (\<lambda>(m, k). (m, [k])) mks"
  have "\<forall>(m, ks)\<in>set ?msgs. set ks \<subseteq> keys" using k by force
  with f obtain sigs where sigs: "factory ?msgs = Some sigs"
    "list_all2 (\<lambda>(m, ks) ss. list_all2 (\<lambda>k s. \<exists>s'. signature_try_from c s = Some s' \<and> p256_verify c (snd k) m s') ks ss) ?msgs sigs"
    unfolding factory_signs_def by blast
  from sigs(2) have "list_all2 (\<lambda>(m, k) ss. \<exists>s s'. ss = [s] \<and> signature_try_from c s = Some s' \<and> p256_verify c (snd k) m s') mks sigs"
    unfolding list_all2_map1 by (rule list_all2_mono) (auto simp: list_all2_Cons1)
  with sigs(1) show thesis by (rule that)
qed

definition token_signed ::
  "crypto \<Rightarrow> jose \<Rightarrow> ('t \<Rightarrow> json option) \<Rightarrow> verifying_key \<Rightarrow> 't \<Rightarrow> jwt_header \<Rightarrow> jwt \<Rightarrow> bool" where
  "token_signed c jo to_json key payload header jwt \<longleftrightarrow> (\<exists>hj pj sig. jo_header_to_json jo header = Some hj \<and>
     to_json payload = Some pj \<and> jwt = jws jo hj pj sig \<and> jws_verifies c jo key hj pj sig)"

lemma sign_jwts_verify:
  assumes jo: "jose_ok c jo" and json: "\<And>p. \<exists>j. to_json p = Some j"
    and f: "factory_signs c factory keys" and k: "fst ` set kms \<subseteq> keys"
  obtains kjs where "sign_jwts jo to_json kms factory = Ok kjs"
    "list_all2 (\<lambda>(k, p, h) (k', j). k' = k \<and> token_signed c jo to_json (snd k) p h j) kms kjs"
proof -
  define msg where "msg p h = jo_base64url jo (as_bytes (the (jo_header_to_json jo h))) @ ''.'' @
    jo_base64url jo (as_bytes (the (to_json p)))" for p h
  let ?print = "\<lambda>(message, header).
     res_bind (ok_or (jo_header_to_json jo header) JwtJsonParsing) (\<lambda>header_json.
     res_bind (ok_or (to_json message) JwtJsonParsing) (\<lambda>message_json.
     Ok (jo_base64url jo (as_bytes header_json) @ ''.'' @ jo_base64url jo (as_bytes message_json)))) :: (_, jwt_error) res"
  have "?print (p, h) = Ok (msg p h)" for p h
    using json [of p] jose_okD(2) [OF jo, of h] by (auto simp: msg_def)
  then have messages: "res_map ?print (map snd kms) = Ok (map (\<lambda>(k, p, h). msg p h) kms)"
    by (induction kms) auto
  let ?mks = "map (\<lambda>(k, p, h). (as_bytes (msg p h), k)) kms"
  have "snd ` set ?mks \<subseteq> keys" using k by force
  from factory_signs_each [OF f this] obtain sigs where sigs: "factory (map (\<lambda>(m, k). (m, [k])) ?mks) = Some sigs"
    "list_all2 (\<lambda>(m, k) ss. \<exists>s s'. ss = [s] \<and> signature_try_from c s = Some s' \<and> p256_verify c (snd k) m s') ?mks sigs" .
  have zip: "zip (map as_bytes (map (\<lambda>(k, p, h). msg p h) kms)) (map (\<lambda>key. [key]) (map fst kms)) =
      map (\<lambda>(m, k). (m, [k])) ?mks"
    by (induction kms) auto
  let ?sign = "\<lambda>((sigs, key), msg).
     res_bind (unwrap (case sigs of [] \<Rightarrow> None | sig # _ \<Rightarrow> Some sig)) (\<lambda>sig.
     Ok (key, msg @ ''.'' @ jo_base64url jo sig)) :: (_, jwt_error) res"
  have token: "token_signed c jo to_json (snd k) p h (msg p h @ ''.'' @ jo_base64url jo s)"
    if "signature_try_from c s = Some s'" "p256_verify c (snd k) (as_bytes (msg p h)) s'" for k :: "string \<times> verifying_key" and p h s s'
    using that json [of p] jose_okD(2) [OF jo, of h]
    by (auto simp: token_signed_def msg_def jws_def jws_verifies_def; blast)
  from sigs(2) have "\<exists>kjs. res_map ?sign (zip (zip sigs (map fst kms)) (map (\<lambda>(k, p, h). msg p h) kms)) = Ok kjs \<and>
      list_all2 (\<lambda>(k, p, h) (k', j). k' = k \<and> token_signed c jo to_json (snd k) p h j) kms kjs"
    unfolding list_all2_map1
  proof (induction rule: list_all2_induct)
    case (Cons km kms ss sigs)
    obtain k p h where km: "km = (k, p, h)" by (cases km)
    with Cons(1) obtain s s' where s: "ss = [s]" "signature_try_from c s = Some s'"
      "p256_verify c (snd k) (as_bytes (msg p h)) s'" by auto
    from Cons.IH token [OF s(2,3)] show ?case using km s(1) by auto
  qed simp
  then show thesis using that messages zip sigs(1)
    by (auto simp: sign_jwts_def Let_def)
qed


section \<open>An encoding of the tokens for examples\<close>

instance elliptic_curve :: countable
  by countable_datatype

instance jwk :: countable
  by countable_datatype

instance format :: countable
  by countable_datatype

instance jwt_algorithm :: countable
  by countable_datatype

instance jwt_header_ext :: (countable) countable
  by (rule countable_by [of "\<lambda>r. (hd_typ r, hd_alg r, hd_jwk r, jwt_header.more r)"]) simp

instance dpop_payload_ext :: (countable) countable
  by (rule countable_by [of "\<lambda>r. (dp_http_url r, dp_http_method r, dp_access_token_hash r, dp_nonce r, dp_jti r, dp_iat r,
      dpop_payload.more r)"]) simp

instance credential_request_proof_jwt_payload_ext :: (countable) countable
  by (rule countable_by [of "\<lambda>r. (pj_iss r, pj_aud r, pj_nonce r, pj_iat r, credential_request_proof_jwt_payload.more r)"]) simp

definition split_dot :: "string \<Rightarrow> string \<times> string" where
  "split_dot s = (takeWhile (\<lambda>c. c \<noteq> CHR ''.'') s, tl (dropWhile (\<lambda>c. c \<noteq> CHR ''.'') s))"

text \<open>Header, claims and signature of a token; each part is decoded from its length.\<close>

definition demo_part :: "string \<Rightarrow> 'a::countable" where
  "demo_part s = from_nat (length (text_decode s :: bytes))"

definition demo_decode :: "crypto \<Rightarrow> jwt \<Rightarrow> verifying_key \<Rightarrow> (jwt_header \<times> 'p::countable) option" where
  "demo_decode c jwt key =
     (let (header, rest) = split_dot jwt; (claims, sig) = split_dot rest in
      if hd_alg (demo_part header :: jwt_header) = ES256 \<and>
         (case signature_try_from c (text_decode sig) of
            Some s \<Rightarrow> p256_verify c key (as_bytes (header @ ''.'' @ claims)) s | None \<Rightarrow> False)
      then Some (demo_part header, demo_part claims) else None)"

definition demo_jose :: "crypto \<Rightarrow> jose" where
  "demo_jose c = \<lparr>jo_base64url = text_encode, jo_base64url_decode = (\<lambda>s. Some (text_decode s)),
     jo_header_to_json = (\<lambda>h. Some (text_encode h)), jo_decode_header = (\<lambda>j. Some (demo_part (fst (split_dot j)))),
     jo_dpop_to_json = (\<lambda>p. Some (text_encode p)),
     jo_decode_dpop = (\<lambda>j k v. map_option (map_prod id (\<lambda>p. p\<lparr>dp_iat := whole_seconds (dp_iat p)\<rparr>)) (demo_decode c j k)),
     jo_pop_to_json = (\<lambda>p. Some (text_encode p)),
     jo_decode_pop = (\<lambda>j k v. Option.bind (demo_decode c j k) (\<lambda>(h, p).
       if (case jv_iss v of Some isss \<Rightarrow> pj_iss p \<in> set isss | None \<Rightarrow> True) \<and>
          (case jv_aud v of Some auds \<Rightarrow> pj_aud p \<in> set auds | None \<Rightarrow> True)
       then Some (h, p\<lparr>pj_iat := whole_seconds (pj_iat p)\<rparr>) else None))\<rparr>"

lemma split_dot_text [simp]: "split_dot (text_encode x @ CHR ''.'' # s) = (text_encode x, s)"
  by (simp add: split_dot_def text_encode_def takeWhile_append dropWhile_append)

lemma demo_part_text [simp]: "demo_part (text_encode (as_bytes (text_encode x))) = x"
  by (simp add: demo_part_def as_bytes_def) (simp add: text_encode_def)

lemma demo_jose_ok: "jose_ok c (demo_jose c)"
  by (auto simp: jose_ok_def demo_jose_def jws_def jws_verifies_def demo_decode_def Let_def)

end
