(* ===== verification/VpMessages.thy ===== *)
theory VpMessages
  imports IssuanceMessages
begin

text \<open>
  Messages of the disclosure protocol OpenID4VP: presentation definitions and submissions
  (\<open>openid4vc/src/presentation_exchange.rs\<close>), authorization requests signed under a certificate and encrypted
  authorization responses (\<open>openid4vc/src/openid4vp.rs\<close>, \<open>openid4vc/src/authorization.rs\<close>,
  \<open>openid4vc/src/jwt.rs\<close>) and the session transcript of \<open>mdoc/src/iso/engagement.rs\<close>.
\<close>

section \<open>Presentation definitions\<close>

datatype format_alg = FormatES256

datatype vp_format = VpMsoMdoc (vp_format_alg: "format_alg list")

datatype limit_disclosure = LimitRequired | LimitPreferred

record pd_field =
  fld_path :: "string list"
  fld_intent_to_retain :: bool

record pd_constraints =
  cst_fields :: "pd_field list"
  cst_limit_disclosure :: limit_disclosure

record input_descriptor =
  ind_id :: string
  ind_format :: vp_format
  ind_constraints :: pd_constraints

record presentation_definition =
  pdef_id :: string
  pdef_input_descriptors :: "input_descriptor list"

datatype pd_conversion_error = TooManyPaths | UnsupportedJsonPathExpression | UnsupportedAlgs

text \<open>
  The regular expression \<open>FIELD_PATH_REGEX\<close>: a dollar sign and two names, each between quotes and in square
  brackets. A name has no quotes, so that there is one way to match.
\<close>

definition is_quote :: "char \<Rightarrow> bool" where
  "is_quote c \<longleftrightarrow> c = CHR 0x27 \<or> c = CHR 0x22"

definition strip_prefix :: "string \<Rightarrow> string \<Rightarrow> string option" where
  "strip_prefix p s = (if take (length p) s = p then Some (drop (length p) s) else None)"

definition quoted_name :: "string \<Rightarrow> (string \<times> string) option" where
  "quoted_name s =
     (case s of
       [] \<Rightarrow> None
     | q # s \<Rightarrow>
         if is_quote q then
           (case dropWhile (\<lambda>c. \<not> is_quote c) s of
             [] \<Rightarrow> None
           | _ # rest \<Rightarrow> Some (takeWhile (\<lambda>c. \<not> is_quote c) s, rest))
         else None)"

definition FIELD_PATH_REGEX :: "string \<Rightarrow> (string \<times> string) option" where
  "FIELD_PATH_REGEX s =
     Option.bind (strip_prefix ''$['' s) (\<lambda>s.
     Option.bind (quoted_name s) (\<lambda>(namespace, s).
     Option.bind (strip_prefix ''][''  s) (\<lambda>s.
     Option.bind (quoted_name s) (\<lambda>(attribute, s).
     if s = '']'' then Some (namespace, attribute) else None))))"

definition parse_paths :: "pd_field \<Rightarrow> (string \<times> string, pd_conversion_error) res" where
  "parse_paths self =
     (if length (fld_path self) \<noteq> 1 then Err TooManyPaths
      else ok_or (FIELD_PATH_REGEX (fld_path self ! 0)) UnsupportedJsonPathExpression)"

definition field_path :: "string \<Rightarrow> string \<Rightarrow> string" where
  "field_path namespace attr = ''$['' @ [CHR 0x27] @ namespace @ [CHR 0x27] @ ''][''  @ [CHR 0x27] @ attr @ [CHR 0x27] @ '']''"

definition PresentationDefinition_from :: "string \<Rightarrow> items_request list \<Rightarrow> presentation_definition" where
  "PresentationDefinition_from random_id requests = \<lparr>pdef_id = random_id,
     pdef_input_descriptors = map (\<lambda>items_request. \<lparr>ind_id = ir_doc_type items_request,
       ind_format = VpMsoMdoc [FormatES256],
       ind_constraints = \<lparr>cst_fields = concat (map (\<lambda>(namespace, attrs). map (\<lambda>(attr, intent_to_retain).
           \<lparr>fld_path = [field_path namespace attr], fld_intent_to_retain = intent_to_retain\<rparr>) attrs)
         (ir_name_spaces items_request)), cst_limit_disclosure = LimitRequired\<rparr>\<rparr>) requests\<rparr>"

text \<open>The loop over the fields of a descriptor: \<open>entry(namespace).or_default().insert(attr, intent)\<close>.\<close>

fun collect_fields ::
  "(name_space \<times> (string \<times> bool) list) list \<Rightarrow> pd_field list
     \<Rightarrow> ((name_space \<times> (string \<times> bool) list) list, pd_conversion_error) res" where
  "collect_fields name_spaces [] = Ok name_spaces"
| "collect_fields name_spaces (field # rest) =
     res_bind (parse_paths field) (\<lambda>(namespace, attr).
     let attrs = (case map_of name_spaces namespace of Some attrs \<Rightarrow> attrs | None \<Rightarrow> []) in
     collect_fields (im_insert namespace (im_insert attr (fld_intent_to_retain field) attrs) name_spaces) rest)"

definition ItemsRequests_try_from :: "presentation_definition \<Rightarrow> (items_request list, pd_conversion_error) res" where
  "ItemsRequests_try_from pd =
     res_map (\<lambda>input_descriptor.
       if FormatES256 \<notin> set (vp_format_alg (ind_format input_descriptor)) then Err UnsupportedAlgs
       else
         res_bind (collect_fields [] (cst_fields (ind_constraints input_descriptor))) (\<lambda>name_spaces.
         Ok \<lparr>ir_doc_type = ind_id input_descriptor, ir_name_spaces = name_spaces, ir_request_info = None\<rparr>))
       (pdef_input_descriptors pd)"

section \<open>Presentation submissions\<close>

record input_descriptor_mapping_object =
  idm_id :: string
  idm_format :: format
  idm_path :: string

record presentation_submission =
  psub_id :: string
  psub_definition_id :: string
  psub_descriptor_map :: "input_descriptor_mapping_object list"

datatype ps_error =
    UnexpectedDescriptorCount nat nat
  | UnexpectedSubmissionId string string
  | UnexpectedInputDescriptorPath string
  | UnexpectedInputDescriptorId string string

fun verify_descriptors :: "(document \<times> input_descriptor_mapping_object) list \<Rightarrow> (unit, ps_error) res" where
  "verify_descriptors [] = Ok ()"
| "verify_descriptors ((doc, input_descriptor) # rest) =
     (if idm_path input_descriptor \<noteq> ''$'' then Err (UnexpectedInputDescriptorPath (idm_path input_descriptor))
      else if idm_id input_descriptor \<noteq> doc_doc_type doc
      then Err (UnexpectedInputDescriptorId (doc_doc_type doc) (idm_id input_descriptor))
      else verify_descriptors rest)"

definition PresentationSubmission_verify ::
  "presentation_submission \<Rightarrow> document list \<Rightarrow> presentation_definition \<Rightarrow> (unit, ps_error) res" where
  "PresentationSubmission_verify self documents presentation_definition =
     (if psub_definition_id self \<noteq> pdef_id presentation_definition
      then Err (UnexpectedSubmissionId (pdef_id presentation_definition) (psub_definition_id self))
      else if length (psub_descriptor_map self) \<noteq> length documents
      then Err (UnexpectedDescriptorCount (length documents) (length (psub_descriptor_map self)))
      else verify_descriptors (zip documents (psub_descriptor_map self)))"

section \<open>Authorization requests\<close>

datatype response_mode = QueryMode | FragmentMode | DirectPost | DirectPostJwt

datatype pkce_code_challenge = PkceS256 string | PkcePlain string

datatype response_type = CodeResponse | VpTokenResponse | IdTokenResponse

record authorization_request =
  areq_response_type :: "response_type list"
  areq_client_id :: string
  areq_redirect_uri :: "url option"
  areq_state :: "string option"
  areq_authorization_details :: "authorization_details list option"
  areq_request_uri :: "string option"
  areq_code_challenge :: "pkce_code_challenge option"
  areq_scope :: "string list option"
  areq_nonce :: "string option"
  areq_response_mode :: "response_mode option"

datatype request_uri_method = UriMethodGet | UriMethodPost

record vp_request_uri_object =
  ruo_request_uri :: url
  ruo_request_uri_method :: "request_uri_method option"
  ruo_client_id :: string

datatype vp_presentation_definition = PdDirect presentation_definition | PdIndirect url

fun pd_direct :: "vp_presentation_definition \<Rightarrow> presentation_definition option" where
  "pd_direct (PdDirect pd) = Some pd"
| "pd_direct (PdIndirect _) = None"

text \<open>A key of the josekit crate; the crate reads its parameters.\<close>

type_synonym jose_jwk = json
type_synonym ec_key_pair = bytes

datatype vp_jwks = JwksDirect "jose_jwk list" | JwksIndirect url

fun jwks_direct :: "vp_jwks \<Rightarrow> jose_jwk list option" where
  "jwks_direct (JwksDirect keys) = Some keys"
| "jwks_direct (JwksIndirect _) = None"

datatype vp_alg_values = EcdhEs
datatype vp_enc_values = A128GCM | A192GCM | A256GCM

fun vp_enc_values_to_string :: "vp_enc_values \<Rightarrow> string" where
  "vp_enc_values_to_string A128GCM = ''A128GCM''"
| "vp_enc_values_to_string A192GCM = ''A192GCM''"
| "vp_enc_values_to_string A256GCM = ''A256GCM''"

record client_metadata =
  cm_jwks :: vp_jwks
  cm_vp_formats :: vp_format
  cm_authorization_encryption_alg_values_supported :: vp_alg_values
  cm_authorization_encryption_enc_values_supported :: vp_enc_values

datatype vp_client_metadata = MetadataDirect client_metadata | MetadataIndirect url

fun metadata_direct :: "vp_client_metadata \<Rightarrow> client_metadata option" where
  "metadata_direct (MetadataDirect c) = Some c"
| "metadata_direct (MetadataIndirect _) = None"

datatype client_id_scheme =
    PreRegistered | RedirectUriScheme | EntityId | Did | VerifierAttestation | X509SanDns | X509SanUri

datatype vp_authorization_request_audience = SelfIssued

fun audience_to_string :: "vp_authorization_request_audience \<Rightarrow> string" where
  "audience_to_string SelfIssued = ''https://self-issued.me/v2''"

record vp_authorization_request =
  vpr_aud :: vp_authorization_request_audience
  vpr_oauth_request :: authorization_request
  vpr_presentation_definition :: vp_presentation_definition
  vpr_client_metadata :: "vp_client_metadata option"
  vpr_client_id_scheme :: "client_id_scheme option"
  vpr_response_uri :: "url option"
  vpr_wallet_nonce :: "string option"

record iso_vp_authorization_request =
  iso_client_id :: string
  iso_nonce :: string
  iso_encryption_pubkey :: jose_jwk
  iso_response_uri :: url
  iso_items_requests :: "items_request list"
  iso_presentation_definition :: presentation_definition
  iso_client_metadata :: client_metadata
  iso_state :: "string option"
  iso_wallet_nonce :: "string option"

section \<open>Environment\<close>

text \<open>
  The header of a token with certificates, the header of an encrypted token, and the crates jsonwebtoken,
  josekit, base64, ciborium and serde_json at the types of this protocol.
\<close>

record x5c_header =
  xh_typ :: "string option"
  xh_alg :: jwt_algorithm
  xh_x5c :: "string list option"

record jwe_header =
  jh_token_type :: "string option"
  jh_agreement_partyuinfo :: "bytes option"
  jh_agreement_partyvinfo :: "bytes option"
  jh_content_encryption :: "string option"

datatype verifiable_presentation = VpDeviceResponse device_response

record vp_authorization_response =
  vres_vp_token :: "verifiable_presentation list"
  vres_presentation_submission :: presentation_submission
  vres_state :: "string option"

record vp_env =
  vpe_disclosure :: disclosure_env
  vpe_base64 :: "bytes \<Rightarrow> string"
  vpe_base64_decode :: "string \<Rightarrow> bytes option"
  vpe_base64url :: "bytes \<Rightarrow> string"
  vpe_header_to_json :: "x5c_header \<Rightarrow> json option"
  vpe_decode_header :: "jwt \<Rightarrow> x5c_header option"
  vpe_request_to_json :: "vp_authorization_request \<Rightarrow> json option"
  vpe_decode_request :: "jwt \<Rightarrow> verifying_key \<Rightarrow> jwt_validation \<Rightarrow> vp_authorization_request option"
  vpe_strings_to_cbor :: "string list \<Rightarrow> bytes option"
  vpe_jwk_parameter :: "jose_jwk \<Rightarrow> string \<Rightarrow> json option"
  vpe_json_as_str :: "json \<Rightarrow> string option"
  vpe_json_from_str :: "string \<Rightarrow> json"
  vpe_jwk_curve :: "jose_jwk \<Rightarrow> string option"
  vpe_response_type_json :: "response_type list \<Rightarrow> json"
  vpe_response_mode_json :: "response_mode option \<Rightarrow> json"
  vpe_client_id_scheme_json :: "client_id_scheme option \<Rightarrow> json"
  vpe_to_jwk_public_key :: "ec_key_pair \<Rightarrow> jose_jwk"
  vpe_encrypter_from_jwk :: "jose_jwk \<Rightarrow> bool"
  vpe_decrypter_from_key :: "ec_key_pair \<Rightarrow> bool"
  vpe_encode_with_encrypter :: "bytes \<Rightarrow> json \<Rightarrow> jwe_header \<Rightarrow> jose_jwk \<Rightarrow> string option"
  vpe_decode_with_decrypter :: "string \<Rightarrow> ec_key_pair \<Rightarrow> (json \<times> jwe_header) option"
  vpe_response_to_json :: "vp_authorization_response \<Rightarrow> json option"
  vpe_response_from_json :: "json \<Rightarrow> vp_authorization_response option"
  vpe_from_utf8 :: "bytes \<Rightarrow> string option"

abbreviation vpe_crypto :: "vp_env \<Rightarrow> crypto" where
  "vpe_crypto env \<equiv> de_crypto (vpe_disclosure env)"

section \<open>Tokens signed under a certificate\<close>

datatype jwt_x5c_error =
    X5cJwt jwt_error
  | X5cMissingCertificates
  | X5cCertificateBase64
  | X5cCertificateValidation certificate_error
  | X5cCertificatePublicKey certificate_error

definition jwt_verify_against_trust_anchors ::
  "vp_env \<Rightarrow> datetime \<Rightarrow> jwt \<Rightarrow> string list \<Rightarrow> trust_anchor list
     \<Rightarrow> (vp_authorization_request \<times> certificate, jwt_x5c_error) res" where
  "jwt_verify_against_trust_anchors env now jwt audience trust_anchors =
     res_bind (ok_or (vpe_decode_header env jwt) (X5cJwt JwtValidation)) (\<lambda>header.
     res_bind (ok_or (xh_x5c header) X5cMissingCertificates) (\<lambda>x5c.
     res_bind (res_map (\<lambda>cert_base64. ok_or (vpe_base64_decode env cert_base64) X5cCertificateBase64) x5c) (\<lambda>certs.
     res_bind (ok_or (if certs = [] then None else Some (last certs)) X5cMissingCertificates) (\<lambda>leaf_cert.
     let intermediate_certs = butlast certs in
     res_bind (map_err X5cCertificateValidation
       (Certificate_verify (vpe_crypto env) leaf_cert ReaderAuth intermediate_certs now trust_anchors)) (\<lambda>_.
     res_bind (map_err X5cCertificatePublicKey (Certificate_public_key (vpe_crypto env) leaf_cert)) (\<lambda>pubkey.
     let validation_options = \<lparr>jv_required_spec_claims = [], jv_iss = None, jv_aud = Some audience\<rparr> in
     res_bind (ok_or (vpe_decode_request env jwt pubkey validation_options) (X5cJwt JwtValidation)) (\<lambda>payload.
     Ok (payload, leaf_cert))))))))"

definition sign_with_certificate ::
  "vp_env \<Rightarrow> vp_authorization_request \<Rightarrow> server_key_pair \<Rightarrow> (jwt, jwt_error) res" where
  "sign_with_certificate env payload keypair =
     (let certs = [vpe_base64 env (kp_certificate keypair)];
          header = \<lparr>xh_typ = Some ''JWT'', xh_alg = ES256, xh_x5c = Some certs\<rparr>
      in Jwt_sign (vpe_base64url env) (vpe_request_to_json env payload) (vpe_header_to_json env header) (kp_private_key keypair))"

section \<open>Validation of an authorization request\<close>

datatype auth_request_validation_error =
    UnexpectedField string
  | ExpectedFieldMissing string
  | UnsupportedFieldValue string string string
  | UriVariantNotSupported string
  | UnexpectedJwkAmount nat
  | UnsupportedJwk string string "json option"
  | VpNoAttributesRequested
  | UnsupportedPresentationDefinition pd_conversion_error
  | UnauthorizedClientId string string
  | RequestMissingSAN
  | RequestCertificateParsing certificate_error
  | JwtVerification jwt_x5c_error
  | WalletNonceMismatch

definition JwePublicKey_validate :: "vp_env \<Rightarrow> jose_jwk \<Rightarrow> (unit, auth_request_validation_error) res" where
  "JwePublicKey_validate env jwk =
     (if Option.bind (vpe_jwk_parameter env jwk ''kty'') (vpe_json_as_str env) \<noteq> Some ''EC''
      then Err (UnsupportedJwk ''kty'' ''EC'' (vpe_jwk_parameter env jwk ''kty''))
      else if vpe_jwk_curve env jwk \<noteq> Some ''P-256''
      then Err (UnsupportedJwk ''crv'' ''P-256'' (map_option (vpe_json_from_str env) (vpe_jwk_curve env jwk)))
      else Ok ())"

definition IsoVpAuthorizationRequest_try_from ::
  "vp_env \<Rightarrow> vp_authorization_request \<Rightarrow> (iso_vp_authorization_request, auth_request_validation_error) res" where
  "IsoVpAuthorizationRequest_try_from env vp_auth_request =
     (let oauth_request = vpr_oauth_request vp_auth_request in
      if areq_authorization_details oauth_request \<noteq> None then Err (UnexpectedField ''authorization_details'')
      else if areq_code_challenge oauth_request \<noteq> None then Err (UnexpectedField ''code_challenge'')
      else if areq_redirect_uri oauth_request \<noteq> None then Err (UnexpectedField ''redirect_uri'')
      else if areq_scope oauth_request \<noteq> None then Err (UnexpectedField ''scope'')
      else if areq_request_uri oauth_request \<noteq> None then Err (UnexpectedField ''request_uri'')
      else
      res_bind (ok_or (areq_nonce oauth_request) (ExpectedFieldMissing ''nonce'')) (\<lambda>nonce.
      res_bind (ok_or (areq_response_mode oauth_request) (ExpectedFieldMissing ''response_mode'')) (\<lambda>response_mode.
      res_bind (ok_or (vpr_client_id_scheme vp_auth_request) (ExpectedFieldMissing ''client_id_scheme'')) (\<lambda>client_id_scheme.
      res_bind (ok_or (vpr_response_uri vp_auth_request) (ExpectedFieldMissing ''response_uri'')) (\<lambda>response_uri.
      res_bind (ok_or (vpr_client_metadata vp_auth_request) (ExpectedFieldMissing ''client_metadata'')) (\<lambda>client_metadata.
      if areq_response_type oauth_request \<noteq> [VpTokenResponse]
      then Err (UnsupportedFieldValue ''response_type'' ''vp_token'' (vpe_response_type_json env (areq_response_type oauth_request)))
      else if response_mode \<noteq> DirectPostJwt
      then Err (UnsupportedFieldValue ''response_mode'' ''direct_post.jwt'' (vpe_response_mode_json env (Some response_mode)))
      else if client_id_scheme \<noteq> X509SanDns
      then Err (UnsupportedFieldValue ''client_id_scheme'' ''x509_san_dns'' (vpe_client_id_scheme_json env (Some client_id_scheme)))
      else
      res_bind (ok_or (pd_direct (vpr_presentation_definition vp_auth_request))
        (UriVariantNotSupported ''presentation_definition'')) (\<lambda>presentation_definition.
      res_bind (ok_or (metadata_direct client_metadata) (UriVariantNotSupported ''client_metadata'')) (\<lambda>client_metadata.
      res_bind (ok_or (jwks_direct (cm_jwks client_metadata)) (UriVariantNotSupported ''presentation_definition'')) (\<lambda>jwks.
      if length jwks \<noteq> 1 then Err (UnexpectedJwkAmount (length jwks))
      else
      let jwk = hd jwks in
      res_bind (JwePublicKey_validate env jwk) (\<lambda>_.
      if list_all (\<lambda>i. cst_fields (ind_constraints i) = []) (pdef_input_descriptors presentation_definition)
      then Err VpNoAttributesRequested
      else
      res_bind (map_err UnsupportedPresentationDefinition (ItemsRequests_try_from presentation_definition)) (\<lambda>items.
      Ok \<lparr>iso_client_id = areq_client_id oauth_request, iso_nonce = nonce, iso_encryption_pubkey = jwk,
          iso_response_uri = response_uri, iso_items_requests = items, iso_presentation_definition = presentation_definition,
          iso_client_metadata = client_metadata, iso_state = areq_state oauth_request,
          iso_wallet_nonce = vpr_wallet_nonce vp_auth_request\<rparr>)))))))))))"

definition VpAuthorizationRequest_verify ::
  "vp_env \<Rightarrow> datetime \<Rightarrow> jwt \<Rightarrow> trust_anchor list \<Rightarrow> string option
     \<Rightarrow> (iso_vp_authorization_request \<times> certificate, auth_request_validation_error) res" where
  "VpAuthorizationRequest_verify env now jwt trust_anchors wallet_nonce =
     res_bind (map_err JwtVerification
       (jwt_verify_against_trust_anchors env now jwt [audience_to_string SelfIssued] trust_anchors)) (\<lambda>(auth_request, rp_cert).
     res_bind (map_err RequestCertificateParsing (san_dns_name (vpe_crypto env) rp_cert)) (\<lambda>san.
     res_bind (ok_or san RequestMissingSAN) (\<lambda>dns_san.
     if dns_san \<noteq> areq_client_id (vpr_oauth_request auth_request)
     then Err (UnauthorizedClientId (areq_client_id (vpr_oauth_request auth_request)) dns_san)
     else if wallet_nonce \<noteq> vpr_wallet_nonce auth_request then Err WalletNonceMismatch
     else
     res_bind (IsoVpAuthorizationRequest_try_from env auth_request) (\<lambda>validated_auth_request.
     Ok (validated_auth_request, rp_cert)))))"

section \<open>Making an authorization request\<close>

datatype auth_request_error = AuthRequestCertificateParsing certificate_error | AuthRequestMissingSAN

definition IsoVpAuthorizationRequest_new ::
  "vp_env \<Rightarrow> string \<Rightarrow> items_request list \<Rightarrow> certificate \<Rightarrow> string \<Rightarrow> jose_jwk \<Rightarrow> url \<Rightarrow> string option
     \<Rightarrow> (iso_vp_authorization_request, auth_request_error) res" where
  "IsoVpAuthorizationRequest_new env random_id requests rp_certificate nonce encryption_pubkey response_uri wallet_nonce =
     res_bind (map_err AuthRequestCertificateParsing (san_dns_name (vpe_crypto env) rp_certificate)) (\<lambda>san.
     res_bind (ok_or san AuthRequestMissingSAN) (\<lambda>client_id.
     Ok \<lparr>iso_client_id = client_id, iso_nonce = nonce, iso_encryption_pubkey = encryption_pubkey,
         iso_response_uri = response_uri, iso_items_requests = requests,
         iso_presentation_definition = PresentationDefinition_from random_id requests,
         iso_client_metadata = \<lparr>cm_jwks = JwksDirect [encryption_pubkey], cm_vp_formats = VpMsoMdoc [FormatES256],
           cm_authorization_encryption_alg_values_supported = EcdhEs,
           cm_authorization_encryption_enc_values_supported = A128GCM\<rparr>,
         iso_state = None, iso_wallet_nonce = wallet_nonce\<rparr>))"

definition VpAuthorizationRequest_from :: "iso_vp_authorization_request \<Rightarrow> vp_authorization_request" where
  "VpAuthorizationRequest_from value = \<lparr>vpr_aud = SelfIssued,
     vpr_oauth_request = \<lparr>areq_response_type = [VpTokenResponse], areq_client_id = iso_client_id value, areq_redirect_uri = None,
       areq_state = None, areq_authorization_details = None, areq_request_uri = None, areq_code_challenge = None,
       areq_scope = None, areq_nonce = Some (iso_nonce value), areq_response_mode = Some DirectPostJwt\<rparr>,
     vpr_presentation_definition = PdDirect (iso_presentation_definition value),
     vpr_client_metadata = Some (MetadataDirect (iso_client_metadata value)), vpr_client_id_scheme = Some X509SanDns,
     vpr_response_uri = Some (iso_response_uri value), vpr_wallet_nonce = iso_wallet_nonce value\<rparr>"

section \<open>Authorization responses\<close>

datatype auth_response_error =
    ResponseJson
  | ResponseJwkConversion
  | ResponseJwe
  | NonceIncorrect
  | StateIncorrect "string option" "string option"
  | ResponseBase64
  | MissingApu
  | MissingApv
  | ResponseUtf8
  | ResponseVerification mdoc_error
  | ResponseMissingAttributes mdoc_error
  | UnexpectedVpCount nat
  | PresentationSubmissionError ps_error

definition new_oid4vp :: "vp_env \<Rightarrow> url \<Rightarrow> string \<Rightarrow> string \<Rightarrow> string \<Rightarrow> (session_transcript, 'e) res" where
  "new_oid4vp env response_uri client_id nonce mdoc_nonce =
     res_bind (unwrap (vpe_strings_to_cbor env [client_id, mdoc_nonce])) (\<lambda>client_id_cbor.
     res_bind (unwrap (vpe_strings_to_cbor env [response_uri, mdoc_nonce])) (\<lambda>response_uri_cbor.
     Ok \<lparr>st_device_engagement_bytes = None, st_ereader_key_bytes = None,
         st_handover = Oid4vpHandover (sha256 (vpe_crypto env) client_id_cbor) (sha256 (vpe_crypto env) response_uri_cbor) nonce\<rparr>))"

definition VpAuthorizationResponse_new ::
  "string \<Rightarrow> device_response \<Rightarrow> iso_vp_authorization_request \<Rightarrow> (vp_authorization_response, 'e) res" where
  "VpAuthorizationResponse_new random_id device_response auth_request =
     res_bind (unwrap (dr_documents device_response)) (\<lambda>documents.
     let presentation_submission = \<lparr>psub_id = random_id, psub_definition_id = pdef_id (iso_presentation_definition auth_request),
       psub_descriptor_map = map (\<lambda>doc. \<lparr>idm_id = doc_doc_type doc, idm_format = MsoMdoc, idm_path = ''$''\<rparr>) documents\<rparr>
     in Ok \<lparr>vres_vp_token = [VpDeviceResponse device_response], vres_presentation_submission = presentation_submission,
       vres_state = iso_state auth_request\<rparr>)"

definition VpAuthorizationResponse_encrypt ::
  "vp_env \<Rightarrow> bytes \<Rightarrow> vp_authorization_response \<Rightarrow> iso_vp_authorization_request \<Rightarrow> string \<Rightarrow> (string, auth_response_error) res" where
  "VpAuthorizationResponse_encrypt env random self auth_request mdoc_nonce =
     (let header = \<lparr>jh_token_type = Some ''JWT'', jh_agreement_partyuinfo = Some (as_bytes mdoc_nonce),
            jh_agreement_partyvinfo = Some (as_bytes (iso_nonce auth_request)),
            jh_content_encryption = Some (vp_enc_values_to_string
              (cm_authorization_encryption_enc_values_supported (iso_client_metadata auth_request)))\<rparr> in
      res_bind (ok_or (vpe_response_to_json env self) ResponseJson) (\<lambda>payload.
      if \<not> vpe_encrypter_from_jwk env (iso_encryption_pubkey auth_request) then Err ResponseJwkConversion
      else ok_or (vpe_encode_with_encrypter env random payload header (iso_encryption_pubkey auth_request)) ResponseJwe))"

definition new_encrypted ::
  "vp_env \<Rightarrow> string \<Rightarrow> bytes \<Rightarrow> device_response \<Rightarrow> iso_vp_authorization_request \<Rightarrow> string \<Rightarrow> (string, auth_response_error) res" where
  "new_encrypted env random_id random device_response auth_request mdoc_nonce =
     res_bind (VpAuthorizationResponse_new random_id device_response auth_request) (\<lambda>response.
     VpAuthorizationResponse_encrypt env random response auth_request mdoc_nonce)"

definition VpAuthorizationResponse_decrypt ::
  "vp_env \<Rightarrow> string \<Rightarrow> ec_key_pair \<Rightarrow> string \<Rightarrow> (vp_authorization_response \<times> string, auth_response_error) res" where
  "VpAuthorizationResponse_decrypt env jwe private_key nonce =
     (if \<not> vpe_decrypter_from_key env private_key then Err ResponseJwkConversion
      else
      res_bind (ok_or (vpe_decode_with_decrypter env jwe private_key) ResponseJwe) (\<lambda>(payload, header).
      res_bind (ok_or (jh_agreement_partyvinfo header) MissingApv) (\<lambda>apv.
      res_bind (ok_or (vpe_from_utf8 env apv) ResponseUtf8) (\<lambda>jwe_nonce.
      if nonce \<noteq> jwe_nonce then Err NonceIncorrect
      else
      res_bind (ok_or (jh_agreement_partyuinfo header) MissingApu) (\<lambda>apu.
      res_bind (ok_or (vpe_from_utf8 env apu) ResponseUtf8) (\<lambda>mdoc_nonce.
      res_bind (ok_or (vpe_response_from_json env payload) ResponseJson) (\<lambda>payload.
      Ok (payload, mdoc_nonce))))))))"

definition vres_device_response :: "vp_authorization_response \<Rightarrow> (device_response, auth_response_error) res" where
  "vres_device_response self =
     (if length (vres_vp_token self) \<noteq> 1 then Err (UnexpectedVpCount (length (vres_vp_token self)))
      else case hd (vres_vp_token self) of VpDeviceResponse device_response \<Rightarrow> Ok device_response)"

definition VpAuthorizationResponse_verify ::
  "vp_env \<Rightarrow> vp_authorization_response \<Rightarrow> iso_vp_authorization_request \<Rightarrow> string \<Rightarrow> clock \<Rightarrow> trust_anchor list
     \<Rightarrow> (disclosed_attributes, auth_response_error) res" where
  "VpAuthorizationResponse_verify env self auth_request mdoc_nonce time trust_anchors =
     res_bind (new_oid4vp env (iso_response_uri auth_request) (iso_client_id auth_request) (iso_nonce auth_request) mdoc_nonce)
       (\<lambda>session_transcript.
     res_bind (vres_device_response self) (\<lambda>device_response.
     res_bind (map_err ResponseVerification
       (DeviceResponse_verify (vpe_disclosure env) device_response None session_transcript time trust_anchors)) (\<lambda>disclosed_attrs.
     res_bind (map_err ResponseMissingAttributes
       (match_against_response (iso_items_requests auth_request) device_response)) (\<lambda>_.
     res_bind (unwrap (dr_documents device_response)) (\<lambda>documents.
     res_bind (map_err PresentationSubmissionError
       (PresentationSubmission_verify (vres_presentation_submission self) documents (iso_presentation_definition auth_request))) (\<lambda>_.
     if vres_state self \<noteq> iso_state auth_request then Err (StateIncorrect (iso_state auth_request) (vres_state self))
     else Ok disclosed_attrs))))))"

definition decrypt_and_verify ::
  "vp_env \<Rightarrow> string \<Rightarrow> ec_key_pair \<Rightarrow> iso_vp_authorization_request \<Rightarrow> clock \<Rightarrow> trust_anchor list
     \<Rightarrow> (disclosed_attributes, auth_response_error) res" where
  "decrypt_and_verify env jwe private_key auth_request time trust_anchors =
     res_bind (VpAuthorizationResponse_decrypt env jwe private_key (iso_nonce auth_request)) (\<lambda>(response, mdoc_nonce).
     VpAuthorizationResponse_verify env response auth_request mdoc_nonce time trust_anchors)"

end
