(* ===== verification/VpExchange.thy ===== *)
theory VpExchange
  imports VpMessages
begin

text \<open>
  What the messages of OpenID4VP carry from one side to the other: which requests survive the presentation
  definition, that a request signed by a relying party is accepted by a wallet that trusts it, and that a response is
  decrypted to what was encrypted.
\<close>

section \<open>Paths of fields\<close>

definition no_quotes :: "string \<Rightarrow> bool" where
  "no_quotes s \<longleftrightarrow> (\<forall>c\<in>set s. \<not> is_quote c)"

abbreviation quotes :: "string \<Rightarrow> nat" where
  "quotes s \<equiv> length (filter is_quote s)"

lemma is_quote_simps [simp]:
  "is_quote CHR 0x27" "\<not> is_quote CHR ''['' " "\<not> is_quote CHR '']''" "\<not> is_quote CHR ''$''"
  by (simp_all add: is_quote_def)

lemma quotes_none: "no_quotes s \<longleftrightarrow> quotes s = 0"
  by (auto simp: no_quotes_def filter_empty_conv)

lemma strip_prefix_append [simp]: "strip_prefix p (p @ s) = Some s"
  by (simp add: strip_prefix_def)

lemma strip_prefix_SomeD: "strip_prefix p s = Some r \<Longrightarrow> s = p @ r"
  by (auto simp: strip_prefix_def split: if_splits) (metis append_take_drop_id)

lemma quoted_name_quoted:
  "no_quotes name \<Longrightarrow> quoted_name (CHR 0x27 # name @ CHR 0x27 # rest) = Some (name, rest)"
  by (simp add: quoted_name_def no_quotes_def takeWhile_append dropWhile_append)

lemma quoted_name_quotes:
  assumes "quoted_name s = Some (name, rest)"
  shows "quotes s = 2 + quotes rest" "no_quotes name"
proof -
  from assms obtain q t r where s: "s = q # t" "is_quote q" "dropWhile (\<lambda>c. \<not> is_quote c) t = r # rest"
    "name = takeWhile (\<lambda>c. \<not> is_quote c) t"
    by (auto simp: quoted_name_def split: list.splits if_splits)
  show n: "no_quotes name" using s(4) by (auto simp: no_quotes_def dest: set_takeWhileD)
  have "t = name @ r # rest" using s(3,4) by (metis takeWhile_dropWhile_id)
  moreover have "is_quote r" using s(3) by (metis hd_dropWhile list.distinct(1) list.sel(1))
  ultimately show "quotes s = 2 + quotes rest" using s(1,2) n by (simp add: quotes_none)
qed

lemma field_path_parsed:
  "no_quotes namespace \<Longrightarrow> no_quotes attr \<Longrightarrow> FIELD_PATH_REGEX (field_path namespace attr) = Some (namespace, attr)"
proof -
  assume "no_quotes namespace" "no_quotes attr"
  note q = this [THEN quoted_name_quoted]
  show ?thesis unfolding FIELD_PATH_REGEX_def field_path_def
    using q(1) [of "''][''  @ [CHR 0x27] @ attr @ [CHR 0x27] @ '']''"] q(2) [of "'']''"]
    by (simp add: strip_prefix_def)
qed

lemma FIELD_PATH_REGEX_quotes:
  assumes "FIELD_PATH_REGEX s = Some x"
  shows "quotes s = 4"
proof -
  from assms obtain s1 n1 s2 s3 n2 where s: "s = ''$['' @ s1" "quoted_name s1 = Some (n1, s2)" "s2 = ''][''  @ s3"
    "quoted_name s3 = Some (n2, '']'')"
    by (auto simp: FIELD_PATH_REGEX_def bind_eq_Some_conv dest!: strip_prefix_SomeD split: if_splits)
  show ?thesis using quoted_name_quotes(1) [OF s(2)] quoted_name_quotes(1) [OF s(4)] by (simp add: s(1,3))
qed

lemma field_path_unparsed:
  assumes "FIELD_PATH_REGEX (field_path namespace attr) = Some x"
  shows "no_quotes namespace \<and> no_quotes attr"
  using FIELD_PATH_REGEX_quotes [OF assms] by (simp add: field_path_def quotes_none)

section \<open>Requests in a presentation definition\<close>

text \<open>
  The requests that a presentation definition can express: no extra information, at least one attribute in every name
  space, and names without quotes.
\<close>

definition request_printable :: "items_request \<Rightarrow> bool" where
  "request_printable r \<longleftrightarrow> ir_request_info r = None \<and>
     (\<forall>(namespace, attrs)\<in>set (ir_name_spaces r). attrs \<noteq> [] \<and> no_quotes namespace \<and> (\<forall>(attr, _)\<in>set attrs. no_quotes attr))"

text \<open>The keys of an index map are distinct.\<close>

definition request_maps :: "items_request \<Rightarrow> bool" where
  "request_maps r \<longleftrightarrow> distinct (im_keys (ir_name_spaces r)) \<and> (\<forall>(namespace, attrs)\<in>set (ir_name_spaces r). distinct (im_keys attrs))"

abbreviation attr_field :: "string \<Rightarrow> string \<times> bool \<Rightarrow> pd_field" where
  "attr_field namespace \<equiv> \<lambda>(attr, intent). \<lparr>fld_path = [field_path namespace attr], fld_intent_to_retain = intent\<rparr>"

abbreviation request_fields :: "(name_space \<times> (string \<times> bool) list) list \<Rightarrow> pd_field list" where
  "request_fields nss \<equiv> concat (map (\<lambda>(namespace, attrs). map (attr_field namespace) attrs) nss)"

lemma parse_attr_field:
  "no_quotes namespace \<Longrightarrow> no_quotes attr \<Longrightarrow> parse_paths (attr_field namespace (attr, b)) = Ok (namespace, attr)"
  by (simp add: parse_paths_def field_path_parsed)

lemma im_insert_last: "k \<notin> set (im_keys m) \<Longrightarrow> im_insert k v (m @ [(k, v')]) = m @ [(k, v)]"
  by (induction m) auto

lemma collect_name_space:
  assumes "no_quotes namespace" "\<forall>(attr, _)\<in>set attrs. no_quotes attr" "namespace \<notin> set (im_keys m)"
    "distinct (im_keys (pre @ attrs))"
  shows "collect_fields (m @ [(namespace, pre)]) (map (attr_field namespace) attrs @ rest) =
    collect_fields (m @ [(namespace, pre @ attrs)]) rest"
  using assms
proof (induction attrs arbitrary: pre)
  case (Cons a attrs)
  obtain attr b where a: "a = (attr, b)" by (cases a)
  have "map_of m namespace = None" using Cons.prems(3) by (simp add: map_of_eq_None_iff)
  then have "map_of (m @ [(namespace, pre)]) namespace = Some pre" by (simp add: map_add_def)
  moreover have "im_insert attr b pre = pre @ [(attr, b)]" using Cons.prems(4) a by (intro im_insert_new) auto
  moreover have "parse_paths (attr_field namespace (attr, b)) = Ok (namespace, attr)"
    using Cons.prems(1,2) a by (intro parse_attr_field) auto
  ultimately have "collect_fields (m @ [(namespace, pre)]) (map (attr_field namespace) (a # attrs) @ rest) =
      collect_fields (m @ [(namespace, pre @ [(attr, b)])]) (map (attr_field namespace) attrs @ rest)"
    using Cons.prems(3) by (simp add: a im_insert_last)
  also have "\<dots> = collect_fields (m @ [(namespace, (pre @ [(attr, b)]) @ attrs)]) rest"
    by (rule Cons.IH) (use Cons.prems a in auto)
  finally show ?case by (simp add: a)
qed simp

lemma collect_name_spaces:
  assumes "\<forall>(namespace, attrs)\<in>set nss. attrs \<noteq> [] \<and> no_quotes namespace \<and> (\<forall>(attr, _)\<in>set attrs. no_quotes attr) \<and> distinct (im_keys attrs)"
    "distinct (im_keys (m @ nss))"
  shows "collect_fields m (request_fields nss) = Ok (m @ nss)"
  using assms
proof (induction nss arbitrary: m)
  case (Cons x nss)
  obtain namespace attr b attrs where x: "x = (namespace, (attr, b) # attrs)"
    using Cons.prems(1) by (cases x; cases "snd x") auto
  have new: "namespace \<notin> set (im_keys m)" using Cons.prems(2) x by auto
  have "parse_paths (attr_field namespace (attr, b)) = Ok (namespace, attr)"
    using Cons.prems(1) x by (intro parse_attr_field) auto
  moreover have "map_of m namespace = None" using new by (simp add: map_of_eq_None_iff)
  ultimately have "collect_fields m (request_fields (x # nss)) =
      collect_fields (m @ [(namespace, [(attr, b)])]) (map (attr_field namespace) attrs @ request_fields nss)"
    using new by (simp add: x im_insert_new)
  also have "\<dots> = collect_fields (m @ [(namespace, [(attr, b)] @ attrs)]) (request_fields nss)"
    by (rule collect_name_space) (use Cons.prems(1) new x in auto)
  also have "\<dots> = Ok ((m @ [x]) @ nss)"
    using Cons.IH [of "m @ [x]"] Cons.prems x by auto
  finally show ?case by simp
qed simp

lemma collect_fields_parsed:
  assumes "collect_fields m fs = Ok m'" "f \<in> set fs"
  shows "\<exists>x. parse_paths f = Ok x"
  using assms
proof (induction m fs rule: collect_fields.induct)
  case (2 m f' fs)
  then show ?case by (auto simp: result_simps Let_def split: prod.splits)
qed simp

lemma im_insert_values: "\<forall>(n, attrs)\<in>set m. attrs \<noteq> [] \<Longrightarrow> v \<noteq> [] \<Longrightarrow> \<forall>(n, attrs)\<in>set (im_insert k v m). attrs \<noteq> []"
  by (induction k v m rule: im_insert.induct) auto

lemma collect_fields_nonempty:
  assumes "collect_fields m fs = Ok m'" "\<forall>(n, attrs)\<in>set m. attrs \<noteq> []"
  shows "\<forall>(n, attrs)\<in>set m'. attrs \<noteq> []"
  using assms
proof (induction fs arbitrary: m)
  case (Cons f fs)
  then obtain n a where c: "collect_fields (im_insert n (im_insert a (fld_intent_to_retain f)
      (case map_of m n of Some attrs \<Rightarrow> attrs | None \<Rightarrow> [])) m) fs = Ok m'"
    by (auto simp: result_simps Let_def)
  have "im_insert k v m \<noteq> []" for k :: string and v :: bool and m by (cases m) (auto split: if_splits)
  then show ?case by (intro Cons.IH [OF c] im_insert_values Cons.prems(2))
qed simp

lemma descriptor_roundtrip:
  assumes "request_maps r"
  shows "(res_bind (collect_fields [] (request_fields (ir_name_spaces r))) (\<lambda>name_spaces.
      Ok \<lparr>ir_doc_type = ir_doc_type r, ir_name_spaces = name_spaces, ir_request_info = None\<rparr>) = Ok r) \<longleftrightarrow> request_printable r"
    (is "?lhs \<longleftrightarrow> _")
proof
  assume ?lhs
  then obtain nss where nss: "collect_fields [] (request_fields (ir_name_spaces r)) = Ok nss"
    and r: "r = \<lparr>ir_doc_type = ir_doc_type r, ir_name_spaces = nss, ir_request_info = None\<rparr>" by (auto simp: res_bind_eq_Ok)
  have eq: "ir_name_spaces r = nss" "ir_request_info r = None" using r by (metis items_request.select_convs(2,3))+
  have "attrs \<noteq> [] \<and> no_quotes namespace \<and> (\<forall>(attr, _)\<in>set attrs. no_quotes attr)" if m: "(namespace, attrs) \<in> set nss" for namespace attrs
  proof -
    have ne: "attrs \<noteq> []" using collect_fields_nonempty [OF nss] m by auto
    have "no_quotes namespace \<and> no_quotes attr" if "(attr, b) \<in> set attrs" for attr b
    proof -
      have "attr_field namespace (attr, b) \<in> set (request_fields nss)" using m that by force
      with collect_fields_parsed [OF nss [unfolded eq(1)]] obtain x where "parse_paths (attr_field namespace (attr, b)) = Ok x" by blast
      then show ?thesis by (intro field_path_unparsed) (auto simp: parse_paths_def ok_or_eq_Ok)
    qed
    with ne show ?thesis by (cases attrs) auto
  qed
  then show "request_printable r" using eq unfolding request_printable_def by blast
next
  assume p: "request_printable r"
  have "collect_fields [] (request_fields (ir_name_spaces r)) = Ok ([] @ ir_name_spaces r)"
    by (rule collect_name_spaces) (use p assms in \<open>auto simp: request_printable_def request_maps_def\<close>)
  then show ?lhs using p by (simp add: request_printable_def)
qed

lemma requests_roundtrip:
  assumes "\<forall>r\<in>set requests. request_maps r"
  shows "ItemsRequests_try_from (PresentationDefinition_from random_id requests) = Ok requests \<longleftrightarrow>
    (\<forall>r\<in>set requests. request_printable r)"
  using assms
proof (induction requests)
  case (Cons r requests)
  let ?conv = "\<lambda>r. res_bind (collect_fields [] (request_fields (ir_name_spaces r))) (\<lambda>name_spaces.
      Ok \<lparr>ir_doc_type = ir_doc_type r, ir_name_spaces = name_spaces, ir_request_info = None\<rparr>)"
  have split: "ItemsRequests_try_from (PresentationDefinition_from random_id (r # requests)) =
      res_bind (?conv r) (\<lambda>y. res_bind (ItemsRequests_try_from (PresentationDefinition_from random_id requests)) (\<lambda>ys. Ok (y # ys)))"
    by (simp add: ItemsRequests_try_from_def PresentationDefinition_from_def)
  have "ItemsRequests_try_from (PresentationDefinition_from random_id (r # requests)) = Ok (r # requests) \<longleftrightarrow>
      ?conv r = Ok r \<and> ItemsRequests_try_from (PresentationDefinition_from random_id requests) = Ok requests"
    unfolding split by (auto simp: res_bind_eq_Ok)
  then show ?case using Cons descriptor_roundtrip [of r] by simp
qed (simp add: ItemsRequests_try_from_def PresentationDefinition_from_def)

text \<open>
  C23: Converting a request to a presentation definition and back yields the same request exactly when
  every name space asks for an attribute, no name has a quote and there is no extra information.
\<close>

theorem presentation_definition_roundtrip:
  assumes "\<forall>r\<in>set requests. request_maps r"
  shows "ItemsRequests_try_from (PresentationDefinition_from random_id requests) = Ok requests \<longleftrightarrow>
    (\<forall>r\<in>set requests. request_printable r)"
  by (rule requests_roundtrip [OF assms])

theorem presentation_definition_roundtrip_witness:
  "ItemsRequests_try_from (PresentationDefinition_from ''id'' [demo_request [(''a'', True), (''b'', False)]]) =
      Ok [demo_request [(''a'', True), (''b'', False)]] \<and>
    ItemsRequests_try_from (PresentationDefinition_from ''id'' [demo_request [([CHR 0x27], True)]]) \<noteq>
      Ok [demo_request [([CHR 0x27], True)]]"
proof -
  have m: "\<forall>r\<in>set [demo_request [(''a'', True), (''b'', False)]]. request_maps r" "\<forall>r\<in>set [demo_request [([CHR 0x27], True)]]. request_maps r"
    by (simp_all add: demo_request_def request_maps_def)
  have "request_printable (demo_request [(''a'', True), (''b'', False)])" "\<not> request_printable (demo_request [([CHR 0x27], True)])"
    by (simp_all add: demo_request_def request_printable_def no_quotes_def is_quote_def)
  then show ?thesis using presentation_definition_roundtrip [OF m(1), of "''id''"] presentation_definition_roundtrip [OF m(2), of "''id''"] by simp
qed

section \<open>What the crates promise\<close>

text \<open>
  A token as it is sent, and that a signature is on it. Standard base64, JSON and CBOR are inverted by
  their decoders, and a token is accepted for a key that verifies its signature and the audience it is for.
\<close>

definition vp_jws :: "vp_env \<Rightarrow> json \<Rightarrow> json \<Rightarrow> bytes \<Rightarrow> jwt" where
  "vp_jws env header claims sig =
     (vpe_base64url env (as_bytes header) @ ''.'' @ vpe_base64url env (as_bytes claims)) @ ''.'' @ vpe_base64url env sig"

definition vp_jws_verifies :: "vp_env \<Rightarrow> verifying_key \<Rightarrow> json \<Rightarrow> json \<Rightarrow> bytes \<Rightarrow> bool" where
  "vp_jws_verifies env key header claims sig \<longleftrightarrow> (\<exists>s. signature_try_from (vpe_crypto env) sig = Some s \<and>
     p256_verify (vpe_crypto env) key (as_bytes (vpe_base64url env (as_bytes header) @ ''.'' @ vpe_base64url env (as_bytes claims))) s)"

definition is_ascii :: "string \<Rightarrow> bool" where
  "is_ascii s \<longleftrightarrow> (\<forall>c\<in>set s. of_char c < (128 :: nat))"

definition vp_codec_ok :: "vp_env \<Rightarrow> bool" where
  "vp_codec_ok env \<longleftrightarrow>
     (\<forall>bs. vpe_base64_decode env (vpe_base64 env bs) = Some bs) \<and>
     (\<forall>h. \<exists>j. vpe_header_to_json env h = Some j) \<and> (\<forall>r. \<exists>j. vpe_request_to_json env (VpAuthorizationRequest_from r) = Some j) \<and>
     (\<forall>h hj cj sig. vpe_header_to_json env h = Some hj \<longrightarrow> vpe_decode_header env (vp_jws env hj cj sig) = Some h) \<and>
     (\<forall>h r hj rj sig key. vpe_header_to_json env h = Some hj \<longrightarrow> xh_alg h = ES256 \<longrightarrow>
        vpe_request_to_json env (VpAuthorizationRequest_from r) = Some rj \<longrightarrow> vp_jws_verifies env key hj rj sig \<longrightarrow>
        vpe_decode_request env (vp_jws env hj rj sig) key \<lparr>jv_required_spec_claims = [], jv_iss = None,
          jv_aud = Some [audience_to_string SelfIssued]\<rparr> = Some (VpAuthorizationRequest_from r)) \<and>
     (\<forall>xs. vpe_strings_to_cbor env xs \<noteq> None) \<and>
     (\<forall>r. \<exists>j. vpe_response_to_json env r = Some j \<and> vpe_response_from_json env j = Some r) \<and>
     (\<forall>s. is_ascii s \<longrightarrow> vpe_from_utf8 env (as_bytes s) = Some s)"

lemma vp_codec_okD:
  assumes "vp_codec_ok env"
  shows "vpe_base64_decode env (vpe_base64 env bs) = Some bs"
    "\<exists>j. vpe_header_to_json env h = Some j" "\<exists>j. vpe_request_to_json env (VpAuthorizationRequest_from r) = Some j"
    "vpe_header_to_json env h = Some hj \<Longrightarrow> vpe_decode_header env (vp_jws env hj cj sig) = Some h"
    "\<lbrakk>vpe_header_to_json env h = Some hj; xh_alg h = ES256; vpe_request_to_json env (VpAuthorizationRequest_from r) = Some rj;
       vp_jws_verifies env key hj rj sig\<rbrakk> \<Longrightarrow> vpe_decode_request env (vp_jws env hj rj sig) key
         \<lparr>jv_required_spec_claims = [], jv_iss = None, jv_aud = Some [audience_to_string SelfIssued]\<rparr> = Some (VpAuthorizationRequest_from r)"
    "\<exists>b. vpe_strings_to_cbor env xs = Some b"
    "\<exists>j. vpe_response_to_json env q = Some j \<and> vpe_response_from_json env j = Some q"
    "is_ascii s \<Longrightarrow> vpe_from_utf8 env (as_bytes s) = Some s"
  using assms unfolding vp_codec_ok_def by auto

text \<open>A key pair for the encryption of responses: an elliptic curve key to which every response is encrypted.\<close>

definition jwe_key_ok :: "vp_env \<Rightarrow> ec_key_pair \<Rightarrow> bool" where
  "jwe_key_ok env k \<longleftrightarrow> JwePublicKey_validate env (vpe_to_jwk_public_key env k) = Ok () \<and>
     vpe_encrypter_from_jwk env (vpe_to_jwk_public_key env k) \<and> vpe_decrypter_from_key env k \<and>
     (\<forall>random p h. \<exists>jwe. vpe_encode_with_encrypter env random p h (vpe_to_jwk_public_key env k) = Some jwe \<and>
        vpe_decode_with_decrypter env jwe k = Some (p, h))"

section \<open>A request from relying party to wallet\<close>

lemma iso_request_roundtrip:
  assumes "IsoVpAuthorizationRequest_new env random_id requests cert nonce key uri wallet_nonce = Ok areq"
    and key: "JwePublicKey_validate env key = Ok ()"
    and requests: "\<forall>r\<in>set requests. request_maps r \<and> request_printable r" "\<exists>r\<in>set requests. ir_name_spaces r \<noteq> []"
  shows "IsoVpAuthorizationRequest_try_from env (VpAuthorizationRequest_from areq) = Ok areq"
proof -
  let ?pd = "PresentationDefinition_from random_id requests"
  have pd: "ItemsRequests_try_from ?pd = Ok requests"
    using requests(1) by (subst requests_roundtrip) auto
  from requests obtain r namespace attrs where r: "r \<in> set requests" "(namespace, attrs) \<in> set (ir_name_spaces r)" "attrs \<noteq> []"
    by (auto simp: request_printable_def neq_Nil_conv) fastforce
  have "\<not> list_all (\<lambda>i. cst_fields (ind_constraints i) = []) (pdef_input_descriptors ?pd)"
    using r by (force simp: PresentationDefinition_from_def list_all_iff)
  then show ?thesis using assms(1) key pd
    by (auto simp: IsoVpAuthorizationRequest_new_def IsoVpAuthorizationRequest_try_from_def VpAuthorizationRequest_from_def result_simps)
qed

lemma signed_request_verifies:
  assumes c: "vp_codec_ok env" and cert: "Certificate_verify (vpe_crypto env) (kp_certificate kp) ReaderAuth [] now anchors = Ok ()"
    "Certificate_public_key (vpe_crypto env) (kp_certificate kp) = Ok key" "p256_key_pair (vpe_crypto env) key (kp_private_key kp)"
    "\<And>m. kp_private_key kp m \<noteq> None"
  obtains jwt where "sign_with_certificate env (VpAuthorizationRequest_from areq) kp = Ok jwt"
    "jwt_verify_against_trust_anchors env now jwt [audience_to_string SelfIssued] anchors =
       Ok (VpAuthorizationRequest_from areq, kp_certificate kp)"
proof -
  let ?h = "\<lparr>xh_typ = Some ''JWT'', xh_alg = ES256, xh_x5c = Some [vpe_base64 env (kp_certificate kp)]\<rparr>"
  obtain hj rj where j: "vpe_header_to_json env ?h = Some hj" "vpe_request_to_json env (VpAuthorizationRequest_from areq) = Some rj"
    using vp_codec_okD(2,3) [OF c] by meson
  let ?msg = "vpe_base64url env (as_bytes hj) @ ''.'' @ vpe_base64url env (as_bytes rj)"
  obtain sig where sig: "kp_private_key kp (as_bytes ?msg) = Some sig" using cert(4) by blast
  have "sign_with_certificate env (VpAuthorizationRequest_from areq) kp = Ok (vp_jws env hj rj sig)"
    using j sig by (simp add: sign_with_certificate_def Jwt_sign_def Let_def vp_jws_def)
  moreover have v: "vp_jws_verifies env key hj rj sig"
    using cert(3) sig unfolding p256_key_pair_def vp_jws_verifies_def by blast
  have "vpe_decode_request env (vp_jws env hj rj sig) key \<lparr>jv_required_spec_claims = [], jv_iss = None,
      jv_aud = Some [audience_to_string SelfIssued]\<rparr> = Some (VpAuthorizationRequest_from areq)"
    by (rule vp_codec_okD(5) [OF c j(1) _ j(2) v]) simp
  then have "jwt_verify_against_trust_anchors env now (vp_jws env hj rj sig) [audience_to_string SelfIssued] anchors =
      Ok (VpAuthorizationRequest_from areq, kp_certificate kp)"
    using vp_codec_okD(4) [OF c j(1)] vp_codec_okD(1) [OF c] cert(1,2)
    by (simp add: jwt_verify_against_trust_anchors_def)
  ultimately show thesis by (rule that)
qed

lemma new_request_verifies:
  assumes c: "vp_codec_ok env" and cert: "Certificate_verify (vpe_crypto env) (kp_certificate kp) ReaderAuth [] now anchors = Ok ()"
    "Certificate_public_key (vpe_crypto env) (kp_certificate kp) = Ok key" "p256_key_pair (vpe_crypto env) key (kp_private_key kp)"
    "\<And>m. kp_private_key kp m \<noteq> None"
    and areq: "IsoVpAuthorizationRequest_new env random_id requests (kp_certificate kp) nonce (vpe_to_jwk_public_key env k) uri wallet_nonce = Ok areq"
    and k: "jwe_key_ok env k"
    and requests: "\<forall>r\<in>set requests. request_maps r \<and> request_printable r" "\<exists>r\<in>set requests. ir_name_spaces r \<noteq> []"
  obtains jwt where "sign_with_certificate env (VpAuthorizationRequest_from areq) kp = Ok jwt"
    "VpAuthorizationRequest_verify env now jwt anchors wallet_nonce = Ok (areq, kp_certificate kp)"
proof (rule signed_request_verifies [OF c cert, of areq])
  fix jwt assume jwt: "sign_with_certificate env (VpAuthorizationRequest_from areq) kp = Ok jwt"
    "jwt_verify_against_trust_anchors env now jwt [audience_to_string SelfIssued] anchors =
       Ok (VpAuthorizationRequest_from areq, kp_certificate kp)"
  have "IsoVpAuthorizationRequest_try_from env (VpAuthorizationRequest_from areq) = Ok areq"
    by (rule iso_request_roundtrip [OF areq _ requests]) (use k in \<open>simp add: jwe_key_ok_def\<close>)
  moreover have "san_dns_name (vpe_crypto env) (kp_certificate kp) = Ok (Some (iso_client_id areq))" "iso_wallet_nonce areq = wallet_nonce"
    using areq by (auto simp: IsoVpAuthorizationRequest_new_def result_simps)
  ultimately have "VpAuthorizationRequest_verify env now jwt anchors wallet_nonce = Ok (areq, kp_certificate kp)"
    using jwt(2) by (simp add: VpAuthorizationRequest_verify_def) (simp add: VpAuthorizationRequest_from_def)
  then show thesis by (rule that [OF jwt(1)])
qed

section \<open>A response from wallet to relying party\<close>

lemma new_response_decrypts:
  assumes c: "vp_codec_ok env" and k: "jwe_key_ok env k" "iso_encryption_pubkey areq = vpe_to_jwk_public_key env k"
    and docs: "dr_documents dr = Some docs" and ascii: "is_ascii (iso_nonce areq)" "is_ascii mdoc_nonce"
  obtains jwe resp where "new_encrypted env random_id random dr areq mdoc_nonce = Ok jwe"
    "VpAuthorizationResponse_new random_id dr areq = (Ok resp :: (_, auth_response_error) res)"
    "VpAuthorizationResponse_decrypt env jwe k (iso_nonce areq) = Ok (resp, mdoc_nonce)"
proof -
  obtain resp where resp: "VpAuthorizationResponse_new random_id dr areq = (Ok resp :: (_, auth_response_error) res)"
    using docs by (simp add: VpAuthorizationResponse_new_def)
  obtain j where j: "vpe_response_to_json env resp = Some j" "vpe_response_from_json env j = Some resp"
    using vp_codec_okD(7) [OF c] by blast
  let ?h = "\<lparr>jh_token_type = Some ''JWT'', jh_agreement_partyuinfo = Some (as_bytes mdoc_nonce),
    jh_agreement_partyvinfo = Some (as_bytes (iso_nonce areq)), jh_content_encryption = Some (vp_enc_values_to_string
      (cm_authorization_encryption_enc_values_supported (iso_client_metadata areq)))\<rparr>"
  obtain jwe where jwe: "vpe_encode_with_encrypter env random j ?h (vpe_to_jwk_public_key env k) = Some jwe"
    "vpe_decode_with_decrypter env jwe k = Some (j, ?h)"
    using k(1) unfolding jwe_key_ok_def by blast
  have "new_encrypted env random_id random dr areq mdoc_nonce = Ok jwe"
    using resp j(1) jwe(1) k by (simp add: new_encrypted_def VpAuthorizationResponse_encrypt_def jwe_key_ok_def)
  moreover have "VpAuthorizationResponse_decrypt env jwe k (iso_nonce areq) = Ok (resp, mdoc_nonce)"
    using jwe(2) j(2) k(1) vp_codec_okD(8) [OF c] ascii by (simp add: VpAuthorizationResponse_decrypt_def jwe_key_ok_def)
  ultimately show thesis using that resp by blast
qed

lemma verify_descriptors_Ok:
  "verify_descriptors ds = Ok () \<longleftrightarrow> (\<forall>(doc, d)\<in>set ds. idm_path d = ''$'' \<and> idm_id d = doc_doc_type doc)"
  by (induction ds rule: verify_descriptors.induct) auto

lemma PresentationSubmission_verify_Ok:
  "PresentationSubmission_verify s docs pd = Ok () \<longleftrightarrow> psub_definition_id s = pdef_id pd \<and>
     length (psub_descriptor_map s) = length docs \<and>
     (\<forall>(doc, d)\<in>set (zip docs (psub_descriptor_map s)). idm_path d = ''$'' \<and> idm_id d = doc_doc_type doc)"
  by (auto simp: PresentationSubmission_verify_def verify_descriptors_Ok)

lemma new_response_verifies:
  assumes resp: "VpAuthorizationResponse_new random_id dr areq = (Ok resp :: (_, auth_response_error) res)"
    and st: "new_oid4vp env (iso_response_uri areq) (iso_client_id areq) (iso_nonce areq) mdoc_nonce = (Ok st :: (_, auth_response_error) res)"
    and ok: "DeviceResponse_verify (vpe_disclosure env) dr None st time anchors = Ok attrs"
      "match_against_response (iso_items_requests areq) dr = Ok ()"
  shows "VpAuthorizationResponse_verify env resp areq mdoc_nonce time anchors = Ok attrs"
proof -
  from resp obtain docs where docs: "dr_documents dr = Some docs" "vres_vp_token resp = [VpDeviceResponse dr]" "vres_state resp = iso_state areq"
    and sub: "vres_presentation_submission resp = \<lparr>psub_id = random_id, psub_definition_id = pdef_id (iso_presentation_definition areq),
       psub_descriptor_map = map (\<lambda>doc. \<lparr>idm_id = doc_doc_type doc, idm_format = MsoMdoc, idm_path = ''$''\<rparr>) docs\<rparr>"
    by (auto simp: VpAuthorizationResponse_new_def result_simps)
  have "PresentationSubmission_verify (vres_presentation_submission resp) docs (iso_presentation_definition areq) = Ok ()"
    by (auto simp: PresentationSubmission_verify_Ok sub zip_map2 set_zip)
  then show ?thesis using st ok docs by (simp add: VpAuthorizationResponse_verify_def vres_device_response_def)
qed

lemma VpAuthorizationResponse_verify_Ok:
  assumes "VpAuthorizationResponse_verify env resp areq mdoc_nonce time anchors = Ok attrs"
  obtains st dr where "new_oid4vp env (iso_response_uri areq) (iso_client_id areq) (iso_nonce areq) mdoc_nonce = (Ok st :: (_, auth_response_error) res)"
    "DeviceResponse_verify (vpe_disclosure env) dr None st time anchors = Ok attrs" "match_against_response (iso_items_requests areq) dr = Ok ()"
  using assms by (auto simp: VpAuthorizationResponse_verify_def result_simps split: if_splits)

section \<open>A key set by reference\<close>

text \<open>A request that names its keys by \<open>jwks_uri\<close> is refused for a \<open>presentation_definition_uri\<close> it does not have.\<close>

lemma jwks_uri_is_misreported:
  assumes "IsoVpAuthorizationRequest_try_from env r = Ok areq" "vpr_client_metadata r = Some (MetadataDirect cm)"
  shows "IsoVpAuthorizationRequest_try_from env (r\<lparr>vpr_client_metadata := Some (MetadataDirect (cm\<lparr>cm_jwks := JwksIndirect uri\<rparr>))\<rparr>) =
    Err (UriVariantNotSupported ''presentation_definition'')"
  using assms by (auto simp: IsoVpAuthorizationRequest_try_from_def Let_def result_simps split: if_splits)

end
