(* ===== verification/IssuanceMetadata.thy ===== *)
theory IssuanceMetadata
  imports IssuanceMessages
begin

text \<open>
  What an issuer publishes about itself (\<open>openid4vc/src/metadata.rs\<close>, \<open>openid4vc/src/oidc/config.rs\<close> and
  the metadata of \<open>Issuer::new\<close>), and the HTTP messages between a wallet and an issuer.
\<close>

section \<open>HTTP messages\<close>

text \<open>
  A request with the values of its headers \<open>DPoP\<close> and \<open>Authorization\<close>, and a response with the values of
  its header \<open>DPoP-Nonce\<close>. Bodies are text.
\<close>

record http_request =
  hr_method :: string
  hr_url :: url
  hr_dpop :: "bytes list"
  hr_authorization :: "bytes list"
  hr_body :: string

record http_response =
  hs_status :: nat
  hs_dpop_nonce :: "bytes list"
  hs_body :: string

definition is_client_error :: "nat \<Rightarrow> bool" where
  "is_client_error status \<longleftrightarrow> 400 \<le> status \<and> status < 500"

definition is_server_error :: "nat \<Rightarrow> bool" where
  "is_server_error status \<longleftrightarrow> 500 \<le> status \<and> status < 600"

definition DPOP_HEADER_NAME :: string where
  "DPOP_HEADER_NAME = ''DPoP''"

section \<open>Metadata of an issuer\<close>

record credential_response_encryption =
  cre_alg_values_supported :: "string list"
  cre_enc_values_supported :: "string list"
  cre_encryption_required :: bool

record name_locale =
  nl_name :: "string option"
  nl_locale :: "string option"

record logo =
  lg_uri :: url
  lg_alt_text :: "string option"

record issuer_display =
  idp_name_locale :: name_locale
  idp_logo :: "logo option"

record mso_mdoc_claim =
  mc_mandatory :: "bool option"
  mc_value_type :: "string option"
  mc_display :: "name_locale list option"

datatype credential_format =
    FormatMsoMdoc doc_type "(string \<times> (string \<times> mso_mdoc_claim) list) list" "string list option"
  | FormatOther json

datatype cryptographic_binding_method = BindingJwk | BindingCoseKey | BindingOther string
datatype credential_signing_alg = CredentialES256 | CredentialAlgOther string
datatype proof_type = ProofTypeJwt | ProofTypeCwt | ProofTypeLdpVp | ProofTypeOther string
datatype proof_signing_alg = ProofES256 | ProofAlgOther string

record proof_type_data =
  ptd_proof_signing_alg_values_supported :: "proof_signing_alg list"

record background_image =
  bi_uri :: url

record credential_display =
  cdp_name :: string
  cdp_locale :: "string option"
  cdp_logo :: "logo option"
  cdp_description :: "string option"
  cdp_background_color :: "string option"
  cdp_background_image :: "background_image option"
  cdp_text_color :: "string option"

record credential_metadata =
  cmd_format :: credential_format
  cmd_scope :: "string option"
  cmd_cryptographic_binding_methods_supported :: "cryptographic_binding_method list option"
  cmd_credential_signing_alg_values_supported :: "credential_signing_alg list option"
  cmd_proof_types_supported :: "(proof_type \<times> proof_type_data) list option"
  cmd_display :: "credential_display list option"

record issuer_config =
  cfg_credential_issuer :: url
  cfg_authorization_servers :: "url list option"
  cfg_credential_endpoint :: url
  cfg_batch_credential_endpoint :: "url option"
  cfg_deferred_credential_endpoint :: "url option"
  cfg_notification_endpoint :: "url option"
  cfg_credential_response_encryption :: credential_response_encryption
  cfg_credential_identifiers_supported :: "bool option"
  cfg_display :: "issuer_display list option"
  cfg_credential_configurations_supported :: "(string \<times> credential_metadata) list"

record issuer_metadata =
  imd_issuer_config :: issuer_config
  imd_signed_metadata :: "jwt option"

definition authorization_servers :: "issuer_config \<Rightarrow> url list" where
  "authorization_servers self = (case cfg_authorization_servers self of
     Some authservers \<Rightarrow> if authservers \<noteq> [] then authservers else [cfg_credential_issuer self]
   | None \<Rightarrow> [cfg_credential_issuer self])"

text \<open>The metadata of \<open>Issuer::new\<close>.\<close>

definition IssuerMetadata_new :: "url_ops \<Rightarrow> url \<Rightarrow> (issuer_metadata, 'e) res" where
  "IssuerMetadata_new urls server_url =
     res_bind (join_base_url urls server_url ''issuance/'') (\<lambda>issuer_url.
     res_bind (join_base_url urls issuer_url ''/credential'') (\<lambda>credential_endpoint.
     res_bind (join_base_url urls issuer_url ''/batch_credential'') (\<lambda>batch_credential_endpoint.
     Ok \<lparr>imd_issuer_config = \<lparr>cfg_credential_issuer = issuer_url, cfg_authorization_servers = None,
           cfg_credential_endpoint = credential_endpoint,
           cfg_batch_credential_endpoint = Some batch_credential_endpoint, cfg_deferred_credential_endpoint = None,
           cfg_notification_endpoint = None,
           cfg_credential_response_encryption = \<lparr>cre_alg_values_supported = [], cre_enc_values_supported = [],
             cre_encryption_required = False\<rparr>,
           cfg_credential_identifiers_supported = Some False, cfg_display = None,
           cfg_credential_configurations_supported = []\<rparr>,
         imd_signed_metadata = None\<rparr>)))"

text \<open>
  The configuration of an OpenID server; an \<open>IndexSet\<close> is a list without duplicates.
\<close>

record oidc_config =
  oc_issuer :: url
  oc_authorization_endpoint :: url
  oc_token_endpoint :: url
  oc_userinfo_endpoint :: "url option"
  oc_jwks_uri :: url
  oc_registration_endpoint :: "url option"
  oc_scopes_supported :: "string list option"
  oc_response_types_supported :: "string list"
  oc_response_modes_supported :: "string list option"
  oc_grant_types_supported :: "string list option"
  oc_acr_values_supported :: "string list option"
  oc_subject_types_supported :: "string list"
  oc_id_token_signing_alg_values_supported :: "string list"
  oc_id_token_encryption_alg_values_supported :: "string list option"
  oc_id_token_encryption_enc_values_supported :: "string list option"
  oc_userinfo_signing_alg_values_supported :: "string list option"
  oc_userinfo_encryption_alg_values_supported :: "string list option"
  oc_userinfo_encryption_enc_values_supported :: "string list option"
  oc_request_object_signing_alg_values_supported :: "string list option"
  oc_request_object_encryption_alg_values_supported :: "string list option"
  oc_request_object_encryption_enc_values_supported :: "string list option"
  oc_token_endpoint_auth_methods_supported :: "string list option"
  oc_token_endpoint_auth_signing_alg_values_supported :: "string list option"
  oc_display_values_supported :: "string list option"
  oc_claim_types_supported :: "string list option"
  oc_claims_supported :: "string list option"
  oc_service_documentation :: "url option"
  oc_claims_locales_supported :: "string list option"
  oc_ui_locales_supported :: "string list option"
  oc_claims_parameter_supported :: bool
  oc_request_parameter_supported :: bool
  oc_request_uri_parameter_supported :: bool
  oc_require_request_uri_registration :: bool
  oc_op_policy_uri :: "url option"
  oc_op_tos_uri :: "url option"
  oc_code_challenge_methods_supported :: "string list option"

lemma authorization_servers_nonempty [simp]: "authorization_servers cfg \<noteq> []"
  by (simp add: authorization_servers_def split: option.splits)

section \<open>Error responses\<close>

record 't error_response =
  er_error :: 't
  er_error_description :: "string option"
  er_error_uri :: "url option"

datatype credential_error_code =
    CecInvalidCredentialRequest | CecUnsupportedCredentialType | CecUnsupportedCredentialFormat | CecInvalidProof
  | CecInvalidEncryptionParameters | CecInvalidRequest | CecInvalidToken | CecInsufficientScope | CecServerError

fun credential_error_status :: "credential_error_code \<Rightarrow> nat" where
  "credential_error_status CecInvalidCredentialRequest = 400"
| "credential_error_status CecUnsupportedCredentialType = 400"
| "credential_error_status CecUnsupportedCredentialFormat = 400"
| "credential_error_status CecInvalidProof = 400"
| "credential_error_status CecInvalidEncryptionParameters = 400"
| "credential_error_status CecInvalidRequest = 400"
| "credential_error_status CecServerError = 500"
| "credential_error_status CecInvalidToken = 401"
| "credential_error_status CecInsufficientScope = 403"

datatype token_error_code =
    TecInvalidRequest | TecInvalidClient | TecInvalidGrant | TecUnauthorizedClient | TecUnsupportedGrantType
  | TecInvalidScope | TecAuthorizationPending | TecSlowDown | TecServerError

fun token_error_status :: "token_error_code \<Rightarrow> nat" where
  "token_error_status TecInvalidRequest = 400"
| "token_error_status TecInvalidGrant = 400"
| "token_error_status TecUnauthorizedClient = 400"
| "token_error_status TecUnsupportedGrantType = 400"
| "token_error_status TecInvalidScope = 400"
| "token_error_status TecAuthorizationPending = 400"
| "token_error_status TecSlowDown = 400"
| "token_error_status TecInvalidClient = 401"
| "token_error_status TecServerError = 500"

lemma error_status_is_error:
  "is_client_error (credential_error_status c) \<or> is_server_error (credential_error_status c)"
  "is_client_error (token_error_status t) \<or> is_server_error (token_error_status t)"
  by (cases c; simp add: is_client_error_def is_server_error_def)
    (cases t; simp add: is_client_error_def is_server_error_def)

end
