(* ===== verification/SessionKeys.thy ===== *)
theory SessionKeys
  imports Encodings
begin

text \<open>
  The encrypted messages of a disclosure session: session keys and their use
  (\<open>mdoc/src/utils/crypto.rs\<close>), the messages (\<open>mdoc/src/iso/disclosure.rs\<close>) and the
  engagements that carry the ephemeral keys of the two sides (\<open>mdoc/src/verifier.rs\<close> and
  \<open>mdoc/src/holder/disclosure/engagement.rs\<close>).
\<close>

section \<open>Messages and their encoding\<close>

record mdoc_session_data =
  sm_data :: "bytes option"
  sm_status :: "mdoc_session_status option"

definition new_encryption_error :: mdoc_session_data where
  "new_encryption_error = \<lparr>sm_data = None, sm_status = Some EncryptionError\<rparr>"

definition new_decoding_error :: mdoc_session_data where
  "new_decoding_error = \<lparr>sm_data = None, sm_status = Some DecodingError\<rparr>"

definition new_termination :: mdoc_session_data where
  "new_termination = \<lparr>sm_data = None, sm_status = Some Termination\<rparr>"

datatype session_key_user = Reader | Device

record session_key =
  sk_key :: bytes
  sk_user :: session_key_user

text \<open>
  AES-GCM with a key and a nonce of the right length, the public key of a secret key, and the CBOR
  codec of the messages of a session.
\<close>

record session_env =
  se_disclosure :: disclosure_env
  aes_encrypt :: "bytes \<Rightarrow> bytes \<Rightarrow> bytes \<Rightarrow> bytes option"
  aes_decrypt :: "bytes \<Rightarrow> bytes \<Rightarrow> bytes \<Rightarrow> bytes option"
  secret_public_key :: "secret_key \<Rightarrow> verifying_key"
  engagement_to_cbor :: "engagement \<Rightarrow> bytes option"
  engagement_from_cbor :: "bytes \<Rightarrow> engagement option"
  message_to_cbor :: "mdoc_session_data \<Rightarrow> bytes option"
  message_from_cbor :: "bytes \<Rightarrow> mdoc_session_data option"
  device_request_to_cbor :: "device_request \<Rightarrow> bytes option"
  device_request_from_cbor :: "bytes \<Rightarrow> device_request option"
  device_response_to_cbor :: "device_response \<Rightarrow> bytes option"
  device_response_from_cbor :: "bytes \<Rightarrow> device_response option"

abbreviation se_crypto :: "session_env \<Rightarrow> crypto" where
  "se_crypto env \<equiv> de_crypto (se_disclosure env)"

section \<open>Keys\<close>

definition Security_try_from :: "crypto \<Rightarrow> verifying_key \<Rightarrow> (security, crypto_error) res" where
  "Security_try_from c key =
     res_bind (CoseKey_try_from c key) (\<lambda>cose_key.
     Ok \<lparr>sec_cipher_suite_identifier = P256, sec_e_sender_key_bytes = cose_key\<rparr>)"

definition PublicKey_try_from :: "crypto \<Rightarrow> security \<Rightarrow> (verifying_key, crypto_error) res" where
  "PublicKey_try_from c value = VerifyingKey_try_from c (sec_e_sender_key_bytes value)"

fun session_key_user_str :: "session_key_user \<Rightarrow> string" where
  "session_key_user_str Reader = ''SKReader''"
| "session_key_user_str Device = ''SKDevice''"

definition SessionKey_new ::
  "disclosure_env \<Rightarrow> secret_key \<Rightarrow> verifying_key \<Rightarrow> session_transcript \<Rightarrow> session_key_user
     \<Rightarrow> (session_key, mdoc_error) res" where
  "SessionKey_new env privkey pubkey session_transcript user =
     (let dh = diffie_hellman (de_crypto env) privkey pubkey in
      res_bind (ok_or (transcript_to_cbor env session_transcript) (Cbor Serialization)) (\<lambda>bytes.
      let salt = sha256 (de_crypto env) bytes in
      res_bind (ok_or (hkdf (de_crypto env) dh salt (session_key_user_str user) 32) (Crypto Hkdf)) (\<lambda>key.
      Ok \<lparr>sk_key = key, sk_user = user\<rparr>)))"

text \<open>The nonce has 12 bytes: the eighth tells the user, the last is the message count.\<close>

definition session_nonce :: "session_key_user \<Rightarrow> bytes" where
  "session_nonce user =
     (let nonce = replicate 12 0;
          nonce = (if user = Device then nonce[7 := 1] else nonce)
      in nonce[11 := 1])"

definition SessionData_encrypt :: "session_env \<Rightarrow> bytes \<Rightarrow> session_key \<Rightarrow> (mdoc_session_data, mdoc_error) res" where
  "SessionData_encrypt env data key =
     res_bind (field_bytes (sk_key key)) (\<lambda>cipher.
     res_bind (ok_or (aes_encrypt env cipher (session_nonce (sk_user key)) data) (Crypto Aes)) (\<lambda>ciphertext.
     Ok \<lparr>sm_data = Some ciphertext, sm_status = None\<rparr>))"

definition serialize_and_encrypt ::
  "session_env \<Rightarrow> ('t \<Rightarrow> bytes option) \<Rightarrow> 't \<Rightarrow> session_key \<Rightarrow> (mdoc_session_data, mdoc_error) res" where
  "serialize_and_encrypt env serialize data key =
     res_bind (ok_or (serialize data) (Cbor Serialization)) (\<lambda>bytes. SessionData_encrypt env bytes key)"

definition SessionData_decrypt :: "session_env \<Rightarrow> mdoc_session_data \<Rightarrow> session_key \<Rightarrow> (bytes, mdoc_error) res" where
  "SessionData_decrypt env self key =
     res_bind (field_bytes (sk_key key)) (\<lambda>cipher.
     res_bind (ok_or (sm_data self) (Crypto MissingCiphertext)) (\<lambda>ciphertext.
     ok_or (aes_decrypt env cipher (session_nonce (sk_user key)) ciphertext) (Crypto Aes)))"

definition decrypt_and_deserialize ::
  "session_env \<Rightarrow> (bytes \<Rightarrow> 't option) \<Rightarrow> mdoc_session_data \<Rightarrow> session_key \<Rightarrow> ('t, mdoc_error) res" where
  "decrypt_and_deserialize env deserialize self key =
     res_bind (SessionData_decrypt env self key) (\<lambda>plaintext.
     ok_or (deserialize plaintext) (Cbor Deserialization))"

section \<open>Engagements\<close>

definition ReaderEngagement_try_new :: "session_env \<Rightarrow> secret_key \<Rightarrow> url \<Rightarrow> (engagement, mdoc_error) res" where
  "ReaderEngagement_try_new env privkey verifier_url =
     res_bind (map_err Crypto (Security_try_from (se_crypto env) (secret_public_key env privkey))) (\<lambda>security.
     Ok \<lparr>en_version = EngagementV1_0, en_security = Some security,
         en_connection_methods = Some [RestApi verifier_url], en_origin_infos = []\<rparr>)"

definition ReaderEngagement_verifier_url :: "engagement \<Rightarrow> (url, mdoc_error) res" where
  "ReaderEngagement_verifier_url self =
     (case en_connection_methods self of
       Some (RestApi uri # _) \<Rightarrow> Ok uri
     | _ \<Rightarrow> Err (Holder VerifierUrlMissing))"

definition verifier_public_key :: "session_env \<Rightarrow> engagement \<Rightarrow> (verifying_key, mdoc_error) res" where
  "verifier_public_key env self =
     res_bind (ok_or (en_security self) (Holder VerifierEphemeralKeyMissing)) (\<lambda>security.
     map_err Crypto (PublicKey_try_from (se_crypto env) security))"

definition transcript_and_keys_for_device_engagement ::
  "session_env \<Rightarrow> engagement \<Rightarrow> session_type \<Rightarrow> engagement \<Rightarrow> secret_key
     \<Rightarrow> (session_transcript \<times> session_key \<times> session_key, mdoc_error) res" where
  "transcript_and_keys_for_device_engagement env self session_type device_engagement device_private_key =
     res_bind (verifier_public_key env self) (\<lambda>verifier_public_key.
     res_bind (ok_or (new_iso session_type self device_engagement) (Holder VerifierEphemeralKeyMissing)) (\<lambda>session_transcript.
     res_bind (SessionKey_new (se_disclosure env) device_private_key verifier_public_key session_transcript Reader) (\<lambda>reader_key.
     res_bind (SessionKey_new (se_disclosure env) device_private_key verifier_public_key session_transcript Device) (\<lambda>device_key.
     Ok (session_transcript, reader_key, device_key)))))"

definition new_device_engagement ::
  "session_env \<Rightarrow> secret_key \<Rightarrow> url \<Rightarrow> (engagement \<times> secret_key, mdoc_error) res" where
  "new_device_engagement env privkey referrer_url =
     res_bind (map_err Crypto (Security_try_from (se_crypto env) (secret_public_key env privkey))) (\<lambda>security.
     Ok (\<lparr>en_version = EngagementV1_0, en_security = Some security, en_connection_methods = None,
          en_origin_infos = [\<lparr>oi_cat = Received, oi_typ = Website referrer_url\<rparr>,
            \<lparr>oi_cat = Delivered, oi_typ = MessageData\<rparr>]\<rparr>, privkey))"

section \<open>Facts about messages and keys\<close>

text \<open>
  What the crates promise: AES-GCM decrypts what it encrypted with a key of 32 bytes, a key derivation
  answers with as many bytes as asked for, the public key of a secret key is a point of the curve, and
  the Diffie-Hellman secrets of two parties agree.
\<close>

definition session_crypto_ok :: "session_env \<Rightarrow> bool" where
  "session_crypto_ok env \<longleftrightarrow>
     (\<forall>key nonce data. length key = 32 \<longrightarrow> length nonce = 12 \<longrightarrow>
        (\<exists>ct. aes_encrypt env key nonce data = Some ct \<and> aes_decrypt env key nonce ct = Some data)) \<and>
     (\<forall>ikm salt info. \<exists>key. hkdf (se_crypto env) ikm salt info 32 = Some key \<and> length key = 32) \<and>
     (\<forall>priv. curve_point (se_crypto env) (secret_public_key env priv)) \<and>
     (\<forall>a b. diffie_hellman (se_crypto env) a (secret_public_key env b) =
        diffie_hellman (se_crypto env) b (secret_public_key env a))"

lemma session_crypto_okD:
  assumes "session_crypto_ok env"
  shows "length key = 32 \<Longrightarrow> length nonce = 12 \<Longrightarrow>
      \<exists>ct. aes_encrypt env key nonce data = Some ct \<and> aes_decrypt env key nonce ct = Some data"
    and "\<exists>key. hkdf (se_crypto env) ikm salt info 32 = Some key \<and> length key = 32"
    and "curve_point (se_crypto env) (secret_public_key env priv)"
    and "diffie_hellman (se_crypto env) a (secret_public_key env b) =
      diffie_hellman (se_crypto env) b (secret_public_key env a)"
  using assms unfolding session_crypto_ok_def by metis+

lemma length_session_nonce [simp]: "length (session_nonce user) = 12"
  by (simp add: session_nonce_def Let_def)

lemma encrypt_decrypt:
  assumes ok: "session_crypto_ok env" and key: "length (sk_key key) = 32" and s: "serialize x = Some bs" "deserialize bs = Some x"
  obtains msg where "serialize_and_encrypt env serialize x key = Ok msg" "sm_status msg = None"
    "decrypt_and_deserialize env deserialize msg key = Ok x"
proof -
  from session_crypto_okD(1) [OF ok key length_session_nonce] obtain ct where "aes_encrypt env (sk_key key) (session_nonce (sk_user key)) bs = Some ct"
    "aes_decrypt env (sk_key key) (session_nonce (sk_user key)) ct = Some bs" by blast
  then show thesis using that [of "\<lparr>sm_data = Some ct, sm_status = None\<rparr>"] s key
    by (simp add: serialize_and_encrypt_def SessionData_encrypt_def decrypt_and_deserialize_def
        SessionData_decrypt_def field_bytes_def)
qed

text \<open>The security element of an engagement gives back the key it was made of.\<close>

lemma security_roundtrip:
  assumes "session_crypto_ok env"
  obtains sec where "Security_try_from (se_crypto env) (secret_public_key env priv) = Ok sec"
    "PublicKey_try_from (se_crypto env) sec = Ok (secret_public_key env priv)"
proof -
  have c: "curve_point (se_crypto env) (secret_public_key env priv)"
    by (rule session_crypto_okD [OF assms])
  from curve_point_cose_key [OF c] obtain k where k: "CoseKey_try_from (se_crypto env) (secret_public_key env priv) = Ok k"
    by blast
  show thesis using that k cose_key_roundtrip [OF c k] by (simp add: Security_try_from_def PublicKey_try_from_def)
qed

text \<open>Both sides derive the same key from their own secret key and the key of the other side.\<close>

lemma session_keys_agree:
  assumes "session_crypto_ok env" "transcript_to_cbor (se_disclosure env) st = Some bs"
  obtains key where "SessionKey_new (se_disclosure env) a (secret_public_key env b) st user = Ok key"
    "SessionKey_new (se_disclosure env) b (secret_public_key env a) st user = Ok key" "length (sk_key key) = 32"
proof -
  let ?c = "se_crypto env"
  have "diffie_hellman ?c a (secret_public_key env b) = diffie_hellman ?c b (secret_public_key env a)"
    by (rule session_crypto_okD [OF assms(1)])
  moreover obtain key where "hkdf ?c (diffie_hellman ?c b (secret_public_key env a)) (sha256 ?c bs)
      (session_key_user_str user) 32 = Some key" "length key = 32"
    using session_crypto_okD(2) [OF assms(1)] by blast
  ultimately show thesis using that [of "\<lparr>sk_key = key, sk_user = user\<rparr>"] assms(2)
    by (simp add: SessionKey_new_def Let_def)
qed

text \<open>An environment in which this holds, for examples.\<close>

instance mdoc_session_data_ext :: (countable) countable
  by (rule countable_by [of "\<lambda>r. (sm_data r, sm_status r, mdoc_session_data.more r)"]) simp

definition demo_session_env :: session_env where
  "demo_session_env = \<lparr>se_disclosure = demo_disclosure_env, aes_encrypt = (\<lambda>key nonce data. Some data),
     aes_decrypt = (\<lambda>key nonce data. Some data), secret_public_key = (\<lambda>_. demo_device_key),
     engagement_to_cbor = Some \<circ> encode, engagement_from_cbor = Some \<circ> decode,
     message_to_cbor = Some \<circ> encode, message_from_cbor = Some \<circ> decode,
     device_request_to_cbor = Some \<circ> encode, device_request_from_cbor = Some \<circ> decode,
     device_response_to_cbor = Some \<circ> encode, device_response_from_cbor = Some \<circ> decode\<rparr>"

lemma demo_session_env_simps [simp]:
  "se_disclosure demo_session_env = demo_disclosure_env" "secret_public_key demo_session_env k = demo_device_key"
  by (simp_all add: demo_session_env_def)

lemma demo_session_crypto_ok: "session_crypto_ok demo_session_env"
  by (simp add: session_crypto_ok_def demo_session_env_def demo_crypto_def curve_point_def demo_device_key_def
      flip: replicate_add)

end
