(* ===== verification/Verifier.thy ===== *)
theory Verifier
  imports SessionKeys
begin

text \<open>
  The verifier of disclosure sessions, \<open>mdoc/src/verifier.rs\<close>: the states of a session, the
  requests that change them and the requests that read them. The sessions are in a store of
  theory \<open>SessionStore\<close>.
\<close>

section \<open>Session states\<close>

record created =
  cr_items_requests :: "items_request list"
  cr_usecase_id :: string
  cr_return_url :: "url option"
  cr_ephemeral_privkey :: secret_key

record session_transcript_data =
  std_session_type :: session_type
  std_reader_engagement :: engagement
  std_device_engagement :: engagement

record waiting_for_response =
  wr_items_requests :: "items_request list"
  wr_return_url_nonce :: "string option"
  wr_their_key :: session_key
  wr_ephemeral_privkey :: secret_key
  wr_session_transcript_data :: session_transcript_data

datatype session_result =
    ResultDone disclosed_attributes "string option"
  | ResultFailed string
  | ResultCancelled
  | ResultExpired

record done_state =
  dn_session_result :: session_result

datatype disclosure_data =
    Created created
  | WaitingForResponse waiting_for_response
  | Done done_state

fun disclosure_progress :: "disclosure_data \<Rightarrow> progress" where
  "disclosure_progress (Created _) = Active"
| "disclosure_progress (WaitingForResponse _) = Active"
| "disclosure_progress (Done d) =
     Finished (case dn_session_result d of ResultDone _ _ \<Rightarrow> True | _ \<Rightarrow> False)"

fun disclosure_is_expired :: "disclosure_data \<Rightarrow> bool" where
  "disclosure_is_expired (Done d) = (dn_session_result d = ResultExpired)"
| "disclosure_is_expired _ = False"

definition disclosure_expire :: "disclosure_data \<Rightarrow> disclosure_data" where
  "disclosure_expire self = Done \<lparr>dn_session_result = ResultExpired\<rparr>"

definition disclosure_sd :: "disclosure_data session_data" where
  "disclosure_sd = \<lparr>sd_progress = disclosure_progress, sd_is_expired = disclosure_is_expired,
     sd_expire = disclosure_expire\<rparr>"

fun session_result_into_state :: "session_result \<Rightarrow> session_result_state" where
  "session_result_into_state (ResultDone _ _) = RsDone"
| "session_result_into_state (ResultFailed _) = RsFailed"
| "session_result_into_state ResultCancelled = RsCancelled"
| "session_result_into_state ResultExpired = RsExpired"

fun session_result_from :: "mdoc_session_status \<Rightarrow> session_result" where
  "session_result_from EncryptionError = ResultFailed ''client encryption error''"
| "session_result_from DecodingError = ResultFailed ''client decoding error''"
| "session_result_from Termination = ResultCancelled"

definition SessionTranscript_try_from :: "session_transcript_data \<Rightarrow> session_transcript option" where
  "SessionTranscript_try_from value =
     new_iso (std_session_type value) (std_reader_engagement value) (std_device_engagement value)"

datatype status_response =
    StatusCreated url
  | StatusWaitingForResponse
  | StatusDone
  | StatusFailed
  | StatusCancelled
  | StatusExpired

section \<open>Configuration and environment\<close>

datatype session_type_return_url = Neither | SameDeviceReturnUrl | Both

record use_case =
  uc_key_pair :: server_key_pair
  uc_session_type_return_url :: session_type_return_url

record verifier =
  vf_use_cases :: "string \<Rightarrow> use_case option"
  vf_trust_anchors :: "trust_anchor list"
  vf_ephemeral_id_secret :: bytes

record verifier_url_parameters =
  vp_session_type :: session_type
  vp_ephemeral_id :: bytes
  vp_time :: datetime

text \<open>
  The crates that handle URLs (url, serde_urlencoded, base64), the RFC 3339 text of a time, the URL of
  a valid template for a session, the text of an error and the database of the session store.
\<close>

record verifier_env =
  ve_session :: session_env
  ve_postgres :: "disclosure_data postgres"
  url_query :: "url \<Rightarrow> string option"
  url_set_query :: "url \<Rightarrow> string \<Rightarrow> url"
  url_append_pair :: "url \<Rightarrow> string \<Rightarrow> string \<Rightarrow> url"
  ve_urls :: url_ops
  parameters_to_string :: "verifier_url_parameters \<Rightarrow> string option"
  parameters_from_str :: "string \<Rightarrow> verifier_url_parameters option"
  base64_url_safe :: "bytes \<Rightarrow> string"
  to_rfc3339_opts :: "datetime \<Rightarrow> string"
  template_into_url :: "string \<Rightarrow> session_token \<Rightarrow> url"
  error_to_string :: "mdoc_error \<Rightarrow> string"

abbreviation ve_disclosure :: "verifier_env \<Rightarrow> disclosure_env" where
  "ve_disclosure env \<equiv> se_disclosure (ve_session env)"

abbreviation ve_crypto :: "verifier_env \<Rightarrow> crypto" where
  "ve_crypto env \<equiv> de_crypto (ve_disclosure env)"

text \<open>What a request reads from the clock and from the random number generator.\<close>

record request_inputs =
  in_now :: datetime
  in_verify_clock :: clock
  in_transition_time :: datetime
  in_nonce :: string

type_synonym disclosure_store = "disclosure_data session_store_variant"

abbreviation sessions_get :: "verifier_env \<Rightarrow> disclosure_store \<Rightarrow> session_token \<Rightarrow> (disclosure_data session_state option, mdoc_error) res" where
  "sessions_get env sessions token \<equiv>
     map_err (Verification \<circ> SessionStoreFailed) (store_get disclosure_sd (ve_postgres env) sessions token)"

abbreviation sessions_write ::
  "verifier_env \<Rightarrow> disclosure_store \<Rightarrow> disclosure_data session_state \<Rightarrow> bool \<Rightarrow> (disclosure_store, mdoc_error) res" where
  "sessions_write env sessions session is_new \<equiv>
     map_err (Verification \<circ> SessionStoreFailed) (store_write disclosure_sd (ve_postgres env) sessions session is_new)"

section \<open>Verifier URLs and ephemeral IDs\<close>

definition EPHEMERAL_ID_VALIDITY_SECONDS :: duration where
  "EPHEMERAL_ID_VALIDITY_SECONDS = seconds 10"

definition format_ephemeral_id_payload :: "verifier_env \<Rightarrow> session_token \<Rightarrow> datetime \<Rightarrow> bytes" where
  "format_ephemeral_id_payload env session_token time =
     as_bytes (session_token @ ''|'' @ to_rfc3339_opts env time)"

definition generate_ephemeral_id :: "verifier_env \<Rightarrow> bytes \<Rightarrow> session_token \<Rightarrow> datetime \<Rightarrow> bytes" where
  "generate_ephemeral_id env ephemeral_id_secret session_token time =
     hmac_sign (ve_crypto env) ephemeral_id_secret (format_ephemeral_id_payload env session_token time)"

definition format_verifier_url ::
  "verifier_env \<Rightarrow> url \<Rightarrow> session_token \<Rightarrow> session_type \<Rightarrow> datetime \<Rightarrow> bytes \<Rightarrow> (url, mdoc_error) res" where
  "format_verifier_url env verifier_base_url session_token session_type time ephemeral_id =
     res_bind (BaseUrl_join (ve_urls env) verifier_base_url session_token) (\<lambda>verifier_url.
     let parameters = \<lparr>vp_session_type = session_type, vp_ephemeral_id = ephemeral_id, vp_time = time\<rparr> in
     res_bind (ok_or (parameters_to_string env parameters) (Verification UrlEncoding)) (\<lambda>query.
     Ok (url_set_query env verifier_url query)))"

definition generate_verifier_url ::
  "verifier_env \<Rightarrow> url \<Rightarrow> bytes \<Rightarrow> session_token \<Rightarrow> session_type \<Rightarrow> datetime \<Rightarrow> (url, mdoc_error) res" where
  "generate_verifier_url env verifier_base_url ephemeral_id_secret session_token session_type time =
     (let ephemeral_id = generate_ephemeral_id env ephemeral_id_secret session_token time
      in format_verifier_url env verifier_base_url session_token session_type time ephemeral_id)"

definition verify_ephemeral_id ::
  "verifier_env \<Rightarrow> datetime \<Rightarrow> bytes \<Rightarrow> session_token \<Rightarrow> url \<Rightarrow> (session_type, mdoc_error) res" where
  "verify_ephemeral_id env now ephemeral_id_secret session_token verifier_url =
     res_bind (ok_or (url_query env verifier_url) (Verification MissingVerifierUrlParameters)) (\<lambda>query.
     res_bind (ok_or (parameters_from_str env query) (Verification MissingVerifierUrlParameters)) (\<lambda>params.
     if now - EPHEMERAL_ID_VALIDITY_SECONDS > vp_time params
     then Err (Verification (ExpiredEphemeralId (vp_ephemeral_id params)))
     else if hmac_sign (ve_crypto env) ephemeral_id_secret
               (format_ephemeral_id_payload env session_token (vp_time params)) \<noteq> vp_ephemeral_id params
     then Err (Verification (InvalidEphemeralId (vp_ephemeral_id params)))
     else Ok (vp_session_type params)))"

definition format_engagement_url :: "verifier_env \<Rightarrow> url \<Rightarrow> engagement \<Rightarrow> (url, mdoc_error) res" where
  "format_engagement_url env base_url reader_engagement =
     res_bind (unwrap (engagement_to_cbor (ve_session env) reader_engagement)) (\<lambda>bytes.
     BaseUrl_join (ve_urls env) base_url (base64_url_safe env bytes))"

section \<open>Transitions\<close>

definition transition :: "datetime \<Rightarrow> 's session_state \<Rightarrow> 't \<Rightarrow> 't session_state" where
  "transition now self new_state = SessionState_new now (ss_token self) new_state"

definition transition_fail :: "verifier_env \<Rightarrow> datetime \<Rightarrow> 's session_state \<Rightarrow> mdoc_error \<Rightarrow> done_state session_state" where
  "transition_fail env now self error =
     transition now self \<lparr>dn_session_result = ResultFailed (error_to_string env error)\<rparr>"

definition transition_abort :: "datetime \<Rightarrow> 's session_state \<Rightarrow> mdoc_session_status \<Rightarrow> done_state session_state" where
  "transition_abort now self status = transition now self \<lparr>dn_session_result = session_result_from status\<rparr>"

definition transition_finish ::
  "datetime \<Rightarrow> 's session_state \<Rightarrow> disclosed_attributes \<Rightarrow> string option \<Rightarrow> done_state session_state" where
  "transition_finish now self disclosed_attributes return_url_nonce =
     transition now self \<lparr>dn_session_result = ResultDone disclosed_attributes return_url_nonce\<rparr>"

definition transition_wait_for_response ::
  "datetime \<Rightarrow> 's session_state \<Rightarrow> items_request list \<Rightarrow> string option \<Rightarrow> session_key \<Rightarrow> secret_key
     \<Rightarrow> session_transcript_data \<Rightarrow> waiting_for_response session_state" where
  "transition_wait_for_response now self requests return_url_nonce their_key ephemeral_privkey transcript_data =
     transition now self \<lparr>wr_items_requests = requests, wr_return_url_nonce = return_url_nonce,
       wr_their_key = their_key, wr_ephemeral_privkey = ephemeral_privkey,
       wr_session_transcript_data = transcript_data\<rparr>"

text \<open>The three conversions of a session in a known state to one in any state.\<close>

definition session_into :: "('s \<Rightarrow> disclosure_data) \<Rightarrow> 's session_state \<Rightarrow> disclosure_data session_state" where
  "session_into state value = \<lparr>ss_data = state (ss_data value), ss_token = ss_token value,
     ss_last_active = ss_last_active value\<rparr>"

section \<open>A session that was created\<close>

definition Session_new ::
  "verifier_env \<Rightarrow> session_token \<Rightarrow> secret_key \<Rightarrow> datetime \<Rightarrow> items_request list \<Rightarrow> string \<Rightarrow> string option
     \<Rightarrow> session_token \<times> created session_state" where
  "Session_new env session_token ephemeral_privkey now requests usecase_id return_url_template =
     (session_token, SessionState_new now session_token
        \<lparr>cr_items_requests = requests, cr_usecase_id = usecase_id,
         cr_return_url = map_option (\<lambda>u. template_into_url env u session_token) return_url_template,
         cr_ephemeral_privkey = ephemeral_privkey\<rparr>)"

definition verify_origin_infos :: "origin_info list \<Rightarrow> (unit, mdoc_error) res" where
  "verify_origin_infos origin_infos =
     (if length origin_infos \<noteq> 2 then Err (Verification IncorrectOriginInfo)
      else if oi_cat (origin_infos ! 0) \<noteq> Received \<or>
          \<not> (case oi_typ (origin_infos ! 0) of Website _ \<Rightarrow> True | _ \<Rightarrow> False)
      then Err (Verification IncorrectOriginInfo)
      else if origin_infos ! 1 \<noteq> \<lparr>oi_cat = Delivered, oi_typ = MessageData\<rparr>
      then Err (Verification IncorrectOriginInfo)
      else Ok ())"

definition add_nonce_to_return_url :: "verifier_env \<Rightarrow> string \<Rightarrow> url \<Rightarrow> url \<times> string" where
  "add_nonce_to_return_url env nonce return_url = (url_append_pair env return_url ''nonce'' nonce, nonce)"

definition select_return_url ::
  "session_type_return_url \<Rightarrow> session_type \<Rightarrow> url option \<Rightarrow> (url option, mdoc_error) res" where
  "select_return_url config session_type return_url =
     (case (config, session_type, return_url) of
       (Both, _, Some return_url) \<Rightarrow> Ok (Some return_url)
     | (SameDeviceReturnUrl, SameDevice, Some return_url) \<Rightarrow> Ok (Some return_url)
     | (Neither, _, _) \<Rightarrow> Ok None
     | (SameDeviceReturnUrl, CrossDevice, _) \<Rightarrow> Ok None
     | (Both, _, None) \<Rightarrow> Err (Verification ReturnUrlConfigurationMismatch)
     | (SameDeviceReturnUrl, SameDevice, None) \<Rightarrow> Err (Verification ReturnUrlConfigurationMismatch))"

definition new_device_request ::
  "verifier_env \<Rightarrow> created \<Rightarrow> session_transcript \<Rightarrow> url option \<Rightarrow> server_key_pair \<Rightarrow> (device_request, mdoc_error) res" where
  "new_device_request env self session_transcript return_url private_key =
     res_bind (res_map (\<lambda>items_request.
         let reader_auth = ReaderAuthenticationKeyed_new session_transcript items_request in
         res_bind (map_err Cose (MdocCose_sign (ve_crypto env) (reader_authentication_to_cbor (ve_disclosure env))
             reader_auth (new_certificate_header (kp_certificate private_key)) (kp_private_key private_key) False)) (\<lambda>cose.
         Ok \<lparr>dq_items_request = items_request, dq_reader_auth = Some cose\<rparr>))
       (cr_items_requests self)) (\<lambda>doc_requests.
     Ok \<lparr>drq_doc_requests = doc_requests, drq_return_url = return_url\<rparr>)"

definition process_device_engagement_inner ::
  "verifier_env \<Rightarrow> string \<Rightarrow> created \<Rightarrow> engagement \<Rightarrow> url \<Rightarrow> session_type \<Rightarrow> (string \<Rightarrow> use_case option)
     \<Rightarrow> (mdoc_session_data \<times> items_request list \<times> string option \<times> session_key \<times> secret_key \<times> engagement, mdoc_error) res" where
  "process_device_engagement_inner env nonce self device_engagement verifier_url session_type use_cases =
     res_bind (verify_origin_infos (en_origin_infos device_engagement)) (\<lambda>_.
     res_bind (ReaderEngagement_try_new (ve_session env) (cr_ephemeral_privkey self) verifier_url) (\<lambda>reader_engagement.
     res_bind (unwrap (new_iso session_type reader_engagement device_engagement)) (\<lambda>session_transcript.
     res_bind (ok_or (use_cases (cr_usecase_id self)) (Verification (UnknownUseCase (cr_usecase_id self)))) (\<lambda>use_case.
     res_bind (select_return_url (uc_session_type_return_url use_case) session_type (cr_return_url self)) (\<lambda>return_url.
     let (return_url, return_url_nonce) =
           (case map_option (add_nonce_to_return_url env nonce) return_url of
             Some (return_url, nonce) \<Rightarrow> (Some return_url, Some nonce)
           | None \<Rightarrow> (None, None)) in
     res_bind (new_device_request env self session_transcript return_url (uc_key_pair use_case)) (\<lambda>device_request.
     res_bind (ok_or (en_security device_engagement) (Verification EphemeralKeyMissing)) (\<lambda>security.
     res_bind (map_err Crypto (PublicKey_try_from (ve_crypto env) security)) (\<lambda>their_pubkey.
     res_bind (SessionKey_new (ve_disclosure env) (cr_ephemeral_privkey self) their_pubkey session_transcript Reader) (\<lambda>our_key.
     res_bind (SessionKey_new (ve_disclosure env) (cr_ephemeral_privkey self) their_pubkey session_transcript Device) (\<lambda>their_key.
     res_bind (serialize_and_encrypt (ve_session env) (device_request_to_cbor (ve_session env)) device_request our_key) (\<lambda>response.
     Ok (response, cr_items_requests self, return_url_nonce, their_key, cr_ephemeral_privkey self, reader_engagement))))))))))))"

definition process_device_engagement ::
  "verifier_env \<Rightarrow> request_inputs \<Rightarrow> created session_state \<Rightarrow> engagement \<Rightarrow> url \<Rightarrow> session_type \<Rightarrow> (string \<Rightarrow> use_case option)
     \<Rightarrow> (mdoc_session_data \<times> (done_state session_state + waiting_for_response session_state), mdoc_error) res" where
  "process_device_engagement env ins self device_engagement verifier_url session_type use_cases =
     (case process_device_engagement_inner env (in_nonce ins) (ss_data self) device_engagement verifier_url session_type use_cases of
       Ok (response, requests, return_url_nonce, their_key, ephemeral_privkey, reader_engagement) \<Rightarrow>
         Ok (response, Inr (transition_wait_for_response (in_transition_time ins) self requests return_url_nonce
           their_key ephemeral_privkey \<lparr>std_session_type = session_type, std_reader_engagement = reader_engagement,
             std_device_engagement = device_engagement\<rparr>))
     | Err e \<Rightarrow> Ok (new_decoding_error, Inl (transition_fail env (in_transition_time ins) self e))
     | Panic \<Rightarrow> Panic)"

section \<open>A session that waits for the response\<close>

definition process_response_inner ::
  "verifier_env \<Rightarrow> clock \<Rightarrow> waiting_for_response \<Rightarrow> mdoc_session_data \<Rightarrow> trust_anchor list
     \<Rightarrow> (mdoc_session_data \<times> disclosed_attributes \<times> string option, mdoc_error) res" where
  "process_response_inner env time self session_data trust_anchors =
     res_bind (decrypt_and_deserialize (ve_session env) (device_response_from_cbor (ve_session env)) session_data
       (wr_their_key self)) (\<lambda>device_response.
     res_bind (unwrap (SessionTranscript_try_from (wr_session_transcript_data self))) (\<lambda>session_transcript.
     res_bind (DeviceResponse_verify (ve_disclosure env) device_response (Some (wr_ephemeral_privkey self))
       session_transcript time trust_anchors) (\<lambda>disclosed_attributes.
     res_bind (match_against_response (wr_items_requests self) device_response) (\<lambda>_.
     let response = \<lparr>sm_data = None, sm_status = Some Termination\<rparr> in
     Ok (response, disclosed_attributes, wr_return_url_nonce self)))))"

definition process_response ::
  "verifier_env \<Rightarrow> request_inputs \<Rightarrow> waiting_for_response session_state \<Rightarrow> mdoc_session_data \<Rightarrow> trust_anchor list
     \<Rightarrow> (mdoc_session_data \<times> done_state session_state, mdoc_error) res" where
  "process_response env ins self session_data trust_anchors =
     (case sm_status session_data of
       Some status \<Rightarrow> Ok (new_termination, transition_abort (in_transition_time ins) self status)
     | None \<Rightarrow>
         (case process_response_inner env (in_verify_clock ins) (ss_data self) session_data trust_anchors of
           Ok (response, disclosed_attributes, return_url_nonce) \<Rightarrow>
             Ok (response, transition_finish (in_transition_time ins) self disclosed_attributes return_url_nonce)
         | Err e \<Rightarrow> Ok (new_decoding_error, transition_fail env (in_transition_time ins) self e)
         | Panic \<Rightarrow> Panic))"

section \<open>Requests\<close>

definition new_session ::
  "verifier_env \<Rightarrow> verifier \<Rightarrow> session_token \<Rightarrow> secret_key \<Rightarrow> datetime \<Rightarrow> items_request list \<Rightarrow> string \<Rightarrow> string option
     \<Rightarrow> disclosure_store \<Rightarrow> (session_token \<times> disclosure_store, mdoc_error) res" where
  "new_session env self random_token random_key now requests usecase_id return_url_template sessions =
     res_bind (ok_or (vf_use_cases self usecase_id) (Verification (UnknownUseCase usecase_id))) (\<lambda>use_case.
     if requests = [] then Err (Verification NoItemsRequests)
     else if (case uc_session_type_return_url use_case of
         Neither \<Rightarrow> return_url_template \<noteq> None
       | SameDeviceReturnUrl \<Rightarrow> return_url_template = None
       | Both \<Rightarrow> return_url_template = None)
     then Err (Verification ReturnUrlConfigurationMismatch)
     else
       let (session_token, session_state) =
         Session_new env random_token random_key now requests usecase_id return_url_template in
       res_bind (sessions_write env sessions (session_into Created session_state) True) (\<lambda>sessions.
       Ok (session_token, sessions)))"

definition next_session ::
  "verifier_env \<Rightarrow> verifier \<Rightarrow> request_inputs \<Rightarrow> bytes \<Rightarrow> session_token \<Rightarrow> url \<Rightarrow> disclosure_data session_state
     \<Rightarrow> (mdoc_session_data \<times> disclosure_data session_state, mdoc_error) res" where
  "next_session env self ins msg session_token full_url state =
     (case ss_data state of
       Created session_data \<Rightarrow>
         res_bind (verify_ephemeral_id env (in_now ins) (vf_ephemeral_id_secret self) session_token full_url) (\<lambda>session_type.
         let session = \<lparr>ss_data = session_data, ss_token = ss_token state, ss_last_active = ss_last_active state\<rparr> in
         res_bind (ok_or (engagement_from_cbor (ve_session env) msg) (Cbor Deserialization)) (\<lambda>device_engagement.
         res_bind (process_device_engagement env ins session device_engagement full_url session_type (vf_use_cases self))
           (\<lambda>(response, session).
         (case session of
           Inr next \<Rightarrow> Ok (response, session_into WaitingForResponse next)
         | Inl next \<Rightarrow> Ok (response, session_into Done next)))))
     | WaitingForResponse session_data \<Rightarrow>
         (let session = \<lparr>ss_data = session_data, ss_token = ss_token state, ss_last_active = ss_last_active state\<rparr> in
         res_bind (ok_or (message_from_cbor (ve_session env) msg) (Cbor Deserialization)) (\<lambda>message.
         res_bind (process_response env ins session message (vf_trust_anchors self)) (\<lambda>(response, session).
         Ok (response, session_into Done session))))
     | Done d \<Rightarrow> Err (Verification (SessionIsDone (session_result_into_state (dn_session_result d)))))"

definition process_message ::
  "verifier_env \<Rightarrow> verifier \<Rightarrow> request_inputs \<Rightarrow> bytes \<Rightarrow> session_token \<Rightarrow> url \<Rightarrow> disclosure_store
     \<Rightarrow> (mdoc_session_data \<times> disclosure_store, mdoc_error) res" where
  "process_message env self ins msg session_token full_url sessions =
     res_bind (sessions_get env sessions session_token) (\<lambda>found.
     res_bind (ok_or found (Verification (UnknownSessionId session_token))) (\<lambda>state.
     res_bind (next_session env self ins msg session_token full_url state) (\<lambda>(response, next).
     res_bind (sessions_write env sessions next False) (\<lambda>sessions.
     Ok (response, sessions)))))"

definition Verifier_status_response ::
  "verifier_env \<Rightarrow> verifier \<Rightarrow> session_token \<Rightarrow> session_type \<Rightarrow> url \<Rightarrow> url \<Rightarrow> datetime \<Rightarrow> disclosure_store
     \<Rightarrow> (status_response, mdoc_error) res" where
  "Verifier_status_response env self session_token session_type engagement_base_url verifier_base_url time sessions =
     res_bind (sessions_get env sessions session_token) (\<lambda>found.
     res_bind (ok_or found (Verification (UnknownSessionId session_token))) (\<lambda>state.
     case ss_data state of
       Created c \<Rightarrow>
         res_bind (generate_verifier_url env verifier_base_url (vf_ephemeral_id_secret self) session_token session_type time) (\<lambda>verifier_url.
         res_bind (ReaderEngagement_try_new (ve_session env) (cr_ephemeral_privkey c) verifier_url) (\<lambda>reader_engagement.
         res_bind (format_engagement_url env engagement_base_url reader_engagement) (\<lambda>engagement_url.
         Ok (StatusCreated engagement_url))))
     | WaitingForResponse _ \<Rightarrow> Ok StatusWaitingForResponse
     | Done d \<Rightarrow> Ok (case dn_session_result d of
           ResultDone _ _ \<Rightarrow> StatusDone
         | ResultFailed _ \<Rightarrow> StatusFailed
         | ResultCancelled \<Rightarrow> StatusCancelled
         | ResultExpired \<Rightarrow> StatusExpired)))"

definition Verifier_disclosed_attributes ::
  "verifier_env \<Rightarrow> session_token \<Rightarrow> string option \<Rightarrow> disclosure_store \<Rightarrow> (disclosed_attributes, mdoc_error) res" where
  "Verifier_disclosed_attributes env session_token return_url_nonce sessions =
     res_bind (sessions_get env sessions session_token) (\<lambda>found.
     res_bind (ok_or found (Verification (UnknownSessionId session_token))) (\<lambda>state.
     case ss_data state of
       Done d \<Rightarrow>
         (case dn_session_result d of
           ResultDone disclosed stored_nonce \<Rightarrow>
             (case (return_url_nonce, stored_nonce) of
               (_, None) \<Rightarrow> Ok disclosed
             | (Some received, Some stored) \<Rightarrow>
                 if received = stored then Ok disclosed else Err (Verification (ReturnUrlNonceMismatch received))
             | (None, Some _) \<Rightarrow> Err (Verification ReturnUrlNonceMissing))
         | _ \<Rightarrow> Err (Verification SessionNotDone))
     | _ \<Rightarrow> Err (Verification SessionNotDone)))"

section \<open>The store of the verifier\<close>

lemma disclosure_sd_simps [simp]:
  "sd_progress disclosure_sd = disclosure_progress" "sd_is_expired disclosure_sd = disclosure_is_expired"
  "sd_expire disclosure_sd = disclosure_expire"
  by (simp_all add: disclosure_sd_def)

lemma disclosure_sd_laws: "session_data_laws disclosure_sd"
proof -
  have "disclosure_progress d = Finished False" if "disclosure_is_expired d" for d
    using that by (cases d) auto
  then show ?thesis by (simp add: session_data_laws_def disclosure_expire_def)
qed

interpretation dv: expiring_session_store "variant_valid disclosure_sd pg" "variant_view disclosure_sd pg"
  "variant_frozen pg" "pg_storable pg" "store_get disclosure_sd pg" "store_write disclosure_sd pg" disclosure_sd
  "store_cleanup disclosure_sd pg" for pg
  by (rule expiring_store_variant [OF disclosure_sd_laws])

text \<open>The sessions a store returns, and whether what is written is read back.\<close>

abbreviation verifier_valid :: "verifier_env \<Rightarrow> disclosure_store \<Rightarrow> bool" where
  "verifier_valid env \<equiv> variant_valid disclosure_sd (ve_postgres env)"

abbreviation verifier_view :: "verifier_env \<Rightarrow> disclosure_store \<Rightarrow> session_token \<Rightarrow> disclosure_data session_state option" where
  "verifier_view env \<equiv> variant_view disclosure_sd (ve_postgres env)"

definition verifier_store_faithful :: "verifier_env \<Rightarrow> bool" where
  "verifier_store_faithful env \<longleftrightarrow> (\<forall>x. pg_storable (ve_postgres env) x)"

section \<open>Runs of the verifier\<close>

datatype verifier_event =
    NewSession "items_request list" string "string option" session_token secret_key datetime
  | Message request_inputs bytes session_token url
  | Cleanup session_store_timeouts datetime

text \<open>A request that fails or panics leaves the sessions as they are, so only the others are steps.\<close>

inductive verifier_step :: "verifier_env \<Rightarrow> verifier \<Rightarrow> disclosure_store \<Rightarrow> verifier_event \<Rightarrow> disclosure_store \<Rightarrow> bool"
  for env vf where
  new_session: "new_session env vf token key now requests usecase template s = Ok (token', s') \<Longrightarrow>
    verifier_step env vf s (NewSession requests usecase template token key now) s'"
| message: "process_message env vf ins msg token url s = Ok (response, s') \<Longrightarrow>
    verifier_step env vf s (Message ins msg token url) s'"
| cleanup: "store_cleanup disclosure_sd (ve_postgres env) timeouts now s = Ok s' \<Longrightarrow>
    verifier_step env vf s (Cleanup timeouts now) s'"

inductive verifier_run :: "verifier_env \<Rightarrow> verifier \<Rightarrow> disclosure_store \<Rightarrow> verifier_event list \<Rightarrow> disclosure_store \<Rightarrow> bool"
  for env vf where
  start: "verifier_run env vf s [] s"
| step: "\<lbrakk>verifier_run env vf s evs s'; verifier_step env vf s' ev s''\<rbrakk> \<Longrightarrow> verifier_run env vf s (evs @ [ev]) s''"

inductive_simps verifier_step_simps:
  "verifier_step env vf s (NewSession requests usecase template token key now) s'"
  "verifier_step env vf s (Message ins msg token url) s'"
  "verifier_step env vf s (Cleanup timeouts now) s'"

section \<open>What a message does to a session\<close>

lemma transition_simps [simp]:
  "ss_token (transition now self d) = ss_token self" "ss_data (transition now self d) = d"
  "ss_token (transition_fail env now self e) = ss_token self"
  "ss_token (transition_abort now self st) = ss_token self"
  "ss_token (transition_finish now self attrs nonce) = ss_token self"
  "ss_token (transition_wait_for_response now self rs n k p d) = ss_token self"
  "ss_data (transition_fail env now self e) = \<lparr>dn_session_result = ResultFailed (error_to_string env e)\<rparr>"
  "ss_data (transition_abort now self st) = \<lparr>dn_session_result = session_result_from st\<rparr>"
  "ss_data (transition_finish now self attrs nonce) = \<lparr>dn_session_result = ResultDone attrs nonce\<rparr>"
  "ss_token (session_into f x) = ss_token x" "ss_data (session_into f x) = f (ss_data x)"
  by (simp_all add: transition_def transition_fail_def transition_abort_def transition_finish_def
      transition_wait_for_response_def SessionState_new_def session_into_def)

lemma session_result_from_not_done [simp]: "session_result_from st \<noteq> ResultDone attrs nonce"
  by (cases st) simp_all

text \<open>
  A session with a given configuration of the return URL: a nonce is stored exactly where a return
  URL was sent to the wallet.
\<close>

fun expects_nonce :: "session_type_return_url \<Rightarrow> session_type \<Rightarrow> bool" where
  "expects_nonce Both _ = True"
| "expects_nonce SameDeviceReturnUrl st = (st = SameDevice)"
| "expects_nonce Neither _ = False"

lemma select_return_url_Ok:
  "select_return_url config st return_url = Ok r \<Longrightarrow> r \<noteq> None \<longleftrightarrow> expects_nonce config st"
  by (cases config; cases st; cases return_url) (auto simp: select_return_url_def)

lemma process_device_engagement_inner_Ok:
  assumes "process_device_engagement_inner env nonce c de url st ucs = Ok (r, requests, stored, key, priv, re)"
  shows "requests = cr_items_requests c" "priv = cr_ephemeral_privkey c"
    "ReaderEngagement_try_new (ve_session env) priv url = Ok re"
    "\<exists>uc. ucs (cr_usecase_id c) = Some uc \<and>
       stored = (if expects_nonce (uc_session_type_return_url uc) st then Some nonce else None)"
  using assms unfolding process_device_engagement_inner_def
  by (auto simp: result_simps add_nonce_to_return_url_def dest!: select_return_url_Ok split: option.splits prod.splits)

text \<open>
  What a session that waits goes back to: a request to create it, and a message with a valid
  ephemeral ID that engaged the device.
\<close>

definition waiting_traced ::
  "verifier_env \<Rightarrow> verifier \<Rightarrow> verifier_event list \<Rightarrow> session_token \<Rightarrow> waiting_for_response \<Rightarrow> bool" where
  "waiting_traced env vf evs token w \<longleftrightarrow> (\<exists>usecase uc template now ins msg url.
     NewSession (wr_items_requests w) usecase template token (wr_ephemeral_privkey w) now \<in> set evs \<and>
     Message ins msg token url \<in> set evs \<and>
     verify_ephemeral_id env (in_now ins) (vf_ephemeral_id_secret vf) token url =
       Ok (std_session_type (wr_session_transcript_data w)) \<and>
     ReaderEngagement_try_new (ve_session env) (wr_ephemeral_privkey w) url =
       Ok (std_reader_engagement (wr_session_transcript_data w)) \<and>
     engagement_from_cbor (ve_session env) msg = Some (std_device_engagement (wr_session_transcript_data w)) \<and>
     vf_use_cases vf usecase = Some uc \<and>
     wr_return_url_nonce w = (if expects_nonce (uc_session_type_return_url uc)
         (std_session_type (wr_session_transcript_data w)) then Some (in_nonce ins) else None))"

definition response_accepted ::
  "verifier_env \<Rightarrow> verifier \<Rightarrow> waiting_for_response \<Rightarrow> disclosed_attributes \<Rightarrow> bool" where
  "response_accepted env vf w attrs \<longleftrightarrow> (\<exists>resp st clock.
     SessionTranscript_try_from (wr_session_transcript_data w) = Some st \<and>
     DeviceResponse_verify (ve_disclosure env) resp (Some (wr_ephemeral_privkey w)) st clock (vf_trust_anchors vf) = Ok attrs \<and>
     match_against_response (wr_items_requests w) resp = Ok ())"

definition session_traced ::
  "verifier_env \<Rightarrow> verifier \<Rightarrow> verifier_event list \<Rightarrow> session_token \<Rightarrow> disclosure_data \<Rightarrow> bool" where
  "session_traced env vf evs token data = (case data of
     Created c \<Rightarrow> (\<exists>template now. NewSession (cr_items_requests c) (cr_usecase_id c) template token
       (cr_ephemeral_privkey c) now \<in> set evs)
   | WaitingForResponse w \<Rightarrow> waiting_traced env vf evs token w
   | Done d \<Rightarrow> (case dn_session_result d of
       ResultDone attrs nonce \<Rightarrow> \<exists>w. waiting_traced env vf evs token w \<and> response_accepted env vf w attrs \<and>
         nonce = wr_return_url_nonce w
     | _ \<Rightarrow> True))"

lemma waiting_traced_mono: "waiting_traced env vf evs token w \<Longrightarrow> waiting_traced env vf (evs @ evs') token w"
  unfolding waiting_traced_def by (metis UnI1 set_append)

lemma session_traced_mono: "session_traced env vf evs token d \<Longrightarrow> session_traced env vf (evs @ evs') token d"
  unfolding session_traced_def
  by (auto simp: waiting_traced_mono split: disclosure_data.splits session_result.splits; blast intro: waiting_traced_mono)

lemma session_traced_failed [simp]:
  "session_traced env vf evs token (Done \<lparr>dn_session_result = ResultFailed e\<rparr>)"
  "session_traced env vf evs token (Done \<lparr>dn_session_result = session_result_from st\<rparr>)"
  "session_traced env vf evs token (disclosure_expire d)"
  by (auto simp: session_traced_def disclosure_expire_def split: session_result.splits)

lemma next_session_Created:
  assumes "ss_data state = Created c" "next_session env vf ins msg token url state = Ok (r, next)"
  shows "ss_token next = ss_token state \<and> (\<exists>st de. verify_ephemeral_id env (in_now ins) (vf_ephemeral_id_secret vf) token url = Ok st \<and>
    engagement_from_cbor (ve_session env) msg = Some de \<and>
    ((\<exists>e. ss_data next = Done \<lparr>dn_session_result = ResultFailed e\<rparr>) \<or>
     (\<exists>w uc. ss_data next = WaitingForResponse w \<and> wr_items_requests w = cr_items_requests c \<and>
        wr_ephemeral_privkey w = cr_ephemeral_privkey c \<and>
        ReaderEngagement_try_new (ve_session env) (wr_ephemeral_privkey w) url = Ok (std_reader_engagement (wr_session_transcript_data w)) \<and>
        std_session_type (wr_session_transcript_data w) = st \<and> std_device_engagement (wr_session_transcript_data w) = de \<and>
        vf_use_cases vf (cr_usecase_id c) = Some uc \<and>
        wr_return_url_nonce w = (if expects_nonce (uc_session_type_return_url uc) st then Some (in_nonce ins) else None))))"
proof -
  let ?s = "\<lparr>ss_data = c, ss_token = ss_token state, ss_last_active = ss_last_active state\<rparr>"
  let ?k = "\<lambda>(response, session). (case session of
      Inr next \<Rightarrow> Ok (response, session_into WaitingForResponse next)
    | Inl next \<Rightarrow> Ok (response, session_into Done next)) :: (_, mdoc_error) res"
  from assms obtain st de y where st: "verify_ephemeral_id env (in_now ins) (vf_ephemeral_id_secret vf) token url = Ok st"
    "engagement_from_cbor (ve_session env) msg = Some de"
    and y: "process_device_engagement env ins ?s de url st (vf_use_cases vf) = Ok y" "?k y = Ok (r, next)"
    unfolding next_session_def by (auto simp: Let_def res_bind_eq_Ok ok_or_eq_Ok)
  then obtain x where x: "process_device_engagement env ins ?s de url st (vf_use_cases vf) = Ok (r, x)"
    and n: "next = (case x of Inr y \<Rightarrow> session_into WaitingForResponse y | Inl y \<Rightarrow> session_into Done y)"
    by (cases y; cases "snd y") auto
  show ?thesis
  proof (cases "process_device_engagement_inner env (in_nonce ins) c de url st (vf_use_cases vf)")
    case (Ok y)
    obtain r' requests stored key priv re where y: "y = (r', requests, stored, key, priv, re)" by (cases y)
    note inner = process_device_engagement_inner_Ok [OF Ok [unfolded y]]
    have "x = Inr (transition_wait_for_response (in_transition_time ins) ?s requests stored key priv
        \<lparr>std_session_type = st, std_reader_engagement = re, std_device_engagement = de\<rparr>)"
      using x Ok y by (simp add: process_device_engagement_def)
    then show ?thesis using n st inner by (auto simp: transition_wait_for_response_def transition_def SessionState_new_def session_into_def)
  next
    case (Err e)
    then have "x = Inl (transition_fail env (in_transition_time ins) ?s e)"
      using x by (simp add: process_device_engagement_def)
    then show ?thesis using n st by auto
  next
    case Panic
    then show ?thesis using x by (simp add: process_device_engagement_def)
  qed
qed

lemma process_response_inner_Ok:
  assumes "process_response_inner env clock w msg anchors = Ok (r, attrs, nonce)" "vf_trust_anchors vf = anchors"
  shows "response_accepted env vf w attrs" "nonce = wr_return_url_nonce w"
  using assms unfolding process_response_inner_def response_accepted_def by (auto simp: result_simps)

lemma next_session_Waiting:
  assumes "ss_data state = WaitingForResponse w" "next_session env vf ins msg token url state = Ok (r, next)"
  shows "ss_token next = ss_token state \<and> (\<exists>res. ss_data next = Done \<lparr>dn_session_result = res\<rparr> \<and>
    (\<forall>attrs nonce. res = ResultDone attrs nonce \<longrightarrow> response_accepted env vf w attrs \<and> nonce = wr_return_url_nonce w))"
proof -
  let ?s = "\<lparr>ss_data = w, ss_token = ss_token state, ss_last_active = ss_last_active state\<rparr>"
  from assms obtain message x where x: "process_response env ins ?s message (vf_trust_anchors vf) = Ok (r, x)"
    and n: "next = session_into Done x"
    by (auto simp: next_session_def Let_def result_simps)
  show ?thesis
  proof (cases "sm_status message")
    case None
    then show ?thesis using x n process_response_inner_Ok
      by (cases "process_response_inner env (in_verify_clock ins) w message (vf_trust_anchors vf)")
        (auto simp: process_response_def)
  next
    case (Some st)
    then show ?thesis using x n by (auto simp: process_response_def)
  qed
qed

fun session_rank :: "disclosure_data \<Rightarrow> nat" where
  "session_rank (Created _) = 2"
| "session_rank (WaitingForResponse _) = 1"
| "session_rank (Done _) = 0"

lemma next_session_Done: "ss_data state = Done d \<Longrightarrow> next_session env vf ins msg token url state \<noteq> Ok x"
  by (simp add: next_session_def)

lemma next_session_rank:
  assumes "next_session env vf ins msg token url state = Ok (r, next)"
  shows "session_rank (ss_data next) < session_rank (ss_data state)" "ss_token next = ss_token state"
    "\<not> disclosure_is_expired (ss_data state)"
proof (atomize (full), cases "ss_data state")
  case (Created c)
  with next_session_Created [OF Created assms]
  show "session_rank (ss_data next) < session_rank (ss_data state) \<and> ss_token next = ss_token state \<and>
    \<not> disclosure_is_expired (ss_data state)" by auto
next
  case (WaitingForResponse w)
  with next_session_Waiting [OF WaitingForResponse assms]
  show "session_rank (ss_data next) < session_rank (ss_data state) \<and> ss_token next = ss_token state \<and>
    \<not> disclosure_is_expired (ss_data state)" by auto
qed (use assms next_session_Done in blast)

lemma process_message_step:
  assumes f: "verifier_store_faithful env" and v: "verifier_valid env s"
    and m: "process_message env vf ins msg token url s = Ok (r, s')"
  obtains state nxt where "verifier_view env s token = Some state" "ss_token state = token"
    "next_session env vf ins msg token url state = Ok (r, nxt)" "ss_token nxt = token"
    "verifier_valid env s'" "verifier_view env s' = (verifier_view env s)(token \<mapsto> nxt)"
proof -
  from m obtain state nxt where g: "store_get disclosure_sd (ve_postgres env) s token = Ok (Some state)"
    and n: "next_session env vf ins msg token url state = Ok (r, nxt)"
    and w: "store_write disclosure_sd (ve_postgres env) s nxt False = Ok s'"
    by (auto simp: process_message_def result_simps)
  have state: "verifier_view env s token = Some state" using g v by (simp add: vs.get_view)
  then have t: "ss_token state = token" by (rule vs.view_token)
  have nt: "ss_token nxt = token" using next_session_rank(2) [OF n] t by simp
  have "store_get disclosure_sd (ve_postgres env) s (ss_token nxt) = Ok (Some state)"
    "\<not> sd_is_expired disclosure_sd (ss_data state)" "pg_storable (ve_postgres env) nxt"
    using g nt next_session_rank(3) [OF n] f by (simp_all add: verifier_store_faithful_def)
  from dv.update_unexpired [OF v this] obtain s2 where "store_write disclosure_sd (ve_postgres env) s nxt False = Ok s2"
    "verifier_valid env s2" "verifier_view env s2 = (verifier_view env s)(ss_token nxt \<mapsto> nxt)" .
  with w nt that [OF state t n nt] show thesis by simp
qed

lemma new_session_step:
  assumes f: "verifier_store_faithful env" and v: "verifier_valid env s"
    and m: "new_session env vf token key now requests usecase template s = Ok (token', s')"
  shows "token' = token \<and> verifier_view env s token = None \<and> verifier_valid env s' \<and>
    verifier_view env s' = (verifier_view env s)(token \<mapsto> SessionState_new now token
      (Created \<lparr>cr_items_requests = requests, cr_usecase_id = usecase,
         cr_return_url = map_option (\<lambda>u. template_into_url env u token) template, cr_ephemeral_privkey = key\<rparr>))"
proof -
  let ?x = "SessionState_new now token
      (Created \<lparr>cr_items_requests = requests, cr_usecase_id = usecase,
         cr_return_url = map_option (\<lambda>u. template_into_url env u token) template, cr_ephemeral_privkey = key\<rparr>)"
  from m have w: "store_write disclosure_sd (ve_postgres env) s ?x True = Ok s'" "token' = token"
    by (auto simp: new_session_def Session_new_def Let_def session_into_def SessionState_new_def result_simps split: if_splits)
  have "pg_storable (ve_postgres env) ?x" "ss_token ?x = token"
    using f by (simp_all add: verifier_store_faithful_def SessionState_new_def)
  then show ?thesis using dv.create_view [OF v _ w(1)] w(2) by metis
qed

text \<open>Each kind of step keeps the store valid and the sessions traced.\<close>

lemma step_traced:
  assumes f: "verifier_store_faithful env" and v: "verifier_valid env s" and st: "verifier_step env vf s ev s'"
    and tr: "\<And>t x. verifier_view env s t = Some x \<Longrightarrow> session_traced env vf evs t (ss_data x)"
  shows "verifier_valid env s' \<and> (\<forall>t x. verifier_view env s' t = Some x \<longrightarrow> session_traced env vf (evs @ [ev]) t (ss_data x))"
  using st
proof cases
  case (new_session token key now requests usecase template token')
  from new_session_step [OF f v new_session(2)] show ?thesis
    using session_traced_mono [OF tr] new_session(1) by (auto simp: session_traced_def SessionState_new_def)
next
  case (message ins msg token url response)
  from message(2) obtain state nxt where n: "verifier_view env s token = Some state"
    "next_session env vf ins msg token url state = Ok (response, nxt)"
    and s': "verifier_valid env s'" "verifier_view env s' = (verifier_view env s)(token \<mapsto> nxt)"
    by (rule process_message_step [OF f v])
  have "session_traced env vf (evs @ [ev]) token (ss_data nxt)"
  proof (cases "ss_data state")
    case (Created c)
    from tr [OF n(1)] Created obtain template now where
      "NewSession (cr_items_requests c) (cr_usecase_id c) template token (cr_ephemeral_privkey c) now \<in> set (evs @ [ev])"
      by (auto simp: session_traced_def)
    moreover have "Message ins msg token url \<in> set (evs @ [ev])" using message(1) by simp
    ultimately show ?thesis using next_session_Created [OF Created n(2)]
      by (auto simp: session_traced_def waiting_traced_def; blast)
  next
    case (WaitingForResponse w)
    have "waiting_traced env vf (evs @ [ev]) token w"
      using tr [OF n(1)] WaitingForResponse by (simp add: session_traced_def waiting_traced_mono)
    then show ?thesis using next_session_Waiting [OF WaitingForResponse n(2)]
      by (auto simp: session_traced_def split: session_result.splits; blast)
  next
    case (Done d)
    then show ?thesis using n(2) next_session_Done by blast
  qed
  then show ?thesis using s' session_traced_mono [OF tr] by auto
next
  case (cleanup timeouts now)
  have "session_traced env vf (evs @ [ev]) t (ss_data x)" if "verifier_view env s' t = Some x" for t x
  proof (rule dv.clean_keeps [OF v cleanup(2), of "\<lambda>t d. session_traced env vf (evs @ [ev]) t d"])
    show "session_traced env vf (evs @ [ev]) t (ss_data x)" if "verifier_view env s t = Some x" for t x
      using session_traced_mono [OF tr [OF that]] .
  qed (use that in simp_all)
  then show ?thesis using dv.clean_valid [OF v cleanup(2)] by blast
qed

lemma run_traced:
  assumes "verifier_run env vf s evs s'" "verifier_store_faithful env" "verifier_valid env s" "verifier_view env s = Map.empty"
  shows "verifier_valid env s' \<and> (\<forall>t x. verifier_view env s' t = Some x \<longrightarrow> session_traced env vf evs t (ss_data x))"
  using assms
proof induction
  case (step s evs s' ev s'')
  then show ?case using step_traced [OF _ _ step.hyps(2), of evs] by blast
qed simp

section \<open>Progress of a session\<close>

fun is_message :: "session_token \<Rightarrow> verifier_event \<Rightarrow> bool" where
  "is_message token (Message _ _ t _) = (t = token)"
| "is_message token _ = False"

fun is_creation :: "session_token \<Rightarrow> verifier_event \<Rightarrow> bool" where
  "is_creation token (NewSession _ _ _ t _ _) = (t = token)"
| "is_creation token _ = False"

definition stored_rank :: "verifier_env \<Rightarrow> disclosure_store \<Rightarrow> session_token \<Rightarrow> nat" where
  "stored_rank env s token = (case verifier_view env s token of None \<Rightarrow> 0 | Some x \<Rightarrow> session_rank (ss_data x))"

lemma step_rank:
  assumes f: "verifier_store_faithful env" and v: "verifier_valid env s" and st: "verifier_step env vf s ev s'"
    and n: "\<not> is_creation token ev"
  shows "verifier_valid env s'"
    and "stored_rank env s' token + (if is_message token ev then 1 else 0) \<le> stored_rank env s token"
  using st
proof (atomize (full), cases)
  case (new_session token' key now requests usecase template token'')
  then show "verifier_valid env s' \<and>
      stored_rank env s' token + (if is_message token ev then 1 else 0) \<le> stored_rank env s token"
    using new_session_step [OF f v new_session(2)] n by (auto simp: stored_rank_def)
next
  case (message ins msg token' url response)
  from message(2) obtain state nxt where "verifier_view env s token' = Some state"
    "next_session env vf ins msg token' url state = Ok (response, nxt)"
    "verifier_valid env s'" "verifier_view env s' = (verifier_view env s)(token' \<mapsto> nxt)"
    by (rule process_message_step [OF f v])
  then show "verifier_valid env s' \<and>
      stored_rank env s' token + (if is_message token ev then 1 else 0) \<le> stored_rank env s token"
    using message(1) next_session_rank(1) by (fastforce simp: stored_rank_def)
next
  case (cleanup timeouts now)
  have "stored_rank env s' token \<le> stored_rank env s token"
  proof (cases "verifier_view env s' token")
    case (Some y)
    from dv.clean_view [OF v cleanup(2) Some] show ?thesis
      using Some by (auto simp: stored_rank_def disclosure_expire_def)
  qed (simp add: stored_rank_def)
  then show "verifier_valid env s' \<and>
      stored_rank env s' token + (if is_message token ev then 1 else 0) \<le> stored_rank env s token"
    using dv.clean_valid [OF v cleanup(2)] cleanup(1) by simp
qed

lemma run_rank:
  assumes "verifier_run env vf s evs s'" "verifier_store_faithful env" "verifier_valid env s"
    "\<forall>ev\<in>set evs. \<not> is_creation token ev"
  shows "verifier_valid env s' \<and> stored_rank env s' token + length (filter (is_message token) evs) \<le> stored_rank env s token"
  using assms
proof induction
  case (step s evs s' ev s'')
  then have "verifier_valid env s'" "stored_rank env s' token + length (filter (is_message token) evs) \<le> stored_rank env s token"
    by auto
  with step_rank [OF step.prems(1) this(1) step.hyps(2), of token] step.prems(3) show ?case by auto
qed simp

lemma session_rank_le: "session_rank d \<le> 2"
  by (cases d) simp_all


section \<open>Results in memory are final\<close>

lemma step_keeps_result:
  assumes m: "memory_valid m" and st: "verifier_step env vf (Memory m) ev s'" and n: "\<not> is_creation token ev"
    and x: "m token = None \<or> m token = Some x" "ss_data x = Done d"
  obtains m' where "s' = Memory m'" "memory_valid m'" "m' token = None \<or> m' token = Some x" "m token = None \<Longrightarrow> m' token = None"
  using st
proof cases
  case (new_session token' key now requests usecase template token'')
  then obtain y where "s' = Memory (m(token' \<mapsto> y))" "ss_token y = token'"
    by (auto simp: new_session_def Session_new_def Let_def session_into_def SessionState_new_def memory_write_def
        result_simps split: if_splits)
  then show thesis using that [of "m(token' \<mapsto> y)"] m n new_session(1) x by (auto simp: memory_valid_def)
next
  case (message ins msg token' url response)
  from message(2) obtain state nxt where s: "m token' = Some state"
    "next_session env vf ins msg token' url state = Ok (response, nxt)" "s' = Memory (m(ss_token nxt \<mapsto> nxt))"
    by (auto simp: process_message_def memory_get_def memory_write_def result_simps split: if_splits)
  moreover have t: "ss_token nxt = token'" using next_session_rank(2) [OF s(2)] s(1) m by (auto simp: memory_valid_def)
  moreover have "token' \<noteq> token" using s(1,2) x next_session_Done by fastforce
  ultimately show thesis using that [of "m(token' \<mapsto> nxt)"] m x by (auto simp: memory_valid_def)
next
  case (cleanup timeouts now)
  then have "s' = Memory (memory_cleanup disclosure_sd timeouts now m)" by simp
  moreover have "memory_expire disclosure_sd now c x = x" for c using x(2) by (simp add: memory_expire_def)
  then have "memory_cleanup disclosure_sd timeouts now m token \<in> {None, m token}"
    using x(1) by (auto simp: memory_cleanup_def Let_def split: option.splits if_splits)
  ultimately show thesis using that memory_cleanup_valid [OF m] x by auto
qed

text \<open>
  C34: With the store in memory the result of a session is final: it is read back unchanged until it is
  deleted, and once deleted it does not return.
\<close>

theorem result_is_final_in_memory:
  assumes "verifier_run env vf s evs s'" "s = Memory m" "memory_valid m" "m token = Some x" "ss_data x = Done d"
    "\<forall>ev\<in>set evs. \<not> is_creation token ev"
  shows "\<exists>m'. s' = Memory m' \<and> (m' token = Some x \<or> m' token = None)"
proof -
  have "\<exists>m'. s' = Memory m' \<and> memory_valid m' \<and> (m' token = None \<or> m' token = Some x)"
    using assms
  proof induction
    case (step s evs s' ev s'')
    then obtain m' where m': "s' = Memory m'" "memory_valid m'" "m' token = None \<or> m' token = Some x" by auto
    have "\<not> is_creation token ev" using step.prems(5) by simp
    from step_keeps_result [OF m'(2) step.hyps(2) [unfolded m'(1)] this m'(3) step.prems(4)] show ?case by metis
  qed auto
  then show ?thesis by blast
qed

section \<open>Ephemeral IDs\<close>

text \<open>What the URL crates promise: a query that was set is read back, and parameters parse as printed.\<close>

definition url_codec_ok :: "verifier_env \<Rightarrow> bool" where
  "url_codec_ok env \<longleftrightarrow> (\<forall>u q. url_query env (url_set_query env u q) = Some q) \<and>
     (\<forall>p q. parameters_to_string env p = Some q \<longrightarrow> parameters_from_str env q = Some p)"

text \<open>
  The URL that is given to a wallet is accepted for ten seconds and tells the session type it was made for;
  after that it is refused as expired. For another session it is only accepted where the HMAC of
  the two payloads is the same.
\<close>

theorem verifier_url_is_accepted_for_ten_seconds:
  assumes "url_codec_ok env" "generate_verifier_url env base secret token session_type time = Ok url"
  shows "verify_ephemeral_id env now secret token url =
      (if now > time + seconds 10
       then Err (Verification (ExpiredEphemeralId (generate_ephemeral_id env secret token time)))
       else Ok session_type) \<and>
    (\<forall>token' st. verify_ephemeral_id env now secret token' url = Ok st \<longrightarrow>
       generate_ephemeral_id env secret token' time = generate_ephemeral_id env secret token time)"
proof -
  let ?p = "\<lparr>vp_session_type = session_type, vp_ephemeral_id = generate_ephemeral_id env secret token time, vp_time = time\<rparr>"
  from assms(2) obtain u q where q: "parameters_to_string env ?p = Some q" "url = url_set_query env u q"
    by (auto simp: generate_verifier_url_def format_verifier_url_def Let_def result_simps)
  then have "url_query env url = Some q" "parameters_from_str env q = Some ?p"
    using assms(1) by (auto simp: url_codec_ok_def)
  then have v: "verify_ephemeral_id env now secret t url =
      (if now - seconds 10 > time then Err (Verification (ExpiredEphemeralId (vp_ephemeral_id ?p)))
       else if generate_ephemeral_id env secret t time \<noteq> vp_ephemeral_id ?p
       then Err (Verification (InvalidEphemeralId (vp_ephemeral_id ?p))) else Ok session_type)" for t
    by (simp add: verify_ephemeral_id_def generate_ephemeral_id_def EPHEMERAL_ID_VALIDITY_SECONDS_def)
  have "now - seconds 10 > time \<longleftrightarrow> now > time + seconds 10" by arith
  then show ?thesis unfolding v by simp
qed

section \<open>Examples\<close>

instance created_ext :: (countable) countable
  by (rule countable_by [of "\<lambda>r. (cr_items_requests r, cr_usecase_id r, cr_return_url r, cr_ephemeral_privkey r, created.more r)"]) simp

instance session_key_user :: countable
  by countable_datatype

instance session_key_ext :: (countable) countable
  by (rule countable_by [of "\<lambda>r. (sk_key r, sk_user r, session_key.more r)"]) simp

instance session_transcript_data_ext :: (countable) countable
  by (rule countable_by [of "\<lambda>r. (std_session_type r, std_reader_engagement r, std_device_engagement r,
    session_transcript_data.more r)"]) simp

instance waiting_for_response_ext :: (countable) countable
  by (rule countable_by [of "\<lambda>r. (wr_items_requests r, wr_return_url_nonce r, wr_their_key r, wr_ephemeral_privkey r,
    wr_session_transcript_data r, waiting_for_response.more r)"]) simp

instance session_result :: countable
  by countable_datatype

instance done_state_ext :: (countable) countable
  by (rule countable_by [of "\<lambda>r. (dn_session_result r, done_state.more r)"]) simp

instance disclosure_data :: countable
  by countable_datatype

instance verifier_url_parameters_ext :: (countable) countable
  by (rule countable_by [of "\<lambda>r. (vp_session_type r, vp_ephemeral_id r, vp_time r, verifier_url_parameters.more r)"]) simp

definition demo_verifier_env :: verifier_env where
  "demo_verifier_env = \<lparr>ve_session = demo_session_env,
     ve_postgres = \<lparr>pg_refused = False, pg_to_value = Some \<circ> text_encode, pg_from_value = Some \<circ> text_decode,
       pg_time = (\<lambda>t. t), pg_type = ''mdoc_disclosure''\<rparr>,
     url_query = Some, url_set_query = (\<lambda>u q. q), url_append_pair = (\<lambda>u k v. u @ k @ v),
     ve_urls = demo_urls,
     parameters_to_string = Some \<circ> text_encode, parameters_from_str = Some \<circ> text_decode, base64_url_safe = (\<lambda>_. []),
     to_rfc3339_opts = (\<lambda>_. []), template_into_url = (\<lambda>u t. u), error_to_string = (\<lambda>_. [])\<rparr>"

definition demo_verifier :: verifier where
  "demo_verifier = \<lparr>vf_use_cases = (\<lambda>u. if u = ''uc'' then Some \<lparr>uc_key_pair = \<lparr>kp_private_key = (\<lambda>msg. Some (8 # msg)),
       kp_certificate = [8]\<rparr>, uc_session_type_return_url = Both\<rparr> else None),
     vf_trust_anchors = [[9]], vf_ephemeral_id_secret = []\<rparr>"

definition demo_created :: created where
  "demo_created = \<lparr>cr_items_requests = [demo_request [(''b'', False)]], cr_usecase_id = ''uc'', cr_return_url = Some ''https'',
     cr_ephemeral_privkey = []\<rparr>"

definition demo_sessions :: disclosure_store where
  "demo_sessions = Memory [''t'' \<mapsto> SessionState_new 0 ''t'' (Created demo_created)]"

lemma demo_verifier_env_simps [simp]:
  "ve_session demo_verifier_env = demo_session_env" "url_query demo_verifier_env u = Some u"
  "template_into_url demo_verifier_env u t = u" "vf_trust_anchors demo_verifier = [[9]]"
  by (simp_all add: demo_verifier_env_def demo_verifier_def)

lemma demo_store_faithful: "verifier_store_faithful demo_verifier_env"
  by (simp add: verifier_store_faithful_def pg_storable_def demo_verifier_env_def)

lemma demo_url_codec_ok: "url_codec_ok demo_verifier_env"
  by (auto simp: url_codec_ok_def demo_verifier_env_def)

lemma demo_sessions_valid: "verifier_valid demo_verifier_env demo_sessions"
  by (simp add: demo_sessions_def memory_valid_def SessionState_new_def)

lemma demo_sessions_view:
  "verifier_view demo_verifier_env demo_sessions = [''t'' \<mapsto> SessionState_new 0 ''t'' (Created demo_created)]"
  using demo_sessions_valid by (simp add: demo_sessions_def)

lemma demo_new_session:
  "new_session demo_verifier_env demo_verifier ''t'' [] 0 [demo_request [(''b'', False)]] ''uc'' (Some ''https'') (Memory Map.empty) =
     Ok (''t'', demo_sessions)"
  by (simp add: new_session_def demo_verifier_def Session_new_def demo_sessions_def demo_created_def memory_write_def
      session_into_def SessionState_new_def)


theorem result_is_final_in_memory_witness:
  "\<exists>m'. memory_cleanup disclosure_sd default_session_store_timeouts 0
      [''t'' \<mapsto> SessionState_new 0 ''t'' (Done \<lparr>dn_session_result = ResultCancelled\<rparr>)] = m' \<and>
    (m' ''t'' = Some (SessionState_new 0 ''t'' (Done \<lparr>dn_session_result = ResultCancelled\<rparr>)) \<or> m' ''t'' = None)"
proof -
  let ?x = "SessionState_new 0 ''t'' (Done \<lparr>dn_session_result = ResultCancelled\<rparr>)"
  let ?m = "[''t'' \<mapsto> ?x]"
  have "verifier_step demo_verifier_env demo_verifier (Memory ?m) (Cleanup default_session_store_timeouts 0)
      (Memory (memory_cleanup disclosure_sd default_session_store_timeouts 0 ?m))"
    by (simp add: verifier_step_simps)
  from verifier_run.step [OF verifier_run.start this]
  have "verifier_run demo_verifier_env demo_verifier (Memory ?m) [Cleanup default_session_store_timeouts 0]
      (Memory (memory_cleanup disclosure_sd default_session_store_timeouts 0 ?m))" by simp
  moreover have "memory_valid ?m" by (simp add: memory_valid_def SessionState_new_def)
  ultimately show ?thesis
    using result_is_final_in_memory [of demo_verifier_env demo_verifier "Memory ?m" "[Cleanup default_session_store_timeouts 0]"
        "Memory (memory_cleanup disclosure_sd default_session_store_timeouts 0 ?m)" ?m "''t''" ?x]
    by (simp add: SessionState_new_def)
qed

theorem verifier_url_is_accepted_for_ten_seconds_witness:
  "\<exists>url. generate_verifier_url demo_verifier_env ''https'' [] ''t'' SameDevice 0 = Ok url \<and>
    verify_ephemeral_id demo_verifier_env (seconds 10) [] ''t'' url = Ok SameDevice \<and>
    (\<exists>e. verify_ephemeral_id demo_verifier_env (seconds 11) [] ''t'' url = Err (Verification (ExpiredEphemeralId e)))"
proof -
  obtain url where url: "generate_verifier_url demo_verifier_env ''https'' [] ''t'' SameDevice 0 = Ok url"
    by (simp add: generate_verifier_url_def format_verifier_url_def BaseUrl_join_def demo_urls_def demo_verifier_env_def)
  have "seconds 11 > 0 + seconds 10" "\<not> seconds 10 > 0 + seconds 10" by (simp_all add: seconds_def)
  then have "verify_ephemeral_id demo_verifier_env (seconds 10) [] ''t'' url = Ok SameDevice"
    "verify_ephemeral_id demo_verifier_env (seconds 11) [] ''t'' url =
      Err (Verification (ExpiredEphemeralId (generate_ephemeral_id demo_verifier_env [] ''t'' 0)))"
    using verifier_url_is_accepted_for_ten_seconds [OF demo_url_codec_ok url, THEN conjunct1] by (simp_all only: if_True if_False)
  with url show ?thesis by blast
qed

end
