(* ===== verification/VpVerifier.thy ===== *)
theory VpVerifier
  imports VpExchange IssuanceMetadata Verifier
begin

text \<open>
  The verifier of OpenID4VP sessions, \<open>openid4vc/src/verifier.rs\<close>, which the wallet server runs: the states of a
  session, the requests that change them and the requests that read them. The sessions are in a store
  of theory \<open>SessionStore\<close>; session types and return URLs are those of \<open>mdoc/src/verifier.rs\<close>.
\<close>

section \<open>Return URL templates\<close>

text \<open>
  The strfmt crate fills in the parameters of a template and fails for one it does not know; the url crate
  parses text and tells the scheme of a URL.
\<close>

record template_ops =
  strfmt :: "string \<Rightarrow> session_token \<Rightarrow> string option"
  url_parse :: "string \<Rightarrow> url option"
  url_scheme :: "url \<Rightarrow> string"
  allow_http_return_url :: bool

function str_remove :: "string \<Rightarrow> string \<Rightarrow> string" where
  "str_remove p s =
     (if p = [] \<or> length s < length p then s
      else if take (length p) s = p then str_remove p (drop (length p) s)
      else hd s # str_remove p (tl s))"
  by auto
termination by (relation "measure (\<lambda>(p, s). length s)") (auto simp flip: length_greater_0_conv)

declare str_remove.simps [simp del]

definition is_valid_return_url_template :: "template_ops \<Rightarrow> string \<Rightarrow> bool" where
  "is_valid_return_url_template t s =
     (case url_parse t (str_remove ''{session_token}'' s) of
       Some url \<Rightarrow> url_scheme t url \<in> (if allow_http_return_url t then {''https'', ''http''} else {''https''})
     | None \<Rightarrow> False)"

definition ReturnUrlTemplate_into_url :: "template_ops \<Rightarrow> string \<Rightarrow> session_token \<Rightarrow> (url, 'e) res" where
  "ReturnUrlTemplate_into_url t self session_token =
     res_bind (unwrap (strfmt t self session_token)) (\<lambda>s. unwrap (url_parse t s))"

section \<open>Errors\<close>

datatype vp_session_error =
    VpUnexpectedState
  | VpSessionExpired
  | VpUnknownSession session_token
  | VpSessionStore session_store_error

datatype vp_verification_error =
    VerificationSession vp_session_error
  | VerificationUnknownUseCase string
  | VerificationReturnUrlConfigurationMismatch
  | VerificationNoItemsRequests
  | VerificationSessionNotDone
  | RedirectUriNonceMismatch string
  | RedirectUriNonceMissing
  | VerificationMissingSAN
  | VerificationCertificate certificate_error
  | VerificationUrlEncoding

datatype get_auth_request_error =
    GetSession vp_session_error
  | GetInvalidEphemeralId bytes
  | GetExpiredEphemeralId bytes
  | GetEncryptionKey
  | GetAuthRequest auth_request_error
  | GetJwt jwt_error
  | GetReturnUrlConfigurationMismatch
  | GetUnknownUseCase string
  | QueryParametersMissing
  | QueryParametersDeserialization

datatype post_auth_response_error =
    PostSession vp_session_error
  | PostAuthResponse auth_response_error

datatype authorization_error_code =
    AecInvalidRequest | AecUnauthorizedClient | AecAccessDenied | AecUnsupportedResponseType | AecInvalidScope
  | AecServerError | AecTemporarilyUnavailable

datatype vp_authorization_error_code =
    VpFormatsNotSupported | InvalidPresentationDefinitionUri | InvalidPresentationDefinitionReference
  | InvalidRequestUriMethod | VpAuthorizationError authorization_error_code

record 'e with_redirect_uri =
  wru_error :: 'e
  wru_redirect_uri :: "url option"

definition WithRedirectUri_new :: "'e \<Rightarrow> url option \<Rightarrow> 'e with_redirect_uri" where
  "WithRedirectUri_new error redirect_uri = \<lparr>wru_error = error, wru_redirect_uri = redirect_uri\<rparr>"

definition WithRedirectUri_from :: "'e \<Rightarrow> 'e with_redirect_uri" where
  "WithRedirectUri_from error = WithRedirectUri_new error None"

section \<open>Session states\<close>

record vp_created =
  vcr_items_requests :: "items_request list"
  vcr_usecase_id :: string
  vcr_client_id :: string
  vcr_redirect_uri_template :: "string option"

record redirect_uri =
  rdu_uri :: url
  rdu_nonce :: string

definition uri_from_option :: "redirect_uri option \<Rightarrow> url option" where
  "uri_from_option redirect_uri = map_option rdu_uri redirect_uri"

record vp_waiting =
  vw_auth_request :: iso_vp_authorization_request
  vw_encryption_key :: ec_key_pair
  vw_redirect_uri :: "redirect_uri option"

datatype vp_session_result =
    VpResultDone disclosed_attributes "string option"
  | VpResultFailed string
  | VpResultCancelled
  | VpResultExpired

record vp_done =
  vdn_session_result :: vp_session_result

datatype vp_disclosure_data =
    VpCreated vp_created
  | VpWaiting vp_waiting
  | VpDone vp_done

fun vp_progress :: "vp_disclosure_data \<Rightarrow> progress" where
  "vp_progress (VpCreated _) = Active"
| "vp_progress (VpWaiting _) = Active"
| "vp_progress (VpDone d) = Finished (case vdn_session_result d of VpResultDone _ _ \<Rightarrow> True | _ \<Rightarrow> False)"

fun vp_is_expired :: "vp_disclosure_data \<Rightarrow> bool" where
  "vp_is_expired (VpDone d) = (vdn_session_result d = VpResultExpired)"
| "vp_is_expired _ = False"

definition vp_expire :: "vp_disclosure_data \<Rightarrow> vp_disclosure_data" where
  "vp_expire self = VpDone \<lparr>vdn_session_result = VpResultExpired\<rparr>"

definition vp_sd :: "vp_disclosure_data session_data" where
  "vp_sd = \<lparr>sd_progress = vp_progress, sd_is_expired = vp_is_expired, sd_expire = vp_expire\<rparr>"

definition vp_into :: "('s \<Rightarrow> vp_disclosure_data) \<Rightarrow> 's session_state \<Rightarrow> vp_disclosure_data session_state" where
  "vp_into state value = \<lparr>ss_data = state (ss_data value), ss_token = ss_token value, ss_last_active = ss_last_active value\<rparr>"

definition VpCreated_try_from ::
  "vp_disclosure_data session_state \<Rightarrow> (vp_created session_state, vp_session_error) res" where
  "VpCreated_try_from value =
     res_bind (case ss_data value of
         VpCreated session_data \<Rightarrow> Ok session_data
       | VpDone d \<Rightarrow> if vdn_session_result d = VpResultExpired then Err VpSessionExpired else Err VpUnexpectedState
       | _ \<Rightarrow> Err VpUnexpectedState) (\<lambda>session_data.
     Ok \<lparr>ss_data = session_data, ss_token = ss_token value, ss_last_active = ss_last_active value\<rparr>)"

definition VpWaiting_try_from ::
  "vp_disclosure_data session_state \<Rightarrow> (vp_waiting session_state, vp_session_error) res" where
  "VpWaiting_try_from value =
     res_bind (case ss_data value of
         VpWaiting session_data \<Rightarrow> Ok session_data
       | VpDone d \<Rightarrow> if vdn_session_result d = VpResultExpired then Err VpSessionExpired else Err VpUnexpectedState
       | _ \<Rightarrow> Err VpUnexpectedState) (\<lambda>session_data.
     Ok \<lparr>ss_data = session_data, ss_token = ss_token value, ss_last_active = ss_last_active value\<rparr>)"

datatype vp_status_response =
    VpStatusCreated url | VpStatusWaitingForResponse | VpStatusDone | VpStatusFailed | VpStatusCancelled | VpStatusExpired

section \<open>Configuration and environment\<close>

record vp_use_case =
  vuc_key_pair :: server_key_pair
  vuc_client_id :: string
  vuc_session_type_return_url :: session_type_return_url

definition VpUseCase_new ::
  "vp_env \<Rightarrow> server_key_pair \<Rightarrow> session_type_return_url \<Rightarrow> (vp_use_case, vp_verification_error) res" where
  "VpUseCase_new env keypair return_url_config =
     res_bind (map_err VerificationCertificate (san_dns_name (vpe_crypto env) (kp_certificate keypair))) (\<lambda>san.
     res_bind (ok_or san VerificationMissingSAN) (\<lambda>client_id.
     Ok \<lparr>vuc_key_pair = keypair, vuc_client_id = client_id, vuc_session_type_return_url = return_url_config\<rparr>))"

record vp_verifier =
  vpv_use_cases :: "string \<Rightarrow> vp_use_case option"
  vpv_trust_anchors :: "trust_anchor list"
  vpv_ephemeral_id_secret :: bytes

record vp_url_parameters =
  vup_session_type :: session_type
  vup_ephemeral_id :: bytes
  vup_time :: datetime

datatype wallet_auth_response =
    AuthResponse string
  | AuthError "vp_authorization_error_code error_response"

record vp_response =
  vpr_redirect_uri :: "url option"

record vp_verifier_env =
  vve_vp :: vp_env
  vve_postgres :: "vp_disclosure_data postgres"
  vve_templates :: template_ops
  vve_urls :: url_ops
  vve_set_query :: "url \<Rightarrow> string \<Rightarrow> url"
  vve_append_pair :: "url \<Rightarrow> string \<Rightarrow> string \<Rightarrow> url"
  vve_to_rfc3339 :: "datetime \<Rightarrow> string"
  vve_parameters_to_string :: "vp_url_parameters \<Rightarrow> string option"
  vve_parameters_from_str :: "string \<Rightarrow> vp_url_parameters option"
  vve_request_uri_to_string :: "vp_request_uri_object \<Rightarrow> string option"
  vve_get_error_to_string :: "get_auth_request_error \<Rightarrow> string"
  vve_response_error_to_string :: "auth_response_error \<Rightarrow> string"
  vve_user_error_to_string :: "vp_authorization_error_code error_response \<Rightarrow> string"

abbreviation vve_crypto :: "vp_verifier_env \<Rightarrow> crypto" where
  "vve_crypto env \<equiv> vpe_crypto (vve_vp env)"

text \<open>What a request reads from the clock and the random number generator; generating a key pair may fail.\<close>

record vp_inputs =
  vin_now :: datetime
  vin_redirect_nonce :: string
  vin_nonce :: string
  vin_definition_id :: string
  vin_key_pair :: "ec_key_pair option"
  vin_clock :: clock
  vin_transition :: datetime

type_synonym vp_store = "vp_disclosure_data session_store_variant"

abbreviation vp_get ::
  "vp_verifier_env \<Rightarrow> vp_store \<Rightarrow> session_token \<Rightarrow> (vp_disclosure_data session_state option, vp_session_error) res" where
  "vp_get env sessions token \<equiv> map_err VpSessionStore (store_get vp_sd (vve_postgres env) sessions token)"

abbreviation vp_write ::
  "vp_verifier_env \<Rightarrow> vp_store \<Rightarrow> vp_disclosure_data session_state \<Rightarrow> bool \<Rightarrow> (vp_store, vp_session_error) res" where
  "vp_write env sessions session is_new \<equiv> map_err VpSessionStore (store_write vp_sd (vve_postgres env) sessions session is_new)"

section \<open>Ephemeral IDs and universal links\<close>

definition vp_ephemeral_id_payload :: "vp_verifier_env \<Rightarrow> session_token \<Rightarrow> datetime \<Rightarrow> bytes" where
  "vp_ephemeral_id_payload env session_token time = as_bytes (session_token @ ''|'' @ vve_to_rfc3339 env time)"

definition vp_generate_ephemeral_id :: "vp_verifier_env \<Rightarrow> bytes \<Rightarrow> session_token \<Rightarrow> datetime \<Rightarrow> bytes" where
  "vp_generate_ephemeral_id env ephemeral_id_secret session_token time =
     hmac_sign (vve_crypto env) ephemeral_id_secret (vp_ephemeral_id_payload env session_token time)"

definition vp_verify_ephemeral_id ::
  "vp_verifier_env \<Rightarrow> vp_verifier \<Rightarrow> datetime \<Rightarrow> session_token \<Rightarrow> vp_url_parameters \<Rightarrow> (unit, get_auth_request_error) res" where
  "vp_verify_ephemeral_id env self now session_token url_params =
     (if now - EPHEMERAL_ID_VALIDITY_SECONDS > vup_time url_params
      then Err (GetExpiredEphemeralId (vup_ephemeral_id url_params))
      else if hmac_sign (vve_crypto env) (vpv_ephemeral_id_secret self)
                (vp_ephemeral_id_payload env session_token (vup_time url_params)) \<noteq> vup_ephemeral_id url_params
      then Err (GetInvalidEphemeralId (vup_ephemeral_id url_params))
      else Ok ())"

definition BaseUrl_try_from :: "url_ops \<Rightarrow> url \<Rightarrow> url option" where
  "BaseUrl_try_from urls url = (if cannot_be_a_base urls url then None else Some url)"

definition format_ul ::
  "vp_verifier_env \<Rightarrow> url \<Rightarrow> url \<Rightarrow> datetime \<Rightarrow> bytes \<Rightarrow> session_type \<Rightarrow> string \<Rightarrow> (url, vp_verification_error) res" where
  "format_ul env base_ul request_uri time ephemeral_id session_type client_id =
     res_bind (ok_or (vve_parameters_to_string env
       \<lparr>vup_session_type = session_type, vup_ephemeral_id = ephemeral_id, vup_time = time\<rparr>) VerificationUrlEncoding) (\<lambda>query.
     res_bind (unwrap (BaseUrl_try_from (vve_urls env) (vve_set_query env request_uri query))) (\<lambda>request_uri.
     res_bind (ok_or (vve_request_uri_to_string env \<lparr>ruo_request_uri = request_uri,
       ruo_request_uri_method = Some UriMethodPost, ruo_client_id = client_id\<rparr>) VerificationUrlEncoding) (\<lambda>query.
     unwrap (BaseUrl_try_from (vve_urls env) (vve_set_query env base_ul query)))))"

section \<open>Transitions\<close>

definition vp_transition :: "datetime \<Rightarrow> 's session_state \<Rightarrow> 't \<Rightarrow> 't session_state" where
  "vp_transition now self new_state = SessionState_new now (ss_token self) new_state"

definition vp_transition_fail :: "datetime \<Rightarrow> 's session_state \<Rightarrow> string \<Rightarrow> vp_done session_state" where
  "vp_transition_fail now self error = vp_transition now self \<lparr>vdn_session_result = VpResultFailed error\<rparr>"

definition vp_transition_abort :: "datetime \<Rightarrow> 's session_state \<Rightarrow> vp_done session_state" where
  "vp_transition_abort now self = vp_transition now self \<lparr>vdn_session_result = VpResultCancelled\<rparr>"

definition vp_transition_finish :: "datetime \<Rightarrow> 's session_state \<Rightarrow> disclosed_attributes \<Rightarrow> string option \<Rightarrow> vp_done session_state" where
  "vp_transition_finish now self attributes nonce =
     vp_transition now self \<lparr>vdn_session_result = VpResultDone attributes nonce\<rparr>"

section \<open>A session that was created\<close>

definition VpSession_new ::
  "session_token \<Rightarrow> datetime \<Rightarrow> items_request list \<Rightarrow> string \<Rightarrow> string \<Rightarrow> string option \<Rightarrow> vp_created session_state" where
  "VpSession_new random_token now requests usecase_id client_id return_url_template =
     SessionState_new now random_token \<lparr>vcr_items_requests = requests, vcr_usecase_id = usecase_id, vcr_client_id = client_id,
       vcr_redirect_uri_template = return_url_template\<rparr>"

definition redirect_uri_and_nonce ::
  "vp_verifier_env \<Rightarrow> string \<Rightarrow> session_token \<Rightarrow> session_type_return_url \<Rightarrow> session_type \<Rightarrow> string option
     \<Rightarrow> (redirect_uri option, get_auth_request_error) res" where
  "redirect_uri_and_nonce env nonce session_token return_url_config session_type template =
     (let redirect = (\<lambda>uri_template.
            res_bind (ReturnUrlTemplate_into_url (vve_templates env) uri_template session_token) (\<lambda>uri.
            res_bind (unwrap (BaseUrl_try_from (vve_urls env) (vve_append_pair env uri ''nonce'' nonce))) (\<lambda>uri.
            Ok (Some \<lparr>rdu_uri = uri, rdu_nonce = nonce\<rparr>)))) in
      case (return_url_config, session_type, template) of
        (Both, _, Some uri_template) \<Rightarrow> redirect uri_template
      | (SameDeviceReturnUrl, SameDevice, Some uri_template) \<Rightarrow> redirect uri_template
      | (Neither, _, _) \<Rightarrow> Ok None
      | (SameDeviceReturnUrl, CrossDevice, _) \<Rightarrow> Ok None
      | (_, _, _) \<Rightarrow> Err GetReturnUrlConfigurationMismatch)"

definition process_get_request_inner ::
  "vp_verifier_env \<Rightarrow> vp_inputs \<Rightarrow> vp_created \<Rightarrow> session_token \<Rightarrow> url \<Rightarrow> session_type \<Rightarrow> string option \<Rightarrow> (string \<Rightarrow> vp_use_case option)
     \<Rightarrow> (jwt \<times> iso_vp_authorization_request \<times> redirect_uri option \<times> ec_key_pair, get_auth_request_error with_redirect_uri) res" where
  "process_get_request_inner env ins self session_token response_uri session_type wallet_nonce use_cases =
     res_bind (ok_or (use_cases (vcr_usecase_id self)) (WithRedirectUri_from (GetUnknownUseCase (vcr_usecase_id self)))) (\<lambda>usecase.
     res_bind (map_err WithRedirectUri_from (redirect_uri_and_nonce env (vin_redirect_nonce ins) session_token
       (vuc_session_type_return_url usecase) session_type (vcr_redirect_uri_template self))) (\<lambda>redirect_uri.
     let with_uri = (\<lambda>err. WithRedirectUri_new err (uri_from_option redirect_uri)) in
     res_bind (ok_or (vin_key_pair ins) (with_uri GetEncryptionKey)) (\<lambda>encryption_keypair.
     let pubkey = vpe_to_jwk_public_key (vve_vp env) encryption_keypair in
     res_bind (unwrap (if JwePublicKey_validate (vve_vp env) pubkey = Ok () then Some pubkey else None)) (\<lambda>pubkey.
     res_bind (map_err (\<lambda>err. with_uri (GetAuthRequest err)) (IsoVpAuthorizationRequest_new (vve_vp env) (vin_definition_id ins)
       (vcr_items_requests self) (kp_certificate (vuc_key_pair usecase)) (vin_nonce ins) pubkey response_uri wallet_nonce)) (\<lambda>auth_request.
     res_bind (map_err (\<lambda>err. with_uri (GetJwt err))
       (sign_with_certificate (vve_vp env) (VpAuthorizationRequest_from auth_request) (vuc_key_pair usecase))) (\<lambda>jwt.
     Ok (jwt, auth_request, redirect_uri, encryption_keypair)))))))"

definition Session_process_get_request ::
  "vp_verifier_env \<Rightarrow> vp_inputs \<Rightarrow> vp_created session_state \<Rightarrow> session_token \<Rightarrow> url \<Rightarrow> session_type \<Rightarrow> string option
     \<Rightarrow> (string \<Rightarrow> vp_use_case option)
     \<Rightarrow> (jwt \<times> vp_waiting session_state, get_auth_request_error with_redirect_uri \<times> vp_done session_state) res" where
  "Session_process_get_request env ins self session_token response_uri session_type wallet_nonce use_cases =
     (case process_get_request_inner env ins (ss_data self) session_token response_uri session_type wallet_nonce use_cases of
       Ok (jwt, auth_request, redirect_uri, enc_keypair) \<Rightarrow>
         Ok (jwt, vp_transition (vin_transition ins) self
           \<lparr>vw_auth_request = auth_request, vw_encryption_key = enc_keypair, vw_redirect_uri = redirect_uri\<rparr>)
     | Err err \<Rightarrow> Err (err, vp_transition_fail (vin_transition ins) self (vve_get_error_to_string env (wru_error err)))
     | Panic \<Rightarrow> Panic)"

section \<open>A session that waits for the response\<close>

definition vp_ok_response :: "vp_waiting \<Rightarrow> vp_response" where
  "vp_ok_response self = \<lparr>vpr_redirect_uri = uri_from_option (vw_redirect_uri self)\<rparr>"

text \<open>The outer result tells a panic; the inner one is what the wallet is answered.\<close>

definition Session_process_authorization_response ::
  "vp_verifier_env \<Rightarrow> vp_inputs \<Rightarrow> vp_waiting session_state \<Rightarrow> wallet_auth_response \<Rightarrow> trust_anchor list
     \<Rightarrow> ((vp_response, post_auth_response_error with_redirect_uri) res \<times> vp_done session_state, post_auth_response_error with_redirect_uri) res" where
  "Session_process_authorization_response env ins self wallet_response trust_anchors =
     (case wallet_response of
       AuthError err \<Rightarrow>
         let response = vp_ok_response (ss_data self) in
         if er_error err = VpAuthorizationError AecAccessDenied
         then Ok (Ok response, vp_transition_abort (vin_transition ins) self)
         else Ok (Ok response, vp_transition_fail (vin_transition ins) self (vve_user_error_to_string env err))
     | AuthResponse jwe \<Rightarrow>
         (case decrypt_and_verify (vve_vp env) jwe (vw_encryption_key (ss_data self)) (vw_auth_request (ss_data self))
             (vin_clock ins) trust_anchors of
           Ok disclosed \<Rightarrow>
             let redirect_uri_nonce = map_option rdu_nonce (vw_redirect_uri (ss_data self)) in
             Ok (Ok (vp_ok_response (ss_data self)), vp_transition_finish (vin_transition ins) self disclosed redirect_uri_nonce)
         | Err err \<Rightarrow>
             let redirect_uri = uri_from_option (vw_redirect_uri (ss_data self)) in
             Ok (Err (WithRedirectUri_new (PostAuthResponse err) redirect_uri),
               vp_transition_fail (vin_transition ins) self (vve_response_error_to_string env err))
         | Panic \<Rightarrow> Panic))"

section \<open>Requests\<close>

definition vp_new_session ::
  "vp_verifier_env \<Rightarrow> vp_verifier \<Rightarrow> session_token \<Rightarrow> datetime \<Rightarrow> items_request list \<Rightarrow> string \<Rightarrow> string option
     \<Rightarrow> vp_store \<Rightarrow> (session_token, vp_verification_error) res \<times> vp_store" where
  "vp_new_session env self random_token now requests usecase_id return_url_template sessions =
     (if requests = [] then (Err VerificationNoItemsRequests, sessions)
      else
      attempt (ok_or (vpv_use_cases self usecase_id) (VerificationUnknownUseCase usecase_id)) sessions (\<lambda>use_case.
      if (case vuc_session_type_return_url use_case of
          Neither \<Rightarrow> return_url_template \<noteq> None
        | SameDeviceReturnUrl \<Rightarrow> return_url_template = None
        | Both \<Rightarrow> return_url_template = None)
      then (Err VerificationReturnUrlConfigurationMismatch, sessions)
      else
        let session_state = VpSession_new random_token now requests usecase_id (vuc_client_id use_case) return_url_template in
        attempt (map_err VerificationSession (vp_write env sessions (vp_into VpCreated session_state) True)) sessions (\<lambda>sessions.
        (Ok (ss_token session_state), sessions))))"

definition get_session_state ::
  "vp_verifier_env \<Rightarrow> session_token \<Rightarrow> vp_store \<Rightarrow> (vp_disclosure_data session_state, vp_session_error) res" where
  "get_session_state env session_token sessions =
     res_bind (vp_get env sessions session_token) (\<lambda>found. ok_or found (VpUnknownSession session_token))"

definition process_get_request ::
  "vp_verifier_env \<Rightarrow> vp_verifier \<Rightarrow> vp_inputs \<Rightarrow> session_token \<Rightarrow> url \<Rightarrow> string option \<Rightarrow> string option \<Rightarrow> vp_store
     \<Rightarrow> (jwt, get_auth_request_error with_redirect_uri) res \<times> vp_store" where
  "process_get_request env self ins session_token response_uri query wallet_nonce sessions =
     attempt (map_err (\<lambda>e. WithRedirectUri_from (GetSession e))
       (res_bind (get_session_state env session_token sessions) VpCreated_try_from)) sessions (\<lambda>session.
     attempt (ok_or query (WithRedirectUri_from QueryParametersMissing)) sessions (\<lambda>query.
     attempt (ok_or (vve_parameters_from_str env query) (WithRedirectUri_from QueryParametersDeserialization)) sessions (\<lambda>url_params.
     attempt (map_err WithRedirectUri_from (vp_verify_ephemeral_id env self (vin_now ins) session_token url_params)) sessions (\<lambda>_.
     attempt (case Session_process_get_request env ins session session_token response_uri (vup_session_type url_params)
           wallet_nonce (vpv_use_cases self) of
         Ok (jwt, next) \<Rightarrow> Ok (Ok jwt, uri_from_option (vw_redirect_uri (ss_data next)), vp_into VpWaiting next)
       | Err (err, next) \<Rightarrow> Ok (Err err, wru_redirect_uri err, vp_into VpDone next)
       | Panic \<Rightarrow> Panic) sessions (\<lambda>(result, redirect_uri, next).
     attempt (map_err (\<lambda>err. WithRedirectUri_new (GetSession err) redirect_uri) (vp_write env sessions next False)) sessions (\<lambda>sessions.
     (result, sessions)))))))"

definition process_authorization_response ::
  "vp_verifier_env \<Rightarrow> vp_verifier \<Rightarrow> vp_inputs \<Rightarrow> session_token \<Rightarrow> wallet_auth_response \<Rightarrow> vp_store
     \<Rightarrow> (vp_response, post_auth_response_error with_redirect_uri) res \<times> vp_store" where
  "process_authorization_response env self ins session_token wallet_response sessions =
     attempt (map_err (\<lambda>e. WithRedirectUri_from (PostSession e))
       (res_bind (get_session_state env session_token sessions) VpWaiting_try_from)) sessions (\<lambda>session.
     attempt (Session_process_authorization_response env ins session wallet_response (vpv_trust_anchors self)) sessions (\<lambda>(result, next).
     attempt (map_err (\<lambda>err. WithRedirectUri_new (PostSession err) (case result of
           Ok response \<Rightarrow> vpr_redirect_uri response
         | Err err \<Rightarrow> wru_redirect_uri err
         | Panic \<Rightarrow> None)) (vp_write env sessions (vp_into VpDone next) False)) sessions (\<lambda>sessions.
     (result, sessions))))"

definition vp_status ::
  "vp_verifier_env \<Rightarrow> vp_verifier \<Rightarrow> session_token \<Rightarrow> session_type \<Rightarrow> url \<Rightarrow> url \<Rightarrow> datetime \<Rightarrow> vp_store
     \<Rightarrow> (vp_status_response, vp_verification_error) res" where
  "vp_status env self session_token session_type ul_base request_uri time sessions =
     res_bind (map_err VerificationSession (get_session_state env session_token sessions)) (\<lambda>state.
     case ss_data state of
       VpCreated c \<Rightarrow>
         res_bind (format_ul env ul_base request_uri time
           (vp_generate_ephemeral_id env (vpv_ephemeral_id_secret self) session_token time) session_type (vcr_client_id c)) (\<lambda>ul.
         Ok (VpStatusCreated ul))
     | VpWaiting _ \<Rightarrow> Ok VpStatusWaitingForResponse
     | VpDone d \<Rightarrow> Ok (case vdn_session_result d of
           VpResultDone _ _ \<Rightarrow> VpStatusDone
         | VpResultFailed _ \<Rightarrow> VpStatusFailed
         | VpResultCancelled \<Rightarrow> VpStatusCancelled
         | VpResultExpired \<Rightarrow> VpStatusExpired))"

definition vp_disclosed_attributes ::
  "vp_verifier_env \<Rightarrow> session_token \<Rightarrow> string option \<Rightarrow> vp_store \<Rightarrow> (disclosed_attributes, vp_verification_error) res" where
  "vp_disclosed_attributes env session_token redirect_uri_nonce sessions =
     res_bind (map_err VerificationSession (get_session_state env session_token sessions)) (\<lambda>state.
     case ss_data state of
       VpDone d \<Rightarrow>
         (case vdn_session_result d of
           VpResultDone attributes expected_nonce \<Rightarrow>
             (case (redirect_uri_nonce, expected_nonce) of
               (_, None) \<Rightarrow> Ok attributes
             | (None, Some _) \<Rightarrow> Err RedirectUriNonceMissing
             | (Some received, Some expected) \<Rightarrow>
                 if received = expected then Ok attributes else Err (RedirectUriNonceMismatch received))
         | _ \<Rightarrow> Err VerificationSessionNotDone)
     | _ \<Rightarrow> Err VerificationSessionNotDone)"

end
