(* ===== verification/VpRuns.thy ===== *)
theory VpRuns
  imports VpVerifier
begin

text \<open>
  Runs of the OpenID4VP verifier: what each request does to the stored sessions, and what the attributes that a relying party
  gets go back to.
\<close>

section \<open>The store of the verifier\<close>

lemma vp_sd_simps [simp]: "sd_progress vp_sd = vp_progress" "sd_is_expired vp_sd = vp_is_expired" "sd_expire vp_sd = vp_expire"
  by (simp_all add: vp_sd_def)

lemma vp_sd_laws: "session_data_laws vp_sd"
proof -
  have "vp_progress d = Finished False" if "vp_is_expired d" for d using that by (cases d) auto
  then show ?thesis by (simp add: session_data_laws_def vp_expire_def)
qed

interpretation vv: expiring_session_store "variant_valid vp_sd pg" "variant_view vp_sd pg" "variant_frozen pg" "pg_storable pg"
  "store_get vp_sd pg" "store_write vp_sd pg" vp_sd "store_cleanup vp_sd pg" for pg
  by (rule expiring_store_variant [OF vp_sd_laws])

abbreviation vp_valid :: "vp_verifier_env \<Rightarrow> vp_store \<Rightarrow> bool" where
  "vp_valid env \<equiv> variant_valid vp_sd (vve_postgres env)"

abbreviation vp_view :: "vp_verifier_env \<Rightarrow> vp_store \<Rightarrow> session_token \<Rightarrow> vp_disclosure_data session_state option" where
  "vp_view env \<equiv> variant_view vp_sd (vve_postgres env)"

definition vp_store_faithful :: "vp_verifier_env \<Rightarrow> bool" where
  "vp_store_faithful env \<longleftrightarrow> (\<forall>x. pg_storable (vve_postgres env) x)"

lemma vp_transition_simps [simp]:
  "ss_token (vp_transition now self d) = ss_token self" "ss_data (vp_transition now self d) = d"
  "ss_token (vp_transition_fail now self e) = ss_token self" "ss_data (vp_transition_fail now self e) = \<lparr>vdn_session_result = VpResultFailed e\<rparr>"
  "ss_token (vp_transition_abort now self) = ss_token self" "ss_data (vp_transition_abort now self) = \<lparr>vdn_session_result = VpResultCancelled\<rparr>"
  "ss_token (vp_transition_finish now self as n) = ss_token self" "ss_data (vp_transition_finish now self as n) = \<lparr>vdn_session_result = VpResultDone as n\<rparr>"
  "ss_token (vp_into f x) = ss_token x" "ss_data (vp_into f x) = f (ss_data x)"
  by (simp_all add: vp_transition_def vp_transition_fail_def vp_transition_abort_def vp_transition_finish_def SessionState_new_def vp_into_def)

lemma vp_update:
  assumes f: "vp_store_faithful env" and v: "vp_valid env s" and x: "vp_view env s token = Some x" "\<not> vp_is_expired (ss_data x)"
    and n: "ss_token nxt = token"
  obtains s' where "vp_write env s nxt False = Ok s'" "vp_valid env s'" "vp_view env s' = (vp_view env s)(token \<mapsto> nxt)"
proof -
  have "store_get vp_sd (vve_postgres env) s (ss_token nxt) = Ok (Some x)" "\<not> sd_is_expired vp_sd (ss_data x)" "pg_storable (vve_postgres env) nxt"
    using x n v f by (simp_all add: vs.get_view vp_store_faithful_def)
  from vv.update_unexpired [OF v this] n that show thesis by auto
qed

lemma get_session_state_Ok:
  "vp_valid env s \<Longrightarrow> get_session_state env token s = Ok x \<longleftrightarrow> vp_view env s token = Some x"
  by (auto simp: get_session_state_def vs.get_view result_simps)

lemma VpCreated_try_from_Ok:
  "VpCreated_try_from x = Ok c \<longleftrightarrow> ss_data x = VpCreated (ss_data c) \<and> ss_token c = ss_token x \<and> ss_last_active c = ss_last_active x"
  by (cases "ss_data x"; cases c) (auto simp: VpCreated_try_from_def)

lemma VpWaiting_try_from_Ok:
  "VpWaiting_try_from x = Ok w \<longleftrightarrow> ss_data x = VpWaiting (ss_data w) \<and> ss_token w = ss_token x \<and> ss_last_active w = ss_last_active x"
  by (cases "ss_data x"; cases w) (auto simp: VpWaiting_try_from_def)

section \<open>A request for the authorization request\<close>

text \<open>A session that a request with a valid ephemeral ID opened for a created one.\<close>

definition request_opened ::
  "vp_verifier_env \<Rightarrow> vp_verifier \<Rightarrow> vp_inputs \<Rightarrow> session_token \<Rightarrow> url \<Rightarrow> string option \<Rightarrow> string option \<Rightarrow> vp_created \<Rightarrow> vp_waiting \<Rightarrow> bool" where
  "request_opened env vf ins token response_uri query wallet_nonce c w \<longleftrightarrow> (\<exists>q params uc.
     query = Some q \<and> vve_parameters_from_str env q = Some params \<and> vp_verify_ephemeral_id env vf (vin_now ins) token params = Ok () \<and>
     vpv_use_cases vf (vcr_usecase_id c) = Some uc \<and> vin_key_pair ins = Some (vw_encryption_key w) \<and>
     IsoVpAuthorizationRequest_new (vve_vp env) (vin_definition_id ins) (vcr_items_requests c) (kp_certificate (vuc_key_pair uc))
       (vin_nonce ins) (vpe_to_jwk_public_key (vve_vp env) (vw_encryption_key w)) response_uri wallet_nonce = Ok (vw_auth_request w) \<and>
     map_option rdu_nonce (vw_redirect_uri w) =
       (if expects_nonce (vuc_session_type_return_url uc) (vup_session_type params) then Some (vin_redirect_nonce ins) else None))"

lemma redirect_uri_and_nonce_Ok:
  "redirect_uri_and_nonce env nonce token config st template = Ok r \<Longrightarrow>
     map_option rdu_nonce r = (if expects_nonce config st then Some nonce else None)"
  by (cases config; cases st; cases template) (auto simp: redirect_uri_and_nonce_def result_simps)

lemma process_get_request_inner_Ok:
  assumes "process_get_request_inner env ins c token uri st wn ucs = Ok (jwt, areq, r, k)"
  obtains uc where "ucs (vcr_usecase_id c) = Some uc" "vin_key_pair ins = Some k"
    "IsoVpAuthorizationRequest_new (vve_vp env) (vin_definition_id ins) (vcr_items_requests c) (kp_certificate (vuc_key_pair uc))
       (vin_nonce ins) (vpe_to_jwk_public_key (vve_vp env) k) uri wn = Ok areq"
    "redirect_uri_and_nonce env (vin_redirect_nonce ins) token (vuc_session_type_return_url uc) st (vcr_redirect_uri_template c) = Ok r"
    "sign_with_certificate (vve_vp env) (VpAuthorizationRequest_from areq) (vuc_key_pair uc) = Ok jwt"
  using assms by (auto simp: process_get_request_inner_def Let_def result_simps split: if_splits)

lemma process_get_request_cases:
  assumes f: "vp_store_faithful env" and v: "vp_valid env s"
    and e: "process_get_request env vf ins token uri query wn s = (r, s')"
  obtains (unchanged) "s' = s" "\<And>y. r \<noteq> Ok y"
  | (failed) x c y d where "vp_view env s token = Some x" "ss_data x = VpCreated c" "vp_valid env s'"
    "vp_view env s' = (vp_view env s)(token \<mapsto> y)" "ss_data y = VpDone \<lparr>vdn_session_result = VpResultFailed d\<rparr>" "\<And>y. r \<noteq> Ok y"
  | (opened) x c y w jwt where "vp_view env s token = Some x" "ss_data x = VpCreated c" "vp_valid env s'"
    "vp_view env s' = (vp_view env s)(token \<mapsto> y)" "ss_data y = VpWaiting w" "request_opened env vf ins token uri query wn c w" "r = Ok jwt"
proof -
  let ?session = "res_bind (get_session_state env token s) VpCreated_try_from"
  let ?eph = "\<lambda>params. vp_verify_ephemeral_id env vf (vin_now ins) token params"
  define k where "k session params = (case Session_process_get_request env ins session token uri (vup_session_type (params :: vp_url_parameters)) wn (vpv_use_cases vf) of
         Ok (jwt, next) \<Rightarrow> Ok (Ok jwt, uri_from_option (vw_redirect_uri (ss_data next)), vp_into VpWaiting next)
       | Err (err, next) \<Rightarrow> Ok (Err err, wru_redirect_uri err, vp_into VpDone next)
       | Panic \<Rightarrow> (Panic :: (_, get_auth_request_error with_redirect_uri) res))" for session params
  let ?put = "\<lambda>(result, redirect_uri, next).
    attempt (map_err (\<lambda>err. WithRedirectUri_new (GetSession err) redirect_uri) (vp_write env s next False)) s (\<lambda>sessions. (result, sessions))"
  show thesis
  proof (cases "\<exists>c q params. ?session = Ok c \<and> query = Some q \<and> vve_parameters_from_str env q = Some params \<and> ?eph params = Ok ()")
    case False
    then have "s' = s \<and> (\<forall>y. r \<noteq> Ok y)" using e unfolding process_get_request_def
      by (cases ?session; cases query; cases "vve_parameters_from_str env (the query)";
        cases "?eph (the (vve_parameters_from_str env (the query)))") auto
    then show thesis using unchanged by blast
  next
    case True
    then obtain c q params where c: "?session = Ok c" and p: "query = Some q" "vve_parameters_from_str env q = Some params" "?eph params = Ok ()"
      by blast
    have e: "attempt (k c params) s ?put = (r, s')" using e c p unfolding process_get_request_def k_def by simp
    from c obtain x where x: "vp_view env s token = Some x" "ss_data x = VpCreated (ss_data c)" "ss_token c = token"
      using vs.view_token [of vp_sd "vve_postgres env" s token]
      by (auto simp: result_simps get_session_state_Ok [OF v] VpCreated_try_from_Ok)
    have x': "\<not> vp_is_expired (ss_data x)" using x(2) by simp
    show thesis
    proof (cases "process_get_request_inner env ins (ss_data c) token uri (vup_session_type params) wn (vpv_use_cases vf)")
      case (Ok y)
      obtain jwt areq rd kp where y: "y = (jwt, areq, rd, kp)" by (cases y)
      let ?w = "\<lparr>vw_auth_request = areq, vw_encryption_key = kp, vw_redirect_uri = rd\<rparr>"
      let ?n = "vp_into VpWaiting (vp_transition (vin_transition ins) c ?w)"
      have k: "k c params = Ok (Ok jwt, uri_from_option rd, ?n)" using Ok y by (simp add: k_def Session_process_get_request_def)
      have n: "ss_token ?n = token" using x(3) by simp
      obtain s2 where s2: "vp_write env s ?n False = Ok s2" "vp_valid env s2" "vp_view env s2 = (vp_view env s)(token \<mapsto> ?n)"
        by (rule vp_update [OF f v x(1) x' n])
      have "request_opened env vf ins token uri query wn (ss_data c) ?w"
        by (rule process_get_request_inner_Ok [OF Ok [unfolded y]])
          (use p in \<open>auto simp: request_opened_def redirect_uri_and_nonce_Ok\<close>)
      moreover have "r = Ok jwt" "s' = s2" using e k s2(1) by simp_all
      ultimately show thesis using opened [OF x(1,2), of ?n ?w jwt] s2(2,3) by simp
    next
      case (Err err)
      let ?n = "vp_into VpDone (vp_transition_fail (vin_transition ins) c (vve_get_error_to_string env (wru_error err)))"
      have k: "k c params = Ok (Err err, wru_redirect_uri err, ?n)" using Err by (simp add: k_def Session_process_get_request_def)
      have n: "ss_token ?n = token" using x(3) by simp
      obtain s2 where s2: "vp_write env s ?n False = Ok s2" "vp_valid env s2" "vp_view env s2 = (vp_view env s)(token \<mapsto> ?n)"
        by (rule vp_update [OF f v x(1) x' n])
      have "r = Err err" "s' = s2" using e k s2(1) by simp_all
      then show thesis using failed [OF x(1,2), of ?n] s2(2,3) by simp
    next
      case Panic
      then have "k c params = Panic" by (simp add: k_def Session_process_get_request_def)
      then show thesis using e unchanged by simp
    qed
  qed
qed

section \<open>An authorization response\<close>

text \<open>What the verifier checked of the response that gave it attributes.\<close>

definition vp_response_accepted :: "vp_verifier_env \<Rightarrow> vp_verifier \<Rightarrow> vp_waiting \<Rightarrow> disclosed_attributes \<Rightarrow> bool" where
  "vp_response_accepted env vf w attrs \<longleftrightarrow> (\<exists>mdoc_nonce st dr clock.
     new_oid4vp (vve_vp env) (iso_response_uri (vw_auth_request w)) (iso_client_id (vw_auth_request w)) (iso_nonce (vw_auth_request w)) mdoc_nonce
       = (Ok st :: (session_transcript, auth_response_error) res) \<and>
     DeviceResponse_verify (vpe_disclosure (vve_vp env)) dr None st clock (vpv_trust_anchors vf) = Ok attrs \<and>
     match_against_response (iso_items_requests (vw_auth_request w)) dr = Ok ())"

lemma decrypt_and_verify_accepted:
  "decrypt_and_verify (vve_vp env) jwe key (vw_auth_request w) clock (vpv_trust_anchors vf) = Ok attrs \<Longrightarrow> vp_response_accepted env vf w attrs"
  unfolding decrypt_and_verify_def vp_response_accepted_def
  by (auto simp: result_simps split_beta elim!: VpAuthorizationResponse_verify_Ok; blast)

lemma process_authorization_response_cases:
  assumes f: "vp_store_faithful env" and v: "vp_valid env s"
    and e: "process_authorization_response env vf ins token resp s = (r, s')"
  obtains (unchanged) "s' = s" "\<And>y. r \<noteq> Ok y"
  | (ended) x w y d where "vp_view env s token = Some x" "ss_data x = VpWaiting w" "vp_valid env s'"
    "vp_view env s' = (vp_view env s)(token \<mapsto> y)" "ss_data y = VpDone \<lparr>vdn_session_result = d\<rparr>"
    "\<And>attrs nonce. d = VpResultDone attrs nonce \<Longrightarrow> vp_response_accepted env vf w attrs \<and> nonce = map_option rdu_nonce (vw_redirect_uri w)"
proof -
  let ?session = "res_bind (get_session_state env token s) VpWaiting_try_from"
  show thesis
  proof (cases "\<exists>w z. ?session = Ok w \<and> Session_process_authorization_response env ins w resp (vpv_trust_anchors vf) = Ok z")
    case False
    then have "s' = s \<and> (\<forall>y. r \<noteq> Ok y)" using e unfolding process_authorization_response_def
      by (cases ?session; cases "Session_process_authorization_response env ins (SOME w. ?session = Ok w) resp (vpv_trust_anchors vf)") auto
    then show thesis using unchanged by blast
  next
    case True
    then obtain w res nxt where w: "?session = Ok w"
      and z: "Session_process_authorization_response env ins w resp (vpv_trust_anchors vf) = Ok (res, nxt)" by auto
    from w obtain x where x: "vp_view env s token = Some x" "ss_data x = VpWaiting (ss_data w)" "ss_token w = token"
      using vs.view_token [of vp_sd "vve_postgres env" s token]
      by (auto simp: result_simps get_session_state_Ok [OF v] VpWaiting_try_from_Ok)
    have n: "ss_token (vp_into VpDone nxt) = token" using z x(3)
      by (auto simp: Session_process_authorization_response_def Let_def split: wallet_auth_response.splits if_splits res.splits)
    have "\<not> vp_is_expired (ss_data x)" using x(2) by simp
    then obtain s2 where s2: "vp_write env s (vp_into VpDone nxt) False = Ok s2" "vp_valid env s2"
      "vp_view env s2 = (vp_view env s)(token \<mapsto> vp_into VpDone nxt)"
      using vp_update [OF f v x(1) _ n] by blast
    have "s' = s2" using e w z s2(1) unfolding process_authorization_response_def by simp
    moreover have "vp_response_accepted env vf (ss_data w) attrs \<and> nonce = map_option rdu_nonce (vw_redirect_uri (ss_data w))"
      if "vdn_session_result (ss_data nxt) = VpResultDone attrs nonce" for attrs nonce
      using z that decrypt_and_verify_accepted
      by (auto simp: Session_process_authorization_response_def Let_def split: wallet_auth_response.splits if_splits res.splits)
    ultimately show thesis using ended [OF x(1,2), of "vp_into VpDone nxt" "vdn_session_result (ss_data nxt)"] s2(2,3) by simp
  qed
qed

section \<open>Runs\<close>

datatype vp_event =
    VpNewSession "items_request list" string "string option" session_token datetime
  | VpGetRequest vp_inputs session_token url "string option" "string option"
  | VpAuthResponse vp_inputs session_token wallet_auth_response
  | VpCleanup session_store_timeouts datetime

inductive vp_step :: "vp_verifier_env \<Rightarrow> vp_verifier \<Rightarrow> vp_store \<Rightarrow> vp_event \<Rightarrow> vp_store \<Rightarrow> bool" for env vf where
  create: "vp_new_session env vf token now reqs usecase template s = (r, s') \<Longrightarrow>
    vp_step env vf s (VpNewSession reqs usecase template token now) s'"
| get: "process_get_request env vf ins token uri query wn s = (jwt, s') \<Longrightarrow> vp_step env vf s (VpGetRequest ins token uri query wn) s'"
| respond: "process_authorization_response env vf ins token resp s = (reply, s') \<Longrightarrow> vp_step env vf s (VpAuthResponse ins token resp) s'"
| cleanup: "store_cleanup vp_sd (vve_postgres env) timeouts now s = Ok s' \<Longrightarrow> vp_step env vf s (VpCleanup timeouts now) s'"

inductive vp_run :: "vp_verifier_env \<Rightarrow> vp_verifier \<Rightarrow> vp_store \<Rightarrow> vp_event list \<Rightarrow> vp_store \<Rightarrow> bool" for env vf where
  start: "vp_run env vf s [] s"
| step: "\<lbrakk>vp_run env vf s evs s'; vp_step env vf s' ev s''\<rbrakk> \<Longrightarrow> vp_run env vf s (evs @ [ev]) s''"

text \<open>
  Where a session comes from: a relying party created it; a device with a valid ephemeral ID fetched its request; a response to that
  request was accepted.
\<close>

definition vp_created_traced :: "vp_event list \<Rightarrow> session_token \<Rightarrow> vp_created \<Rightarrow> bool" where
  "vp_created_traced evs token c \<longleftrightarrow> (\<exists>now. VpNewSession (vcr_items_requests c) (vcr_usecase_id c) (vcr_redirect_uri_template c) token now \<in> set evs)"

definition vp_waiting_traced :: "vp_verifier_env \<Rightarrow> vp_verifier \<Rightarrow> vp_event list \<Rightarrow> session_token \<Rightarrow> vp_waiting \<Rightarrow> bool" where
  "vp_waiting_traced env vf evs token w \<longleftrightarrow> (\<exists>c ins uri query wn. vp_created_traced evs token c \<and>
     VpGetRequest ins token uri query wn \<in> set evs \<and> request_opened env vf ins token uri query wn c w)"

definition vp_session_traced :: "vp_verifier_env \<Rightarrow> vp_verifier \<Rightarrow> vp_event list \<Rightarrow> session_token \<Rightarrow> vp_disclosure_data \<Rightarrow> bool" where
  "vp_session_traced env vf evs token data = (case data of
     VpCreated c \<Rightarrow> vp_created_traced evs token c
   | VpWaiting w \<Rightarrow> vp_waiting_traced env vf evs token w
   | VpDone d \<Rightarrow> (case vdn_session_result d of
       VpResultDone attrs nonce \<Rightarrow> \<exists>w. vp_waiting_traced env vf evs token w \<and> vp_response_accepted env vf w attrs \<and>
         nonce = map_option rdu_nonce (vw_redirect_uri w)
     | _ \<Rightarrow> True))"

lemma vp_traced_mono:
  "vp_created_traced evs token c \<Longrightarrow> vp_created_traced (evs @ evs') token c"
  "vp_waiting_traced env vf evs token w \<Longrightarrow> vp_waiting_traced env vf (evs @ evs') token w"
  "vp_session_traced env vf evs token d \<Longrightarrow> vp_session_traced env vf (evs @ evs') token d"
proof -
  show 1: "vp_created_traced evs token c \<Longrightarrow> vp_created_traced (evs @ evs') token c" for c by (auto simp: vp_created_traced_def)
  show 2: "vp_waiting_traced env vf evs token w \<Longrightarrow> vp_waiting_traced env vf (evs @ evs') token w" for w
    unfolding vp_waiting_traced_def using 1 by (metis UnI1 set_append)
  show "vp_session_traced env vf evs token d \<Longrightarrow> vp_session_traced env vf (evs @ evs') token d"
    using 1 2 by (auto simp: vp_session_traced_def split: vp_disclosure_data.splits vp_session_result.splits)
qed

lemma attempt_last:
  "attempt r s (\<lambda>a. (Ok (g a), h a)) = (x, s') \<longleftrightarrow>
     (\<exists>a. r = Ok a \<and> x = Ok (g a) \<and> s' = h a) \<or> s' = s \<and> ((\<exists>e. r = Err e \<and> x = Err e) \<or> r = Panic \<and> x = Panic)"
  by (cases r) auto

lemma vp_new_session_cases:
  assumes f: "vp_store_faithful env" and v: "vp_valid env s" and e: "vp_new_session env vf token now reqs usecase template s = (r, s')"
  obtains (refused) "s' = s" "\<And>y. r \<noteq> Ok y"
  | (created) uc y where "r = Ok token" "vpv_use_cases vf usecase = Some uc" "reqs \<noteq> []" "vp_valid env s'" "vp_view env s token = None"
    "vp_view env s' = (vp_view env s)(token \<mapsto> y)"
    "ss_data y = VpCreated \<lparr>vcr_items_requests = reqs, vcr_usecase_id = usecase, vcr_client_id = vuc_client_id uc, vcr_redirect_uri_template = template\<rparr>"
proof (cases r)
  case (Ok y)
  with e obtain uc where uc: "vpv_use_cases vf usecase = Some uc" "reqs \<noteq> []"
    and w: "vp_write env s (vp_into VpCreated (VpSession_new token now reqs usecase (vuc_client_id uc) template)) True = Ok s'" "y = token"
    by (auto simp: vp_new_session_def Let_def result_simps VpSession_new_def SessionState_new_def split: if_splits)
  let ?x = "vp_into VpCreated (VpSession_new token now reqs usecase (vuc_client_id uc) template)"
  have x: "pg_storable (vve_postgres env) ?x" "ss_token ?x = token"
    using f by (simp_all add: vp_store_faithful_def VpSession_new_def SessionState_new_def)
  show thesis using created [OF _ uc, of ?x] vv.create_view [OF v x(1) w(1) [unfolded map_err_eq_Ok]] x(2) w(2) Ok
    by (auto simp: VpSession_new_def SessionState_new_def)
qed (use e in \<open>auto simp: vp_new_session_def Let_def ok_or_def attempt_last intro: refused split: if_splits option.splits\<close>)


lemma vp_session_traced_update:
  assumes tr: "\<And>t x. vp_view env s t = Some x \<Longrightarrow> vp_session_traced env vf evs t (ss_data x)"
    and u: "vp_view env s' = (vp_view env s)(token \<mapsto> y)" and y: "vp_session_traced env vf (evs @ [ev]) token (ss_data y)"
    and x: "vp_view env s' t = Some x"
  shows "vp_session_traced env vf (evs @ [ev]) t (ss_data x)"
  using assms vp_traced_mono(3) [OF tr] by (cases "t = token") auto

lemma vp_step_traced:
  assumes f: "vp_store_faithful env" and v: "vp_valid env s" and st: "vp_step env vf s ev s'"
    and tr: "\<And>t x. vp_view env s t = Some x \<Longrightarrow> vp_session_traced env vf evs t (ss_data x)"
  shows "vp_valid env s' \<and> (\<forall>t x. vp_view env s' t = Some x \<longrightarrow> vp_session_traced env vf (evs @ [ev]) t (ss_data x))"
  using st
proof cases
  case (create token now reqs usecase template r)
  from f v create(2) show ?thesis
  proof (cases rule: vp_new_session_cases)
    case (created uc y)
    then have "vp_session_traced env vf (evs @ [ev]) token (ss_data y)"
      using create(1) by (auto simp: vp_session_traced_def vp_created_traced_def)
    then show ?thesis using vp_session_traced_update [OF tr created(6)] created(4) by blast
  qed (use v tr in \<open>simp add: vp_traced_mono\<close>)
next
  case (get ins token uri query wn jwt)
  from f v get(2) show ?thesis
  proof (cases rule: process_get_request_cases)
    case (failed x c y d)
    then have "vp_session_traced env vf (evs @ [ev]) token (ss_data y)" by (simp add: vp_session_traced_def)
    then show ?thesis using vp_session_traced_update [OF tr failed(4)] failed(3) by blast
  next
    case (opened x c y w j)
    have "vp_created_traced (evs @ [ev]) token c" using tr [OF opened(1)] opened(2) by (simp add: vp_session_traced_def vp_traced_mono)
    moreover have "VpGetRequest ins token uri query wn \<in> set (evs @ [ev])" using get(1) by simp
    ultimately have "vp_session_traced env vf (evs @ [ev]) token (ss_data y)"
      using opened(5,6) unfolding vp_session_traced_def vp_waiting_traced_def by (simp only: vp_disclosure_data.simps) blast
    then show ?thesis using vp_session_traced_update [OF tr opened(4)] opened(3) by blast
  qed (use v tr in \<open>simp add: vp_traced_mono\<close>)
next
  case (respond ins token resp reply)
  from f v respond(2) show ?thesis
  proof (cases rule: process_authorization_response_cases)
    case (ended x w y d)
    have "vp_waiting_traced env vf (evs @ [ev]) token w" using tr [OF ended(1)] ended(2) by (simp add: vp_session_traced_def vp_traced_mono)
    then have "vp_session_traced env vf (evs @ [ev]) token (ss_data y)"
      using ended(5,6) by (auto simp: vp_session_traced_def split: vp_session_result.splits)
    then show ?thesis using vp_session_traced_update [OF tr ended(4)] ended(3) by blast
  qed (use v tr in \<open>simp add: vp_traced_mono\<close>)
next
  case (cleanup timeouts now)
  have "vp_session_traced env vf (evs @ [ev]) t (ss_data x)" if "vp_view env s' t = Some x" for t x
  proof (rule vv.clean_keeps [OF v cleanup(2), of "\<lambda>t d. vp_session_traced env vf (evs @ [ev]) t d"])
    show "vp_session_traced env vf (evs @ [ev]) t (ss_data x)" if "vp_view env s t = Some x" for t x
      using vp_traced_mono(3) [OF tr [OF that]] .
  qed (use that in \<open>simp_all add: vp_session_traced_def vp_expire_def\<close>)
  then show ?thesis using vv.clean_valid [OF v cleanup(2)] by blast
qed

lemma vp_run_traced:
  assumes "vp_run env vf s evs s'" "vp_store_faithful env" "vp_valid env s" "vp_view env s = Map.empty"
  shows "vp_valid env s' \<and> (\<forall>t x. vp_view env s' t = Some x \<longrightarrow> vp_session_traced env vf evs t (ss_data x))"
  using assms
proof induction
  case (step s evs s' ev s'')
  then show ?case using vp_step_traced [OF step(4) _ step(2)] by blast
qed simp

lemma vp_disclosed_attributes_Ok:
  assumes "vp_valid env s" "vp_disclosed_attributes env token nonce s = Ok attrs"
  obtains x expected where "vp_view env s token = Some x" "ss_data x = VpDone \<lparr>vdn_session_result = VpResultDone attrs expected\<rparr>"
    "expected = None \<or> nonce = expected"
proof -
  from assms obtain x where x: "vp_view env s token = Some x"
    and k: "(case ss_data x of
       VpDone d \<Rightarrow>
         (case vdn_session_result d of
           VpResultDone attributes expected_nonce \<Rightarrow>
             (case (nonce, expected_nonce) of
               (_, None) \<Rightarrow> Ok attributes
             | (None, Some _) \<Rightarrow> Err RedirectUriNonceMissing
             | (Some received, Some expected) \<Rightarrow>
                 if received = expected then Ok attributes else Err (RedirectUriNonceMismatch received))
         | _ \<Rightarrow> Err VerificationSessionNotDone)
     | _ \<Rightarrow> Err VerificationSessionNotDone) = Ok attrs"
    unfolding vp_disclosed_attributes_def res_bind_eq_Ok map_err_eq_Ok get_session_state_Ok [OF assms(1)] by blast
  from k obtain d where d: "ss_data x = VpDone d" by (cases "ss_data x") auto
  with k obtain expected where "vdn_session_result d = VpResultDone attrs expected" "expected = None \<or> nonce = expected"
    by (cases "vdn_session_result d"; cases nonce) (auto split: option.splits if_splits)
  then show thesis using that [of x expected] x d by (cases d) simp
qed

lemma IsoVpAuthorizationRequest_new_Ok:
  assumes "IsoVpAuthorizationRequest_new env i reqs cert nonce key uri wn = Ok areq"
  shows "iso_items_requests areq = reqs" "iso_response_uri areq = uri" "iso_nonce areq = nonce" "iso_state areq = None"
    "iso_presentation_definition areq = PresentationDefinition_from i reqs" "iso_encryption_pubkey areq = key"
    "san_dns_name (vpe_crypto env) cert = Ok (Some (iso_client_id areq))" "iso_wallet_nonce areq = wn"
  using assms by (auto simp: IsoVpAuthorizationRequest_new_def result_simps)

text \<open>
  C2: Whatever requests reached the OpenID4VP verifier, in whatever order and with whatever outcome, since its store was empty: the
  attributes that a relying party gets for a session token come from a device response that verified, against the verifier's trust
  anchors and without a reader key, for the transcript of an authorization request with that session's own response URI, client ID and
  nonce, and that response matched the items the relying party asked for when it created the session. A device fetched that request with
  an ephemeral ID valid for the session, and the client ID and key are those of the session's use case. Where the use case returns the
  user to the relying party for that type of session, the relying party presented the nonce of the redirect URI.
\<close>

theorem vp_disclosed_attributes_are_traced:
  assumes "vp_store_faithful env" "vp_valid env s0" "vp_view env s0 = Map.empty" "vp_run env vf s0 evs s"
    and "vp_disclosed_attributes env token nonce s = Ok attrs"
  shows "\<exists>reqs usecase uc template now ins uri q wn params areq mdoc_nonce st dr clock.
    VpNewSession reqs usecase template token now \<in> set evs \<and> VpGetRequest ins token uri (Some q) wn \<in> set evs \<and>
    vpv_use_cases vf usecase = Some uc \<and> vve_parameters_from_str env q = Some params \<and>
    vp_verify_ephemeral_id env vf (vin_now ins) token params = Ok () \<and>
    iso_items_requests (areq :: iso_vp_authorization_request) = reqs \<and> iso_response_uri areq = uri \<and> iso_nonce areq = vin_nonce ins \<and>
    san_dns_name (vpe_crypto (vve_vp env)) (kp_certificate (vuc_key_pair uc)) = Ok (Some (iso_client_id areq)) \<and>
    new_oid4vp (vve_vp env) uri (iso_client_id areq) (iso_nonce areq) mdoc_nonce = (Ok st :: (session_transcript, auth_response_error) res) \<and>
    DeviceResponse_verify (vpe_disclosure (vve_vp env)) dr None st clock (vpv_trust_anchors vf) = Ok attrs \<and>
    match_against_response reqs dr = Ok () \<and>
    (expects_nonce (vuc_session_type_return_url uc) (vup_session_type params) \<longrightarrow> nonce = Some (vin_redirect_nonce ins))"
proof -
  from vp_run_traced [OF assms(4,1,2,3)] have v: "vp_valid env s"
    and tr: "\<And>t x. vp_view env s t = Some x \<Longrightarrow> vp_session_traced env vf evs t (ss_data x)" by blast+
  from v assms(5) show ?thesis
  proof (cases rule: vp_disclosed_attributes_Ok)
    case (1 x expected)
    then obtain w where w: "vp_waiting_traced env vf evs token w" "vp_response_accepted env vf w attrs"
      "expected = map_option rdu_nonce (vw_redirect_uri w)"
      using tr [OF 1(1)] by (auto simp: vp_session_traced_def)
    from w(1) obtain c ins uri query wn now where
      "VpNewSession (vcr_items_requests c) (vcr_usecase_id c) (vcr_redirect_uri_template c) token now \<in> set evs"
      "VpGetRequest ins token uri query wn \<in> set evs" and o: "request_opened env vf ins token uri query wn c w"
      unfolding vp_waiting_traced_def vp_created_traced_def by blast
    moreover from o obtain q params uc where q: "query = Some q" "vve_parameters_from_str env q = Some params"
      "vp_verify_ephemeral_id env vf (vin_now ins) token params = Ok ()" "vpv_use_cases vf (vcr_usecase_id c) = Some uc"
      and areq: "IsoVpAuthorizationRequest_new (vve_vp env) (vin_definition_id ins) (vcr_items_requests c) (kp_certificate (vuc_key_pair uc))
       (vin_nonce ins) (vpe_to_jwk_public_key (vve_vp env) (vw_encryption_key w)) uri wn = Ok (vw_auth_request w)"
      and n: "map_option rdu_nonce (vw_redirect_uri w) =
       (if expects_nonce (vuc_session_type_return_url uc) (vup_session_type params) then Some (vin_redirect_nonce ins) else None)"
      unfolding request_opened_def by blast
    moreover note i = IsoVpAuthorizationRequest_new_Ok [OF areq]
    moreover from w(2) obtain mdoc_nonce st dr clock where
      "new_oid4vp (vve_vp env) uri (iso_client_id (vw_auth_request w)) (iso_nonce (vw_auth_request w)) mdoc_nonce =
        (Ok st :: (session_transcript, auth_response_error) res)"
      "DeviceResponse_verify (vpe_disclosure (vve_vp env)) dr None st clock (vpv_trust_anchors vf) = Ok attrs"
      "match_against_response (vcr_items_requests c) dr = Ok ()"
      unfolding vp_response_accepted_def i by blast
    moreover have "expects_nonce (vuc_session_type_return_url uc) (vup_session_type params) \<longrightarrow> nonce = Some (vin_redirect_nonce ins)"
      using 1(3) w(3) n by (auto split: if_splits)
    ultimately show ?thesis by blast
  qed
qed

section \<open>Templates with other parameters\<close>

text \<open>
  A template is checked without its session token, and formatting it fails for any other parameter: the request of a session with such
  a template panics, before anything is stored.
\<close>

lemma template_with_other_parameter_panics:
  assumes "vp_valid env s" "vp_view env s token = Some x" "ss_data x = VpCreated c" "vpv_use_cases vf (vcr_usecase_id c) = Some uc"
    and "vve_parameters_from_str env pq = Some params" "vp_verify_ephemeral_id env vf (vin_now ins) token params = Ok ()"
    and "expects_nonce (vuc_session_type_return_url uc) (vup_session_type params)"
    and "vcr_redirect_uri_template c = Some template" "strfmt (vve_templates env) template token = None"
  shows "process_get_request env vf ins token uri (Some pq) wn s = (Panic, s)"
proof -
  have "redirect_uri_and_nonce env (vin_redirect_nonce ins) token (vuc_session_type_return_url uc) (vup_session_type params) (Some template) = Panic"
    using assms(7,9) by (cases "vuc_session_type_return_url uc"; cases "vup_session_type params")
      (auto simp: redirect_uri_and_nonce_def ReturnUrlTemplate_into_url_def)
  then show ?thesis using assms(2-6,8)
    by (simp add: process_get_request_def get_session_state_def vs.get_view [OF assms(1)] VpCreated_try_from_def Session_process_get_request_def
        process_get_request_inner_def)
qed

end
