(* ===== verification/HolderSession.thy ===== *)
theory HolderSession
  imports SessionKeys
begin

text \<open>
  The wallet's side of a disclosure session: \<open>mdoc/src/holder/disclosure/session.rs\<close>, the errors
  of \<open>mdoc/src/holder/mod.rs\<close> and the client of \<open>mdoc/src/holder/http_client.rs\<close>. The network,
  and whatever answers on it, is a function on a state of the world that is threaded through the calls.
\<close>

section \<open>The HTTP client\<close>

text \<open>A request has a URL and a body; it answers with bytes, or fails before or after a connection was made.\<close>

type_synonym 'w network = "'w \<Rightarrow> url \<Rightarrow> bytes \<Rightarrow> (bytes, bool) res \<times> 'w"

definition CborHttpClient_post ::
  "'w network \<Rightarrow> ('v \<Rightarrow> bytes option) \<Rightarrow> (bytes \<Rightarrow> 'r option) \<Rightarrow> url \<Rightarrow> 'v \<Rightarrow> 'w
     \<Rightarrow> ('r, http_client_error) res \<times> 'w" where
  "CborHttpClient_post net serialize deserialize url val w =
     attempt (ok_or (serialize val) (HttpCbor Serialization)) w (\<lambda>bytes.
     case net w url bytes of (response, w) \<Rightarrow>
     attempt (map_err Request response) w (\<lambda>response_bytes.
     (ok_or (deserialize response_bytes) (HttpCbor Deserialization), w)))"

record 'e disclosure_error =
  de_data_shared :: bool
  de_error :: 'e

definition before_sharing :: "'e \<Rightarrow> 'e disclosure_error" where
  "before_sharing error = \<lparr>de_data_shared = False, de_error = error\<rparr>"

definition after_sharing :: "'e \<Rightarrow> 'e disclosure_error" where
  "after_sharing error = \<lparr>de_data_shared = True, de_error = error\<rparr>"

fun DisclosureError_from :: "http_client_error \<Rightarrow> mdoc_error disclosure_error" where
  "DisclosureError_from (HttpCbor Serialization) =
     \<lparr>de_data_shared = False, de_error = Holder (RequestError (HttpCbor Serialization))\<rparr>"
| "DisclosureError_from (HttpCbor Deserialization) =
     \<lparr>de_data_shared = True, de_error = Holder (RequestError (HttpCbor Deserialization))\<rparr>"
| "DisclosureError_from (Request connect) =
     \<lparr>de_data_shared = (\<not> connect), de_error = Holder (RequestError (Request connect))\<rparr>"

section \<open>Sessions\<close>

record common_disclosure_data =
  cd_verifier_url :: url
  cd_certificate :: certificate
  cd_reader_registration :: reader_registration
  cd_session_type :: session_type

record disclosure_missing_attributes =
  dm_data :: common_disclosure_data
  dm_missing_attributes :: "attribute_identifier list"

record 'i disclosure_proposal =
  dp_return_url :: "url option"
  dp_data :: common_disclosure_data
  dp_device_key :: session_key
  dp_proposed_documents :: "'i proposed_document list"

datatype 'i disclosure_session =
    SessionMissingAttributes disclosure_missing_attributes
  | SessionProposal "'i disclosure_proposal"

datatype 'i verifier_session_data_check_result =
    CheckMissingAttributes "attribute_identifier list"
  | CheckProposedDocuments "'i proposed_document list"

definition DisclosureUriSource_new :: "bool \<Rightarrow> disclosure_uri_source" where
  "DisclosureUriSource_new is_qr_code = (if is_qr_code then QrCode else Link)"

fun uri_source_session_type :: "disclosure_uri_source \<Rightarrow> session_type" where
  "uri_source_session_type Link = SameDevice"
| "uri_source_session_type QrCode = CrossDevice"

definition REFERRER_URL :: url where
  "REFERRER_URL = ''https://referrer.url/''"

text \<open>The environment of the wallet: the query of a URL and the session type it carries.\<close>

record 'w holder_env =
  he_session :: session_env
  he_network :: "'w network"
  he_url_query :: "url \<Rightarrow> string option"
  he_session_type_from_str :: "string \<Rightarrow> session_type option"

abbreviation he_disclosure :: "'w holder_env \<Rightarrow> disclosure_env" where
  "he_disclosure env \<equiv> se_disclosure (he_session env)"

abbreviation post_message :: "'w holder_env \<Rightarrow> url \<Rightarrow> mdoc_session_data \<Rightarrow> 'w \<Rightarrow> (mdoc_session_data, http_client_error) res \<times> 'w" where
  "post_message env \<equiv> CborHttpClient_post (he_network env) (message_to_cbor (he_session env)) (message_from_cbor (he_session env))"

abbreviation post_engagement :: "'w holder_env \<Rightarrow> url \<Rightarrow> engagement \<Rightarrow> 'w \<Rightarrow> (mdoc_session_data, http_client_error) res \<times> 'w" where
  "post_engagement env \<equiv> CborHttpClient_post (he_network env) (engagement_to_cbor (he_session env)) (message_from_cbor (he_session env))"

section \<open>Starting a session\<close>

fun error_session_data :: "mdoc_error \<Rightarrow> mdoc_session_data" where
  "error_session_data (Cbor Deserialization) = new_decoding_error"
| "error_session_data (Crypto _) = new_encryption_error"
| "error_session_data _ = new_termination"

definition report_error_back :: "'w holder_env \<Rightarrow> mdoc_error \<Rightarrow> url \<Rightarrow> 'w \<Rightarrow> ('t, mdoc_error) res \<times> 'w" where
  "report_error_back env error verifier_url w =
     (case post_message env verifier_url (error_session_data error) w of
       (Panic, w) \<Rightarrow> (Panic, w)
     | (_, w) \<Rightarrow> (Err error, w))"

definition verify_device_request ::
  "'w holder_env \<Rightarrow> clock \<Rightarrow> device_request \<Rightarrow> session_transcript \<Rightarrow> 'i mdoc_data_source \<Rightarrow> trust_anchor list
     \<Rightarrow> ('i verifier_session_data_check_result \<times> certificate \<times> reader_registration, mdoc_error) res" where
  "verify_device_request env time device_request session_transcript mdoc_data_source trust_anchors =
     (if \<not> has_attributes device_request then Err (Holder NoAttributesRequested)
      else
      res_bind (DeviceRequest_verify (he_disclosure env) device_request session_transcript time trust_anchors) (\<lambda>verified.
      res_bind (ok_or verified (Holder ReaderAuthMissing)) (\<lambda>(certificate, reader_registration).
      res_bind (DisclosureRequestMatch_new (he_disclosure env) (items_requests device_request) mdoc_data_source session_transcript)
        (\<lambda>matches.
      case matches of
        MatchMissingAttributes missing_attributes \<Rightarrow>
          Ok (CheckMissingAttributes missing_attributes, certificate, reader_registration)
      | Candidates candidates_by_doc_type \<Rightarrow>
          if list_ex (\<lambda>candidates. 1 < length candidates) (im_values candidates_by_doc_type)
          then Err (Holder (MultipleCandidates (map fst (filter (\<lambda>(_, candidates). 1 < length candidates) candidates_by_doc_type))))
          else Ok (CheckProposedDocuments (concat (im_values candidates_by_doc_type)), certificate, reader_registration)))))"

text \<open>Decrypting and verifying the request, with the error reported to the verifier.\<close>

definition check_session_data ::
  "'w holder_env \<Rightarrow> clock \<Rightarrow> mdoc_session_data \<Rightarrow> session_key \<Rightarrow> session_transcript \<Rightarrow> 'i mdoc_data_source \<Rightarrow> trust_anchor list
     \<Rightarrow> ('i verifier_session_data_check_result \<times> certificate \<times> reader_registration \<times> url option, mdoc_error) res" where
  "check_session_data env time session_data reader_key transcript mdoc_data_source trust_anchors =
     res_bind (decrypt_and_deserialize (he_session env) (device_request_from_cbor (he_session env)) session_data reader_key)
       (\<lambda>device_request.
     res_bind (verify_device_request env time device_request transcript mdoc_data_source trust_anchors)
       (\<lambda>(check_result, certificate, reader_registration).
     Ok (check_result, certificate, reader_registration, drq_return_url device_request)))"

definition exchange_engagement ::
  "'w holder_env \<Rightarrow> url \<Rightarrow> engagement \<Rightarrow> 'w \<Rightarrow> (mdoc_session_data, mdoc_error) res \<times> 'w" where
  "exchange_engagement env verifier_url device_engagement w =
     (case post_engagement env verifier_url device_engagement w of
       (Ok session_data, w) \<Rightarrow> (Ok session_data, w)
     | (Panic, w) \<Rightarrow> (Panic, w)
     | (Err error, w) \<Rightarrow>
         if error = HttpCbor Deserialization then
           (case post_message env verifier_url new_decoding_error w of
             (Panic, w) \<Rightarrow> (Panic, w)
           | (_, w) \<Rightarrow> (Err (Holder (RequestError error)), w))
         else (Err (Holder (RequestError error)), w))"

text \<open>The part of \<open>start\<close> that follows the derivation of the keys.\<close>

definition open_session ::
  "'w holder_env \<Rightarrow> clock \<Rightarrow> url \<Rightarrow> session_type \<Rightarrow> engagement \<Rightarrow> session_transcript \<Rightarrow> session_key \<Rightarrow> session_key
     \<Rightarrow> 'i mdoc_data_source \<Rightarrow> trust_anchor list \<Rightarrow> 'w \<Rightarrow> ('i disclosure_session, mdoc_error) res \<times> 'w" where
  "open_session env time verifier_url session_type device_engagement transcript reader_key device_key mdoc_data_source trust_anchors w =
     (case exchange_engagement env verifier_url device_engagement w of (exchanged, w) \<Rightarrow>
     attempt exchanged w (\<lambda>session_data.
     case check_session_data env time session_data reader_key transcript mdoc_data_source trust_anchors of
       Err error \<Rightarrow> report_error_back env error verifier_url w
     | Panic \<Rightarrow> (Panic, w)
     | Ok (check_result, certificate, reader_registration, return_url) \<Rightarrow>
         let data = \<lparr>cd_verifier_url = verifier_url, cd_certificate = certificate,
               cd_reader_registration = reader_registration, cd_session_type = session_type\<rparr> in
         (Ok (case check_result of
           CheckMissingAttributes missing_attributes \<Rightarrow>
             SessionMissingAttributes \<lparr>dm_data = data, dm_missing_attributes = missing_attributes\<rparr>
         | CheckProposedDocuments proposed_documents \<Rightarrow>
             SessionProposal \<lparr>dp_return_url = return_url, dp_data = data, dp_device_key = device_key,
               dp_proposed_documents = proposed_documents\<rparr>), w)))"

definition DisclosureSession_start ::
  "'w holder_env \<Rightarrow> secret_key \<Rightarrow> clock \<Rightarrow> bytes \<Rightarrow> disclosure_uri_source \<Rightarrow> 'i mdoc_data_source \<Rightarrow> trust_anchor list \<Rightarrow> 'w
     \<Rightarrow> ('i disclosure_session, mdoc_error) res \<times> 'w" where
  "DisclosureSession_start env random_key time reader_engagement_bytes disclosure_uri_source mdoc_data_source trust_anchors w =
     attempt (ok_or (engagement_from_cbor (he_session env) reader_engagement_bytes) (Cbor Deserialization)) w (\<lambda>reader_engagement.
     attempt (ReaderEngagement_verifier_url reader_engagement) w (\<lambda>verifier_url.
     attempt (ok_or (he_url_query env verifier_url) (Holder MissingSessionType)) w (\<lambda>query.
     attempt (ok_or (he_session_type_from_str env query) (Holder MalformedSessionType)) w (\<lambda>session_type.
     if uri_source_session_type disclosure_uri_source \<noteq> session_type
     then (Err (Holder (DisclosureUriSourceMismatch session_type disclosure_uri_source)), w)
     else
     attempt (new_device_engagement (he_session env) random_key REFERRER_URL) w (\<lambda>(device_engagement, ephemeral_privkey).
     attempt (transcript_and_keys_for_device_engagement (he_session env) reader_engagement session_type device_engagement
       ephemeral_privkey) w (\<lambda>(transcript, reader_key, device_key).
     open_session env time verifier_url session_type device_engagement transcript reader_key device_key
       mdoc_data_source trust_anchors w))))))"

section \<open>Ending a session\<close>

fun session_common_data :: "'i disclosure_session \<Rightarrow> common_disclosure_data" where
  "session_common_data (SessionMissingAttributes session) = dm_data session"
| "session_common_data (SessionProposal session) = dp_data session"

definition send_session_data ::
  "'w holder_env \<Rightarrow> common_disclosure_data \<Rightarrow> mdoc_session_data \<Rightarrow> 'w \<Rightarrow> (mdoc_session_data, http_client_error) res \<times> 'w" where
  "send_session_data env self session_data w = post_message env (cd_verifier_url self) session_data w"

definition DisclosureSession_terminate :: "'w holder_env \<Rightarrow> 'i disclosure_session \<Rightarrow> 'w \<Rightarrow> (unit, mdoc_error) res \<times> 'w" where
  "DisclosureSession_terminate env self w =
     (case send_session_data env (session_common_data self) new_termination w of (response, w) \<Rightarrow>
     attempt (map_err (\<lambda>e. Holder (RequestError e)) response) w (\<lambda>_. (Ok (), w)))"

definition proposed_source_identifiers :: "'i disclosure_proposal \<Rightarrow> 'i list" where
  "proposed_source_identifiers self = map pd_source_identifier (dp_proposed_documents self)"

definition session_proposed_attributes ::
  "'i disclosure_proposal \<Rightarrow> (doc_type \<times> certificate \<times> (name_space \<times> entry list) list) list" where
  "session_proposed_attributes self =
     im_collect (map (\<lambda>document. (pd_doc_type document, proposed_attributes document)) (dp_proposed_documents self))"

definition DisclosureProposal_disclose ::
  "'w holder_env \<Rightarrow> key_factory \<Rightarrow> 'i disclosure_proposal \<Rightarrow> 'w \<Rightarrow> (unit, mdoc_error disclosure_error) res \<times> 'w" where
  "DisclosureProposal_disclose env key_factory self w =
     attempt (map_err before_sharing (from_proposed_documents (he_disclosure env) (dp_proposed_documents self) key_factory)) w
       (\<lambda>device_response.
     attempt (map_err before_sharing (serialize_and_encrypt (he_session env) (device_response_to_cbor (he_session env))
       device_response (dp_device_key self))) w (\<lambda>session_data.
     case send_session_data env (dp_data self) session_data w of (sent, w) \<Rightarrow>
     attempt (map_err DisclosureError_from sent) w (\<lambda>response.
     case sm_status response of
       Some status \<Rightarrow>
         if status \<noteq> Termination then (Err (after_sharing (Holder (DisclosureResponse status))), w) else (Ok (), w)
     | None \<Rightarrow> (Ok (), w))))"

section \<open>What is sent\<close>

text \<open>The worlds that requests with bodies of a kind lead to.\<close>

inductive sends :: "'w network \<Rightarrow> (bytes \<Rightarrow> bool) \<Rightarrow> 'w \<Rightarrow> 'w \<Rightarrow> bool" for net P where
  nothing: "sends net P w w"
| request: "\<lbrakk>sends net P w w'; P body; net w' url body = (response, w'')\<rbrakk> \<Longrightarrow> sends net P w w''"

lemma post_sends:
  assumes "CborHttpClient_post net ser des url val w = (r, w')" "\<And>b. ser val = Some b \<Longrightarrow> P b"
  shows "sends net P w w'"
proof (cases "ser val")
  case None
  then show ?thesis using assms(1) by (simp add: CborHttpClient_post_def sends.nothing)
next
  case (Some b)
  obtain response w1 where n: "net w url b = (response, w1)" by (cases "net w url b")
  then have "w' = w1" using assms(1) Some by (cases response) (auto simp: CborHttpClient_post_def)
  then show ?thesis using sends.request [of net P w w b url response w1, OF sends.nothing assms(2) [OF Some] n] by simp
qed

lemma sends_trans: "sends net P w w' \<Longrightarrow> sends net P w' w'' \<Longrightarrow> sends net P w w''"
  by (rotate_tac, induction rule: sends.induct) (auto intro: sends.request)

lemma attempt_sends:
  assumes "attempt r w f = (x, w')" "\<And>a. r = Ok a \<Longrightarrow> f a = (x, w') \<Longrightarrow> sends net P w w'"
  shows "sends net P w w'"
  using assms by (cases r) (auto intro: sends.nothing)

text \<open>What the wallet may say before the user has approved: its engagement and status codes.\<close>

definition unrevealing :: "'w holder_env \<Rightarrow> secret_key \<Rightarrow> bytes \<Rightarrow> bool" where
  "unrevealing env key body \<longleftrightarrow>
     (\<exists>de. new_device_engagement (he_session env) key REFERRER_URL = Ok (de, key) \<and>
        engagement_to_cbor (he_session env) de = Some body) \<or>
     (\<exists>status. message_to_cbor (he_session env) \<lparr>sm_data = None, sm_status = Some status\<rparr> = Some body)"

lemma error_session_data_status: "\<exists>status. error_session_data e = \<lparr>sm_data = None, sm_status = Some status\<rparr>"
  by (cases e rule: error_session_data.cases)
    (auto simp: new_decoding_error_def new_encryption_error_def new_termination_def)

lemma report_error_back_sends:
  assumes "report_error_back env e url w = (r, w')"
  shows "sends (he_network env) (unrevealing env key) w w'"
proof -
  obtain x w1 where p: "post_message env url (error_session_data e) w = (x, w1)" by fastforce
  then have "w' = w1" using assms by (cases x) (auto simp: report_error_back_def)
  then show ?thesis using post_sends [OF p] error_session_data_status [of e] by (metis unrevealing_def)
qed

lemma exchange_engagement_sends:
  assumes x: "exchange_engagement env url de w = (r, w')"
    and de: "new_device_engagement (he_session env) key REFERRER_URL = Ok (de, key)"
  shows "sends (he_network env) (unrevealing env key) w w'"
proof -
  obtain y w1 where p: "post_engagement env url de w = (y, w1)" by fastforce
  have s: "sends (he_network env) (unrevealing env key) w w1"
    by (rule post_sends [OF p]) (use de in \<open>auto simp: unrevealing_def\<close>)
  show ?thesis
  proof (cases "y = Err (HttpCbor Deserialization)")
    case True
    obtain z w2 where q: "post_message env url new_decoding_error w1 = (z, w2)" by fastforce
    then have "w' = w2" using x p True by (cases z) (auto simp: exchange_engagement_def)
    moreover have "sends (he_network env) (unrevealing env key) w1 w2"
      by (rule post_sends [OF q]) (auto simp: unrevealing_def new_decoding_error_def)
    ultimately show ?thesis using sends_trans [OF s] by simp
  next
    case False
    then show ?thesis using x p s by (cases y) (auto simp: exchange_engagement_def)
  qed
qed

lemma open_session_sends:
  assumes o: "open_session env time url st de transcript reader_key device_key source anchors w = (r, w')"
    and de: "new_device_engagement (he_session env) key REFERRER_URL = Ok (de, key)"
  shows "sends (he_network env) (unrevealing env key) w w'"
proof -
  obtain y w1 where x: "exchange_engagement env url de w = (y, w1)" by fastforce
  have s: "sends (he_network env) (unrevealing env key) w w1" by (rule exchange_engagement_sends [OF x de])
  show ?thesis
  proof (cases y)
    case (Ok msg)
    show ?thesis
    proof (cases "check_session_data env time msg reader_key transcript source anchors")
      case (Err e)
      then have "report_error_back env e url w1 = (r, w')" using o x Ok by (simp add: open_session_def)
      from report_error_back_sends [OF this] show ?thesis by (rule sends_trans [OF s])
    qed (use o x Ok s in \<open>auto simp: open_session_def Let_def split: prod.splits\<close>)
  qed (use o x s in \<open>auto simp: open_session_def\<close>)
qed

text \<open>
  C18: Until the user approves, the wallet sends nothing but its device engagement, which is made of a fresh key
  alone, and messages that consist of a status code; what it sends depends on the mdocs it
  stores only through the choice of the status code.
\<close>

theorem nothing_revealed_before_approval:
  assumes "DisclosureSession_start env key time bts source_uri source anchors w = (r, w')"
  shows "sends (he_network env) (unrevealing env key) w w'"
proof -
  have k: "priv = key" if "new_device_engagement (he_session env) key REFERRER_URL = Ok (de, priv)" for de priv
    using that by (auto simp: new_device_engagement_def result_simps)
  show ?thesis using assms unfolding DisclosureSession_start_def
    by (elim attempt_sends) (auto split: if_splits prod.splits intro: sends.nothing elim!: attempt_sends dest: k
        intro: open_session_sends)
qed

lemma post_outcome:
  assumes "CborHttpClient_post net ser des url val w = (r, w')"
  shows "case r of
      Ok _ \<Rightarrow> \<exists>body bs. net w url body = (Ok bs, w')
    | Err e \<Rightarrow> if de_data_shared (DisclosureError_from e) then \<exists>body response. net w url body = (response, w') \<and> response \<noteq> Err True
        else w' = w \<or> (\<exists>body. net w url body = (Err True, w'))
    | Panic \<Rightarrow> True"
proof (cases "ser val")
  case None
  then show ?thesis using assms by (auto simp: CborHttpClient_post_def)
next
  case (Some b)
  obtain response w1 where n: "net w url b = (response, w1)" by (cases "net w url b")
  show ?thesis
  proof (cases response)
    case (Ok bs)
    then show ?thesis using assms Some n by (cases "des bs") (force simp: CborHttpClient_post_def)+
  next
    case (Err connect)
    then show ?thesis using assms Some n by (cases connect) (force simp: CborHttpClient_post_def)+
  qed (use assms Some n in \<open>auto simp: CborHttpClient_post_def\<close>)
qed

text \<open>
  C35: A failed disclosure says correctly whether attributes were shared: where it says they were not, nothing was
  sent or no connection was made; where it says they were, the request left the wallet.
\<close>

theorem data_shared_is_correct:
  assumes "DisclosureProposal_disclose env factory p w = (Err e, w')"
  shows "if de_data_shared e
    then \<exists>body response. he_network env w (cd_verifier_url (dp_data p)) body = (response, w') \<and> response \<noteq> Err True
    else w' = w \<or> (\<exists>body. he_network env w (cd_verifier_url (dp_data p)) body = (Err True, w'))"
proof -
  let ?resp = "from_proposed_documents (he_disclosure env) (dp_proposed_documents p) factory"
  show ?thesis
  proof (cases ?resp)
    case (Ok resp)
    let ?msg = "serialize_and_encrypt (he_session env) (device_response_to_cbor (he_session env)) resp (dp_device_key p)"
    show ?thesis
    proof (cases ?msg)
      case m: (Ok msg)
      obtain sent w1 where s: "send_session_data env (dp_data p) msg w = (sent, w1)" by fastforce
      then have r: "attempt (map_err DisclosureError_from sent) w1 (\<lambda>response. case sm_status response of
          Some status \<Rightarrow> if status \<noteq> Termination then (Err (after_sharing (Holder (DisclosureResponse status))), w1) else (Ok (), w1)
        | None \<Rightarrow> (Ok (), w1)) = (Err e, w')"
        using assms Ok m by (simp add: DisclosureProposal_disclose_def)
      then have "w' = w1" "sent = Err x \<Longrightarrow> e = DisclosureError_from x" "sent = Ok y \<Longrightarrow> de_data_shared e" for x y
        by (cases sent; auto simp: after_sharing_def split: option.splits if_splits)+
      then show ?thesis using post_outcome [OF s [unfolded send_session_data_def]] r by (cases sent) auto
    qed (use assms Ok in \<open>auto simp: DisclosureProposal_disclose_def before_sharing_def\<close>)
  qed (use assms in \<open>auto simp: DisclosureProposal_disclose_def before_sharing_def\<close>)
qed

section \<open>Examples\<close>

text \<open>A wallet without a network: every request is counted and fails to connect.\<close>

definition offline_wallet :: "nat holder_env" where
  "offline_wallet = \<lparr>he_session = demo_session_env, he_network = (\<lambda>w url body. (Err True, Suc w)), he_url_query = Some,
     he_session_type_from_str = (\<lambda>_. Some SameDevice)\<rparr>"

definition demo_reader_engagement :: engagement where
  "demo_reader_engagement = \<lparr>en_version = EngagementV1_0, en_security = Some \<lparr>sec_cipher_suite_identifier = P256,
     sec_e_sender_key_bytes = demo_cose_key\<rparr>, en_connection_methods = Some [RestApi ''https''], en_origin_infos = []\<rparr>"

theorem nothing_revealed_before_approval_witness:
  "\<exists>r w. DisclosureSession_start offline_wallet [] (\<lambda>_. 0) (encode demo_reader_engagement) Link demo_source [] 0 = (r, w) \<and>
    sends (he_network offline_wallet) (unrevealing offline_wallet []) 0 w"
proof -
  obtain r w where "DisclosureSession_start offline_wallet [] (\<lambda>_. 0) (encode demo_reader_engagement) Link demo_source [] 0 = (r, w)"
    by fastforce
  with nothing_revealed_before_approval [OF this] show ?thesis by blast
qed

definition demo_proposal :: "nat disclosure_proposal" where
  "demo_proposal = \<lparr>dp_return_url = None, dp_data = \<lparr>cd_verifier_url = ''https'', cd_certificate = [8],
     cd_reader_registration = demo_registration, cd_session_type = SameDevice\<rparr>,
     dp_device_key = \<lparr>sk_key = replicate 32 0, sk_user = Device\<rparr>, dp_proposed_documents = []\<rparr>"

theorem data_shared_is_correct_witness:
  "\<exists>e. DisclosureProposal_disclose offline_wallet demo_factory demo_proposal 0 = (Err e, 1) \<and> \<not> de_data_shared e \<and>
    (\<exists>body. he_network offline_wallet 0 ''https'' body = (Err True, 1))"
proof -
  have d: "DisclosureProposal_disclose offline_wallet demo_factory demo_proposal 0 =
      (Err \<lparr>de_data_shared = False, de_error = Holder (RequestError (Request True))\<rparr>, 1)"
    by (simp add: DisclosureProposal_disclose_def offline_wallet_def demo_proposal_def from_proposed_documents_def
        sign_multiple_documents_def new_signatures_def sign_coses_def signatures_data_and_header_def demo_factory_def
        serialize_and_encrypt_def SessionData_encrypt_def demo_session_env_def field_bytes_def send_session_data_def
        CborHttpClient_post_def)
  from data_shared_is_correct [OF d] d show ?thesis by (simp add: demo_proposal_def)
qed

end
