(* ===== verification/VpHolder.thy ===== *)
theory VpHolder
  imports VpVerifier HolderSession
begin

text \<open>
  The wallet's side of an OpenID4VP disclosure: \<open>openid4vc/src/disclosure_session.rs\<close>, with the HTTP client it uses.
\<close>

section \<open>Errors\<close>

text \<open>An error of reqwest is represented by whether it happened while connecting.\<close>

datatype vp_message_client_error =
    VpHttp bool
  | VpJson
  | VpErrorResponse "string error_response"

datatype vp_client_error =
    VpRequest vp_message_client_error
  | VpDeviceResponse mdoc_error
  | AuthRequestValidation auth_request_validation_error
  | IncorrectClientId string string
  | MissingReaderRegistration
  | RequestedAttributesValidation reader_validation_error
  | MatchRequestedAttributes mdoc_error
  | RpCertificate certificate_error
  | VpMultipleCandidates "doc_type list"
  | AuthResponseEncryption auth_response_error
  | VpRequestUri
  | VpMissingSessionType
  | VpMalformedSessionType
  | VpDisclosureUriSourceMismatch session_type disclosure_uri_source

text \<open>A response, or an error and whether it happened while connecting.\<close>

type_synonym 'w vp_http = "'w \<Rightarrow> http_request \<Rightarrow> (http_response, bool) res \<times> 'w"

text \<open>What the wallet uses of reqwest, url, serde and the formatting of errors.\<close>

record 'w vp_holder_env =
  vhe_vp :: vp_env
  vhe_http :: "'w vp_http"
  vhe_request_uri_from_str :: "string \<Rightarrow> vp_request_uri_object option"
  vhe_url_query :: "url \<Rightarrow> string option"
  vhe_parameters_from_str :: "string \<Rightarrow> vp_url_parameters option"
  vhe_wallet_request_form :: "string option \<Rightarrow> string option"
  vhe_vp_token_form :: "string \<Rightarrow> string option"
  vhe_error_form :: "vp_authorization_error_code error_response \<Rightarrow> string option"
  vhe_error_response_json :: "string \<Rightarrow> string error_response option"
  vhe_vp_response_json :: "string \<Rightarrow> vp_response option"
  vhe_client_error_to_string :: "vp_client_error \<Rightarrow> string"

text \<open>What the wallet reads from the clock and the random number generator.\<close>

record vp_wallet_inputs =
  vwi_request_nonce :: string
  vwi_now :: datetime
  vwi_mdoc_nonce :: string
  vwi_submission_id :: string
  vwi_jwe_random :: bytes

section \<open>Messages to the verifier\<close>

text \<open>Sending a request: a form that does not serialize is an error of reqwest.\<close>

definition vp_send ::
  "'w vp_holder_env \<Rightarrow> string \<Rightarrow> url \<Rightarrow> string option \<Rightarrow> 'w \<Rightarrow> (http_response, vp_message_client_error) res \<times> 'w" where
  "vp_send env method url body w =
     attempt (ok_or body (VpHttp False)) w (\<lambda>body.
     case vhe_http env w \<lparr>hr_method = method, hr_url = url, hr_dpop = [], hr_authorization = [], hr_body = body\<rparr> of
       (response, w) \<Rightarrow> (map_err VpHttp response, w))"

definition is_error_status :: "http_response \<Rightarrow> bool" where
  "is_error_status response \<longleftrightarrow> is_client_error (hs_status response) \<or> is_server_error (hs_status response)"

definition vp_error_response :: "'w vp_holder_env \<Rightarrow> http_response \<Rightarrow> ('t, vp_message_client_error) res" where
  "vp_error_response env response =
     res_bind (ok_or (vhe_error_response_json env (hs_body response)) (VpHttp False)) (\<lambda>error. Err (VpErrorResponse error))"

definition get_authorization_request ::
  "'w vp_holder_env \<Rightarrow> url \<Rightarrow> string option \<Rightarrow> 'w \<Rightarrow> (jwt, vp_message_client_error) res \<times> 'w" where
  "get_authorization_request env url wallet_nonce w =
     (let method = (case wallet_nonce of Some _ \<Rightarrow> ''POST'' | None \<Rightarrow> ''GET'');
          body = (if wallet_nonce \<noteq> None then vhe_wallet_request_form env wallet_nonce else Some '''') in
      case vp_send env method url body w of (sent, w) \<Rightarrow>
      attempt sent w (\<lambda>response.
      if is_error_status response then (vp_error_response env response, w) else (Ok (hs_body response), w)))"

definition deserialize_vp_response ::
  "'w vp_holder_env \<Rightarrow> http_response \<Rightarrow> (url option, vp_message_client_error) res" where
  "deserialize_vp_response env response =
     (if hs_body response = '''' then Ok None
      else res_bind (ok_or (vhe_vp_response_json env (hs_body response)) VpJson) (\<lambda>response. Ok (vpr_redirect_uri response)))"

definition send_authorization_response ::
  "'w vp_holder_env \<Rightarrow> url \<Rightarrow> string \<Rightarrow> 'w \<Rightarrow> (url option, vp_message_client_error) res \<times> 'w" where
  "send_authorization_response env url jwe w =
     (case vp_send env ''POST'' url (vhe_vp_token_form env jwe) w of (sent, w) \<Rightarrow>
      attempt sent w (\<lambda>response.
      if is_error_status response then (vp_error_response env response, w) else (deserialize_vp_response env response, w)))"

definition vp_send_error ::
  "'w vp_holder_env \<Rightarrow> url \<Rightarrow> vp_authorization_error_code error_response \<Rightarrow> 'w \<Rightarrow> (url option, vp_message_client_error) res \<times> 'w" where
  "vp_send_error env url error w =
     (case vp_send env ''POST'' url (vhe_error_form env error) w of (sent, w) \<Rightarrow>
      attempt sent w (\<lambda>response.
      if is_error_status response then (Err (VpHttp False), w) else (deserialize_vp_response env response, w)))"

definition vp_client_terminate :: "'w vp_holder_env \<Rightarrow> url \<Rightarrow> 'w \<Rightarrow> (url option, vp_message_client_error) res \<times> 'w" where
  "vp_client_terminate env url w =
     vp_send_error env url \<lparr>er_error = VpAuthorizationError AecAccessDenied, er_error_description = None, er_error_uri = None\<rparr> w"

section \<open>Sessions\<close>

record vp_common_disclosure_data =
  vcd_certificate :: certificate
  vcd_reader_registration :: reader_registration
  vcd_auth_request :: iso_vp_authorization_request
  vcd_session_type :: session_type

record vp_disclosure_missing_attributes =
  vdm_data :: vp_common_disclosure_data
  vdm_missing_attributes :: "attribute_identifier list"

record 'i vp_disclosure_proposal =
  vdp_data :: vp_common_disclosure_data
  vdp_proposed_documents :: "'i proposed_document list"
  vdp_mdoc_nonce :: string

datatype 'i vp_disclosure_session =
    VpSessionMissingAttributes vp_disclosure_missing_attributes
  | VpSessionProposal "'i vp_disclosure_proposal"

fun reported_error_code :: "vp_client_error \<Rightarrow> vp_authorization_error_code option" where
  "reported_error_code (IncorrectClientId _ _) = Some (VpAuthorizationError AecInvalidRequest)"
| "reported_error_code MissingReaderRegistration = Some (VpAuthorizationError AecInvalidRequest)"
| "reported_error_code (RequestedAttributesValidation _) = Some (VpAuthorizationError AecInvalidRequest)"
| "reported_error_code (RpCertificate _) = Some (VpAuthorizationError AecInvalidRequest)"
| "reported_error_code _ = None"

definition vp_report_error_back ::
  "'w vp_holder_env \<Rightarrow> vp_client_error \<Rightarrow> url \<Rightarrow> 'w \<Rightarrow> ('t, vp_client_error) res \<times> 'w" where
  "vp_report_error_back env error url w =
     (case reported_error_code error of
       None \<Rightarrow> (Err error, w)
     | Some error_code \<Rightarrow>
         let error_response = \<lparr>er_error = error_code, er_error_description = Some (vhe_client_error_to_string env error), er_error_uri = None\<rparr> in
         (case vp_send_error env url error_response w of
           (Panic, w) \<Rightarrow> (Panic, w)
         | (_, w) \<Rightarrow> (Err error, w)))"

definition vp_process_request ::
  "'w vp_holder_env \<Rightarrow> iso_vp_authorization_request \<Rightarrow> certificate \<Rightarrow> session_transcript \<Rightarrow> vp_request_uri_object \<Rightarrow> 'i mdoc_data_source
     \<Rightarrow> ('i verifier_session_data_check_result \<times> reader_registration, vp_client_error) res" where
  "vp_process_request env auth_request certificate session_transcript request_uri_object mdoc_data_source =
     (if iso_client_id auth_request \<noteq> ruo_client_id request_uri_object
      then Err (IncorrectClientId (ruo_client_id request_uri_object) (iso_client_id auth_request))
      else
      res_bind (map_err RpCertificate (CertificateType_from_certificate (vpe_disclosure (vhe_vp env)) certificate)) (\<lambda>ctype.
      case ctype of
        ReaderAuthType (Some reader_registration) \<Rightarrow>
          res_bind (map_err RequestedAttributesValidation
            (verify_requested_attributes reader_registration (iso_items_requests auth_request))) (\<lambda>_.
          res_bind (map_err MatchRequestedAttributes
            (DisclosureRequestMatch_new (vpe_disclosure (vhe_vp env)) (iso_items_requests auth_request) mdoc_data_source session_transcript))
            (\<lambda>matches.
          case matches of
            MatchMissingAttributes missing_attributes \<Rightarrow> Ok (CheckMissingAttributes missing_attributes, reader_registration)
          | Candidates candidates_by_doc_type \<Rightarrow>
              if list_ex (\<lambda>candidates. 1 < length candidates) (im_values candidates_by_doc_type)
              then Err (VpMultipleCandidates (map fst (filter (\<lambda>(_, candidates). 1 < length candidates) candidates_by_doc_type)))
              else Ok (CheckProposedDocuments (concat (im_values candidates_by_doc_type)), reader_registration)))
      | _ \<Rightarrow> Err MissingReaderRegistration))"

text \<open>The part of \<open>start\<close> that follows the verification of the authorization request.\<close>

definition vp_open_session ::
  "'w vp_holder_env \<Rightarrow> vp_wallet_inputs \<Rightarrow> vp_request_uri_object \<Rightarrow> session_type \<Rightarrow> iso_vp_authorization_request \<Rightarrow> certificate
     \<Rightarrow> 'i mdoc_data_source \<Rightarrow> 'w \<Rightarrow> ('i vp_disclosure_session, vp_client_error) res \<times> 'w" where
  "vp_open_session env ins request_uri_object session_type auth_request certificate mdoc_data_source w =
     attempt (new_oid4vp (vhe_vp env) (iso_response_uri auth_request) (iso_client_id auth_request) (iso_nonce auth_request)
       (vwi_mdoc_nonce ins)) w (\<lambda>session_transcript.
     case vp_process_request env auth_request certificate session_transcript request_uri_object mdoc_data_source of
       Err error \<Rightarrow> vp_report_error_back env error (iso_response_uri auth_request) w
     | Panic \<Rightarrow> (Panic, w)
     | Ok (check_result, reader_registration) \<Rightarrow>
         let data = \<lparr>vcd_certificate = certificate, vcd_reader_registration = reader_registration, vcd_auth_request = auth_request,
               vcd_session_type = session_type\<rparr> in
         (Ok (case check_result of
           CheckMissingAttributes missing_attributes \<Rightarrow>
             VpSessionMissingAttributes \<lparr>vdm_data = data, vdm_missing_attributes = missing_attributes\<rparr>
         | CheckProposedDocuments proposed_documents \<Rightarrow>
             VpSessionProposal \<lparr>vdp_data = data, vdp_proposed_documents = proposed_documents, vdp_mdoc_nonce = vwi_mdoc_nonce ins\<rparr>), w))"

definition VpDisclosureSession_start ::
  "'w vp_holder_env \<Rightarrow> vp_wallet_inputs \<Rightarrow> string \<Rightarrow> disclosure_uri_source \<Rightarrow> 'i mdoc_data_source \<Rightarrow> trust_anchor list \<Rightarrow> 'w
     \<Rightarrow> ('i vp_disclosure_session, vp_client_error) res \<times> 'w" where
  "VpDisclosureSession_start env ins request_uri_query uri_source mdoc_data_source trust_anchors w =
     attempt (ok_or (vhe_request_uri_from_str env request_uri_query) VpRequestUri) w (\<lambda>request_uri_object.
     attempt (ok_or (vhe_url_query env (ruo_request_uri request_uri_object)) VpMissingSessionType) w (\<lambda>query.
     attempt (ok_or (vhe_parameters_from_str env query) VpMalformedSessionType) w (\<lambda>params.
     if uri_source_session_type uri_source \<noteq> vup_session_type params
     then (Err (VpDisclosureUriSourceMismatch (vup_session_type params) uri_source), w)
     else
     let request_nonce = (case ruo_request_uri_method request_uri_object of
           Some UriMethodPost \<Rightarrow> Some (vwi_request_nonce ins)
         | _ \<Rightarrow> None) in
     case get_authorization_request env (ruo_request_uri request_uri_object) request_nonce w of (fetched, w) \<Rightarrow>
     attempt (map_err VpRequest fetched) w (\<lambda>jws.
     attempt (map_err AuthRequestValidation (VpAuthorizationRequest_verify (vhe_vp env) (vwi_now ins) jws trust_anchors request_nonce)) w
       (\<lambda>(auth_request, certificate).
     vp_open_session env ins request_uri_object (vup_session_type params) auth_request certificate mdoc_data_source w)))))"

fun vp_session_data :: "'i vp_disclosure_session \<Rightarrow> vp_common_disclosure_data" where
  "vp_session_data (VpSessionMissingAttributes session) = vdm_data session"
| "vp_session_data (VpSessionProposal session) = vdp_data session"

definition VpDisclosureSession_terminate :: "'w vp_holder_env \<Rightarrow> 'i vp_disclosure_session \<Rightarrow> 'w \<Rightarrow> (unit, vp_client_error) res \<times> 'w" where
  "VpDisclosureSession_terminate env self w =
     (case vp_client_terminate env (iso_response_uri (vcd_auth_request (vp_session_data self))) w of (sent, w) \<Rightarrow>
     attempt (map_err VpRequest sent) w (\<lambda>_. (Ok (), w)))"

definition vp_proposed_source_identifiers :: "'i vp_disclosure_proposal \<Rightarrow> 'i list" where
  "vp_proposed_source_identifiers self = map pd_source_identifier (vdp_proposed_documents self)"

definition vp_proposed_attributes ::
  "'i vp_disclosure_proposal \<Rightarrow> (doc_type \<times> certificate \<times> (name_space \<times> entry list) list) list" where
  "vp_proposed_attributes self =
     im_collect (map (\<lambda>document. (pd_doc_type document, proposed_attributes document)) (vdp_proposed_documents self))"

fun VpDisclosureError_from :: "vp_message_client_error \<Rightarrow> vp_client_error disclosure_error" where
  "VpDisclosureError_from (VpHttp connect) = \<lparr>de_data_shared = (\<not> connect), de_error = VpRequest (VpHttp connect)\<rparr>"
| "VpDisclosureError_from (VpErrorResponse error) = \<lparr>de_data_shared = True, de_error = VpRequest (VpErrorResponse error)\<rparr>"
| "VpDisclosureError_from VpJson = \<lparr>de_data_shared = True, de_error = VpRequest VpJson\<rparr>"

definition VpDisclosureProposal_disclose ::
  "'w vp_holder_env \<Rightarrow> vp_wallet_inputs \<Rightarrow> key_factory \<Rightarrow> 'i vp_disclosure_proposal \<Rightarrow> 'w
     \<Rightarrow> (url option, vp_client_error disclosure_error) res \<times> 'w" where
  "VpDisclosureProposal_disclose env ins key_factory self w =
     attempt (map_err (\<lambda>err. before_sharing (VpDeviceResponse err))
       (from_proposed_documents (vpe_disclosure (vhe_vp env)) (vdp_proposed_documents self) key_factory)) w (\<lambda>device_response.
     attempt (map_err (\<lambda>err. before_sharing (AuthResponseEncryption err))
       (new_encrypted (vhe_vp env) (vwi_submission_id ins) (vwi_jwe_random ins) device_response (vcd_auth_request (vdp_data self))
         (vdp_mdoc_nonce self))) w (\<lambda>jwe.
     case send_authorization_response env (iso_response_uri (vcd_auth_request (vdp_data self))) jwe w of (sent, w) \<Rightarrow>
     attempt (map_err VpDisclosureError_from sent) w (\<lambda>redirect_uri.
     (Ok redirect_uri, w))))"

section \<open>What the verifier learns before the user approves\<close>

text \<open>An error that the wallet reports was found before it looked at its mdocs.\<close>

lemma reported_error_source:
  assumes "vp_process_request env areq cert tr obj source = Err e" "reported_error_code e \<noteq> None"
  shows "vp_process_request env areq cert tr obj source' = Err e"
proof (cases "iso_client_id areq = ruo_client_id obj \<and> (\<exists>reg. CertificateType_from_certificate (vpe_disclosure (vhe_vp env)) cert =
    Ok (ReaderAuthType (Some reg)) \<and> verify_requested_attributes reg (iso_items_requests areq) = Ok ())")
  case True
  then have "reported_error_code e = None" using assms(1)
    by (cases "DisclosureRequestMatch_new (vpe_disclosure (vhe_vp env)) (iso_items_requests areq) source tr")
      (auto simp: vp_process_request_def split: disclosure_request_match.splits if_splits)
  then show ?thesis using assms(2) by simp
next
  case False
  then show ?thesis using assms(1)
    by (cases "CertificateType_from_certificate (vpe_disclosure (vhe_vp env)) cert")
      (auto simp: vp_process_request_def verify_requested_attributes_def Let_def split: certificate_type.splits option.splits if_splits)
qed

lemma quiet_open_session:
  assumes "new_oid4vp (vhe_vp env) (iso_response_uri areq) (iso_client_id areq) (iso_nonce areq) (vwi_mdoc_nonce ins) = (Ok tr :: (_, vp_client_error) res)"
    "\<And>e. vp_process_request env areq cert tr obj source = Err e \<Longrightarrow> reported_error_code e = None"
  shows "snd (vp_open_session env ins obj st areq cert source w) = w"
  using assms by (cases "vp_process_request env areq cert tr obj source") (auto simp: vp_open_session_def vp_report_error_back_def Let_def)

lemma open_session_world:
  "snd (vp_open_session env ins obj st areq cert source w) = snd (vp_open_session env ins obj st areq cert source' w)"
proof (cases "new_oid4vp (vhe_vp env) (iso_response_uri areq) (iso_client_id areq) (iso_nonce areq) (vwi_mdoc_nonce ins) :: (_, vp_client_error) res")
  case (Ok tr)
  let ?p = "vp_process_request env areq cert tr obj source" and ?p' = "vp_process_request env areq cert tr obj source'"
  show ?thesis
  proof (cases "\<exists>e. ?p = Err e \<and> reported_error_code e \<noteq> None")
    case True
    then obtain e where "?p = Err e" "?p' = Err e" using reported_error_source by blast
    then show ?thesis using Ok by (simp add: vp_open_session_def vp_report_error_back_def split_beta Let_def split: option.splits res.splits)
  next
    case False
    then have "\<And>e. ?p' = Err e \<Longrightarrow> reported_error_code e = None" using reported_error_source by blast
    then show ?thesis using quiet_open_session [OF Ok, of cert obj source] quiet_open_session [OF Ok, of cert obj source'] False by auto
  qed
qed (auto simp: vp_open_session_def)

lemma attempt_world: "(\<And>a. snd (f a) = snd (g a)) \<Longrightarrow> snd (attempt r w f) = snd (attempt r w g)"
  by (cases r) auto

text \<open>
  C15: Until the user approves, nothing that an OpenID4VP verifier can observe depends on the mdocs in the wallet: starting a session
  leads to the same state of the world whatever the wallet stores, whether it has the attributes, misses some, has several candidates or
  cannot read its store.
\<close>

theorem vp_start_hides_mdocs:
  "snd (VpDisclosureSession_start env ins q src source anchors w) = snd (VpDisclosureSession_start env ins q src source' anchors w)"
  unfolding VpDisclosureSession_start_def
  by (intro attempt_world) (simp add: Let_def split_beta, intro attempt_world impI; simp add: split_beta open_session_world [of env ins _ _ _ _ source _ source'])

end
