(* ===== verification/VpServer.thy ===== *)
theory VpServer
  imports VpVerifier
begin

text \<open>
  The endpoints of the OpenID4VP verifier, \<open>wallet_server/src/verifier.rs\<close>, with the error codes of
  \<open>openid4vc/src/errors.rs\<close> and the error bodies of \<open>wallet_server/src/errors.rs\<close> and
  \<open>wallet_common/src/http_error.rs\<close>.
\<close>

section \<open>Errors as responses\<close>

datatype get_request_error_code = GecInvalidRequest | GecExpiredEphemeralId | GecExpiredSession | GecUnknownSession | GecServerError

fun get_request_error_code_from :: "get_auth_request_error \<Rightarrow> get_request_error_code" where
  "get_request_error_code_from (GetExpiredEphemeralId _) = GecExpiredEphemeralId"
| "get_request_error_code_from (GetSession VpSessionExpired) = GecExpiredSession"
| "get_request_error_code_from (GetSession (VpUnknownSession _)) = GecUnknownSession"
| "get_request_error_code_from GetEncryptionKey = GecServerError"
| "get_request_error_code_from (GetAuthRequest _) = GecServerError"
| "get_request_error_code_from (GetJwt _) = GecServerError"
| "get_request_error_code_from GetReturnUrlConfigurationMismatch = GecServerError"
| "get_request_error_code_from (GetUnknownUseCase _) = GecServerError"
| "get_request_error_code_from (GetSession (VpSessionStore _)) = GecServerError"
| "get_request_error_code_from QueryParametersMissing = GecInvalidRequest"
| "get_request_error_code_from QueryParametersDeserialization = GecInvalidRequest"
| "get_request_error_code_from (GetInvalidEphemeralId _) = GecInvalidRequest"
| "get_request_error_code_from (GetSession VpUnexpectedState) = GecInvalidRequest"

fun get_request_error_status :: "get_request_error_code \<Rightarrow> nat" where
  "get_request_error_status GecServerError = 500"
| "get_request_error_status GecExpiredSession = 404"
| "get_request_error_status GecUnknownSession = 404"
| "get_request_error_status GecInvalidRequest = 400"
| "get_request_error_status GecExpiredEphemeralId = 401"

datatype post_auth_response_error_code = PecInvalidRequest | PecExpiredSession | PecUnknownSession | PecServerError

fun post_auth_response_error_code_from :: "post_auth_response_error \<Rightarrow> post_auth_response_error_code" where
  "post_auth_response_error_code_from (PostSession VpSessionExpired) = PecExpiredSession"
| "post_auth_response_error_code_from (PostSession (VpSessionStore _)) = PecServerError"
| "post_auth_response_error_code_from (PostSession (VpUnknownSession _)) = PecUnknownSession"
| "post_auth_response_error_code_from (PostAuthResponse _) = PecInvalidRequest"
| "post_auth_response_error_code_from (PostSession VpUnexpectedState) = PecInvalidRequest"

fun post_auth_response_error_status :: "post_auth_response_error_code \<Rightarrow> nat" where
  "post_auth_response_error_status PecExpiredSession = 404"
| "post_auth_response_error_status PecUnknownSession = 404"
| "post_auth_response_error_status PecServerError = 500"
| "post_auth_response_error_status PecInvalidRequest = 400"

datatype verification_error_code = VecServerError | VecInvalidRequest | VecUnknownSession | VecNonce | VecSessionState

fun verification_error_title :: "verification_error_code \<Rightarrow> string" where
  "verification_error_title VecServerError = ''Internal server error occurred''"
| "verification_error_title VecInvalidRequest = ''Invalid request''"
| "verification_error_title VecUnknownSession = ''Unknown session''"
| "verification_error_title VecNonce = ''Redirect URI nonce incorrect or missing''"
| "verification_error_title VecSessionState = ''Session is not in the required state''"

fun verification_error_status :: "verification_error_code \<Rightarrow> nat" where
  "verification_error_status VecServerError = 500"
| "verification_error_status VecUnknownSession = 404"
| "verification_error_status VecInvalidRequest = 400"
| "verification_error_status VecSessionState = 400"
| "verification_error_status VecNonce = 401"

fun verification_error_code_from :: "vp_verification_error \<Rightarrow> verification_error_code" where
  "verification_error_code_from (VerificationSession VpSessionExpired) = VecSessionState"
| "verification_error_code_from (VerificationSession VpUnexpectedState) = VecSessionState"
| "verification_error_code_from VerificationSessionNotDone = VecSessionState"
| "verification_error_code_from (VerificationSession (VpUnknownSession _)) = VecUnknownSession"
| "verification_error_code_from (VerificationSession (VpSessionStore _)) = VecServerError"
| "verification_error_code_from VerificationUrlEncoding = VecServerError"
| "verification_error_code_from (VerificationUnknownUseCase _) = VecInvalidRequest"
| "verification_error_code_from VerificationReturnUrlConfigurationMismatch = VecInvalidRequest"
| "verification_error_code_from VerificationNoItemsRequests = VecInvalidRequest"
| "verification_error_code_from VerificationMissingSAN = VecInvalidRequest"
| "verification_error_code_from (VerificationCertificate _) = VecInvalidRequest"
| "verification_error_code_from (RedirectUriNonceMismatch _) = VecNonce"
| "verification_error_code_from RedirectUriNonceMissing = VecNonce"

text \<open>An \<open>ErrorResponse\<close> with its redirect URI, and the problem details of an \<open>HttpJsonError\<close>; \<open>extra\<close> is always empty.\<close>

record 't uri_error_response =
  uer_error_response :: "'t error_response"
  uer_redirect_uri :: "url option"

record 't http_json_error_body =
  hje_type :: 't
  hje_title :: "string option"
  hje_status :: "nat option"
  hje_detail :: "string option"
  hje_instance :: "string option"

definition ErrorResponse_with_uri :: "('e \<Rightarrow> 't) \<Rightarrow> ('e \<Rightarrow> string) \<Rightarrow> 'e with_redirect_uri \<Rightarrow> 't uri_error_response" where
  "ErrorResponse_with_uri code to_string err = \<lparr>uer_error_response = \<lparr>er_error = code (wru_error err),
     er_error_description = Some (to_string (wru_error err)), er_error_uri = None\<rparr>, uer_redirect_uri = wru_redirect_uri err\<rparr>"

definition HttpJsonErrorBody_from :: "verification_error_code \<Rightarrow> string \<Rightarrow> verification_error_code http_json_error_body" where
  "HttpJsonErrorBody_from typ detail = \<lparr>hje_type = typ, hje_title = Some (verification_error_title typ),
     hje_status = Some (verification_error_status typ), hje_detail = Some detail, hje_instance = None\<rparr>"

section \<open>The server\<close>

record start_disclosure_request =
  sdr_usecase :: string
  sdr_items_requests :: "items_request list"
  sdr_return_url_template :: "string option"

text \<open>
  What axum and serde do: the segments of the path of a request within its router, its query, the response to a request that does not
  parse or has no route, and forms and JSON.
\<close>

record vp_server_env =
  vsv_verifier :: vp_verifier_env
  vsv_path :: "url \<Rightarrow> string list"
  vsv_query :: "url \<Rightarrow> string option"
  vsv_rejection :: http_response
  vsv_not_found :: "http_request \<Rightarrow> http_response"
  vsv_json_failure :: http_response
  vsv_wallet_request :: "string \<Rightarrow> string option option"
  vsv_wallet_response :: "string \<Rightarrow> wallet_auth_response option"
  vsv_status_params :: "string \<Rightarrow> session_type option"
  vsv_start_request :: "string \<Rightarrow> start_disclosure_request option"
  vsv_attributes_params :: "string \<Rightarrow> string option option"
  vsv_vp_response_json :: "vp_response \<Rightarrow> json option"
  vsv_status_json :: "vp_status_response \<Rightarrow> json option"
  vsv_start_json :: "session_token \<Rightarrow> json option"
  vsv_attributes_json :: "disclosed_attributes \<Rightarrow> json option"
  vsv_get_error_json :: "get_request_error_code uri_error_response \<Rightarrow> json option"
  vsv_post_error_json :: "post_auth_response_error_code uri_error_response \<Rightarrow> json option"
  vsv_verification_error_json :: "verification_error_code http_json_error_body \<Rightarrow> json option"
  vsv_post_error_to_string :: "post_auth_response_error \<Rightarrow> string"
  vsv_verification_error_to_string :: "vp_verification_error \<Rightarrow> string"

record vp_application_state =
  vas_verifier :: vp_verifier
  vas_public_url :: url
  vas_universal_link_base_url :: url

record vp_request_inputs =
  vri_inputs :: vp_inputs
  vri_token :: session_token

definition vp_json_response :: "vp_server_env \<Rightarrow> nat \<Rightarrow> json option \<Rightarrow> http_response" where
  "vp_json_response env status body = (case body of
     Some body \<Rightarrow> \<lparr>hs_status = status, hs_dpop_nonce = [], hs_body = body\<rparr>
   | None \<Rightarrow> vsv_json_failure env)"

definition vp_verification_error_response :: "vp_server_env \<Rightarrow> vp_verification_error \<Rightarrow> http_response" where
  "vp_verification_error_response env err =
     (let typ = verification_error_code_from err in
      vp_json_response env (verification_error_status typ)
        (vsv_verification_error_json env (HttpJsonErrorBody_from typ (vsv_verification_error_to_string env err))))"

definition request_query :: "vp_server_env \<Rightarrow> http_request \<Rightarrow> string" where
  "request_query env request = (case vsv_query env (hr_url request) of Some query \<Rightarrow> query | None \<Rightarrow> '''')"

text \<open>The form of a request: its query where the method is GET, its body otherwise.\<close>

definition request_form :: "vp_server_env \<Rightarrow> http_request \<Rightarrow> string" where
  "request_form env request = (if hr_method request = ''GET'' then request_query env request else hr_body request)"

text \<open>A handler answers with a response, or drops the connection because it panicked.\<close>

definition retrieve_request ::
  "vp_server_env \<Rightarrow> vp_application_state \<Rightarrow> vp_inputs \<Rightarrow> http_request \<Rightarrow> session_token \<Rightarrow> vp_store \<Rightarrow> http_response option \<times> vp_store" where
  "retrieve_request env state ins request session_token sessions =
     (case vsv_wallet_request env (request_form env request) of
       None \<Rightarrow> (Some (vsv_rejection env), sessions)
     | Some wallet_nonce \<Rightarrow>
         (case (join_base_url (vve_urls (vsv_verifier env)) (vas_public_url state) (''disclosure/'' @ session_token @ ''/response_uri'') :: (url, unit) res) of
           Ok response_uri \<Rightarrow>
             (case process_get_request (vsv_verifier env) (vas_verifier state) ins session_token response_uri
                 (vsv_query env (hr_url request)) wallet_nonce sessions of
               (Ok response, sessions) \<Rightarrow> (Some \<lparr>hs_status = 200, hs_dpop_nonce = [], hs_body = response\<rparr>, sessions)
             | (Err err, sessions) \<Rightarrow>
                 (Some (vp_json_response env (get_request_error_status (get_request_error_code_from (wru_error err)))
                   (vsv_get_error_json env (ErrorResponse_with_uri get_request_error_code_from
                     (vve_get_error_to_string (vsv_verifier env)) err))), sessions)
             | (Panic, sessions) \<Rightarrow> (None, sessions))
         | _ \<Rightarrow> (None, sessions)))"

definition post_response ::
  "vp_server_env \<Rightarrow> vp_application_state \<Rightarrow> vp_inputs \<Rightarrow> http_request \<Rightarrow> session_token \<Rightarrow> vp_store \<Rightarrow> http_response option \<times> vp_store" where
  "post_response env state ins request session_token sessions =
     (case vsv_wallet_response env (request_form env request) of
       None \<Rightarrow> (Some (vsv_rejection env), sessions)
     | Some wallet_response \<Rightarrow>
         (case process_authorization_response (vsv_verifier env) (vas_verifier state) ins session_token wallet_response sessions of
           (Ok response, sessions) \<Rightarrow> (Some (vp_json_response env 200 (vsv_vp_response_json env response)), sessions)
         | (Err err, sessions) \<Rightarrow>
             (Some (vp_json_response env (post_auth_response_error_status (post_auth_response_error_code_from (wru_error err)))
               (vsv_post_error_json env (ErrorResponse_with_uri post_auth_response_error_code_from (vsv_post_error_to_string env) err))),
              sessions)
         | (Panic, sessions) \<Rightarrow> (None, sessions)))"

definition status_handler ::
  "vp_server_env \<Rightarrow> vp_application_state \<Rightarrow> vp_inputs \<Rightarrow> http_request \<Rightarrow> session_token \<Rightarrow> vp_store \<Rightarrow> http_response option" where
  "status_handler env state ins request session_token sessions =
     (case vsv_status_params env (request_query env request) of
       None \<Rightarrow> Some (vsv_rejection env)
     | Some session_type \<Rightarrow>
         (case res_bind (join_base_url (vve_urls (vsv_verifier env)) (vas_universal_link_base_url state) ''disclosure'') (\<lambda>ul_base.
            res_bind (join_base_url (vve_urls (vsv_verifier env)) (vas_public_url state) (''disclosure/'' @ session_token @ ''/request_uri''))
              (\<lambda>request_uri.
            vp_status (vsv_verifier env) (vas_verifier state) session_token session_type ul_base request_uri (vin_now ins) sessions)) of
           Ok response \<Rightarrow> Some (vp_json_response env 200 (vsv_status_json env response))
         | Err err \<Rightarrow> Some (vp_verification_error_response env err)
         | Panic \<Rightarrow> None))"

definition start_handler ::
  "vp_server_env \<Rightarrow> vp_application_state \<Rightarrow> vp_request_inputs \<Rightarrow> http_request \<Rightarrow> vp_store \<Rightarrow> http_response option \<times> vp_store" where
  "start_handler env state ins request sessions =
     (case vsv_start_request env (hr_body request) of
       None \<Rightarrow> (Some (vsv_rejection env), sessions)
     | Some start_request \<Rightarrow>
         (case vp_new_session (vsv_verifier env) (vas_verifier state) (vri_token ins) (vin_now (vri_inputs ins))
             (sdr_items_requests start_request) (sdr_usecase start_request) (sdr_return_url_template start_request) sessions of
           (Ok session_token, sessions) \<Rightarrow> (Some (vp_json_response env 200 (vsv_start_json env session_token)), sessions)
         | (Err err, sessions) \<Rightarrow> (Some (vp_verification_error_response env err), sessions)
         | (Panic, sessions) \<Rightarrow> (None, sessions)))"

definition disclosed_attributes_handler ::
  "vp_server_env \<Rightarrow> http_request \<Rightarrow> session_token \<Rightarrow> vp_store \<Rightarrow> http_response option" where
  "disclosed_attributes_handler env request session_token sessions =
     (case vsv_attributes_params env (request_query env request) of
       None \<Rightarrow> Some (vsv_rejection env)
     | Some nonce \<Rightarrow>
         (case vp_disclosed_attributes (vsv_verifier env) session_token nonce sessions of
           Ok disclosed_attributes \<Rightarrow> Some (vp_json_response env 200 (vsv_attributes_json env disclosed_attributes))
         | Err err \<Rightarrow> Some (vp_verification_error_response env err)
         | Panic \<Rightarrow> None))"

definition wallet_router ::
  "vp_server_env \<Rightarrow> vp_application_state \<Rightarrow> vp_request_inputs \<Rightarrow> http_request \<Rightarrow> vp_store \<Rightarrow> http_response option \<times> vp_store" where
  "wallet_router env state ins request sessions =
     (case vsv_path env (hr_url request) of
       [session_token, endpoint] \<Rightarrow>
         if endpoint = ''request_uri'' \<and> (hr_method request = ''GET'' \<or> hr_method request = ''POST'')
         then retrieve_request env state (vri_inputs ins) request session_token sessions
         else if endpoint = ''response_uri'' \<and> hr_method request = ''POST''
         then post_response env state (vri_inputs ins) request session_token sessions
         else if endpoint = ''status'' \<and> hr_method request = ''GET''
         then (status_handler env state (vri_inputs ins) request session_token sessions, sessions)
         else (Some (vsv_not_found env request), sessions)
     | _ \<Rightarrow> (Some (vsv_not_found env request), sessions))"

definition requester_router ::
  "vp_server_env \<Rightarrow> vp_application_state \<Rightarrow> vp_request_inputs \<Rightarrow> http_request \<Rightarrow> vp_store \<Rightarrow> http_response option \<times> vp_store" where
  "requester_router env state ins request sessions =
     (case vsv_path env (hr_url request) of
       [] \<Rightarrow>
         if hr_method request = ''POST'' then start_handler env state ins request sessions else (Some (vsv_not_found env request), sessions)
     | [session_token, endpoint] \<Rightarrow>
         if endpoint = ''disclosed_attributes'' \<and> hr_method request = ''GET''
         then (disclosed_attributes_handler env request session_token sessions, sessions)
         else (Some (vsv_not_found env request), sessions)
     | _ \<Rightarrow> (Some (vsv_not_found env request), sessions))"

end
