(* ===== verification/DisclosureFlow.thy ===== *)
theory DisclosureFlow
  imports Verifier HolderSession
begin

text \<open>
  The wallet and the verifier in one disclosure session: the network of the wallet
  (\<open>HolderSession\<close>) is the verifier (\<open>Verifier\<close>). Shows that a session between the two
  ends with the requested attributes, and what attributes handed to a relying party go back to.
\<close>

section \<open>The verifier on the network\<close>

text \<open>
  The state of the world is the number of requests made so far and the sessions of the verifier;
  \<open>ins\<close> is what each request reads from the clock and the random number generator, and \<open>path_token\<close>
  the session token in a URL.
\<close>

definition verifier_network ::
  "verifier_env \<Rightarrow> verifier \<Rightarrow> (url \<Rightarrow> session_token) \<Rightarrow> (nat \<Rightarrow> request_inputs) \<Rightarrow> (nat \<times> disclosure_store) network" where
  "verifier_network env vf path_token ins w url body =
     (case process_message env vf (ins (fst w)) body (path_token url) url (snd w) of
       Ok (response, sessions) \<Rightarrow>
         (case message_to_cbor (ve_session env) response of
           Some bs \<Rightarrow> (Ok bs, (Suc (fst w), sessions))
         | None \<Rightarrow> (Err False, (Suc (fst w), sessions)))
     | _ \<Rightarrow> (Err False, (Suc (fst w), snd w)))"

section \<open>What the parties rely on\<close>

text \<open>Messages are encoded and decoded without loss.\<close>

definition session_codec_ok :: "session_env \<Rightarrow> bool" where
  "session_codec_ok env \<longleftrightarrow>
     (\<forall>x. \<exists>b. engagement_to_cbor env x = Some b \<and> engagement_from_cbor env b = Some x) \<and>
     (\<forall>x. \<exists>b. message_to_cbor env x = Some b \<and> message_from_cbor env b = Some x) \<and>
     (\<forall>x. \<exists>b. device_request_to_cbor env x = Some b \<and> device_request_from_cbor env b = Some x) \<and>
     (\<forall>x. \<exists>b. device_response_to_cbor env x = Some b \<and> device_response_from_cbor env b = Some x) \<and>
     (\<forall>x. transcript_to_cbor (se_disclosure env) x \<noteq> None) \<and>
     (\<forall>x. \<exists>b v. reader_authentication_to_cbor (se_disclosure env) x = Some b \<and> value_from_cbor (se_disclosure env) b = Some v)"

lemma session_codec_okD:
  assumes "session_codec_ok env"
  shows "\<exists>b. engagement_to_cbor env e = Some b \<and> engagement_from_cbor env b = Some e"
    and "\<exists>b. message_to_cbor env m = Some b \<and> message_from_cbor env b = Some m"
    and "\<exists>b. device_request_to_cbor env q = Some b \<and> device_request_from_cbor env b = Some q"
    and "\<exists>b. device_response_to_cbor env r = Some b \<and> device_response_from_cbor env b = Some r"
    and "\<exists>b. transcript_to_cbor (se_disclosure env) st = Some b"
    and "\<exists>b v. reader_authentication_to_cbor (se_disclosure env) ra = Some b \<and> value_from_cbor (se_disclosure env) b = Some v"
  using assms unfolding session_codec_ok_def by auto

text \<open>A relying party with a certificate that the wallet trusts, a registration in it and a key that signs.\<close>

definition trusted_reader ::
  "disclosure_env \<Rightarrow> server_key_pair \<Rightarrow> reader_registration \<Rightarrow> clock \<Rightarrow> trust_anchor list \<Rightarrow> bool" where
  "trusted_reader env kp registration time anchors \<longleftrightarrow> (\<exists>key.
     (\<forall>i. Certificate_verify (de_crypto env) (kp_certificate kp) ReaderAuth [] (time i) anchors = Ok ()) \<and>
     Certificate_public_key (de_crypto env) (kp_certificate kp) = Ok key \<and>
     p256_key_pair (de_crypto env) key (kp_private_key kp) \<and> (\<forall>m. kp_private_key kp m \<noteq> None) \<and>
     CertificateType_from_certificate env (kp_certificate kp) = Ok (ReaderAuthType (Some registration)))"

section \<open>The request of the verifier is accepted\<close>

lemma signed_doc_request:
  assumes t: "trusted_reader (ve_disclosure env) kp registration time anchors" and c: "session_codec_ok (ve_session env)"
  shows "\<exists>cose. MdocCose_sign (ve_crypto env) (reader_authentication_to_cbor (ve_disclosure env))
      (ReaderAuthenticationKeyed_new st q) (new_certificate_header (kp_certificate kp)) (kp_private_key kp) False = Ok cose \<and>
    (\<forall>i. DocRequest_verify (ve_disclosure env) \<lparr>dq_items_request = q, dq_reader_auth = Some cose\<rparr> st (time i) anchors =
      Ok (Some (kp_certificate kp)))"
proof -
  let ?ra = "ReaderAuthenticationKeyed_new st q" and ?h = "new_certificate_header (kp_certificate kp)"
  obtain b v where b: "reader_authentication_to_cbor (ve_disclosure env) ?ra = Some b"
    "value_from_cbor (ve_disclosure env) b = Some v" using session_codec_okD(6) [OF c] by blast
  from t obtain key where key: "\<And>i. Certificate_verify (ve_crypto env) (kp_certificate kp) ReaderAuth [] (time i) anchors = Ok ()"
    "Certificate_public_key (ve_crypto env) (kp_certificate kp) = Ok key" "p256_key_pair (ve_crypto env) key (kp_private_key kp)"
    "kp_private_key kp m \<noteq> None" for m unfolding trusted_reader_def by blast
  from key(4) obtain sig where sig: "kp_private_key kp (sig_structure_data (ve_crypto env) protected_header b) = Some sig" by blast
  let ?cose = "\<lparr>cs_signature = sig, cs_payload = None, cs_protected = protected_header, cs_unprotected = ?h\<rparr>"
  have s: "MdocCose_sign (ve_crypto env) (reader_authentication_to_cbor (ve_disclosure env)) ?ra ?h (kp_private_key kp) False = Ok ?cose"
    using b(1) sig by (simp add: MdocCose_sign_Ok)
  have "signing_cert (sign1_with_payload ?cose b) = Ok (kp_certificate kp)"
    by (rule signing_cert_header) (simp add: sign1_with_payload_def)
  moreover have "CoseSign1_verify (ve_crypto env) (sign1_with_payload ?cose b) key = Ok ()"
    using key(3) sig by (auto simp: CoseSign1_verify_Ok sign1_with_payload_def p256_key_pair_def)
  ultimately have "verify_against_trust_anchors (ve_crypto env) (value_from_cbor (ve_disclosure env))
      (sign1_with_payload ?cose b) ReaderAuth (time i) anchors = Ok v" for i
    using key(1,2) b(2) by (simp add: verify_against_trust_anchors_Ok sign1_with_payload_def)
  with \<open>signing_cert (sign1_with_payload ?cose b) = Ok (kp_certificate kp)\<close>
  have "DocRequest_verify (ve_disclosure env) \<lparr>dq_items_request = q, dq_reader_auth = Some ?cose\<rparr> st (time i) anchors =
      Ok (Some (kp_certificate kp))" for i
    using b(1) by (simp add: DocRequest_verify_def)
  with s show ?thesis by blast
qed

lemma signed_device_request:
  assumes t: "trusted_reader (ve_disclosure env) kp registration time anchors" and c: "session_codec_ok (ve_session env)"
  obtains dreq where "new_device_request env cr st return_url kp = Ok dreq"
    "items_requests dreq = cr_items_requests cr" "drq_return_url dreq = return_url"
    "\<And>dq i. dq \<in> set (drq_doc_requests dreq) \<Longrightarrow> dq_reader_auth dq \<noteq> None \<and>
      DocRequest_verify (ve_disclosure env) dq st (time i) anchors = Ok (Some (kp_certificate kp))"
proof -
  let ?f = "\<lambda>q. let reader_auth = ReaderAuthenticationKeyed_new st q in
         res_bind (map_err Cose (MdocCose_sign (ve_crypto env) (reader_authentication_to_cbor (ve_disclosure env))
             reader_auth (new_certificate_header (kp_certificate kp)) (kp_private_key kp) False)) (\<lambda>cose.
         Ok \<lparr>dq_items_request = q, dq_reader_auth = Some cose\<rparr>)"
  have f: "\<exists>dq. ?f q = Ok dq \<and> dq_items_request dq = q \<and> dq_reader_auth dq \<noteq> None \<and>
      (\<forall>i. DocRequest_verify (ve_disclosure env) dq st (time i) anchors = Ok (Some (kp_certificate kp)))" for q
    using signed_doc_request [OF t c, of st q] by auto
  then obtain dqs where dqs: "res_map ?f (cr_items_requests cr) = Ok dqs" using res_map_total [of _ ?f] by blast
  have "list_all2 (\<lambda>q dq. dq_items_request dq = q \<and> dq_reader_auth dq \<noteq> None \<and>
      (\<forall>i. DocRequest_verify (ve_disclosure env) dq st (time i) anchors = Ok (Some (kp_certificate kp)))) (cr_items_requests cr) dqs"
    using dqs unfolding res_map_eq_Ok by (rule list_all2_mono) (use f in \<open>metis res.inject(1)\<close>)
  then have "map dq_items_request dqs = cr_items_requests cr" "\<forall>dq\<in>set dqs. dq_reader_auth dq \<noteq> None \<and>
      (\<forall>i. DocRequest_verify (ve_disclosure env) dq st (time i) anchors = Ok (Some (kp_certificate kp)))"
    by (induction rule: list_all2_induct) auto
  with dqs show thesis
    using that [of "\<lparr>drq_doc_requests = dqs, drq_return_url = return_url\<rparr>"] by (simp add: new_device_request_def items_requests_def)
qed

lemma fold_certificates_same:
  assumes "\<And>dq i. dq \<in> set dqs \<Longrightarrow> DocRequest_verify env dq st (time (i :: nat)) anchors = Ok (Some cert)"
    "prev = None \<or> prev = Some cert" "dqs = [] \<Longrightarrow> prev = Some cert"
  shows "fold_certificates env st time anchors prev dqs = Ok (Some cert)"
  using assms
proof (induction dqs arbitrary: prev time)
  case (Cons dq dqs)
  have "fold_certificates env st (\<lambda>k. time (Suc k)) anchors (Some cert) dqs = Ok (Some cert)"
    by (rule Cons.IH) (use Cons.prems(1) in auto)
  then show ?case using Cons.prems(1) [of dq 0] Cons.prems(2) by auto
qed simp

lemma device_request_verifies:
  assumes v: "\<And>dq i. dq \<in> set (drq_doc_requests dreq) \<Longrightarrow> dq_reader_auth dq \<noteq> None \<and>
      DocRequest_verify env dq st (time i) anchors = Ok (Some cert)"
    and ne: "drq_doc_requests dreq \<noteq> []"
    and t: "CertificateType_from_certificate env cert = Ok (ReaderAuthType (Some registration))"
    and r: "set (requests_attribute_identifiers (items_requests dreq)) \<subseteq> set (registration_attribute_identifiers registration)"
  shows "DeviceRequest_verify env dreq st time anchors = Ok (Some (cert, registration))"
proof -
  have "fold_certificates env st time anchors None (drq_doc_requests dreq) = Ok (Some cert)"
    by (rule fold_certificates_same) (use v ne in auto)
  moreover have "\<not> list_all (\<lambda>d. dq_reader_auth d = None) (drq_doc_requests dreq)"
    "\<not> list_ex (\<lambda>d. dq_reader_auth d = None) (drq_doc_requests dreq)"
    using v ne by (auto simp: list_all_iff list_ex_iff neq_Nil_conv)
  moreover have "verify_requested_attributes registration (items_requests dreq) = Ok ()"
  proof -
    have "filter (\<lambda>a. a \<notin> set (registration_attribute_identifiers registration))
        (requests_attribute_identifiers (items_requests dreq)) = []" using r by (auto simp: filter_empty_conv)
    then show ?thesis by (simp add: verify_requested_attributes_def is_collect_def)
  qed
  ultimately show ?thesis using t by (simp add: DeviceRequest_verify_def)
qed

lemma has_attributes_requests:
  assumes "q \<in> set (items_requests dreq)" "ItemsRequest_attribute_identifiers q \<noteq> []"
  shows "has_attributes dreq"
proof -
  from assms(1) obtain dq where "dq \<in> set (drq_doc_requests dreq)" "q = dq_items_request dq" by (auto simp: items_requests_def)
  moreover obtain a where "a \<in> set (ItemsRequest_attribute_identifiers q)" using assms(2) by (cases "ItemsRequest_attribute_identifiers q") auto
  then obtain ns attrs where "(ns, attrs) \<in> set (ir_name_spaces q)" "attrs \<noteq> []"
    by (fastforce simp: ItemsRequest_attribute_identifiers_def)
  ultimately show ?thesis unfolding has_attributes_def list_ex_iff by force
qed

section \<open>The engagement\<close>

text \<open>Both sides compute the same transcript and the same keys.\<close>

lemma engagement_keys:
  assumes ok: "session_crypto_ok env" and c: "session_codec_ok env"
    and re: "ReaderEngagement_try_new env key url = Ok re" and de: "new_device_engagement env dkey ref = Ok (de, dkey)"
  obtains tr rk dk sec where "new_iso st re de = Some tr"
    "transcript_and_keys_for_device_engagement env re st de dkey = Ok (tr, rk, dk)"
    "en_security de = Some sec" "PublicKey_try_from (se_crypto env) sec = Ok (secret_public_key env dkey)"
    "SessionKey_new (se_disclosure env) key (secret_public_key env dkey) tr Reader = Ok rk"
    "SessionKey_new (se_disclosure env) key (secret_public_key env dkey) tr Device = Ok dk"
    "length (sk_key rk) = 32" "length (sk_key dk) = 32"
proof -
  obtain rsec where rs: "Security_try_from (se_crypto env) (secret_public_key env key) = Ok rsec"
    "PublicKey_try_from (se_crypto env) rsec = Ok (secret_public_key env key)" by (rule security_roundtrip [OF ok])
  obtain sec where ds: "Security_try_from (se_crypto env) (secret_public_key env dkey) = Ok sec"
    "PublicKey_try_from (se_crypto env) sec = Ok (secret_public_key env dkey)" by (rule security_roundtrip [OF ok])
  have sec: "en_security re = Some rsec" "en_security de = Some sec"
    using re de rs ds by (auto simp: ReaderEngagement_try_new_def new_device_engagement_def)
  then obtain tr where tr: "new_iso st re de = Some tr" by (simp add: new_iso_def)
  obtain b where b: "transcript_to_cbor (se_disclosure env) tr = Some b" using session_codec_okD(5) [OF c] by blast
  obtain rk where rk: "SessionKey_new (se_disclosure env) key (secret_public_key env dkey) tr Reader = Ok rk"
    "SessionKey_new (se_disclosure env) dkey (secret_public_key env key) tr Reader = Ok rk" "length (sk_key rk) = 32"
    by (rule session_keys_agree [OF ok b])
  obtain dk where dk: "SessionKey_new (se_disclosure env) key (secret_public_key env dkey) tr Device = Ok dk"
    "SessionKey_new (se_disclosure env) dkey (secret_public_key env key) tr Device = Ok dk" "length (sk_key dk) = 32"
    by (rule session_keys_agree [OF ok b])
  have "transcript_and_keys_for_device_engagement env re st de dkey = Ok (tr, rk, dk)"
    using sec(1) rs(2) tr rk(2) dk(2) by (simp add: transcript_and_keys_for_device_engagement_def verifier_public_key_def)
  from that [OF tr this sec(2) ds(2) rk(1) dk(1) rk(3) dk(3)] show thesis .
qed

lemma select_return_url_present:
  "(expects_nonce config st \<Longrightarrow> return_url \<noteq> None) \<Longrightarrow>
     select_return_url config st return_url = Ok (if expects_nonce config st then return_url else None)"
  by (cases config; cases st; cases return_url) (auto simp: select_return_url_def)

text \<open>What the verifier stores and sends when the device engages.\<close>

definition waiting_session ::
  "created \<Rightarrow> use_case \<Rightarrow> session_type \<Rightarrow> string \<Rightarrow> session_key \<Rightarrow> engagement \<Rightarrow> engagement \<Rightarrow> waiting_for_response" where
  "waiting_session c uc st nonce dk re de = \<lparr>wr_items_requests = cr_items_requests c,
     wr_return_url_nonce = (if expects_nonce (uc_session_type_return_url uc) st then Some nonce else None),
     wr_their_key = dk, wr_ephemeral_privkey = cr_ephemeral_privkey c,
     wr_session_transcript_data = \<lparr>std_session_type = st, std_reader_engagement = re, std_device_engagement = de\<rparr>\<rparr>"

definition sent_return_url :: "verifier_env \<Rightarrow> created \<Rightarrow> use_case \<Rightarrow> session_type \<Rightarrow> string \<Rightarrow> url option" where
  "sent_return_url env c uc st nonce = (if expects_nonce (uc_session_type_return_url uc) st
     then map_option (\<lambda>u. url_append_pair env u ''nonce'' nonce) (cr_return_url c) else None)"

lemma engagement_inner_total:
  assumes ok: "session_crypto_ok (ve_session env)" and c: "session_codec_ok (ve_session env)"
    and uc: "ucs (cr_usecase_id cr) = Some uc" and t: "trusted_reader (ve_disclosure env) (uc_key_pair uc) registration time anchors"
    and ret: "expects_nonce (uc_session_type_return_url uc) st \<Longrightarrow> cr_return_url cr \<noteq> None"
    and re: "ReaderEngagement_try_new (ve_session env) (cr_ephemeral_privkey cr) url = Ok re"
    and de: "new_device_engagement (ve_session env) dkey ref = Ok (de, dkey)"
  obtains tr rk dk dreq resp where "new_iso st re de = Some tr"
    "transcript_and_keys_for_device_engagement (ve_session env) re st de dkey = Ok (tr, rk, dk)"
    "process_device_engagement_inner env nonce cr de url st ucs = Ok (resp, cr_items_requests cr,
       (if expects_nonce (uc_session_type_return_url uc) st then Some nonce else None), dk, cr_ephemeral_privkey cr, re)"
    "decrypt_and_deserialize (ve_session env) (device_request_from_cbor (ve_session env)) resp rk = Ok dreq"
    "items_requests dreq = cr_items_requests cr" "drq_return_url dreq = sent_return_url env cr uc st nonce"
    "\<And>dq i. dq \<in> set (drq_doc_requests dreq) \<Longrightarrow> dq_reader_auth dq \<noteq> None \<and>
      DocRequest_verify (ve_disclosure env) dq tr (time i) anchors = Ok (Some (kp_certificate (uc_key_pair uc)))"
    "length (sk_key dk) = 32"
proof -
  obtain tr rk dk sec where k: "new_iso st re de = Some tr"
    "transcript_and_keys_for_device_engagement (ve_session env) re st de dkey = Ok (tr, rk, dk)"
    "en_security de = Some sec" "PublicKey_try_from (ve_crypto env) sec = Ok (secret_public_key (ve_session env) dkey)"
    "SessionKey_new (ve_disclosure env) (cr_ephemeral_privkey cr) (secret_public_key (ve_session env) dkey) tr Reader = Ok rk"
    "SessionKey_new (ve_disclosure env) (cr_ephemeral_privkey cr) (secret_public_key (ve_session env) dkey) tr Device = Ok dk"
    "length (sk_key rk) = 32" "length (sk_key dk) = 32"
    by (rule engagement_keys [OF ok c re de])
  obtain dreq where d: "new_device_request env cr tr (sent_return_url env cr uc st nonce) (uc_key_pair uc) = Ok dreq"
    "items_requests dreq = cr_items_requests cr" "drq_return_url dreq = sent_return_url env cr uc st nonce"
    and dv: "\<And>dq i. dq \<in> set (drq_doc_requests dreq) \<Longrightarrow> dq_reader_auth dq \<noteq> None \<and>
      DocRequest_verify (ve_disclosure env) dq tr (time i) anchors = Ok (Some (kp_certificate (uc_key_pair uc)))"
    by (rule signed_device_request [OF t c]) blast
  obtain b where b: "device_request_to_cbor (ve_session env) dreq = Some b" "device_request_from_cbor (ve_session env) b = Some dreq"
    using session_codec_okD(3) [OF c] by blast
  obtain resp where r: "serialize_and_encrypt (ve_session env) (device_request_to_cbor (ve_session env)) dreq rk = Ok resp"
    "decrypt_and_deserialize (ve_session env) (device_request_from_cbor (ve_session env)) resp rk = Ok dreq"
    by (rule encrypt_decrypt [of "ve_session env" rk "device_request_to_cbor (ve_session env)" dreq b
          "device_request_from_cbor (ve_session env)", OF ok k(7) b]) blast
  have "verify_origin_infos (en_origin_infos de) = Ok ()"
    using de by (auto simp: new_device_engagement_def result_simps verify_origin_infos_def)
  moreover have "(case map_option (add_nonce_to_return_url env nonce)
        (if expects_nonce (uc_session_type_return_url uc) st then cr_return_url cr else None) of
      None \<Rightarrow> (None, None) | Some (return_url, nonce) \<Rightarrow> (Some return_url, Some nonce)) =
    (sent_return_url env cr uc st nonce, if expects_nonce (uc_session_type_return_url uc) st then Some nonce else None)"
    using ret by (auto simp: sent_return_url_def add_nonce_to_return_url_def)
  ultimately have "process_device_engagement_inner env nonce cr de url st ucs = Ok (resp, cr_items_requests cr,
       (if expects_nonce (uc_session_type_return_url uc) st then Some nonce else None), dk, cr_ephemeral_privkey cr, re)"
    unfolding process_device_engagement_inner_def
    using re k uc select_return_url_present [OF ret] d(1) r(1) by simp
  from that [OF k(1,2) this r(2) d(2,3) dv k(8)] show thesis .
qed

lemma engagement_step:
  assumes ok: "session_crypto_ok (ve_session env)" and c: "session_codec_ok (ve_session env)"
    and f: "verifier_store_faithful env" and v: "verifier_valid env s"
    and state: "verifier_view env s token = Some state" "ss_data state = Created cr"
    and uc: "vf_use_cases vf (cr_usecase_id cr) = Some uc" and t: "trusted_reader (ve_disclosure env) (uc_key_pair uc) registration time anchors"
    and ret: "expects_nonce (uc_session_type_return_url uc) st \<Longrightarrow> cr_return_url cr \<noteq> None"
    and eph: "verify_ephemeral_id env (in_now i) (vf_ephemeral_id_secret vf) token url = Ok st"
    and re: "ReaderEngagement_try_new (ve_session env) (cr_ephemeral_privkey cr) url = Ok re"
    and de: "new_device_engagement (ve_session env) dkey ref = Ok (de, dkey)" "engagement_from_cbor (ve_session env) body = Some de"
  obtains tr rk dk dreq resp s' where "new_iso st re de = Some tr"
    "transcript_and_keys_for_device_engagement (ve_session env) re st de dkey = Ok (tr, rk, dk)"
    "process_message env vf i body token url s = Ok (resp, s')"
    "decrypt_and_deserialize (ve_session env) (device_request_from_cbor (ve_session env)) resp rk = Ok dreq"
    "items_requests dreq = cr_items_requests cr" "drq_return_url dreq = sent_return_url env cr uc st (in_nonce i)"
    "\<And>dq k. dq \<in> set (drq_doc_requests dreq) \<Longrightarrow> dq_reader_auth dq \<noteq> None \<and>
      DocRequest_verify (ve_disclosure env) dq tr (time k) anchors = Ok (Some (kp_certificate (uc_key_pair uc)))"
    "verifier_valid env s'" "verifier_view env s' token = Some (SessionState_new (in_transition_time i) token
       (WaitingForResponse (waiting_session cr uc st (in_nonce i) dk re de)))" "length (sk_key dk) = 32"
proof -
  let ?s = "\<lparr>ss_data = cr, ss_token = ss_token state, ss_last_active = ss_last_active state\<rparr>"
  obtain tr rk dk dreq resp where k: "new_iso st re de = Some tr"
    "transcript_and_keys_for_device_engagement (ve_session env) re st de dkey = Ok (tr, rk, dk)"
    "process_device_engagement_inner env (in_nonce i) cr de url st (vf_use_cases vf) = Ok (resp, cr_items_requests cr,
       (if expects_nonce (uc_session_type_return_url uc) st then Some (in_nonce i) else None), dk, cr_ephemeral_privkey cr, re)"
    "decrypt_and_deserialize (ve_session env) (device_request_from_cbor (ve_session env)) resp rk = Ok dreq"
    "items_requests dreq = cr_items_requests cr" "drq_return_url dreq = sent_return_url env cr uc st (in_nonce i)"
    and dv: "\<And>dq k. dq \<in> set (drq_doc_requests dreq) \<Longrightarrow> dq_reader_auth dq \<noteq> None \<and>
      DocRequest_verify (ve_disclosure env) dq tr (time k) anchors = Ok (Some (kp_certificate (uc_key_pair uc)))"
    and l: "length (sk_key dk) = 32"
    by (rule engagement_inner_total [where ucs = "vf_use_cases vf" and cr = cr and nonce = "in_nonce i", OF ok c uc t ret re de(1)]) blast+
  let ?next = "SessionState_new (in_transition_time i) token (WaitingForResponse (waiting_session cr uc st (in_nonce i) dk re de))"
  have tok: "ss_token state = token" using state(1) by (rule vs.view_token)
  have n: "next_session env vf i body token url state = Ok (resp, ?next)"
    using state(2) eph de(2) k(3) tok
    by (simp add: next_session_def process_device_engagement_def transition_wait_for_response_def transition_def
        SessionState_new_def session_into_def waiting_session_def)
  have g: "store_get disclosure_sd (ve_postgres env) s token = Ok (Some state)" using vs.get_view [OF v] state(1) by simp
  have "store_get disclosure_sd (ve_postgres env) s (ss_token ?next) = Ok (Some state)"
    "\<not> sd_is_expired disclosure_sd (ss_data state)" "pg_storable (ve_postgres env) ?next"
    using g state(2) f by (simp_all add: SessionState_new_def verifier_store_faithful_def)
  from dv.update_unexpired [OF v this] obtain s' where
    s': "store_write disclosure_sd (ve_postgres env) s ?next False = Ok s'" "verifier_valid env s'"
      "verifier_view env s' = (verifier_view env s)(ss_token ?next \<mapsto> ?next)" .
  have "process_message env vf i body token url s = Ok (resp, s')"
    using g n s'(1) by (simp add: process_message_def)
  moreover have "verifier_view env s' token = Some ?next" using s'(3) by (simp add: SessionState_new_def)
  ultimately show thesis using that [OF k(1,2) _ k(4,5,6) dv s'(2) _ l] by blast
qed

section \<open>The response\<close>

lemma response_step:
  assumes f: "verifier_store_faithful env" and v: "verifier_valid env s"
    and state: "verifier_view env s token = Some state" "ss_data state = WaitingForResponse w"
    and msg: "message_from_cbor (ve_session env) body = Some msg" "sm_status msg = None"
      "decrypt_and_deserialize (ve_session env) (device_response_from_cbor (ve_session env)) msg (wr_their_key w) = Ok resp"
    and tr: "SessionTranscript_try_from (wr_session_transcript_data w) = Some tr"
    and ok: "DeviceResponse_verify (ve_disclosure env) resp (Some (wr_ephemeral_privkey w)) tr (in_verify_clock i) (vf_trust_anchors vf) = Ok attrs"
      "match_against_response (wr_items_requests w) resp = Ok ()"
  obtains s' where "process_message env vf i body token url s = Ok (\<lparr>sm_data = None, sm_status = Some Termination\<rparr>, s')"
    "verifier_valid env s'" "verifier_view env s' token = Some (SessionState_new (in_transition_time i) token
       (Done \<lparr>dn_session_result = ResultDone attrs (wr_return_url_nonce w)\<rparr>))"
proof -
  let ?next = "SessionState_new (in_transition_time i) token (Done \<lparr>dn_session_result = ResultDone attrs (wr_return_url_nonce w)\<rparr>)"
  have tok: "ss_token state = token" using state(1) by (rule vs.view_token)
  have n: "next_session env vf i body token url state = Ok (\<lparr>sm_data = None, sm_status = Some Termination\<rparr>, ?next)"
    using state(2) msg tr ok tok
    by (simp add: next_session_def process_response_def process_response_inner_def transition_finish_def transition_def
        SessionState_new_def session_into_def)
  have g: "store_get disclosure_sd (ve_postgres env) s token = Ok (Some state)" using vs.get_view [OF v] state(1) by simp
  have "store_get disclosure_sd (ve_postgres env) s (ss_token ?next) = Ok (Some state)"
    "\<not> sd_is_expired disclosure_sd (ss_data state)" "pg_storable (ve_postgres env) ?next"
    using g state(2) f by (simp_all add: SessionState_new_def verifier_store_faithful_def)
  from dv.update_unexpired [OF v this] obtain s' where
    s': "store_write disclosure_sd (ve_postgres env) s ?next False = Ok s'" "verifier_valid env s'"
      "verifier_view env s' = (verifier_view env s)(ss_token ?next \<mapsto> ?next)" .
  have "process_message env vf i body token url s = Ok (\<lparr>sm_data = None, sm_status = Some Termination\<rparr>, s')"
    using g n s'(1) by (simp add: process_message_def)
  then show thesis using that s'(2,3) by (simp add: SessionState_new_def)
qed

section \<open>The session\<close>

text \<open>A wallet that reaches the verifier, and reads the session type from a URL.\<close>

definition connected_wallet ::
  "verifier_env \<Rightarrow> verifier \<Rightarrow> (url \<Rightarrow> session_token) \<Rightarrow> (nat \<Rightarrow> request_inputs) \<Rightarrow> (string \<Rightarrow> session_type option)
     \<Rightarrow> (nat \<times> disclosure_store) holder_env" where
  "connected_wallet env vf path_token ins session_type_from_str =
     \<lparr>he_session = ve_session env, he_network = verifier_network env vf path_token ins, he_url_query = url_query env,
      he_session_type_from_str = session_type_from_str\<rparr>"

lemma connected_wallet_simps [simp]:
  "he_session (connected_wallet env vf pt ins sts) = ve_session env"
  "he_network (connected_wallet env vf pt ins sts) = verifier_network env vf pt ins"
  "he_url_query (connected_wallet env vf pt ins sts) = url_query env"
  "he_session_type_from_str (connected_wallet env vf pt ins sts) = sts"
  by (simp_all add: connected_wallet_def)

lemma post_to_verifier:
  assumes c: "session_codec_ok (ve_session env)" and b: "ser x = Some body"
    and m: "process_message env vf (ins n) body (pt url) url s = Ok (resp, s')"
  shows "CborHttpClient_post (verifier_network env vf pt ins) ser (message_from_cbor (ve_session env)) url x (n, s) = (Ok resp, (Suc n, s'))"
proof -
  obtain bs where "message_to_cbor (ve_session env) resp = Some bs" "message_from_cbor (ve_session env) bs = Some resp"
    using session_codec_okD(2) [OF c] by blast
  then show ?thesis using b m by (simp add: CborHttpClient_post_def verifier_network_def)
qed

text \<open>The request can be answered from the stored mdocs with one mdoc per document type, whatever the transcript.\<close>

definition answerable :: "disclosure_env \<Rightarrow> items_request list \<Rightarrow> 'i mdoc_data_source \<Rightarrow> bool" where
  "answerable env requests source \<longleftrightarrow> (\<forall>tr. \<exists>c. DisclosureRequestMatch_new env requests source tr = Ok (Candidates c) \<and>
     (\<forall>(dt, cands)\<in>set c. length cands = 1))"

lemma request_is_checked:
  assumes a: "answerable (he_disclosure env) (items_requests dreq) source"
    and v: "\<And>dq i. dq \<in> set (drq_doc_requests dreq) \<Longrightarrow> dq_reader_auth dq \<noteq> None \<and>
      DocRequest_verify (he_disclosure env) dq tr (time i) anchors = Ok (Some cert)"
    and t: "CertificateType_from_certificate (he_disclosure env) cert = Ok (ReaderAuthType (Some registration))"
    and r: "set (requests_attribute_identifiers (items_requests dreq)) \<subseteq> set (registration_attribute_identifiers registration)"
    and q: "q \<in> set (items_requests dreq)" "ItemsRequest_attribute_identifiers q \<noteq> []"
    and d: "decrypt_and_deserialize (he_session env) (device_request_from_cbor (he_session env)) msg rk = Ok dreq"
  obtains c where "DisclosureRequestMatch_new (he_disclosure env) (items_requests dreq) source tr = Ok (Candidates c)"
    "check_session_data env time msg rk tr source anchors =
      Ok (CheckProposedDocuments (map (\<lambda>(dt, cands). hd cands) c), cert, registration, drq_return_url dreq)"
proof -
  obtain c where c: "DisclosureRequestMatch_new (he_disclosure env) (items_requests dreq) source tr = Ok (Candidates c)"
    "\<forall>(dt, cands)\<in>set c. length cands = 1" using a unfolding answerable_def by blast
  have l: "concat (im_values c) = map (\<lambda>(dt, cands). hd cands) c" "\<not> list_ex (\<lambda>cands. 1 < length cands) (im_values c)"
    using c(2) by (induction c) (auto simp: length_Suc_conv)
  have "drq_doc_requests dreq \<noteq> []" using q(1) by (auto simp: items_requests_def)
  from device_request_verifies [OF v this t r]
  have "verify_device_request env time dreq tr source anchors = Ok (CheckProposedDocuments (map (\<lambda>(dt, cands). hd cands) c), cert, registration)"
    using has_attributes_requests [OF q] c(1) l by (simp add: verify_device_request_def)
  then show thesis using that c(1) d by (simp add: check_session_data_def)
qed

text \<open>
  The conditions on a session that was created and on the wallet that answers it: the URL is the one that
  was given to the wallet and is still valid, the relying party is trusted and registered for what it asks,
  and the mdocs of the wallet are valid, bound to its keys, and answer the request.
\<close>

definition session_can_complete ::
  "verifier_env \<Rightarrow> verifier \<Rightarrow> (url \<Rightarrow> session_token) \<Rightarrow> (nat \<Rightarrow> request_inputs) \<Rightarrow> (string \<Rightarrow> session_type option) \<Rightarrow> session_token
     \<Rightarrow> created \<Rightarrow> use_case \<Rightarrow> session_type \<Rightarrow> url \<Rightarrow> clock \<Rightarrow> trust_anchor list \<Rightarrow> nat \<Rightarrow> 'i mdoc_data_source
     \<Rightarrow> (string \<times> verifying_key) set \<Rightarrow> key_factory \<Rightarrow> bool" where
  "session_can_complete env vf path_token ins sts token cr uc st url time reader_anchors n source keys factory \<longleftrightarrow>
     path_token url = token \<and> Option.bind (url_query env url) sts = Some st \<and>
     verify_ephemeral_id env (in_now (ins n)) (vf_ephemeral_id_secret vf) token url = Ok st \<and>
     vf_use_cases vf (cr_usecase_id cr) = Some uc \<and>
     (expects_nonce (uc_session_type_return_url uc) st \<longrightarrow> cr_return_url cr \<noteq> None) \<and>
     (\<exists>registration. trusted_reader (ve_disclosure env) (uc_key_pair uc) registration time reader_anchors \<and>
        set (requests_attribute_identifiers (cr_items_requests cr)) \<subseteq> set (registration_attribute_identifiers registration)) \<and>
     (\<exists>q\<in>set (cr_items_requests cr). ItemsRequest_attribute_identifiers q \<noteq> []) \<and>
     answerable (ve_disclosure env) (cr_items_requests cr) source \<and> source_wf source \<and>
     (\<forall>dts mss ms s. source dts = Some mss \<longrightarrow> ms \<in> set mss \<longrightarrow> s \<in> set ms \<longrightarrow>
        presentable (ve_disclosure env) keys (in_verify_clock (ins (Suc n))) (vf_trust_anchors vf) (stm_mdoc s)) \<and>
     factory_signs (ve_crypto env) factory keys"

text \<open>How far the session has come when the wallet has shown the request to its user.\<close>

definition session_proposed ::
  "verifier_env \<Rightarrow> session_token \<Rightarrow> created \<Rightarrow> use_case \<Rightarrow> session_type \<Rightarrow> request_inputs \<Rightarrow> url \<Rightarrow> engagement
     \<Rightarrow> 'i mdoc_data_source \<Rightarrow> 'i disclosure_proposal \<Rightarrow> disclosure_store \<Rightarrow> bool" where
  "session_proposed env token cr uc st i url re source p s \<longleftrightarrow> (\<exists>de tr cands.
     dp_return_url p = sent_return_url env cr uc st (in_nonce i) \<and> cd_verifier_url (dp_data p) = url \<and>
     dp_proposed_documents p = map (\<lambda>(dt, cands). hd cands) cands \<and> new_iso st re de = Some tr \<and>
     DisclosureRequestMatch_new (ve_disclosure env) (cr_items_requests cr) source tr = Ok (Candidates cands) \<and>
     verifier_valid env s \<and> verifier_view env s token = Some (SessionState_new (in_transition_time i) token
       (WaitingForResponse (waiting_session cr uc st (in_nonce i) (dp_device_key p) re de))) \<and>
     length (sk_key (dp_device_key p)) = 32)"

lemma session_starts:
  assumes ok: "session_crypto_ok (ve_session env)" and c: "session_codec_ok (ve_session env)"
    and f: "verifier_store_faithful env" and v: "verifier_valid env s"
    and state: "verifier_view env s token = Some state" "ss_data state = Created cr"
    and can: "session_can_complete env vf pt ins sts token cr uc st url time ranchors n source keys factory"
    and re: "ReaderEngagement_try_new (ve_session env) (cr_ephemeral_privkey cr) url = Ok re"
      "engagement_from_cbor (ve_session env) bts = Some re"
    and src: "uri_source_session_type src = st"
  shows "\<exists>p s' body resp. DisclosureSession_start (connected_wallet env vf pt ins sts) dkey time bts src source ranchors (n, s) =
      (Ok (SessionProposal p), (Suc n, s')) \<and> session_proposed env token cr uc st (ins n) url re source p s' \<and>
    process_message env vf (ins n) body token url s = Ok (resp, s')"
proof -
  let ?h = "connected_wallet env vf pt ins sts"
  from can obtain registration q where u: "pt url = token"
    "verify_ephemeral_id env (in_now (ins n)) (vf_ephemeral_id_secret vf) token url = Ok st"
    "vf_use_cases vf (cr_usecase_id cr) = Some uc" "trusted_reader (ve_disclosure env) (uc_key_pair uc) registration time ranchors"
    "set (requests_attribute_identifiers (cr_items_requests cr)) \<subseteq> set (registration_attribute_identifiers registration)"
    "q \<in> set (cr_items_requests cr)" "ItemsRequest_attribute_identifiers q \<noteq> []"
    "answerable (ve_disclosure env) (cr_items_requests cr) source"
    and ret: "expects_nonce (uc_session_type_return_url uc) st \<Longrightarrow> cr_return_url cr \<noteq> None"
    unfolding session_can_complete_def by blast
  obtain qs where qs: "url_query env url = Some qs" "sts qs = Some st"
    using can by (auto simp: session_can_complete_def Option.bind_eq_Some_conv)
  have url: "ReaderEngagement_verifier_url re = Ok url"
    using re(1) by (auto simp: ReaderEngagement_try_new_def ReaderEngagement_verifier_url_def result_simps)
  obtain sec where "Security_try_from (ve_crypto env) (secret_public_key (ve_session env) dkey) = Ok sec"
    by (rule security_roundtrip [OF ok])
  then obtain de where de: "new_device_engagement (ve_session env) dkey REFERRER_URL = Ok (de, dkey)"
    by (simp add: new_device_engagement_def)
  obtain body where body: "engagement_to_cbor (ve_session env) de = Some body" "engagement_from_cbor (ve_session env) body = Some de"
    using session_codec_okD(1) [OF c] by blast
  obtain tr rk dk dreq resp s' where k: "new_iso st re de = Some tr"
    "transcript_and_keys_for_device_engagement (ve_session env) re st de dkey = Ok (tr, rk, dk)"
    "process_message env vf (ins n) body token url s = Ok (resp, s')"
    "decrypt_and_deserialize (ve_session env) (device_request_from_cbor (ve_session env)) resp rk = Ok dreq"
    "items_requests dreq = cr_items_requests cr" "drq_return_url dreq = sent_return_url env cr uc st (in_nonce (ins n))"
    and dv: "\<And>dq k. dq \<in> set (drq_doc_requests dreq) \<Longrightarrow> dq_reader_auth dq \<noteq> None \<and>
      DocRequest_verify (ve_disclosure env) dq tr (time k) ranchors = Ok (Some (kp_certificate (uc_key_pair uc)))"
    and s': "verifier_valid env s'" "verifier_view env s' token = Some (SessionState_new (in_transition_time (ins n)) token
       (WaitingForResponse (waiting_session cr uc st (in_nonce (ins n)) dk re de)))" "length (sk_key dk) = 32"
    by (rule engagement_step [OF ok c f v state u(3,4) ret u(2) re(1) de body(2)]) blast+
  have cert: "CertificateType_from_certificate (he_disclosure ?h) (kp_certificate (uc_key_pair uc)) = Ok (ReaderAuthType (Some registration))"
    using u(4) by (auto simp: trusted_reader_def)
  obtain cands where cands: "DisclosureRequestMatch_new (ve_disclosure env) (cr_items_requests cr) source tr = Ok (Candidates cands)"
    "check_session_data ?h time resp rk tr source ranchors =
      Ok (CheckProposedDocuments (map (\<lambda>(dt, cands). hd cands) cands), kp_certificate (uc_key_pair uc), registration,
        sent_return_url env cr uc st (in_nonce (ins n)))"
    by (rule request_is_checked [of ?h dreq source tr time ranchors "kp_certificate (uc_key_pair uc)" registration q resp rk])
      (use u k dv cert in auto)
  have "exchange_engagement ?h url de (n, s) = (Ok resp, (Suc n, s'))"
    using post_to_verifier [of env "engagement_to_cbor (ve_session env)" de body vf ins n pt url s resp s', OF c body(1)] k(3) u(1) by (simp add: exchange_engagement_def)
  then have "\<exists>p. DisclosureSession_start ?h dkey time bts src source ranchors (n, s) = (Ok (SessionProposal p), (Suc n, s')) \<and>
      dp_return_url p = sent_return_url env cr uc st (in_nonce (ins n)) \<and> cd_verifier_url (dp_data p) = url \<and>
      dp_device_key p = dk \<and> dp_proposed_documents p = map (\<lambda>(dt, cands). hd cands) cands"
    using re(2) url qs src de k(2) cands(2) by (simp add: DisclosureSession_start_def open_session_def Let_def)
  then show ?thesis using s' k(1,3) cands(1) unfolding session_proposed_def by blast
qed

lemma session_discloses:
  assumes ok: "session_crypto_ok (ve_session env)" and c: "session_codec_ok (ve_session env)"
    and f: "verifier_store_faithful env"
    and can: "session_can_complete env vf pt ins sts token cr uc st url time ranchors n source keys factory"
    and p: "session_proposed env token cr uc st (ins n) url re source p s"
  shows "\<exists>s' attrs body resp. DisclosureProposal_disclose (connected_wallet env vf pt ins sts) factory p (Suc n, s) = (Ok (), (Suc (Suc n), s')) \<and>
    Verifier_disclosed_attributes env token
      (if expects_nonce (uc_session_type_return_url uc) st then Some (in_nonce (ins n)) else None) s' = Ok attrs \<and>
    process_message env vf (ins (Suc n)) body token url s = Ok (resp, s')"
proof -
  let ?h = "connected_wallet env vf pt ins sts"
  from p obtain de tr cands where pr: "cd_verifier_url (dp_data p) = url"
    "dp_proposed_documents p = map (\<lambda>(dt, cands). hd cands) cands" "new_iso st re de = Some tr"
    "DisclosureRequestMatch_new (ve_disclosure env) (cr_items_requests cr) source tr = Ok (Candidates cands)"
    "verifier_valid env s" "verifier_view env s token = Some (SessionState_new (in_transition_time (ins n)) token
       (WaitingForResponse (waiting_session cr uc st (in_nonce (ins n)) (dp_device_key p) re de)))"
    "length (sk_key (dp_device_key p)) = 32" unfolding session_proposed_def by blast
  let ?w = "waiting_session cr uc st (in_nonce (ins n)) (dp_device_key p) re de"
  obtain b where b: "transcript_to_cbor (ve_disclosure env) tr = Some b" using session_codec_okD(5) [OF c] by blast
  have wf: "source_wf source" and fs: "factory_signs (ve_crypto env) factory keys" and pt: "pt url = token"
    using can by (simp_all add: session_can_complete_def)
  obtain resp attrs where r: "from_proposed_documents (ve_disclosure env) (dp_proposed_documents p) factory = Ok resp"
    "DeviceResponse_verify (ve_disclosure env) resp (Some (cr_ephemeral_privkey cr)) tr (in_verify_clock (ins (Suc n)))
       (vf_trust_anchors vf) = Ok attrs" "match_against_response (cr_items_requests cr) resp = Ok ()"
    using candidates_answer_accepted [OF pr(4) wf _ fs b, of "in_verify_clock (ins (Suc n))" "vf_trust_anchors vf"] can pr(2)
    unfolding session_can_complete_def by metis
  obtain rb where rb: "device_response_to_cbor (ve_session env) resp = Some rb" "device_response_from_cbor (ve_session env) rb = Some resp"
    using session_codec_okD(4) [OF c] by blast
  obtain msg where msg: "serialize_and_encrypt (ve_session env) (device_response_to_cbor (ve_session env)) resp (dp_device_key p) = Ok msg"
    "sm_status msg = None"
    "decrypt_and_deserialize (ve_session env) (device_response_from_cbor (ve_session env)) msg (dp_device_key p) = Ok resp"
    by (rule encrypt_decrypt [of "ve_session env" "dp_device_key p" "device_response_to_cbor (ve_session env)" resp rb
          "device_response_from_cbor (ve_session env)", OF ok pr(7) rb]) blast
  obtain body where body: "message_to_cbor (ve_session env) msg = Some body" "message_from_cbor (ve_session env) body = Some msg"
    using session_codec_okD(2) [OF c] by blast
  obtain s' where s': "process_message env vf (ins (Suc n)) body token url s = Ok (\<lparr>sm_data = None, sm_status = Some Termination\<rparr>, s')"
    "verifier_valid env s'" "verifier_view env s' token = Some (SessionState_new (in_transition_time (ins (Suc n))) token
       (Done \<lparr>dn_session_result = ResultDone attrs (wr_return_url_nonce ?w)\<rparr>))"
    by (rule response_step [OF f pr(5,6) _ body(2) msg(2), of ?w resp tr "ins (Suc n)" vf attrs url])
      (use pr(3) r msg(3) in \<open>auto simp: SessionState_new_def waiting_session_def SessionTranscript_try_from_def\<close>)
  have "DisclosureProposal_disclose ?h factory p (Suc n, s) = (Ok (), (Suc (Suc n), s'))"
    using post_to_verifier [of env "message_to_cbor (ve_session env)" msg body vf ins "Suc n" pt url s _ s', OF c body(1)] s'(1) pt r(1) msg(1) pr(1)
    by (simp add: DisclosureProposal_disclose_def send_session_data_def)
  moreover have "Verifier_disclosed_attributes env token
      (if expects_nonce (uc_session_type_return_url uc) st then Some (in_nonce (ins n)) else None) s' = Ok attrs"
    using vs.get_view [OF s'(2), of token] s'(3)
    by (auto simp: Verifier_disclosed_attributes_def SessionState_new_def waiting_session_def)
  ultimately show ?thesis using s'(1) by blast
qed

text \<open>
  C10: A disclosure session that the verifier created is completed by a wallet whose valid mdocs answer the
  request: the wallet gets the request, proposes documents with the return URL of the session, and when its
  user approves, the verifier accepts the response and hands the attributes to whoever has the nonce of the return URL.
\<close>

theorem disclosure_session_completes:
  assumes "session_crypto_ok (ve_session env)" "session_codec_ok (ve_session env)"
    and "verifier_store_faithful env" "verifier_valid env s"
    and "verifier_view env s token = Some state" "ss_data state = Created cr"
    and "session_can_complete env vf pt ins sts token cr uc st url time ranchors n source keys factory"
    and "ReaderEngagement_try_new (ve_session env) (cr_ephemeral_privkey cr) url = Ok re"
      "engagement_from_cbor (ve_session env) bts = Some re" and "uri_source_session_type src = st"
  shows "\<exists>p s1 s2 attrs.
    DisclosureSession_start (connected_wallet env vf pt ins sts) dkey time bts src source ranchors (n, s) =
      (Ok (SessionProposal p), (n + 1, s1)) \<and>
    dp_return_url p = sent_return_url env cr uc st (in_nonce (ins n)) \<and>
    DisclosureProposal_disclose (connected_wallet env vf pt ins sts) factory p (n + 1, s1) = (Ok (), (n + 2, s2)) \<and>
    Verifier_disclosed_attributes env token
      (if expects_nonce (uc_session_type_return_url uc) st then Some (in_nonce (ins n)) else None) s2 = Ok attrs"
proof -
  from session_starts [OF assms] obtain p s1 where
    p: "DisclosureSession_start (connected_wallet env vf pt ins sts) dkey time bts src source ranchors (n, s) =
      (Ok (SessionProposal p), (Suc n, s1))" "session_proposed env token cr uc st (ins n) url re source p s1" by blast
  from session_discloses [OF assms(1-3,7) p(2)] obtain s2 attrs where
    "DisclosureProposal_disclose (connected_wallet env vf pt ins sts) factory p (Suc n, s1) = (Ok (), (Suc (Suc n), s2))"
    "Verifier_disclosed_attributes env token
      (if expects_nonce (uc_session_type_return_url uc) st then Some (in_nonce (ins n)) else None) s2 = Ok attrs" by blast
  moreover have "dp_return_url p = sent_return_url env cr uc st (in_nonce (ins n))" using p(2) by (auto simp: session_proposed_def)
  ultimately show ?thesis using p(1) by (metis Suc_eq_plus1 add_2_eq_Suc')
qed

section \<open>What disclosed attributes go back to\<close>

lemma disclosed_attributes_Ok:
  assumes "Verifier_disclosed_attributes env token presented s = Ok attrs" "verifier_valid env s"
  shows "\<exists>x dn nonce. verifier_view env s token = Some x \<and> ss_data x = Done dn \<and>
    dn_session_result dn = ResultDone attrs nonce \<and> (nonce = None \<or> presented = nonce)"
proof (cases "verifier_view env s token")
  case None
  then show ?thesis using assms by (simp add: Verifier_disclosed_attributes_def vs.get_view)
next
  case (Some x)
  show ?thesis
  proof (cases "ss_data x")
    case (Done dn)
    show ?thesis
    proof (cases "dn_session_result dn")
      case (ResultDone disclosed nonce)
      have "disclosed = attrs \<and> (nonce = None \<or> presented = nonce)"
        using assms Some Done ResultDone
        by (cases nonce; cases presented) (auto simp: Verifier_disclosed_attributes_def vs.get_view split: if_splits)
      then show ?thesis using Some Done ResultDone by simp
    qed (use assms Some Done in \<open>simp_all add: Verifier_disclosed_attributes_def vs.get_view\<close>)
  qed (use assms Some in \<open>simp_all add: Verifier_disclosed_attributes_def vs.get_view\<close>)
qed

text \<open>
  C5: Attributes that the verifier hands out were disclosed in a session it created: by a response that was
  verified against the trust anchors for the transcript of that session, that contains everything
  the relying party asked for, after an engagement with a valid ephemeral ID; and where a nonce was put into
  the return URL, only who presents that nonce gets them.
\<close>

theorem disclosed_attributes_are_traced:
  assumes run: "verifier_run env vf s0 evs s" and f: "verifier_store_faithful env" and v: "verifier_valid env s0"
    and empty: "verifier_view env s0 = Map.empty"
    and d: "Verifier_disclosed_attributes env token presented s = Ok attrs"
  shows "\<exists>requests usecase uc template key now i msg url session_type re de st resp clock.
    NewSession requests usecase template token key now \<in> set evs \<and> Message i msg token url \<in> set evs \<and>
    verify_ephemeral_id env (in_now i) (vf_ephemeral_id_secret vf) token url = Ok session_type \<and>
    ReaderEngagement_try_new (ve_session env) key url = Ok re \<and> engagement_from_cbor (ve_session env) msg = Some de \<and>
    new_iso session_type re de = Some st \<and>
    DeviceResponse_verify (ve_disclosure env) resp (Some key) st clock (vf_trust_anchors vf) = Ok attrs \<and>
    match_against_response requests resp = Ok () \<and> vf_use_cases vf usecase = Some uc \<and>
    (expects_nonce (uc_session_type_return_url uc) session_type \<longrightarrow> presented = Some (in_nonce i))"
proof -
  have t: "verifier_valid env s" "\<And>t x. verifier_view env s t = Some x \<Longrightarrow> session_traced env vf evs t (ss_data x)"
    using run_traced [OF run f v empty] by blast+
  from d t(1) obtain x dn nonce where x: "verifier_view env s token = Some x" "ss_data x = Done dn"
    "dn_session_result dn = ResultDone attrs nonce" "nonce = None \<or> presented = nonce"
    using disclosed_attributes_Ok by metis
  from t(2) [OF x(1)] x(2,3) obtain w where w: "waiting_traced env vf evs token w" "response_accepted env vf w attrs"
    "nonce = wr_return_url_nonce w" by (auto simp: session_traced_def)
  from w(1) obtain usecase uc template now i msg url where
    tr: "NewSession (wr_items_requests w) usecase template token (wr_ephemeral_privkey w) now \<in> set evs" "Message i msg token url \<in> set evs"
    "verify_ephemeral_id env (in_now i) (vf_ephemeral_id_secret vf) token url = Ok (std_session_type (wr_session_transcript_data w))"
    "ReaderEngagement_try_new (ve_session env) (wr_ephemeral_privkey w) url = Ok (std_reader_engagement (wr_session_transcript_data w))"
    "engagement_from_cbor (ve_session env) msg = Some (std_device_engagement (wr_session_transcript_data w))"
    "vf_use_cases vf usecase = Some uc" "wr_return_url_nonce w = (if expects_nonce (uc_session_type_return_url uc)
         (std_session_type (wr_session_transcript_data w)) then Some (in_nonce i) else None)"
    unfolding waiting_traced_def by blast
  from w(2) obtain resp st clock where r: "SessionTranscript_try_from (wr_session_transcript_data w) = Some st"
    "DeviceResponse_verify (ve_disclosure env) resp (Some (wr_ephemeral_privkey w)) st clock (vf_trust_anchors vf) = Ok attrs"
    "match_against_response (wr_items_requests w) resp = Ok ()" unfolding response_accepted_def by blast
  have "expects_nonce (uc_session_type_return_url uc) (std_session_type (wr_session_transcript_data w)) \<longrightarrow> presented = Some (in_nonce i)"
    using x(4) w(3) tr(7) by auto
  with tr(1-6) r show ?thesis unfolding SessionTranscript_try_from_def by blast
qed

section \<open>Examples\<close>

definition demo_inputs :: "nat \<Rightarrow> request_inputs" where
  "demo_inputs n = \<lparr>in_now = 5, in_verify_clock = (\<lambda>_. 5), in_transition_time = 5, in_nonce = ''nonce''\<rparr>"

definition demo_url :: url where
  "demo_url = text_encode \<lparr>vp_session_type = SameDevice,
     vp_ephemeral_id = generate_ephemeral_id demo_verifier_env [] ''t'' 0, vp_time = 0\<rparr>"

definition demo_use_case :: use_case where
  "demo_use_case = the (vf_use_cases demo_verifier ''uc'')"

lemma demo_codec_ok: "session_codec_ok demo_session_env"
  by (simp add: session_codec_ok_def demo_session_env_def demo_disclosure_env_def)

lemma demo_trusted_reader: "trusted_reader demo_disclosure_env (uc_key_pair demo_use_case) demo_registration time [[8]]"
  by (simp add: trusted_reader_def demo_use_case_def demo_verifier_def demo_crypto_def Certificate_verify_def
      Certificate_public_key_def p256_key_pair_def CertificateType_from_certificate_def usage_from_certificate_def
      from_key_usage_def EXTENDED_KEY_USAGE_READER_AUTH_def EXTENDED_KEY_USAGE_MDL_def extract_custom_ext_def
      demo_disclosure_env_def demo_mdoc_env_def)

lemma demo_ephemeral: "verify_ephemeral_id demo_verifier_env 5 [] ''t'' demo_url = Ok SameDevice"
  by (simp add: verify_ephemeral_id_def demo_url_def demo_verifier_env_def generate_ephemeral_id_def
      EPHEMERAL_ID_VALIDITY_SECONDS_def seconds_def)

lemma demo_answerable: "answerable demo_disclosure_env [demo_request [(''b'', False)]] demo_source"
  using demo_match by (fastforce simp: answerable_def)

lemma demo_presentable: "presentable demo_disclosure_env {(''key'', demo_device_key)} (\<lambda>_. 5) [[9]] demo_mdoc"
  using demo_issuer_signed_verify [of "[demo_item_a, demo_item_b]" "\<lambda>_. 5"] demo_device_key
  by (auto simp: presentable_def demo_mdoc_def demo_mso_def)

lemma demo_can_complete:
  "session_can_complete demo_verifier_env demo_verifier (\<lambda>_. ''t'') demo_inputs (\<lambda>_. Some SameDevice) ''t'' demo_created demo_use_case
     SameDevice demo_url (\<lambda>_. 5) [[8]] 0 demo_source {(''key'', demo_device_key)} demo_factory"
proof -
  have "presentable demo_disclosure_env {(''key'', demo_device_key)} (\<lambda>_. 5) [[9]] (stm_mdoc s)"
    if "demo_source dts = Some mss" "ms \<in> set mss" "s \<in> set ms" for dts mss ms s
    using that demo_presentable by (auto simp: demo_source_def split: if_splits)
  moreover have "set (requests_attribute_identifiers [demo_request [(''b'', False)]]) \<subseteq> set (registration_attribute_identifiers demo_registration)"
    by (simp add: requests_attribute_identifiers_def ItemsRequest_attribute_identifiers_def demo_request_def
        registration_attribute_identifiers_def demo_registration_def)
  moreover have "ItemsRequest_attribute_identifiers (demo_request [(''b'', False)]) \<noteq> []"
    by (simp add: ItemsRequest_attribute_identifiers_def demo_request_def is_collect_def is_insert_def)
  moreover have "vf_use_cases demo_verifier ''uc'' = Some demo_use_case" "vf_ephemeral_id_secret demo_verifier = []"
    by (simp_all add: demo_use_case_def demo_verifier_def)
  ultimately show ?thesis
    unfolding session_can_complete_def
    using demo_ephemeral demo_trusted_reader [of "\<lambda>_. 5"] demo_answerable demo_source_wf demo_factory_signs
    by (auto simp: demo_inputs_def demo_created_def)
qed

lemma demo_reader:
  obtains re where "ReaderEngagement_try_new demo_session_env (cr_ephemeral_privkey demo_created) demo_url = Ok re"
proof -
  obtain sec where "Security_try_from demo_crypto demo_device_key = Ok sec"
    using security_roundtrip [OF demo_session_crypto_ok] by (metis demo_crypto_of demo_session_env_simps)
  then show thesis using that by (simp add: ReaderEngagement_try_new_def)
qed

lemma demo_state: "verifier_view demo_verifier_env demo_sessions ''t'' = Some (SessionState_new 0 ''t'' (Created demo_created))"
  "ss_data (SessionState_new 0 ''t'' (Created demo_created)) = Created demo_created"
  by (simp_all add: demo_sessions_view SessionState_new_def)

theorem disclosure_session_completes_witness:
  "\<exists>re p s1 s2 attrs.
    DisclosureSession_start (connected_wallet demo_verifier_env demo_verifier (\<lambda>_. ''t'') demo_inputs (\<lambda>_. Some SameDevice)) [1] (\<lambda>_. 5)
      (encode (re :: engagement)) Link demo_source [[8]] (0, demo_sessions) = (Ok (SessionProposal p), (1, s1)) \<and>
    DisclosureProposal_disclose (connected_wallet demo_verifier_env demo_verifier (\<lambda>_. ''t'') demo_inputs (\<lambda>_. Some SameDevice))
      demo_factory p (1, s1) = (Ok (), (2, s2)) \<and>
    Verifier_disclosed_attributes demo_verifier_env ''t'' (Some ''nonce'') s2 = Ok attrs"
proof -
  obtain re where re: "ReaderEngagement_try_new demo_session_env (cr_ephemeral_privkey demo_created) demo_url = Ok re" by (rule demo_reader)
  have b: "engagement_from_cbor demo_session_env (encode re) = Some re" by (simp add: demo_session_env_def)
  have n: "expects_nonce (uc_session_type_return_url demo_use_case) SameDevice" "in_nonce (demo_inputs 0) = ''nonce''"
    by (simp_all add: demo_use_case_def demo_verifier_def demo_inputs_def)
  show ?thesis
    using disclosure_session_completes [of demo_verifier_env, unfolded demo_verifier_env_simps, OF demo_session_crypto_ok demo_codec_ok
        demo_store_faithful demo_sessions_valid demo_state demo_can_complete re b, of Link "[1]"] n
    by (auto simp: numeral_2_eq_2; blast)
qed

theorem disclosed_attributes_are_traced_witness:
  "\<exists>evs s attrs requests usecase template key now resp clock st.
    verifier_run demo_verifier_env demo_verifier (Memory Map.empty) evs s \<and>
    Verifier_disclosed_attributes demo_verifier_env ''t'' (Some ''nonce'') s = Ok attrs \<and>
    NewSession requests usecase template ''t'' key now \<in> set evs \<and>
    DeviceResponse_verify demo_disclosure_env resp (Some key) st clock [[9]] = Ok attrs \<and> match_against_response requests resp = Ok ()"
proof -
  obtain re where re: "ReaderEngagement_try_new demo_session_env (cr_ephemeral_privkey demo_created) demo_url = Ok re" by (rule demo_reader)
  have b: "engagement_from_cbor demo_session_env (encode re) = Some re" by (simp add: demo_session_env_def)
  note hyps = demo_session_crypto_ok demo_codec_ok demo_store_faithful
  obtain p s1 body1 r1 where s1: "session_proposed demo_verifier_env ''t'' demo_created demo_use_case SameDevice (demo_inputs 0) demo_url re demo_source p s1"
    "process_message demo_verifier_env demo_verifier (demo_inputs 0) body1 ''t'' demo_url demo_sessions = Ok (r1, s1)"
    using session_starts [of demo_verifier_env, unfolded demo_verifier_env_simps, OF hyps demo_sessions_valid demo_state
        demo_can_complete re b, of Link "[1]"] by auto
  obtain s2 attrs body2 r2 where s2: "Verifier_disclosed_attributes demo_verifier_env ''t''
      (if expects_nonce (uc_session_type_return_url demo_use_case) SameDevice then Some (in_nonce (demo_inputs 0)) else None) s2 = Ok attrs"
    "process_message demo_verifier_env demo_verifier (demo_inputs (Suc 0)) body2 ''t'' demo_url s1 = Ok (r2, s2)"
    using session_discloses [of demo_verifier_env, unfolded demo_verifier_env_simps, OF hyps demo_can_complete s1(1)] by blast
  let ?evs = "[NewSession [demo_request [(''b'', False)]] ''uc'' (Some ''https'') ''t'' [] 0,
    Message (demo_inputs 0) body1 ''t'' demo_url, Message (demo_inputs (Suc 0)) body2 ''t'' demo_url]"
  have "verifier_run demo_verifier_env demo_verifier (Memory Map.empty) ([] @ [?evs ! 0]) demo_sessions"
    by (rule verifier_run.step [OF verifier_run.start]) (simp add: verifier_step_simps demo_new_session)
  then have "verifier_run demo_verifier_env demo_verifier (Memory Map.empty) (([] @ [?evs ! 0]) @ [?evs ! 1]) s1"
    by (rule verifier_run.step) (use s1(2) in \<open>auto simp: verifier_step_simps\<close>)
  then have "verifier_run demo_verifier_env demo_verifier (Memory Map.empty) ((([] @ [?evs ! 0]) @ [?evs ! 1]) @ [?evs ! 2]) s2"
    by (rule verifier_run.step) (use s2(2) in \<open>auto simp: verifier_step_simps\<close>)
  then have run: "verifier_run demo_verifier_env demo_verifier (Memory Map.empty) ?evs s2" by simp
  have d: "Verifier_disclosed_attributes demo_verifier_env ''t'' (Some ''nonce'') s2 = Ok attrs"
    using s2(1) by (simp add: demo_use_case_def demo_verifier_def demo_inputs_def)
  have "verifier_valid demo_verifier_env (Memory Map.empty)" "verifier_view demo_verifier_env (Memory Map.empty) = Map.empty"
    by (simp_all add: memory_valid_def)
  from disclosed_attributes_are_traced [OF run demo_store_faithful this d] run d show ?thesis
    unfolding demo_verifier_env_simps demo_session_env_simps by blast
qed

end
