(* ===== verification/VpFlow.thy ===== *)
theory VpFlow
  imports VpRuns VpHolder VpServer DisclosureFlow
begin

text \<open>
  The wallet of \<open>VpHolder\<close> and the endpoints of \<open>VpServer\<close> together: an OpenID4VP session completes.
\<close>

section \<open>The wallet and the verifier connected\<close>

text \<open>The wallet's requests reach the router of the verifier; the world is the number of the request and the store.\<close>

definition verifier_http ::
  "vp_server_env \<Rightarrow> vp_application_state \<Rightarrow> (nat \<Rightarrow> vp_request_inputs) \<Rightarrow> (nat \<times> vp_store) vp_http" where
  "verifier_http sv state ins w request =
     (case wallet_router sv state (ins (fst w)) request (snd w) of
       (Some response, sessions) \<Rightarrow> (Ok response, (Suc (fst w), sessions))
     | (None, sessions) \<Rightarrow> (Err False, (Suc (fst w), sessions)))"

definition vp_connected ::
  "vp_server_env \<Rightarrow> vp_application_state \<Rightarrow> (nat \<Rightarrow> vp_request_inputs) \<Rightarrow> (nat \<times> vp_store) vp_holder_env \<Rightarrow> (nat \<times> vp_store) vp_holder_env" where
  "vp_connected sv state ins h = h\<lparr>vhe_http := verifier_http sv state ins\<rparr>"

lemma vp_connected_simps [simp]:
  "vhe_vp (vp_connected sv state ins h) = vhe_vp h" "vhe_http (vp_connected sv state ins h) = verifier_http sv state ins"
  "vhe_request_uri_from_str (vp_connected sv state ins h) = vhe_request_uri_from_str h"
  "vhe_url_query (vp_connected sv state ins h) = vhe_url_query h"
  "vhe_parameters_from_str (vp_connected sv state ins h) = vhe_parameters_from_str h"
  "vhe_wallet_request_form (vp_connected sv state ins h) = vhe_wallet_request_form h"
  "vhe_vp_token_form (vp_connected sv state ins h) = vhe_vp_token_form h"
  "vhe_vp_response_json (vp_connected sv state ins h) = vhe_vp_response_json h"
  by (simp_all add: vp_connected_def)

section \<open>What the parties rely on\<close>

text \<open>Forms, queries and JSON are read as what they were made from.\<close>

definition vp_wire_ok :: "vp_server_env \<Rightarrow> 'w vp_holder_env \<Rightarrow> bool" where
  "vp_wire_ok sv h \<longleftrightarrow> (let env = vsv_verifier sv in
     (\<forall>p. \<exists>q. vve_parameters_to_string env p = Some q \<and> vve_parameters_from_str env q = Some p \<and> vhe_parameters_from_str h q = Some p \<and>
        (\<forall>u. vsv_query sv (vve_set_query env u q) = Some q \<and> vhe_url_query h (vve_set_query env u q) = Some q \<and>
           vsv_path sv (vve_set_query env u q) = vsv_path sv u \<and>
           cannot_be_a_base (vve_urls env) (vve_set_query env u q) = cannot_be_a_base (vve_urls env) u)) \<and>
     (\<forall>r. \<exists>q. vve_request_uri_to_string env r = Some q \<and> vhe_request_uri_from_str h q = Some r \<and>
        (\<forall>u. vhe_url_query h (vve_set_query env u q) = Some q \<and>
           cannot_be_a_base (vve_urls env) (vve_set_query env u q) = cannot_be_a_base (vve_urls env) u)) \<and>
     (\<forall>n. \<exists>b. vhe_wallet_request_form h (Some n) = Some b \<and> vsv_wallet_request sv b = Some (Some n)) \<and>
     (\<forall>jwe. \<exists>b. vhe_vp_token_form h jwe = Some b \<and> vsv_wallet_response sv b = Some (AuthResponse jwe)) \<and>
     (\<forall>r. \<exists>j. vsv_vp_response_json sv r = Some j \<and> j \<noteq> [] \<and> vhe_vp_response_json h j = Some r))"

lemma vp_wire_okD:
  assumes "vp_wire_ok sv h"
  shows "\<exists>q. vve_parameters_to_string (vsv_verifier sv) p = Some q \<and> vve_parameters_from_str (vsv_verifier sv) q = Some p \<and>
      vhe_parameters_from_str h q = Some p \<and>
      (\<forall>u. vsv_query sv (vve_set_query (vsv_verifier sv) u q) = Some q \<and> vhe_url_query h (vve_set_query (vsv_verifier sv) u q) = Some q \<and>
         vsv_path sv (vve_set_query (vsv_verifier sv) u q) = vsv_path sv u \<and>
         cannot_be_a_base (vve_urls (vsv_verifier sv)) (vve_set_query (vsv_verifier sv) u q) = cannot_be_a_base (vve_urls (vsv_verifier sv)) u)"
    and "\<exists>q. vve_request_uri_to_string (vsv_verifier sv) r = Some q \<and> vhe_request_uri_from_str h q = Some r \<and>
      (\<forall>u. vhe_url_query h (vve_set_query (vsv_verifier sv) u q) = Some q \<and>
         cannot_be_a_base (vve_urls (vsv_verifier sv)) (vve_set_query (vsv_verifier sv) u q) = cannot_be_a_base (vve_urls (vsv_verifier sv)) u)"
    and "\<exists>b. vhe_wallet_request_form h (Some n) = Some b \<and> vsv_wallet_request sv b = Some (Some n)"
    and "\<exists>b. vhe_vp_token_form h jwe = Some b \<and> vsv_wallet_response sv b = Some (AuthResponse jwe)"
    and "\<exists>j. vsv_vp_response_json sv resp = Some j \<and> j \<noteq> [] \<and> vhe_vp_response_json h j = Some resp"
  using assms unfolding vp_wire_ok_def Let_def by blast+

text \<open>The addresses of a session.\<close>

definition session_addresses :: "vp_server_env \<Rightarrow> vp_application_state \<Rightarrow> session_token \<Rightarrow> url \<Rightarrow> url \<Rightarrow> url \<Rightarrow> bool" where
  "session_addresses sv state token ul_base request_uri response_uri \<longleftrightarrow> (let urls = vve_urls (vsv_verifier sv) in
     join_base_url urls (vas_universal_link_base_url state) ''disclosure'' = (Ok ul_base :: (url, unit) res) \<and>
     join_base_url urls (vas_public_url state) (''disclosure/'' @ token @ ''/request_uri'') = (Ok request_uri :: (url, unit) res) \<and>
     join_base_url urls (vas_public_url state) (''disclosure/'' @ token @ ''/response_uri'') = (Ok response_uri :: (url, unit) res) \<and>
     vsv_path sv request_uri = [token, ''request_uri''] \<and> vsv_path sv response_uri = [token, ''response_uri''])"

lemma session_addressesD:
  assumes "session_addresses sv state token ul_base request_uri response_uri"
  shows "\<not> cannot_be_a_base (vve_urls (vsv_verifier sv)) ul_base" "\<not> cannot_be_a_base (vve_urls (vsv_verifier sv)) request_uri"
    "join_base_url (vve_urls (vsv_verifier sv)) (vas_public_url state) (''disclosure/'' @ token @ ''/response_uri'') = (Ok response_uri :: (url, unit) res)"
    "vsv_path sv request_uri = [token, ''request_uri'']" "vsv_path sv response_uri = [token, ''response_uri'']"
  using assms by (auto simp: session_addresses_def Let_def join_base_url_Ok)

section \<open>The link\<close>

definition session_parameters :: "vp_server_env \<Rightarrow> vp_application_state \<Rightarrow> session_token \<Rightarrow> session_type \<Rightarrow> datetime \<Rightarrow> vp_url_parameters" where
  "session_parameters sv state token st time = \<lparr>vup_session_type = st,
     vup_ephemeral_id = vp_generate_ephemeral_id (vsv_verifier sv) (vpv_ephemeral_id_secret (vas_verifier state)) token time, vup_time = time\<rparr>"

lemma session_parameters_valid:
  "now - EPHEMERAL_ID_VALIDITY_SECONDS \<le> time \<Longrightarrow>
     vp_verify_ephemeral_id (vsv_verifier sv) (vas_verifier state) now token (session_parameters sv state token st time) = Ok ()"
  by (simp add: vp_verify_ephemeral_id_def session_parameters_def vp_generate_ephemeral_id_def)

lemma status_link:
  assumes w: "vp_wire_ok sv h" and a: "session_addresses sv state token ul_base request_uri response_uri"
    and v: "vp_valid (vsv_verifier sv) s" and x: "vp_view (vsv_verifier sv) s token = Some x" "ss_data x = VpCreated c"
  obtains ul q obj pq where "vp_status (vsv_verifier sv) (vas_verifier state) token st ul_base request_uri time s = Ok (VpStatusCreated ul)"
    "vhe_url_query h ul = Some q" "vhe_request_uri_from_str h q = Some obj" "ruo_client_id obj = vcr_client_id c"
    "ruo_request_uri_method obj = Some UriMethodPost" "ruo_request_uri obj = vve_set_query (vsv_verifier sv) request_uri pq"
    "vhe_url_query h (ruo_request_uri obj) = Some pq" "vsv_query sv (ruo_request_uri obj) = Some pq"
    "vsv_path sv (ruo_request_uri obj) = [token, ''request_uri'']"
    "vhe_parameters_from_str h pq = Some (session_parameters sv state token st time)"
    "vve_parameters_from_str (vsv_verifier sv) pq = Some (session_parameters sv state token st time)"
proof -
  let ?env = "vsv_verifier sv"
  note urls = session_addressesD [OF a]
  obtain pq where pq: "vve_parameters_to_string ?env (session_parameters sv state token st time) = Some pq"
    "vve_parameters_from_str ?env pq = Some (session_parameters sv state token st time)"
    "vhe_parameters_from_str h pq = Some (session_parameters sv state token st time)"
    "\<And>u. vsv_query sv (vve_set_query ?env u pq) = Some pq" "\<And>u. vhe_url_query h (vve_set_query ?env u pq) = Some pq"
    "\<And>u. vsv_path sv (vve_set_query ?env u pq) = vsv_path sv u"
    "\<And>u. cannot_be_a_base (vve_urls ?env) (vve_set_query ?env u pq) = cannot_be_a_base (vve_urls ?env) u"
    using vp_wire_okD(1) [OF w, of "session_parameters sv state token st time"] by blast
  let ?obj = "\<lparr>ruo_request_uri = vve_set_query ?env request_uri pq, ruo_request_uri_method = Some UriMethodPost, ruo_client_id = vcr_client_id c\<rparr>"
  obtain q where q: "vve_request_uri_to_string ?env ?obj = Some q" "vhe_request_uri_from_str h q = Some ?obj"
    "\<And>u. vhe_url_query h (vve_set_query ?env u q) = Some q"
    "\<And>u. cannot_be_a_base (vve_urls ?env) (vve_set_query ?env u q) = cannot_be_a_base (vve_urls ?env) u"
    using vp_wire_okD(2) [OF w, of ?obj] by blast
  have "vp_status ?env (vas_verifier state) token st ul_base request_uri time s = Ok (VpStatusCreated (vve_set_query ?env ul_base q))"
    using x urls(1,2) pq(1,7) q(1,4) v
    by (simp add: vp_status_def get_session_state_def vs.get_view format_ul_def BaseUrl_try_from_def session_parameters_def)
  then show thesis using that [of "vve_set_query ?env ul_base q" q ?obj pq] pq q urls(4) by simp
qed

section \<open>The request\<close>

text \<open>Where a session returns the user to the relying party, its template gives a URL.\<close>

definition redirect_possible :: "vp_verifier_env \<Rightarrow> session_token \<Rightarrow> string \<Rightarrow> string option \<Rightarrow> bool" where
  "redirect_possible env token nonce template \<longleftrightarrow> (\<exists>t u. template = Some t \<and>
     ReturnUrlTemplate_into_url (vve_templates env) t token = (Ok u :: (url, get_auth_request_error) res) \<and>
     \<not> cannot_be_a_base (vve_urls env) (vve_append_pair env u ''nonce'' nonce))"

lemma redirect_total:
  assumes "expects_nonce config st \<Longrightarrow> redirect_possible env token nonce template"
  obtains rd where "redirect_uri_and_nonce env nonce token config st template = Ok rd"
    "map_option rdu_nonce rd = (if expects_nonce config st then Some nonce else None)"
proof -
  have "\<exists>rd. redirect_uri_and_nonce env nonce token config st template = Ok rd"
  proof (cases "expects_nonce config st")
    case True
    then obtain t u where "template = Some t" "ReturnUrlTemplate_into_url (vve_templates env) t token = (Ok u :: (url, get_auth_request_error) res)"
      "\<not> cannot_be_a_base (vve_urls env) (vve_append_pair env u ''nonce'' nonce)"
      using assms unfolding redirect_possible_def by blast
    then show ?thesis using True by (cases config; cases st) (auto simp: redirect_uri_and_nonce_def BaseUrl_try_from_def)
  qed (cases config; cases st; auto simp: redirect_uri_and_nonce_def)
  then show thesis using that redirect_uri_and_nonce_Ok by metis
qed

text \<open>
  The conditions on a session that was created and on the wallet that answers it: the link is still valid, the use case is configured
  with a trusted certificate and registered for what is asked, the return URL can be made, and the mdocs of the wallet are valid, bound to
  its keys, and answer the request.
\<close>

definition vp_can_complete ::
  "vp_verifier_env \<Rightarrow> vp_verifier \<Rightarrow> vp_wallet_inputs \<Rightarrow> vp_inputs \<Rightarrow> clock \<Rightarrow> session_token \<Rightarrow> vp_created \<Rightarrow> vp_use_case \<Rightarrow> session_type
     \<Rightarrow> datetime \<Rightarrow> trust_anchor list \<Rightarrow> 'i mdoc_data_source \<Rightarrow> (string \<times> verifying_key) set \<Rightarrow> key_factory \<Rightarrow> bool" where
  "vp_can_complete env vf wi i clock token c uc st time reader_anchors source keys factory \<longleftrightarrow>
     vpv_use_cases vf (vcr_usecase_id c) = Some uc \<and>
     VpUseCase_new (vve_vp env) (vuc_key_pair uc) (vuc_session_type_return_url uc) = Ok uc \<and> vcr_client_id c = vuc_client_id uc \<and>
     vin_now i - EPHEMERAL_ID_VALIDITY_SECONDS \<le> time \<and>
     (expects_nonce (vuc_session_type_return_url uc) st \<longrightarrow> redirect_possible env token (vin_redirect_nonce i) (vcr_redirect_uri_template c)) \<and>
     (\<exists>k. vin_key_pair i = Some k \<and> jwe_key_ok (vve_vp env) k) \<and> is_ascii (vin_nonce i) \<and> is_ascii (vwi_mdoc_nonce wi) \<and>
     (\<forall>r\<in>set (vcr_items_requests c). request_maps r \<and> request_printable r) \<and> (\<exists>r\<in>set (vcr_items_requests c). ir_name_spaces r \<noteq> []) \<and>
     (\<exists>registration. trusted_reader (vpe_disclosure (vve_vp env)) (vuc_key_pair uc) registration (\<lambda>_. vwi_now wi) reader_anchors \<and>
        set (requests_attribute_identifiers (vcr_items_requests c)) \<subseteq> set (registration_attribute_identifiers registration)) \<and>
     answerable (vpe_disclosure (vve_vp env)) (vcr_items_requests c) source \<and> source_wf source \<and>
     (\<forall>dts mss ms s. source dts = Some mss \<longrightarrow> ms \<in> set mss \<longrightarrow> s \<in> set ms \<longrightarrow>
        presentable (vpe_disclosure (vve_vp env)) keys clock (vpv_trust_anchors vf) (stm_mdoc s)) \<and>
     factory_signs (vve_crypto env) factory keys"

text \<open>The session while the wallet shows the request to its user.\<close>

definition vp_waits :: "vp_verifier_env \<Rightarrow> vp_inputs \<Rightarrow> session_token \<Rightarrow> vp_created \<Rightarrow> vp_use_case \<Rightarrow> session_type
     \<Rightarrow> url \<Rightarrow> iso_vp_authorization_request \<Rightarrow> vp_store \<Rightarrow> bool" where
  "vp_waits env i token c uc st response_uri areq s \<longleftrightarrow> vp_valid env s \<and> (\<exists>y k rd. vp_view env s token = Some y \<and>
     ss_data y = VpWaiting \<lparr>vw_auth_request = areq, vw_encryption_key = k, vw_redirect_uri = rd\<rparr> \<and> jwe_key_ok (vve_vp env) k \<and>
     iso_encryption_pubkey areq = vpe_to_jwk_public_key (vve_vp env) k \<and> iso_items_requests areq = vcr_items_requests c \<and>
     iso_response_uri areq = response_uri \<and> iso_nonce areq = vin_nonce i \<and> iso_client_id areq = vuc_client_id uc \<and>
     map_option rdu_nonce rd = (if expects_nonce (vuc_session_type_return_url uc) st then Some (vin_redirect_nonce i) else None))"

lemma request_step:
  assumes cd: "vp_codec_ok (vve_vp env)" and f: "vp_store_faithful env" and v: "vp_valid env s"
    and x: "vp_view env s token = Some x" "ss_data x = VpCreated c"
    and can: "vp_can_complete env vf wi i clock token c uc st time ranchors source keys factory"
    and pq: "vve_parameters_from_str env pq = Some params" "vup_session_type params = st"
      "vp_verify_ephemeral_id env vf (vin_now i) token params = Ok ()"
  obtains jwt areq s' where "process_get_request env vf i token response_uri (Some pq) wn s = (Ok jwt, s')"
    "VpAuthorizationRequest_verify (vve_vp env) (vwi_now wi) jwt ranchors wn = Ok (areq, kp_certificate (vuc_key_pair uc))"
    "vp_waits env i token c uc st response_uri areq s'"
proof -
  let ?vp = "vve_vp env" and ?kp = "vuc_key_pair uc"
  from can obtain k registration where uc: "vpv_use_cases vf (vcr_usecase_id c) = Some uc"
    "VpUseCase_new ?vp ?kp (vuc_session_type_return_url uc) = Ok uc" and k: "vin_key_pair i = Some k" "jwe_key_ok ?vp k"
    and t: "trusted_reader (vpe_disclosure ?vp) ?kp registration (\<lambda>_. vwi_now wi) ranchors"
    and red: "expects_nonce (vuc_session_type_return_url uc) st \<Longrightarrow> redirect_possible env token (vin_redirect_nonce i) (vcr_redirect_uri_template c)"
    and reqs: "\<forall>r\<in>set (vcr_items_requests c). request_maps r \<and> request_printable r" "\<exists>r\<in>set (vcr_items_requests c). ir_name_spaces r \<noteq> []"
    unfolding vp_can_complete_def by blast
  obtain key where key: "Certificate_verify (vpe_crypto ?vp) (kp_certificate ?kp) ReaderAuth [] (vwi_now wi) ranchors = Ok ()"
    "Certificate_public_key (vpe_crypto ?vp) (kp_certificate ?kp) = Ok key" "p256_key_pair (vpe_crypto ?vp) key (kp_private_key ?kp)"
    "\<And>m. kp_private_key ?kp m \<noteq> None" using t unfolding trusted_reader_def by blast
  have san: "san_dns_name (vpe_crypto ?vp) (kp_certificate ?kp) = Ok (Some (vuc_client_id uc))"
    using uc(2) by (auto simp: VpUseCase_new_def result_simps) (metis vp_use_case.select_convs(2))
  then obtain areq where areq: "IsoVpAuthorizationRequest_new ?vp (vin_definition_id i) (vcr_items_requests c) (kp_certificate ?kp) (vin_nonce i)
      (vpe_to_jwk_public_key ?vp k) response_uri wn = Ok areq" by (simp add: IsoVpAuthorizationRequest_new_def)
  obtain jwt where jwt: "sign_with_certificate ?vp (VpAuthorizationRequest_from areq) ?kp = Ok jwt"
    "VpAuthorizationRequest_verify ?vp (vwi_now wi) jwt ranchors wn = Ok (areq, kp_certificate ?kp)"
    by (rule new_request_verifies [OF cd key areq k(2) reqs])
  obtain rd where rd: "redirect_uri_and_nonce env (vin_redirect_nonce i) token (vuc_session_type_return_url uc) st (vcr_redirect_uri_template c) = Ok rd"
    "map_option rdu_nonce rd = (if expects_nonce (vuc_session_type_return_url uc) st then Some (vin_redirect_nonce i) else None)"
    by (rule redirect_total [OF red])
  let ?c = "\<lparr>ss_data = c, ss_token = ss_token x, ss_last_active = ss_last_active x\<rparr>"
  let ?w = "\<lparr>vw_auth_request = areq, vw_encryption_key = k, vw_redirect_uri = rd\<rparr>"
  let ?n = "vp_into VpWaiting (vp_transition (vin_transition i) ?c ?w)"
  have inner: "process_get_request_inner env i c token response_uri st wn (vpv_use_cases vf) = Ok (jwt, areq, rd, k)"
    using uc(1) rd(1) k areq jwt(1) by (simp add: process_get_request_inner_def jwe_key_ok_def)
  have tok: "ss_token ?n = token" using x(1) vs.view_token by simp
  obtain s' where s': "vp_write env s ?n False = Ok s'" "vp_valid env s'" "vp_view env s' = (vp_view env s)(token \<mapsto> ?n)"
    by (rule vp_update [OF f v x(1) _ tok]) (use x(2) in auto)
  have g: "res_bind (get_session_state env token s) VpCreated_try_from = Ok ?c"
    using x by (simp add: get_session_state_def vs.get_view [OF v] VpCreated_try_from_def)
  have "process_get_request env vf i token response_uri (Some pq) wn s = (Ok jwt, s')"
    using g pq inner s'(1) by (simp add: process_get_request_def Session_process_get_request_def)
  moreover have "vp_waits env i token c uc st response_uri areq s'"
    using s'(2,3) k(2) rd(2) san IsoVpAuthorizationRequest_new_Ok [OF areq] by (auto simp: vp_waits_def)
  ultimately show thesis using that jwt(2) by blast
qed

lemma request_over_http:
  assumes w: "vp_wire_ok sv h" and a: "session_addresses sv state token ul_base request_uri response_uri"
    and u: "vsv_query sv u = Some pq" "vsv_path sv u = [token, ''request_uri'']"
    and p: "process_get_request (vsv_verifier sv) (vas_verifier state) (vri_inputs (ins n)) token response_uri (Some pq) (Some nonce) s = (Ok jwt, s')"
  shows "get_authorization_request (vp_connected sv state ins h) u (Some nonce) (n, s) = (Ok jwt, (Suc n, s'))"
proof -
  obtain b where b: "vhe_wallet_request_form h (Some nonce) = Some b" "vsv_wallet_request sv b = Some (Some nonce)"
    using vp_wire_okD(3) [OF w] by blast
  show ?thesis using b u p session_addressesD(3) [OF a]
    by (simp add: get_authorization_request_def vp_send_def verifier_http_def wallet_router_def retrieve_request_def request_form_def
        is_error_status_def is_client_error_def is_server_error_def)
qed

lemma request_is_processed:
  assumes can: "vp_can_complete env vf wi i clock token c uc st time ranchors source keys factory"
    and h: "vhe_vp h = vve_vp env" and areq: "iso_items_requests areq = vcr_items_requests c" "iso_client_id areq = vuc_client_id uc"
    and obj: "ruo_client_id obj = vcr_client_id c"
  obtains registration cands where "DisclosureRequestMatch_new (vpe_disclosure (vve_vp env)) (vcr_items_requests c) source tr = Ok (Candidates cands)"
    "vp_process_request h areq (kp_certificate (vuc_key_pair uc)) tr obj source =
       Ok (CheckProposedDocuments (map (\<lambda>(dt, cands). hd cands) cands), registration)"
proof -
  let ?env = "vpe_disclosure (vve_vp env)"
  obtain cands where cands: "DisclosureRequestMatch_new ?env (vcr_items_requests c) source tr = Ok (Candidates cands)"
    "\<forall>(dt, cands)\<in>set cands. length cands = 1" using can unfolding vp_can_complete_def answerable_def by blast
  have l: "concat (im_values cands) = map (\<lambda>(dt, cands). hd cands) cands" "\<not> list_ex (\<lambda>cands. 1 < length cands) (im_values cands)"
    using cands(2) by (induction cands) (auto simp: length_Suc_conv)
  from can obtain registration where "CertificateType_from_certificate ?env (kp_certificate (vuc_key_pair uc)) = Ok (ReaderAuthType (Some registration))"
    "set (requests_attribute_identifiers (vcr_items_requests c)) \<subseteq> set (registration_attribute_identifiers registration)"
    unfolding vp_can_complete_def trusted_reader_def by blast
  moreover from this(2) have "verify_requested_attributes registration (vcr_items_requests c) = Ok ()"
    by (auto simp: verify_requested_attributes_def is_collect_def subset_iff filter_empty_conv intro!: arg_cong [of _ "[]" "foldl _ _"])
  moreover have "vcr_client_id c = vuc_client_id uc" using can by (simp add: vp_can_complete_def)
  ultimately show thesis using that [OF cands(1)] cands(1) l h areq obj by (simp add: vp_process_request_def)
qed

text \<open>What the wallet holds when it shows the request to its user.\<close>

definition vp_proposed ::
  "vp_verifier_env \<Rightarrow> vp_wallet_inputs \<Rightarrow> vp_created \<Rightarrow> 'i mdoc_data_source \<Rightarrow> iso_vp_authorization_request \<Rightarrow> 'i vp_disclosure_proposal \<Rightarrow> bool" where
  "vp_proposed env wi c source areq p \<longleftrightarrow> vcd_auth_request (vdp_data p) = areq \<and> vdp_mdoc_nonce p = vwi_mdoc_nonce wi \<and> (\<exists>tr cands.
     new_oid4vp (vve_vp env) (iso_response_uri areq) (iso_client_id areq) (iso_nonce areq) (vwi_mdoc_nonce wi) =
       (Ok tr :: (session_transcript, auth_response_error) res) \<and>
     DisclosureRequestMatch_new (vpe_disclosure (vve_vp env)) (vcr_items_requests c) source tr = Ok (Candidates cands) \<and>
     vdp_proposed_documents p = map (\<lambda>(dt, cands). hd cands) cands)"

lemma new_oid4vp_total:
  assumes "vp_codec_ok env"
  obtains tr where "new_oid4vp env uri client_id nonce mdoc_nonce = (Ok tr :: (session_transcript, auth_response_error) res)"
    "new_oid4vp env uri client_id nonce mdoc_nonce = (Ok tr :: (session_transcript, vp_client_error) res)"
proof -
  obtain a b where "vpe_strings_to_cbor env [client_id, mdoc_nonce] = Some a" "vpe_strings_to_cbor env [uri, mdoc_nonce] = Some b"
    using vp_codec_okD(6) [OF assms] by metis
  then show thesis using that by (simp add: new_oid4vp_def)
qed

lemma vp_session_starts:
  assumes cd: "vp_codec_ok (vve_vp (vsv_verifier sv))" and f: "vp_store_faithful (vsv_verifier sv)" and w: "vp_wire_ok sv h"
    and a: "session_addresses sv state token ul_base request_uri response_uri" and h: "vhe_vp h = vve_vp (vsv_verifier sv)"
    and v: "vp_valid (vsv_verifier sv) s" and x: "vp_view (vsv_verifier sv) s token = Some x" "ss_data x = VpCreated c"
    and can: "vp_can_complete (vsv_verifier sv) (vas_verifier state) wi (vri_inputs (ins n)) clock token c uc st time ranchors source keys factory"
    and src: "uri_source_session_type src = st"
  obtains ul q pq p areq s' where
    "vp_status (vsv_verifier sv) (vas_verifier state) token st ul_base request_uri time s = Ok (VpStatusCreated ul)" "vhe_url_query h ul = Some q"
    "VpDisclosureSession_start (vp_connected sv state ins h) wi q src source ranchors (n, s) = (Ok (VpSessionProposal p), (Suc n, s'))"
    "vp_proposed (vsv_verifier sv) wi c source areq p" "vp_waits (vsv_verifier sv) (vri_inputs (ins n)) token c uc st response_uri areq s'"
    "vp_step (vsv_verifier sv) (vas_verifier state) s
       (VpGetRequest (vri_inputs (ins n)) token response_uri (Some pq) (Some (vwi_request_nonce wi))) s'"
proof -
  let ?env = "vsv_verifier sv" and ?vf = "vas_verifier state" and ?i = "vri_inputs (ins n)" and ?h = "vp_connected sv state ins h"
  let ?params = "session_parameters sv state token st time"
  obtain ul q obj pq where ul: "vp_status ?env ?vf token st ul_base request_uri time s = Ok (VpStatusCreated ul)"
    "vhe_url_query h ul = Some q" "vhe_request_uri_from_str h q = Some obj" "ruo_client_id obj = vcr_client_id c"
    "ruo_request_uri_method obj = Some UriMethodPost" "vhe_url_query h (ruo_request_uri obj) = Some pq"
    "vsv_query sv (ruo_request_uri obj) = Some pq" "vsv_path sv (ruo_request_uri obj) = [token, ''request_uri'']"
    "vhe_parameters_from_str h pq = Some ?params" "vve_parameters_from_str ?env pq = Some ?params"
    by (rule status_link [OF w a v x]) blast
  have eph: "vp_verify_ephemeral_id ?env ?vf (vin_now ?i) token ?params = Ok ()"
    by (rule session_parameters_valid) (use can in \<open>simp add: vp_can_complete_def\<close>)
  have pst: "vup_session_type ?params = st" by (simp add: session_parameters_def)
  obtain jwt areq s' where r: "process_get_request ?env ?vf ?i token response_uri (Some pq) (Some (vwi_request_nonce wi)) s = (Ok jwt, s')"
    "VpAuthorizationRequest_verify (vve_vp ?env) (vwi_now wi) jwt ranchors (Some (vwi_request_nonce wi)) = Ok (areq, kp_certificate (vuc_key_pair uc))"
    "vp_waits ?env ?i token c uc st response_uri areq s'"
    by (rule request_step [OF cd f v x can ul(10) pst eph])
  obtain tr where tr: "new_oid4vp (vve_vp ?env) (iso_response_uri areq) (iso_client_id areq) (iso_nonce areq) (vwi_mdoc_nonce wi) =
      (Ok tr :: (session_transcript, auth_response_error) res)"
    "new_oid4vp (vve_vp ?env) (iso_response_uri areq) (iso_client_id areq) (iso_nonce areq) (vwi_mdoc_nonce wi) =
      (Ok tr :: (session_transcript, vp_client_error) res)" by (rule new_oid4vp_total [OF cd])
  obtain registration cands where m: "DisclosureRequestMatch_new (vpe_disclosure (vve_vp ?env)) (vcr_items_requests c) source tr = Ok (Candidates cands)"
    "vp_process_request ?h areq (kp_certificate (vuc_key_pair uc)) tr obj source =
       Ok (CheckProposedDocuments (map (\<lambda>(dt, cands). hd cands) cands), registration)"
    by (rule request_is_processed [OF can, of ?h areq obj tr]) (use h r(3) ul(4) in \<open>auto simp: vp_waits_def\<close>)
  let ?p = "\<lparr>vdp_data = \<lparr>vcd_certificate = kp_certificate (vuc_key_pair uc), vcd_reader_registration = registration, vcd_auth_request = areq,
      vcd_session_type = st\<rparr>, vdp_proposed_documents = map (\<lambda>(dt, cands). hd cands) cands, vdp_mdoc_nonce = vwi_mdoc_nonce wi\<rparr>"
  have "get_authorization_request ?h (ruo_request_uri obj) (Some (vwi_request_nonce wi)) (n, s) = (Ok jwt, (Suc n, s'))"
    by (rule request_over_http [where ins = ins and n = n, OF w a ul(7,8) r(1)])
  then have "VpDisclosureSession_start ?h wi q src source ranchors (n, s) = (Ok (VpSessionProposal ?p), (Suc n, s'))"
    using ul(3,5,6,9) src pst r(2) tr(2) m(2) h by (simp add: VpDisclosureSession_start_def vp_open_session_def)
  moreover have "vp_proposed ?env wi c source areq ?p" using tr(1) m(1) by (auto simp: vp_proposed_def)
  ultimately show thesis using that [OF ul(1,2)] r(3) vp_step.get [OF r(1)] by blast
qed

section \<open>The response\<close>

lemma answer_step:
  assumes cd: "vp_codec_ok (vve_vp env)" "\<And>tr. transcript_to_cbor (vpe_disclosure (vve_vp env)) tr \<noteq> None" and f: "vp_store_faithful env"
    and can: "vp_can_complete env vf wi i (vin_clock j) token c uc st time ranchors source keys factory"
    and p: "vp_proposed env wi c source areq p" and w: "vp_waits env i token c uc st response_uri areq s"
  obtains dr jwe reply s' attrs where
    "from_proposed_documents (vpe_disclosure (vve_vp env)) (vdp_proposed_documents p) factory = Ok dr"
    "new_encrypted (vve_vp env) (vwi_submission_id wi) (vwi_jwe_random wi) dr areq (vwi_mdoc_nonce wi) = Ok jwe"
    "process_authorization_response env vf j token (AuthResponse jwe) s = (Ok reply, s')"
    "vpr_redirect_uri reply \<noteq> None \<longleftrightarrow> expects_nonce (vuc_session_type_return_url uc) st"
    "vp_disclosed_attributes env token (if expects_nonce (vuc_session_type_return_url uc) st then Some (vin_redirect_nonce i) else None) s' = Ok attrs"
proof -
  let ?vp = "vve_vp env"
  from w obtain y k rd where v: "vp_valid env s" and y: "vp_view env s token = Some y"
    "ss_data y = VpWaiting \<lparr>vw_auth_request = areq, vw_encryption_key = k, vw_redirect_uri = rd\<rparr>" and k: "jwe_key_ok ?vp k"
    "iso_encryption_pubkey areq = vpe_to_jwk_public_key ?vp k" and a: "iso_items_requests areq = vcr_items_requests c" "iso_nonce areq = vin_nonce i"
    and rd: "map_option rdu_nonce rd = (if expects_nonce (vuc_session_type_return_url uc) st then Some (vin_redirect_nonce i) else None)"
    unfolding vp_waits_def by blast
  from p obtain tr cands where tr: "new_oid4vp ?vp (iso_response_uri areq) (iso_client_id areq) (iso_nonce areq) (vwi_mdoc_nonce wi) =
       (Ok tr :: (session_transcript, auth_response_error) res)"
     "DisclosureRequestMatch_new (vpe_disclosure ?vp) (vcr_items_requests c) source tr = Ok (Candidates cands)"
     "vdp_proposed_documents p = map (\<lambda>(dt, cands). hd cands) cands" unfolding vp_proposed_def by blast
  obtain b where b: "transcript_to_cbor (vpe_disclosure ?vp) tr = Some b" using cd(2) by blast
  have wf: "source_wf source" and fs: "factory_signs (vve_crypto env) factory keys" and ascii: "is_ascii (iso_nonce areq)" "is_ascii (vwi_mdoc_nonce wi)"
    using can a(2) by (simp_all add: vp_can_complete_def)
  obtain dr attrs where dr: "from_proposed_documents (vpe_disclosure ?vp) (vdp_proposed_documents p) factory = Ok dr"
    "DeviceResponse_verify (vpe_disclosure ?vp) dr None tr (vin_clock j) (vpv_trust_anchors vf) = Ok attrs"
    "match_against_response (iso_items_requests areq) dr = Ok ()"
    using candidates_answer_accepted [OF tr(2) wf _ fs b, of "vin_clock j" "vpv_trust_anchors vf" None] can tr(3) a(1)
    unfolding vp_can_complete_def by metis
  obtain docs where docs: "dr_documents dr = Some docs" using dr(1) by (auto simp: from_proposed_documents_def result_simps)
  obtain jwe resp where jwe: "new_encrypted ?vp (vwi_submission_id wi) (vwi_jwe_random wi) dr areq (vwi_mdoc_nonce wi) = Ok jwe"
    "VpAuthorizationResponse_new (vwi_submission_id wi) dr areq = (Ok resp :: (_, auth_response_error) res)"
    "VpAuthorizationResponse_decrypt ?vp jwe k (iso_nonce areq) = Ok (resp, vwi_mdoc_nonce wi)"
    by (rule new_response_decrypts [OF cd(1) k docs ascii])
  have ok: "decrypt_and_verify ?vp jwe k areq (vin_clock j) (vpv_trust_anchors vf) = Ok attrs"
    using jwe(3) new_response_verifies [OF jwe(2) tr(1) dr(2,3)] by (simp add: decrypt_and_verify_def)
  let ?w = "\<lparr>ss_data = \<lparr>vw_auth_request = areq, vw_encryption_key = k, vw_redirect_uri = rd\<rparr>, ss_token = ss_token y, ss_last_active = ss_last_active y\<rparr>"
  let ?n = "vp_into VpDone (vp_transition_finish (vin_transition j) ?w attrs (map_option rdu_nonce rd))"
  have tok: "ss_token ?n = token" using y(1) vs.view_token by simp
  obtain s' where s': "vp_write env s ?n False = Ok s'" "vp_valid env s'" "vp_view env s' = (vp_view env s)(token \<mapsto> ?n)"
    by (rule vp_update [OF f v y(1) _ tok]) (use y(2) in auto)
  have g: "res_bind (get_session_state env token s) VpWaiting_try_from = Ok ?w"
    using y by (simp add: get_session_state_def vs.get_view [OF v] VpWaiting_try_from_def)
  have "process_authorization_response env vf j token (AuthResponse jwe) s = (Ok (vp_ok_response (ss_data ?w)), s')"
    using g ok s'(1) by (simp add: process_authorization_response_def Session_process_authorization_response_def)
  moreover have "vpr_redirect_uri (vp_ok_response (ss_data ?w)) \<noteq> None \<longleftrightarrow> expects_nonce (vuc_session_type_return_url uc) st"
    using rd by (auto simp: vp_ok_response_def uri_from_option_def split: if_splits)
  moreover have "vp_disclosed_attributes env token (if expects_nonce (vuc_session_type_return_url uc) st then Some (vin_redirect_nonce i) else None) s' = Ok attrs"
    using s'(3) rd by (simp add: vp_disclosed_attributes_def get_session_state_def vs.get_view [OF s'(2)])
  ultimately show thesis using that dr(1) jwe(1) by blast
qed

lemma vp_session_discloses:
  assumes cd: "vp_codec_ok (vve_vp (vsv_verifier sv))" "\<And>tr. transcript_to_cbor (vpe_disclosure (vve_vp (vsv_verifier sv))) tr \<noteq> None"
    and f: "vp_store_faithful (vsv_verifier sv)" and w: "vp_wire_ok sv h"
    and a: "session_addresses sv state token ul_base request_uri response_uri" and h: "vhe_vp h = vve_vp (vsv_verifier sv)"
    and can: "vp_can_complete (vsv_verifier sv) (vas_verifier state) wi i (vin_clock (vri_inputs (ins n))) token c uc st time ranchors source keys factory"
    and p: "vp_proposed (vsv_verifier sv) wi c source areq p" and wt: "vp_waits (vsv_verifier sv) i token c uc st response_uri areq s"
  obtains redirect jwe s' attrs where "VpDisclosureProposal_disclose (vp_connected sv state ins h) wi factory p (n, s) = (Ok redirect, (Suc n, s'))"
    "redirect \<noteq> None \<longleftrightarrow> expects_nonce (vuc_session_type_return_url uc) st"
    "vp_disclosed_attributes (vsv_verifier sv) token
       (if expects_nonce (vuc_session_type_return_url uc) st then Some (vin_redirect_nonce i) else None) s' = Ok attrs"
    "vp_step (vsv_verifier sv) (vas_verifier state) s (VpAuthResponse (vri_inputs (ins n)) token (AuthResponse jwe)) s'"
proof -
  let ?env = "vsv_verifier sv" and ?vf = "vas_verifier state" and ?h = "vp_connected sv state ins h"
  obtain dr jwe reply s' attrs where r: "from_proposed_documents (vpe_disclosure (vve_vp ?env)) (vdp_proposed_documents p) factory = Ok dr"
    "new_encrypted (vve_vp ?env) (vwi_submission_id wi) (vwi_jwe_random wi) dr areq (vwi_mdoc_nonce wi) = Ok jwe"
    "process_authorization_response ?env ?vf (vri_inputs (ins n)) token (AuthResponse jwe) s = (Ok reply, s')"
    "vpr_redirect_uri reply \<noteq> None \<longleftrightarrow> expects_nonce (vuc_session_type_return_url uc) st"
    "vp_disclosed_attributes ?env token (if expects_nonce (vuc_session_type_return_url uc) st then Some (vin_redirect_nonce i) else None) s' = Ok attrs"
    by (rule answer_step [OF cd f can p wt])
  obtain b where b: "vhe_vp_token_form h jwe = Some b" "vsv_wallet_response sv b = Some (AuthResponse jwe)" using vp_wire_okD(4) [OF w] by blast
  obtain j where j: "vsv_vp_response_json sv reply = Some j" "j \<noteq> []" "vhe_vp_response_json h j = Some reply" using vp_wire_okD(5) [OF w] by blast
  have pr: "vcd_auth_request (vdp_data p) = areq" "vdp_mdoc_nonce p = vwi_mdoc_nonce wi" "iso_response_uri areq = response_uri"
    using p wt by (auto simp: vp_proposed_def vp_waits_def)
  have "send_authorization_response ?h response_uri jwe (n, s) = (Ok (vpr_redirect_uri reply), (Suc n, s'))"
    using b j r(3) session_addressesD(5) [OF a]
    by (simp add: send_authorization_response_def vp_send_def verifier_http_def wallet_router_def post_response_def request_form_def
        vp_json_response_def is_error_status_def is_client_error_def is_server_error_def deserialize_vp_response_def)
  then have "VpDisclosureProposal_disclose ?h wi factory p (n, s) = (Ok (vpr_redirect_uri reply), (Suc n, s'))"
    using r(1,2) pr h by (simp add: VpDisclosureProposal_disclose_def)
  then show thesis using that r(4,5) vp_step.respond [OF r(3)] by blast
qed

text \<open>
  C8: An OpenID4VP session that the verifier created completes with a wallet whose valid mdocs answer the request: the status endpoint
  gives a link; the wallet that opens it fetches the request over HTTP, trusts it and proposes documents; when its user approves, the
  verifier accepts the response, returns a redirect URI exactly where the use case has one for that type of session, and hands the
  attributes to who presents the nonce of that redirect URI.
\<close>

theorem vp_session_completes:
  assumes "vp_codec_ok (vve_vp (vsv_verifier sv))" "\<And>tr. transcript_to_cbor (vpe_disclosure (vve_vp (vsv_verifier sv))) tr \<noteq> None"
    and "vp_store_faithful (vsv_verifier sv)" "vp_wire_ok sv h" "session_addresses sv state token ul_base request_uri response_uri"
    and "vhe_vp h = vve_vp (vsv_verifier sv)"
    and "vp_valid (vsv_verifier sv) s" "vp_view (vsv_verifier sv) s token = Some x" "ss_data x = VpCreated c"
    and "vp_can_complete (vsv_verifier sv) (vas_verifier state) wi (vri_inputs (ins n)) (vin_clock (vri_inputs (ins (Suc n)))) token c uc st time
      ranchors source keys factory"
    and "uri_source_session_type src = st"
  shows "\<exists>ul q p s1 redirect s2 attrs.
    vp_status (vsv_verifier sv) (vas_verifier state) token st ul_base request_uri time s = Ok (VpStatusCreated ul) \<and> vhe_url_query h ul = Some q \<and>
    VpDisclosureSession_start (vp_connected sv state ins h) wi q src source ranchors (n, s) = (Ok (VpSessionProposal p), (n + 1, s1)) \<and>
    VpDisclosureProposal_disclose (vp_connected sv state ins h) wi factory p (n + 1, s1) = (Ok redirect, (n + 2, s2)) \<and>
    (redirect \<noteq> None \<longleftrightarrow> expects_nonce (vuc_session_type_return_url uc) st) \<and>
    vp_disclosed_attributes (vsv_verifier sv) token
      (if expects_nonce (vuc_session_type_return_url uc) st then Some (vin_redirect_nonce (vri_inputs (ins n))) else None) s2 = Ok attrs"
proof (rule vp_session_starts [where ins = ins and n = n, OF assms(1,3-11)])
  fix ul q pq p areq s1
  assume 1: "vp_status (vsv_verifier sv) (vas_verifier state) token st ul_base request_uri time s = Ok (VpStatusCreated ul)" "vhe_url_query h ul = Some q"
    "VpDisclosureSession_start (vp_connected sv state ins h) wi q src source ranchors (n, s) = (Ok (VpSessionProposal p), (Suc n, s1))"
    and p: "vp_proposed (vsv_verifier sv) wi c source areq p" "vp_waits (vsv_verifier sv) (vri_inputs (ins n)) token c uc st response_uri areq s1"
  obtain redirect s2 attrs where "VpDisclosureProposal_disclose (vp_connected sv state ins h) wi factory p (Suc n, s1) = (Ok redirect, (Suc (Suc n), s2))"
    "redirect \<noteq> None \<longleftrightarrow> expects_nonce (vuc_session_type_return_url uc) st"
    "vp_disclosed_attributes (vsv_verifier sv) token
       (if expects_nonce (vuc_session_type_return_url uc) st then Some (vin_redirect_nonce (vri_inputs (ins n))) else None) s2 = Ok attrs"
    by (rule vp_session_discloses [where n = "Suc n" and ins = ins, OF assms(1-6,10) p])
  with 1 show ?thesis by (intro exI [of _ ul] exI [of _ q] exI [of _ p] exI [of _ s1]) auto
qed

end
