(* ===== verification/VpExample.thy ===== *)
theory VpExample
  imports VpFlow
begin

text \<open>
  A verifier and a wallet for examples of OpenID4VP sessions: concrete codecs, keys and addresses that satisfy what the parties rely on.
\<close>

section \<open>Encodings\<close>

instance format_alg :: countable
  by countable_datatype

instance vp_format :: countable
  by countable_datatype

instance limit_disclosure :: countable
  by countable_datatype

instance pd_field_ext :: (countable) countable
  by (rule countable_by [of "\<lambda>r. (fld_path r, fld_intent_to_retain r, pd_field.more r)"]) simp

instance pd_constraints_ext :: (countable) countable
  by (rule countable_by [of "\<lambda>r. (cst_fields r, cst_limit_disclosure r, pd_constraints.more r)"]) simp

instance input_descriptor_ext :: (countable) countable
  by (rule countable_by [of "\<lambda>r. (ind_id r, ind_format r, ind_constraints r, input_descriptor.more r)"]) simp

instance presentation_definition_ext :: (countable) countable
  by (rule countable_by [of "\<lambda>r. (pdef_id r, pdef_input_descriptors r, presentation_definition.more r)"]) simp

instance vp_jwks :: countable
  by countable_datatype

instance vp_alg_values :: countable
  by countable_datatype

instance vp_enc_values :: countable
  by countable_datatype

instance client_metadata_ext :: (countable) countable
  by (rule countable_by [of "\<lambda>r. (cm_jwks r, cm_vp_formats r, cm_authorization_encryption_alg_values_supported r,
    cm_authorization_encryption_enc_values_supported r, client_metadata.more r)"]) simp

instance iso_vp_authorization_request_ext :: (countable) countable
  by (rule countable_by [of "\<lambda>r. (iso_client_id r, iso_nonce r, iso_encryption_pubkey r, iso_response_uri r, iso_items_requests r,
    iso_presentation_definition r, iso_client_metadata r, iso_state r, iso_wallet_nonce r, iso_vp_authorization_request.more r)"]) simp

instance x5c_header_ext :: (countable) countable
  by (rule countable_by [of "\<lambda>r. (xh_typ r, xh_alg r, xh_x5c r, x5c_header.more r)"]) simp

instance jwe_header_ext :: (countable) countable
  by (rule countable_by [of "\<lambda>r. (jh_token_type r, jh_agreement_partyuinfo r, jh_agreement_partyvinfo r, jh_content_encryption r, jwe_header.more r)"]) simp

instance verifiable_presentation :: countable
  by countable_datatype

instance input_descriptor_mapping_object_ext :: (countable) countable
  by (rule countable_by [of "\<lambda>r. (idm_id r, idm_format r, idm_path r, input_descriptor_mapping_object.more r)"]) simp

instance presentation_submission_ext :: (countable) countable
  by (rule countable_by [of "\<lambda>r. (psub_id r, psub_definition_id r, psub_descriptor_map r, presentation_submission.more r)"]) simp

instance vp_authorization_response_ext :: (countable) countable
  by (rule countable_by [of "\<lambda>r. (vres_vp_token r, vres_presentation_submission r, vres_state r, vp_authorization_response.more r)"]) simp

instance request_uri_method :: countable
  by countable_datatype

instance vp_request_uri_object_ext :: (countable) countable
  by (rule countable_by [of "\<lambda>r. (ruo_request_uri r, ruo_request_uri_method r, ruo_client_id r, vp_request_uri_object.more r)"]) simp

instance vp_url_parameters_ext :: (countable) countable
  by (rule countable_by [of "\<lambda>r. (vup_session_type r, vup_ephemeral_id r, vup_time r, vp_url_parameters.more r)"]) simp

instance vp_response_ext :: (countable) countable
  by (rule countable_by [of "\<lambda>r. (vpr_redirect_uri r, vp_response.more r)"]) simp

instance vp_created_ext :: (countable) countable
  by (rule countable_by [of "\<lambda>r. (vcr_items_requests r, vcr_usecase_id r, vcr_client_id r, vcr_redirect_uri_template r, vp_created.more r)"]) simp

instance redirect_uri_ext :: (countable) countable
  by (rule countable_by [of "\<lambda>r. (rdu_uri r, rdu_nonce r, redirect_uri.more r)"]) simp

instance vp_waiting_ext :: (countable) countable
  by (rule countable_by [of "\<lambda>r. (vw_auth_request r, vw_encryption_key r, vw_redirect_uri r, vp_waiting.more r)"]) simp

instance vp_session_result :: countable
  by countable_datatype

instance vp_done_ext :: (countable) countable
  by (rule countable_by [of "\<lambda>r. (vdn_session_result r, vp_done.more r)"]) simp

instance vp_disclosure_data :: countable
  by countable_datatype

section \<open>The environment\<close>

text \<open>
  A token is three texts with dots between them, a response is encrypted to its key by writing the key in front, and a header or claim
  is read back from the number of characters it was written with.
\<close>

definition until_dot :: "string \<Rightarrow> string" where
  "until_dot = takeWhile (\<lambda>c. c \<noteq> CHR ''.'')"

definition demo_vp_env :: vp_env where
  "demo_vp_env = \<lparr>vpe_disclosure = demo_disclosure_env, vpe_base64 = text_encode, vpe_base64_decode = Some \<circ> text_decode, vpe_base64url = text_encode,
     vpe_header_to_json = Some \<circ> text_encode,
     vpe_decode_header = (\<lambda>jwt. Some (decode (text_decode (until_dot jwt)))),
     vpe_request_to_json = (\<lambda>r. Some (text_encode (areq_client_id (vpr_oauth_request r), areq_nonce (vpr_oauth_request r),
       pd_direct (vpr_presentation_definition r), Option.bind (vpr_client_metadata r) metadata_direct, vpr_response_uri r, vpr_wallet_nonce r))),
     vpe_decode_request = (\<lambda>jwt key validation. case decode (text_decode (until_dot (tl (dropWhile (\<lambda>c. c \<noteq> CHR ''.'') jwt)))) of
       (client_id, nonce, pd, metadata, response_uri, wallet_nonce) \<Rightarrow> Some (VpAuthorizationRequest_from
         \<lparr>iso_client_id = client_id, iso_nonce = the nonce, iso_encryption_pubkey = [], iso_response_uri = the response_uri, iso_items_requests = [],
          iso_presentation_definition = the pd, iso_client_metadata = the metadata, iso_state = None, iso_wallet_nonce = wallet_nonce\<rparr>)),
     vpe_strings_to_cbor = Some \<circ> encode, vpe_jwk_parameter = (\<lambda>_ _. Some ''EC''), vpe_json_as_str = Some, vpe_json_from_str = (\<lambda>s. s),
     vpe_jwk_curve = (\<lambda>_. Some ''P-256''), vpe_response_type_json = (\<lambda>_. []), vpe_response_mode_json = (\<lambda>_. []),
     vpe_client_id_scheme_json = (\<lambda>_. []), vpe_to_jwk_public_key = text_encode, vpe_encrypter_from_jwk = (\<lambda>_. True),
     vpe_decrypter_from_key = (\<lambda>_. True), vpe_encode_with_encrypter = (\<lambda>random payload header jwk. Some (text_encode (jwk, payload, header))),
     vpe_decode_with_decrypter = (\<lambda>jwe k. case text_decode jwe of (jwk, payload, header) \<Rightarrow>
       if jwk = (text_encode k :: string) then Some (payload, header) else None),
     vpe_response_to_json = Some \<circ> text_encode, vpe_response_from_json = Some \<circ> text_decode,
     vpe_from_utf8 = (\<lambda>bs. Some (map (\<lambda>b. char_of (unat b)) bs))\<rparr>"

lemma demo_vp_env_simps [simp]:
  "vpe_disclosure demo_vp_env = demo_disclosure_env"
  by (simp add: demo_vp_env_def)

lemma decode_as_bytes [simp]: "decode (as_bytes (text_encode x)) = x"
  by (simp add: decode_def as_bytes_def text_encode_def)

lemma until_dot_text: "until_dot (text_encode x @ CHR ''.'' # s) = text_encode x"
  "dropWhile (\<lambda>c. c \<noteq> CHR ''.'') (text_encode x @ CHR ''.'' # s) = CHR ''.'' # s"
  by (simp_all add: until_dot_def text_encode_def takeWhile_append dropWhile_append)

lemma utf8_as_bytes: "map (\<lambda>b. char_of (unat b)) (as_bytes s) = s"
  by (induction s) (simp_all add: as_bytes_def unat_of_nat)

lemma demo_vp_codec_ok: "vp_codec_ok demo_vp_env"
  unfolding vp_codec_ok_def
  by (auto simp: demo_vp_env_def vp_jws_def until_dot_text utf8_as_bytes VpAuthorizationRequest_from_def)

lemma demo_jwe_key_ok: "jwe_key_ok demo_vp_env k"
  by (simp add: jwe_key_ok_def JwePublicKey_validate_def demo_vp_env_def)

section \<open>A verifier and a wallet\<close>

definition without_query :: "url \<Rightarrow> url" where
  "without_query = takeWhile (\<lambda>c. c \<noteq> CHR ''?'')"

definition demo_query :: "url \<Rightarrow> string option" where
  "demo_query u = (case dropWhile (\<lambda>c. c \<noteq> CHR ''?'') u of [] \<Rightarrow> None | _ # q \<Rightarrow> Some q)"

definition demo_vp_verifier_env :: vp_verifier_env where
  "demo_vp_verifier_env = \<lparr>vve_vp = demo_vp_env,
     vve_postgres = \<lparr>pg_refused = False, pg_to_value = Some \<circ> text_encode, pg_from_value = Some \<circ> text_decode,
       pg_time = (\<lambda>t. t), pg_type = ''openid4vc_disclosure''\<rparr>,
     vve_templates = \<lparr>strfmt = (\<lambda>t token. Some (t @ token)), url_parse = Some, url_scheme = (\<lambda>_. ''https''), allow_http_return_url = False\<rparr>,
     vve_urls = demo_urls, vve_set_query = (\<lambda>u q. without_query u @ CHR ''?'' # q), vve_append_pair = (\<lambda>u k v. u @ k @ v),
     vve_to_rfc3339 = (\<lambda>_. []), vve_parameters_to_string = Some \<circ> text_encode, vve_parameters_from_str = Some \<circ> text_decode,
     vve_request_uri_to_string = Some \<circ> text_encode, vve_get_error_to_string = (\<lambda>_. []), vve_response_error_to_string = (\<lambda>_. []),
     vve_user_error_to_string = (\<lambda>_. [])\<rparr>"

definition demo_vp_path :: "url \<Rightarrow> string list" where
  "demo_vp_path u = (if without_query u = ''disclosure/t/request_uri'' then [''t'', ''request_uri'']
     else if without_query u = ''disclosure/t/response_uri'' then [''t'', ''response_uri''] else [])"

definition demo_failure :: http_response where
  "demo_failure = \<lparr>hs_status = 400, hs_dpop_nonce = [], hs_body = []\<rparr>"

definition demo_vp_server :: vp_server_env where
  "demo_vp_server = \<lparr>vsv_verifier = demo_vp_verifier_env, vsv_path = demo_vp_path, vsv_query = demo_query, vsv_rejection = demo_failure,
     vsv_not_found = (\<lambda>_. demo_failure), vsv_json_failure = demo_failure, vsv_wallet_request = Some \<circ> Some, vsv_wallet_response = Some \<circ> AuthResponse,
     vsv_status_params = (\<lambda>_. Some SameDevice), vsv_start_request = (\<lambda>_. None), vsv_attributes_params = (\<lambda>_. Some None),
     vsv_vp_response_json = (\<lambda>r. Some (CHR ''a'' # text_encode r)), vsv_status_json = (\<lambda>_. None), vsv_start_json = Some,
     vsv_attributes_json = (\<lambda>_. None), vsv_get_error_json = (\<lambda>_. None), vsv_post_error_json = (\<lambda>_. None),
     vsv_verification_error_json = (\<lambda>_. None), vsv_post_error_to_string = (\<lambda>_. []), vsv_verification_error_to_string = (\<lambda>_. [])\<rparr>"

definition demo_vp_holder :: "(nat \<times> vp_store) vp_holder_env" where
  "demo_vp_holder = \<lparr>vhe_vp = demo_vp_env, vhe_http = (\<lambda>w _. (Err True, w)), vhe_request_uri_from_str = Some \<circ> text_decode,
     vhe_url_query = demo_query, vhe_parameters_from_str = Some \<circ> text_decode, vhe_wallet_request_form = (\<lambda>n. n), vhe_vp_token_form = Some,
     vhe_error_form = (\<lambda>_. Some []), vhe_error_response_json = (\<lambda>_. None), vhe_vp_response_json = Some \<circ> text_decode \<circ> tl,
     vhe_client_error_to_string = (\<lambda>_. [])\<rparr>"

definition demo_vp_use_case :: vp_use_case where
  "demo_vp_use_case = \<lparr>vuc_key_pair = uc_key_pair demo_use_case, vuc_client_id = ''rp'', vuc_session_type_return_url = Both\<rparr>"

definition demo_vp_state :: vp_application_state where
  "demo_vp_state = \<lparr>vas_verifier = \<lparr>vpv_use_cases = (\<lambda>u. if u = ''uc'' then Some demo_vp_use_case else None), vpv_trust_anchors = [[9]],
     vpv_ephemeral_id_secret = []\<rparr>, vas_public_url = [], vas_universal_link_base_url = []\<rparr>"

definition demo_vp_inputs :: vp_inputs where
  "demo_vp_inputs = \<lparr>vin_now = 5, vin_redirect_nonce = ''nonce'', vin_nonce = ''n'', vin_definition_id = ''id'', vin_key_pair = Some [1],
     vin_clock = (\<lambda>_. 5), vin_transition = 5\<rparr>"

definition demo_wallet_inputs :: vp_wallet_inputs where
  "demo_wallet_inputs = \<lparr>vwi_request_nonce = ''w'', vwi_now = 5, vwi_mdoc_nonce = ''m'', vwi_submission_id = ''s'', vwi_jwe_random = []\<rparr>"

definition demo_vp_created :: vp_created where
  "demo_vp_created = \<lparr>vcr_items_requests = [demo_request [(''b'', False)]], vcr_usecase_id = ''uc'', vcr_client_id = ''rp'',
     vcr_redirect_uri_template = Some ''https''\<rparr>"

definition demo_vp_session :: "vp_disclosure_data session_state" where
  "demo_vp_session = \<lparr>ss_data = VpCreated demo_vp_created, ss_token = ''t'', ss_last_active = 0\<rparr>"

abbreviation demo_vp_ins :: "nat \<Rightarrow> vp_request_inputs" where
  "demo_vp_ins \<equiv> \<lambda>_. \<lparr>vri_inputs = demo_vp_inputs, vri_token = ''t''\<rparr>"

definition demo_vp_store :: vp_store where
  "demo_vp_store = Memory [''t'' \<mapsto> demo_vp_session]"

lemma demo_vp_simps [simp]:
  "vve_vp demo_vp_verifier_env = demo_vp_env" "vsv_verifier demo_vp_server = demo_vp_verifier_env" "vhe_vp demo_vp_holder = demo_vp_env"
  "ss_data demo_vp_session = VpCreated demo_vp_created"
  by (simp_all add: demo_vp_verifier_env_def demo_vp_server_def demo_vp_holder_def demo_vp_session_def)

lemma demo_vp_store_faithful: "vp_store_faithful demo_vp_verifier_env"
  by (simp add: vp_store_faithful_def pg_storable_def demo_vp_verifier_env_def)

lemma set_query_query: "demo_query (without_query u @ CHR ''?'' # q) = Some q" "without_query (without_query u @ CHR ''?'' # q) = without_query u"
proof -
  have "\<forall>c\<in>set (without_query u). c \<noteq> CHR ''?''" by (auto simp: without_query_def dest: set_takeWhileD)
  then show "demo_query (without_query u @ CHR ''?'' # q) = Some q" "without_query (without_query u @ CHR ''?'' # q) = without_query u"
    by (simp_all add: demo_query_def dropWhile_append2 without_query_def takeWhile_append2)
qed

lemma demo_vp_wire_ok: "vp_wire_ok demo_vp_server demo_vp_holder"
  unfolding vp_wire_ok_def Let_def
  by (auto simp: demo_vp_server_def demo_vp_holder_def demo_vp_verifier_env_def set_query_query demo_vp_path_def demo_urls_def)

lemma demo_addresses: "session_addresses demo_vp_server demo_vp_state ''t'' ''disclosure'' ''disclosure/t/request_uri'' ''disclosure/t/response_uri''"
  by (simp add: session_addresses_def demo_vp_server_def demo_vp_verifier_env_def demo_vp_state_def join_base_url_def BaseUrl_join_def demo_urls_def
      demo_vp_path_def without_query_def)

lemma demo_vp_can_complete:
  "vp_can_complete demo_vp_verifier_env (vas_verifier demo_vp_state) demo_wallet_inputs demo_vp_inputs (\<lambda>_. 5) ''t'' demo_vp_created demo_vp_use_case
     SameDevice 0 [[8]] demo_source {(''key'', demo_device_key)} demo_factory"
proof -
  have p: "presentable demo_disclosure_env {(''key'', demo_device_key)} (\<lambda>_. 5) [[9]] (stm_mdoc s)"
    if "demo_source dts = Some mss" "ms \<in> set mss" "s \<in> set ms" for dts mss ms s
    using that demo_presentable by (auto simp: demo_source_def split: if_splits)
  have r: "set (requests_attribute_identifiers [demo_request [(''b'', False)]]) \<subseteq> set (registration_attribute_identifiers demo_registration)"
    by (simp add: requests_attribute_identifiers_def ItemsRequest_attribute_identifiers_def demo_request_def
        registration_attribute_identifiers_def demo_registration_def)
  have uc: "VpUseCase_new demo_vp_env (vuc_key_pair demo_vp_use_case) Both = Ok demo_vp_use_case"
    by (simp add: VpUseCase_new_def demo_vp_use_case_def san_dns_name_def demo_use_case_def demo_verifier_def demo_crypto_def)
  have q: "request_maps (demo_request [(''b'', False)])" "request_printable (demo_request [(''b'', False)])"
    "ir_name_spaces (demo_request [(''b'', False)]) \<noteq> []"
    by (simp_all add: demo_request_def request_maps_def request_printable_def no_quotes_def is_quote_def)
  have red: "redirect_possible demo_vp_verifier_env ''t'' ''nonce'' (Some ''https'')"
    by (simp add: redirect_possible_def ReturnUrlTemplate_into_url_def demo_vp_verifier_env_def demo_urls_def)
  have t: "trusted_reader demo_disclosure_env (vuc_key_pair demo_vp_use_case) demo_registration (\<lambda>_. 5) [[8]]"
    using demo_trusted_reader by (simp add: demo_vp_use_case_def)
  have f: "factory_signs demo_crypto demo_factory {(''key'', demo_device_key)}" by (rule demo_factory_signs)
  have s: "vpv_use_cases (vas_verifier demo_vp_state) ''uc'' = Some demo_vp_use_case" "vpv_trust_anchors (vas_verifier demo_vp_state) = [[9]]"
    "vuc_session_type_return_url demo_vp_use_case = Both" "vuc_client_id demo_vp_use_case = ''rp''"
    by (simp_all add: demo_vp_state_def demo_vp_use_case_def)
  show ?thesis
    unfolding vp_can_complete_def
    using p r uc q red t f s demo_answerable demo_source_wf demo_jwe_key_ok
    by (auto simp: demo_vp_created_def demo_vp_inputs_def demo_wallet_inputs_def is_ascii_def EPHEMERAL_ID_VALIDITY_SECONDS_def seconds_def)
qed

lemma demo_vp_valid: "vp_valid demo_vp_verifier_env demo_vp_store" "vp_view demo_vp_verifier_env demo_vp_store ''t'' = Some demo_vp_session"
  by (auto simp: demo_vp_store_def memory_valid_def demo_vp_session_def)

lemma demo_transcript: "transcript_to_cbor (vpe_disclosure (vve_vp (vsv_verifier demo_vp_server))) tr \<noteq> None"
  by (simp add: demo_disclosure_env_def)

theorem vp_session_completes_witness:
  "\<exists>ul q p s1 redirect s2 attrs.
    vp_status demo_vp_verifier_env (vas_verifier demo_vp_state) ''t'' SameDevice ''disclosure'' ''disclosure/t/request_uri'' 0 demo_vp_store =
      Ok (VpStatusCreated ul) \<and>
    VpDisclosureSession_start (vp_connected demo_vp_server demo_vp_state demo_vp_ins demo_vp_holder) demo_wallet_inputs q Link demo_source [[8]]
      (0, demo_vp_store) = (Ok (VpSessionProposal p), (1, s1)) \<and>
    VpDisclosureProposal_disclose (vp_connected demo_vp_server demo_vp_state demo_vp_ins demo_vp_holder) demo_wallet_inputs demo_factory p (1, s1) =
      (Ok (Some redirect), (2, s2)) \<and>
    vp_disclosed_attributes demo_vp_verifier_env ''t'' (Some ''nonce'') s2 = Ok attrs"
proof -
  have hyps: "vp_codec_ok (vve_vp (vsv_verifier demo_vp_server))" "vp_store_faithful (vsv_verifier demo_vp_server)"
    "vhe_vp demo_vp_holder = vve_vp (vsv_verifier demo_vp_server)" "vp_valid (vsv_verifier demo_vp_server) demo_vp_store"
    "vp_view (vsv_verifier demo_vp_server) demo_vp_store ''t'' = Some demo_vp_session"
    "vp_can_complete (vsv_verifier demo_vp_server) (vas_verifier demo_vp_state) demo_wallet_inputs (vri_inputs (demo_vp_ins 0))
       (vin_clock (vri_inputs (demo_vp_ins (Suc 0)))) ''t'' demo_vp_created demo_vp_use_case SameDevice 0 [[8]] demo_source {(''key'', demo_device_key)}
       demo_factory"
    using demo_vp_codec_ok demo_vp_store_faithful demo_vp_valid demo_vp_can_complete by (simp_all add: demo_vp_inputs_def)
  have n: "expects_nonce (vuc_session_type_return_url demo_vp_use_case) SameDevice" "vin_redirect_nonce demo_vp_inputs = ''nonce''"
    by (simp_all add: demo_vp_use_case_def demo_vp_inputs_def)
  from vp_session_completes [where ins = demo_vp_ins and n = 0 and src = Link, OF hyps(1) demo_transcript hyps(2) demo_vp_wire_ok demo_addresses hyps(3-5) _ hyps(6)]
  show ?thesis using n by (auto simp: numeral_2_eq_2; blast)
qed

lemma demo_vp_new_session:
  "vp_new_session demo_vp_verifier_env (vas_verifier demo_vp_state) ''t'' 0 [demo_request [(''b'', False)]] ''uc'' (Some ''https'') (Memory Map.empty) =
     (Ok ''t'', demo_vp_store)"
  by (simp add: vp_new_session_def demo_vp_state_def demo_vp_use_case_def VpSession_new_def SessionState_new_def vp_into_def demo_vp_store_def
      memory_write_def demo_vp_session_def demo_vp_created_def)

theorem vp_disclosed_attributes_are_traced_witness:
  "\<exists>evs s attrs reqs usecase template now st dr clock.
    vp_run demo_vp_verifier_env (vas_verifier demo_vp_state) (Memory Map.empty) evs s \<and>
    vp_disclosed_attributes demo_vp_verifier_env ''t'' (Some ''nonce'') s = Ok attrs \<and>
    VpNewSession reqs usecase template ''t'' now \<in> set evs \<and>
    DeviceResponse_verify demo_disclosure_env dr None st clock [[9]] = Ok attrs \<and> match_against_response reqs dr = Ok ()"
proof -
  let ?env = "vsv_verifier demo_vp_server" and ?vf = "vas_verifier demo_vp_state"
  have hyps: "vp_codec_ok (vve_vp ?env)" "vp_store_faithful ?env" "vhe_vp demo_vp_holder = vve_vp ?env" "vp_valid ?env demo_vp_store"
    "vp_view ?env demo_vp_store ''t'' = Some demo_vp_session"
    "vp_can_complete ?env ?vf demo_wallet_inputs (vri_inputs (demo_vp_ins 0))
       (vin_clock (vri_inputs (demo_vp_ins (Suc 0)))) ''t'' demo_vp_created demo_vp_use_case SameDevice 0 [[8]] demo_source {(''key'', demo_device_key)}
       demo_factory"
    using demo_vp_codec_ok demo_vp_store_faithful demo_vp_valid demo_vp_can_complete by (simp_all add: demo_vp_inputs_def)
  obtain pq p areq s1 where 1: "vp_proposed ?env demo_wallet_inputs demo_vp_created demo_source areq p"
    "vp_waits ?env (vri_inputs (demo_vp_ins 0)) ''t'' demo_vp_created demo_vp_use_case SameDevice ''disclosure/t/response_uri'' areq s1"
    "vp_step ?env ?vf demo_vp_store (VpGetRequest demo_vp_inputs ''t'' ''disclosure/t/response_uri'' (Some pq) (Some ''w'')) s1"
    by (rule vp_session_starts [where ins = demo_vp_ins and n = 0 and src = Link, OF hyps(1,2) demo_vp_wire_ok demo_addresses hyps(3-5) _ hyps(6)])
      (auto simp: demo_wallet_inputs_def)
  obtain jwe s2 attrs where 2: "vp_disclosed_attributes ?env ''t''
       (if expects_nonce (vuc_session_type_return_url demo_vp_use_case) SameDevice then Some (vin_redirect_nonce (vri_inputs (demo_vp_ins 0))) else None) s2 = Ok attrs"
    "vp_step ?env ?vf s1 (VpAuthResponse demo_vp_inputs ''t'' (AuthResponse jwe)) s2"
    by (rule vp_session_discloses [where ins = demo_vp_ins and n = "Suc 0", OF hyps(1) demo_transcript hyps(2) demo_vp_wire_ok demo_addresses hyps(3,6) 1(1,2)]) auto
  let ?evs = "[VpNewSession [demo_request [(''b'', False)]] ''uc'' (Some ''https'') ''t'' 0,
    VpGetRequest demo_vp_inputs ''t'' ''disclosure/t/response_uri'' (Some pq) (Some ''w''), VpAuthResponse demo_vp_inputs ''t'' (AuthResponse jwe)]"
  have "vp_run ?env ?vf (Memory Map.empty) ([] @ [?evs ! 0]) demo_vp_store"
    by (rule vp_run.step [OF vp_run.start]) (use vp_step.create [OF demo_vp_new_session] in simp)
  then have "vp_run ?env ?vf (Memory Map.empty) (([] @ [?evs ! 0]) @ [?evs ! 1]) s1"
    by (rule vp_run.step) (use 1(3) in simp)
  then have "vp_run ?env ?vf (Memory Map.empty) ((([] @ [?evs ! 0]) @ [?evs ! 1]) @ [?evs ! 2]) s2"
    by (rule vp_run.step) (use 2(2) in \<open>simp add: numeral_2_eq_2\<close>)
  then have run: "vp_run ?env ?vf (Memory Map.empty) ?evs s2" by (simp add: numeral_2_eq_2)
  have d: "vp_disclosed_attributes ?env ''t'' (Some ''nonce'') s2 = Ok attrs"
    using 2(1) by (simp add: demo_vp_use_case_def demo_vp_inputs_def)
  have "vp_valid ?env (Memory Map.empty)" "vp_view ?env (Memory Map.empty) = Map.empty" by (simp_all add: memory_valid_def)
  from vp_disclosed_attributes_are_traced [OF hyps(2) this run d]
  obtain reqs usecase template now st dr clock where "VpNewSession reqs usecase template ''t'' now \<in> set ?evs"
    "DeviceResponse_verify (vpe_disclosure (vve_vp ?env)) dr None st clock (vpv_trust_anchors ?vf) = Ok attrs" "match_against_response reqs dr = Ok ()"
    by blast
  moreover have "vpv_trust_anchors ?vf = [[9]]" by (simp add: demo_vp_state_def)
  ultimately show ?thesis using run d unfolding demo_vp_simps demo_vp_env_simps by metis
qed

end
