(* ===== verification/Issuer.thy ===== *)
theory Issuer
  imports IssuanceMessages
begin

text \<open>
  The issuer of attestations, \<open>openid4vc/src/issuer.rs\<close>: the states of an issuance session, the token
  request that opens it and the requests that end it. The sessions are in a store of theory
  \<open>SessionStore\<close>.
\<close>

section \<open>Errors\<close>

datatype issuance_error =
    UnexpectedState
  | UnknownSession authorization_code
  | IssuanceStoreFailed session_store_error
  | DpopInvalid dpop_error

datatype 'a token_request_error =
    TokenIssuanceError issuance_error
  | UnsupportedTokenRequestType
  | AttributeServiceFailed 'a

datatype credential_request_error =
    CredentialIssuanceError issuance_error
  | Unauthorized
  | MalformedToken
  | DoctypeNotOffered doc_type
  | UseBatchIssuance
  | UnsupportedCredentialFormat format
  | MissingJwk
  | IncorrectNonce
  | UnsupportedJwtAlgorithm string "string option"
  | JwtDecodingFailed
  | JwkConversion jwk_conversion_error
  | CoseKeyConversion crypto_error
  | MissingPrivateKey doc_type
  | AttestationSigning mdoc_error
  | CborSerialization
  | JsonSerialization
  | DoctypeMismatch
  | MissingCredentialRequestPoP

section \<open>Session states\<close>

record issuance_created =
  ic_attestation_previews :: "attestation_preview list option"

record issuance_waiting =
  iw_access_token :: access_token
  iw_c_nonce :: string
  iw_attestation_previews :: "attestation_preview list"
  iw_dpop_public_key :: verifying_key
  iw_dpop_nonce :: string

datatype issuance_result =
    IssuanceSucceeded
  | IssuanceFailed string
  | IssuanceCancelled
  | IssuanceExpired

record issuance_done =
  idn_session_result :: issuance_result

datatype issuance_data =
    IssuanceCreated issuance_created
  | IssuanceWaiting issuance_waiting
  | IssuanceDone issuance_done

fun issuance_progress :: "issuance_data \<Rightarrow> progress" where
  "issuance_progress (IssuanceCreated _) = Active"
| "issuance_progress (IssuanceWaiting _) = Active"
| "issuance_progress (IssuanceDone d) = Finished (idn_session_result d = IssuanceSucceeded)"

fun issuance_is_expired :: "issuance_data \<Rightarrow> bool" where
  "issuance_is_expired (IssuanceDone d) = (idn_session_result d = IssuanceExpired)"
| "issuance_is_expired _ = False"

definition issuance_expire :: "issuance_data \<Rightarrow> issuance_data" where
  "issuance_expire self = IssuanceDone \<lparr>idn_session_result = IssuanceExpired\<rparr>"

definition issuance_sd :: "issuance_data session_data" where
  "issuance_sd = \<lparr>sd_progress = issuance_progress, sd_is_expired = issuance_is_expired, sd_expire = issuance_expire\<rparr>"

section \<open>Configuration and environment\<close>

record issuer_data =
  iss_private_keys :: "doc_type \<Rightarrow> server_key_pair option"
  iss_credential_issuer_identifier :: url
  iss_accepted_wallet_client_ids :: "string list"
  iss_server_url :: url

text \<open>\<open>Issuer::new\<close>, without the metadata it serves and the start of the clean-up task.\<close>

definition IssuerData_new ::
  "url_ops \<Rightarrow> (doc_type \<Rightarrow> server_key_pair option) \<Rightarrow> url \<Rightarrow> string list \<Rightarrow> (issuer_data, 'e) res" where
  "IssuerData_new urls private_keys server_url wallet_client_ids =
     res_bind (join_base_url urls server_url ''issuance/'') (\<lambda>issuer_url.
     Ok \<lparr>iss_private_keys = private_keys, iss_credential_issuer_identifier = issuer_url,
         iss_accepted_wallet_client_ids = wallet_client_ids, iss_server_url = issuer_url\<rparr>)"

text \<open>The crates below the issuer, the text of errors and the database of the session store.\<close>

record 'a issuer_env =
  ie_mdoc :: mdoc_env
  ie_jose :: jose
  ie_urls :: url_ops
  ie_postgres :: "issuance_data postgres"
  token_error_to_string :: "'a token_request_error \<Rightarrow> string"
  credential_error_to_string :: "credential_request_error \<Rightarrow> string"

abbreviation ie_crypto :: "'a issuer_env \<Rightarrow> crypto" where
  "ie_crypto env \<equiv> me_crypto (ie_mdoc env)"

text \<open>
  What a token request reads: the clock, random strings, and the attribute service with its own
  errors. A credential request reads the clock and the random bytes of each credential it signs.
\<close>

type_synonym 'a attribute_service =
  "issuance_created session_state \<Rightarrow> token_request \<Rightarrow> (attestation_preview list, 'a) res"

record 'a token_inputs =
  ti_created :: datetime
  ti_attributes :: "'a attribute_service"
  ti_access_random :: string
  ti_c_nonce :: string
  ti_dpop_nonce :: string
  ti_transition :: datetime

record credential_inputs =
  ci_random :: "nat \<Rightarrow> name_space \<Rightarrow> nat \<Rightarrow> bytes"
  ci_signed :: "nat \<Rightarrow> datetime"
  ci_transition :: datetime

type_synonym issuance_store = "issuance_data session_store_variant"

abbreviation issuance_get ::
  "'a issuer_env \<Rightarrow> issuance_store \<Rightarrow> session_token \<Rightarrow> (issuance_data session_state option, issuance_error) res" where
  "issuance_get env sessions token \<equiv>
     map_err IssuanceStoreFailed (store_get issuance_sd (ie_postgres env) sessions token)"

abbreviation issuance_write ::
  "'a issuer_env \<Rightarrow> issuance_store \<Rightarrow> issuance_data session_state \<Rightarrow> bool \<Rightarrow> (issuance_store, issuance_error) res" where
  "issuance_write env sessions session is_new \<equiv>
     map_err IssuanceStoreFailed (store_write issuance_sd (ie_postgres env) sessions session is_new)"

section \<open>Transitions\<close>

definition Issuance_transition :: "datetime \<Rightarrow> 's session_state \<Rightarrow> 't \<Rightarrow> 't session_state" where
  "Issuance_transition now self new_state = SessionState_new now (ss_token self) new_state"

definition Issuance_transition_fail :: "datetime \<Rightarrow> 's session_state \<Rightarrow> string \<Rightarrow> issuance_done session_state" where
  "Issuance_transition_fail now self error =
     Issuance_transition now self \<lparr>idn_session_result = IssuanceFailed error\<rparr>"

text \<open>The conversions of a session in a known state to one in any state, and back.\<close>

definition issuance_into :: "('s \<Rightarrow> issuance_data) \<Rightarrow> 's session_state \<Rightarrow> issuance_data session_state" where
  "issuance_into state value = \<lparr>ss_data = state (ss_data value), ss_token = ss_token value,
     ss_last_active = ss_last_active value\<rparr>"

definition Created_try_from :: "issuance_data session_state \<Rightarrow> (issuance_created session_state, issuance_error) res" where
  "Created_try_from value = (case ss_data value of
     IssuanceCreated session_data \<Rightarrow>
       Ok \<lparr>ss_data = session_data, ss_token = ss_token value, ss_last_active = ss_last_active value\<rparr>
   | _ \<Rightarrow> Err UnexpectedState)"

definition WaitingForResponse_try_from ::
  "issuance_data session_state \<Rightarrow> (issuance_waiting session_state, issuance_error) res" where
  "WaitingForResponse_try_from value = (case ss_data value of
     IssuanceWaiting session_data \<Rightarrow>
       Ok \<lparr>ss_data = session_data, ss_token = ss_token value, ss_last_active = ss_last_active value\<rparr>
   | _ \<Rightarrow> Err UnexpectedState)"

section \<open>The token request\<close>

definition process_token_request_inner ::
  "'a issuer_env \<Rightarrow> 'a token_inputs \<Rightarrow> issuance_created session_state \<Rightarrow> token_request \<Rightarrow> dpop \<Rightarrow> url
     \<Rightarrow> (token_response_with_previews \<times> verifying_key \<times> string, 'a token_request_error) res" where
  "process_token_request_inner env ins self token_request dpop server_url =
     (if \<not> (case tr_grant_type token_request of PreAuthorizedCode _ \<Rightarrow> True | _ \<Rightarrow> False)
      then Err UnsupportedTokenRequestType
      else
        res_bind (BaseUrl_join (ie_urls env) server_url ''token'') (\<lambda>url.
        res_bind (map_err (TokenIssuanceError \<circ> DpopInvalid)
          (Dpop_verify (ie_crypto env) (ie_jose env) dpop url ''POST'' None)) (\<lambda>dpop_public_key.
        let code = TokenRequest_code token_request in
        res_bind (map_err AttributeServiceFailed (ti_attributes ins self token_request)) (\<lambda>previews.
        let response = \<lparr>tp_token_response = TokenResponse_new (AccessToken_new (ti_access_random ins) code) (ti_c_nonce ins),
              tp_attestation_previews = previews\<rparr> in
        Ok (response, dpop_public_key, ti_dpop_nonce ins)))))"

text \<open>An error is returned with the session that it ends.\<close>

definition Session_process_token_request ::
  "'a issuer_env \<Rightarrow> 'a token_inputs \<Rightarrow> issuance_created session_state \<Rightarrow> token_request \<Rightarrow> dpop \<Rightarrow> url
     \<Rightarrow> (token_response_with_previews \<times> string \<times> issuance_waiting session_state,
        'a token_request_error \<times> issuance_done session_state) res" where
  "Session_process_token_request env ins self token_request dpop server_url =
     (case process_token_request_inner env ins self token_request dpop server_url of
       Ok (response, dpop_pubkey, dpop_nonce) \<Rightarrow>
         res_bind (unwrap (tk_c_nonce (tp_token_response response))) (\<lambda>c_nonce.
         let next = Issuance_transition (ti_transition ins) self
           \<lparr>iw_access_token = tk_access_token (tp_token_response response), iw_c_nonce = c_nonce,
            iw_attestation_previews = tp_attestation_previews response, iw_dpop_public_key = dpop_pubkey,
            iw_dpop_nonce = dpop_nonce\<rparr>
         in Ok (response, dpop_nonce, next))
     | Err err \<Rightarrow> Err (err, Issuance_transition_fail (ti_transition ins) self (token_error_to_string env err))
     | Panic \<Rightarrow> Panic)"

definition process_token_request ::
  "'a issuer_env \<Rightarrow> issuer_data \<Rightarrow> 'a token_inputs \<Rightarrow> token_request \<Rightarrow> dpop \<Rightarrow> issuance_store
     \<Rightarrow> (token_response_with_previews \<times> string, 'a token_request_error) res \<times> issuance_store" where
  "process_token_request env self ins token_request dpop sessions =
     (let session_token = TokenRequest_code token_request in
      attempt (map_err TokenIssuanceError (issuance_get env sessions session_token)) sessions (\<lambda>found.
      let session = (case found of
            Some session \<Rightarrow> session
          | None \<Rightarrow> SessionState_new (ti_created ins) session_token (IssuanceCreated \<lparr>ic_attestation_previews = None\<rparr>)) in
      attempt (map_err TokenIssuanceError (Created_try_from session)) sessions (\<lambda>session.
      let result = Session_process_token_request env ins session token_request dpop (iss_credential_issuer_identifier self) in
      attempt (case result of
          Ok (response, dpop_nonce, next) \<Rightarrow> Ok (Ok (response, dpop_nonce), issuance_into IssuanceWaiting next)
        | Err (err, next) \<Rightarrow> Ok (Err err, issuance_into IssuanceDone next)
        | Panic \<Rightarrow> Panic) sessions (\<lambda>(response, next).
      attempt (map_err TokenIssuanceError (issuance_write env sessions next True)) sessions (\<lambda>sessions.
      (response, sessions))))))"

section \<open>Signing an attestation\<close>

definition CredentialRequestProof_verify ::
  "'a issuer_env \<Rightarrow> credential_request_proof \<Rightarrow> string \<Rightarrow> string list \<Rightarrow> url \<Rightarrow> (verifying_key, credential_request_error) res" where
  "CredentialRequestProof_verify env self nonce accepted_wallet_client_ids credential_issuer_identifier =
     (case self of ProofJwt jwt \<Rightarrow>
       res_bind (ok_or (jo_decode_header (ie_jose env) jwt) JwtDecodingFailed) (\<lambda>header.
       res_bind (ok_or (hd_jwk header) MissingJwk) (\<lambda>jwk.
       res_bind (map_err JwkConversion (jwk_to_p256 (ie_crypto env) (ie_jose env) jwk)) (\<lambda>verifying_key.
       let validation_options = \<lparr>jv_required_spec_claims = [], jv_iss = Some accepted_wallet_client_ids,
             jv_aud = Some [credential_issuer_identifier]\<rparr> in
       res_bind (ok_or (jo_decode_pop (ie_jose env) jwt verifying_key validation_options) JwtDecodingFailed) (\<lambda>token_data.
       if hd_typ (fst token_data) \<noteq> Some OPENID4VCI_VC_POP_JWT_TYPE
       then Err (UnsupportedJwtAlgorithm OPENID4VCI_VC_POP_JWT_TYPE (hd_typ (fst token_data)))
       else
         res_bind (ok_or (pj_nonce (snd token_data)) IncorrectNonce) (\<lambda>claimed.
         if claimed \<noteq> nonce then Err IncorrectNonce else Ok verifying_key))))))"

definition verify_pop_and_sign_attestation ::
  "'a issuer_env \<Rightarrow> issuer_data \<Rightarrow> (name_space \<Rightarrow> nat \<Rightarrow> bytes) \<Rightarrow> datetime \<Rightarrow> string \<Rightarrow> credential_request \<Rightarrow> unsigned_mdoc
     \<Rightarrow> (credential_response, credential_request_error) res" where
  "verify_pop_and_sign_attestation env self random now c_nonce cred_req unsigned_doc =
     (if crq_format cred_req \<noteq> MsoMdoc then Err (UnsupportedCredentialFormat (crq_format cred_req))
      else
        res_bind (ok_or (crq_doctype cred_req) DoctypeMismatch) (\<lambda>doctype.
        if doctype \<noteq> um_doc_type unsigned_doc then Err DoctypeMismatch
        else
          res_bind (ok_or (crq_proof cred_req) MissingCredentialRequestPoP) (\<lambda>proof.
          res_bind (CredentialRequestProof_verify env proof c_nonce (iss_accepted_wallet_client_ids self)
            (iss_credential_issuer_identifier self)) (\<lambda>pubkey.
          res_bind (map_err CoseKeyConversion (CoseKey_try_from (ie_crypto env) pubkey)) (\<lambda>mdoc_public_key.
          res_bind (ok_or (iss_private_keys self (um_doc_type unsigned_doc)) (MissingPrivateKey (um_doc_type unsigned_doc))) (\<lambda>private_key.
          res_bind (map_err AttestationSigning (IssuerSigned_sign (ie_mdoc env) random now unsigned_doc mdoc_public_key private_key))
            (\<lambda>issuer_signed.
          Ok (RespMsoMdoc issuer_signed))))))))"

section \<open>Credential requests\<close>

definition check_authorization ::
  "'a issuer_env \<Rightarrow> issuance_waiting \<Rightarrow> access_token \<Rightarrow> dpop \<Rightarrow> url \<Rightarrow> string \<Rightarrow> string
     \<Rightarrow> (unit, credential_request_error) res" where
  "check_authorization env session_data access_token dpop base_url endpoint method =
     (if iw_access_token session_data \<noteq> access_token then Err Unauthorized
      else
        res_bind (BaseUrl_join (ie_urls env) base_url endpoint) (\<lambda>url.
        map_err (CredentialIssuanceError \<circ> DpopInvalid)
          (Dpop_verify_expecting_key (ie_crypto env) (ie_jose env) dpop (iw_dpop_public_key session_data) url method
            (Some access_token) (Some (iw_dpop_nonce session_data)))))"

definition select_offer ::
  "issuance_waiting \<Rightarrow> credential_request \<Rightarrow> (unsigned_mdoc, credential_request_error) res" where
  "select_offer session_data credential_request =
     (case crq_doctype credential_request of
       Some requested_doctype \<Rightarrow>
         (let offered_mdocs = filter (\<lambda>u. um_doc_type u = requested_doctype)
                (map preview_unsigned (iw_attestation_previews session_data))
          in if length offered_mdocs = 1 then Ok (hd offered_mdocs)
             else if length offered_mdocs = 0 then Err (DoctypeNotOffered requested_doctype)
             else Err UseBatchIssuance)
     | None \<Rightarrow>
         (if length (iw_attestation_previews session_data) = 1
          then Ok (preview_unsigned (hd (iw_attestation_previews session_data)))
          else Err UseBatchIssuance))"

definition process_credential_inner ::
  "'a issuer_env \<Rightarrow> issuer_data \<Rightarrow> credential_inputs \<Rightarrow> issuance_waiting \<Rightarrow> credential_request \<Rightarrow> access_token \<Rightarrow> dpop
     \<Rightarrow> (credential_response, credential_request_error) res" where
  "process_credential_inner env self ins session_data credential_request access_token dpop =
     res_bind (check_authorization env session_data access_token dpop (iss_server_url self) ''credential'' ''POST'') (\<lambda>_.
     res_bind (select_offer session_data credential_request) (\<lambda>unsigned_doc.
     verify_pop_and_sign_attestation env self (ci_random ins 0) (ci_signed ins 0) (iw_c_nonce session_data)
       credential_request unsigned_doc))"

definition process_batch_credential_inner ::
  "'a issuer_env \<Rightarrow> issuer_data \<Rightarrow> credential_inputs \<Rightarrow> issuance_waiting \<Rightarrow> credential_request list \<Rightarrow> access_token \<Rightarrow> dpop
     \<Rightarrow> (credential_response list, credential_request_error) res" where
  "process_batch_credential_inner env self ins session_data credential_requests access_token dpop =
     res_bind (check_authorization env session_data access_token dpop (iss_server_url self) ''batch_credential'' ''POST'') (\<lambda>_.
     res_map (\<lambda>(i, cred_req, unsigned_doc).
         verify_pop_and_sign_attestation env self (ci_random ins i) (ci_signed ins i) (iw_c_nonce session_data) cred_req unsigned_doc)
       (List.enumerate 0 (zip credential_requests
         (concat (map (\<lambda>preview. replicate (copy_count preview) (preview_unsigned preview)) (iw_attestation_previews session_data))))))"

text \<open>A credential request ends its session, whatever comes of it.\<close>

definition finish_session ::
  "'a issuer_env \<Rightarrow> credential_inputs \<Rightarrow> issuance_waiting session_state \<Rightarrow> ('r, credential_request_error) res
     \<Rightarrow> (('r, credential_request_error) res \<times> issuance_done session_state, credential_request_error) res" where
  "finish_session env ins self result =
     (case result of
       Ok _ \<Rightarrow> Ok (result, Issuance_transition (ci_transition ins) self \<lparr>idn_session_result = IssuanceSucceeded\<rparr>)
     | Err err \<Rightarrow> Ok (result, Issuance_transition_fail (ci_transition ins) self (credential_error_to_string env err))
     | Panic \<Rightarrow> Panic)"

definition Session_process_credential ::
  "'a issuer_env \<Rightarrow> issuer_data \<Rightarrow> credential_inputs \<Rightarrow> issuance_waiting session_state \<Rightarrow> credential_request \<Rightarrow> access_token \<Rightarrow> dpop
     \<Rightarrow> ((credential_response, credential_request_error) res \<times> issuance_done session_state, credential_request_error) res" where
  "Session_process_credential env issuer_data ins self credential_request access_token dpop =
     finish_session env ins self (process_credential_inner env issuer_data ins (ss_data self) credential_request access_token dpop)"

definition Session_process_batch_credential ::
  "'a issuer_env \<Rightarrow> issuer_data \<Rightarrow> credential_inputs \<Rightarrow> issuance_waiting session_state \<Rightarrow> credential_request list \<Rightarrow> access_token \<Rightarrow> dpop
     \<Rightarrow> ((credential_response list, credential_request_error) res \<times> issuance_done session_state, credential_request_error) res" where
  "Session_process_batch_credential env issuer_data ins self credential_requests access_token dpop =
     finish_session env ins self (process_batch_credential_inner env issuer_data ins (ss_data self) credential_requests access_token dpop)"

definition issuer_get_session ::
  "'a issuer_env \<Rightarrow> authorization_code \<Rightarrow> issuance_store \<Rightarrow> (issuance_waiting session_state, credential_request_error) res" where
  "issuer_get_session env code sessions =
     map_err CredentialIssuanceError (res_bind (issuance_get env sessions code) (\<lambda>found.
     res_bind (ok_or found (UnknownSession code)) WaitingForResponse_try_from))"

definition process_credential ::
  "'a issuer_env \<Rightarrow> issuer_data \<Rightarrow> credential_inputs \<Rightarrow> access_token \<Rightarrow> dpop \<Rightarrow> credential_request \<Rightarrow> issuance_store
     \<Rightarrow> (credential_response, credential_request_error) res \<times> issuance_store" where
  "process_credential env self ins access_token dpop credential_request sessions =
     attempt (ok_or (AccessToken_code access_token) MalformedToken) sessions (\<lambda>code.
     attempt (issuer_get_session env code sessions) sessions (\<lambda>session.
     attempt (Session_process_credential env self ins session credential_request access_token dpop) sessions (\<lambda>(response, next).
     attempt (map_err CredentialIssuanceError (issuance_write env sessions (issuance_into IssuanceDone next) False)) sessions (\<lambda>sessions.
     (response, sessions)))))"

definition process_batch_credential ::
  "'a issuer_env \<Rightarrow> issuer_data \<Rightarrow> credential_inputs \<Rightarrow> access_token \<Rightarrow> dpop \<Rightarrow> credential_request list \<Rightarrow> issuance_store
     \<Rightarrow> (credential_response list, credential_request_error) res \<times> issuance_store" where
  "process_batch_credential env self ins access_token dpop credential_requests sessions =
     attempt (ok_or (AccessToken_code access_token) MalformedToken) sessions (\<lambda>code.
     attempt (issuer_get_session env code sessions) sessions (\<lambda>session.
     attempt (Session_process_batch_credential env self ins session credential_requests access_token dpop) sessions (\<lambda>(response, next).
     attempt (map_err CredentialIssuanceError (issuance_write env sessions (issuance_into IssuanceDone next) False)) sessions (\<lambda>sessions.
     (response, sessions)))))"

definition process_reject_issuance ::
  "'a issuer_env \<Rightarrow> issuer_data \<Rightarrow> datetime \<Rightarrow> access_token \<Rightarrow> dpop \<Rightarrow> string \<Rightarrow> issuance_store
     \<Rightarrow> (unit, credential_request_error) res \<times> issuance_store" where
  "process_reject_issuance env self now access_token dpop endpoint_name sessions =
     attempt (ok_or (AccessToken_code access_token) MalformedToken) sessions (\<lambda>code.
     attempt (issuer_get_session env code sessions) sessions (\<lambda>session.
     attempt (check_authorization env (ss_data session) access_token dpop (iss_credential_issuer_identifier self)
       endpoint_name ''DELETE'') sessions (\<lambda>_.
     let next = Issuance_transition now session \<lparr>idn_session_result = IssuanceCancelled\<rparr> in
     attempt (map_err CredentialIssuanceError (issuance_write env sessions (issuance_into IssuanceDone next) False)) sessions (\<lambda>sessions.
     (Ok (), sessions)))))"


section \<open>The store of the issuer\<close>

lemma issuance_sd_simps [simp]:
  "sd_progress issuance_sd = issuance_progress" "sd_is_expired issuance_sd = issuance_is_expired"
  "sd_expire issuance_sd = issuance_expire"
  by (simp_all add: issuance_sd_def)

lemma issuance_sd_laws: "session_data_laws issuance_sd"
proof -
  have "issuance_progress d = Finished False" if "issuance_is_expired d" for d
    using that by (cases d) auto
  then show ?thesis by (simp add: session_data_laws_def issuance_expire_def)
qed

interpretation iv: expiring_session_store "variant_valid issuance_sd pg" "variant_view issuance_sd pg"
  "variant_frozen pg" "pg_storable pg" "store_get issuance_sd pg" "store_write issuance_sd pg" issuance_sd
  "store_cleanup issuance_sd pg" for pg
  by (rule expiring_store_variant [OF issuance_sd_laws])

abbreviation issuer_valid :: "'a issuer_env \<Rightarrow> issuance_store \<Rightarrow> bool" where
  "issuer_valid env \<equiv> variant_valid issuance_sd (ie_postgres env)"

abbreviation issuer_view :: "'a issuer_env \<Rightarrow> issuance_store \<Rightarrow> session_token \<Rightarrow> issuance_data session_state option" where
  "issuer_view env \<equiv> variant_view issuance_sd (ie_postgres env)"

definition issuer_store_faithful :: "'a issuer_env \<Rightarrow> bool" where
  "issuer_store_faithful env \<longleftrightarrow> (\<forall>x. pg_storable (ie_postgres env) x)"

lemma issuance_transition_simps [simp]:
  "ss_token (Issuance_transition now self d) = ss_token self" "ss_data (Issuance_transition now self d) = d"
  "ss_token (Issuance_transition_fail now self e) = ss_token self"
  "ss_data (Issuance_transition_fail now self e) = \<lparr>idn_session_result = IssuanceFailed e\<rparr>"
  "ss_token (issuance_into f x) = ss_token x" "ss_data (issuance_into f x) = f (ss_data x)"
  by (simp_all add: Issuance_transition_def Issuance_transition_fail_def SessionState_new_def issuance_into_def)

section \<open>Runs of the issuer\<close>

datatype 'a issuer_event =
    TokenEvent "'a token_inputs" token_request dpop
  | CredentialEvent credential_inputs access_token dpop credential_request
  | BatchEvent credential_inputs access_token dpop "credential_request list"
  | RejectEvent datetime access_token dpop string
  | IssuerCleanup session_store_timeouts datetime

inductive issuer_step :: "'a issuer_env \<Rightarrow> issuer_data \<Rightarrow> issuance_store \<Rightarrow> 'a issuer_event \<Rightarrow> issuance_store \<Rightarrow> bool"
  for env iss where
  token: "process_token_request env iss ins req dpop s = (r, s') \<Longrightarrow> issuer_step env iss s (TokenEvent ins req dpop) s'"
| credential: "process_credential env iss cins tok dpop creq s = (c, s') \<Longrightarrow>
    issuer_step env iss s (CredentialEvent cins tok dpop creq) s'"
| batch: "process_batch_credential env iss cins tok dpop creqs s = (cs, s') \<Longrightarrow>
    issuer_step env iss s (BatchEvent cins tok dpop creqs) s'"
| reject: "process_reject_issuance env iss now tok dpop endpoint s = (u, s') \<Longrightarrow>
    issuer_step env iss s (RejectEvent now tok dpop endpoint) s'"
| cleanup: "store_cleanup issuance_sd (ie_postgres env) timeouts now s = Ok s' \<Longrightarrow>
    issuer_step env iss s (IssuerCleanup timeouts now) s'"

inductive issuer_run :: "'a issuer_env \<Rightarrow> issuer_data \<Rightarrow> issuance_store \<Rightarrow> 'a issuer_event list \<Rightarrow> issuance_store \<Rightarrow> bool"
  for env iss where
  start: "issuer_run env iss s [] s"
| step: "\<lbrakk>issuer_run env iss s evs s'; issuer_step env iss s' ev s''\<rbrakk> \<Longrightarrow> issuer_run env iss s (evs @ [ev]) s''"

section \<open>What a request does to its session\<close>

lemma WaitingForResponse_try_from_Ok:
  "WaitingForResponse_try_from x = Ok w \<longleftrightarrow> ss_data x = IssuanceWaiting (ss_data w) \<and> ss_token w = ss_token x \<and>
     ss_last_active w = ss_last_active x"
  by (cases "ss_data x"; cases w) (auto simp: WaitingForResponse_try_from_def)

lemma Created_try_from_Ok:
  "Created_try_from x = Ok c \<longleftrightarrow> ss_data x = IssuanceCreated (ss_data c) \<and> ss_token c = ss_token x \<and>
     ss_last_active c = ss_last_active x"
  by (cases "ss_data x"; cases c) (auto simp: Created_try_from_def)

lemma issuer_get_session_Ok:
  assumes "issuer_valid env s"
  shows "issuer_get_session env code s = Ok w \<longleftrightarrow> (\<exists>x. issuer_view env s code = Some x \<and>
    ss_data x = IssuanceWaiting (ss_data w) \<and> ss_token w = code \<and> ss_last_active w = ss_last_active x)"
  using assms vs.view_token [of issuance_sd "ie_postgres env" s code]
  by (auto simp: issuer_get_session_def result_simps vs.get_view WaitingForResponse_try_from_Ok)

lemma end_session:
  assumes f: "issuer_store_faithful env" and v: "issuer_valid env s" and g: "issuer_get_session env code s = Ok w"
    and d: "ss_token d = code"
  obtains s' where "issuance_write env s (issuance_into IssuanceDone d) False = Ok s'" "issuer_valid env s'"
    "issuer_view env s' = (issuer_view env s)(code \<mapsto> issuance_into IssuanceDone d)"
proof -
  let ?x = "issuance_into IssuanceDone d"
  from g [unfolded issuer_get_session_Ok [OF v]] obtain y where y: "issuer_view env s code = Some y"
    "ss_data y = IssuanceWaiting (ss_data w)" by blast
  have "store_get issuance_sd (ie_postgres env) s (ss_token ?x) = Ok (Some y)"
    "\<not> sd_is_expired issuance_sd (ss_data y)" "pg_storable (ie_postgres env) ?x"
    using y d v f by (simp_all add: vs.get_view issuer_store_faithful_def)
  from iv.update_unexpired [OF v this] obtain s' where
    "store_write issuance_sd (ie_postgres env) s ?x False = Ok s'" "issuer_valid env s'"
    "issuer_view env s' = (issuer_view env s)(ss_token ?x \<mapsto> ?x)" .
  with d show thesis by (intro that) simp_all
qed

lemma finish_session_cases:
  "finish_session env ins w r = Ok (r', d) \<longleftrightarrow> r' = r \<and> r \<noteq> Panic \<and> ss_token d = ss_token w \<and>
     d = Issuance_transition (ci_transition ins) w \<lparr>idn_session_result =
       (case r of Ok _ \<Rightarrow> IssuanceSucceeded | Err e \<Rightarrow> IssuanceFailed (credential_error_to_string env e) | Panic \<Rightarrow> IssuanceExpired)\<rparr>"
  by (cases r) (auto simp: finish_session_def Issuance_transition_fail_def)

text \<open>
  A request with an access token leaves the store as it is and does not succeed, or ends the
  session that waits under the code of the token.
\<close>

definition session_ended ::
  "'a issuer_env \<Rightarrow> access_token \<Rightarrow> issuance_store \<Rightarrow> issuance_waiting session_state \<Rightarrow> issuance_store \<Rightarrow> bool" where
  "session_ended env tok s w s' \<longleftrightarrow> AccessToken_code tok = Some (ss_token w) \<and>
     issuer_get_session env (ss_token w) s = Ok w \<and> issuer_valid env s' \<and>
     (\<exists>d. issuer_view env s' = (issuer_view env s)(ss_token w \<mapsto> issuance_into IssuanceDone d))"

lemma token_with_code:
  assumes v: "issuer_valid env s" and e: "attempt (ok_or (AccessToken_code tok) MalformedToken) s (\<lambda>code.
      attempt (issuer_get_session env code s) s k) = (r, s')"
  obtains "s' = s" "\<And>x. r \<noteq> Ok x"
  | w where "AccessToken_code tok = Some (ss_token w)" "issuer_get_session env (ss_token w) s = Ok w" "k w = (r, s')"
proof (cases "AccessToken_code tok")
  case None
  then show thesis using e by (intro that(1)) auto
next
  case (Some code)
  show thesis
  proof (cases "issuer_get_session env code s")
    case (Ok w)
    then have "ss_token w = code" using issuer_get_session_Ok [OF v] by auto
    then show thesis using that(2) [of w] Some Ok e by simp
  next
    case (Err x)
    then show thesis using e Some by (intro that(1)) auto
  next
    case Panic
    then show thesis using e Some by (intro that(1)) auto
  qed
qed


lemma finish_session_ends:
  assumes f: "issuer_store_faithful env" and v: "issuer_valid env s"
    and w: "AccessToken_code tok = Some (ss_token w)" "issuer_get_session env (ss_token w) s = Ok w"
    and e: "attempt (finish_session env ins w res) s (\<lambda>(response, next).
      attempt (map_err CredentialIssuanceError (issuance_write env s (issuance_into IssuanceDone next) False)) s (\<lambda>s.
      (response, s))) = (r, s')"
  obtains "s' = s" "\<And>x. r \<noteq> Ok x" | "session_ended env tok s w s'" "res = r"
proof (cases "finish_session env ins w res")
  case (Ok y)
  obtain r' d where y: "y = (r', d)" by (cases y)
  have d: "r' = res" "ss_token d = ss_token w" using Ok y by (auto simp: finish_session_cases)
  from end_session [OF f v w(2) d(2)] obtain s2 where s2: "issuance_write env s (issuance_into IssuanceDone d) False = Ok s2"
    "issuer_valid env s2" "issuer_view env s2 = (issuer_view env s)(ss_token w \<mapsto> issuance_into IssuanceDone d)" .
  then have "r = res" "s' = s2" using e Ok y d(1) by simp_all
  then show thesis using s2(2,3) w by (intro that(2)) (auto simp: session_ended_def)
next
  case (Err x)
  then show thesis using e by (intro that(1)) auto
next
  case Panic
  then show thesis using e by (intro that(1)) auto
qed

lemma process_credential_ends:
  assumes f: "issuer_store_faithful env" and v: "issuer_valid env s"
    and e: "process_credential env iss ins tok dpop req s = (r, s')"
  obtains "s' = s" "\<And>x. r \<noteq> Ok x"
  | w where "session_ended env tok s w s'" "process_credential_inner env iss ins (ss_data w) req tok dpop = r"
proof (rule token_with_code [OF v e [unfolded process_credential_def]])
  fix w assume w: "AccessToken_code tok = Some (ss_token w)" "issuer_get_session env (ss_token w) s = Ok w"
    and k: "attempt (Session_process_credential env iss ins w req tok dpop) s (\<lambda>(response, next).
      attempt (map_err CredentialIssuanceError (issuance_write env s (issuance_into IssuanceDone next) False)) s (\<lambda>sessions.
      (response, sessions))) = (r, s')"
  show thesis by (rule finish_session_ends [OF f v w k [unfolded Session_process_credential_def]]) (use that in blast)+
qed (use that in blast)

lemma process_batch_credential_ends:
  assumes f: "issuer_store_faithful env" and v: "issuer_valid env s"
    and e: "process_batch_credential env iss ins tok dpop reqs s = (r, s')"
  obtains "s' = s" "\<And>x. r \<noteq> Ok x"
  | w where "session_ended env tok s w s'" "process_batch_credential_inner env iss ins (ss_data w) reqs tok dpop = r"
proof (rule token_with_code [OF v e [unfolded process_batch_credential_def]])
  fix w assume w: "AccessToken_code tok = Some (ss_token w)" "issuer_get_session env (ss_token w) s = Ok w"
    and k: "attempt (Session_process_batch_credential env iss ins w reqs tok dpop) s (\<lambda>(response, next).
      attempt (map_err CredentialIssuanceError (issuance_write env s (issuance_into IssuanceDone next) False)) s (\<lambda>sessions.
      (response, sessions))) = (r, s')"
  show thesis by (rule finish_session_ends [OF f v w k [unfolded Session_process_batch_credential_def]]) (use that in blast)+
qed (use that in blast)

lemma process_reject_issuance_ends:
  assumes f: "issuer_store_faithful env" and v: "issuer_valid env s"
    and e: "process_reject_issuance env iss now tok dpop endpoint s = (r, s')"
  obtains "s' = s" "\<And>x. r \<noteq> Ok x"
  | w where "session_ended env tok s w s'"
    "check_authorization env (ss_data w) tok dpop (iss_credential_issuer_identifier iss) endpoint ''DELETE'' = Ok ()"
proof (rule token_with_code [OF v e [unfolded process_reject_issuance_def Let_def]])
  fix w :: "issuance_waiting session_state"
  let ?d = "Issuance_transition now w \<lparr>idn_session_result = IssuanceCancelled\<rparr>"
  let ?check = "check_authorization env (ss_data w) tok dpop (iss_credential_issuer_identifier iss) endpoint ''DELETE''"
  assume w: "AccessToken_code tok = Some (ss_token w)" "issuer_get_session env (ss_token w) s = Ok w"
    and k: "attempt ?check s (\<lambda>_.
      attempt (map_err CredentialIssuanceError (issuance_write env s (issuance_into IssuanceDone ?d) False)) s (\<lambda>sessions.
      (Ok (), sessions))) = (r, s')"
  have "ss_token ?d = ss_token w" by simp
  from end_session [OF f v w(2) this] obtain s2 where s2: "issuance_write env s (issuance_into IssuanceDone ?d) False = Ok s2"
    "issuer_valid env s2" "issuer_view env s2 = (issuer_view env s)(ss_token w \<mapsto> issuance_into IssuanceDone ?d)" .
  show thesis
  proof (cases ?check)
    case (Ok u)
    then have "s' = s2" using k s2(1) by simp
    then show thesis using s2(2,3) w Ok by (intro that(2) [of w]) (auto simp: session_ended_def)
  next
    case (Err x)
    then show thesis using k by (intro that(1)) auto
  next
    case Panic
    then show thesis using k by (intro that(1)) auto
  qed
qed (use that in blast)


text \<open>
  A session that a token request opened: the request had a pre-authorized code and a proof for the key of
  the session, and the session offers what the attribute service answered.
\<close>

definition session_opened ::
  "'a issuer_env \<Rightarrow> issuer_data \<Rightarrow> 'a token_inputs \<Rightarrow> token_request \<Rightarrow> dpop \<Rightarrow> issuance_waiting \<Rightarrow> bool" where
  "session_opened env iss ins req dpop w \<longleftrightarrow> (\<exists>code url session. tr_grant_type req = PreAuthorizedCode code \<and>
     joined_url (ie_urls env) (iss_credential_issuer_identifier iss) ''token'' = Some url \<and>
     Dpop_verify (ie_crypto env) (ie_jose env) dpop url ''POST'' None = Ok (iw_dpop_public_key w) \<and>
     ti_attributes ins session req = Ok (iw_attestation_previews w) \<and>
     iw_access_token w = AccessToken_new (ti_access_random ins) code \<and> iw_c_nonce w = ti_c_nonce ins \<and>
     iw_dpop_nonce w = ti_dpop_nonce ins)"

definition token_answer :: "issuance_waiting \<Rightarrow> token_response_with_previews \<times> string" where
  "token_answer w = (\<lparr>tp_token_response = TokenResponse_new (iw_access_token w) (iw_c_nonce w),
     tp_attestation_previews = iw_attestation_previews w\<rparr>, iw_dpop_nonce w)"

lemma process_token_request_inner_Ok:
  "process_token_request_inner env ins self req dpop server_url = Ok (resp, pk, nonce) \<longleftrightarrow>
     (\<exists>code url previews. tr_grant_type req = PreAuthorizedCode code \<and> joined_url (ie_urls env) server_url ''token'' = Some url \<and>
        Dpop_verify (ie_crypto env) (ie_jose env) dpop url ''POST'' None = Ok pk \<and>
        ti_attributes ins self req = Ok previews \<and> nonce = ti_dpop_nonce ins \<and>
        resp = \<lparr>tp_token_response = TokenResponse_new (AccessToken_new (ti_access_random ins) code) (ti_c_nonce ins),
          tp_attestation_previews = previews\<rparr>)"
  by (cases "tr_grant_type req") (auto simp: process_token_request_inner_def BaseUrl_join_joined Let_def result_simps TokenRequest_code_def)

lemma Session_process_token_request_Ok:
  assumes "Session_process_token_request env ins c req dpop (iss_credential_issuer_identifier iss) = Ok (resp, nonce, next)"
  obtains w where "next = Issuance_transition (ti_transition ins) c w" "session_opened env iss ins req dpop w"
    "token_answer w = (resp, nonce)"
proof -
  from assms obtain r pk n cn where i: "process_token_request_inner env ins c req dpop (iss_credential_issuer_identifier iss) = Ok (r, pk, n)"
    and n: "tk_c_nonce (tp_token_response r) = Some cn" "resp = r" "nonce = n"
      "next = Issuance_transition (ti_transition ins) c
         \<lparr>iw_access_token = tk_access_token (tp_token_response r), iw_c_nonce = cn,
          iw_attestation_previews = tp_attestation_previews r, iw_dpop_public_key = pk, iw_dpop_nonce = n\<rparr>"
    by (auto simp: Session_process_token_request_def result_simps Let_def split: res.splits)
  from i [unfolded process_token_request_inner_Ok] n show thesis
    by (intro that [of "\<lparr>iw_access_token = tk_access_token (tp_token_response r), iw_c_nonce = cn,
          iw_attestation_previews = tp_attestation_previews r, iw_dpop_public_key = pk, iw_dpop_nonce = n\<rparr>"])
      (auto simp: session_opened_def token_answer_def TokenResponse_new_def)
qed

text \<open>A new session is stored, or nothing is.\<close>

lemma process_token_request_cases:
  assumes f: "issuer_store_faithful env" and v: "issuer_valid env s"
    and e: "process_token_request env iss ins req dpop s = (r, s')"
  obtains (refused) "s' = s" "\<And>y. r \<noteq> Ok y"
  | (failed) x d where "issuer_view env s (TokenRequest_code req) = None" "issuer_valid env s'"
    "issuer_view env s' = (issuer_view env s)(TokenRequest_code req \<mapsto> x)" "ss_data x = IssuanceDone d" "\<And>y. r \<noteq> Ok y"
  | (opened) x w where "issuer_view env s (TokenRequest_code req) = None" "issuer_valid env s'"
    "issuer_view env s' = (issuer_view env s)(TokenRequest_code req \<mapsto> x)" "ss_data x = IssuanceWaiting w"
    "session_opened env iss ins req dpop w" "r = Ok (token_answer w)"
proof -
  let ?code = "TokenRequest_code req"
  let ?new = "SessionState_new (ti_created ins) ?code (IssuanceCreated \<lparr>ic_attestation_previews = None\<rparr>)"
  define session where "session = (case issuer_view env s ?code of Some x \<Rightarrow> x | None \<Rightarrow> ?new)"
  have token: "ss_token session = ?code"
    using vs.view_token [of issuance_sd "ie_postgres env" s ?code]
    by (auto simp: session_def SessionState_new_def split: option.splits)
  let ?result = "\<lambda>c. Session_process_token_request env ins c req dpop (iss_credential_issuer_identifier iss)"
  define answer where "answer c = (case ?result c of
          Ok (response, dpop_nonce, next) \<Rightarrow> Ok (Ok (response, dpop_nonce), issuance_into IssuanceWaiting next)
        | Err (err, next) \<Rightarrow> Ok (Err err, issuance_into IssuanceDone next)
        | Panic \<Rightarrow> (Panic :: (_, 'a token_request_error) res))" for c
  let ?put = "\<lambda>(response, next).
      attempt (map_err TokenIssuanceError (issuance_write env s next True)) s (\<lambda>sessions. (response, sessions))"
  have e: "attempt (map_err TokenIssuanceError (Created_try_from session)) s (\<lambda>c. attempt (answer c) s ?put) = (r, s')"
    using e v unfolding process_token_request_def Let_def session_def answer_def by (simp add: vs.get_view)
  show thesis
  proof (cases "Created_try_from session")
    case (Ok c)
    then have c: "ss_token c = ?code" using token by (simp add: Created_try_from_Ok)
    have e: "attempt (answer c) s ?put = (r, s')" using e Ok by simp
    have stored: thesis if a: "answer c = Ok (resp, x)" and t: "ss_token x = ?code"
      and cases: "(\<exists>d. ss_data x = IssuanceDone d) \<and> (\<forall>y. resp \<noteq> Ok y) \<or>
        (\<exists>w. ss_data x = IssuanceWaiting w \<and> session_opened env iss ins req dpop w \<and> resp = Ok (token_answer w))" for resp x
    proof (cases "store_write issuance_sd (ie_postgres env) s x True")
      case (Ok s2)
      have "pg_storable (ie_postgres env) x" using f by (simp add: issuer_store_faithful_def)
      note iv.create_view [OF v this Ok]
      moreover have "r = resp" "s' = s2" using e a Ok by simp_all
      ultimately show thesis using cases failed opened t by metis
    qed (use e a refused in auto)
    show thesis
    proof (cases "?result c")
      case (Ok y)
      obtain resp nonce nxt where y: "y = (resp, nonce, nxt)" by (cases y)
      show thesis by (rule Session_process_token_request_Ok [OF Ok [unfolded y]], rule stored) (auto simp: answer_def Ok y c)
    next
      case (Err y)
      obtain err nxt where y: "y = (err, nxt)" by (cases y)
      have "ss_token nxt = ?code" using Err y c
        by (auto simp: Session_process_token_request_def res_bind_eq_Err Let_def split: res.splits prod.splits)
      then show thesis using stored [of "Err err" "issuance_into IssuanceDone nxt"] Err y by (simp add: answer_def)
    qed (use e refused in \<open>auto simp: answer_def\<close>)
  qed (use e refused in auto)
qed


section \<open>What a run of the issuer keeps\<close>

text \<open>A step leaves a session as it is, ends it, or opens it for a token request.\<close>

lemma ended_view:
  assumes "session_ended env tok s w s'" "issuer_view env s' t = Some y"
  shows "issuer_view env s t = Some y \<or> (\<exists>d. ss_data y = IssuanceDone d)"
  using assms by (auto simp: session_ended_def split: if_splits)

lemma session_ended_valid: "session_ended env tok s w s' \<Longrightarrow> issuer_valid env s'"
  by (simp add: session_ended_def)

lemma issuer_step_view:
  assumes f: "issuer_store_faithful env" and v: "issuer_valid env s" and st: "issuer_step env iss s ev s'"
  shows "issuer_valid env s' \<and> (issuer_view env s' t = Some y \<longrightarrow> issuer_view env s t = Some y \<or>
    (\<exists>d. ss_data y = IssuanceDone d) \<or> (\<exists>ins req dpop w. ev = TokenEvent ins req dpop \<and> TokenRequest_code req = t \<and>
      ss_data y = IssuanceWaiting w \<and> session_opened env iss ins req dpop w))"
  using st
proof cases
  case (token ins req dpop r)
  show ?thesis by (rule process_token_request_cases [OF f v token(2)]) (auto simp: token(1) v)
next
  case (credential ins tok dpop req r)
  show ?thesis by (rule process_credential_ends [OF f v credential(2)])
    (use v ended_view session_ended_valid in blast)+
next
  case (batch ins tok dpop reqs r)
  show ?thesis by (rule process_batch_credential_ends [OF f v batch(2)])
    (use v ended_view session_ended_valid in blast)+
next
  case (reject now tok dpop endpoint r)
  show ?thesis by (rule process_reject_issuance_ends [OF f v reject(2)])
    (use v ended_view session_ended_valid in blast)+
next
  case (cleanup timeouts now)
  then show ?thesis using iv.clean_valid [OF v cleanup(2)] iv.clean_view [OF v cleanup(2), of t y]
    by (auto simp: issuance_expire_def)
qed

definition session_traced_to ::
  "'a issuer_env \<Rightarrow> issuer_data \<Rightarrow> 'a issuer_event list \<Rightarrow> session_token \<Rightarrow> issuance_data \<Rightarrow> bool" where
  "session_traced_to env iss evs t data = (case data of
     IssuanceCreated _ \<Rightarrow> False
   | IssuanceWaiting w \<Rightarrow> \<exists>ins req dpop. TokenEvent ins req dpop \<in> set evs \<and> TokenRequest_code req = t \<and>
       session_opened env iss ins req dpop w
   | IssuanceDone _ \<Rightarrow> True)"

lemma issuer_run_traced:
  assumes "issuer_run env iss s0 evs s" and f: "issuer_store_faithful env"
    and v: "issuer_valid env s0" "issuer_view env s0 = (\<lambda>_. None)"
  shows "issuer_valid env s \<and> (\<forall>t y. issuer_view env s t = Some y \<longrightarrow> session_traced_to env iss evs t (ss_data y))"
  using assms(1,3,4)
proof induction
  case (step s evs s' ev s'')
  then have s': "issuer_valid env s'" "\<And>t y. issuer_view env s' t = Some y \<Longrightarrow> session_traced_to env iss evs t (ss_data y)" by auto
  have "session_traced_to env iss (evs @ [ev]) t (ss_data y)" if y: "issuer_view env s'' t = Some y" for t y
    using issuer_step_view [OF f s'(1) step.hyps(2), of t y] y s'(2) [of t y]
    by (fastforce simp: session_traced_to_def split: issuance_data.splits)
  then show ?case using issuer_step_view [OF f s'(1) step.hyps(2)] by blast
qed simp

text \<open>A session that has ended or is unknown stays so until a token request for its code.\<close>

lemma issuer_run_closed:
  assumes "issuer_run env iss s evs s'" and f: "issuer_store_faithful env" and v: "issuer_valid env s"
    and closed: "\<And>y. issuer_view env s t = Some y \<Longrightarrow> \<exists>d. ss_data y = IssuanceDone d"
    and evs: "\<And>ins req dpop. TokenEvent ins req dpop \<in> set evs \<Longrightarrow> TokenRequest_code req \<noteq> t"
  shows "issuer_valid env s' \<and> (\<forall>y. issuer_view env s' t = Some y \<longrightarrow> (\<exists>d. ss_data y = IssuanceDone d))"
  using assms(1,3,4,5)
proof induction
  case (step s evs s' ev s'')
  then have s': "issuer_valid env s'" "\<And>y. issuer_view env s' t = Some y \<Longrightarrow> \<exists>d. ss_data y = IssuanceDone d" by auto
  show ?case using issuer_step_view [OF f s'(1) step.hyps(2), of t] s'(2) step.prems(3) by fastforce
qed simp

lemma closed_get_session:
  assumes "issuer_valid env s" "\<forall>y. issuer_view env s t = Some y \<longrightarrow> (\<exists>d. ss_data y = IssuanceDone d)"
  shows "issuer_get_session env t s \<noteq> Ok w"
  using assms by (auto simp: issuer_get_session_Ok)


section \<open>Facts about issued credentials\<close>

lemma CredentialRequestProof_verify_Ok:
  assumes "CredentialRequestProof_verify env (ProofJwt jwt) nonce ids identifier = Ok pk"
  obtains h p where "jo_decode_pop (ie_jose env) jwt pk
      \<lparr>jv_required_spec_claims = [], jv_iss = Some ids, jv_aud = Some [identifier]\<rparr> = Some (h, p)" "pj_nonce p = Some nonce"
  using assms by (auto simp: CredentialRequestProof_verify_def Let_def result_simps split: if_splits)

lemma verify_pop_and_sign_attestation_Ok:
  "verify_pop_and_sign_attestation env iss random now nonce req u = Ok resp \<longleftrightarrow>
     (\<exists>proof pk ck kp s. crq_format req = MsoMdoc \<and> crq_doctype req = Some (um_doc_type u) \<and> crq_proof req = Some proof \<and>
        CredentialRequestProof_verify env proof nonce (iss_accepted_wallet_client_ids iss) (iss_credential_issuer_identifier iss) = Ok pk \<and>
        CoseKey_try_from (ie_crypto env) pk = Ok ck \<and> iss_private_keys iss (um_doc_type u) = Some kp \<and>
        IssuerSigned_sign (ie_mdoc env) random now u ck kp = Ok s \<and> resp = RespMsoMdoc s)"
  by (auto simp: verify_pop_and_sign_attestation_def result_simps)

lemma select_offer_Ok: "select_offer w req = Ok u \<Longrightarrow> u \<in> preview_unsigned ` set (iw_attestation_previews w)"
  by (cases "iw_attestation_previews w")
    (auto simp: select_offer_def Let_def length_Suc_conv filter_eq_Cons_iff map_eq_append_conv split: option.splits if_splits)

text \<open>
  A credential for a request within a session: it is signed with the key of the issuer for one
  of the offered attestations, and bound to a key whose holder signed the nonce of the session.
\<close>

definition credential_issued ::
  "'a issuer_env \<Rightarrow> issuer_data \<Rightarrow> issuance_waiting \<Rightarrow> credential_request \<Rightarrow> credential_response \<Rightarrow> bool" where
  "credential_issued env iss w req resp \<longleftrightarrow> (\<exists>preview jwt pk h p ck kp random now s.
     preview \<in> set (iw_attestation_previews w) \<and> crq_doctype req = Some (um_doc_type (preview_unsigned preview)) \<and>
     crq_proof req = Some (ProofJwt jwt) \<and>
     jo_decode_pop (ie_jose env) jwt pk \<lparr>jv_required_spec_claims = [], jv_iss = Some (iss_accepted_wallet_client_ids iss),
       jv_aud = Some [iss_credential_issuer_identifier iss]\<rparr> = Some (h, p) \<and> pj_nonce p = Some (iw_c_nonce w) \<and>
     CoseKey_try_from (ie_crypto env) pk = Ok ck \<and> iss_private_keys iss (um_doc_type (preview_unsigned preview)) = Some kp \<and>
     IssuerSigned_sign (ie_mdoc env) random now (preview_unsigned preview) ck kp = Ok s \<and> resp = RespMsoMdoc s)"

lemma verify_pop_issued:
  assumes "verify_pop_and_sign_attestation env iss random now (iw_c_nonce w) req u = Ok resp"
    and "u \<in> preview_unsigned ` set (iw_attestation_previews w)"
  shows "credential_issued env iss w req resp"
proof -
  from assms(1)[unfolded verify_pop_and_sign_attestation_Ok] obtain pr pk ck kp s where
    r: "crq_doctype req = Some (um_doc_type u)" "crq_proof req = Some pr"
      "CredentialRequestProof_verify env pr (iw_c_nonce w) (iss_accepted_wallet_client_ids iss) (iss_credential_issuer_identifier iss) = Ok pk"
      "CoseKey_try_from (ie_crypto env) pk = Ok ck" "iss_private_keys iss (um_doc_type u) = Some kp"
      "IssuerSigned_sign (ie_mdoc env) random now u ck kp = Ok s" "resp = RespMsoMdoc s" by blast
  obtain jwt where p: "pr = ProofJwt jwt" by (cases pr)
  obtain h q where q: "jo_decode_pop (ie_jose env) jwt pk \<lparr>jv_required_spec_claims = [],
      jv_iss = Some (iss_accepted_wallet_client_ids iss), jv_aud = Some [iss_credential_issuer_identifier iss]\<rparr> = Some (h, q)"
    "pj_nonce q = Some (iw_c_nonce w)" by (rule CredentialRequestProof_verify_Ok [OF r(3) [unfolded p]])
  from assms(2) obtain preview where u: "preview \<in> set (iw_attestation_previews w)" "u = preview_unsigned preview" by blast
  show ?thesis unfolding credential_issued_def
    by (rule exI [of _ preview], rule exI [of _ jwt], rule exI [of _ pk], rule exI [of _ h], rule exI [of _ q],
        rule exI [of _ ck], rule exI [of _ kp], rule exI [of _ random], rule exI [of _ now], rule exI [of _ s])
      (use r p q u in simp)
qed

lemma check_authorization_Ok:
  "check_authorization env w tok dpop base endpoint method = Ok () \<longleftrightarrow> iw_access_token w = tok \<and>
     (\<exists>url. joined_url (ie_urls env) base endpoint = Some url \<and>
        Dpop_verify_expecting_key (ie_crypto env) (ie_jose env) dpop (iw_dpop_public_key w) url method (Some tok)
          (Some (iw_dpop_nonce w)) = Ok ())"
  by (auto simp: check_authorization_def BaseUrl_join_joined result_simps)

lemma process_credential_inner_Ok:
  assumes "process_credential_inner env iss ins w req tok dpop = Ok resp"
  shows "check_authorization env w tok dpop (iss_server_url iss) ''credential'' ''POST'' = Ok ()"
    "credential_issued env iss w req resp"
  using assms by (auto simp: process_credential_inner_def result_simps dest: select_offer_Ok intro: verify_pop_issued)

lemma process_batch_credential_inner_Ok:
  assumes r: "process_batch_credential_inner env iss ins w reqs tok dpop = Ok resps"
  shows "check_authorization env w tok dpop (iss_server_url iss) ''batch_credential'' ''POST'' = Ok ()"
    "(req, resp) \<in> set (zip reqs resps) \<Longrightarrow> credential_issued env iss w req resp"
proof -
  let ?offers = "concat (map (\<lambda>preview. replicate (copy_count preview) (preview_unsigned preview)) (iw_attestation_previews w))"
  let ?sign = "\<lambda>(i, cred_req, unsigned_doc). verify_pop_and_sign_attestation env iss (ci_random ins i) (ci_signed ins i)
    (iw_c_nonce w) cred_req unsigned_doc"
  from r show "check_authorization env w tok dpop (iss_server_url iss) ''batch_credential'' ''POST'' = Ok ()"
    by (auto simp: process_batch_credential_inner_def result_simps)
  from r have m: "res_map ?sign (List.enumerate 0 (zip reqs ?offers)) = Ok resps"
    by (auto simp: process_batch_credential_inner_def result_simps)
  assume "(req, resp) \<in> set (zip reqs resps)"
  then obtain i where i: "i < length reqs" "i < length resps" "req = reqs ! i" "resp = resps ! i" by (auto simp: set_zip)
  then have l: "i < length (zip reqs ?offers)" using res_map_length [OF m] by simp
  then have "verify_pop_and_sign_attestation env iss (ci_random ins i) (ci_signed ins i) (iw_c_nonce w) (reqs ! i) (?offers ! i) =
      Ok (resps ! i)"
    using res_map_Ok_nth [OF m, of i] by (simp add: nth_enumerate_eq)
  moreover have "?offers ! i \<in> preview_unsigned ` set (iw_attestation_previews w)"
    using l nth_mem [of i ?offers] by auto
  ultimately show "credential_issued env iss w req resp" unfolding i(3,4) by (rule verify_pop_issued)
qed


section \<open>Requests that are in order\<close>

lemma token_request_opens:
  assumes f: "issuer_store_faithful env" and v: "issuer_valid env s" and new: "issuer_view env s code = None"
    and grant: "tr_grant_type req = PreAuthorizedCode code"
    and url: "joined_url (ie_urls env) (iss_credential_issuer_identifier iss) ''token'' = Some url"
    and dpop: "Dpop_verify (ie_crypto env) (ie_jose env) dpop url ''POST'' None = Ok pk"
    and attrs: "ti_attributes ins (SessionState_new (ti_created ins) code \<lparr>ic_attestation_previews = None\<rparr>) req = Ok previews"
    and w: "w = \<lparr>iw_access_token = AccessToken_new (ti_access_random ins) code, iw_c_nonce = ti_c_nonce ins,
      iw_attestation_previews = previews, iw_dpop_public_key = pk, iw_dpop_nonce = ti_dpop_nonce ins\<rparr>"
  obtains s' where "process_token_request env iss ins req dpop s = (Ok (token_answer w), s')" "issuer_valid env s'"
    "issuer_view env s' = (issuer_view env s)(code \<mapsto> SessionState_new (ti_transition ins) code (IssuanceWaiting w))"
proof -
  let ?c = "SessionState_new (ti_created ins) code \<lparr>ic_attestation_previews = None\<rparr>"
  let ?x = "SessionState_new (ti_transition ins) code (IssuanceWaiting w)"
  have code: "TokenRequest_code req = code" using grant by (simp add: TokenRequest_code_def)
  have inner: "process_token_request_inner env ins ?c req dpop (iss_credential_issuer_identifier iss) =
      Ok (fst (token_answer w), pk, ti_dpop_nonce ins)"
    using grant url dpop attrs by (simp add: process_token_request_inner_Ok token_answer_def w)
  have nxt: "Session_process_token_request env ins ?c req dpop (iss_credential_issuer_identifier iss) =
      Ok (fst (token_answer w), ti_dpop_nonce ins, SessionState_new (ti_transition ins) code w)"
    unfolding Session_process_token_request_def inner
    by (simp add: token_answer_def TokenResponse_new_def w Issuance_transition_def SessionState_new_def)
  have "pg_storable (ie_postgres env) ?x" "issuer_view env s (ss_token ?x) = None"
    using f new by (simp_all add: issuer_store_faithful_def SessionState_new_def)
  from vs.write_absent [OF v this, of True] obtain s' where s': "store_write issuance_sd (ie_postgres env) s ?x True = Ok s'"
    "issuer_valid env s'" "issuer_view env s' = (issuer_view env s)(code \<mapsto> ?x)" by (auto simp: SessionState_new_def)
  have "process_token_request env iss ins req dpop s = (Ok (token_answer w), s')"
    using v new code nxt s'(1)
    by (simp add: process_token_request_def vs.get_view Created_try_from_def issuance_into_def token_answer_def w SessionState_new_def)
  then show thesis using s'(2,3) by (rule that)
qed

lemma batch_request_answered:
  assumes f: "issuer_store_faithful env" and v: "issuer_valid env s"
    and x: "issuer_view env s code = Some x" "ss_data x = IssuanceWaiting w" and code: "AccessToken_code tok = Some code"
    and inner: "process_batch_credential_inner env iss ins w reqs tok dpop = Ok resps"
  obtains s' where "process_batch_credential env iss ins tok dpop reqs s = (Ok resps, s')" "issuer_valid env s'"
    "issuer_view env s' = (issuer_view env s)(code \<mapsto>
       SessionState_new (ci_transition ins) code (IssuanceDone \<lparr>idn_session_result = IssuanceSucceeded\<rparr>))"
proof -
  let ?w = "\<lparr>ss_data = w, ss_token = code, ss_last_active = ss_last_active x\<rparr>"
  let ?d = "Issuance_transition (ci_transition ins) ?w \<lparr>idn_session_result = IssuanceSucceeded\<rparr>"
  have g: "issuer_get_session env code s = Ok ?w" using x by (simp add: issuer_get_session_Ok [OF v])
  have d: "ss_token ?d = code" by simp
  from end_session [OF f v g d] obtain s' where s': "issuance_write env s (issuance_into IssuanceDone ?d) False = Ok s'"
    "issuer_valid env s'" "issuer_view env s' = (issuer_view env s)(code \<mapsto> issuance_into IssuanceDone ?d)" .
  have "process_batch_credential env iss ins tok dpop reqs s = (Ok resps, s')"
    using code g inner s'(1) by (simp add: process_batch_credential_def Session_process_batch_credential_def finish_session_def)
  moreover have "issuance_into IssuanceDone ?d =
      SessionState_new (ci_transition ins) code (IssuanceDone \<lparr>idn_session_result = IssuanceSucceeded\<rparr>)"
    by (simp add: issuance_into_def Issuance_transition_def SessionState_new_def)
  ultimately show thesis using s'(2,3) by (intro that) simp_all
qed

lemma CredentialRequestProof_verifies:
  assumes jo: "jose_ok (ie_crypto env) (ie_jose env)"
    and h: "jwk_jwt_header (ie_crypto env) (ie_jose env) OPENID4VCI_VC_POP_JWT_TYPE (Some pub) = Ok h"
      "curve_point (ie_crypto env) pub"
    and t: "token_signed (ie_crypto env) (ie_jose env) (jo_pop_to_json (ie_jose env)) pub p h jwt"
    and p: "pj_nonce p = Some nonce" "pj_iss p \<in> set ids" "pj_aud p = identifier"
  shows "CredentialRequestProof_verify env (ProofJwt jwt) nonce ids identifier = Ok pub"
proof -
  obtain jwk where jwk: "h = \<lparr>hd_typ = Some OPENID4VCI_VC_POP_JWT_TYPE, hd_alg = ES256, hd_jwk = Some jwk\<rparr>"
    "jwk_to_p256 (ie_crypto env) (ie_jose env) jwk = Ok pub"
    by (rule jwk_jwt_header_Ok [OF jo h(2), of OPENID4VCI_VC_POP_JWT_TYPE]) (use h(1) in simp)
  from t obtain hj pj sig where j: "jo_header_to_json (ie_jose env) h = Some hj" "jo_pop_to_json (ie_jose env) p = Some pj"
    "jwt = jws (ie_jose env) hj pj sig" "jws_verifies (ie_crypto env) (ie_jose env) pub hj pj sig"
    by (auto simp: token_signed_def)
  have es: "hd_alg h = ES256" by (simp add: jwk)
  have aud: "pj_aud p \<in> set [identifier]" by (simp add: p)
  have "jo_decode_header (ie_jose env) jwt = Some h" unfolding j(3) by (rule jose_okD(5) [OF jo j(1)])
  moreover have "jo_decode_pop (ie_jose env) jwt pub \<lparr>jv_required_spec_claims = [], jv_iss = Some ids, jv_aud = Some [identifier]\<rparr> =
      Some (h, p\<lparr>pj_iat := whole_seconds (pj_iat p)\<rparr>)"
    unfolding j(3) by (rule jose_okD(7) [OF jo j(1) es j(2,4) p(2) aud])
  ultimately show ?thesis using jwk p(1) by (simp add: CredentialRequestProof_verify_def)
qed

section \<open>An issuer for examples\<close>

instance unsigned_mdoc_ext :: (countable) countable
  by (rule countable_by [of "\<lambda>r. (um_doc_type r, um_valid_from r, um_valid_until r, um_attributes r, um_copy_count r,
      unsigned_mdoc.more r)"]) simp

instance attestation_preview :: countable
  by countable_datatype

instance issuance_created_ext :: (countable) countable
  by (rule countable_by [of "\<lambda>r. (ic_attestation_previews r, issuance_created.more r)"]) simp

instance issuance_waiting_ext :: (countable) countable
  by (rule countable_by [of "\<lambda>r. (iw_access_token r, iw_c_nonce r, iw_attestation_previews r, iw_dpop_public_key r,
      iw_dpop_nonce r, issuance_waiting.more r)"]) simp

instance issuance_result :: countable
  by countable_datatype

instance issuance_done_ext :: (countable) countable
  by (rule countable_by [of "\<lambda>r. (idn_session_result r, issuance_done.more r)"]) simp

instance issuance_data :: countable
  by countable_datatype

definition demo_issuer_env :: "unit issuer_env" where
  "demo_issuer_env = \<lparr>ie_mdoc = demo_mdoc_env, ie_jose = demo_jose demo_crypto, ie_urls = demo_urls,
     ie_postgres = \<lparr>pg_refused = False, pg_to_value = Some \<circ> text_encode, pg_from_value = Some \<circ> text_decode,
       pg_time = (\<lambda>t. t), pg_type = ''openid4vci_issuance''\<rparr>,
     token_error_to_string = (\<lambda>_. []), credential_error_to_string = (\<lambda>_. [])\<rparr>"

definition demo_issuer_data :: issuer_data where
  "demo_issuer_data = \<lparr>iss_private_keys = (\<lambda>d. if d = ''pid'' then Some demo_issuer else None),
     iss_credential_issuer_identifier = ''i/'', iss_accepted_wallet_client_ids = [NL_WALLET_CLIENT_ID], iss_server_url = ''i/''\<rparr>"

definition demo_dpop_key :: ecdsa_key where
  "demo_dpop_key = \<lparr>key_verifying = Some (replicate 64 2), key_sign = (\<lambda>m. Some (replicate 64 2 @ m))\<rparr>"

definition demo_token_request :: token_request where
  "demo_token_request = \<lparr>tr_grant_type = PreAuthorizedCode ''code'', tr_code_verifier = None, tr_client_id = None,
     tr_redirect_uri = None\<rparr>"

definition demo_preview :: attestation_preview where
  "demo_preview = PreviewMsoMdoc demo_unsigned [9]"

definition demo_token_inputs :: "unit token_inputs" where
  "demo_token_inputs = \<lparr>ti_created = 0, ti_attributes = (\<lambda>_ _. Ok [demo_preview]), ti_access_random = replicate 32 CHR ''r'',
     ti_c_nonce = ''c'', ti_dpop_nonce = ''d'', ti_transition = 0\<rparr>"

definition demo_access_token :: access_token where
  "demo_access_token = replicate 32 CHR ''r'' @ ''code''"

definition demo_waiting :: issuance_waiting where
  "demo_waiting = \<lparr>iw_access_token = demo_access_token, iw_c_nonce = ''c'', iw_attestation_previews = [demo_preview],
     iw_dpop_public_key = replicate 64 2, iw_dpop_nonce = ''d''\<rparr>"

definition demo_credential_inputs :: credential_inputs where
  "demo_credential_inputs = \<lparr>ci_random = (\<lambda>_ _ _. replicate 32 0), ci_signed = (\<lambda>_. 0), ci_transition = 0\<rparr>"

lemma demo_issuer_env_simps [simp]:
  "ie_mdoc demo_issuer_env = demo_mdoc_env" "ie_jose demo_issuer_env = demo_jose demo_crypto" "ie_urls demo_issuer_env = demo_urls"
  "me_crypto demo_mdoc_env = demo_crypto"
  by (simp_all add: demo_issuer_env_def demo_mdoc_env_def)

lemma demo_issuer_store:
  "issuer_store_faithful demo_issuer_env" "issuer_valid demo_issuer_env (Memory Map.empty)"
  "issuer_view demo_issuer_env (Memory Map.empty) = (\<lambda>_. None)"
  by (simp_all add: issuer_store_faithful_def pg_storable_def demo_issuer_env_def memory_valid_def memory_view_def)

lemma demo_working_key: "working_key demo_crypto demo_dpop_key (replicate 64 2)"
  by (simp add: working_key_def demo_dpop_key_def curve_point_def demo_crypto_def p256_key_pair_def flip: replicate_add)

lemma demo_access_token_code: "AccessToken_code demo_access_token = Some ''code''"
  using access_token_code [of "replicate 32 CHR ''r''" "''code''"]
  by (simp add: demo_access_token_def AccessToken_new_def utf8_start_def)

lemma demo_token_request_opens:
  obtains dpop s where "process_token_request demo_issuer_env demo_issuer_data demo_token_inputs demo_token_request dpop (Memory Map.empty) =
      (Ok (token_answer demo_waiting), s)" "issuer_valid demo_issuer_env s"
    "issuer_view demo_issuer_env s = [''code'' \<mapsto> SessionState_new 0 ''code'' (IssuanceWaiting demo_waiting)]"
proof -
  obtain dpop where d: "Dpop_verify demo_crypto (demo_jose demo_crypto) dpop ''i/token'' ''POST'' None = Ok (replicate 64 2)"
    by (rule Dpop_new_verifies [OF demo_jose_ok demo_working_key, of _ _ "''i/token''" "''POST''" None None]) auto
  have u: "joined_url (ie_urls demo_issuer_env) (iss_credential_issuer_identifier demo_issuer_data) ''token'' = Some ''i/token''"
    by (simp add: joined_url_def demo_urls_def demo_issuer_data_def)
  have v: "issuer_view demo_issuer_env (Memory Map.empty) ''code'' = None" by (simp only: demo_issuer_store)
  have g: "tr_grant_type demo_token_request = PreAuthorizedCode ''code''" by (simp add: demo_token_request_def)
  have a: "ti_attributes demo_token_inputs (SessionState_new (ti_created demo_token_inputs) ''code'' \<lparr>ic_attestation_previews = None\<rparr>)
      demo_token_request = Ok [demo_preview]" by (simp add: demo_token_inputs_def)
  have w: "demo_waiting = \<lparr>iw_access_token = AccessToken_new (ti_access_random demo_token_inputs) ''code'', iw_c_nonce = ti_c_nonce demo_token_inputs,
      iw_attestation_previews = [demo_preview], iw_dpop_public_key = replicate 64 2, iw_dpop_nonce = ti_dpop_nonce demo_token_inputs\<rparr>"
    by (simp add: demo_waiting_def demo_token_inputs_def demo_access_token_def AccessToken_new_def)
  have d': "Dpop_verify (ie_crypto demo_issuer_env) (ie_jose demo_issuer_env) dpop ''i/token'' ''POST'' None = Ok (replicate 64 2)" using d by simp
  show thesis
    by (rule token_request_opens [OF demo_issuer_store(1,2) v g u d' a w])
      (use that in \<open>simp add: demo_token_inputs_def memory_view_def\<close>)
qed

lemma demo_signed_random:
  obtains s where "IssuerSigned_sign demo_mdoc_env (\<lambda>_ _. replicate 32 0) 0 demo_unsigned demo_cose_key demo_issuer = Ok s"
  by (simp add: IssuerSigned_sign_def IssuerNameSpaces_from_def demo_unsigned_def Attributes_try_from_def
      Attributes_try_from_map_def im_collect_def nonempty_def IssuerSignedItem_new_def ValueDigests_try_from_def
      DigestIDs_try_from_def cbor_digest_def demo_mdoc_env_def demo_crypto_def demo_mso_def MdocCose_sign_def
      sign_cose_def signature_data_and_header_def demo_issuer_def)

lemma demo_curve_point: "curve_point demo_crypto demo_device_key" "CoseKey_try_from demo_crypto demo_device_key = Ok demo_cose_key"
  by (simp_all add: curve_point_def demo_crypto_def demo_device_key_def CoseKey_try_from_def demo_cose_key_def flip: replicate_add)

lemma demo_batch_issues:
  obtains dpop req resp where "crq_format req = MsoMdoc"
    "process_batch_credential_inner demo_issuer_env demo_issuer_data demo_credential_inputs demo_waiting [req] demo_access_token dpop = Ok [resp]"
proof -
  obtain dpop where d: "Dpop_verify_expecting_key demo_crypto (demo_jose demo_crypto) dpop (replicate 64 2) ''i/batch_credential'' ''POST''
      (Some demo_access_token) (Some ''d'') = Ok ()"
    by (rule Dpop_new_verifies [OF demo_jose_ok demo_working_key, of _ _ "''i/batch_credential''" "''POST''" "Some demo_access_token" "Some ''d''"]) auto
  let ?payload = "\<lparr>pj_iss = NL_WALLET_CLIENT_ID, pj_aud = ''i/'', pj_nonce = Some ''c'', pj_iat = 0\<rparr>"
  obtain jwk where h: "jwk_jwt_header demo_crypto (demo_jose demo_crypto) OPENID4VCI_VC_POP_JWT_TYPE (Some demo_device_key) =
      Ok \<lparr>hd_typ = Some OPENID4VCI_VC_POP_JWT_TYPE, hd_alg = ES256, hd_jwk = Some jwk\<rparr>"
    by (rule jwk_jwt_header_Ok [OF demo_jose_ok demo_curve_point(1)])
  let ?h = "\<lparr>hd_typ = Some OPENID4VCI_VC_POP_JWT_TYPE, hd_alg = ES256, hd_jwk = Some jwk\<rparr>"
  obtain jwt where t: "token_signed demo_crypto (demo_jose demo_crypto) (jo_pop_to_json (demo_jose demo_crypto)) demo_device_key ?payload ?h jwt"
    by (rule sign_jwts_verify [OF demo_jose_ok jose_okD(4) [OF demo_jose_ok] demo_factory_signs, of "[((''k'', demo_device_key), ?payload, ?h)]" UNIV])
      (auto simp: list_all2_Cons1)
  have pop: "CredentialRequestProof_verify demo_issuer_env (ProofJwt jwt) ''c'' [NL_WALLET_CLIENT_ID] ''i/'' = Ok demo_device_key"
    by (rule CredentialRequestProof_verifies [where h = ?h and p = ?payload]) (use h t in \<open>simp_all add: demo_jose_ok demo_curve_point\<close>)
  let ?req = "\<lparr>crq_format = MsoMdoc, crq_doctype = Some ''pid'', crq_proof = Some (ProofJwt jwt)\<rparr>"
  obtain s where s: "IssuerSigned_sign demo_mdoc_env (\<lambda>_ _. replicate 32 0) 0 demo_unsigned demo_cose_key demo_issuer = Ok s"
    by (rule demo_signed_random)
  have "verify_pop_and_sign_attestation demo_issuer_env demo_issuer_data (\<lambda>_ _. replicate 32 0) 0 ''c'' ?req demo_unsigned = Ok (RespMsoMdoc s)"
    using pop s demo_curve_point(2) by (simp add: verify_pop_and_sign_attestation_def demo_issuer_data_def demo_unsigned_def)
  moreover have "check_authorization demo_issuer_env demo_waiting demo_access_token dpop (iss_server_url demo_issuer_data) ''batch_credential'' ''POST'' = Ok ()"
    using d by (auto simp: check_authorization_Ok demo_waiting_def joined_url_def demo_urls_def demo_issuer_data_def)
  moreover have "copy_count demo_preview = 2" by (simp add: copy_count_def demo_preview_def demo_unsigned_def)
  ultimately have "process_batch_credential_inner demo_issuer_env demo_issuer_data demo_credential_inputs demo_waiting [?req] demo_access_token dpop =
      Ok [RespMsoMdoc s]"
    by (simp add: process_batch_credential_inner_def demo_credential_inputs_def demo_waiting_def demo_preview_def numeral_2_eq_2)
  then show thesis by (intro that [of ?req]) simp_all
qed

lemma demo_batch_served:
  obtains tdpop s dpop req resp s' where
    "issuer_run demo_issuer_env demo_issuer_data (Memory Map.empty) [TokenEvent demo_token_inputs demo_token_request tdpop] s"
    "issuer_valid demo_issuer_env s"
    "process_batch_credential demo_issuer_env demo_issuer_data demo_credential_inputs demo_access_token dpop [req] s = (Ok [resp], s')"
proof -
  obtain tdpop s where t: "process_token_request demo_issuer_env demo_issuer_data demo_token_inputs demo_token_request tdpop (Memory Map.empty) =
      (Ok (token_answer demo_waiting), s)" "issuer_valid demo_issuer_env s"
    "issuer_view demo_issuer_env s = [''code'' \<mapsto> SessionState_new 0 ''code'' (IssuanceWaiting demo_waiting)]"
    by (rule demo_token_request_opens)
  have run: "issuer_run demo_issuer_env demo_issuer_data (Memory Map.empty) ([] @ [TokenEvent demo_token_inputs demo_token_request tdpop]) s"
    by (rule issuer_run.step [OF issuer_run.start]) (rule issuer_step.token [OF t(1)])
  obtain dpop req resp where b: "process_batch_credential_inner demo_issuer_env demo_issuer_data demo_credential_inputs demo_waiting [req]
      demo_access_token dpop = Ok [resp]"
    by (rule demo_batch_issues)
  have x: "issuer_view demo_issuer_env s ''code'' = Some (SessionState_new 0 ''code'' (IssuanceWaiting demo_waiting))"
    "ss_data (SessionState_new 0 ''code'' (IssuanceWaiting demo_waiting)) = IssuanceWaiting demo_waiting"
    by (simp_all add: t(3) SessionState_new_def)
  show thesis
    by (rule batch_request_answered [OF demo_issuer_store(1) t(2) x demo_access_token_code b]) (rule that [OF run [simplified] t(2)])
qed

section \<open>Properties\<close>

text \<open>
  C3: Whatever requests an issuer that started without sessions has served, a credential it hands out belongs to a
  session that an earlier token request opened. The access token is the one of that session and names its
  code, the request carries a proof for the key that made the token request, over the access token and the nonce of
  the session, and the credential is one that was offered, for a key whose holder signed the nonce of the session.
\<close>

theorem issued_credential_is_authorised:
  assumes f: "issuer_store_faithful env" and v: "issuer_valid env s0" "issuer_view env s0 = (\<lambda>_. None)"
    and run: "issuer_run env iss s0 evs s"
    and issued: "fst (process_credential env iss ins tok dpop req s) = Ok resp \<or>
      (\<exists>resps. fst (process_batch_credential env iss ins tok dpop reqs s) = Ok resps \<and> (req, resp) \<in> set (zip reqs resps))"
  shows "\<exists>tins treq tdpop w url endpoint. TokenEvent tins treq tdpop \<in> set evs \<and> session_opened env iss tins treq tdpop w \<and>
    tok = iw_access_token w \<and> AccessToken_code tok = Some (TokenRequest_code treq) \<and>
    joined_url (ie_urls env) (iss_server_url iss) endpoint = Some url \<and>
    Dpop_verify_expecting_key (ie_crypto env) (ie_jose env) dpop (iw_dpop_public_key w) url ''POST'' (Some tok)
      (Some (iw_dpop_nonce w)) = Ok () \<and>
    credential_issued env iss w req resp"
proof -
  note inv = issuer_run_traced [OF run f v]
  have v: "issuer_valid env s" using inv by blast
  have "\<exists>w s' endpoint. session_ended env tok s w s' \<and>
      check_authorization env (ss_data w) tok dpop (iss_server_url iss) endpoint ''POST'' = Ok () \<and>
      credential_issued env iss (ss_data w) req resp"
    using issued
  proof (elim disjE exE conjE)
    assume "fst (process_credential env iss ins tok dpop req s) = Ok resp"
    then obtain s' where e: "process_credential env iss ins tok dpop req s = (Ok resp, s')" by (metis prod.collapse)
    show ?thesis by (rule process_credential_ends [OF f v e]) (use process_credential_inner_Ok in blast)+
  next
    fix resps assume "fst (process_batch_credential env iss ins tok dpop reqs s) = Ok resps" and z: "(req, resp) \<in> set (zip reqs resps)"
    then obtain s' where e: "process_batch_credential env iss ins tok dpop reqs s = (Ok resps, s')" by (metis prod.collapse)
    show ?thesis by (rule process_batch_credential_ends [OF f v e]) (use process_batch_credential_inner_Ok(1) process_batch_credential_inner_Ok(2) [OF _ z] in blast)+
  qed
  then obtain w s' endpoint where w: "AccessToken_code tok = Some (ss_token w)" "issuer_get_session env (ss_token w) s = Ok w"
    and a: "check_authorization env (ss_data w) tok dpop (iss_server_url iss) endpoint ''POST'' = Ok ()"
    and c: "credential_issued env iss (ss_data w) req resp" by (auto simp: session_ended_def)
  from w(2) [unfolded issuer_get_session_Ok [OF v]] obtain x where "issuer_view env s (ss_token w) = Some x"
    "ss_data x = IssuanceWaiting (ss_data w)" by blast
  with inv have "session_traced_to env iss evs (ss_token w) (IssuanceWaiting (ss_data w))" by metis
  then obtain tins treq tdpop where t: "TokenEvent tins treq tdpop \<in> set evs" "TokenRequest_code treq = ss_token w"
    "session_opened env iss tins treq tdpop (ss_data w)" by (auto simp: session_traced_to_def)
  from a [unfolded check_authorization_Ok] t w(1) c show ?thesis by metis
qed

theorem issued_credential_is_authorised_witness:
  "\<exists>evs s dpop req resp resps tins treq tdpop w.
    issuer_run demo_issuer_env demo_issuer_data (Memory Map.empty) evs s \<and>
    fst (process_batch_credential demo_issuer_env demo_issuer_data demo_credential_inputs demo_access_token dpop [req] s) = Ok resps \<and>
    TokenEvent tins treq tdpop \<in> set evs \<and> session_opened demo_issuer_env demo_issuer_data tins treq tdpop w \<and>
    credential_issued demo_issuer_env demo_issuer_data w req resp"
proof -
  obtain tdpop s dpop req resp s' where r: "issuer_run demo_issuer_env demo_issuer_data (Memory Map.empty)
      [TokenEvent demo_token_inputs demo_token_request tdpop] s"
    "process_batch_credential demo_issuer_env demo_issuer_data demo_credential_inputs demo_access_token dpop [req] s = (Ok [resp], s')"
    by (rule demo_batch_served)
  have i: "fst (process_credential demo_issuer_env demo_issuer_data demo_credential_inputs demo_access_token dpop req s) = Ok resp \<or>
      (\<exists>resps. fst (process_batch_credential demo_issuer_env demo_issuer_data demo_credential_inputs demo_access_token dpop [req] s) = Ok resps \<and>
        (req, resp) \<in> set (zip [req] resps))" using r(2) by simp
  show ?thesis using issued_credential_is_authorised [OF demo_issuer_store r(1) i] r by (metis fst_conv)
qed






text \<open>
  C37: A request for a single credential that names no document type is refused with a mismatch of document types
  although one attestation is offered only, and the session has failed thereby.
\<close>

theorem request_without_doctype_is_refused:
  assumes f: "issuer_store_faithful env" and v: "issuer_valid env s"
    and session: "issuer_view env s code = Some x" "ss_data x = IssuanceWaiting w" "AccessToken_code tok = Some code"
    and offer: "iw_attestation_previews w = [preview]" and req: "crq_doctype req = None" "crq_format req = MsoMdoc"
    and auth: "check_authorization env w tok dpop (iss_server_url iss) ''credential'' ''POST'' = Ok ()"
  shows "\<exists>s' y. process_credential env iss ins tok dpop req s = (Err DoctypeMismatch, s') \<and>
    issuer_view env s' code = Some y \<and>
    ss_data y = IssuanceDone \<lparr>idn_session_result = IssuanceFailed (credential_error_to_string env DoctypeMismatch)\<rparr>"
proof -
  let ?w = "\<lparr>ss_data = w, ss_token = code, ss_last_active = ss_last_active x\<rparr>"
  have g: "issuer_get_session env code s = Ok ?w" using session by (simp add: issuer_get_session_Ok [OF v])
  have inner: "process_credential_inner env iss ins w req tok dpop = Err DoctypeMismatch"
    using auth offer req by (simp add: process_credential_inner_def select_offer_def verify_pop_and_sign_attestation_def)
  let ?d = "Issuance_transition_fail (ci_transition ins) ?w (credential_error_to_string env DoctypeMismatch)"
  have d: "ss_token ?d = code" by simp
  from end_session [OF f v g d] obtain s' where s': "issuance_write env s (issuance_into IssuanceDone ?d) False = Ok s'"
    "issuer_view env s' = (issuer_view env s)(code \<mapsto> issuance_into IssuanceDone ?d)" .
  have "process_credential env iss ins tok dpop req s = (Err DoctypeMismatch, s')"
    using session(3) g inner s'(1) by (simp add: process_credential_def Session_process_credential_def finish_session_def)
  then show ?thesis using s'(2) by simp
qed

theorem request_without_doctype_is_refused_witness:
  "\<exists>dpop s'. process_credential demo_issuer_env demo_issuer_data demo_credential_inputs demo_access_token dpop
      \<lparr>crq_format = MsoMdoc, crq_doctype = None, crq_proof = None\<rparr>
      (Memory [''code'' \<mapsto> SessionState_new 0 ''code'' (IssuanceWaiting demo_waiting)]) = (Err DoctypeMismatch, s')"
proof -
  let ?x = "SessionState_new 0 ''code'' (IssuanceWaiting demo_waiting)"
  let ?s = "Memory [''code'' \<mapsto> ?x]"
  obtain dpop where d: "Dpop_verify_expecting_key demo_crypto (demo_jose demo_crypto) dpop (replicate 64 2) ''i/credential'' ''POST''
      (Some demo_access_token) (Some ''d'') = Ok ()"
    by (rule Dpop_new_verifies [OF demo_jose_ok demo_working_key, of _ _ "''i/credential''" "''POST''" "Some demo_access_token" "Some ''d''"]) auto
  have v: "issuer_valid demo_issuer_env ?s" "issuer_view demo_issuer_env ?s ''code'' = Some ?x" "ss_data ?x = IssuanceWaiting demo_waiting"
    "iw_attestation_previews demo_waiting = [demo_preview]"
    by (simp_all add: memory_valid_def memory_view_def SessionState_new_def demo_waiting_def)
  have a: "check_authorization demo_issuer_env demo_waiting demo_access_token dpop (iss_server_url demo_issuer_data) ''credential'' ''POST'' = Ok ()"
    using d by (auto simp: check_authorization_Ok demo_waiting_def joined_url_def demo_urls_def demo_issuer_data_def)
  from request_without_doctype_is_refused [OF demo_issuer_store(1) v(1-3) demo_access_token_code v(4) _ _ a,
      of "\<lparr>crq_format = MsoMdoc, crq_doctype = None, crq_proof = None\<rparr>" demo_credential_inputs]
  show ?thesis by auto
qed

text \<open>
  A session in the store is well-formed when its access token leads back to it and it offers something. Random
  strings have the length that is asked for, a code is valid UTF-8 and an attribute service never answers an empty list.
\<close>

definition issuance_session_wf :: "session_token \<Rightarrow> issuance_data \<Rightarrow> bool" where
  "issuance_session_wf t data = (case data of
     IssuanceWaiting w \<Rightarrow> AccessToken_code (iw_access_token w) = Some t \<and> iw_attestation_previews w \<noteq> []
   | _ \<Rightarrow> True)"

definition token_event_wf :: "'a issuer_event \<Rightarrow> bool" where
  "token_event_wf ev = (case ev of
     TokenEvent ins req dpop \<Rightarrow> length (ti_access_random ins) = 32 \<and> utf8_start (TokenRequest_code req) \<and>
       (\<forall>session previews. ti_attributes ins session req = Ok previews \<longrightarrow> previews \<noteq> [])
   | _ \<Rightarrow> True)"

lemma opened_session_wf:
  assumes "session_opened env iss ins req dpop w" "token_event_wf (TokenEvent ins req dpop)"
  shows "issuance_session_wf (TokenRequest_code req) (IssuanceWaiting w)"
  using assms access_token_code [of "ti_access_random ins" "TokenRequest_code req"]
  by (auto simp: session_opened_def token_event_wf_def issuance_session_wf_def TokenRequest_code_def)



end
