(* ===== verification/IssuanceServer.thy ===== *)
theory IssuanceServer
  imports Issuer IssuanceMetadata
begin

text \<open>
  The endpoints of an issuer, \<open>wallet_server/src/issuer.rs\<close>: the headers they read, the requests of
  \<open>Issuer\<close> they make and the responses they send, with the error codes of \<open>openid4vc/src/errors.rs\<close>.
\<close>

section \<open>Errors as responses\<close>

fun credential_error_code_from :: "credential_request_error \<Rightarrow> credential_error_code" where
  "credential_error_code_from (CredentialIssuanceError (IssuanceStoreFailed _)) = CecServerError"
| "credential_error_code_from (CoseKeyConversion _) = CecServerError"
| "credential_error_code_from (MissingPrivateKey _) = CecServerError"
| "credential_error_code_from (AttestationSigning _) = CecServerError"
| "credential_error_code_from CborSerialization = CecServerError"
| "credential_error_code_from JsonSerialization = CecServerError"
| "credential_error_code_from (CredentialIssuanceError _) = CecInvalidRequest"
| "credential_error_code_from UseBatchIssuance = CecInvalidRequest"
| "credential_error_code_from Unauthorized = CecInvalidToken"
| "credential_error_code_from MalformedToken = CecInvalidToken"
| "credential_error_code_from (UnsupportedJwtAlgorithm _ _) = CecInvalidProof"
| "credential_error_code_from MissingJwk = CecInvalidProof"
| "credential_error_code_from IncorrectNonce = CecInvalidProof"
| "credential_error_code_from JwtDecodingFailed = CecInvalidProof"
| "credential_error_code_from (JwkConversion _) = CecInvalidProof"
| "credential_error_code_from MissingCredentialRequestPoP = CecInvalidProof"
| "credential_error_code_from DoctypeMismatch = CecInvalidCredentialRequest"
| "credential_error_code_from (DoctypeNotOffered _) = CecInvalidCredentialRequest"
| "credential_error_code_from (UnsupportedCredentialFormat _) = CecUnsupportedCredentialFormat"

fun token_error_code_from :: "'a token_request_error \<Rightarrow> token_error_code" where
  "token_error_code_from (TokenIssuanceError (IssuanceStoreFailed _)) = TecServerError"
| "token_error_code_from (AttributeServiceFailed _) = TecServerError"
| "token_error_code_from (TokenIssuanceError _) = TecInvalidRequest"
| "token_error_code_from UnsupportedTokenRequestType = TecUnsupportedGrantType"

definition credential_error_response :: "'a issuer_env \<Rightarrow> credential_request_error \<Rightarrow> credential_error_code error_response" where
  "credential_error_response env err = \<lparr>er_error = credential_error_code_from err,
     er_error_description = Some (credential_error_to_string env err), er_error_uri = None\<rparr>"

definition token_error_response :: "'a issuer_env \<Rightarrow> 'a token_request_error \<Rightarrow> token_error_code error_response" where
  "token_error_response env err = \<lparr>er_error = token_error_code_from err,
     er_error_description = Some (token_error_to_string env err), er_error_uri = None\<rparr>"

section \<open>The server\<close>

text \<open>
  What axum, hyper and serde do: the path of a request within the router, text and header values, the scheme of an
  authorization header, the response to a request that does not parse, and JSON and forms.
\<close>

record 'a server_env =
  sv_issuer :: "'a issuer_env"
  sv_path :: "url \<Rightarrow> string"
  sv_header_to_str :: "bytes \<Rightarrow> string option"
  sv_header_from_str :: "string \<Rightarrow> bytes option"
  sv_scheme_matches :: "string \<Rightarrow> bytes \<Rightarrow> bool"
  sv_rejection :: http_response
  sv_not_found :: http_response
  sv_json_failure :: http_response
  sv_token_request :: "string \<Rightarrow> token_request option"
  sv_credential_request :: "string \<Rightarrow> credential_request option"
  sv_credential_requests :: "string \<Rightarrow> credential_request list option"
  sv_token_response_json :: "token_response_with_previews \<Rightarrow> json option"
  sv_credential_response_json :: "credential_response \<Rightarrow> json option"
  sv_credential_responses_json :: "credential_response list \<Rightarrow> json option"
  sv_metadata_json :: "issuer_metadata \<Rightarrow> json option"
  sv_oidc_config_json :: "oidc_config \<Rightarrow> json option"
  sv_token_error_json :: "token_error_code error_response \<Rightarrow> json option"
  sv_credential_error_json :: "credential_error_code error_response \<Rightarrow> json option"
  sv_metadata_error_json :: "string \<Rightarrow> json option"
  sv_attribute_error_to_string :: "'a \<Rightarrow> string"

text \<open>The state of the application and what one request reads; \<open>rin_oauth_metadata\<close> is the attribute service.\<close>

record application_state =
  as_data :: issuer_data
  as_metadata :: issuer_metadata

record 'a server_inputs =
  rin_token :: "'a token_inputs"
  rin_credential :: credential_inputs
  rin_oauth_metadata :: "url \<Rightarrow> (oidc_config, 'a) res"

definition json_response :: "'a server_env \<Rightarrow> nat \<Rightarrow> json option \<Rightarrow> http_response" where
  "json_response env status body = (case body of
     Some body \<Rightarrow> \<lparr>hs_status = status, hs_dpop_nonce = [], hs_body = body\<rparr>
   | None \<Rightarrow> sv_json_failure env)"

definition DpopHeader_decode :: "'a server_env \<Rightarrow> bytes list \<Rightarrow> dpop option" where
  "DpopHeader_decode env values = (case values of
     [] \<Rightarrow> None
   | value # rest \<Rightarrow> if rest \<noteq> [] then None else sv_header_to_str env value)"

definition DpopBearer_decode :: "'a server_env \<Rightarrow> bytes \<Rightarrow> (access_token option, 'e) res" where
  "DpopBearer_decode env value = (case sv_header_to_str env value of
     None \<Rightarrow> Ok None
   | Some value \<Rightarrow> res_bind (unwrap (str_get_from value (length DPOP_HEADER_NAME + 1))) (\<lambda>token. Ok (Some token)))"

text \<open>The two headers of a request with an access token. \<open>Err\<close> is the rejection of a header.\<close>

definition authorization_headers :: "'a server_env \<Rightarrow> http_request \<Rightarrow> (access_token \<times> dpop, unit) res" where
  "authorization_headers env request =
     res_bind (case hr_authorization request of
         [] \<Rightarrow> Ok None
       | value # _ \<Rightarrow> if sv_scheme_matches env DPOP_HEADER_NAME value then DpopBearer_decode env value else Ok None) (\<lambda>bearer.
     res_bind (ok_or bearer ()) (\<lambda>access_token.
     res_bind (ok_or (DpopHeader_decode env (hr_dpop request)) ()) (\<lambda>dpop.
     Ok (access_token, dpop))))"

text \<open>A handler answers with a response, or drops the connection because it panicked.\<close>

definition metadata_handler :: "'a server_env \<Rightarrow> application_state \<Rightarrow> http_response option" where
  "metadata_handler env state = Some (json_response env 200 (sv_metadata_json env (as_metadata state)))"

definition oauth_metadata_handler :: "'a server_env \<Rightarrow> application_state \<Rightarrow> 'a server_inputs \<Rightarrow> http_response option" where
  "oauth_metadata_handler env state ins =
     (case rin_oauth_metadata ins (iss_credential_issuer_identifier (as_data state)) of
       Ok metadata \<Rightarrow> Some (json_response env 200 (sv_oidc_config_json env metadata))
     | Err err \<Rightarrow> Some (json_response env 500 (sv_metadata_error_json env (sv_attribute_error_to_string env err)))
     | Panic \<Rightarrow> None)"

definition token_handler ::
  "'a server_env \<Rightarrow> application_state \<Rightarrow> 'a server_inputs \<Rightarrow> http_request \<Rightarrow> issuance_store \<Rightarrow> http_response option \<times> issuance_store" where
  "token_handler env state ins request sessions =
     (case (DpopHeader_decode env (hr_dpop request), sv_token_request env (hr_body request)) of
       (Some dpop, Some token_request) \<Rightarrow>
         (case process_token_request (sv_issuer env) (as_data state) (rin_token ins) token_request dpop sessions of
           (Ok (response, dpop_nonce), sessions) \<Rightarrow>
             (case sv_header_from_str env dpop_nonce of
               Some value \<Rightarrow>
                 (Some ((json_response env 200 (sv_token_response_json env response))\<lparr>hs_dpop_nonce := [value]\<rparr>), sessions)
             | None \<Rightarrow> (None, sessions))
         | (Err err, sessions) \<Rightarrow>
             (Some (json_response env (token_error_status (token_error_code_from err))
               (sv_token_error_json env (token_error_response (sv_issuer env) err))), sessions)
         | (Panic, sessions) \<Rightarrow> (None, sessions))
     | _ \<Rightarrow> (Some (sv_rejection env), sessions))"

definition credential_answer ::
  "'a server_env \<Rightarrow> ('r \<Rightarrow> http_response) \<Rightarrow> ('r, credential_request_error) res \<times> issuance_store
     \<Rightarrow> http_response option \<times> issuance_store" where
  "credential_answer env respond result =
     (case result of
       (Ok response, sessions) \<Rightarrow> (Some (respond response), sessions)
     | (Err err, sessions) \<Rightarrow>
         (Some (json_response env (credential_error_status (credential_error_code_from err))
           (sv_credential_error_json env (credential_error_response (sv_issuer env) err))), sessions)
     | (Panic, sessions) \<Rightarrow> (None, sessions))"

definition credential_handler ::
  "'a server_env \<Rightarrow> application_state \<Rightarrow> 'a server_inputs \<Rightarrow> http_request \<Rightarrow> issuance_store \<Rightarrow> http_response option \<times> issuance_store" where
  "credential_handler env state ins request sessions =
     (case (authorization_headers env request, sv_credential_request env (hr_body request)) of
       (Panic, _) \<Rightarrow> (None, sessions)
     | (Ok (access_token, dpop), Some credential_request) \<Rightarrow>
         credential_answer env (\<lambda>response. json_response env 200 (sv_credential_response_json env response))
           (process_credential (sv_issuer env) (as_data state) (rin_credential ins) access_token dpop credential_request sessions)
     | _ \<Rightarrow> (Some (sv_rejection env), sessions))"

definition batch_credential_handler ::
  "'a server_env \<Rightarrow> application_state \<Rightarrow> 'a server_inputs \<Rightarrow> http_request \<Rightarrow> issuance_store \<Rightarrow> http_response option \<times> issuance_store" where
  "batch_credential_handler env state ins request sessions =
     (case (authorization_headers env request, sv_credential_requests env (hr_body request)) of
       (Panic, _) \<Rightarrow> (None, sessions)
     | (Ok (access_token, dpop), Some credential_requests) \<Rightarrow>
         credential_answer env (\<lambda>response. json_response env 200 (sv_credential_responses_json env response))
           (process_batch_credential (sv_issuer env) (as_data state) (rin_credential ins) access_token dpop credential_requests sessions)
     | _ \<Rightarrow> (Some (sv_rejection env), sessions))"

definition reject_issuance_handler ::
  "'a server_env \<Rightarrow> application_state \<Rightarrow> 'a server_inputs \<Rightarrow> http_request \<Rightarrow> issuance_store \<Rightarrow> http_response option \<times> issuance_store" where
  "reject_issuance_handler env state ins request sessions =
     (case authorization_headers env request of
       Panic \<Rightarrow> (None, sessions)
     | Err _ \<Rightarrow> (Some (sv_rejection env), sessions)
     | Ok (access_token, dpop) \<Rightarrow>
         (case str_get_from (sv_path env (hr_url request)) 1 of
           None \<Rightarrow> (None, sessions)
         | Some uri_path \<Rightarrow>
             credential_answer env (\<lambda>_. \<lparr>hs_status = 204, hs_dpop_nonce = [], hs_body = ''''\<rparr>)
               (process_reject_issuance (sv_issuer env) (as_data state) (ci_transition (rin_credential ins)) access_token dpop
                 uri_path sessions)))"

definition issuance_router ::
  "'a server_env \<Rightarrow> application_state \<Rightarrow> 'a server_inputs \<Rightarrow> http_request \<Rightarrow> issuance_store \<Rightarrow> http_response option \<times> issuance_store" where
  "issuance_router env state ins request sessions =
     (let route = (hr_method request, sv_path env (hr_url request)) in
      if route = (''GET'', ''/.well-known/openid-credential-issuer'') then (metadata_handler env state, sessions)
      else if route = (''GET'', ''/.well-known/oauth-authorization-server'') then (oauth_metadata_handler env state ins, sessions)
      else if route = (''POST'', ''/token'') then token_handler env state ins request sessions
      else if route = (''POST'', ''/credential'') then credential_handler env state ins request sessions
      else if route = (''DELETE'', ''/credential'') then reject_issuance_handler env state ins request sessions
      else if route = (''POST'', ''/batch_credential'') then batch_credential_handler env state ins request sessions
      else if route = (''DELETE'', ''/batch_credential'') then reject_issuance_handler env state ins request sessions
      else (Some (sv_not_found env), sessions))"

end
