(* ===== verification/IssuanceSession.thy ===== *)
theory IssuanceSession
  imports IssuanceMetadata
begin

text \<open>
  The wallet's side of issuance: \<open>openid4vc/src/issuance_session.rs\<close> and the proofs of possession of
  \<open>openid4vc/src/credential.rs\<close>. The network, and whatever answers on it, is a function on a state of the
  world that is threaded through the calls.
\<close>

section \<open>Errors and environment\<close>

datatype issuance_session_error =
    SessVerifyingKeyFromPrivateKey
  | SessDpop dpop_error
  | SessJwkConversion jwk_conversion_error
  | SessJwt jwt_error
  | Network
  | MissingNonce
  | SessIssuedAttributesMismatch issued_attributes_mismatch
  | MdocVerification mdoc_error
  | TokenRequestFailed "token_error_code error_response"
  | CredentialRequestFailed "credential_error_code error_response"
  | PrivateKeyGeneration
  | PublicKeyMismatch
  | PublicKeyFromMdoc mdoc_error
  | UnexpectedCredentialResponseCount nat nat
  | HeaderToStr
  | SessCertificate certificate_error
  | IssuerCertificateMismatch
  | SessCose cose_error
  | OauthDiscovery
  | OpenId4vciDiscovery
  | NoBatchCredentialEndpoint
  | AttributeRandomLength nat nat

type_synonym 'w http = "'w \<Rightarrow> http_request \<Rightarrow> http_response option \<times> 'w"

text \<open>
  The crates below the wallet: reqwest with the network, JSON and forms, values of headers, and those of
  the earlier theories.
\<close>

record 'w vc_env =
  vc_mdoc :: mdoc_env
  vc_jose :: jose
  vc_urls :: url_ops
  vc_http :: "'w http"
  vc_header_from_str :: "string \<Rightarrow> bytes option"
  vc_header_to_str :: "bytes \<Rightarrow> string option"
  vc_token_request_form :: "token_request \<Rightarrow> string option"
  vc_credential_requests_json :: "credential_request list \<Rightarrow> json option"
  vc_token_response :: "string \<Rightarrow> token_response_with_previews option"
  vc_credential_responses :: "string \<Rightarrow> credential_response list option"
  vc_token_error :: "string \<Rightarrow> token_error_code error_response option"
  vc_credential_error :: "string \<Rightarrow> credential_error_code error_response option"
  vc_metadata :: "string \<Rightarrow> issuer_metadata option"
  vc_oidc_config :: "string \<Rightarrow> oidc_config option"

abbreviation vc_crypto :: "'w vc_env \<Rightarrow> crypto" where
  "vc_crypto env \<equiv> me_crypto (vc_mdoc env)"

text \<open>The key factory of the attestation keys, whose keys are pairs of an identifier and a public key.\<close>

record attestation_key_factory =
  kf_generate_new_multiple :: "u64 \<Rightarrow> (string \<times> verifying_key) list option"
  kf_verifying_key :: "string \<times> verifying_key \<Rightarrow> verifying_key option"
  kf_sign_multiple :: key_factory
  kf_key_type :: mdoc_key_type

text \<open>What the wallet reads from the clock and the random number generator.\<close>

record wallet_inputs =
  win_dpop_key :: ecdsa_key
  win_jti :: "nat \<Rightarrow> string"
  win_now :: "nat \<Rightarrow> datetime"
  win_certificate_clock :: clock
  win_mdoc_clock :: "nat \<Rightarrow> clock"

section \<open>Messages to the issuer\<close>

definition http_get :: "'w vc_env \<Rightarrow> url \<Rightarrow> 'w \<Rightarrow> http_response option \<times> 'w" where
  "http_get env url w = vc_http env w
     \<lparr>hr_method = ''GET'', hr_url = url, hr_dpop = [], hr_authorization = [], hr_body = ''''\<rparr>"

text \<open>\<open>send\<close>, \<open>error_for_status\<close> and \<open>json\<close> of reqwest, with the error of each.\<close>

definition get_json ::
  "'w vc_env \<Rightarrow> (string \<Rightarrow> 'r option) \<Rightarrow> issuance_session_error \<Rightarrow> issuance_session_error \<Rightarrow> url \<Rightarrow> 'w
     \<Rightarrow> ('r, issuance_session_error) res \<times> 'w" where
  "get_json env from_json send_error json_error url w =
     (case http_get env url w of (response, w) \<Rightarrow>
      attempt (ok_or response send_error) w (\<lambda>response.
      if is_client_error (hs_status response) \<or> is_server_error (hs_status response) then (Err send_error, w)
      else (ok_or (from_json (hs_body response)) json_error, w)))"

definition discover_metadata ::
  "'w vc_env \<Rightarrow> url \<Rightarrow> 'w \<Rightarrow> (issuer_metadata, issuance_session_error) res \<times> 'w" where
  "discover_metadata env url w =
     attempt (BaseUrl_join (vc_urls env) url ''/.well-known/openid-credential-issuer'') w (\<lambda>url.
     get_json env (vc_metadata env) OpenId4vciDiscovery OpenId4vciDiscovery url w)"

definition discover_oauth_metadata ::
  "'w vc_env \<Rightarrow> url \<Rightarrow> 'w \<Rightarrow> (oidc_config, issuance_session_error) res \<times> 'w" where
  "discover_oauth_metadata env url w =
     attempt (BaseUrl_join (vc_urls env) url ''/.well-known/oauth-authorization-server'') w (\<lambda>url.
     get_json env (vc_oidc_config env) Network OauthDiscovery url w)"

text \<open>
  A request with an optional body and headers: a header or body that cannot be built makes it fail, an error status
  is read as an error response.
\<close>

definition send_request ::
  "'w vc_env \<Rightarrow> string \<Rightarrow> url \<Rightarrow> string list \<Rightarrow> string list \<Rightarrow> string option
     \<Rightarrow> (http_response \<Rightarrow> ('r, issuance_session_error) res) \<Rightarrow> (string \<Rightarrow> issuance_session_error option) \<Rightarrow> 'w
     \<Rightarrow> ('r, issuance_session_error) res \<times> 'w" where
  "send_request env method url dpop authorization body read read_error w =
     attempt (res_map (\<lambda>value. ok_or (vc_header_from_str env value) Network) dpop) w (\<lambda>dpop.
     attempt (res_map (\<lambda>value. ok_or (vc_header_from_str env value) Network) authorization) w (\<lambda>authorization.
     attempt (ok_or body Network) w (\<lambda>body.
     case vc_http env w \<lparr>hr_method = method, hr_url = url, hr_dpop = dpop, hr_authorization = authorization, hr_body = body\<rparr> of
       (response, w) \<Rightarrow>
     attempt (ok_or response Network) w (\<lambda>response.
     if is_client_error (hs_status response) \<or> is_server_error (hs_status response)
     then (res_bind (ok_or (read_error (hs_body response)) Network) Err, w)
     else (read response, w)))))"

definition request_token ::
  "'w vc_env \<Rightarrow> url \<Rightarrow> token_request \<Rightarrow> dpop \<Rightarrow> 'w
     \<Rightarrow> (token_response_with_previews \<times> string option, issuance_session_error) res \<times> 'w" where
  "request_token env url token_request dpop_header =
     send_request env ''POST'' url [dpop_header] [] (vc_token_request_form env token_request)
       (\<lambda>response.
         res_bind (case hs_dpop_nonce response of
             [] \<Rightarrow> Ok None
           | value # _ \<Rightarrow> res_bind (ok_or (vc_header_to_str env value) HeaderToStr) (\<lambda>nonce. Ok (Some nonce))) (\<lambda>dpop_nonce.
         res_bind (ok_or (vc_token_response env (hs_body response)) Network) (\<lambda>deserialized.
         Ok (deserialized, dpop_nonce))))
       (\<lambda>body. map_option TokenRequestFailed (vc_token_error env body))"

definition request_credentials ::
  "'w vc_env \<Rightarrow> url \<Rightarrow> credential_request list \<Rightarrow> string \<Rightarrow> string \<Rightarrow> 'w
     \<Rightarrow> (credential_response list, issuance_session_error) res \<times> 'w" where
  "request_credentials env url credential_requests dpop_header access_token_header =
     send_request env ''POST'' url [dpop_header] [access_token_header] (vc_credential_requests_json env credential_requests)
       (\<lambda>response. ok_or (vc_credential_responses env (hs_body response)) Network)
       (\<lambda>body. map_option CredentialRequestFailed (vc_credential_error env body))"

definition send_reject ::
  "'w vc_env \<Rightarrow> url \<Rightarrow> string \<Rightarrow> string \<Rightarrow> 'w \<Rightarrow> (unit, issuance_session_error) res \<times> 'w" where
  "send_reject env url dpop_header access_token_header =
     send_request env ''DELETE'' url [dpop_header] [access_token_header] (Some '''') (\<lambda>_. Ok ())
       (\<lambda>body. map_option CredentialRequestFailed (vc_credential_error env body))"

section \<open>Starting a session\<close>

record issuance_state =
  st_access_token :: access_token
  st_c_nonce :: string
  st_attestation_previews :: "attestation_preview list"
  st_issuer_url :: url
  st_dpop_private_key :: ecdsa_key
  st_dpop_nonce :: "string option"

definition discover_token_endpoint ::
  "'w vc_env \<Rightarrow> url \<Rightarrow> 'w \<Rightarrow> (url, issuance_session_error) res \<times> 'w" where
  "discover_token_endpoint env base_url w =
     (case discover_metadata env base_url w of (metadata, w) \<Rightarrow>
      attempt metadata w (\<lambda>issuer_metadata.
      attempt (unwrap (case authorization_servers (imd_issuer_config issuer_metadata) of
          [] \<Rightarrow> None | server # _ \<Rightarrow> Some server)) w (\<lambda>oauth_server.
      case discover_oauth_metadata env oauth_server w of (oauth_metadata, w) \<Rightarrow>
      attempt oauth_metadata w (\<lambda>oauth_metadata.
      (Ok (oc_token_endpoint oauth_metadata), w)))))"

definition discover_batch_credential_endpoint ::
  "'w vc_env \<Rightarrow> url \<Rightarrow> 'w \<Rightarrow> (url option, issuance_session_error) res \<times> 'w" where
  "discover_batch_credential_endpoint env base_url w =
     (case discover_metadata env base_url w of (metadata, w) \<Rightarrow>
      attempt metadata w (\<lambda>issuer_metadata.
      (Ok (cfg_batch_credential_endpoint (imd_issuer_config issuer_metadata)), w)))"

definition start_issuance ::
  "'w vc_env \<Rightarrow> wallet_inputs \<Rightarrow> url \<Rightarrow> token_request \<Rightarrow> trust_anchor list \<Rightarrow> 'w
     \<Rightarrow> (issuance_state \<times> attestation_preview list, issuance_session_error) res \<times> 'w" where
  "start_issuance env ins base_url token_request trust_anchors w =
     (case discover_token_endpoint env base_url w of (token_endpoint, w) \<Rightarrow>
      attempt token_endpoint w (\<lambda>token_endpoint.
      attempt (map_err SessDpop (Dpop_new (vc_crypto env) (vc_jose env) (win_jti ins 0) (win_now ins 0) (win_dpop_key ins)
        token_endpoint ''POST'' None None)) w (\<lambda>dpop_header.
      case request_token env token_endpoint token_request dpop_header w of (answer, w) \<Rightarrow>
      attempt answer w (\<lambda>(token_response, dpop_nonce).
      attempt (res_map (\<lambda>(i, preview). map_err SessCertificate
          (Certificate_verify (vc_crypto env) (preview_issuer preview) Mdl [] (win_certificate_clock ins i) trust_anchors))
        (List.enumerate 0 (tp_attestation_previews token_response))) w (\<lambda>_.
      attempt (ok_or (tk_c_nonce (tp_token_response token_response)) MissingNonce) w (\<lambda>c_nonce.
      let session_state = \<lparr>st_access_token = tk_access_token (tp_token_response token_response), st_c_nonce = c_nonce,
            st_attestation_previews = tp_attestation_previews token_response, st_issuer_url = base_url,
            st_dpop_private_key = win_dpop_key ins, st_dpop_nonce = dpop_nonce\<rparr>
      in (Ok (session_state, tp_attestation_previews token_response), w)))))))"

section \<open>Accepting and rejecting\<close>

definition auth_headers ::
  "'w vc_env \<Rightarrow> wallet_inputs \<Rightarrow> issuance_state \<Rightarrow> url \<Rightarrow> string \<Rightarrow> (string \<times> string, issuance_session_error) res" where
  "auth_headers env ins self url method =
     res_bind (map_err SessDpop (Dpop_new (vc_crypto env) (vc_jose env) (win_jti ins 1) (win_now ins 1) (st_dpop_private_key self)
       url method (Some (st_access_token self)) (st_dpop_nonce self))) (\<lambda>dpop_header.
     Ok (dpop_header, ''DPoP '' @ st_access_token self))"

definition CredentialRequestProof_new_multiple ::
  "'w vc_env \<Rightarrow> datetime \<Rightarrow> string \<Rightarrow> string \<Rightarrow> url \<Rightarrow> u64 \<Rightarrow> attestation_key_factory
     \<Rightarrow> (((string \<times> verifying_key) \<times> credential_request_proof) list, issuance_session_error) res" where
  "CredentialRequestProof_new_multiple env now nonce wallet_client_id credential_issuer_identifier number_of_keys key_factory =
     res_bind (ok_or (kf_generate_new_multiple key_factory number_of_keys) PrivateKeyGeneration) (\<lambda>keys.
     let payload = \<lparr>pj_iss = wallet_client_id, pj_aud = credential_issuer_identifier, pj_nonce = Some nonce, pj_iat = now\<rparr> in
     res_bind (res_map (\<lambda>privkey.
         res_bind (map_err SessJwkConversion (jwk_jwt_header (vc_crypto env) (vc_jose env) OPENID4VCI_VC_POP_JWT_TYPE
           (kf_verifying_key key_factory privkey))) (\<lambda>header.
         Ok (privkey, (payload, header)))) keys) (\<lambda>keys_and_jwt_payloads.
     res_bind (map_err SessJwt (sign_jwts (vc_jose env) (jo_pop_to_json (vc_jose env)) keys_and_jwt_payloads
       (kf_sign_multiple key_factory))) (\<lambda>keys_and_jwts.
     Ok (map (\<lambda>(key, jwt). (key, ProofJwt jwt)) keys_and_jwts))))"

definition ATTR_RANDOM_LENGTH :: nat where
  "ATTR_RANDOM_LENGTH = 32"

definition min_random_length :: "issuer_signed \<Rightarrow> nat option" where
  "min_random_length issuer_signed = (case is_name_spaces issuer_signed of
     None \<Rightarrow> None
   | Some name_spaces \<Rightarrow>
       (case concat (map (\<lambda>(_, items). map (\<lambda>item. length (isi_random item)) items) name_spaces) of
         [] \<Rightarrow> None
       | l # ls \<Rightarrow> Some (foldl min l ls)))"

definition into_mdoc ::
  "'w vc_env \<Rightarrow> mdoc_key_type \<Rightarrow> clock \<Rightarrow> credential_response \<Rightarrow> string \<Rightarrow> verifying_key \<Rightarrow> attestation_preview \<Rightarrow> trust_anchor list
     \<Rightarrow> (mdoc, issuance_session_error) res" where
  "into_mdoc env key_type time self key_id verifying_key preview trust_anchors =
     (let issuer_signed = response_credential self in
      res_bind (map_err PublicKeyFromMdoc (IssuerSigned_public_key (vc_mdoc env) issuer_signed)) (\<lambda>public_key.
      if public_key \<noteq> verifying_key then Err PublicKeyMismatch
      else if (case min_random_length issuer_signed of Some n \<Rightarrow> n < ATTR_RANDOM_LENGTH | None \<Rightarrow> False)
      then Err (AttributeRandomLength (the (min_random_length issuer_signed)) ATTR_RANDOM_LENGTH)
      else
        res_bind (map_err SessCose (signing_cert (is_issuer_auth issuer_signed))) (\<lambda>certificate.
        if certificate \<noteq> preview_issuer preview then Err IssuerCertificateMismatch
        else
          res_bind (map_err MdocVerification (Mdoc_new (vc_mdoc env) key_type key_id issuer_signed time trust_anchors)) (\<lambda>mdoc.
          res_bind (map_err SessIssuedAttributesMismatch (compare_unsigned mdoc (preview_unsigned preview))) (\<lambda>_.
          Ok mdoc)))))"

text \<open>
  The copies of each attestation are taken from the front of the queue of numbered responses; asking for more than
  there are panics.
\<close>

fun into_mdoc_copies ::
  "'w vc_env \<Rightarrow> mdoc_key_type \<Rightarrow> (nat \<Rightarrow> clock) \<Rightarrow> trust_anchor list \<Rightarrow> attestation_preview list
     \<Rightarrow> (nat \<times> credential_response \<times> verifying_key \<times> string) list \<Rightarrow> (mdoc list list, issuance_session_error) res" where
  "into_mdoc_copies env key_type time trust_anchors [] responses_and_pubkeys = Ok []"
| "into_mdoc_copies env key_type time trust_anchors (preview # previews) responses_and_pubkeys =
     (if length responses_and_pubkeys < copy_count preview then Panic
      else
        res_bind (res_map (\<lambda>(i, cred_response, pubkey, key_id).
            into_mdoc env key_type (time i) cred_response key_id pubkey preview trust_anchors)
          (take (copy_count preview) responses_and_pubkeys)) (\<lambda>cred_copies.
        res_bind (into_mdoc_copies env key_type time trust_anchors previews
          (drop (copy_count preview) responses_and_pubkeys)) (\<lambda>mdocs.
        Ok (cred_copies # mdocs))))"

definition credential_requests_for ::
  "attestation_key_factory \<Rightarrow> ((string \<times> verifying_key) \<times> credential_request_proof) list \<Rightarrow> doc_type list
     \<Rightarrow> (((verifying_key \<times> string) \<times> credential_request) list, issuance_session_error) res" where
  "credential_requests_for key_factory keys_and_proofs doctypes =
     res_map (\<lambda>((key, response), doctype).
         res_bind (ok_or (kf_verifying_key key_factory key) SessVerifyingKeyFromPrivateKey) (\<lambda>pubkey.
         Ok ((pubkey, fst key), \<lparr>crq_format = MsoMdoc, crq_doctype = Some doctype, crq_proof = Some response\<rparr>)))
       (zip keys_and_proofs doctypes)"

definition accept_issuance ::
  "'w vc_env \<Rightarrow> wallet_inputs \<Rightarrow> issuance_state \<Rightarrow> trust_anchor list \<Rightarrow> attestation_key_factory \<Rightarrow> url \<Rightarrow> 'w
     \<Rightarrow> (mdoc list list, issuance_session_error) res \<times> 'w" where
  "accept_issuance env ins self trust_anchors key_factory credential_issuer_identifier w =
     (let doctypes = concat (map (\<lambda>preview. replicate (copy_count preview) (um_doc_type (preview_unsigned preview)))
            (st_attestation_previews self)) in
      attempt (CredentialRequestProof_new_multiple env (win_now ins 2) (st_c_nonce self) NL_WALLET_CLIENT_ID
        credential_issuer_identifier (of_nat (length doctypes)) key_factory) w (\<lambda>keys_and_proofs.
      attempt (credential_requests_for key_factory keys_and_proofs doctypes) w (\<lambda>keys_and_requests.
      let pubkeys = map fst keys_and_requests; credential_requests = map snd keys_and_requests in
      case discover_batch_credential_endpoint env (st_issuer_url self) w of (url, w) \<Rightarrow>
      attempt url w (\<lambda>url.
      attempt (ok_or url NoBatchCredentialEndpoint) w (\<lambda>url.
      attempt (auth_headers env ins self url ''POST'') w (\<lambda>(dpop_header, access_token_header).
      attempt (unwrap (nonempty credential_requests)) w (\<lambda>credential_requests.
      case request_credentials env url credential_requests dpop_header access_token_header w of (responses, w) \<Rightarrow>
      attempt responses w (\<lambda>responses.
      if length responses \<noteq> length pubkeys
      then (Err (UnexpectedCredentialResponseCount (length responses) (length pubkeys)), w)
      else
        (into_mdoc_copies env (kf_key_type key_factory) (win_mdoc_clock ins) trust_anchors (st_attestation_previews self)
          (List.enumerate 0 (zip responses pubkeys)), w)))))))))"

definition reject_issuance ::
  "'w vc_env \<Rightarrow> wallet_inputs \<Rightarrow> issuance_state \<Rightarrow> 'w \<Rightarrow> (unit, issuance_session_error) res \<times> 'w" where
  "reject_issuance env ins self w =
     (case discover_batch_credential_endpoint env (st_issuer_url self) w of (url, w) \<Rightarrow>
      attempt url w (\<lambda>url.
      attempt (ok_or url NoBatchCredentialEndpoint) w (\<lambda>url.
      attempt (auth_headers env ins self url ''DELETE'') w (\<lambda>(dpop_header, access_token_header).
      send_reject env url dpop_header access_token_header w))))"


section \<open>What is accepted\<close>

lemma foldl_min: "n \<in> set (l # ls) \<Longrightarrow> foldl min l ls \<le> (n :: nat)"
proof (induction ls arbitrary: l n)
  case (Cons k ks)
  have "foldl min (min l k) ks \<le> min l k" by (rule Cons.IH) simp
  then show ?case using Cons by auto
qed simp

lemma min_random_length_le:
  assumes "is_name_spaces s = Some ns" "(n, items) \<in> set ns" "item \<in> set items"
  obtains k where "min_random_length s = Some k" "k \<le> length (isi_random item)"
proof -
  let ?ls = "concat (map (\<lambda>(_, items). map (\<lambda>item. length (isi_random item)) items) ns)"
  have "length (isi_random item) \<in> set ?ls" using assms by force
  moreover from this obtain l ls where "?ls = l # ls" by (cases ?ls) auto
  ultimately show thesis using that [of "foldl min l ls"] foldl_min [of _ l ls] assms(1)
    by (simp add: min_random_length_def)
qed

text \<open>
  An mdoc that keeps what a preview announced: it is signed under the announced certificate, verified against the trust
  anchors, has the announced attributes, and its attributes are salted with at least 32 bytes.
\<close>

definition mdoc_announced ::
  "'w vc_env \<Rightarrow> wallet_inputs \<Rightarrow> trust_anchor list \<Rightarrow> attestation_preview \<Rightarrow> mdoc \<Rightarrow> bool" where
  "mdoc_announced env ins anchors preview m \<longleftrightarrow>
     signing_cert (is_issuer_auth (mdoc_issuer_signed m)) = Ok (preview_issuer preview) \<and>
     compare_unsigned m (preview_unsigned preview) = Ok () \<and>
     (\<exists>i verified. IssuerSigned_verify (vc_mdoc env) (mdoc_issuer_signed m) AllowNotYetValid (win_mdoc_clock ins i) anchors = Ok verified) \<and>
     (\<forall>ns. is_name_spaces (mdoc_issuer_signed m) = Some ns \<longrightarrow>
        (\<forall>(n, items)\<in>set ns. \<forall>item\<in>set items. 32 \<le> length (isi_random item)))"

lemma into_mdoc_Ok:
  assumes "into_mdoc env kt (win_mdoc_clock ins i) resp key_id pk preview anchors = Ok m"
  shows "mdoc_announced env ins anchors preview m" "mdoc_private_key_id m = key_id"
    "IssuerSigned_public_key (vc_mdoc env) (mdoc_issuer_signed m) = Ok pk"
proof -
  let ?s = "response_credential resp"
  from assms have s: "IssuerSigned_public_key (vc_mdoc env) ?s = Ok pk"
    "\<not> (case min_random_length ?s of Some n \<Rightarrow> n < ATTR_RANDOM_LENGTH | None \<Rightarrow> False)"
    "signing_cert (is_issuer_auth ?s) = Ok (preview_issuer preview)"
    "Mdoc_new (vc_mdoc env) kt key_id ?s (win_mdoc_clock ins i) anchors = Ok m" "compare_unsigned m (preview_unsigned preview) = Ok ()"
    unfolding into_mdoc_def by (auto simp: Let_def res_bind_eq_Ok split: if_splits)
  from s(4) obtain dda mso where m: "IssuerSigned_verify (vc_mdoc env) ?s AllowNotYetValid (win_mdoc_clock ins i) anchors = Ok (dda, mso)"
    "mdoc_issuer_signed m = ?s" "mdoc_private_key_id m = key_id" by (auto simp: Mdoc_new_def result_simps)
  have "32 \<le> length (isi_random item)" if "is_name_spaces ?s = Some ns" "(n, items) \<in> set ns" "item \<in> set items" for ns n items item
    by (rule min_random_length_le [OF that]) (use s(2) in \<open>auto simp: ATTR_RANDOM_LENGTH_def\<close>)
  then show "mdoc_announced env ins anchors preview m"
    unfolding mdoc_announced_def m(2) using s(3,5) m(1) by blast
  show "mdoc_private_key_id m = key_id" "IssuerSigned_public_key (vc_mdoc env) (mdoc_issuer_signed m) = Ok pk"
    using s(1) m by simp_all
qed

lemma into_mdoc_copies_Ok:
  assumes "into_mdoc_copies env kt (win_mdoc_clock ins) anchors previews queue = Ok copies"
  shows "list_all2 (\<lambda>preview ms. length ms = copy_count preview \<and> (\<forall>m\<in>set ms. mdoc_announced env ins anchors preview m)) previews copies \<and>
    length (concat copies) \<le> length queue \<and>
    list_all2 (\<lambda>m (i, resp, pk, key_id). mdoc_private_key_id m = key_id \<and>
        IssuerSigned_public_key (vc_mdoc env) (mdoc_issuer_signed m) = Ok pk)
      (concat copies) (take (length (concat copies)) queue)"
  using assms
proof (induction previews arbitrary: queue copies)
  case (Cons preview previews)
  let ?n = "copy_count preview"
  from Cons.prems obtain ms rest where n: "?n \<le> length queue" and copies: "copies = ms # rest"
    and ms: "res_map (\<lambda>(i, cred_response, pubkey, key_id).
        into_mdoc env kt (win_mdoc_clock ins i) cred_response key_id pubkey preview anchors) (take ?n queue) = Ok ms"
    and rest: "into_mdoc_copies env kt (win_mdoc_clock ins) anchors previews (drop ?n queue) = Ok rest"
    by (auto simp: res_bind_eq_Ok split: if_splits)
  note IH = Cons.IH [OF rest]
  have len: "length ms = ?n" using res_map_length [OF ms] n by simp
  have each: "list_all2 (\<lambda>(i, resp, pk, key_id) m. mdoc_announced env ins anchors preview m \<and> mdoc_private_key_id m = key_id \<and>
      IssuerSigned_public_key (vc_mdoc env) (mdoc_issuer_signed m) = Ok pk) (take ?n queue) ms"
    using ms unfolding res_map_eq_Ok by (rule list_all2_mono) (auto dest: into_mdoc_Ok)
  then have "\<forall>m\<in>set ms. mdoc_announced env ins anchors preview m"
    by (induction rule: list_all2_induct) auto
  moreover have "list_all2 (\<lambda>m (i, resp, pk, key_id). mdoc_private_key_id m = key_id \<and>
      IssuerSigned_public_key (vc_mdoc env) (mdoc_issuer_signed m) = Ok pk) ms (take ?n queue)"
    using each len n by (auto simp: list_all2_conv_all_nth split_beta)
  moreover have "take (length (concat copies)) queue = take ?n queue @ take (length (concat rest)) (drop ?n queue)"
    unfolding copies using len by (simp add: take_add)
  ultimately show ?case using IH len n copies by (auto intro: list_all2_appendI)
qed simp


lemma sign_jwts_keys:
  assumes "sign_jwts jo to_json kms factory = Ok kjs"
  shows "map fst kjs = take (length kjs) (map fst kms)"
proof -
  let ?sign = "\<lambda>((sigs, key), msg).
     res_bind (unwrap (case sigs of [] \<Rightarrow> None | sig # _ \<Rightarrow> Some sig)) (\<lambda>sig.
     Ok (key, msg @ ''.'' @ jo_base64url jo sig)) :: ((string \<times> verifying_key) \<times> jwt, jwt_error) res"
  from assms obtain messages sigs where m: "length messages = length kms"
    and r: "res_map ?sign (zip (zip sigs (map fst kms)) messages) = Ok kjs"
    by (auto simp: sign_jwts_def Let_def res_bind_eq_Ok dest: res_map_length)
  have n: "length kjs \<le> length kms" using res_map_length [OF r] m by simp
  show ?thesis
  proof (rule nth_equalityI)
    show "length (map fst kjs) = length (take (length kjs) (map fst kms))" using n by simp
    fix i assume "i < length (map fst kjs)"
    then have i: "i < length kjs" by simp
    then have "?sign (zip (zip sigs (map fst kms)) messages ! i) = Ok (kjs ! i)"
      using res_map_Ok_nth [OF r, of i] res_map_length [OF r] by simp
    moreover have "i < length sigs" "i < length kms" using i res_map_length [OF r] m by simp_all
    ultimately have "fst (kjs ! i) = fst (kms ! i)" using m by (auto simp: res_bind_eq_Ok) (metis fst_conv)
    then show "map fst kjs ! i = take (length kjs) (map fst kms) ! i" using i n by simp
  qed
qed

lemma new_multiple_keys:
  assumes "CredentialRequestProof_new_multiple env now nonce client identifier n kf = Ok kps"
  obtains keys where "kf_generate_new_multiple kf n = Some keys" "map fst kps = take (length kps) keys"
proof -
  from assms obtain keys kms kjs where k: "kf_generate_new_multiple kf n = Some keys"
    and kms: "list_all2 (\<lambda>k km. res_bind (map_err SessJwkConversion (jwk_jwt_header (vc_crypto env) (vc_jose env)
      OPENID4VCI_VC_POP_JWT_TYPE (kf_verifying_key kf k))) (\<lambda>header. Ok (k, (\<lparr>pj_iss = client, pj_aud = identifier,
      pj_nonce = Some nonce, pj_iat = now\<rparr>, header))) = Ok km) keys kms"
    and kjs: "sign_jwts (vc_jose env) (jo_pop_to_json (vc_jose env)) kms (kf_sign_multiple kf) = Ok kjs"
      "kps = map (\<lambda>(key, jwt). (key, ProofJwt jwt)) kjs"
    unfolding CredentialRequestProof_new_multiple_def Let_def by (auto simp: res_bind_eq_Ok [of "res_map _ _"]
      res_bind_eq_Ok [of "ok_or _ _"] res_bind_eq_Ok [of "map_err _ (sign_jwts _ _ _ _)"] ok_or_eq_Ok res_map_eq_Ok)
  have "map fst kms = keys" using kms by (induction rule: list_all2_induct) (auto simp: res_bind_eq_Ok)
  moreover have "map fst kps = map fst kjs" using kjs(2) by auto
  ultimately show thesis using that [OF k] sign_jwts_keys [OF kjs(1)] kjs(2) by simp
qed

lemma credential_requests_for_keys:
  assumes "credential_requests_for kf kps doctypes = Ok krs"
  shows "list_all2 (\<lambda>((pk, key_id), req) kp. kf_verifying_key kf (fst kp) = Some pk \<and> key_id = fst (fst kp)) krs (take (length krs) kps)"
proof -
  from res_map_length [OF assms [unfolded credential_requests_for_def]] have n: "length krs = min (length kps) (length doctypes)" by simp
  have "list_all2 (\<lambda>(kp, d) ((pk, key_id), req). kf_verifying_key kf (fst kp) = Some pk \<and> key_id = fst (fst kp)) (zip kps doctypes) krs"
    using assms unfolding credential_requests_for_def res_map_eq_Ok
    by (rule list_all2_mono) (auto simp: res_bind_eq_Ok ok_or_eq_Ok)
  then show ?thesis using n by (auto simp: list_all2_conv_all_nth split_beta)
qed


section \<open>Properties\<close>

text \<open>
  C14: Whatever the network answers, the mdocs a wallet accepts are what the issuer announced. Every preview gets as many
  copies as it offers, each signed under the announced certificate, verified against the trust anchors, with the
  announced attributes and salts of at least 32 bytes. The copies are bound, in order, to the keys that the wallet
  had its key factory generate for them.
\<close>

theorem accepted_mdocs_are_announced:
  assumes "accept_issuance env ins self anchors kf identifier w = (Ok copies, w')"
  shows "\<exists>keys. kf_generate_new_multiple kf (of_nat (sum_list (map copy_count (st_attestation_previews self)))) = Some keys \<and>
    list_all2 (\<lambda>preview ms. length ms = copy_count preview \<and> (\<forall>m\<in>set ms. mdoc_announced env ins anchors preview m))
      (st_attestation_previews self) copies \<and>
    list_all2 (\<lambda>m key. mdoc_private_key_id m = fst key \<and> (\<exists>pk. kf_verifying_key kf key = Some pk \<and>
        IssuerSigned_public_key (vc_mdoc env) (mdoc_issuer_signed m) = Ok pk))
      (concat copies) (take (length (concat copies)) keys)"
proof -
  let ?previews = "st_attestation_previews self"
  let ?doctypes = "concat (map (\<lambda>preview. replicate (copy_count preview) (um_doc_type (preview_unsigned preview))) ?previews)"
  have n: "length ?doctypes = sum_list (map copy_count ?previews)" by (simp add: length_concat comp_def)
  from assms obtain kps krs resps where
    kps: "CredentialRequestProof_new_multiple env (win_now ins 2) (st_c_nonce self) NL_WALLET_CLIENT_ID identifier
      (of_nat (length ?doctypes)) kf = Ok kps"
    and krs: "credential_requests_for kf kps ?doctypes = Ok krs" and len: "length resps = length krs"
    and copies: "into_mdoc_copies env (kf_key_type kf) (win_mdoc_clock ins) anchors ?previews
      (List.enumerate 0 (zip resps (map fst krs))) = Ok copies"
    unfolding accept_issuance_def Let_def by (auto simp: case_attempt_Ok attempt_Ok_iff split: if_splits)
  obtain keys where keys: "kf_generate_new_multiple kf (of_nat (length ?doctypes)) = Some keys" "map fst kps = take (length kps) keys"
    by (rule new_multiple_keys [OF kps])
  note c = into_mdoc_copies_Ok [OF copies]
  let ?k = "length (concat copies)"
  have krs': "list_all2 (\<lambda>((pk, key_id), req) kp. kf_verifying_key kf (fst kp) = Some pk \<and> key_id = fst (fst kp)) krs (take (length krs) kps)"
    by (rule credential_requests_for_keys [OF krs])
  have k: "?k \<le> length krs" "?k \<le> length kps" using c len list_all2_lengthD [OF krs'] by auto
  have "list_all2 (\<lambda>m key. mdoc_private_key_id m = fst key \<and> (\<exists>pk. kf_verifying_key kf key = Some pk \<and>
        IssuerSigned_public_key (vc_mdoc env) (mdoc_issuer_signed m) = Ok pk)) (concat copies) (take ?k keys)"
  proof (rule list_all2_all_nthI)
    have l: "length kps \<le> length keys" using keys(2) by (metis length_map length_take min.cobounded1 min_def)
    then show "length (concat copies) = length (take ?k keys)" using k by simp
    fix i assume i: "i < length (concat copies)"
    have "keys ! i = fst (kps ! i)" using keys(2) i k by (metis (no_types) length_map less_le_trans nth_map nth_take)
    moreover have "case krs ! i of ((pk, key_id), req) \<Rightarrow> kf_verifying_key kf (fst (kps ! i)) = Some pk \<and> key_id = fst (fst (kps ! i))"
      using list_all2_nthD [OF krs', of i] i k by (simp add: split_beta)
    moreover have "case List.enumerate 0 (zip resps (map fst krs)) ! i of (j, resp, pk, key_id) \<Rightarrow>
        mdoc_private_key_id (concat copies ! i) = key_id \<and>
        IssuerSigned_public_key (vc_mdoc env) (mdoc_issuer_signed (concat copies ! i)) = Ok pk"
      using conjunct2 [OF conjunct2 [OF c]] i by (auto dest: list_all2_nthD)
    moreover have "List.enumerate 0 (zip resps (map fst krs)) ! i = (i, resps ! i, fst (krs ! i))"
      using i k len by (simp add: nth_enumerate_eq)
    ultimately show "mdoc_private_key_id (concat copies ! i) = fst (take ?k keys ! i) \<and>
        (\<exists>pk. kf_verifying_key kf (take ?k keys ! i) = Some pk \<and>
          IssuerSigned_public_key (vc_mdoc env) (mdoc_issuer_signed (concat copies ! i)) = Ok pk)"
      using i by (auto split: prod.splits)
  qed
  with keys(1) c n show ?thesis by auto
qed

end
