(* ===== verification/IssuanceFlow.thy ===== *)
theory IssuanceFlow
  imports IssuanceServer IssuanceSession
begin

text \<open>
  A wallet and an issuer together: the requests of \<open>openid4vc/src/issuance_session.rs\<close> are answered by the
  endpoints of \<open>wallet_server/src/issuer.rs\<close>. The state of the world is the number of requests served, which selects
  what a request reads from clock and random number generator, and the sessions of the issuer.
\<close>

section \<open>The network\<close>

definition issuer_http :: "'a server_env \<Rightarrow> application_state \<Rightarrow> (nat \<Rightarrow> 'a server_inputs) \<Rightarrow> (nat \<times> issuance_store) http" where
  "issuer_http sv state ins w request =
     (case issuance_router sv state (ins (fst w)) request (snd w) of (response, sessions) \<Rightarrow> (response, (Suc (fst w), sessions)))"

definition issuance_connected ::
  "'a server_env \<Rightarrow> application_state \<Rightarrow> (nat \<Rightarrow> 'a server_inputs) \<Rightarrow> (nat \<times> issuance_store) vc_env \<Rightarrow> (nat \<times> issuance_store) vc_env" where
  "issuance_connected sv state ins env = env\<lparr>vc_http := issuer_http sv state ins\<rparr>"

lemma issuance_connected_simps [simp]:
  "vc_mdoc (issuance_connected sv state ins env) = vc_mdoc env" "vc_jose (issuance_connected sv state ins env) = vc_jose env"
  "vc_urls (issuance_connected sv state ins env) = vc_urls env"
  "vc_http (issuance_connected sv state ins env) = issuer_http sv state ins"
  "vc_header_from_str (issuance_connected sv state ins env) = vc_header_from_str env"
  "vc_header_to_str (issuance_connected sv state ins env) = vc_header_to_str env"
  "vc_token_request_form (issuance_connected sv state ins env) = vc_token_request_form env"
  "vc_credential_requests_json (issuance_connected sv state ins env) = vc_credential_requests_json env"
  "vc_token_response (issuance_connected sv state ins env) = vc_token_response env"
  "vc_credential_responses (issuance_connected sv state ins env) = vc_credential_responses env"
  "vc_metadata (issuance_connected sv state ins env) = vc_metadata env"
  "vc_oidc_config (issuance_connected sv state ins env) = vc_oidc_config env"
  by (simp_all add: issuance_connected_def)

section \<open>What the parties rely on\<close>

text \<open>Text that fits in a header: printable ASCII.\<close>

definition header_text :: "string \<Rightarrow> bool" where
  "header_text s \<longleftrightarrow> (\<forall>c\<in>set s. 32 \<le> (of_char c :: nat) \<and> (of_char c :: nat) < 127)"

lemma header_text_simps [simp]:
  "header_text []" "header_text (c # s) \<longleftrightarrow> 32 \<le> (of_char c :: nat) \<and> (of_char c :: nat) < 127 \<and> header_text s"
  "header_text (s @ t) \<longleftrightarrow> header_text s \<and> header_text t"
  by (auto simp: header_text_def)

text \<open>
  Both sides read what the other has written: forms and JSON, and headers of printable text, among which is everything
  in base64. The scheme of an authorization header is what precedes its first space.
\<close>

definition issuance_wire_ok :: "'a server_env \<Rightarrow> 'w vc_env \<Rightarrow> bool" where
  "issuance_wire_ok sv env \<longleftrightarrow>
     (\<forall>v. header_text v \<longrightarrow> (\<exists>b. vc_header_from_str env v = Some b \<and> sv_header_to_str sv b = Some v)) \<and>
     (\<forall>v. header_text v \<longrightarrow> (\<exists>b. sv_header_from_str sv v = Some b \<and> vc_header_to_str env b = Some v)) \<and>
     (\<forall>t b. vc_header_from_str env (''DPoP '' @ t) = Some b \<longrightarrow> sv_scheme_matches sv ''DPoP'' b) \<and>
     (\<forall>bs. header_text (jo_base64url (vc_jose env) bs)) \<and>
     (\<forall>r. \<exists>f. vc_token_request_form env r = Some f \<and> sv_token_request sv f = Some r) \<and>
     (\<forall>rs. rs \<noteq> [] \<longrightarrow> (\<exists>j. vc_credential_requests_json env rs = Some j \<and> sv_credential_requests sv j = Some rs)) \<and>
     (\<forall>tok nonce previews. \<exists>j. sv_token_response_json sv
        \<lparr>tp_token_response = TokenResponse_new tok nonce, tp_attestation_previews = previews\<rparr> = Some j \<and>
        vc_token_response env j = Some \<lparr>tp_token_response = TokenResponse_new tok nonce, tp_attestation_previews = previews\<rparr>) \<and>
     (\<forall>rs. \<exists>j. sv_credential_responses_json sv rs = Some j \<and> vc_credential_responses env j = Some rs)"

lemma issuance_wire_okD:
  assumes "issuance_wire_ok sv env"
  shows "header_text v \<Longrightarrow> \<exists>b. vc_header_from_str env v = Some b \<and> sv_header_to_str sv b = Some v"
    "header_text v \<Longrightarrow> \<exists>b. sv_header_from_str sv v = Some b \<and> vc_header_to_str env b = Some v"
    "vc_header_from_str env (''DPoP '' @ t) = Some b \<Longrightarrow> sv_scheme_matches sv ''DPoP'' b"
    "header_text (jo_base64url (vc_jose env) bs)"
    "\<exists>f. vc_token_request_form env r = Some f \<and> sv_token_request sv f = Some r"
    "rs \<noteq> [] \<Longrightarrow> \<exists>j. vc_credential_requests_json env rs = Some j \<and> sv_credential_requests sv j = Some rs"
    "\<exists>j. sv_token_response_json sv \<lparr>tp_token_response = TokenResponse_new tok nonce, tp_attestation_previews = previews\<rparr> = Some j \<and>
        vc_token_response env j = Some \<lparr>tp_token_response = TokenResponse_new tok nonce, tp_attestation_previews = previews\<rparr>"
    "\<exists>j. sv_credential_responses_json sv rps = Some j \<and> vc_credential_responses env j = Some rps"
  using assms unfolding issuance_wire_ok_def by blast+

text \<open>
  An issuer that \<open>Issuer::new\<close> has set up at a URL whose endpoints it serves, with metadata that the wallet can read.
\<close>

definition issuer_started :: "'a server_env \<Rightarrow> 'w vc_env \<Rightarrow> application_state \<Rightarrow> url \<Rightarrow> bool" where
  "issuer_started sv env state server_url \<longleftrightarrow>
     (\<exists>keys ids. IssuerData_new (ie_urls (sv_issuer sv)) keys server_url ids = (Ok (as_data state) :: (_, unit) res)) \<and>
     IssuerMetadata_new (ie_urls (sv_issuer sv)) server_url = (Ok (as_metadata state) :: (_, unit) res) \<and>
     (\<exists>j. sv_metadata_json sv (as_metadata state) = Some j \<and> vc_metadata env j = Some (as_metadata state)) \<and>
     vc_urls env = ie_urls (sv_issuer sv) \<and>
     (\<forall>path \<in> {''/.well-known/openid-credential-issuer'', ''/.well-known/oauth-authorization-server'', ''/token'', ''/batch_credential''}.
        \<exists>url. joined_url (vc_urls env) (iss_server_url (as_data state)) path = Some url \<and> sv_path sv url = path)"

abbreviation issuer_url :: "application_state \<Rightarrow> url" where
  "issuer_url state \<equiv> iss_server_url (as_data state)"

lemma joined_url_slash: "joined_url urls u (CHR ''/'' # s) = joined_url urls u s"
  by (simp add: joined_url_def)

lemma issuer_startedD:
  assumes "issuer_started sv env state server_url"
  obtains discovery oauth token batch where
    "joined_url (vc_urls env) (issuer_url state) ''/.well-known/openid-credential-issuer'' = Some discovery"
    "sv_path sv discovery = ''/.well-known/openid-credential-issuer''"
    "joined_url (vc_urls env) (issuer_url state) ''/.well-known/oauth-authorization-server'' = Some oauth"
    "sv_path sv oauth = ''/.well-known/oauth-authorization-server''"
    "joined_url (vc_urls env) (issuer_url state) ''token'' = Some token" "sv_path sv token = ''/token''"
    "joined_url (vc_urls env) (issuer_url state) ''batch_credential'' = Some batch" "sv_path sv batch = ''/batch_credential''"
    "cfg_batch_credential_endpoint (imd_issuer_config (as_metadata state)) = Some batch"
    "authorization_servers (imd_issuer_config (as_metadata state)) = [issuer_url state]"
    "iss_credential_issuer_identifier (as_data state) = issuer_url state"
    "vc_urls env = ie_urls (sv_issuer sv)"
proof -
  let ?urls = "ie_urls (sv_issuer sv)"
  from assms have u: "vc_urls env = ?urls" by (simp add: issuer_started_def)
  from assms obtain keys ids where d: "IssuerData_new ?urls keys server_url ids = (Ok (as_data state) :: (_, unit) res)"
    by (auto simp: issuer_started_def)
  then have i: "joined_url ?urls server_url ''issuance/'' = Some (issuer_url state)"
    "iss_credential_issuer_identifier (as_data state) = issuer_url state"
    by (auto simp: IssuerData_new_def res_bind_eq_Ok join_base_url_Ok eq_commute [of _ "as_data state"])
  from assms have "IssuerMetadata_new ?urls server_url = (Ok (as_metadata state) :: (_, unit) res)" by (simp add: issuer_started_def)
  with i(1) obtain batch where b: "joined_url ?urls (issuer_url state) ''/batch_credential'' = Some batch"
    "cfg_batch_credential_endpoint (imd_issuer_config (as_metadata state)) = Some batch"
    "authorization_servers (imd_issuer_config (as_metadata state)) = [issuer_url state]"
    by (auto simp: IssuerMetadata_new_def res_bind_eq_Ok join_base_url_Ok authorization_servers_def
        eq_commute [of _ "as_metadata state"])
  have p: "\<exists>url. joined_url ?urls (issuer_url state) path = Some url \<and> sv_path sv url = path"
    if "path \<in> {''/.well-known/openid-credential-issuer'', ''/.well-known/oauth-authorization-server'', ''/token'', ''/batch_credential''}" for path
    using assms that u by (auto simp: issuer_started_def)
  from p [of "''/.well-known/openid-credential-issuer''"] p [of "''/.well-known/oauth-authorization-server''"] p [of "''/token''"]
    p [of "''/batch_credential''"] b u i(2) show thesis
    by (auto simp: joined_url_slash intro!: that)
qed

section \<open>Requests that are served\<close>

definition oauth_readable :: "'a server_env \<Rightarrow> 'w vc_env \<Rightarrow> oidc_config \<Rightarrow> bool" where
  "oauth_readable sv env cfg \<longleftrightarrow> (\<exists>j. sv_oidc_config_json sv cfg = Some j \<and> vc_oidc_config env j = Some cfg)"

lemma well_known_served:
  assumes started: "issuer_started sv env state server_url"
  shows "discover_metadata (issuance_connected sv state ins env) (issuer_url state) (n, s) = (Ok (as_metadata state), (Suc n, s))"
    "\<lbrakk>rin_oauth_metadata (ins n) (iss_credential_issuer_identifier (as_data state)) = Ok cfg; oauth_readable sv env cfg\<rbrakk> \<Longrightarrow>
     discover_oauth_metadata (issuance_connected sv state ins env) (issuer_url state) (n, s) = (Ok cfg, (Suc n, s))"
proof -
  from started obtain discovery oauth where a: "joined_url (vc_urls env) (issuer_url state) ''/.well-known/openid-credential-issuer'' = Some discovery"
    "sv_path sv discovery = ''/.well-known/openid-credential-issuer''"
    "joined_url (vc_urls env) (issuer_url state) ''/.well-known/oauth-authorization-server'' = Some oauth"
    "sv_path sv oauth = ''/.well-known/oauth-authorization-server''" by (rule issuer_startedD)
  show "discover_metadata (issuance_connected sv state ins env) (issuer_url state) (n, s) = (Ok (as_metadata state), (Suc n, s))"
    using a(1,2) started
    by (auto simp: issuer_started_def discover_metadata_def get_json_def http_get_def BaseUrl_join_joined issuer_http_def issuance_router_def
        metadata_handler_def json_response_def is_client_error_def is_server_error_def)
  show "discover_oauth_metadata (issuance_connected sv state ins env) (issuer_url state) (n, s) = (Ok cfg, (Suc n, s))"
    if "rin_oauth_metadata (ins n) (iss_credential_issuer_identifier (as_data state)) = Ok cfg" "oauth_readable sv env cfg"
    using a(3,4) that
    by (auto simp: oauth_readable_def discover_oauth_metadata_def get_json_def http_get_def BaseUrl_join_joined issuer_http_def issuance_router_def
        oauth_metadata_handler_def json_response_def is_client_error_def is_server_error_def)
qed

lemma Dpop_header_text:
  assumes "issuance_wire_ok sv env" "Dpop_new c (vc_jose env) jti now key url method token nonce = Ok d"
  shows "header_text d"
proof -
  from assms(2) obtain hj pj sig where "d = jws (vc_jose env) hj pj sig"
    by (auto simp: Dpop_new_def Let_def res_bind_eq_Ok map_err_eq_Ok Jwt_sign_Ok)
  then show ?thesis using issuance_wire_okD(4) [OF assms(1)] by (simp add: jws_def)
qed

lemma request_token_served:
  assumes wire: "issuance_wire_ok sv env" and path: "sv_path sv url = ''/token''" and ascii: "header_text dpop" "header_text (iw_dpop_nonce w)"
    and served: "process_token_request (sv_issuer sv) (as_data state) (rin_token (ins n)) req dpop s = (Ok (token_answer w), s')"
  shows "request_token (issuance_connected sv state ins env) url req dpop (n, s) =
    (Ok (fst (token_answer w), Some (iw_dpop_nonce w)), (Suc n, s'))"
proof -
  obtain b where b: "vc_header_from_str env dpop = Some b" "sv_header_to_str sv b = Some dpop"
    using issuance_wire_okD(1) [OF wire ascii(1)] by blast
  obtain c where c: "sv_header_from_str sv (iw_dpop_nonce w) = Some c" "vc_header_to_str env c = Some (iw_dpop_nonce w)"
    using issuance_wire_okD(2) [OF wire ascii(2)] by blast
  obtain f where f: "vc_token_request_form env req = Some f" "sv_token_request sv f = Some req"
    using issuance_wire_okD(5) [OF wire] by blast
  obtain resp where resp: "token_answer w = (resp, iw_dpop_nonce w)" by (simp add: token_answer_def)
  obtain j where j: "sv_token_response_json sv resp = Some j" "vc_token_response env j = Some resp"
    using issuance_wire_okD(7) [OF wire, of "iw_access_token w" "iw_c_nonce w" "iw_attestation_previews w"] resp
    by (auto simp: token_answer_def)
  show ?thesis using b c f j path served unfolding resp
    by (simp add: request_token_def send_request_def issuer_http_def issuance_router_def token_handler_def DpopHeader_decode_def
        json_response_def is_client_error_def is_server_error_def)
qed

lemma request_credentials_served:
  assumes wire: "issuance_wire_ok sv env" and path: "sv_path sv url = ''/batch_credential''"
    and ascii: "header_text dpop" "header_text tok" and reqs: "reqs \<noteq> []"
    and served: "process_batch_credential (sv_issuer sv) (as_data state) (rin_credential (ins n)) tok dpop reqs s = (Ok resps, s')"
  shows "request_credentials (issuance_connected sv state ins env) url reqs dpop (''DPoP '' @ tok) (n, s) = (Ok resps, (Suc n, s'))"
proof -
  obtain b where b: "vc_header_from_str env dpop = Some b" "sv_header_to_str sv b = Some dpop"
    using issuance_wire_okD(1) [OF wire ascii(1)] by blast
  have "header_text (''DPoP '' @ tok)" using ascii(2) by simp
  from issuance_wire_okD(1) [OF wire this] obtain a where a: "vc_header_from_str env (''DPoP '' @ tok) = Some a"
    "sv_header_to_str sv a = Some (''DPoP '' @ tok)" by blast
  have m: "sv_scheme_matches sv DPOP_HEADER_NAME a" using issuance_wire_okD(3) [OF wire a(1)] by (simp add: DPOP_HEADER_NAME_def)
  have "str_get_from (''DPoP '' @ tok) (length DPOP_HEADER_NAME + 1) = Some tok"
    using ascii(2) by (cases tok) (auto simp: str_get_from_def is_char_boundary_def DPOP_HEADER_NAME_def)
  then have h: "authorization_headers sv \<lparr>hr_method = ''POST'', hr_url = url, hr_dpop = [b], hr_authorization = [a], hr_body = body\<rparr> = Ok (tok, dpop)" for body
    using a(2) b(2) m by (simp add: authorization_headers_def DpopBearer_decode_def DpopHeader_decode_def)
  obtain j where j: "vc_credential_requests_json env reqs = Some j" "sv_credential_requests sv j = Some reqs"
    using issuance_wire_okD(6) [OF wire reqs] by blast
  obtain k where k: "sv_credential_responses_json sv resps = Some k" "vc_credential_responses env k = Some resps"
    using issuance_wire_okD(8) [OF wire] by blast
  show ?thesis using a(1) b(1) h j k path served
    by (simp add: request_credentials_def send_request_def issuer_http_def issuance_router_def batch_credential_handler_def
        credential_answer_def json_response_def is_client_error_def is_server_error_def)
qed

section \<open>Starting a session\<close>

text \<open>
  What one session needs: the crates agree, the keys of the wallet work, the issuer has a signing key under a certificate
  that the wallet trusts for everything the attribute service offers, and random numbers are as long as asked for.
\<close>

definition session_keys_ok ::
  "(nat \<times> issuance_store) vc_env \<Rightarrow> wallet_inputs \<Rightarrow> attestation_key_factory \<Rightarrow> nat \<Rightarrow> (string \<times> verifying_key) list \<Rightarrow> bool" where
  "session_keys_ok env wi kf count keys \<longleftrightarrow>
     (\<exists>pub. working_key (vc_crypto env) (win_dpop_key wi) pub) \<and>
     kf_generate_new_multiple kf (of_nat count) = Some keys \<and> length keys = count \<and>
     (\<forall>k\<in>set keys. kf_verifying_key kf k = Some (snd k) \<and> curve_point (vc_crypto env) (snd k)) \<and>
     factory_signs (vc_crypto env) (kf_sign_multiple kf) (set keys)"

definition token_inputs_ok :: "'a token_inputs \<Rightarrow> authorization_code \<Rightarrow> bool" where
  "token_inputs_ok ins code \<longleftrightarrow> length (ti_access_random ins) = 32 \<and> header_text (ti_access_random ins) \<and> header_text code \<and>
     header_text (ti_dpop_nonce ins)"

lemma header_text_start: "header_text s \<Longrightarrow> utf8_start s"
  by (cases s) (auto simp: utf8_start_def)

definition opened_session :: "'a token_inputs \<Rightarrow> authorization_code \<Rightarrow> attestation_preview list \<Rightarrow> verifying_key \<Rightarrow> issuance_waiting" where
  "opened_session ins code previews pub = \<lparr>iw_access_token = AccessToken_new (ti_access_random ins) code, iw_c_nonce = ti_c_nonce ins,
     iw_attestation_previews = previews, iw_dpop_public_key = pub, iw_dpop_nonce = ti_dpop_nonce ins\<rparr>"

definition wallet_session :: "wallet_inputs \<Rightarrow> url \<Rightarrow> issuance_waiting \<Rightarrow> issuance_state" where
  "wallet_session wi url w = \<lparr>st_access_token = iw_access_token w, st_c_nonce = iw_c_nonce w,
     st_attestation_previews = iw_attestation_previews w, st_issuer_url = url, st_dpop_private_key = win_dpop_key wi,
     st_dpop_nonce = Some (iw_dpop_nonce w)\<rparr>"

lemma discover_token_endpoint_served:
  assumes started: "issuer_started sv env state server_url"
    and oauth: "rin_oauth_metadata (ins (Suc n)) (issuer_url state) = Ok cfg" "oauth_readable sv env cfg"
  shows "discover_token_endpoint (issuance_connected sv state ins env) (issuer_url state) (n, s) = (Ok (oc_token_endpoint cfg), (Suc (Suc n), s))"
proof -
  have i: "authorization_servers (imd_issuer_config (as_metadata state)) = [issuer_url state]"
    "iss_credential_issuer_identifier (as_data state) = issuer_url state"
    by (rule issuer_startedD [OF started]; simp)+
  show ?thesis using well_known_served [OF started] oauth i by (simp add: discover_token_endpoint_def)
qed

lemma session_opens:
  assumes wire: "issuance_wire_ok sv env" and started: "issuer_started sv env state server_url"
    and crates: "vc_mdoc env = ie_mdoc (sv_issuer sv)" "vc_jose env = ie_jose (sv_issuer sv)" "jose_ok (vc_crypto env) (vc_jose env)"
    and store: "issuer_store_faithful (sv_issuer sv)" "issuer_valid (sv_issuer sv) s" "issuer_view (sv_issuer sv) s code = None"
    and oauth: "rin_oauth_metadata (ins (Suc n)) (issuer_url state) = Ok cfg"
      "joined_url (vc_urls env) (issuer_url state) ''token'' = Some (oc_token_endpoint cfg)" "oauth_readable sv env cfg"
    and grant: "tr_grant_type req = PreAuthorizedCode code" and ti: "token_inputs_ok (rin_token (ins (n + 2))) code"
    and offer: "ti_attributes (rin_token (ins (n + 2))) (SessionState_new (ti_created (rin_token (ins (n + 2)))) code
      \<lparr>ic_attestation_previews = None\<rparr>) req = Ok previews"
    and certs: "\<And>i p. p \<in> set previews \<Longrightarrow> Certificate_verify (vc_crypto env) (preview_issuer p) Mdl [] (win_certificate_clock wi i) anchors = Ok ()"
    and key: "working_key (vc_crypto env) (win_dpop_key wi) pub"
  defines "w \<equiv> opened_session (rin_token (ins (n + 2))) code previews pub"
  obtains s' where "start_issuance (issuance_connected sv state ins env) wi (issuer_url state) req anchors (n, s) =
      (Ok (wallet_session wi (issuer_url state) w, previews), (n + 3, s'))"
    "issuer_valid (sv_issuer sv) s'"
    "issuer_view (sv_issuer sv) s' code = Some (SessionState_new (ti_transition (rin_token (ins (n + 2)))) code (IssuanceWaiting w))"
proof -
  let ?ins = "rin_token (ins (n + 2))" and ?url = "oc_token_endpoint cfg"
  obtain token where t: "joined_url (vc_urls env) (issuer_url state) ''token'' = Some token" "sv_path sv token = ''/token''"
    "iss_credential_issuer_identifier (as_data state) = issuer_url state" "vc_urls env = ie_urls (sv_issuer sv)"
    by (rule issuer_startedD [OF started])
  obtain d where d: "Dpop_new (vc_crypto env) (vc_jose env) (win_jti wi 0) (win_now wi 0) (win_dpop_key wi) ?url ''POST'' None None = Ok d"
    "Dpop_verify (vc_crypto env) (vc_jose env) d ?url ''POST'' None = Ok pub"
    by (rule Dpop_new_verifies [OF crates(3) key, of "win_jti wi 0" "win_now wi 0" ?url "''POST''" None None]) auto
  have url: "joined_url (ie_urls (sv_issuer sv)) (iss_credential_issuer_identifier (as_data state)) ''token'' = Some ?url"
    using oauth(2) t(3,4) by simp
  have dv: "Dpop_verify (ie_crypto (sv_issuer sv)) (ie_jose (sv_issuer sv)) d ?url ''POST'' None = Ok pub"
    using d(2) crates(1,2) by simp
  obtain s' where s': "process_token_request (sv_issuer sv) (as_data state) ?ins req d s = (Ok (token_answer w), s')"
    "issuer_valid (sv_issuer sv) s'"
    "issuer_view (sv_issuer sv) s' = (issuer_view (sv_issuer sv) s)(code \<mapsto> SessionState_new (ti_transition ?ins) code (IssuanceWaiting w))"
    by (rule token_request_opens [OF store grant url dv offer meta_eq_to_obj_eq [OF w_def [unfolded opened_session_def]]])
  have "header_text (iw_dpop_nonce w)" using ti by (simp add: w_def opened_session_def token_inputs_ok_def)
  from request_token_served [OF wire _ Dpop_header_text [OF wire d(1)] this, of ?url state ins "n + 2" req s s'] s'(1) t(1,2) oauth(2)
  have r: "request_token (issuance_connected sv state ins env) ?url req d (n + 2, s) =
      (Ok (fst (token_answer w), Some (iw_dpop_nonce w)), (Suc (n + 2), s'))" by simp
  have c: "\<exists>us. res_map (\<lambda>(i, preview). map_err SessCertificate
      (Certificate_verify (vc_crypto env) (preview_issuer preview) Mdl [] (win_certificate_clock wi i) anchors)) (List.enumerate k previews) = Ok us" for k
    by (rule res_map_total) (use certs in \<open>auto simp: in_set_enumerate_eq\<close>)
  have "start_issuance (issuance_connected sv state ins env) wi (issuer_url state) req anchors (n, s) =
      (Ok (wallet_session wi (issuer_url state) w, previews), (n + 3, s'))"
    using discover_token_endpoint_served [where ins = ins and n = n and s = s, OF started oauth(1,3)] d(1) r c [of 0]
    by (auto simp: start_issuance_def token_answer_def TokenResponse_new_def wallet_session_def w_def opened_session_def numeral_3_eq_3)
  then show thesis by (rule that) (simp_all only: s'(2,3) fun_upd_same)
qed

section \<open>Accepting the attestations\<close>

text \<open>The attestation that each copy belongs to.\<close>

definition offered_copies :: "attestation_preview list \<Rightarrow> attestation_preview list" where
  "offered_copies previews = concat (map (\<lambda>p. replicate (copy_count p) p) previews)"

lemma offered_copies_simps [simp]:
  "offered_copies [] = []" "offered_copies (p # ps) = replicate (copy_count p) p @ offered_copies ps"
  "concat (map (\<lambda>p. replicate (copy_count p) (f p)) previews) = map f (offered_copies previews)"
  "length (offered_copies previews) = sum_list (map copy_count previews)"
  by (simp_all add: offered_copies_def map_concat length_concat comp_def)

lemma offered_copies_subset: "set (offered_copies previews) \<subseteq> set previews"
  by (induction previews) auto

definition preview_issuable ::
  "(nat \<times> issuance_store) vc_env \<Rightarrow> wallet_inputs \<Rightarrow> issuer_data \<Rightarrow> credential_inputs \<Rightarrow> (string \<times> verifying_key) list
     \<Rightarrow> trust_anchor list \<Rightarrow> attestation_preview \<Rightarrow> bool" where
  "preview_issuable env wi iss ci keys anchors p \<longleftrightarrow> (\<exists>kp t. let u = preview_unsigned p in
     iss_private_keys iss (um_doc_type u) = Some kp \<and> kp_certificate kp = preview_issuer p \<and> unsigned_wf u \<and>
     parse_from_rfc3339 (vc_mdoc env) (um_valid_until u) = Some t \<and>
     (\<forall>i. trusted_issuer (vc_mdoc env) kp (win_mdoc_clock wi i) anchors \<and> win_mdoc_clock wi i 1 \<le> t \<and>
        Certificate_verify (vc_crypto env) (preview_issuer p) Mdl [] (win_certificate_clock wi i) anchors = Ok ()) \<and>
     (\<forall>i k ck. k \<in> set keys \<longrightarrow> CoseKey_try_from (vc_crypto env) (snd k) = Ok ck \<longrightarrow>
        (\<exists>s. IssuerSigned_sign (vc_mdoc env) (ci_random ci i) (ci_signed ci i) u ck kp = Ok s)))"

lemma foldl_min_mem: "foldl min l ls \<in> set (l # ls)" for l :: nat
proof (induction ls arbitrary: l)
  case (Cons k ks)
  show ?case using Cons.IH [of "min l k"] by (auto simp: min_def split: if_splits)
qed simp

lemma min_random_length_mem:
  assumes "min_random_length s = Some k"
  obtains ns n items item where "is_name_spaces s = Some ns" "(n, items) \<in> set ns" "item \<in> set items" "k = length (isi_random item)"
proof -
  from assms obtain ns l ls where ns: "is_name_spaces s = Some ns"
    "concat (map (\<lambda>(_, items). map (\<lambda>item. length (isi_random item)) items) ns) = l # ls" "k = foldl min l ls"
    by (auto simp: min_random_length_def split: option.splits list.splits)
  have "k \<in> set (concat (map (\<lambda>(_, items). map (\<lambda>item. length (isi_random item)) items) ns))"
    unfolding ns(2,3) by (rule foldl_min_mem)
  then show thesis using that [OF ns(1)] by auto
qed

lemma issued_copy_accepted:
  assumes issuable: "preview_issuable env wi iss ci keys anchors p" and k: "k \<in> set keys" "curve_point (vc_crypto env) (snd k)"
    and codec: "mso_roundtrips (vc_mdoc env)" and random: "\<And>i n j. 32 \<le> length (ci_random ci i n j)"
    and pop: "CredentialRequestProof_verify ienv pr nonce (iss_accepted_wallet_client_ids iss) (iss_credential_issuer_identifier iss) = Ok (snd k)"
    and crates: "vc_mdoc env = ie_mdoc ienv"
  obtains resp m where "verify_pop_and_sign_attestation ienv iss (ci_random ci i) (ci_signed ci i) nonce
      \<lparr>crq_format = MsoMdoc, crq_doctype = Some (um_doc_type (preview_unsigned p)), crq_proof = Some pr\<rparr> (preview_unsigned p) = Ok resp"
    "into_mdoc env kt (win_mdoc_clock wi j) resp (fst k) (snd k) p anchors = Ok m"
proof -
  let ?u = "preview_unsigned p"
  from issuable obtain kp t where kp: "iss_private_keys iss (um_doc_type ?u) = Some kp" "kp_certificate kp = preview_issuer p"
    and u: "unsigned_wf ?u" and t: "parse_from_rfc3339 (vc_mdoc env) (um_valid_until ?u) = Some t" "win_mdoc_clock wi j 1 \<le> t"
    and i: "trusted_issuer (vc_mdoc env) kp (win_mdoc_clock wi j) anchors"
    and sign: "\<And>ck. CoseKey_try_from (vc_crypto env) (snd k) = Ok ck \<Longrightarrow>
      \<exists>s. IssuerSigned_sign (vc_mdoc env) (ci_random ci i) (ci_signed ci i) ?u ck kp = Ok s"
    using k(1) unfolding preview_issuable_def Let_def by blast
  obtain ck where ck: "CoseKey_try_from (vc_crypto env) (snd k) = Ok ck" using curve_point_cose_key [OF k(2)] by blast
  obtain s where s: "IssuerSigned_sign (vc_mdoc env) (ci_random ci i) (ci_signed ci i) ?u ck kp = Ok s" using sign [OF ck] by blast
  have "verify_pop_and_sign_attestation ienv iss (ci_random ci i) (ci_signed ci i) nonce
      \<lparr>crq_format = MsoMdoc, crq_doctype = Some (um_doc_type ?u), crq_proof = Some pr\<rparr> ?u = Ok (RespMsoMdoc s)"
    using pop ck s kp(1) crates by (simp add: verify_pop_and_sign_attestation_def)
  moreover from signed_mdoc_accepted [OF s u i codec t, of kt "fst k"] obtain m where
    m: "Mdoc_new (vc_mdoc env) kt (fst k) s (win_mdoc_clock wi j) anchors = Ok m" "compare_unsigned m ?u = Ok ()"
      "IssuerSigned_public_key (vc_mdoc env) s = map_err Crypto (VerifyingKey_try_from (vc_crypto env) ck)"
      "signing_cert (is_issuer_auth s) = Ok (kp_certificate kp)" by blast
  have "\<not> l < ATTR_RANDOM_LENGTH" if "min_random_length s = Some l" for l
  proof (rule min_random_length_mem [OF that])
    fix ns n items item
    assume a: "is_name_spaces s = Some ns" "(n, items) \<in> set ns" "item \<in> set items" "l = length (isi_random item)"
    have "distinct (map fst (um_attributes ?u))" using u by (simp add: unsigned_wf_def)
    from issued_randoms [OF s this a(1-3)] obtain k where "isi_random item = ci_random ci i n k" by blast
    then show ?thesis using random [of i n k] a(4) by (simp add: ATTR_RANDOM_LENGTH_def)
  qed
  then have "into_mdoc env kt (win_mdoc_clock wi j) (RespMsoMdoc s) (fst k) (snd k) p anchors = Ok m"
    using m kp(2) cose_key_roundtrip [OF k(2) ck] by (auto simp: into_mdoc_def Let_def split: option.splits)
  ultimately show thesis by (rule that)
qed

lemma into_mdoc_copies_total:
  assumes "list_all2 (\<lambda>(i, resp, pk, key_id) p. \<exists>m. into_mdoc env kt (time i) resp key_id pk p anchors = Ok m) queue (offered_copies previews)"
  shows "\<exists>copies. into_mdoc_copies env kt time anchors previews queue = Ok copies"
  using assms
proof (induction previews arbitrary: queue)
  case (Cons p ps)
  let ?n = "copy_count p"
  let ?P = "\<lambda>(i, resp, pk, key_id) p. \<exists>m. into_mdoc env kt (time i) resp key_id pk p anchors = Ok m"
  from Cons.prems obtain q1 q2 where q: "queue = q1 @ q2" "list_all2 ?P q1 (replicate ?n p)" "list_all2 ?P q2 (offered_copies ps)"
    by (auto simp: list_all2_append2)
  have n: "length q1 = ?n" using list_all2_lengthD [OF q(2)] by simp
  have "\<exists>ms. res_map (\<lambda>(i, resp, pk, key_id). into_mdoc env kt (time i) resp key_id pk p anchors) q1 = Ok ms"
    by (rule res_map_total) (use q(2) in \<open>auto simp: list_all2_conv_all_nth in_set_conv_nth split: prod.splits\<close>)
  then show ?case using Cons.IH [OF q(3)] n by (auto simp: q(1))
qed simp

lemma new_multiple_verify:
  assumes crates: "vc_mdoc env = ie_mdoc ienv" "vc_jose env = ie_jose ienv" "jose_ok (vc_crypto env) (vc_jose env)"
    and keys: "session_keys_ok env wi kf count keys" and client: "client \<in> set ids"
  obtains kps where "CredentialRequestProof_new_multiple env now nonce client identifier (of_nat count) kf = Ok kps"
    "list_all2 (\<lambda>k (k', pr). k' = k \<and> CredentialRequestProof_verify ienv pr nonce ids identifier = Ok (snd k)) keys kps"
proof -
  let ?c = "vc_crypto env" and ?jo = "vc_jose env"
  let ?p = "\<lparr>pj_iss = client, pj_aud = identifier, pj_nonce = Some nonce, pj_iat = now\<rparr>"
  from keys have k: "kf_generate_new_multiple kf (of_nat count) = Some keys" "factory_signs ?c (kf_sign_multiple kf) (set keys)"
    "\<And>k. k \<in> set keys \<Longrightarrow> kf_verifying_key kf k = Some (snd k) \<and> curve_point ?c (snd k)" by (auto simp: session_keys_ok_def)
  define header where "header k = (case jwk_jwt_header ?c ?jo OPENID4VCI_VC_POP_JWT_TYPE (Some (snd k)) of Ok h \<Rightarrow> h)" for k :: "string \<times> verifying_key"
  have h: "jwk_jwt_header ?c ?jo OPENID4VCI_VC_POP_JWT_TYPE (Some (snd k)) = Ok (header k)" if "k \<in> set keys" for k
    by (rule jwk_jwt_header_Ok [OF crates(3), of "snd k" OPENID4VCI_VC_POP_JWT_TYPE]) (use k(3) [OF that] in \<open>simp_all add: header_def\<close>)
  let ?kms = "map (\<lambda>k. (k, (?p, header k))) keys"
  have "res_map (\<lambda>privkey. res_bind (map_err SessJwkConversion (jwk_jwt_header ?c ?jo OPENID4VCI_VC_POP_JWT_TYPE
        (kf_verifying_key kf privkey))) (\<lambda>header. Ok (privkey, (?p, header)))) ks = Ok (map (\<lambda>k. (k, (?p, header k))) ks)"
    if "set ks \<subseteq> set keys" for ks
    using that by (induction ks) (auto simp: k(3) h)
  then have kms: "res_map (\<lambda>privkey. res_bind (map_err SessJwkConversion (jwk_jwt_header ?c ?jo OPENID4VCI_VC_POP_JWT_TYPE
        (kf_verifying_key kf privkey))) (\<lambda>header. Ok (privkey, (?p, header)))) keys = Ok ?kms" by blast
  have "fst ` set ?kms \<subseteq> set keys" by force
  from sign_jwts_verify [OF crates(3) jose_okD(4) [OF crates(3)] k(2) this] obtain kjs where
    kjs: "sign_jwts ?jo (jo_pop_to_json ?jo) ?kms (kf_sign_multiple kf) = Ok kjs"
    "list_all2 (\<lambda>(k, p, h) (k', j). k' = k \<and> token_signed ?c ?jo (jo_pop_to_json ?jo) (snd k) p h j) ?kms kjs" .
  have verified: "CredentialRequestProof_verify ienv (ProofJwt j) nonce ids identifier = Ok (snd k)"
    if "k \<in> set keys" "token_signed ?c ?jo (jo_pop_to_json ?jo) (snd k) ?p (header k) j" for k j
    by (rule CredentialRequestProof_verifies [where h = "header k" and p = ?p])
      (use that crates h [OF that(1)] k(3) [OF that(1)] client in simp_all)
  have "list_all2 (\<lambda>k (k', pr). k' = k \<and> CredentialRequestProof_verify ienv pr nonce ids identifier = Ok (snd k)) keys
      (map (\<lambda>(key, jwt). (key, ProofJwt jwt)) kjs)"
    using kjs(2) verified by (auto simp: list_all2_conv_all_nth split_beta)
  moreover have "CredentialRequestProof_new_multiple env now nonce client identifier (of_nat count) kf =
      Ok (map (\<lambda>(key, jwt). (key, ProofJwt jwt)) kjs)"
    using k(1) kms kjs(1) by (simp add: CredentialRequestProof_new_multiple_def Let_def)
  ultimately show thesis by (intro that)
qed

lemma credential_requests_for_copies:
  assumes "list_all2 (\<lambda>k (k', pr). k' = k \<and> P k pr) keys kps" "length doctypes = length keys"
    and "\<And>k. k \<in> set keys \<Longrightarrow> kf_verifying_key kf k = Some (snd k)"
  shows "credential_requests_for kf kps doctypes = Ok (map (\<lambda>((k, pr), d).
    ((snd k, fst k), \<lparr>crq_format = MsoMdoc, crq_doctype = Some d, crq_proof = Some pr\<rparr>)) (zip kps doctypes))"
proof -
  have "kf_verifying_key kf k = Some (snd k)" if "((k, pr), d) \<in> set (zip kps doctypes)" for k pr d
  proof -
    from that have "(k, pr) \<in> set kps" by (rule set_zip_leftD)
    with assms(1) have "k \<in> set keys" by (induction rule: list_all2_induct) auto
    then show ?thesis by (rule assms(3))
  qed
  then show ?thesis unfolding credential_requests_for_def res_map_eq_Ok list_all2_map2 list_all2_same by auto
qed

text \<open>The attestations of a session in order: for each copy, the issuer signs and the wallet accepts.\<close>

lemma copies_issued:
  assumes crates: "vc_mdoc env = ie_mdoc ienv" and codec: "mso_roundtrips (vc_mdoc env)"
    and issuable: "\<And>p. p \<in> set previews \<Longrightarrow> preview_issuable env wi iss ci keys anchors p"
    and random: "\<And>i n j. 32 \<le> length (ci_random ci i n j)"
    and keys: "length keys = length (offered_copies previews)" "\<And>k. k \<in> set keys \<Longrightarrow> curve_point (vc_crypto env) (snd k)"
    and kps: "list_all2 (\<lambda>k (k', pr). k' = k \<and> CredentialRequestProof_verify ienv pr nonce (iss_accepted_wallet_client_ids iss)
      (iss_credential_issuer_identifier iss) = Ok (snd k)) keys kps"
  defines "krs \<equiv> map (\<lambda>((k, pr), d). ((snd k, fst k), \<lparr>crq_format = MsoMdoc, crq_doctype = Some d, crq_proof = Some pr\<rparr>))
    (zip kps (map (\<lambda>p. um_doc_type (preview_unsigned p)) (offered_copies previews)))"
  obtains resps where "length resps = length krs"
    "res_map (\<lambda>(i, cred_req, unsigned_doc). verify_pop_and_sign_attestation ienv iss (ci_random ci i) (ci_signed ci i) nonce cred_req unsigned_doc)
       (List.enumerate 0 (zip (map snd krs) (map preview_unsigned (offered_copies previews)))) = Ok resps"
    "list_all2 (\<lambda>(i, resp, pk, key_id) p. \<exists>m. into_mdoc env kt (win_mdoc_clock wi i) resp key_id pk p anchors = Ok m)
      (List.enumerate 0 (zip resps (map fst krs))) (offered_copies previews)"
proof -
  let ?offers = "offered_copies previews" and ?sign = "\<lambda>i. verify_pop_and_sign_attestation ienv iss (ci_random ci i) (ci_signed ci i) nonce"
  have l: "length kps = length keys" using kps by (simp add: list_all2_lengthD)
  then have n: "length krs = length ?offers" using keys(1) by (simp add: krs_def)
  have kr: "krs ! i = ((snd (keys ! i), fst (keys ! i)), \<lparr>crq_format = MsoMdoc, crq_doctype = Some (um_doc_type (preview_unsigned (?offers ! i))),
      crq_proof = Some (snd (kps ! i))\<rparr>)" if "i < length ?offers" for i
    using that l keys(1) list_all2_nthD [OF kps, of i] by (auto simp: krs_def split_beta)
  have "\<exists>resp m. ?sign i (snd (krs ! i)) (preview_unsigned (?offers ! i)) = Ok resp \<and>
      into_mdoc env kt (win_mdoc_clock wi i) resp (fst (keys ! i)) (snd (keys ! i)) (?offers ! i) anchors = Ok m" if i: "i < length ?offers" for i
  proof -
    have k: "keys ! i \<in> set keys" using i keys(1) by simp
    have p: "?offers ! i \<in> set previews" using i offered_copies_subset nth_mem by blast
    have "CredentialRequestProof_verify ienv (snd (kps ! i)) nonce (iss_accepted_wallet_client_ids iss)
        (iss_credential_issuer_identifier iss) = Ok (snd (keys ! i))"
      using list_all2_nthD [OF kps, of i] i keys(1) by (simp add: split_beta)
    from issued_copy_accepted [OF issuable [OF p] k keys(2) [OF k] codec random this crates, of i kt i] show ?thesis
      unfolding kr [OF i] by (metis snd_conv)
  qed
  then obtain resp where resp: "\<And>i. i < length ?offers \<Longrightarrow> ?sign i (snd (krs ! i)) (preview_unsigned (?offers ! i)) = Ok (resp i)"
    "\<And>i. i < length ?offers \<Longrightarrow> \<exists>m. into_mdoc env kt (win_mdoc_clock wi i) (resp i) (fst (keys ! i)) (snd (keys ! i)) (?offers ! i) anchors = Ok m"
    by metis
  let ?resps = "map resp [0..<length ?offers]"
  show thesis
  proof (rule that)
    show "length ?resps = length krs" by (simp add: n)
    show "res_map (\<lambda>(i, cred_req, unsigned_doc). ?sign i cred_req unsigned_doc)
        (List.enumerate 0 (zip (map snd krs) (map preview_unsigned ?offers))) = Ok ?resps"
      unfolding res_map_eq_Ok by (rule list_all2_all_nthI) (simp_all add: n nth_enumerate_eq resp(1) del: offered_copies_simps)
    show "list_all2 (\<lambda>(i, resp, pk, key_id) p. \<exists>m. into_mdoc env kt (win_mdoc_clock wi i) resp key_id pk p anchors = Ok m)
        (List.enumerate 0 (zip ?resps (map fst krs))) ?offers"
      by (rule list_all2_all_nthI) (simp_all add: n nth_enumerate_eq kr resp(2) del: offered_copies_simps)
  qed
qed

lemma session_accepts:
  assumes wire: "issuance_wire_ok sv env" and started: "issuer_started sv env state server_url"
    and crates: "vc_mdoc env = ie_mdoc (sv_issuer sv)" "vc_jose env = ie_jose (sv_issuer sv)" "jose_ok (vc_crypto env) (vc_jose env)"
    and codec: "mso_roundtrips (vc_mdoc env)"
    and store: "issuer_store_faithful (sv_issuer sv)" "issuer_valid (sv_issuer sv) s" "issuer_view (sv_issuer sv) s code = Some x"
      "ss_data x = IssuanceWaiting (opened_session ti code previews pub)"
    and ti: "token_inputs_ok ti code" and key: "working_key (vc_crypto env) (win_dpop_key wi) pub"
    and client: "NL_WALLET_CLIENT_ID \<in> set (iss_accepted_wallet_client_ids (as_data state))"
    and issuable: "\<And>p. p \<in> set previews \<Longrightarrow> preview_issuable env wi (as_data state) (rin_credential (ins (Suc n))) keys anchors p"
    and random: "\<And>i n' j. 32 \<le> length (ci_random (rin_credential (ins (Suc n))) i n' j)"
    and keys: "session_keys_ok env wi kf (sum_list (map copy_count previews)) keys" "sum_list (map copy_count previews) \<noteq> 0"
  defines "w \<equiv> opened_session ti code previews pub"
  obtains copies s' where "accept_issuance (issuance_connected sv state ins env) wi (wallet_session wi (issuer_url state) w) anchors kf
      (issuer_url state) (n, s) = (Ok copies, (n + 2, s'))"
    "map length copies = map copy_count previews"
    "issuer_view (sv_issuer sv) s' code = Some (SessionState_new (ci_transition (rin_credential (ins (Suc n)))) code
       (IssuanceDone \<lparr>idn_session_result = IssuanceSucceeded\<rparr>))"
proof -
  let ?env = "issuance_connected sv state ins env" and ?iss = "as_data state" and ?ci = "rin_credential (ins (Suc n))"
  let ?offers = "offered_copies previews" and ?tok = "AccessToken_new (ti_access_random ti) code"
  let ?doctypes = "map (\<lambda>p. um_doc_type (preview_unsigned p)) ?offers"
  obtain batch where b: "joined_url (vc_urls env) (issuer_url state) ''batch_credential'' = Some batch" "sv_path sv batch = ''/batch_credential''"
    "cfg_batch_credential_endpoint (imd_issuer_config (as_metadata state)) = Some batch"
    "iss_credential_issuer_identifier ?iss = issuer_url state" "vc_urls env = ie_urls (sv_issuer sv)"
    by (rule issuer_startedD [OF started])
  have k: "length keys = length ?offers" "\<And>k. k \<in> set keys \<Longrightarrow> kf_verifying_key kf k = Some (snd k) \<and> curve_point (vc_crypto env) (snd k)"
    using keys by (auto simp: session_keys_ok_def)
  have c: "vc_mdoc ?env = ie_mdoc (sv_issuer sv)" "vc_jose ?env = ie_jose (sv_issuer sv)" "jose_ok (vc_crypto ?env) (vc_jose ?env)"
    "session_keys_ok ?env wi kf (sum_list (map copy_count previews)) keys"
    using crates keys(1) by (simp_all add: session_keys_ok_def)
  obtain kps where kps: "CredentialRequestProof_new_multiple ?env (win_now wi 2) (ti_c_nonce ti) NL_WALLET_CLIENT_ID (issuer_url state)
      (of_nat (length ?offers)) kf = Ok kps"
    "list_all2 (\<lambda>k (k', pr). k' = k \<and> CredentialRequestProof_verify (sv_issuer sv) pr (ti_c_nonce ti) (iss_accepted_wallet_client_ids ?iss)
      (iss_credential_issuer_identifier ?iss) = Ok (snd k)) keys kps"
    using new_multiple_verify [OF c client, of "win_now wi 2" "ti_c_nonce ti" "issuer_url state"] b(4) by auto
  define krs where "krs = map (\<lambda>((k, pr), d). ((snd k, fst k), \<lparr>crq_format = MsoMdoc, crq_doctype = Some d, crq_proof = Some pr\<rparr>))
    (zip kps ?doctypes)"
  have krs: "credential_requests_for kf kps ?doctypes = Ok krs"
    unfolding krs_def by (rule credential_requests_for_copies [OF kps(2)]) (use k in simp_all)
  have "length krs = sum_list (map copy_count previews)" using k(1) list_all2_lengthD [OF kps(2)] by (simp add: krs_def)
  then have ne: "map snd krs \<noteq> []" using keys(2) by (metis list.map_disc_iff list.size(3))
  have issuable': "preview_issuable ?env wi ?iss ?ci keys anchors p" if "p \<in> set previews" for p
    using issuable [OF that] by (simp add: preview_issuable_def)
  obtain resps where resps: "length resps = length krs"
    "res_map (\<lambda>(i, cred_req, unsigned_doc). verify_pop_and_sign_attestation (sv_issuer sv) ?iss (ci_random ?ci i) (ci_signed ?ci i) (ti_c_nonce ti)
        cred_req unsigned_doc) (List.enumerate 0 (zip (map snd krs) (map preview_unsigned ?offers))) = Ok resps"
    "list_all2 (\<lambda>(i, resp, pk, key_id) p. \<exists>m. into_mdoc ?env (kf_key_type kf) (win_mdoc_clock wi i) resp key_id pk p anchors = Ok m)
      (List.enumerate 0 (zip resps (map fst krs))) ?offers"
    by (rule copies_issued [where env = ?env and kt = "kf_key_type kf", OF c(1) _ issuable' random k(1) _ kps(2), folded krs_def])
      (use codec k(2) in simp_all)
  obtain d where d: "Dpop_new (vc_crypto env) (vc_jose env) (win_jti wi 1) (win_now wi 1) (win_dpop_key wi) batch ''POST'' (Some ?tok)
      (Some (ti_dpop_nonce ti)) = Ok d"
    "Dpop_verify_expecting_key (vc_crypto env) (vc_jose env) d pub batch ''POST'' (Some ?tok) (Some (ti_dpop_nonce ti)) = Ok ()"
    by (rule Dpop_new_verifies [OF crates(3) key]) auto
  have "check_authorization (sv_issuer sv) w ?tok d (iss_server_url ?iss) ''batch_credential'' ''POST'' = Ok ()"
    using b(1,5) d(2) crates by (simp add: check_authorization_Ok w_def opened_session_def)
  then have inner: "process_batch_credential_inner (sv_issuer sv) ?iss ?ci w (map snd krs) ?tok d = Ok resps"
    using resps(2) by (simp add: process_batch_credential_inner_def w_def opened_session_def)
  have code: "AccessToken_code ?tok = Some code" using ti header_text_start by (intro access_token_code) (auto simp: token_inputs_ok_def)
  obtain s' where s': "process_batch_credential (sv_issuer sv) ?iss ?ci ?tok d (map snd krs) s = (Ok resps, s')"
    "issuer_view (sv_issuer sv) s' = (issuer_view (sv_issuer sv) s)(code \<mapsto>
       SessionState_new (ci_transition ?ci) code (IssuanceDone \<lparr>idn_session_result = IssuanceSucceeded\<rparr>))"
    by (rule batch_request_answered [OF store(1-3) store(4) [folded w_def] code inner])
  have "header_text ?tok" using ti by (simp add: token_inputs_ok_def AccessToken_new_def)
  from request_credentials_served [where ins = ins and n = "Suc n", OF wire b(2) Dpop_header_text [OF wire d(1)] this ne s'(1)]
  have r: "request_credentials ?env batch (map snd krs) d (''DPoP '' @ ?tok) (Suc n, s) = (Ok resps, (Suc (Suc n), s'))" .
  obtain copies where copies: "into_mdoc_copies ?env (kf_key_type kf) (win_mdoc_clock wi) anchors previews
      (List.enumerate 0 (zip resps (map fst krs))) = Ok copies"
    using into_mdoc_copies_total [OF resps(3)] by blast
  have "map length copies = map copy_count previews"
    using conjunct1 [OF into_mdoc_copies_Ok [OF copies]] by (induction rule: list_all2_induct) auto
  moreover have "accept_issuance ?env wi (wallet_session wi (issuer_url state) w) anchors kf (issuer_url state) (n, s) = (Ok copies, (n + 2, s'))"
    using kps(1) krs ne d(1) r resps(1) copies well_known_served(1) [OF started, of ins n s] b(3)
    by (simp add: accept_issuance_def wallet_session_def w_def opened_session_def discover_batch_credential_endpoint_def auth_headers_def
        nonempty_def numeral_2_eq_2)
  moreover have "issuer_view (sv_issuer sv) s' code = Some (SessionState_new (ci_transition ?ci) code
      (IssuanceDone \<lparr>idn_session_result = IssuanceSucceeded\<rparr>))" unfolding s'(2) by (rule fun_upd_same)
  ultimately show thesis by (intro that)
qed

section \<open>A complete session\<close>

text \<open>
  The conditions under which an issuance session completes, apart from those on the crates: the attribute service knows
  the code, says where tokens are handed out, and offers attestations for which the issuer has a key under a certificate
  that the wallet trusts; the wallet's keys work, and the issuer accepts the client ID of the wallet.
\<close>

definition issuance_can_complete ::
  "'a server_env \<Rightarrow> (nat \<times> issuance_store) vc_env \<Rightarrow> application_state \<Rightarrow> (nat \<Rightarrow> 'a server_inputs) \<Rightarrow> nat \<Rightarrow> wallet_inputs
     \<Rightarrow> token_request \<Rightarrow> trust_anchor list \<Rightarrow> attestation_key_factory \<Rightarrow> attestation_preview list \<Rightarrow> bool" where
  "issuance_can_complete sv env state ins n wi req anchors kf previews \<longleftrightarrow>
     (\<exists>code cfg keys. tr_grant_type req = PreAuthorizedCode code \<and> token_inputs_ok (rin_token (ins (n + 2))) code \<and>
       rin_oauth_metadata (ins (n + 1)) (issuer_url state) = Ok cfg \<and>
       joined_url (vc_urls env) (issuer_url state) ''token'' = Some (oc_token_endpoint cfg) \<and> oauth_readable sv env cfg \<and>
       ti_attributes (rin_token (ins (n + 2))) (SessionState_new (ti_created (rin_token (ins (n + 2)))) code
         \<lparr>ic_attestation_previews = None\<rparr>) req = Ok previews \<and>
       NL_WALLET_CLIENT_ID \<in> set (iss_accepted_wallet_client_ids (as_data state)) \<and>
       (\<forall>p\<in>set previews. preview_issuable env wi (as_data state) (rin_credential (ins (n + 4))) keys anchors p) \<and>
       (\<forall>i n' j. 32 \<le> length (ci_random (rin_credential (ins (n + 4))) i n' j)) \<and>
       session_keys_ok env wi kf (sum_list (map copy_count previews)) keys \<and> sum_list (map copy_count previews) \<noteq> 0)"

lemma issuance_runs:
  assumes "issuance_wire_ok sv env" "issuer_started sv env state server_url"
    and "vc_mdoc env = ie_mdoc (sv_issuer sv)" "vc_jose env = ie_jose (sv_issuer sv)" "jose_ok (vc_crypto env) (vc_jose env)"
    and "mso_roundtrips (vc_mdoc env)"
    and "issuer_store_faithful (sv_issuer sv)" "issuer_valid (sv_issuer sv) s" "issuer_view (sv_issuer sv) s (TokenRequest_code req) = None"
    and "issuance_can_complete sv env state ins n wi req anchors kf previews"
  obtains st s1 copies s2 where
    "start_issuance (issuance_connected sv state ins env) wi (issuer_url state) req anchors (n, s) = (Ok (st, previews), (n + 3, s1))"
    "accept_issuance (issuance_connected sv state ins env) wi st anchors kf (issuer_url state) (n + 3, s1) = (Ok copies, (n + 5, s2))"
    "map length copies = map copy_count previews"
    "issuer_view (sv_issuer sv) s2 (TokenRequest_code req) = Some (SessionState_new (ci_transition (rin_credential (ins (n + 4))))
       (TokenRequest_code req) (IssuanceDone \<lparr>idn_session_result = IssuanceSucceeded\<rparr>))"
proof -
  let ?env = "issuance_connected sv state ins env" and ?ti = "rin_token (ins (n + 2))"
  from assms(10) obtain code cfg keys where code: "tr_grant_type req = PreAuthorizedCode code" and ti: "token_inputs_ok ?ti code"
    and oauth: "rin_oauth_metadata (ins (Suc n)) (issuer_url state) = Ok cfg"
      "joined_url (vc_urls env) (issuer_url state) ''token'' = Some (oc_token_endpoint cfg)" "oauth_readable sv env cfg"
    and offer: "ti_attributes ?ti (SessionState_new (ti_created ?ti) code \<lparr>ic_attestation_previews = None\<rparr>) req = Ok previews"
    and client: "NL_WALLET_CLIENT_ID \<in> set (iss_accepted_wallet_client_ids (as_data state))"
    and issuable: "\<And>p. p \<in> set previews \<Longrightarrow> preview_issuable env wi (as_data state) (rin_credential (ins (Suc (n + 3)))) keys anchors p"
    and random: "\<And>i n' j. 32 \<le> length (ci_random (rin_credential (ins (Suc (n + 3)))) i n' j)"
    and keys: "session_keys_ok env wi kf (sum_list (map copy_count previews)) keys" "sum_list (map copy_count previews) \<noteq> 0"
    unfolding issuance_can_complete_def by (auto simp: numeral_eq_Suc)
  have c: "TokenRequest_code req = code" using code by (simp add: TokenRequest_code_def)
  obtain pub where pub: "working_key (vc_crypto env) (win_dpop_key wi) pub" using keys(1) by (auto simp: session_keys_ok_def)
  have certs: "Certificate_verify (vc_crypto env) (preview_issuer p) Mdl [] (win_certificate_clock wi i) anchors = Ok ()"
    if "p \<in> set previews" for i p
    using issuable [OF that] by (auto simp: preview_issuable_def Let_def)
  let ?w = "opened_session ?ti code previews pub"
  obtain s1 where s1: "start_issuance ?env wi (issuer_url state) req anchors (n, s) = (Ok (wallet_session wi (issuer_url state) ?w, previews), (n + 3, s1))"
    "issuer_valid (sv_issuer sv) s1"
    "issuer_view (sv_issuer sv) s1 code = Some (SessionState_new (ti_transition ?ti) code (IssuanceWaiting ?w))"
    by (rule session_opens [where ins = ins and n = n, OF assms(1-5,7,8) assms(9) [unfolded c] oauth code ti offer certs pub])
  have d: "ss_data (SessionState_new (ti_transition ?ti) code (IssuanceWaiting ?w)) = IssuanceWaiting ?w" by (simp add: SessionState_new_def)
  obtain copies s2 where s2: "accept_issuance ?env wi (wallet_session wi (issuer_url state) ?w) anchors kf (issuer_url state) (n + 3, s1) =
      (Ok copies, (n + 3 + 2, s2))" "map length copies = map copy_count previews"
    "issuer_view (sv_issuer sv) s2 code = Some (SessionState_new (ci_transition (rin_credential (ins (Suc (n + 3))))) code
       (IssuanceDone \<lparr>idn_session_result = IssuanceSucceeded\<rparr>))"
    by (rule session_accepts [where ins = ins and n = "n + 3", OF assms(1-7) s1(2,3) d ti pub client issuable random keys])
  have "n + 3 + 2 = n + 5" "Suc (n + 3) = n + 4" by simp_all
  with s1(1) s2 that show thesis unfolding c by metis
qed

text \<open>
  C9: A wallet that starts an issuance session with an issuer over a working connection is offered what the attribute service
  answers, and when its user accepts, it ends up with as many mdocs of each attestation as were offered, all of which it
  accepts; the issuer keeps the session as a success. Each side reads what the other writes, the issuer was set up by
  its constructor, its store keeps what it is given and has no session under the code yet.
\<close>

theorem issuance_completes:
  assumes "issuance_wire_ok sv env" "issuer_started sv env state server_url"
    and "vc_mdoc env = ie_mdoc (sv_issuer sv)" "vc_jose env = ie_jose (sv_issuer sv)" "jose_ok (vc_crypto env) (vc_jose env)"
    and "mso_roundtrips (vc_mdoc env)"
    and "issuer_store_faithful (sv_issuer sv)" "issuer_valid (sv_issuer sv) s" "issuer_view (sv_issuer sv) s (TokenRequest_code req) = None"
    and "issuance_can_complete sv env state ins n wi req anchors kf previews"
  shows "\<exists>st s1 copies s2 x.
    start_issuance (issuance_connected sv state ins env) wi (issuer_url state) req anchors (n, s) = (Ok (st, previews), (n + 3, s1)) \<and>
    accept_issuance (issuance_connected sv state ins env) wi st anchors kf (issuer_url state) (n + 3, s1) = (Ok copies, (n + 5, s2)) \<and>
    map length copies = map copy_count previews \<and>
    issuer_view (sv_issuer sv) s2 (TokenRequest_code req) = Some x \<and>
    ss_data x = IssuanceDone \<lparr>idn_session_result = IssuanceSucceeded\<rparr>"
  by (rule issuance_runs [OF assms]) (auto simp: SessionState_new_def)

section \<open>An issuance session for examples\<close>

instance token_request_grant_type :: countable
  by countable_datatype

instance token_request_ext :: (countable) countable
  by (rule countable_by [of "\<lambda>r. (tr_grant_type r, tr_code_verifier r, tr_client_id r, tr_redirect_uri r, token_request.more r)"]) simp

instance credential_request_proof :: countable
  by countable_datatype

instance credential_request_ext :: (countable) countable
  by (rule countable_by [of "\<lambda>r. (crq_format r, crq_doctype r, crq_proof r, credential_request.more r)"]) simp

instance credential_response :: countable
  by countable_datatype

definition demo_issuer_url :: url where
  "demo_issuer_url = ''s/issuance/''"

definition demo_application_state :: application_state where
  "demo_application_state = \<lparr>as_data = demo_issuer_data\<lparr>iss_credential_issuer_identifier := demo_issuer_url, iss_server_url := demo_issuer_url\<rparr>,
     as_metadata = (case IssuerMetadata_new demo_urls ''s/'' :: (_, unit) res of Ok m \<Rightarrow> m)\<rparr>"

definition demo_oidc_config :: oidc_config where
  "demo_oidc_config = \<lparr>oc_issuer = demo_issuer_url, oc_authorization_endpoint = demo_issuer_url, oc_token_endpoint = ''s/issuance/token'',
     oc_userinfo_endpoint = None, oc_jwks_uri = demo_issuer_url, oc_registration_endpoint = None, oc_scopes_supported = None,
     oc_response_types_supported = [], oc_response_modes_supported = None, oc_grant_types_supported = None,
     oc_acr_values_supported = None, oc_subject_types_supported = [], oc_id_token_signing_alg_values_supported = [],
     oc_id_token_encryption_alg_values_supported = None, oc_id_token_encryption_enc_values_supported = None,
     oc_userinfo_signing_alg_values_supported = None, oc_userinfo_encryption_alg_values_supported = None,
     oc_userinfo_encryption_enc_values_supported = None, oc_request_object_signing_alg_values_supported = None,
     oc_request_object_encryption_alg_values_supported = None, oc_request_object_encryption_enc_values_supported = None,
     oc_token_endpoint_auth_methods_supported = None, oc_token_endpoint_auth_signing_alg_values_supported = None,
     oc_display_values_supported = None, oc_claim_types_supported = None, oc_claims_supported = None,
     oc_service_documentation = None, oc_claims_locales_supported = None, oc_ui_locales_supported = None,
     oc_claims_parameter_supported = False, oc_request_parameter_supported = False, oc_request_uri_parameter_supported = False,
     oc_require_request_uri_registration = False, oc_op_policy_uri = None, oc_op_tos_uri = None, oc_code_challenge_methods_supported = None\<rparr>"

definition demo_server_env :: "unit server_env" where
  "demo_server_env = \<lparr>sv_issuer = demo_issuer_env, sv_path = drop 10, sv_header_to_str = Some \<circ> decode, sv_header_from_str = Some \<circ> encode,
     sv_scheme_matches = (\<lambda>scheme b. take (length scheme) (decode b) = scheme),
     sv_rejection = \<lparr>hs_status = 400, hs_dpop_nonce = [], hs_body = []\<rparr>, sv_not_found = \<lparr>hs_status = 404, hs_dpop_nonce = [], hs_body = []\<rparr>,
     sv_json_failure = \<lparr>hs_status = 500, hs_dpop_nonce = [], hs_body = []\<rparr>,
     sv_token_request = Some \<circ> text_decode, sv_credential_request = Some \<circ> text_decode, sv_credential_requests = Some \<circ> text_decode,
     sv_token_response_json = (\<lambda>r. Some (text_encode (tk_access_token (tp_token_response r), tk_c_nonce (tp_token_response r), tp_attestation_previews r))),
     sv_credential_response_json = Some \<circ> text_encode, sv_credential_responses_json = Some \<circ> text_encode,
     sv_metadata_json = (\<lambda>_. Some []), sv_oidc_config_json = (\<lambda>_. Some []), sv_token_error_json = (\<lambda>_. None),
     sv_credential_error_json = (\<lambda>_. None), sv_metadata_error_json = (\<lambda>_. None), sv_attribute_error_to_string = (\<lambda>_. [])\<rparr>"

definition demo_vc_env :: "(nat \<times> issuance_store) vc_env" where
  "demo_vc_env = \<lparr>vc_mdoc = demo_mdoc_env, vc_jose = demo_jose demo_crypto, vc_urls = demo_urls, vc_http = (\<lambda>w _. (None, w)),
     vc_header_from_str = Some \<circ> encode, vc_header_to_str = Some \<circ> decode, vc_token_request_form = Some \<circ> text_encode,
     vc_credential_requests_json = Some \<circ> text_encode,
     vc_token_response = (\<lambda>s. case text_decode s of (tok, nonce, previews) \<Rightarrow>
       Some \<lparr>tp_token_response = TokenResponse_new tok (the nonce), tp_attestation_previews = previews\<rparr>),
     vc_credential_responses = Some \<circ> text_decode, vc_token_error = (\<lambda>_. None), vc_credential_error = (\<lambda>_. None),
     vc_metadata = (\<lambda>_. Some (as_metadata demo_application_state)), vc_oidc_config = (\<lambda>_. Some demo_oidc_config)\<rparr>"

definition demo_server_inputs :: "nat \<Rightarrow> unit server_inputs" where
  "demo_server_inputs n = \<lparr>rin_token = demo_token_inputs, rin_credential = demo_credential_inputs, rin_oauth_metadata = (\<lambda>_. Ok demo_oidc_config)\<rparr>"

definition demo_wallet_inputs :: wallet_inputs where
  "demo_wallet_inputs = \<lparr>win_dpop_key = demo_dpop_key, win_jti = (\<lambda>_. []), win_now = (\<lambda>_. 0), win_certificate_clock = (\<lambda>_. 0),
     win_mdoc_clock = (\<lambda>_ _. 0)\<rparr>"

definition demo_attestation_keys :: "(string \<times> verifying_key) list" where
  "demo_attestation_keys = [(''k'', demo_device_key), (''l'', demo_device_key)]"

definition demo_key_factory :: attestation_key_factory where
  "demo_key_factory = \<lparr>kf_generate_new_multiple = (\<lambda>n. if n = 2 then Some demo_attestation_keys else None), kf_verifying_key = (\<lambda>k. Some (snd k)),
     kf_sign_multiple = demo_factory, kf_key_type = Remote\<rparr>"

lemma demo_issuance_wire_ok: "issuance_wire_ok demo_server_env demo_vc_env"
  by (simp add: issuance_wire_ok_def demo_server_env_def demo_vc_env_def demo_jose_def TokenResponse_new_def header_text_def text_encode_def [of "_ :: bytes"])

lemma demo_application_state_simps:
  "issuer_url demo_application_state = demo_issuer_url" "iss_credential_issuer_identifier (as_data demo_application_state) = demo_issuer_url"
  "iss_private_keys (as_data demo_application_state) = iss_private_keys demo_issuer_data"
  "iss_accepted_wallet_client_ids (as_data demo_application_state) = [NL_WALLET_CLIENT_ID]"
  by (simp_all add: demo_application_state_def demo_issuer_data_def)

lemma demo_issuer_started: "issuer_started demo_server_env demo_vc_env demo_application_state ''s/''"
proof -
  have "IssuerData_new demo_urls (iss_private_keys demo_issuer_data) ''s/'' [NL_WALLET_CLIENT_ID] = (Ok (as_data demo_application_state) :: (_, unit) res)"
    by (simp add: IssuerData_new_def join_base_url_def BaseUrl_join_joined joined_url_def demo_urls_def demo_application_state_def
        demo_issuer_data_def demo_issuer_url_def)
  moreover have "IssuerMetadata_new demo_urls ''s/'' = (Ok (as_metadata demo_application_state) :: (_, unit) res)"
    by (simp add: IssuerMetadata_new_def join_base_url_def BaseUrl_join_joined joined_url_def demo_urls_def demo_application_state_def)
  ultimately show ?thesis
    by (auto simp: issuer_started_def demo_server_env_def demo_vc_env_def demo_application_state_simps joined_url_def demo_urls_def demo_issuer_url_def)
qed

lemma demo_session_keys_ok: "session_keys_ok demo_vc_env demo_wallet_inputs demo_key_factory 2 demo_attestation_keys"
  using demo_working_key demo_curve_point(1) demo_factory_signs
  by (auto simp: session_keys_ok_def demo_vc_env_def demo_wallet_inputs_def demo_key_factory_def demo_attestation_keys_def)

lemma demo_preview_issuable:
  "preview_issuable demo_vc_env demo_wallet_inputs (as_data demo_application_state) demo_credential_inputs demo_attestation_keys [[9]] demo_preview"
proof -
  have "parse_from_rfc3339 demo_mdoc_env (um_valid_until demo_unsigned) = Some 5" by (simp add: demo_mdoc_env_def demo_unsigned_def)
  moreover have "Certificate_verify demo_crypto [9] Mdl [] t [[9]] = Ok ()" for t
    using demo_trusted_issuer [of "\<lambda>_. t"] by (simp add: trusted_issuer_def demo_issuer_def)
  moreover have "\<exists>s. IssuerSigned_sign demo_mdoc_env (\<lambda>_ _. replicate 32 0) 0 demo_unsigned demo_cose_key demo_issuer = Ok s"
    using demo_signed_random by blast
  ultimately show ?thesis
    unfolding preview_issuable_def Let_def
    by (intro exI [of _ demo_issuer] exI [of _ 5])
      (use demo_trusted_issuer demo_unsigned_wf demo_curve_point(2) in
        \<open>auto simp: demo_vc_env_def demo_preview_def demo_unsigned_def demo_application_state_simps demo_issuer_data_def demo_issuer_def
          demo_wallet_inputs_def demo_credential_inputs_def demo_attestation_keys_def\<close>)
qed

lemma demo_issuance_can_complete:
  "issuance_can_complete demo_server_env demo_vc_env demo_application_state demo_server_inputs 0 demo_wallet_inputs demo_token_request [[9]]
     demo_key_factory [demo_preview]"
proof -
  have count: "sum_list (map copy_count [demo_preview]) = 2" by (simp add: copy_count_def demo_preview_def demo_unsigned_def)
  have ti: "token_inputs_ok demo_token_inputs ''code''" by (simp add: token_inputs_ok_def demo_token_inputs_def header_text_def)
  have url: "joined_url (vc_urls demo_vc_env) demo_issuer_url ''token'' = Some (oc_token_endpoint demo_oidc_config)"
    by (simp add: joined_url_def demo_vc_env_def demo_urls_def demo_issuer_url_def demo_oidc_config_def)
  have "oauth_readable demo_server_env demo_vc_env demo_oidc_config" by (simp add: oauth_readable_def demo_server_env_def demo_vc_env_def)
  with ti url show ?thesis unfolding issuance_can_complete_def count
    by (intro exI [of _ "''code''"] exI [of _ demo_oidc_config] exI [of _ demo_attestation_keys])
      (simp add: demo_session_keys_ok demo_preview_issuable [unfolded demo_credential_inputs_def] demo_server_inputs_def demo_token_request_def demo_token_inputs_def
        demo_credential_inputs_def demo_application_state_simps)
qed

lemma demo_issuance_crates:
  "vc_mdoc demo_vc_env = ie_mdoc (sv_issuer demo_server_env)" "vc_jose demo_vc_env = ie_jose (sv_issuer demo_server_env)"
  "jose_ok (vc_crypto demo_vc_env) (vc_jose demo_vc_env)" "mso_roundtrips (vc_mdoc demo_vc_env)"
  "issuer_store_faithful (sv_issuer demo_server_env)" "issuer_valid (sv_issuer demo_server_env) (Memory Map.empty)"
  "issuer_view (sv_issuer demo_server_env) (Memory Map.empty) (TokenRequest_code demo_token_request) = None"
  using demo_issuer_store demo_mso_roundtrips demo_jose_ok [of demo_crypto]
  by (simp_all add: demo_vc_env_def demo_server_env_def del: variant_view.simps variant_valid.simps)

lemmas demo_issuance_ok = demo_issuance_wire_ok demo_issuer_started demo_issuance_crates demo_issuance_can_complete

theorem issuance_completes_witness:
  "\<exists>st s1 copies s2.
    start_issuance (issuance_connected demo_server_env demo_application_state demo_server_inputs demo_vc_env) demo_wallet_inputs demo_issuer_url
      demo_token_request [[9]] (0, Memory Map.empty) = (Ok (st, [demo_preview]), (3, s1)) \<and>
    accept_issuance (issuance_connected demo_server_env demo_application_state demo_server_inputs demo_vc_env) demo_wallet_inputs st [[9]]
      demo_key_factory demo_issuer_url (3, s1) = (Ok copies, (5, s2)) \<and>
    map length copies = [2]"
proof -
  have count: "map copy_count [demo_preview] = [2]" by (simp add: copy_count_def demo_preview_def demo_unsigned_def)
  show ?thesis using issuance_completes [OF demo_issuance_ok] unfolding count demo_application_state_simps by (auto simp: numeral_eq_Suc)
qed

theorem accepted_mdocs_are_announced_witness:
  "\<exists>st s1 copies w. accept_issuance (issuance_connected demo_server_env demo_application_state demo_server_inputs demo_vc_env)
      demo_wallet_inputs st [[9]] demo_key_factory demo_issuer_url (3, s1) = (Ok copies, w) \<and>
    list_all2 (\<lambda>preview ms. length ms = copy_count preview \<and> (\<forall>m\<in>set ms. mdoc_announced
        (issuance_connected demo_server_env demo_application_state demo_server_inputs demo_vc_env) demo_wallet_inputs [[9]] preview m))
      (st_attestation_previews st) copies \<and>
    copies \<noteq> []"
proof (rule issuance_runs [OF demo_issuance_ok])
  fix st s1 copies s2
  assume a: "accept_issuance (issuance_connected demo_server_env demo_application_state demo_server_inputs demo_vc_env) demo_wallet_inputs st [[9]]
      demo_key_factory (issuer_url demo_application_state) (0 + 3, s1) = (Ok copies, (0 + 5, s2))"
    and n: "map length copies = map copy_count [demo_preview]"
  have "copies \<noteq> []" using n by auto
  with accepted_mdocs_are_announced [OF a] a show ?thesis
    unfolding demo_application_state_simps add_0 by (intro exI [of _ st] exI [of _ s1] exI [of _ copies] exI [of _ "(5, s2)"]) blast
qed

end
