(* ===== verification/PinKeys.thy ===== *)
theory PinKeys
  imports Messages
begin

text \<open>
  The PIN of a wallet, \<open>wallet/src/pin\<close>: which PINs are accepted (\<open>validation.rs\<close>) and how a PIN and a salt
  become a private key (\<open>key.rs\<close>).
\<close>

section \<open>Validation of a PIN\<close>

datatype pin_validation_error =
    NonDigits
  | PinInvalidLength
  | TooFewUniqueDigits
  | AscendingDigits
  | DescendingDigits

definition EXACT_LENGTH :: nat where
  "EXACT_LENGTH = 6"

definition MIN_UNIQUE_DIGITS :: nat where
  "MIN_UNIQUE_DIGITS = 2"

definition RADIX :: nat where
  "RADIX = 10"

definition pin_length_should_be_correct :: "string \<Rightarrow> (unit, pin_validation_error) res" where
  "pin_length_should_be_correct pin = (if length pin \<noteq> EXACT_LENGTH then Err PinInvalidLength else Ok ())"

text \<open>
  Text is a list of bytes; a character that takes several bytes is no digit, nor is any of its bytes.
\<close>

definition to_digit :: "char \<Rightarrow> u8 option" where
  "to_digit c = (let n = of_char c :: nat in if 48 \<le> n \<and> n < 48 + RADIX then Some (of_nat (n - 48)) else None)"

definition parse_pin_to_digits :: "string \<Rightarrow> (u8 list, pin_validation_error) res" where
  "parse_pin_to_digits pin =
     (let digit_options = map to_digit pin in
      if list_ex (\<lambda>c. c = None) digit_options then Err NonDigits
      else res_map unwrap digit_options)"

text \<open>Counting how often each digit occurs, in an array of bytes; an index beyond the array panics.\<close>

fun count_digits :: "u8 list \<Rightarrow> u8 list \<Rightarrow> (u8 list, 'e) res" where
  "count_digits [] count = Ok count"
| "count_digits (d # digits) count =
     (if unat d < length count then count_digits digits (count[unat d := count ! unat d + 1]) else Panic)"

definition pin_should_contain_enough_unique_digits :: "u8 list \<Rightarrow> (unit, pin_validation_error) res" where
  "pin_should_contain_enough_unique_digits digits =
     res_bind (count_digits digits (replicate RADIX 0)) (\<lambda>count.
     let unique_digits = length (filter (\<lambda>d. d > 0) count) in
     if unique_digits < MIN_UNIQUE_DIGITS then Err TooFewUniqueDigits else Ok ())"

text \<open>The loop over the other digits, with the digit before them; numbers are signed bytes.\<close>

fun scan_digits :: "8 word \<Rightarrow> bool \<Rightarrow> bool \<Rightarrow> u8 list \<Rightarrow> bool \<times> bool" where
  "scan_digits prev ascending descending [] = (ascending, descending)"
| "scan_digits prev ascending descending (d # digits) =
     scan_digits d (if d \<noteq> prev + 1 then False else ascending) (if d \<noteq> prev - 1 then False else descending) digits"

definition pin_should_not_be_ascending_or_descending :: "u8 list \<Rightarrow> (unit, pin_validation_error) res" where
  "pin_should_not_be_ascending_or_descending digits =
     (case digits of
       [] \<Rightarrow> Panic
     | prev # rest \<Rightarrow>
         (case scan_digits prev True True rest of (ascending, descending) \<Rightarrow>
          if ascending then Err AscendingDigits
          else if descending then Err DescendingDigits
          else Ok ()))"

definition validate_pin :: "string \<Rightarrow> (unit, pin_validation_error) res" where
  "validate_pin pin =
     res_bind (pin_length_should_be_correct pin) (\<lambda>_.
     res_bind (parse_pin_to_digits pin) (\<lambda>digits.
     res_bind (pin_should_contain_enough_unique_digits digits) (\<lambda>_.
     pin_should_not_be_ascending_or_descending digits)))"

section \<open>Keys from a PIN\<close>

text \<open>
  The numbers of crypto-bigint are lists of words of 64 bits, the lowest first: four of them for \<open>U256\<close>,
  six for \<open>U384\<close>. Arithmetic, the order of the curve P-256, HKDF and the making of a signing key from a scalar are those of the
  crates.
\<close>

type_synonym limbs = "u64 list"

record pin_crypto =
  U384_from_be_slice :: "bytes \<Rightarrow> limbs"
  U384_rem :: "limbs \<Rightarrow> limbs \<Rightarrow> limbs"
  U384_add_mod :: "limbs \<Rightarrow> limbs \<Rightarrow> limbs \<Rightarrow> limbs"
  U384_sub_mod :: "limbs \<Rightarrow> limbs \<Rightarrow> limbs \<Rightarrow> limbs"
  NistP256_ORDER :: limbs
  pin_hkdf :: "bytes \<Rightarrow> bytes \<Rightarrow> string \<Rightarrow> nat \<Rightarrow> bytes option"
  scalar_verifying_key :: "limbs \<Rightarrow> verifying_key"
  scalar_sign :: "limbs \<Rightarrow> bytes \<Rightarrow> signature"

definition U384_ONE :: limbs where
  "U384_ONE = [1, 0, 0, 0, 0, 0]"

definition u256_to_u384 :: "limbs \<Rightarrow> limbs" where
  "u256_to_u384 x = x @ replicate ((384 - 256) div 64) 0"

definition u384_to_u256 :: "limbs \<Rightarrow> limbs" where
  "u384_to_u256 x = take (256 div 64) x"

definition bytes_to_ecdsa_scalar :: "pin_crypto \<Rightarrow> bytes \<Rightarrow> (limbs, 'e) res" where
  "bytes_to_ecdsa_scalar c bts =
     (if \<not> 256 div 8 + 8 \<le> length bts then Panic
      else if 384 div 8 < length bts then Panic
      else
        (let bts = replicate (384 div 8 - length bts) 0 @ bts;
             q = u256_to_u384 (NistP256_ORDER c);
             i = U384_add_mod c (U384_rem c (U384_from_be_slice c bts) (U384_sub_mod c q U384_ONE q)) U384_ONE q
         in Ok (u384_to_u256 i)))"

datatype pin_key_error = Hkdf

definition pin_private_key :: "pin_crypto \<Rightarrow> bytes \<Rightarrow> string \<Rightarrow> (limbs, pin_key_error) res" where
  "pin_private_key c salt pin =
     res_bind (ok_or (pin_hkdf c salt [] pin (256 div 8 + 8)) Hkdf) (\<lambda>hkdf. bytes_to_ecdsa_scalar c hkdf)"

record pin_key =
  pk_pin :: string
  pk_salt :: bytes

definition PinKey_verifying_key :: "pin_crypto \<Rightarrow> pin_key \<Rightarrow> (verifying_key, pin_key_error) res" where
  "PinKey_verifying_key c self =
     res_bind (pin_private_key c (pk_salt self) (pk_pin self)) (\<lambda>signing_key. Ok (scalar_verifying_key c signing_key))"

definition PinKey_try_sign :: "pin_crypto \<Rightarrow> pin_key \<Rightarrow> bytes \<Rightarrow> (signature, pin_key_error) res" where
  "PinKey_try_sign c self msg =
     res_bind (pin_private_key c (pk_salt self) (pk_pin self)) (\<lambda>key. Ok (scalar_sign c key msg))"

section \<open>Facts about validation\<close>

definition digits_of :: "string \<Rightarrow> nat list" where
  "digits_of pin = map (\<lambda>c. of_char c - 48) pin"

definition is_digit :: "char \<Rightarrow> bool" where
  "is_digit c \<longleftrightarrow> 48 \<le> (of_char c :: nat) \<and> (of_char c :: nat) \<le> 57"

lemma to_digit_is_digit: "to_digit c = (if is_digit c then Some (of_nat (of_char c - 48)) else None)"
  by (auto simp: to_digit_def is_digit_def RADIX_def Let_def)

lemma parse_pin_to_digits_eq:
  "parse_pin_to_digits pin = (if list_all is_digit pin then Ok (map of_nat (digits_of pin)) else Err NonDigits)"
proof -
  have "res_map unwrap (map to_digit cs) = (Ok (map of_nat (digits_of cs)) :: (_, pin_validation_error) res)" if "list_all is_digit cs" for cs
    using that by (induction cs) (auto simp: to_digit_is_digit digits_of_def)
  moreover have "list_ex (\<lambda>c. c = None) (map to_digit cs) \<longleftrightarrow> \<not> list_all is_digit cs" for cs
    by (induction cs) (auto simp: to_digit_is_digit)
  ultimately show ?thesis by (simp add: parse_pin_to_digits_def Let_def)
qed

lemma digits_of_bound: "list_all is_digit pin \<Longrightarrow> d \<in> set (digits_of pin) \<Longrightarrow> d < 10"
  by (auto simp: digits_of_def is_digit_def list_all_iff)

lemma count_digits_Ok:
  assumes "\<And>d. d \<in> set ds \<Longrightarrow> d < length count" "length count \<le> 256" "\<And>i. i < length count \<Longrightarrow> unat (count ! i) + length ds < 256"
  shows "\<exists>count'. count_digits (map of_nat ds) count = (Ok count' :: (_, 'e) res) \<and> length count' = length count \<and>
    (\<forall>i < length count. count' ! i > 0 \<longleftrightarrow> count ! i > 0 \<or> i \<in> set ds)"
  using assms
proof (induction ds arbitrary: count)
  case (Cons d ds)
  have d: "unat (of_nat d :: u8) = d" "d < length count" using Cons.prems(1) [of d] Cons.prems(2) by (auto simp: unat_of_nat)
  let ?c = "count[d := count ! d + 1]"
  have plus: "unat (count ! d + 1) = unat (count ! d) + 1" using Cons.prems(3) [OF d(2)] by (simp add: unat_word_ariths)
  have "\<exists>count'. count_digits (map of_nat ds) ?c = (Ok count' :: (_, 'e) res) \<and> length count' = length ?c \<and>
      (\<forall>i < length ?c. count' ! i > 0 \<longleftrightarrow> ?c ! i > 0 \<or> i \<in> set ds)"
  proof (rule Cons.IH)
    fix i assume "i < length ?c"
    then show "unat (?c ! i) + length ds < 256" using Cons.prems(3) [of i] plus by (cases "i = d") auto
  qed (use Cons.prems in auto)
  moreover have "?c ! i > 0 \<longleftrightarrow> count ! i > 0 \<or> i = d" if "i < length count" for i
    using that plus by (cases "i = d") (auto simp: word_less_nat_alt)
  ultimately show ?case using d by auto
qed auto

lemma enough_unique_digits_eq:
  assumes "\<And>d. d \<in> set ds \<Longrightarrow> d < 10" "length ds < 256"
  shows "pin_should_contain_enough_unique_digits (map of_nat ds) = (if card (set ds) < 2 then Err TooFewUniqueDigits else Ok ())"
proof -
  obtain count where c: "count_digits (map of_nat ds) (replicate 10 0) = (Ok count :: (_, pin_validation_error) res)" "length count = 10"
    "\<And>i. i < 10 \<Longrightarrow> count ! i > 0 \<longleftrightarrow> i \<in> set ds"
    using count_digits_Ok [of ds "replicate 10 0", where 'e = pin_validation_error] assms by auto
  have "length (filter (\<lambda>d. d > 0) count) = card {i. i < length count \<and> count ! i > 0}"
    by (rule length_filter_conv_card)
  also have "{i. i < length count \<and> count ! i > 0} = set ds" using c assms(1) by auto
  finally show ?thesis using c(1) by (simp add: pin_should_contain_enough_unique_digits_def RADIX_def MIN_UNIQUE_DIGITS_def)
qed

lemma of_nat_u8_inj: "a < 256 \<Longrightarrow> b < 256 \<Longrightarrow> (of_nat a :: u8) = of_nat b \<longleftrightarrow> a = b"
  by (simp add: word_of_nat_eq_iff take_bit_eq_mod)

text \<open>Each digit is one more, or one less, than the one before it.\<close>

fun ascending_by_one :: "nat list \<Rightarrow> bool" where
  "ascending_by_one (a # b # ds) = (b = a + 1 \<and> ascending_by_one (b # ds))"
| "ascending_by_one _ = True"

fun descending_by_one :: "nat list \<Rightarrow> bool" where
  "descending_by_one (a # b # ds) = (a = b + 1 \<and> descending_by_one (b # ds))"
| "descending_by_one _ = True"

lemma scan_digits_eq:
  assumes "\<And>d. d \<in> set (p # ds) \<Longrightarrow> d < 10"
  shows "scan_digits (of_nat p) a b (map of_nat ds) = (a \<and> ascending_by_one (p # ds), b \<and> descending_by_one (p # ds))"
  using assms
proof (induction ds arbitrary: p a b)
  case (Cons d ds)
  have "p < 10" "d < 10" using Cons.prems by auto
  then have up: "(of_nat d :: u8) = of_nat p + 1 \<longleftrightarrow> d = p + 1" using of_nat_u8_inj [of d "p + 1"] by (simp add: add.commute)
  have "(of_nat d :: u8) = of_nat p - 1 \<longleftrightarrow> of_nat d + 1 = (of_nat p :: u8)" by (rule eq_diff_eq)
  also have "\<dots> \<longleftrightarrow> p = d + 1" using of_nat_u8_inj [of "d + 1" p] \<open>p < 10\<close> \<open>d < 10\<close> by (auto simp: add.commute)
  finally have down: "(of_nat d :: u8) = of_nat p - 1 \<longleftrightarrow> p = d + 1" .
  show ?case using Cons.IH [of d] Cons.prems by (simp add: up down)
qed simp

text \<open>
  C39: Exactly the PINs of six digits with at least two different ones that do not run up or down are accepted, each
  other one is refused with the error for what is wrong with it, and validation never panics.
\<close>

theorem validate_pin_spec:
  "validate_pin pin =
     (if length pin \<noteq> 6 then Err PinInvalidLength
      else if \<not> list_all is_digit pin then Err NonDigits
      else if card (set pin) < 2 then Err TooFewUniqueDigits
      else if ascending_by_one (digits_of pin) then Err AscendingDigits
      else if descending_by_one (digits_of pin) then Err DescendingDigits
      else Ok ())"
proof (cases "length pin = 6 \<and> list_all is_digit pin")
  case True
  then have b: "\<And>d. d \<in> set (digits_of pin) \<Longrightarrow> d < 10" using digits_of_bound by blast
  have l: "length (digits_of pin) = 6" using True by (simp add: digits_of_def)
  then obtain p ds where ds: "digits_of pin = p # ds" by (cases "digits_of pin") auto
  have "inj_on (\<lambda>c. of_char c - 48 :: nat) (set pin)"
  proof (rule inj_onI)
    fix c e assume "c \<in> set pin" "e \<in> set pin" "of_char c - 48 = (of_char e - 48 :: nat)"
    moreover from this True have "48 \<le> (of_char c :: nat)" "48 \<le> (of_char e :: nat)" by (auto simp: list_all_iff is_digit_def)
    ultimately have "(of_char c :: nat) = of_char e" by linarith
    then show "c = e" by simp
  qed
  then have card: "card (set (digits_of pin)) = card (set pin)" by (simp add: digits_of_def card_image)
  have s: "scan_digits (of_nat p) True True (map of_nat ds) = (ascending_by_one (digits_of pin), descending_by_one (digits_of pin))"
    unfolding ds using scan_digits_eq [of p ds True True] b ds by simp
  have u: "pin_should_contain_enough_unique_digits (map of_nat (digits_of pin)) = (if card (set pin) < 2 then Err TooFewUniqueDigits else Ok ())"
    unfolding card [symmetric] by (rule enough_unique_digits_eq) (use b l in auto)
  have "pin_should_not_be_ascending_or_descending (map of_nat (digits_of pin)) =
      (if ascending_by_one (digits_of pin) then Err AscendingDigits else if descending_by_one (digits_of pin) then Err DescendingDigits else Ok ())"
    using s by (simp add: pin_should_not_be_ascending_or_descending_def ds)
  with True u show ?thesis
    by (simp add: validate_pin_def pin_length_should_be_correct_def EXACT_LENGTH_def parse_pin_to_digits_eq)
next
  case False
  then show ?thesis
    by (auto simp: validate_pin_def pin_length_should_be_correct_def EXACT_LENGTH_def parse_pin_to_digits_eq)
qed

section \<open>Facts about scalars\<close>

definition limbs_value :: "limbs \<Rightarrow> nat" where
  "limbs_value xs = foldr (\<lambda>x v. unat x + 2 ^ 64 * v) xs 0"

definition be_value :: "bytes \<Rightarrow> nat" where
  "be_value bs = foldl (\<lambda>v b. 256 * v + unat b) 0 bs"

lemma limbs_value_simps [simp]:
  "limbs_value [] = 0" "limbs_value (x # xs) = unat x + 2 ^ 64 * limbs_value xs"
  by (simp_all add: limbs_value_def)

lemma limbs_value_append: "limbs_value (xs @ ys) = limbs_value xs + 2 ^ (64 * length xs) * limbs_value ys"
  by (induction xs) (auto simp: algebra_simps power_add)

lemma limbs_value_bound: "limbs_value xs < 2 ^ (64 * length xs)"
proof (induction xs)
  case (Cons x xs)
  have "unat x + 2 ^ 64 * limbs_value xs < 2 ^ 64 + 2 ^ 64 * limbs_value xs" using unsigned_less [of x] by simp
  also have "\<dots> \<le> 2 ^ 64 * 2 ^ (64 * length xs)" using Cons by (metis Suc_leI mult_Suc_right mult_le_mono2)
  finally show ?case by (simp add: power_add)
qed simp

lemma limbs_value_take: "limbs_value (take n xs) = limbs_value xs mod 2 ^ (64 * min n (length xs))"
proof -
  have "limbs_value xs = limbs_value (take n xs) + 2 ^ (64 * length (take n xs)) * limbs_value (drop n xs)"
    by (metis append_take_drop_id limbs_value_append)
  then show ?thesis using limbs_value_bound [of "take n xs"] by (simp add: min.commute)
qed

lemma be_value_zeros: "be_value (replicate n 0 @ bs) = be_value bs"
  by (induction n) (simp_all add: be_value_def)

text \<open>
  What crypto-bigint promises: operations on numbers of six words compute what they say within the stated ranges, and the order
  of the curve is a number of four words.
\<close>

definition pin_crypto_ok :: "pin_crypto \<Rightarrow> bool" where
  "pin_crypto_ok c \<longleftrightarrow> length (NistP256_ORDER c) = 4 \<and> 2 < limbs_value (NistP256_ORDER c) \<and>
     (\<forall>bs. length bs = 48 \<longrightarrow> length (U384_from_be_slice c bs) = 6 \<and> limbs_value (U384_from_be_slice c bs) = be_value bs) \<and>
     (\<forall>a b. length a = 6 \<longrightarrow> length b = 6 \<longrightarrow> 0 < limbs_value b \<longrightarrow>
        length (U384_rem c a b) = 6 \<and> limbs_value (U384_rem c a b) = limbs_value a mod limbs_value b) \<and>
     (\<forall>a b p. length a = 6 \<longrightarrow> length b = 6 \<longrightarrow> length p = 6 \<longrightarrow> limbs_value a + limbs_value b < 2 * limbs_value p \<longrightarrow>
        length (U384_add_mod c a b p) = 6 \<and> limbs_value (U384_add_mod c a b p) = (limbs_value a + limbs_value b) mod limbs_value p) \<and>
     (\<forall>a b p. length a = 6 \<longrightarrow> length b = 6 \<longrightarrow> length p = 6 \<longrightarrow> limbs_value b \<le> limbs_value a \<longrightarrow>
        limbs_value a - limbs_value b < limbs_value p \<longrightarrow>
        length (U384_sub_mod c a b p) = 6 \<and> limbs_value (U384_sub_mod c a b p) = limbs_value a - limbs_value b)"

text \<open>
  C40: The key made from 40 to 48 bytes is one more than their number modulo the order less one, so never zero and always below the
  order.
\<close>

theorem pin_scalar_in_range:
  assumes c: "pin_crypto_ok c" and n: "40 \<le> length bts" "length bts \<le> 48"
  shows "\<exists>s. bytes_to_ecdsa_scalar c bts = (Ok s :: (limbs, unit) res) \<and>
    limbs_value s = 1 + be_value bts mod (limbs_value (NistP256_ORDER c) - 1) \<and>
    0 < limbs_value s \<and> limbs_value s < limbs_value (NistP256_ORDER c)"
proof -
  let ?bts = "replicate (48 - length bts) 0 @ bts" and ?q = "u256_to_u384 (NistP256_ORDER c)" and ?v = "limbs_value (NistP256_ORDER c)"
  note l = c [unfolded pin_crypto_ok_def]
  have q: "length ?q = 6" "limbs_value ?q = ?v" "2 < ?v" using l by (simp_all add: u256_to_u384_def limbs_value_append numeral_2_eq_2)
  have one: "length U384_ONE = 6" "limbs_value U384_ONE = 1" by (simp_all add: U384_ONE_def)
  have sub: "length (U384_sub_mod c ?q U384_ONE ?q) = 6" "limbs_value (U384_sub_mod c ?q U384_ONE ?q) = ?v - 1"
    using l q one by simp_all
  have bts: "length (U384_from_be_slice c ?bts) = 6" "limbs_value (U384_from_be_slice c ?bts) = be_value bts"
    using l n by (simp_all add: be_value_zeros)
  let ?r = "U384_rem c (U384_from_be_slice c ?bts) (U384_sub_mod c ?q U384_ONE ?q)"
  have r: "length ?r = 6" "limbs_value ?r = be_value bts mod (?v - 1)" using l bts sub q(3) by simp_all
  have lt: "be_value bts mod (?v - 1) < ?v - 1" using q(3) by simp
  let ?i = "U384_add_mod c ?r U384_ONE ?q"
  have "limbs_value ?r + limbs_value U384_ONE < 2 * limbs_value ?q" using r(2) one(2) q(2,3) lt by linarith
  then have i: "length ?i = 6" "limbs_value ?i = (be_value bts mod (?v - 1) + 1) mod ?v" using l r one q by auto
  have "(be_value bts mod (?v - 1) + 1) mod ?v = be_value bts mod (?v - 1) + 1" using lt by (intro mod_less) linarith
  then have i': "limbs_value ?i = 1 + be_value bts mod (?v - 1)" using i(2) by simp
  have "?v < 2 ^ 256" using limbs_value_bound [of "NistP256_ORDER c"] l by simp
  then have "limbs_value ?i < 2 ^ 256" using i' lt by linarith
  then have s: "limbs_value (u384_to_u256 ?i) = limbs_value ?i" using i(1) by (simp add: u384_to_u256_def limbs_value_take)
  have "bytes_to_ecdsa_scalar c bts = (Ok (u384_to_u256 ?i) :: (limbs, unit) res)"
    using n by (simp add: bytes_to_ecdsa_scalar_def Let_def)
  moreover have "1 + be_value bts mod (?v - 1) < ?v" using lt by linarith
  ultimately show ?thesis using s i' by auto
qed

text \<open>Arithmetic for examples, over an order of 11.\<close>

primrec limbs_of :: "nat \<Rightarrow> nat \<Rightarrow> limbs" where
  "limbs_of 0 n = []"
| "limbs_of (Suc k) n = of_nat n # limbs_of k (n div 2 ^ 64)"

lemma limbs_of_value: "limbs_value (limbs_of k n) = n mod 2 ^ (64 * k)"
proof (induction k arbitrary: n)
  case (Suc k)
  have "(2 :: nat) ^ (64 * Suc k) = 2 ^ 64 * 2 ^ (64 * k)" by (simp add: power_add)
  then show ?case using Suc [of "n div 2 ^ 64"] by (simp only: limbs_of.simps limbs_value_simps mod_mult2_eq) (simp add: unat_of_nat)
qed simp

lemma limbs_of_length [simp]: "length (limbs_of k n) = k"
  by (induction k arbitrary: n) auto

lemma be_value_bound: "be_value bs < 256 ^ length bs"
proof (induction bs rule: rev_induct)
  case (snoc b bs)
  have "256 * be_value bs + unat b < 256 * be_value bs + 256" using unsigned_less [of b] by simp
  also have "\<dots> \<le> 256 * 256 ^ length bs" using snoc by (metis Suc_leI add.commute mult_Suc_right mult_le_mono2)
  finally show ?case by (simp add: be_value_def)
qed (simp add: be_value_def)

definition demo_pin_crypto :: pin_crypto where
  "demo_pin_crypto = \<lparr>U384_from_be_slice = (\<lambda>bs. limbs_of 6 (be_value bs)), U384_rem = (\<lambda>a b. limbs_of 6 (limbs_value a mod limbs_value b)),
     U384_add_mod = (\<lambda>a b p. limbs_of 6 ((limbs_value a + limbs_value b) mod limbs_value p)),
     U384_sub_mod = (\<lambda>a b p. limbs_of 6 (limbs_value a - limbs_value b)), NistP256_ORDER = [11, 0, 0, 0],
     pin_hkdf = (\<lambda>_ _ _ n. Some (replicate n 7)), scalar_verifying_key = (\<lambda>_. []), scalar_sign = (\<lambda>_ _. [])\<rparr>"

lemma demo_pin_crypto_ok: "pin_crypto_ok demo_pin_crypto"
proof -
  have lt: "limbs_value a < 2 ^ 384" if "length a = 6" for a using limbs_value_bound [of a] that by simp
  have "be_value bs mod 2 ^ 384 = be_value bs" if "length bs = 48" for bs
  proof -
    have "(256 :: nat) ^ 48 = 2 ^ 384" by (simp flip: power_mult add: power_mult [of 2 8 48, simplified])
    then show ?thesis using be_value_bound [of bs] that by simp
  qed
  moreover have "limbs_value a mod limbs_value b mod 2 ^ 384 = limbs_value a mod limbs_value b" if "length a = 6" for a b
    using lt [OF that] by (metis mod_le_divisor mod_less mod_less_eq_dividend le_less_trans)
  moreover have "(limbs_value a + limbs_value b) mod limbs_value p mod 2 ^ 384 = (limbs_value a + limbs_value b) mod limbs_value p"
    if "length p = 6" "limbs_value a + limbs_value b < 2 * limbs_value p" for a b p
    using lt [OF that(1)] that(2) by (intro mod_less) (metis gr_zeroI less_trans mod_less_divisor mult_0_right not_less_zero)
  moreover have "(limbs_value a - limbs_value b) mod 2 ^ 384 = limbs_value a - limbs_value b" if "length a = 6" for a b
    using lt [OF that] by simp
  ultimately show ?thesis by (simp add: pin_crypto_ok_def demo_pin_crypto_def limbs_of_value)
qed

theorem pin_scalar_in_range_witness:
  "\<exists>s. bytes_to_ecdsa_scalar demo_pin_crypto (replicate 40 7) = (Ok s :: (limbs, unit) res) \<and> 0 < limbs_value s \<and> limbs_value s < 11"
proof -
  have "limbs_value (NistP256_ORDER demo_pin_crypto) = 11" by (simp add: demo_pin_crypto_def)
  then show ?thesis using pin_scalar_in_range [OF demo_pin_crypto_ok, of "replicate 40 7"] by auto
qed

end
