(* ===== verification/Spec2Isabelle.thy ===== *)
theory Spec2Isabelle
  imports AccountFlows VpExample IssuanceFlow PinKeys
begin

text \<open>
  A verification library for the NL Wallet (\<open>src/wallet_core\<close>, Rust).

  \<^bold>\<open>The program.\<close> A wallet on a phone keeps attestations (mdocs of ISO 18013-5) whose private keys are in a hardware
  security module of the wallet provider. Four parts work together. The wallet provider keeps an account per wallet: it registers
  wallets, checks every instruction against the PIN of the user and a hardware key of the phone, and signs for the wallet. The
  issuer hands out attestations over OpenID4VCI: a token request opens a session, a batch credential request with proofs
  of possession ends it. The verifier of a relying party asks for attributes, over OpenID4VP or over an encrypted session of
  ISO 18013-5, and the wallet answers with the attributes its user approves. Issuer and verifier keep their sessions in a session store, in memory or in PostgreSQL.

  \<^bold>\<open>Conventions.\<close> A Rust function that returns \<open>Result\<close> and may panic is a function into \<open>res\<close> (theory \<open>Prelude\<close>) with
  constructors \<open>Ok\<close>, \<open>Err\<close> and \<open>Panic\<close>; \<open>res_bind\<close> is the question mark, \<open>unwrap\<close> panics. Functions that change
  state take it and return it, and \<open>attempt\<close> is the question mark among them, so every early return says what the state then is.
  Counters and sequence numbers keep their width as words. Crates that are not part of the repository (cryptography, CBOR,
  JSON, JWT, X.509, URLs, HTTP, the PKCS#11 token, the database) are records of functions that are
  arguments of the definitions; what a theorem needs of them is a named predicate such as \<open>session_crypto_ok\<close>,
  \<open>jose_ok\<close> or \<open>mso_roundtrips\<close>, and each such theorem has a witness that instantiates them. The clock and random
  numbers are arguments, indexed by the number of the draw where a function reads them more than once.

  \<^bold>\<open>Wallet provider.\<close> \<open>PinPolicy\<close> is \<open>wallet_provider/service/src/pin_policy.rs\<close>, with the specification of the policy as
  a locale that the code's evaluator interprets and a refinement of the arithmetic on bytes by arithmetic on
  natural numbers. \<open>Messages\<close> is \<open>wallet_common/src/account\<close> and \<open>wallet_common/src/jwt.rs\<close>: messages signed twice
  and their verification, with the round trip. \<open>WalletUsers\<close> is the database (\<open>wallet_provider/persistence\<close>, \<open>wallet_provider/domain\<close>); a locale
  states the contract of the repository as equations over accounts and is interpreted on the statements over the tables. \<open>HsmClient\<close> is
  \<open>wallet_provider/service/src/hsm.rs\<close> with a locale for the protection of PIN keys. \<open>AccountServer\<close> is
  \<open>account_server.rs\<close> and \<open>instructions.rs\<close> of \<open>wallet_provider/service/src\<close>, one definition per handler and per atomic part of it, and the replies of
  \<open>wallet_provider/src/errors.rs\<close>. \<open>AccountProtocol\<close> has the step relation of requests: the refinement of every request by
  an effect on the accounts, the invariant of the PIN policy along all sequences of requests, that an instruction is
  executed only when authorised and not replayed, that a blocked account stays as it is, and what overlapping
  requests can do. \<open>AccountFlows\<close> has whole conversations: a wallet that registers is recognised and answered.

  \<^bold>\<open>Session stores.\<close> \<open>SessionStore\<close> is \<open>mdoc/src/server_state.rs\<close> and \<open>wallet_server/src/store\<close>: a locale states what
  reading and writing promise, interpreted on the store in memory, the table in PostgreSQL and the configured one of the two. Clean-up of
  the table refines clean-up in memory while the status column is in step with the data, and a theorem shows where it is not.

  \<^bold>\<open>Mdocs.\<close> \<open>Cose\<close> is \<open>cose.rs\<close>, \<open>crypto.rs\<close> and \<open>x509.rs\<close> of \<open>mdoc/src/utils\<close>. \<open>Mdoc\<close> is signing, verifying and
  holding an mdoc (\<open>mdoc/src/iso/mdocs.rs\<close>, \<open>issuer.rs\<close>, \<open>verifier.rs\<close>, \<open>holder/mdocs.rs\<close>): what an
  issuer signs is accepted, and what is accepted was signed. \<open>Disclosure\<close> and \<open>Presentation\<close> are requests, the match of a
  request with the mdocs of the wallet, the response and its verification (\<open>mdoc/src/iso\<close>,
  \<open>mdoc/src/holder/disclosure\<close>, \<open>mdoc/src/verifier.rs\<close>). \<open>Encodings\<close> has codecs for the witnesses only.

  \<^bold>\<open>Disclosure sessions.\<close> \<open>SessionKeys\<close> is the encryption of the session (\<open>mdoc/src/utils/crypto.rs\<close>), \<open>Verifier\<close> the
  verifier's state machine (\<open>mdoc/src/verifier.rs\<close>) with its step relation, \<open>HolderSession\<close> the session of the wallet
  (\<open>mdoc/src/holder/disclosure/session.rs\<close>), and \<open>DisclosureFlow\<close> joins them: the network of the wallet is the verifier. A session
  completes, what the relying party gets is traced to the messages of the session, and nothing but status codes is sent before the user approves.

  \<^bold>\<open>Issuance.\<close> \<open>Urls\<close> is the base URL of \<open>wallet_common/src/config/wallet_config.rs\<close>. \<open>IssuanceMessages\<close> has tokens, DPoP and
  proofs of possession (\<open>token.rs\<close>, \<open>dpop.rs\<close>, \<open>jwt.rs\<close>, \<open>credential.rs\<close> of \<open>openid4vc/src\<close>). \<open>Issuer\<close> is
  \<open>openid4vc/src/issuer.rs\<close> with its step relation: credentials go back to an authorised session, an access
  token is used once, sessions are well formed. \<open>IssuanceMetadata\<close> and \<open>IssuanceServer\<close> are \<open>openid4vc/src/metadata.rs\<close>, \<open>errors.rs\<close> and
  the endpoints of \<open>wallet_server/src/issuer.rs\<close>. \<open>IssuanceSession\<close> is \<open>openid4vc/src/issuance_session.rs\<close>: what the wallet accepts is
  what was announced, under its own keys, whatever the network answers. \<open>IssuanceFlow\<close> joins wallet and endpoints: the network of
  the wallet is the issuer, and a session from the discovery of the metadata to the accepted copies completes.

  \<^bold>\<open>PIN.\<close> \<open>PinKeys\<close> is \<open>validation.rs\<close> and \<open>key.rs\<close> of \<open>wallet/src/pin\<close>: which PINs are accepted, with the outcome for every
  string, and the private key made from a PIN and a salt, whose scalar is in the range of the curve.

  \<^bold>\<open>OpenID4VP.\<close> \<open>VpMessages\<close> is \<open>presentation_exchange.rs\<close>, \<open>openid4vp.rs\<close> and the certified tokens of \<open>jwt.rs\<close> in
  \<open>openid4vc/src\<close>; \<open>VpExchange\<close> shows which requests survive the conversion to a presentation definition, that a request of
  the verifier is accepted by the wallet and a response of the wallet by the verifier. \<open>VpVerifier\<close> is \<open>openid4vc/src/verifier.rs\<close> and
  \<open>VpRuns\<close> its step relation, in which the attributes a relying party gets are traced to the requests of the session. \<open>VpServer\<close> has the endpoints of
  \<open>wallet_server/src/verifier.rs\<close>. \<open>VpHolder\<close> is \<open>openid4vc/src/disclosure_session.rs\<close>: before the user approves, the verifier cannot
  tell what the wallet stores. \<open>VpFlow\<close> joins wallet and endpoints over HTTP, where a session completes; \<open>VpExample\<close> has the concrete
  codecs, keys and addresses for its witnesses.

  \<^bold>\<open>Bounds and fuel.\<close> No definition uses fuel: every loop of the modelled code runs over a list and is
  structural recursion or a combinator on lists. Where the code converts lengths to bytes or words, the
  definition does too, and theorems that need no wrap-around say so (\<open>unsigned_wf\<close> bounds a name space to fewer than
  \<open>2 ^ 64\<close> entries).

  \<^bold>\<open>Not modelled.\<close> The user interface (\<open>wallet_app\<close>, \<open>flutter_api\<close>) and the bridge to the platform (\<open>platform_support\<close>); the
  wallet application around the sessions and the PIN (the rest of \<open>wallet\<close>: its state, storage, documents, history, configuration and
  clients over HTTP), which would be the next part to model; the OpenID Connect client (\<open>openid4vc/src/oidc\<close>); the source of the PID attributes (\<open>wallet_server/src/pid\<close>,
  \<open>gba_hc_converter\<close>); reading of settings, start-up and logging of the servers; command line tools, demos, tests and generated code. Asynchronous
  execution is modelled where requests share a database: handlers are cut at their transactions.
\<close>

end
